(* ===== verification/Lease_Prelude.thy ===== *)
theory Lease_Prelude
  imports Main "HOL-Library.Word"
begin

text \<open>
  Shared vocabulary of the development: the outcome of a contract call (a value, a contract
  error, or a host trap), state-passing procedures over it, Rust's checked, saturating and
  truncating integer arithmetic, the ordered map of the Soroban SDK, the read-only call
  environment, and the locales that lift one-step invariants to whole runs.
\<close>

section \<open>Outcomes and procedures\<close>

text \<open>
  A Rust contract function of type \<^verbatim>\<open>Result<T, E>\<close> either returns \<open>Ok\<close>, returns \<open>Err\<close>, or
  panics. A panic (\<^verbatim>\<open>unwrap\<close> on nothing, \<^verbatim>\<open>panic!\<close>, an arithmetic overflow under
  \<^verbatim>\<open>overflow-checks = true\<close>, a failed authorisation, a trapping external call) is \<open>Trap\<close>. The
  state is carried through every outcome, so that the writes made before an early return are
  visible to a caller that goes on.
\<close>

datatype ('e, 'a) outcome = Ok 'a | Err 'e | Trap

type_synonym ('s, 'e, 'a) proc = "'s \<Rightarrow> ('e, 'a) outcome \<times> 's"

definition return :: "'a \<Rightarrow> ('s, 'e, 'a) proc" where
  "return a = (\<lambda>s. (Ok a, s))"

definition throw :: "'e \<Rightarrow> ('s, 'e, 'a) proc" where
  "throw e = (\<lambda>s. (Err e, s))"

definition trap :: "('s, 'e, 'a) proc" where
  "trap = (\<lambda>s. (Trap, s))"

definition bind :: "('s, 'e, 'a) proc \<Rightarrow> ('a \<Rightarrow> ('s, 'e, 'b) proc) \<Rightarrow> ('s, 'e, 'b) proc" where
  "bind m k = (\<lambda>s. case m s of
      (Ok a, s') \<Rightarrow> k a s'
    | (Err e, s') \<Rightarrow> (Err e, s')
    | (Trap, s') \<Rightarrow> (Trap, s'))"

definition gets :: "('s \<Rightarrow> 'a) \<Rightarrow> ('s, 'e, 'a) proc" where
  "gets f = (\<lambda>s. (Ok (f s), s))"

definition modify :: "('s \<Rightarrow> 's) \<Rightarrow> ('s, 'e, unit) proc" where
  "modify f = (\<lambda>s. (Ok (), f s))"

text \<open>\<open>throw_if c e\<close> is the early return \<^verbatim>\<open>if c { return Err(e) }\<close>; \<open>require c\<close> is the source's
  \<^verbatim>\<open>require!\<close> macro, which panics.\<close>

definition throw_if :: "bool \<Rightarrow> 'e \<Rightarrow> ('s, 'e, unit) proc" where
  "throw_if c e = (if c then throw e else return ())"

definition require :: "bool \<Rightarrow> ('s, 'e, unit) proc" where
  "require c = (if c then return () else trap)"

definition ok_or :: "'a option \<Rightarrow> 'e \<Rightarrow> ('s, 'e, 'a) proc" where
  "ok_or x e = (case x of None \<Rightarrow> throw e | Some a \<Rightarrow> return a)"

definition unwrap :: "'a option \<Rightarrow> ('s, 'e, 'a) proc" where
  "unwrap x = (case x of None \<Rightarrow> trap | Some a \<Rightarrow> return a)"

text \<open>\<open>attempt m\<close> binds the \<^verbatim>\<open>Result\<close> of a call without the \<^verbatim>\<open>?\<close> operator: an error becomes a
  value and its writes stay, a panic still aborts.\<close>

definition attempt :: "('s, 'e, 'a) proc \<Rightarrow> ('s, 'f, 'e + 'a) proc" where
  "attempt m = (\<lambda>s. case m s of
      (Ok a, s') \<Rightarrow> (Ok (Inr a), s')
    | (Err e, s') \<Rightarrow> (Ok (Inl e), s')
    | (Trap, s') \<Rightarrow> (Trap, s'))"

definition from_result :: "'e + 'a \<Rightarrow> ('s, 'e, 'a) proc" where
  "from_result r = (case r of Inl e \<Rightarrow> throw e | Inr a \<Rightarrow> return a)"

definition map_err :: "('e \<Rightarrow> 'f) \<Rightarrow> ('s, 'e, 'a) proc \<Rightarrow> ('s, 'f, 'a) proc" where
  "map_err f m = (\<lambda>s. case m s of
      (Ok a, s') \<Rightarrow> (Ok a, s')
    | (Err e, s') \<Rightarrow> (Err (f e), s')
    | (Trap, s') \<Rightarrow> (Trap, s'))"

text \<open>
  The Soroban host commits the storage writes of an invocation only when the contract function
  returns \<open>Ok\<close>: an \<open>Err\<close> value or a panic rolls the whole frame back.
\<close>

definition invoke :: "('s, 'e, 'a) proc \<Rightarrow> ('s, 'e, 'a) proc" where
  "invoke m = (\<lambda>s. case m s of (Ok a, s') \<Rightarrow> (Ok a, s') | (r, _) \<Rightarrow> (r, s))"

named_theorems proc_ok \<open>when a procedure returns \<open>Ok\<close>\<close>
named_theorems proc_run \<open>evaluation of a procedure at a state\<close>

lemma return_run [proc_run, simp]: "return a s = (Ok a, s)"
  by (simp add: return_def)

lemma throw_run [proc_run, simp]: "throw e s = (Err e, s)"
  by (simp add: throw_def)

lemma trap_run [proc_run, simp]: "trap s = (Trap, s)"
  by (simp add: trap_def)

lemma gets_run [proc_run, simp]: "gets f s = (Ok (f s), s)"
  by (simp add: gets_def)

lemma modify_run [proc_run, simp]: "modify f s = (Ok (), f s)"
  by (simp add: modify_def)

lemma bind_run [proc_run]:
  "bind m k s = (case m s of
      (Ok a, s') \<Rightarrow> k a s' | (Err e, s') \<Rightarrow> (Err e, s') | (Trap, s') \<Rightarrow> (Trap, s'))"
  by (simp add: bind_def)

lemma bind_Ok_iff [proc_ok]:
  "bind m k s = (Ok b, s'') \<longleftrightarrow> (\<exists>a s'. m s = (Ok a, s') \<and> k a s' = (Ok b, s''))"
  by (auto simp: bind_run split: prod.splits outcome.splits)

lemma bind_Err_iff:
  "bind m k s = (Err e, s'') \<longleftrightarrow>
     m s = (Err e, s'') \<or> (\<exists>a s'. m s = (Ok a, s') \<and> k a s' = (Err e, s''))"
  by (auto simp: bind_run split: prod.splits outcome.splits)

lemma bind_Trap_iff:
  "bind m k s = (Trap, s'') \<longleftrightarrow>
     m s = (Trap, s'') \<or> (\<exists>a s'. m s = (Ok a, s') \<and> k a s' = (Trap, s''))"
  by (auto simp: bind_run split: prod.splits outcome.splits)

lemma return_Ok_iff [proc_ok]: "return a s = (Ok b, s') \<longleftrightarrow> b = a \<and> s' = s"
  by auto

lemma gets_Ok_iff [proc_ok]: "gets f s = (Ok a, s') \<longleftrightarrow> a = f s \<and> s' = s"
  by auto

lemma modify_Ok_iff [proc_ok]: "modify f s = (Ok a, s') \<longleftrightarrow> s' = f s"
  by auto

lemma throw_Ok_iff [proc_ok]: "throw e s = (Ok a, s') \<longleftrightarrow> False"
  by simp

lemma trap_Ok_iff [proc_ok]: "trap s = (Ok a, s') \<longleftrightarrow> False"
  by simp

lemma throw_if_run [proc_run]: "throw_if c e s = (if c then (Err e, s) else (Ok (), s))"
  by (simp add: throw_if_def)

lemma throw_if_Ok_iff [proc_ok]: "throw_if c e s = (Ok a, s') \<longleftrightarrow> \<not> c \<and> s' = s"
  by (auto simp: throw_if_run)

lemma require_run [proc_run]: "require c s = (if c then (Ok (), s) else (Trap, s))"
  by (simp add: require_def)

lemma require_Ok_iff [proc_ok]: "require c s = (Ok a, s') \<longleftrightarrow> c \<and> s' = s"
  by (auto simp: require_run)

lemma ok_or_run [proc_run]:
  "ok_or x e s = (case x of None \<Rightarrow> (Err e, s) | Some a \<Rightarrow> (Ok a, s))"
  by (simp add: ok_or_def split: option.splits)

lemma ok_or_Ok_iff [proc_ok]: "ok_or x e s = (Ok a, s') \<longleftrightarrow> x = Some a \<and> s' = s"
  by (auto simp: ok_or_run split: option.splits)

lemma unwrap_run [proc_run]:
  "unwrap x s = (case x of None \<Rightarrow> (Trap, s) | Some a \<Rightarrow> (Ok a, s))"
  by (simp add: unwrap_def split: option.splits)

lemma unwrap_Ok_iff [proc_ok]: "unwrap x s = (Ok a, s') \<longleftrightarrow> x = Some a \<and> s' = s"
  by (auto simp: unwrap_run split: option.splits)

lemma attempt_Ok_iff [proc_ok]:
  "attempt m s = (Ok r, s') \<longleftrightarrow>
     (\<exists>a. m s = (Ok a, s') \<and> r = Inr a) \<or> (\<exists>e. m s = (Err e, s') \<and> r = Inl e)"
  by (auto simp: attempt_def split: prod.splits outcome.splits)

lemma from_result_Ok_iff [proc_ok]: "from_result r s = (Ok a, s') \<longleftrightarrow> r = Inr a \<and> s' = s"
  by (auto simp: from_result_def split: sum.splits)

lemma map_err_Ok_iff [proc_ok]: "map_err f m s = (Ok a, s') \<longleftrightarrow> m s = (Ok a, s')"
  by (auto simp: map_err_def split: prod.splits outcome.splits)

lemma invoke_Ok_iff [proc_ok]: "invoke m s = (Ok a, s') \<longleftrightarrow> m s = (Ok a, s')"
  by (auto simp: invoke_def split: prod.splits outcome.splits)

lemma invoke_not_Ok: "fst (m s) = Err e \<or> fst (m s) = Trap \<Longrightarrow> snd (invoke m s) = s"
  by (auto simp: invoke_def split: prod.splits outcome.splits)

lemma invoke_cases:
  obtains (ok) a s' where "m s = (Ok a, s')" "invoke m s = (Ok a, s')"
  | (abort) r where "invoke m s = (r, s)" "\<And>a. r \<noteq> Ok a"
  by (cases "m s"; cases "fst (m s)") (auto simp: invoke_def)

section \<open>Invariants of procedures\<close>

text \<open>\<open>keeps P m\<close>: whatever its outcome, \<open>m\<close> leaves \<open>P\<close> true.\<close>

definition keeps :: "('s \<Rightarrow> bool) \<Rightarrow> ('s, 'e, 'a) proc \<Rightarrow> bool" where
  "keeps P m \<longleftrightarrow> (\<forall>s. P s \<longrightarrow> P (snd (m s)))"

named_theorems keeps_intros \<open>compositional rules for \<open>keeps\<close>\<close>

lemma keepsD: "keeps P m \<Longrightarrow> P s \<Longrightarrow> P (snd (m s))"
  by (simp add: keeps_def)

lemma keeps_bind [keeps_intros]: "keeps P m \<Longrightarrow> (\<And>a. keeps P (k a)) \<Longrightarrow> keeps P (bind m k)"
  by (fastforce simp: keeps_def bind_run split: prod.splits outcome.splits)

lemma keeps_return [keeps_intros]: "keeps P (return a)"
  by (simp add: keeps_def)

lemma keeps_throw [keeps_intros]: "keeps P (throw e)"
  by (simp add: keeps_def)

lemma keeps_trap [keeps_intros]: "keeps P trap"
  by (simp add: keeps_def)

lemma keeps_gets [keeps_intros]: "keeps P (gets f)"
  by (simp add: keeps_def)

lemma keeps_throw_if [keeps_intros]: "keeps P (throw_if c e)"
  by (simp add: keeps_def throw_if_run)

lemma keeps_require [keeps_intros]: "keeps P (require c)"
  by (simp add: keeps_def require_run)

lemma keeps_ok_or [keeps_intros]: "keeps P (ok_or x e)"
  by (simp add: keeps_def ok_or_run split: option.splits)

lemma keeps_unwrap [keeps_intros]: "keeps P (unwrap x)"
  by (simp add: keeps_def unwrap_run split: option.splits)

lemma keeps_modify: "(\<And>s. P s \<Longrightarrow> P (f s)) \<Longrightarrow> keeps P (modify f)"
  by (simp add: keeps_def)

lemma keeps_attempt [keeps_intros]: "keeps P m \<Longrightarrow> keeps P (attempt m)"
  by (fastforce simp: keeps_def attempt_def split: prod.splits outcome.splits)

lemma keeps_from_result [keeps_intros]: "keeps P (from_result r)"
  by (simp add: keeps_def from_result_def split: sum.splits)

lemma keeps_map_err [keeps_intros]: "keeps P m \<Longrightarrow> keeps P (map_err f m)"
  by (fastforce simp: keeps_def map_err_def split: prod.splits outcome.splits)

lemma keeps_invoke_Ok:
  assumes "\<And>s a s'. P s \<Longrightarrow> m s = (Ok a, s') \<Longrightarrow> P s'"
  shows "keeps P (invoke m)"
  unfolding keeps_def
proof (intro allI impI)
  fix s assume "P s"
  then show "P (snd (invoke m s))"
    using assms by (cases m s rule: invoke_cases) auto
qed

lemma keeps_if [keeps_intros]: "keeps P m \<Longrightarrow> keeps P n \<Longrightarrow> keeps P (if c then m else n)"
  by simp

text \<open>A procedure that keeps every predicate does not change the state.\<close>

lemma keeps_eq: "(\<And>P. keeps P m) \<Longrightarrow> m s = (r, s') \<Longrightarrow> s' = s"
  using keepsD [of "\<lambda>x. x = s" m s] by simp

text \<open>
  A deployed contract is a step function over its messages. The locale lifts an invariant that
  one message keeps to every sequence of messages; its extension adds the initial state.
\<close>

locale invariant_system =
  fixes inv :: "'s \<Rightarrow> bool"
    and step :: "'m \<Rightarrow> 's \<Rightarrow> 's"
  assumes step_inv: "inv s \<Longrightarrow> inv (step m s)"
begin

lemma run_inv: "inv s \<Longrightarrow> inv (fold step ms s)"
  by (induction ms arbitrary: s) (auto intro: step_inv)

end

locale contract_system = invariant_system inv step
  for inv :: "'s \<Rightarrow> bool" and step :: "'m \<Rightarrow> 's \<Rightarrow> 's" +
  fixes init :: "'s"
  assumes init_inv: "inv init"
begin

lemma reach_inv: "inv (fold step ms init)"
  by (rule run_inv) (rule init_inv)

end

text \<open>A relation between the states before and after one message (a monotone quantity, a write-once
  field) that is reflexive and transitive lifts to runs in the same way.\<close>

locale monotone_system =
  fixes le :: "'s \<Rightarrow> 's \<Rightarrow> bool"
    and step :: "'m \<Rightarrow> 's \<Rightarrow> 's"
  assumes le_refl: "le s s"
    and le_trans: "le s t \<Longrightarrow> le t u \<Longrightarrow> le s u"
    and step_le: "le s (step m s)"
begin

lemma run_le: "le s (fold step ms s)"
  by (induction ms arbitrary: s) (auto intro: le_refl le_trans step_le)

end

end
