(* ===== verification/Rust_Arith.thy ===== *)
theory Rust_Arith
  imports Lease_Prelude
begin

text \<open>
  Rust's machine integers, on mathematical integers with their range written out. The workspace is
  built with \<^verbatim>\<open>overflow-checks = true\<close> (root \<^verbatim>\<open>Cargo.toml\<close>), so plain \<open>+\<close>, \<open>-\<close> and \<open>*\<close> panic
  outside the range: \<open>chk_w (a + b)\<close> is \<open>a + b\<close> at width \<open>w\<close>. The checked operations return an
  option, the saturating ones clamp, and signed division truncates towards zero.
\<close>

section \<open>Ranges\<close>

definition u8_max :: int where "u8_max = 2 ^ 8 - 1"
definition u32_max :: int where "u32_max = 2 ^ 32 - 1"
definition u64_max :: int where "u64_max = 2 ^ 64 - 1"
definition u128_max :: int where "u128_max = 2 ^ 128 - 1"
definition i32_min :: int where "i32_min = - (2 ^ 31)"
definition i32_max :: int where "i32_max = 2 ^ 31 - 1"
definition i64_min :: int where "i64_min = - (2 ^ 63)"
definition i64_max :: int where "i64_max = 2 ^ 63 - 1"
definition i128_min :: int where "i128_min = - (2 ^ 127)"
definition i128_max :: int where "i128_max = 2 ^ 127 - 1"

lemmas int_bounds = u8_max_def u32_max_def u64_max_def u128_max_def
  i32_min_def i32_max_def i64_min_def i64_max_def i128_min_def i128_max_def

definition is_u32 :: "int \<Rightarrow> bool" where "is_u32 x \<longleftrightarrow> 0 \<le> x \<and> x \<le> u32_max"
definition is_u64 :: "int \<Rightarrow> bool" where "is_u64 x \<longleftrightarrow> 0 \<le> x \<and> x \<le> u64_max"
definition is_i32 :: "int \<Rightarrow> bool" where "is_i32 x \<longleftrightarrow> i32_min \<le> x \<and> x \<le> i32_max"
definition is_i64 :: "int \<Rightarrow> bool" where "is_i64 x \<longleftrightarrow> i64_min \<le> x \<and> x \<le> i64_max"
definition is_i128 :: "int \<Rightarrow> bool" where "is_i128 x \<longleftrightarrow> i128_min \<le> x \<and> x \<le> i128_max"
definition is_u128 :: "int \<Rightarrow> bool" where "is_u128 x \<longleftrightarrow> 0 \<le> x \<and> x \<le> u128_max"

lemmas range_defs = is_u32_def is_u64_def is_i32_def is_i64_def is_i128_def is_u128_def

section \<open>Panicking arithmetic\<close>

definition chk :: "bool \<Rightarrow> int \<Rightarrow> ('s, 'e, int) proc" where
  "chk c x = (if c then return x else trap)"

definition chk_u32 :: "int \<Rightarrow> ('s, 'e, int) proc" where "chk_u32 x = chk (is_u32 x) x"
definition chk_u64 :: "int \<Rightarrow> ('s, 'e, int) proc" where "chk_u64 x = chk (is_u64 x) x"
definition chk_i32 :: "int \<Rightarrow> ('s, 'e, int) proc" where "chk_i32 x = chk (is_i32 x) x"
definition chk_i64 :: "int \<Rightarrow> ('s, 'e, int) proc" where "chk_i64 x = chk (is_i64 x) x"
definition chk_i128 :: "int \<Rightarrow> ('s, 'e, int) proc" where "chk_i128 x = chk (is_i128 x) x"
definition chk_u128 :: "int \<Rightarrow> ('s, 'e, int) proc" where "chk_u128 x = chk (is_u128 x) x"

lemmas chk_defs = chk_u32_def chk_u64_def chk_i32_def chk_i64_def chk_i128_def chk_u128_def

lemma chk_run [proc_run]: "chk c x s = (if c then (Ok x, s) else (Trap, s))"
  by (simp add: chk_def)

lemma chk_Ok_iff [proc_ok]: "chk c x s = (Ok y, s') \<longleftrightarrow> c \<and> y = x \<and> s' = s"
  by (auto simp: chk_run)

lemma chk_w_Ok_iff [proc_ok]:
  "chk_u32 x s = (Ok y, s') \<longleftrightarrow> is_u32 x \<and> y = x \<and> s' = s"
  "chk_u64 x s = (Ok y, s') \<longleftrightarrow> is_u64 x \<and> y = x \<and> s' = s"
  "chk_i32 x s = (Ok y, s') \<longleftrightarrow> is_i32 x \<and> y = x \<and> s' = s"
  "chk_i64 x s = (Ok y, s') \<longleftrightarrow> is_i64 x \<and> y = x \<and> s' = s"
  "chk_i128 x s = (Ok y, s') \<longleftrightarrow> is_i128 x \<and> y = x \<and> s' = s"
  "chk_u128 x s = (Ok y, s') \<longleftrightarrow> is_u128 x \<and> y = x \<and> s' = s"
  by (auto simp: chk_defs chk_run)

lemma chk_w_run [proc_run]:
  "chk_u32 x s = (if is_u32 x then (Ok x, s) else (Trap, s))"
  "chk_u64 x s = (if is_u64 x then (Ok x, s) else (Trap, s))"
  "chk_i32 x s = (if is_i32 x then (Ok x, s) else (Trap, s))"
  "chk_i64 x s = (if is_i64 x then (Ok x, s) else (Trap, s))"
  "chk_i128 x s = (if is_i128 x then (Ok x, s) else (Trap, s))"
  "chk_u128 x s = (if is_u128 x then (Ok x, s) else (Trap, s))"
  by (auto simp: chk_defs chk_run)

lemma keeps_chk [keeps_intros]: "keeps P (chk c x)"
  by (simp add: keeps_def chk_run)

lemma keeps_chk_w [keeps_intros]:
  "keeps P (chk_u32 x)" "keeps P (chk_u64 x)" "keeps P (chk_i32 x)" "keeps P (chk_i64 x)"
  "keeps P (chk_i128 x)" "keeps P (chk_u128 x)"
  by (simp_all add: chk_defs keeps_chk)

section \<open>Saturating and checked arithmetic\<close>

definition clamp :: "int \<Rightarrow> int \<Rightarrow> int \<Rightarrow> int" where
  "clamp lo hi x = (if x < lo then lo else if hi < x then hi else x)"

definition sat_u64 :: "int \<Rightarrow> int" where "sat_u64 = clamp 0 u64_max"
definition sat_u32 :: "int \<Rightarrow> int" where "sat_u32 = clamp 0 u32_max"
definition sat_i64 :: "int \<Rightarrow> int" where "sat_i64 = clamp i64_min i64_max"
definition sat_i128 :: "int \<Rightarrow> int" where "sat_i128 = clamp i128_min i128_max"

lemmas sat_defs = sat_u64_def sat_u32_def sat_i64_def sat_i128_def clamp_def

definition checked_u64 :: "int \<Rightarrow> int option" where
  "checked_u64 x = (if is_u64 x then Some x else None)"

definition checked_i64 :: "int \<Rightarrow> int option" where
  "checked_i64 x = (if is_i64 x then Some x else None)"

definition checked_i128 :: "int \<Rightarrow> int option" where
  "checked_i128 x = (if is_i128 x then Some x else None)"

lemma checked_Some_iff [simp]:
  "checked_u64 x = Some y \<longleftrightarrow> is_u64 x \<and> y = x"
  "checked_i64 x = Some y \<longleftrightarrow> is_i64 x \<and> y = x"
  "checked_i128 x = Some y \<longleftrightarrow> is_i128 x \<and> y = x"
  by (auto simp: checked_u64_def checked_i64_def checked_i128_def)

lemma checked_None_iff [simp]:
  "checked_u64 x = None \<longleftrightarrow> \<not> is_u64 x"
  "checked_i64 x = None \<longleftrightarrow> \<not> is_i64 x"
  "checked_i128 x = None \<longleftrightarrow> \<not> is_i128 x"
  by (auto simp: checked_u64_def checked_i64_def checked_i128_def)

lemma sat_id:
  "is_u64 x \<Longrightarrow> sat_u64 x = x"
  "is_i64 x \<Longrightarrow> sat_i64 x = x"
  "is_i128 x \<Longrightarrow> sat_i128 x = x"
  by (simp_all add: range_defs sat_defs)

lemma sat_range:
  "is_u64 (sat_u64 x)" "is_i64 (sat_i64 x)" "is_i128 (sat_i128 x)"
  by (simp_all add: range_defs sat_defs int_bounds)

text \<open>Casts wrap: \<^verbatim>\<open>x as u64\<close> of a signed value.\<close>

definition as_u64 :: "int \<Rightarrow> int" where "as_u64 x = x mod 2 ^ 64"

definition as_i32 :: "int \<Rightarrow> int" where
  "as_i32 x = (x + 2 ^ 31) mod 2 ^ 32 - 2 ^ 31"

definition as_i64 :: "int \<Rightarrow> int" where
  "as_i64 x = (x + 2 ^ 63) mod 2 ^ 64 - 2 ^ 63"

definition as_u32 :: "int \<Rightarrow> int" where "as_u32 x = x mod 2 ^ 32"
definition as_u128 :: "int \<Rightarrow> int" where "as_u128 x = x mod 2 ^ 128"

definition as_i128 :: "int \<Rightarrow> int" where
  "as_i128 x = (x + 2 ^ 127) mod 2 ^ 128 - 2 ^ 127"

lemma as_u32_id: "is_u32 x \<Longrightarrow> as_u32 x = x"
  by (simp add: as_u32_def is_u32_def u32_max_def)

lemma as_u128_id: "0 \<le> x \<Longrightarrow> is_i128 x \<Longrightarrow> as_u128 x = x"
  by (simp add: as_u128_def is_i128_def i128_max_def)

lemma as_i128_id: "is_i128 x \<Longrightarrow> as_i128 x = x"
  by (simp add: as_i128_def is_i128_def i128_max_def i128_min_def)

lemma as_u64_id: "is_u64 x \<Longrightarrow> as_u64 x = x"
  by (simp add: as_u64_def is_u64_def u64_max_def)

lemma as_i64_id: "is_i64 x \<Longrightarrow> as_i64 x = x"
  by (simp add: as_i64_def is_i64_def i64_max_def i64_min_def)

lemma as_i32_id: "is_i32 x \<Longrightarrow> as_i32 x = x"
  by (simp add: as_i32_def is_i32_def i32_max_def i32_min_def)

lemma as_i64_range: "is_i64 (as_i64 x)"
proof -
  have "0 \<le> (x + 2 ^ 63) mod 2 ^ 64" "(x + 2 ^ 63) mod 2 ^ 64 < 2 ^ 64" by simp_all
  then show ?thesis by (simp add: is_i64_def as_i64_def i64_min_def i64_max_def)
qed

section \<open>Truncating division\<close>

definition tdiv :: "int \<Rightarrow> int \<Rightarrow> int" where
  "tdiv a b = (if (0 \<le> a) = (0 \<le> b) then \<bar>a\<bar> div \<bar>b\<bar> else - (\<bar>a\<bar> div \<bar>b\<bar>))"

definition tmod :: "int \<Rightarrow> int \<Rightarrow> int" where
  "tmod a b = a - tdiv a b * b"

lemma tdiv_nonneg: "0 \<le> a \<Longrightarrow> 0 \<le> b \<Longrightarrow> tdiv a b = a div b"
  by (simp add: tdiv_def)

lemma tdiv_neg: "a < 0 \<Longrightarrow> 0 < b \<Longrightarrow> tdiv a b = - ((- a) div b)"
  by (simp add: tdiv_def)

lemma tmod_nonneg: "0 \<le> a \<Longrightarrow> 0 \<le> b \<Longrightarrow> tmod a b = a mod b"
  by (simp add: tmod_def tdiv_nonneg minus_div_mult_eq_mod)

lemma tdiv_self_le: "0 \<le> a \<Longrightarrow> 0 < b \<Longrightarrow> tdiv a b \<le> a"
proof -
  assume a: "0 \<le> a" and b: "0 < b"
  have "a div b \<le> a div 1" using a b by (intro zdiv_mono2) auto
  then show ?thesis using a b by (simp add: tdiv_nonneg)
qed

lemma tdiv_ge_0: "0 \<le> a \<Longrightarrow> 0 \<le> b \<Longrightarrow> 0 \<le> tdiv a b"
  by (simp add: tdiv_nonneg div_int_pos_iff)

lemma tdiv_abs_le: "0 < b \<Longrightarrow> \<bar>tdiv a b\<bar> \<le> \<bar>a\<bar>"
proof -
  assume b: "0 < b"
  have "\<bar>a\<bar> div b \<le> \<bar>a\<bar> div 1" using b by (intro zdiv_mono2) auto
  moreover have "0 \<le> \<bar>a\<bar> div b" using b by (simp add: div_int_pos_iff)
  ultimately show ?thesis using b by (auto simp: tdiv_def)
qed

text \<open>A share \<open>a * p / d\<close> with \<open>0 \<le> p \<le> d\<close> lies between \<open>0\<close> and \<open>a\<close>.\<close>

lemma tdiv_share_bounds:
  assumes "0 \<le> a" "0 \<le> p" "p \<le> d" "0 < d"
  shows "0 \<le> tdiv (a * p) d" "tdiv (a * p) d \<le> a"
proof -
  have "a * p div d \<le> a * d div d"
    using assms by (intro zdiv_mono1) (auto intro: mult_left_mono)
  then show "tdiv (a * p) d \<le> a" using assms by (simp add: tdiv_nonneg)
  show "0 \<le> tdiv (a * p) d" using assms by (simp add: tdiv_ge_0)
qed

text \<open>Division in the code panics on a zero divisor.\<close>

definition div_or_trap :: "int \<Rightarrow> int \<Rightarrow> ('s, 'e, int) proc" where
  "div_or_trap a b = (if b = 0 then trap else return (tdiv a b))"

lemma div_or_trap_run [proc_run]:
  "div_or_trap a b s = (if b = 0 then (Trap, s) else (Ok (tdiv a b), s))"
  by (simp add: div_or_trap_def)

lemma div_or_trap_Ok_iff [proc_ok]:
  "div_or_trap a b s = (Ok q, s') \<longleftrightarrow> b \<noteq> 0 \<and> q = tdiv a b \<and> s' = s"
  by (auto simp: div_or_trap_run)

lemma keeps_div_or_trap [keeps_intros]: "keeps P (div_or_trap a b)"
  by (simp add: keeps_def div_or_trap_run)

section \<open>Payout splits\<close>

text \<open>
  Several operations divide an escrowed total between two parties: the deposit split of the math
  crate, the oracle slash, early termination, mutual release. What their callers rely on is that
  the two shares are non-negative and add up to the total. \<open>ok\<close> says for which parameters and
  totals the operation promises it.
\<close>

locale payout_split =
  fixes split :: "'k \<Rightarrow> int \<Rightarrow> int \<times> int"
    and ok :: "'k \<Rightarrow> int \<Rightarrow> bool"
  assumes conserve: "ok k dep \<Longrightarrow> fst (split k dep) + snd (split k dep) = dep"
    and fst_nonneg: "ok k dep \<Longrightarrow> 0 \<le> fst (split k dep)"
    and snd_nonneg: "ok k dep \<Longrightarrow> 0 \<le> snd (split k dep)"
begin

lemma fst_le: "ok k dep \<Longrightarrow> fst (split k dep) \<le> dep"
  using conserve [of k dep] snd_nonneg [of k dep] by simp

lemma snd_le: "ok k dep \<Longrightarrow> snd (split k dep) \<le> dep"
  using conserve [of k dep] fst_nonneg [of k dep] by simp

lemma total_nonneg: "ok k dep \<Longrightarrow> 0 \<le> dep"
  using conserve [of k dep] fst_nonneg [of k dep] snd_nonneg [of k dep] by simp

text \<open>A batch of splits pays out exactly the sum of its totals: no dust is created or lost.\<close>

lemma batch_conserve:
  "(\<forall>(k, dep) \<in> set xs. ok k dep) \<Longrightarrow>
     (\<Sum>(k, dep) \<leftarrow> xs. fst (split k dep)) + (\<Sum>(k, dep) \<leftarrow> xs. snd (split k dep))
       = sum_list (map snd xs)"
proof (induction xs)
  case Nil
  then show ?case by simp
next
  case (Cons x xs)
  then show ?case using conserve [of "fst x" "snd x"] by (auto simp: case_prod_beta)
qed

end

end
