(* ===== verification/Lease_Math.thy ===== *)
theory Lease_Math
  imports Rust_Arith
begin

text \<open>
  The crate \<^verbatim>\<open>crates/leaseflow_math/src/lib.rs\<close>: month lengths, prorated rent, termination refunds,
  deposit splits and the billing calendar. Functions whose arithmetic can panic are procedures;
  the others are plain functions on integers. The crate declares \<^verbatim>\<open>is_leap_year\<close> twice, on \<^verbatim>\<open>i32\<close>
  and on \<^verbatim>\<open>u64\<close>; the first is \<open>is_leap_year_i32\<close> here.
\<close>

section \<open>Definitions\<close>

definition calculate_total_cost :: "int \<Rightarrow> int \<Rightarrow> int option" where
  "calculate_total_cost duration_secs rate_per_sec = checked_u64 (duration_secs * rate_per_sec)"

definition is_leap_year_i32 :: "int \<Rightarrow> bool" where
  "is_leap_year_i32 year \<longleftrightarrow>
     (tmod year 4 = 0 \<and> tmod year 100 \<noteq> 0) \<or> tmod year 400 = 0"

definition year_len :: "int \<Rightarrow> int" where
  "year_len year = (if is_leap_year_i32 year then 366 else 365)"

text \<open>The two \<^verbatim>\<open>while\<close> loops of \<^verbatim>\<open>get_seconds_in_month\<close>; \<open>None\<close> is the \<^verbatim>\<open>i32\<close> overflow panic of
  the year counter.\<close>

function year_back :: "int \<Rightarrow> int \<Rightarrow> (int \<times> int) option" where
  "year_back year remaining_days =
     (if remaining_days < 0
      then (if is_i32 (year - 1)
            then year_back (year - 1) (remaining_days + year_len (year - 1)) else None)
      else Some (year, remaining_days))"
  by pat_completeness auto
termination
  by (relation "measure (\<lambda>(year, r). nat (- r))") (auto simp: year_len_def)

function year_forward :: "int \<Rightarrow> int \<Rightarrow> (int \<times> int) option" where
  "year_forward year remaining_days =
     (if remaining_days \<ge> year_len year
      then (if is_i32 (year + 1)
            then year_forward (year + 1) (remaining_days - year_len year) else None)
      else Some (year, remaining_days))"
  by pat_completeness auto
termination
  by (relation "measure (\<lambda>(year, r). nat r)") (auto simp: year_len_def split: if_splits)

declare year_back.simps [simp del] year_forward.simps [simp del]

definition month_table :: "int \<Rightarrow> int list" where
  "month_table year =
     (if is_leap_year_i32 year
      then [31, 29, 31, 30, 31, 30, 31, 31, 30, 31, 30, 31]
      else [31, 28, 31, 30, 31, 30, 31, 31, 30, 31, 30, 31])"

text \<open>The \<^verbatim>\<open>for\<close> loop over the table: the index of the month that holds the day, 0 if none does.\<close>

fun find_month :: "int \<Rightarrow> nat \<Rightarrow> int list \<Rightarrow> nat" where
  "find_month remaining_days i [] = 0"
| "find_month remaining_days i (days_in_month # rest) =
     (if remaining_days < days_in_month then i
      else find_month (remaining_days - days_in_month) (Suc i) rest)"

definition get_seconds_in_month :: "int \<Rightarrow> ('s, 'e, int) proc" where
  "get_seconds_in_month timestamp =
     (let unix_time = as_i64 timestamp; days_since_epoch = tdiv unix_time 86400 in
      bind (chk_i32 (1970 + as_i32 (tdiv days_since_epoch 365))) (\<lambda>year.
      bind (chk_i32 (year - 1968)) (\<lambda>a. bind (chk_i32 (year - 1900)) (\<lambda>b.
      bind (chk_i32 (year - 1600)) (\<lambda>c.
      let leap_years_before = tdiv a 4 - tdiv b 100 + tdiv c 400;
          remaining_days = tmod days_since_epoch 365 - leap_years_before in
      bind (unwrap (year_back year remaining_days)) (\<lambda>(year, remaining_days).
      bind (unwrap (year_forward year remaining_days)) (\<lambda>(year, remaining_days).
      let month_days = month_table year; month = find_month remaining_days 0 month_days in
      return (month_days ! month * 86400))))))))"

definition calculate_prorated_rent :: "int \<Rightarrow> int \<Rightarrow> int \<Rightarrow> ('s, 'e, (int \<times> int) option) proc" where
  "calculate_prorated_rent monthly_rent start_timestamp end_timestamp =
     (if start_timestamp \<ge> end_timestamp \<or> monthly_rent \<le> 0 then return None else
      let duration_seconds = sat_u64 (end_timestamp - start_timestamp) in
      bind (get_seconds_in_month start_timestamp) (\<lambda>seconds_in_month.
      if seconds_in_month = 0 then return None else
      case checked_i128 (monthly_rent * duration_seconds) of
        None \<Rightarrow> return None
      | Some product \<Rightarrow>
          let prorated_rent = tdiv product seconds_in_month in
          if prorated_rent > i64_max then return None
          else return (Some (prorated_rent, duration_seconds))))"

definition calculate_termination_refund ::
    "int \<Rightarrow> int \<Rightarrow> int \<Rightarrow> int \<Rightarrow> int \<Rightarrow> ('s, 'e, int option) proc" where
  "calculate_termination_refund monthly_rent original_start original_end termination_timestamp
       paid_amount =
     (if termination_timestamp \<le> original_start \<or> termination_timestamp \<ge> original_end
      then return None else
      let unused_duration = sat_u64 (original_end - termination_timestamp) in
      bind (get_seconds_in_month termination_timestamp) (\<lambda>seconds_in_month.
      if seconds_in_month = 0 then return None else
      case checked_i128 (monthly_rent * unused_duration) of
        None \<Rightarrow> return None
      | Some product \<Rightarrow>
          let refund_i128 = tdiv product seconds_in_month in
          if refund_i128 \<le> paid_amount \<and> refund_i128 > i64_max then return None else
          let refund = (if refund_i128 > paid_amount then paid_amount else as_i64 refund_i128) in
          return (Some (if refund > 0 then refund - 1 else 0))))"

definition calculate_deposit_split :: "int \<Rightarrow> int \<Rightarrow> (int \<times> int) option" where
  "calculate_deposit_split total_deposit landlord_bps =
     (let landlord_pct = min landlord_bps 10000 in
      case checked_i128 (total_deposit * landlord_pct) of
        None \<Rightarrow> None
      | Some product \<Rightarrow>
          let landlord_share = tdiv product 10000 in
          (case checked_i128 (total_deposit - landlord_share) of
             None \<Rightarrow> None
           | Some tenant_share \<Rightarrow> Some (landlord_share, tenant_share)))"

definition timestamp_to_ymd :: "int \<Rightarrow> int \<times> int \<times> int" where
  "timestamp_to_ymd timestamp =
     (let days_since_epoch = timestamp div 86400;
          z = days_since_epoch + 719468;
          era = z div 146097;
          doe = z - era * 146097;
          yoe = (doe - doe div 1460 + doe div 36524 - doe div 146096) div 365;
          y = yoe + era * 400;
          doy = doe - (365 * yoe + yoe div 4 - yoe div 100);
          mp = (5 * doy + 2) div 153;
          d = doy - (153 * mp + 2) div 5 + 1;
          m = (if mp < 10 then mp + 3 else mp - 9);
          year = (if m \<le> 2 then y + 1 else y)
      in (year, m, d))"

definition is_leap_year :: "int \<Rightarrow> bool" where
  "is_leap_year year \<longleftrightarrow> (year mod 4 = 0 \<and> year mod 100 \<noteq> 0) \<or> year mod 400 = 0"

definition days_in_month :: "int \<Rightarrow> int \<Rightarrow> int" where
  "days_in_month year month =
     (if month \<in> {4, 6, 9, 11} then 30
      else if month = 2 then (if is_leap_year year then 29 else 28)
      else 31)"

definition ymd_to_timestamp :: "int \<Rightarrow> int \<Rightarrow> int \<Rightarrow> ('s, 'e, int) proc" where
  "ymd_to_timestamp year month day =
     bind (if month \<le> 2 then bind (chk_u64 (year - 1)) (\<lambda>y. return (y, month + 9))
           else return (year, month - 3)) (\<lambda>(y, m).
     let era = y div 400; yoe = y - era * 400 in
     bind (chk_u64 ((153 * m + 2) div 5 + day - 1)) (\<lambda>doy.
     let doe = yoe * 365 + yoe div 4 - yoe div 100 + doy in
     bind (chk_u64 (era * 146097)) (\<lambda>era_days.
     bind (chk_u64 (era_days + doe)) (\<lambda>days.
     chk_u64 (sat_u64 (days - 719468) * 86400)))))"

definition next_billing_date :: "int \<Rightarrow> int \<Rightarrow> ('s, 'e, int) proc" where
  "next_billing_date inception_ts n =
     (let (year, month, day) = timestamp_to_ymd inception_ts in
      bind (chk_u32 (sat_u32 (month - 1) + n)) (\<lambda>total_months.
      let new_month = total_months mod 12 + 1 in
      bind (chk_u64 (year + total_months div 12)) (\<lambda>new_year.
      let max_day = days_in_month new_year new_month;
          clamped_day = min day max_day in
      ymd_to_timestamp new_year new_month clamped_day)))"

end
