(* ===== verification/Lease_Calendar.thy ===== *)
theory Lease_Calendar
  imports Lease_Math
begin

text \<open>
  Correctness of the civil calendar of \<^verbatim>\<open>leaseflow_math\<close>. Years run from March in the algorithm:
  \<open>year_start y\<close> is the first day of March-year \<open>y\<close> of a 400-year era and \<open>era_year_len y\<close> its
  length. The facts about one era (400 years, 366 days of a year) are finite and are evaluated by
  the kernel; monotonicity extends them to every day, and the era arithmetic to every timestamp.
\<close>

section \<open>One era\<close>

definition yoe_of :: "int \<Rightarrow> int" where
  "yoe_of doe = (doe - doe div 1460 + doe div 36524 - doe div 146096) div 365"

definition year_start :: "int \<Rightarrow> int" where
  "year_start y = 365 * y + y div 4 - y div 100"

definition era_year_len :: "int \<Rightarrow> int" where
  "era_year_len y = (if is_leap_year (y + 1) then 366 else 365)"

definition month_start :: "int \<Rightarrow> int" where
  "month_start mp = (153 * mp + 2) div 5"

definition month_len :: "int \<Rightarrow> int" where
  "month_len mp = (if mp \<in> {1, 3, 6, 8} then 30 else if mp = 11 then 29 else 31)"

lemma div_succ:
  fixes a k :: int
  assumes "0 < k"
  shows "(a + 1) div k = a div k + (if (a + 1) mod k = 0 then 1 else 0)"
proof -
  have "a = k * (a div k) + a mod k" and "0 \<le> a mod k" "a mod k < k" using assms by simp_all
  then have eq: "a + 1 = k * (a div k) + (a mod k + 1)" by simp
  show ?thesis
  proof (cases "a mod k + 1 = k")
    case True
    then have "a + 1 = k * (a div k + 1)" using eq by (simp add: algebra_simps)
    then show ?thesis using assms by simp
  next
    case False
    then have "a mod k + 1 < k" using \<open>a mod k < k\<close> by linarith
    then have "(a + 1) div k = a div k" "(a + 1) mod k = a mod k + 1"
      using int_div_pos_eq [OF eq] int_mod_pos_eq [OF eq] \<open>0 \<le> a mod k\<close> by simp_all
    then show ?thesis using \<open>0 \<le> a mod k\<close> by simp
  qed
qed

lemma carry_le:
  fixes a x y z x' y' z' :: int
  assumes "x' = x + (if p then 1 else 0)" "y' = y + (if q then 1 else 0)"
    "z' = z + (if r then 1 else 0)" "r \<Longrightarrow> q"
  shows "a - x + y - z \<le> (a + 1) - x' + y' - z'"
  using assms by (auto split: if_splits)

lemma yoe_of_step: "yoe_of a \<le> yoe_of (a + 1)"
proof -
  have imp: "(a + 1) mod 146096 = 0 \<Longrightarrow> (a + 1) mod 36524 = 0"
    using dvd_trans [of 36524 146096 "a + 1"] by (simp add: dvd_eq_mod_eq_0)
  have "a - a div 1460 + a div 36524 - a div 146096
      \<le> (a + 1) - (a + 1) div 1460 + (a + 1) div 36524 - (a + 1) div 146096"
    by (rule carry_le [OF div_succ div_succ div_succ imp]) (rule zero_less_numeral | assumption)+
  then show ?thesis unfolding yoe_of_def by (intro zdiv_mono1) (rule zero_less_numeral | assumption)+
qed

lemma yoe_of_mono: "a \<le> b \<Longrightarrow> yoe_of a \<le> yoe_of b"
proof (induction b rule: int_ge_induct)
  case (step i)
  then show ?case using yoe_of_step [of i] by linarith
qed simp

lemma year_ends:
  "\<forall>y \<in> set [0..399]. yoe_of (year_start y) = y
     \<and> yoe_of (year_start y + era_year_len y - 1) = y
     \<and> (y = 399 \<or> year_start (y + 1) = year_start y + era_year_len y)
     \<and> (y \<noteq> 399 \<or> year_start y + era_year_len y = 146097)"
  by code_simp

lemma year_ends_at:
  assumes "0 \<le> y" "y \<le> 399"
  shows "yoe_of (year_start y) = y" "yoe_of (year_start y + era_year_len y - 1) = y"
    "y \<noteq> 399 \<Longrightarrow> year_start (y + 1) = year_start y + era_year_len y"
    "year_start 399 + era_year_len 399 = 146097"
  using assms year_ends [THEN bspec, of y] year_ends [THEN bspec, of 399] by auto

lemma year_cover:
  assumes "0 \<le> n" "n \<le> 399" "0 \<le> doe" "doe < year_start n + era_year_len n"
  shows "\<exists>y. 0 \<le> y \<and> y \<le> n \<and> year_start y \<le> doe \<and> doe < year_start y + era_year_len y"
  using assms
proof (induction n rule: int_ge_induct)
  case base
  then show ?case by (intro exI [of _ 0]) (simp add: year_start_def)
next
  case (step i)
  show ?case
  proof (cases "year_start (i + 1) \<le> doe")
    case True
    then show ?thesis using step.prems step.hyps by (intro exI [of _ "i + 1"]) simp
  next
    case False
    then have "doe < year_start i + era_year_len i"
      using step.prems step.hyps year_ends_at(3) [of i] by simp
    then obtain y where "0 \<le> y" "y \<le> i" "year_start y \<le> doe" "doe < year_start y + era_year_len y"
      using step.IH step.prems by auto
    then show ?thesis by (intro exI [of _ y]) simp
  qed
qed

lemma yoe_of_eq:
  assumes "0 \<le> y" "y \<le> 399" "year_start y \<le> doe" "doe < year_start y + era_year_len y"
  shows "yoe_of doe = y"
  using yoe_of_mono [of "year_start y" doe]
    yoe_of_mono [of doe "year_start y + era_year_len y - 1"] year_ends_at [OF assms(1,2)] assms(3,4)
  by simp

lemma yoe_of_bounds:
  assumes "0 \<le> doe" "doe < 146097"
  shows "0 \<le> yoe_of doe" "yoe_of doe \<le> 399"
    "year_start (yoe_of doe) \<le> doe" "doe < year_start (yoe_of doe) + era_year_len (yoe_of doe)"
proof -
  from assms obtain y where
    "0 \<le> y" "y \<le> 399" "year_start y \<le> doe" "doe < year_start y + era_year_len y"
    using year_cover [of 399 doe] year_ends_at(4) [of 0] by auto
  moreover from this have "yoe_of doe = y" by (rule yoe_of_eq)
  ultimately show "0 \<le> yoe_of doe" "yoe_of doe \<le> 399"
    "year_start (yoe_of doe) \<le> doe" "doe < year_start (yoe_of doe) + era_year_len (yoe_of doe)"
    by auto
qed

lemma month_of_doy:
  "\<forall>doy \<in> set [0..365]. let mp = (5 * doy + 2) div 153 in
     0 \<le> mp \<and> mp \<le> 11 \<and> 1 \<le> doy - month_start mp + 1 \<and> doy - month_start mp + 1 \<le> month_len mp
     \<and> (mp = 11 \<and> doy - month_start mp + 1 = 29 \<longrightarrow> doy = 365)"
  by code_simp

lemma doy_of_month:
  "\<forall>mp \<in> set [0..11]. \<forall>d \<in> set [1..month_len mp].
     (5 * (month_start mp + d - 1) + 2) div 153 = mp \<and> 0 \<le> month_start mp + d - 1
     \<and> month_start mp + d - 1 \<le> 365 \<and> (month_start mp + d - 1 = 365 \<longrightarrow> mp = 11 \<and> d = 29)"
  by code_simp

lemma month_ends: "\<forall>mp \<in> set [0..9]. month_start mp + month_len mp \<le> 306"
  by code_simp

lemma is_leap_year_era: "is_leap_year (y + era * 400) = is_leap_year y"
proof -
  have "(y + era * 400) mod 4 = y mod 4" "(y + era * 400) mod 100 = y mod 100"
    "(y + era * 400) mod 400 = y mod 400"
    using mod_mult_self1 [of y "era * 100" 4] mod_mult_self1 [of y "era * 4" 100]
    by (simp_all add: algebra_simps)
  then show ?thesis by (simp add: is_leap_year_def)
qed

lemma days_in_month_march:
  assumes "0 \<le> mp" "mp \<le> 11"
  shows "days_in_month year (if mp < 10 then mp + 3 else mp - 9)
       = (if mp = 11 then (if is_leap_year year then 29 else 28) else month_len mp)"
proof -
  have "mp \<in> {0, 1, 2, 3, 4, 5, 6, 7, 8, 9, 10, 11}" using assms by simp presburger
  then show ?thesis by (auto simp: days_in_month_def month_len_def)
qed

section \<open>From timestamps to dates and back\<close>

text \<open>The day of March-year \<open>y\<close> as the algorithm computes it from its era-relative parts.\<close>

definition ymd_of_parts :: "int \<Rightarrow> int \<Rightarrow> int \<Rightarrow> int \<Rightarrow> int \<times> int \<times> int" where
  "ymd_of_parts era yoe mp d =
     (if mp < 10 then (yoe + era * 400, mp + 3, d) else (yoe + era * 400 + 1, mp - 9, d))"

definition days_of_parts :: "int \<Rightarrow> int \<Rightarrow> int \<Rightarrow> int \<Rightarrow> int" where
  "days_of_parts era yoe mp d = era * 146097 + (year_start yoe + (month_start mp + d - 1))"

definition valid_parts :: "int \<Rightarrow> int \<Rightarrow> int \<Rightarrow> bool" where
  "valid_parts yoe mp d \<longleftrightarrow> 0 \<le> yoe \<and> yoe \<le> 399 \<and> 0 \<le> mp \<and> mp \<le> 11 \<and> 1 \<le> d
     \<and> d \<le> month_len mp \<and> (mp = 11 \<and> d = 29 \<longrightarrow> is_leap_year (yoe + 1))"

lemma timestamp_to_ymd_parts:
  assumes "0 \<le> t"
  obtains era yoe mp d where
    "timestamp_to_ymd t = ymd_of_parts era yoe mp d" "valid_parts yoe mp d"
    "days_of_parts era yoe mp d = t div 86400 + 719468" "0 \<le> era"
proof -
  define z where "z = t div 86400 + 719468"
  define era where "era = z div 146097"
  define doe where "doe = z - era * 146097"
  define yoe where "yoe = yoe_of doe"
  define doy where "doy = doe - year_start yoe"
  define mp where "mp = (5 * doy + 2) div 153"
  define d where "d = doy - month_start mp + 1"
  note defs = z_def era_def doe_def yoe_def doy_def mp_def d_def
  have z: "0 \<le> z" using assms by (simp add: z_def div_int_pos_iff)
  have doe: "0 \<le> doe" "doe < 146097"
    by (simp_all add: doe_def era_def minus_div_mult_eq_mod)
  note y = yoe_of_bounds [OF doe, folded yoe_def]
  have doy: "0 \<le> doy" "doy < era_year_len yoe" using y by (simp_all add: doy_def)
  have "doy \<le> 365" using doy by (simp add: era_year_len_def split: if_splits)
  then have m: "0 \<le> mp" "mp \<le> 11" "1 \<le> d" "d \<le> month_len mp"
    "mp = 11 \<and> d = 29 \<longrightarrow> doy = 365"
    using month_of_doy [THEN bspec, of doy] doy by (auto simp: mp_def d_def Let_def)
  have leap: "doy = 365 \<longrightarrow> is_leap_year (yoe + 1)"
    using doy by (simp add: era_year_len_def split: if_splits)
  show thesis
  proof (rule that [of era yoe mp d])
    show "valid_parts yoe mp d" using y m leap by (simp add: valid_parts_def)
    show "days_of_parts era yoe mp d = t div 86400 + 719468"
      by (simp add: days_of_parts_def d_def doy_def doe_def z_def)
    show "0 \<le> era" using z by (simp add: era_def div_int_pos_iff)
    have "timestamp_to_ymd t
        = (let m = (if mp < 10 then mp + 3 else mp - 9)
           in (if m \<le> 2 then yoe + era * 400 + 1 else yoe + era * 400, m, d))"
      unfolding timestamp_to_ymd_def Let_def
      by (simp only: defs yoe_of_def year_start_def month_start_def)
    then show "timestamp_to_ymd t = ymd_of_parts era yoe mp d"
      using m by (auto simp: ymd_of_parts_def Let_def)
  qed
qed

lemma ymd_to_timestamp_parts:
  assumes v: "valid_parts yoe mp d" and "0 \<le> era"
    and lo: "719468 \<le> days_of_parts era yoe mp d"
    and hi: "(days_of_parts era yoe mp d - 719468) * 86400 \<le> u64_max"
    and p: "ymd_of_parts era yoe mp d = (y, m, day)"
  shows "ymd_to_timestamp y m day s
       = (Ok ((days_of_parts era yoe mp d - 719468) * 86400), s)"
proof -
  let ?D = "days_of_parts era yoe mp d"
  have doy: "0 \<le> month_start mp + d - 1" "month_start mp + d - 1 \<le> 365"
    using v doy_of_month [THEN bspec, of mp] by (auto simp: valid_parts_def)
  have yoe: "0 \<le> yoe" "yoe \<le> 399" using v by (auto simp: valid_parts_def)
  have bnd: "?D \<le> u64_max" "0 \<le> ?D" using hi lo by (auto simp: u64_max_def)
  have ys: "0 \<le> year_start yoe"
  proof -
    have "0 \<le> yoe div 4" "yoe div 100 \<le> yoe" using yoe by (auto simp: div_int_pos_iff)
    then show ?thesis using yoe by (simp add: year_start_def)
  qed
  have era: "is_u64 (era * 146097)" "is_u64 (era * 400 + yoe)"
    using bnd \<open>0 \<le> era\<close> ys doy yoe by (auto simp: days_of_parts_def is_u64_def u64_max_def)
  have div: "(yoe + era * 400) div 400 = era" using yoe by simp
  have D: "is_u64 ?D" "is_u64 (?D - 719468)" "is_u64 ((?D - 719468) * 86400)"
    using bnd lo hi by (auto simp: is_u64_def)
  have doyu: "is_u64 ((153 * mp + 2) div 5 + d - 1)"
    using doy by (simp add: is_u64_def u64_max_def month_start_def)
  let ?tail = "\<lambda>(y, m).
      let era = y div 400; yoe = y - era * 400 in
      bind (chk_u64 ((153 * m + 2) div 5 + d - 1)) (\<lambda>doy.
      let doe = yoe * 365 + yoe div 4 - yoe div 100 + doy in
      bind (chk_u64 (era * 146097)) (\<lambda>era_days.
      bind (chk_u64 (era_days + doe)) (\<lambda>days.
      chk_u64 (sat_u64 (days - 719468) * 86400))))"
  have *: "?tail (yoe + era * 400, mp) s = (Ok ((?D - 719468) * 86400), s)"
    using doyu era(1) D
    by (simp add: proc_run div Let_def sat_id days_of_parts_def year_start_def month_start_def
        algebra_simps)
  have "ymd_to_timestamp y m day s = ?tail (yoe + era * 400, mp) s"
  proof (cases "mp < 10")
    case True
    then have "y = yoe + era * 400" "m = mp + 3" "day = d" using p by (auto simp: ymd_of_parts_def)
    then show ?thesis using v by (simp add: ymd_to_timestamp_def bind_run valid_parts_def)
  next
    case False
    then have "y = yoe + era * 400 + 1" "m = mp - 9" "day = d" using p
      by (auto simp: ymd_of_parts_def)
    moreover have "is_u64 (yoe + era * 400)" using era(2) by (simp add: add.commute)
    ultimately show ?thesis using v by (simp add: ymd_to_timestamp_def proc_run valid_parts_def)
  qed
  from this * show ?thesis by (rule trans)
qed

text \<open>Dates whose parts are valid are exactly the civil dates of the Gregorian calendar.\<close>

definition valid_date :: "int \<Rightarrow> int \<Rightarrow> int \<Rightarrow> bool" where
  "valid_date y m d \<longleftrightarrow> 1 \<le> m \<and> m \<le> 12 \<and> 1 \<le> d \<and> d \<le> days_in_month y m"

lemma valid_parts_date:
  assumes "valid_parts yoe mp d" "ymd_of_parts era yoe mp d = (y, m, day)"
  shows "valid_date y m day"
proof -
  have mp: "0 \<le> mp" "mp \<le> 11" using assms(1) by (auto simp: valid_parts_def)
  have m: "m = (if mp < 10 then mp + 3 else mp - 9)" "day = d"
    using assms(2) by (auto simp: ymd_of_parts_def split: if_splits)
  have y: "mp = 11 \<Longrightarrow> y = yoe + 1 + era * 400"
    using assms(2) by (auto simp: ymd_of_parts_def)
  have "d \<le> days_in_month y m"
    using assms(1) days_in_month_march [OF mp, of y] is_leap_year_era [of "yoe + 1" era]
    by (auto simp: m y valid_parts_def month_len_def split: if_splits)
  then show ?thesis using assms(1) mp m by (auto simp: valid_date_def valid_parts_def)
qed

lemma date_valid_parts:
  assumes "valid_date y m day" "0 \<le> y" "m \<le> 2 \<longrightarrow> 1 \<le> y"
  obtains era yoe mp where "ymd_of_parts era yoe mp day = (y, m, day)" "valid_parts yoe mp day"
    "0 \<le> era" "y - 1 \<le> yoe + era * 400"
proof -
  define mp where "mp = (if m \<le> 2 then m + 9 else m - 3)"
  define y' where "y' = (if m \<le> 2 then y - 1 else y)"
  define era where "era = y' div 400"
  define yoe where "yoe = y' mod 400"
  have y': "y' = yoe + era * 400" "0 \<le> yoe" "yoe \<le> 399" by (auto simp: yoe_def era_def)
  have "0 \<le> y'" using assms by (auto simp: y'_def)
  then have "0 \<le> era" by (simp add: era_def div_int_pos_iff)
  have mp: "0 \<le> mp" "mp \<le> 11" "m = (if mp < 10 then mp + 3 else mp - 9)"
    using assms by (auto simp: mp_def valid_date_def)
  have leap: "mp = 11 \<Longrightarrow> is_leap_year y = is_leap_year (yoe + 1)"
  proof -
    assume "mp = 11"
    then have "m \<le> 2" using mp(3) by simp
    then have "y = yoe + 1 + era * 400" using y'(1) unfolding y'_def by simp
    then show "is_leap_year y = is_leap_year (yoe + 1)" by (simp only: is_leap_year_era)
  qed
  show thesis
  proof (rule that [of era yoe mp])
    have "mp < 10 \<longleftrightarrow> \<not> m \<le> 2" using assms(1) by (auto simp: mp_def valid_date_def)
    then show "ymd_of_parts era yoe mp day = (y, m, day)"
      using y'(1) mp(3) unfolding ymd_of_parts_def y'_def by (cases "m \<le> 2") simp_all
    have "day \<le> (if mp = 11 then if is_leap_year y then 29 else 28 else month_len mp)"
      using assms(1) days_in_month_march [OF mp(1,2), of y]
      by (simp add: valid_date_def flip: mp(3))
    moreover have "1 \<le> day" using assms(1) by (simp add: valid_date_def)
    moreover have "month_len 11 = 29" by (simp add: month_len_def)
    ultimately show "valid_parts yoe mp day"
      using y'(2,3) mp(1,2) leap unfolding valid_parts_def by (cases "mp = 11") (auto split: if_splits)
    show "0 \<le> era" by fact
    show "y - 1 \<le> yoe + era * 400" using y'(1) unfolding y'_def by (simp split: if_splits)
  qed
qed

lemma timestamp_to_ymd_of_parts:
  assumes v: "valid_parts yoe mp d"
    and t: "t div 86400 + 719468 = days_of_parts era yoe mp d"
  shows "timestamp_to_ymd t = ymd_of_parts era yoe mp d"
proof -
  have m: "0 \<le> mp" "mp \<le> 11" "1 \<le> d" "d \<le> month_len mp"
    and y: "0 \<le> yoe" "yoe \<le> 399" using v by (auto simp: valid_parts_def)
  define doy where "doy = month_start mp + d - 1"
  have doy: "0 \<le> doy" "doy \<le> 365" "(5 * doy + 2) div 153 = mp"
    "doy = 365 \<longrightarrow> mp = 11 \<and> d = 29"
    using doy_of_month [THEN bspec, of mp, THEN bspec, of d] m by (auto simp: doy_def)
  have len: "doy < era_year_len yoe" using doy v by (auto simp: era_year_len_def valid_parts_def)
  define doe where "doe = year_start yoe + doy"
  have yoe: "yoe_of doe = yoe" using yoe_of_eq [OF y, of doe] doy len by (simp add: doe_def)
  have doe: "0 \<le> doe" "doe < 146097"
  proof -
    have "year_start 0 \<le> year_start yoe"
      using y by (auto simp: year_start_def div_int_pos_iff)
    then show "0 \<le> doe" using doy by (simp add: doe_def year_start_def)
    show "doe < 146097"
    proof (rule ccontr)
      assume "\<not> doe < 146097"
      then have "yoe_of 146097 \<le> yoe_of doe" by (intro yoe_of_mono) simp
      moreover have "399 \<le> yoe_of 146097" by (simp add: yoe_of_def)
      ultimately have "yoe = 399" using yoe y(2) by linarith
      then show False using len year_ends_at(4) [OF y] \<open>\<not> doe < 146097\<close> by (simp add: doe_def)
    qed
  qed
  have z: "(t div 86400 + 719468) div 146097 = era"
    "t div 86400 + 719468 - era * 146097 = doe"
    using doe by (simp_all add: t days_of_parts_def doe_def doy_def)
  have yeq: "(doe - doe div 1460 + doe div 36524 - doe div 146096) div 365 = yoe"
    using yoe by (simp only: yoe_of_def)
  have deq: "doe - (365 * yoe + yoe div 4 - yoe div 100) = doy"
    by (simp add: doe_def year_start_def)
  have day: "doy - (153 * mp + 2) div 5 + 1 = d" by (simp add: doy_def month_start_def)
  show ?thesis
    unfolding timestamp_to_ymd_def Let_def z yeq deq doy(3) day
    using m(1,2) by (auto simp: ymd_of_parts_def)
qed

lemma days_of_parts_bounds:
  assumes "valid_parts yoe mp d" "0 \<le> era"
  shows "era * 146097 \<le> days_of_parts era yoe mp d"
    "days_of_parts era yoe mp d \<le> era * 146097 + 365 * yoe + 465"
proof -
  have y: "0 \<le> yoe" "yoe \<le> 399" using assms(1) by (auto simp: valid_parts_def)
  have doy: "0 \<le> month_start mp + d - 1" "month_start mp + d - 1 \<le> 365"
    using assms(1) doy_of_month [THEN bspec, of mp, THEN bspec, of d]
    by (auto simp: valid_parts_def)
  have q: "0 \<le> yoe div 4" "yoe div 4 \<le> 99" "0 \<le> yoe div 100" "yoe div 100 \<le> yoe" using y by auto
  show "era * 146097 \<le> days_of_parts era yoe mp d"
    "days_of_parts era yoe mp d \<le> era * 146097 + 365 * yoe + 465"
    using q doy y by (auto simp: days_of_parts_def year_start_def)
qed

text \<open>Every date from 1 January 1970 on has a day number at or after the epoch's.\<close>

lemma days_of_parts_epoch:
  assumes v: "valid_parts yoe mp d" and "0 \<le> era"
    and p: "ymd_of_parts era yoe mp d = (y, m, day)" and "1970 \<le> y"
  shows "719468 \<le> days_of_parts era yoe mp d"
proof -
  have y: "0 \<le> yoe" "yoe \<le> 399" and m: "0 \<le> mp" "mp \<le> 11" "1 \<le> d"
    using v by (auto simp: valid_parts_def)
  have yy: "yoe + era * 400 = (if mp < 10 then y else y - 1)"
    using p by (auto simp: ymd_of_parts_def split: if_splits)
  have ms: "10 \<le> mp \<Longrightarrow> 306 \<le> month_start mp" "0 \<le> month_start mp"
    using m by (auto simp: month_start_def)
  show ?thesis
  proof (cases "5 \<le> era")
    case True
    have "5 * 146097 \<le> era * 146097" using True by simp
    then show ?thesis using days_of_parts_bounds(1) [OF v \<open>0 \<le> era\<close>] by linarith
  next
    case False
    then have e: "era = 4" and yoe: "369 \<le> yoe"
      using yy y \<open>1970 \<le> y\<close> \<open>0 \<le> era\<close> by (auto split: if_splits)
    have "yoe div 100 = 3" using yoe y by simp
    moreover have "92 \<le> yoe div 4" "yoe \<ge> 370 \<longrightarrow> 92 \<le> yoe div 4" using yoe by auto
    moreover have "yoe = 369 \<longrightarrow> 10 \<le> mp" using yy e \<open>1970 \<le> y\<close> by (auto split: if_splits)
    ultimately show ?thesis using e yoe ms m
      by (cases "yoe = 369") (auto simp: days_of_parts_def year_start_def)
  qed
qed

lemma parts_before_epoch:
  assumes v: "valid_parts yoe mp d" and "0 \<le> era"
    and p: "ymd_of_parts era yoe mp d = (y, m, day)" and y: "\<not> 1970 \<le> y"
  shows "\<not> 719468 \<le> days_of_parts era yoe mp d"
proof -
  have yb: "0 \<le> yoe" "yoe \<le> 399" and m: "0 \<le> mp" "mp \<le> 11" "d \<le> month_len mp"
    using v by (auto simp: valid_parts_def)
  have yy: "yoe + era * 400 = (if mp < 10 then y else y - 1)"
    using p by (auto simp: ymd_of_parts_def split: if_splits)
  have e: "era \<le> 4" using yy yb y by (auto split: if_splits)
  have hi: "days_of_parts era yoe mp d \<le> era * 146097 + 365 * yoe + 465"
    using days_of_parts_bounds(2) [OF v \<open>0 \<le> era\<close>] .
  have q: "era \<noteq> 4 \<or> yoe \<le> 369" using yy y yb by (auto split: if_splits)
  consider "era \<le> 3" | "era = 4" "yoe \<le> 368" | "era = 4" "yoe = 369" using e q by linarith
  then show ?thesis
  proof cases
    case 3
    then have "mp < 10" using yy y by (auto split: if_splits)
    then have "month_start mp + d - 1 \<le> 305"
      using month_ends [THEN bspec, of mp] m by simp
    then show ?thesis using 3 by (simp add: days_of_parts_def year_start_def)
  next
    case 2
    have "yoe div 4 \<le> 92" "yoe div 100 \<ge> (if 300 \<le> yoe then 3 else 0)" using 2 yb by auto
    moreover have "month_start mp + d - 1 \<le> 365"
      using v doy_of_month [THEN bspec, of mp, THEN bspec, of d] by (auto simp: valid_parts_def)
    ultimately show ?thesis using 2
      by (auto simp: days_of_parts_def year_start_def split: if_splits)
  next
    case 1
    then have "era * 146097 \<le> 3 * 146097" by simp
    then show ?thesis using hi yb by linarith
  qed
qed

text \<open>Claim C16. Converting a timestamp to a civil date and the date back gives midnight of the same
  day, for every \<^verbatim>\<open>u64\<close> timestamp, without a panic.\<close>

theorem ymd_roundtrip:
  assumes "is_u64 t" "timestamp_to_ymd t = (y, m, d)"
  shows "ymd_to_timestamp y m d s = (Ok (t - t mod 86400), s)"
proof -
  have t: "0 \<le> t" "t \<le> u64_max" using assms(1) by (auto simp: is_u64_def)
  obtain era yoe mp dd where p: "timestamp_to_ymd t = ymd_of_parts era yoe mp dd"
    "valid_parts yoe mp dd" "days_of_parts era yoe mp dd = t div 86400 + 719468" "0 \<le> era"
    using timestamp_to_ymd_parts [OF t(1)] by blast
  have "t div 86400 * 86400 = t - t mod 86400" by (simp add: minus_mod_eq_div_mult)
  moreover have "t - t mod 86400 \<le> u64_max" using t by (smt (verit) pos_mod_sign)
  ultimately show ?thesis
    using ymd_to_timestamp_parts [OF p(2,4), of y m d s] p assms(2) t
    by (simp add: div_int_pos_iff)
qed

theorem ymd_roundtrip_witness:
  "ymd_to_timestamp 2024 2 29 (0::nat) = (Ok 1709164800 :: (unit, int) outcome, 0)"
proof -
  have "is_u64 1709208000" "timestamp_to_ymd 1709208000 = (2024, 2, 29)" by code_simp+
  from ymd_roundtrip [OF this, of "0::nat"] show ?thesis by simp
qed

lemma timestamp_valid_date:
  assumes "0 \<le> t" "timestamp_to_ymd t = (y, m, d)"
  shows "valid_date y m d" "1970 \<le> y"
proof -
  obtain era yoe mp dd where p: "timestamp_to_ymd t = ymd_of_parts era yoe mp dd"
    "valid_parts yoe mp dd" "days_of_parts era yoe mp dd = t div 86400 + 719468" "0 \<le> era"
    using timestamp_to_ymd_parts [OF assms(1)] by blast
  show "valid_date y m d" using valid_parts_date [OF p(2)] p(1) assms(2) by metis
  show "1970 \<le> y"
  proof (rule ccontr)
    assume "\<not> 1970 \<le> y"
    moreover have "719468 \<le> days_of_parts era yoe mp dd" using p(3) assms(1)
      by (simp add: div_int_pos_iff)
    ultimately show False using p assms(2) parts_before_epoch by metis
  qed
qed

lemma timestamp_year_bounds:
  assumes "0 \<le> t" "t \<le> 10 ^ 18" "timestamp_to_ymd t = (y, m, d)"
  shows "1970 \<le> y" "y \<le> 100000000000" "1 \<le> m" "m \<le> 12" "1 \<le> d" "d \<le> days_in_month y m"
proof -
  obtain era yoe mp dd where p: "timestamp_to_ymd t = ymd_of_parts era yoe mp dd"
    "valid_parts yoe mp dd" "days_of_parts era yoe mp dd = t div 86400 + 719468" "0 \<le> era"
    using timestamp_to_ymd_parts [OF assms(1)] by blast
  have "t div 86400 \<le> 11574074074074" using assms(2) by simp
  then have "era \<le> 100000000" using days_of_parts_bounds(1) [OF p(2,4)] p(3) by linarith
  moreover have "yoe \<le> 399" using p(2) by (simp add: valid_parts_def)
  moreover have "y \<le> yoe + era * 400 + 1"
    using p(1) assms(3) by (auto simp: ymd_of_parts_def split: if_splits)
  ultimately show "y \<le> 100000000000" by linarith
  show "1970 \<le> y" "1 \<le> m" "m \<le> 12" "1 \<le> d" "d \<le> days_in_month y m"
    using timestamp_valid_date [OF assms(1,3)] by (auto simp: valid_date_def)
qed

lemma ymd_to_timestamp_reads_back:
  assumes "1970 \<le> y" "y \<le> 500000000000" "1 \<le> m" "m \<le> 12" "1 \<le> d" "d \<le> days_in_month y m"
  shows "\<exists>t. ymd_to_timestamp y m d s = (Ok t, s) \<and> t mod 86400 = 0 \<and> is_u64 t
    \<and> timestamp_to_ymd t = (y, m, d)"
proof -
  have vd: "valid_date y m d" using assms by (simp add: valid_date_def)
  obtain era yoe mp where p: "ymd_of_parts era yoe mp d = (y, m, d)" "valid_parts yoe mp d"
    "0 \<le> era" "y - 1 \<le> yoe + era * 400"
    using date_valid_parts [OF vd] assms(1) by (auto simp del: split_paired_All)
  let ?D = "days_of_parts era yoe mp d" and ?t = "(days_of_parts era yoe mp d - 719468) * 86400"
  have lo: "719468 \<le> ?D" using days_of_parts_epoch [OF p(2,3,1) assms(1)] .
  have "yoe + era * 400 \<le> y" using p(1) by (auto simp: ymd_of_parts_def split: if_splits)
  moreover have "0 \<le> yoe" "yoe \<le> 399" using p(2) by (auto simp: valid_parts_def)
  ultimately have "?D \<le> 1250000000 * 146097 + 365 * 399 + 465"
    using days_of_parts_bounds(2) [OF p(2,3)] assms(2) by linarith
  then have hi: "?t \<le> u64_max" by (simp add: u64_max_def)
  have "?t div 86400 + 719468 = ?D" by simp
  then have "timestamp_to_ymd ?t = (y, m, d)"
    using timestamp_to_ymd_of_parts [OF p(2)] p(1) by metis
  moreover have "ymd_to_timestamp y m d s = (Ok ?t, s)"
    by (rule ymd_to_timestamp_parts [OF p(2,3) lo hi p(1)])
  ultimately show ?thesis using lo hi by (intro exI [of _ ?t]) (simp add: is_u64_def)
qed

text \<open>Every timestamp has a valid civil date: a month from 1 to 12, a day within the month
  (29 February only in leap years), and a year from 1970 on.\<close>

theorem timestamp_to_ymd_valid:
  assumes "0 \<le> t" "timestamp_to_ymd t = (y, m, d)"
  shows "1 \<le> m \<and> m \<le> 12 \<and> 1 \<le> d \<and> d \<le> days_in_month y m \<and> 1970 \<le> y"
  using timestamp_valid_date [OF assms] by (simp add: valid_date_def)

theorem timestamp_to_ymd_valid_witness:
  "1 \<le> (2::int) \<and> (2::int) \<le> 12 \<and> 1 \<le> (29::int) \<and> 29 \<le> days_in_month 2024 2 \<and> (1970::int) \<le> 2024"
proof -
  have "(0::int) \<le> 1709208000" "timestamp_to_ymd 1709208000 = (2024, 2, 29)" by code_simp+
  from timestamp_to_ymd_valid [OF this] show ?thesis .
qed

text \<open>The calendar is a bijection on valid dates: from a valid date whose midnight fits in
  \<^verbatim>\<open>u64\<close>, \<^verbatim>\<open>ymd_to_timestamp\<close> returns a midnight that \<^verbatim>\<open>timestamp_to_ymd\<close> reads back as that date.\<close>

theorem date_roundtrip:
  assumes "1970 \<le> y" "y \<le> 500000000000" "1 \<le> m" "m \<le> 12" "1 \<le> d" "d \<le> days_in_month y m"
  shows "\<exists>t. ymd_to_timestamp y m d s = (Ok t, s) \<and> t mod 86400 = 0 \<and> is_u64 t
    \<and> timestamp_to_ymd t = (y, m, d)"
  using assms by (rule ymd_to_timestamp_reads_back)

theorem date_roundtrip_witness:
  "\<exists>t. ymd_to_timestamp 2023 2 28 (0::nat) = (Ok t :: (unit, int) outcome, 0) \<and> t mod 86400 = 0
     \<and> is_u64 t \<and> timestamp_to_ymd t = (2023, 2, 28)"
  by (rule date_roundtrip) code_simp+

text \<open>Claim C17. The \<open>n\<close>-th billing date is anchored to the inception date: the month is the
  inception month advanced by exactly \<open>n\<close>, the day is the inception day clamped to the length of the
  target month, and nothing of an earlier billing date enters, so there is no drift.\<close>

theorem next_billing_date_anchored:
  assumes "0 \<le> t" "t \<le> 10 ^ 18" "0 \<le> n" "is_u32 (m - 1 + n)"
    and ymd: "timestamp_to_ymd t = (y, m, d)"
  shows "\<exists>b. next_billing_date t n s = (Ok b :: ('e, int) outcome, s) \<and> b mod 86400 = 0 \<and>
    (let months = m - 1 + n; y' = y + months div 12; m' = months mod 12 + 1
     in timestamp_to_ymd b = (y', m', min d (days_in_month y' m')))"
proof -
  note v = timestamp_year_bounds [OF assms(1,2) ymd]
  define months where "months = m - 1 + n"
  define y' where "y' = y + months div 12"
  define m' where "m' = months mod 12 + 1"
  define d' where "d' = min d (days_in_month y' m')"
  have months: "0 \<le> months" "months \<le> u32_max" using assms(3,4) v by (auto simp: months_def is_u32_def)
  have m': "1 \<le> m'" "m' \<le> 12" by (auto simp: m'_def)
  have "0 \<le> months div 12" "months div 12 \<le> months" using months by auto
  then have y': "1970 \<le> y'" "y' \<le> 500000000000"
    using v months by (auto simp: y'_def u32_max_def)
  have d': "1 \<le> d'" "d' \<le> days_in_month y' m'" using v by (auto simp: d'_def days_in_month_def)
  obtain b where b: "ymd_to_timestamp y' m' d' s = (Ok b :: ('e, int) outcome, s)"
      "b mod 86400 = 0" "timestamp_to_ymd b = (y', m', d')"
    using ymd_to_timestamp_reads_back [OF y' m' d', of s]
    by (elim exE conjE) (rule that)
  have sat: "sat_u32 (m - 1) + n = months"
    using v by (simp add: sat_u32_def clamp_def u32_max_def months_def)
  have rng: "is_u32 months" "is_u64 y'"
    using months y' by (auto simp: is_u32_def is_u64_def u64_max_def)
  have "next_billing_date t n s = (ymd_to_timestamp y' m' d' s :: ('e, int) outcome \<times> _)"
    unfolding next_billing_date_def ymd Let_def prod.case sat m'_def [symmetric] y'_def [symmetric]
    using rng by (simp add: proc_run d'_def flip: y'_def m'_def)
  then have "next_billing_date t n s = (Ok b :: ('e, int) outcome, s)" using b(1) by simp
  then show ?thesis using b(2,3)
    by (auto simp: Let_def m'_def y'_def d'_def months_def)
qed

theorem next_billing_date_anchored_witness:
  "\<exists>b. next_billing_date 1706659200 1 (0::nat) = (Ok b :: (unit, int) outcome, 0) \<and> b mod 86400 = 0
     \<and> timestamp_to_ymd b = (2024, 2, 29)"
proof -
  have "timestamp_to_ymd 1706659200 = (2024, 1, 31)" by code_simp
  moreover have "is_u32 (1 - 1 + 1)" by code_simp
  ultimately show ?thesis
    using next_billing_date_anchored
      [OF _ _ _ \<open>is_u32 (1 - 1 + 1)\<close> \<open>timestamp_to_ymd 1706659200 = (2024, 1, 31)\<close>, of "0::nat"]
    by (simp add: Let_def days_in_month_def is_leap_year_def)
qed

end
