(* ===== verification/Lease_Months.thy ===== *)
theory Lease_Months
  imports Lease_Calendar
begin

text \<open>
  What \<^verbatim>\<open>get_seconds_in_month\<close> computes, against the civil calendar. The function guesses the year
  as \<open>1970 + days div 365\<close> and subtracts the leap days up to and including the guessed year, so
  in a guessed leap year it works on the day before: \<open>get_seconds_in_month_exact\<close> states exactly
  that, and the bounds and the correct cases follow from it.
\<close>

section \<open>Day numbers\<close>

text \<open>Day number (from the epoch) of 1 January of a year, and of the first day of a month.\<close>

definition leap_days :: "int \<Rightarrow> int" where
  "leap_days y = y div 4 - y div 100 + y div 400"

definition jan1 :: "int \<Rightarrow> int" where
  "jan1 y = 365 * (y - 1970) + leap_days (y - 1) - 477"

definition cum_days :: "bool \<Rightarrow> int \<Rightarrow> int" where
  "cum_days leap m = (if m = 1 then 0 else if m = 2 then 31
     else month_start (m - 3) + 59 + (if leap then 1 else 0))"

lemma div_400_split:
  fixes q r k j :: int
  assumes "k * j = 400" "0 < k"
  shows "(400 * q + r) div k = j * q + r div k"
proof -
  have "400 * q + r = k * (j * q) + r" using assms(1) by (metis mult.assoc)
  then show ?thesis using assms(2) by (simp only: div_mult_self4)
qed

lemma march1:
  assumes "0 \<le> y"
  shows "(y div 400) * 146097 + year_start (y mod 400)
       = 365 * y + leap_days y"
proof -
  have y: "400 * (y div 400) + y mod 400 = y" by simp
  have "y div 4 = 100 * (y div 400) + (y mod 400) div 4"
    using div_400_split [of 4 100 "y div 400" "y mod 400"] unfolding y by simp
  moreover have "y div 100 = 4 * (y div 400) + (y mod 400) div 100"
    using div_400_split [of 100 4 "y div 400" "y mod 400"] unfolding y by simp
  ultimately show ?thesis using y unfolding year_start_def leap_days_def by linarith
qed

lemma leap_carry:
  fixes a b c a' b' c' :: int
  assumes "a = a' + (if A then 1 else 0)" "b = b' + (if B then 1 else 0)"
    "c = c' + (if C then 1 else 0)" "B \<Longrightarrow> A" "C \<Longrightarrow> B"
  shows "a - b + c = a' - b' + c' + (if (A \<and> \<not> B) \<or> C then 1 else 0)"
  using assms by auto

lemma leap_step:
  "leap_days y = leap_days (y - 1) + (if is_leap_year y then 1 else 0)"
proof -
  have imp: "y mod 100 = 0 \<Longrightarrow> y mod 4 = 0" "y mod 400 = 0 \<Longrightarrow> y mod 100 = 0"
    using dvd_trans [of 4 100 y] dvd_trans [of 100 400 y] unfolding dvd_eq_mod_eq_0 by simp_all
  have d: "y div k = (y - 1) div k + (if y mod k = 0 then 1 else 0)" if "0 < k" for k
    using div_succ [OF that, of "y - 1"] by simp
  show ?thesis
    unfolding is_leap_year_def leap_days_def
    by (rule leap_carry [OF d d d imp]) (rule zero_less_numeral)+
qed

lemma jan1_step: "jan1 (y + 1) = jan1 y + (if is_leap_year y then 366 else 365)"
  using leap_step [of y] by (cases "is_leap_year y") (simp_all add: jan1_def)

text \<open>The civil date of the \<open>r\<close>-th day of year \<open>y\<close>.\<close>

lemma ymd_of_year_day:
  assumes y: "1 \<le> y" and v: "valid_date y m d"
    and t: "t div 86400 = jan1 y + cum_days (is_leap_year y) m + d - 1"
  shows "timestamp_to_ymd t = (y, m, d)"
proof -
  obtain era yoe mp where p: "ymd_of_parts era yoe mp d = (y, m, d)" "valid_parts yoe mp d"
    "0 \<le> era" by (rule date_valid_parts [OF v]) (use y in auto)
  have q: "0 \<le> yoe" "yoe \<le> 399" "0 \<le> mp" "mp \<le> 11" using p(2) by (auto simp: valid_parts_def)
  define y' where "y' = yoe + era * 400"
  have "y' div 400 = era" "y' mod 400 = yoe" using q by (simp_all add: y'_def)
  moreover have "0 \<le> y'" using q p(3) by (simp add: y'_def)
  ultimately have F: "era * 146097 + year_start yoe
      = 365 * y' + leap_days y'" using march1 [of y'] by simp
  have "days_of_parts era yoe mp d = jan1 y + cum_days (is_leap_year y) m + d - 1 + 719468"
  proof (cases "mp < 10")
    case True
    then have e: "y' = y" "m = mp + 3" using p(1) by (auto simp: ymd_of_parts_def y'_def)
    have "m \<noteq> 1" "m \<noteq> 2" using e(2) q(3) by auto
    then show ?thesis using F leap_step [of y] e by (simp add: days_of_parts_def jan1_def cum_days_def)
  next
    case False
    then have e: "y' = y - 1" "m = mp - 9" using p(1) by (auto simp: ymd_of_parts_def y'_def)
    have "mp = 10 \<or> mp = 11" using False q(4) by linarith
    then have "month_start mp = 306 + cum_days (is_leap_year y) m"
      using e(2) by (auto simp: cum_days_def month_start_def)
    then show ?thesis using F e(1) by (simp add: days_of_parts_def jan1_def)
  qed
  then show ?thesis using timestamp_to_ymd_of_parts [OF p(2), of t era] t p(1) by simp
qed

section \<open>The loops\<close>

lemma leap_i32 [simp]: "is_leap_year_i32 y = is_leap_year y"
proof -
  have "tmod y k = 0 \<longleftrightarrow> y mod k = 0" if "0 < k" for k
  proof (cases "0 \<le> y")
    case True
    then show ?thesis using that by (simp add: tmod_nonneg)
  next
    case False
    then have "tmod y k = - ((- y) mod k)" using that
      by (simp add: tmod_def tdiv_neg minus_div_mult_eq_mod [symmetric])
    then show ?thesis by (simp add: mod_eq_0_iff_dvd)
  qed
  then show ?thesis by (simp add: is_leap_year_i32_def is_leap_year_def)
qed

lemma year_len_eq: "year_len y = jan1 (y + 1) - jan1 y"
  by (simp add: year_len_def jan1_step)

lemma year_back_result:
  assumes "- r \<le> y - i32_min" "y \<le> i32_max"
  shows "\<exists>y' r'. year_back y r = Some (y', r') \<and> 0 \<le> r' \<and> r' \<le> max r 366
    \<and> y' \<le> y \<and> y - y' \<le> max 0 (- r)
    \<and> jan1 y' + r' = jan1 y + r"
  using assms
proof (induction y r rule: year_back.induct)
  case (1 y r)
  show ?case
  proof (cases "r < 0")
    case True
    have "365 \<le> year_len (y - 1)" "year_len (y - 1) \<le> 366" by (simp_all add: year_len_def)
    then have "is_i32 (y - 1)" "- (r + year_len (y - 1)) \<le> y - 1 - i32_min" "y - 1 \<le> i32_max"
      using True 1(2,3) by (auto simp: is_i32_def)
    from 1(1) [OF True this] obtain y' r' where
      "year_back (y - 1) (r + year_len (y - 1)) = Some (y', r')" "0 \<le> r'"
      "r' \<le> max (r + year_len (y - 1)) 366" "y' \<le> y - 1"
      "y - 1 - y' \<le> max 0 (- (r + year_len (y - 1)))"
      "jan1 y' + r' = jan1 (y - 1) + (r + year_len (y - 1))" by auto
    then show ?thesis using True \<open>is_i32 (y - 1)\<close> \<open>365 \<le> year_len (y - 1)\<close>
        \<open>year_len (y - 1) \<le> 366\<close> year_len_eq [of "y - 1"]
      by (subst year_back.simps) auto
  next
    case False
    then show ?thesis by (subst year_back.simps) simp
  qed
qed

lemma year_forward_result:
  assumes "0 \<le> r" "r \<le> i32_max - y" "i32_min \<le> y"
  shows "\<exists>y' r'. year_forward y r = Some (y', r') \<and> 0 \<le> r' \<and> r' < year_len y' \<and> y \<le> y'
    \<and> jan1 y' + r' = jan1 y + r"
  using assms
proof (induction y r rule: year_forward.induct)
  case (1 y r)
  show ?case
  proof (cases "r \<ge> year_len y")
    case True
    have "365 \<le> year_len y" by (simp add: year_len_def)
    then have "is_i32 (y + 1)" "0 \<le> r - year_len y" "r - year_len y \<le> i32_max - (y + 1)"
      "i32_min \<le> y + 1"
      using True 1(2-4) by (auto simp: is_i32_def)
    from 1(1) [OF True this] obtain y' r' where
      "year_forward (y + 1) (r - year_len y) = Some (y', r')" "0 \<le> r'" "r' < year_len y'"
      "y + 1 \<le> y'" "jan1 y' + r' = jan1 (y + 1) + (r - year_len y)" by auto
    then show ?thesis using True \<open>is_i32 (y + 1)\<close> year_len_eq [of y]
      by (subst year_forward.simps) auto
  next
    case False
    then show ?thesis using 1(2) by (subst year_forward.simps) simp
  qed
qed

text \<open>The table scan finds the month that holds day \<open>r\<close> of the year.\<close>

definition table_of :: "bool \<Rightarrow> int list" where
  "table_of leap = [31, if leap then 29 else 28, 31, 30, 31, 30, 31, 31, 30, 31, 30, 31]"

lemma month_table_eq: "month_table y = table_of (is_leap_year y)"
  by (simp add: month_table_def table_of_def)

lemma table_scan:
  assumes "0 \<le> r" "r < (if leap then 366 else 365)"
  shows "let i = find_month r 0 (table_of leap); d = r - cum_days leap (int i + 1) + 1 in
     i < 12 \<and> 1 \<le> d \<and> d \<le> table_of leap ! i"
  using assms
  by (cases leap) (simp_all add: table_of_def cum_days_def month_start_def Let_def)

lemma table_entry: "i < 12 \<Longrightarrow> table_of (is_leap_year y) ! i = days_in_month y (int i + 1)"
proof -
  assume "i < 12"
  then have "i \<in> {0, 1, 2, 3, 4, 5, 6, 7, 8, 9, 10, 11}" by simp presburger
  then show ?thesis by (auto simp: table_of_def days_in_month_def)
qed

lemma find_month_date:
  assumes "0 \<le> r" "r < year_len y"
  obtains m d where "valid_date y m d" "r = cum_days (is_leap_year y) m + d - 1"
    "month_table y ! find_month r 0 (month_table y) = days_in_month y m"
proof -
  define i where "i = find_month r 0 (month_table y)"
  define d where "d = r - cum_days (is_leap_year y) (int i + 1) + 1"
  have "r < (if is_leap_year y then 366 else 365)" using assms(2) by (simp add: year_len_def)
  from table_scan [OF assms(1) this]
  have i: "i < 12" "1 \<le> d" "d \<le> table_of (is_leap_year y) ! i"
    by (simp_all add: i_def d_def month_table_eq Let_def)
  show thesis
  proof (rule that [of "int i + 1" d])
    show "valid_date y (int i + 1) d" using i table_entry [OF i(1)] by (simp add: valid_date_def)
    show "r = cum_days (is_leap_year y) (int i + 1) + d - 1" by (simp add: d_def)
    show "month_table y ! find_month r 0 (month_table y) = days_in_month y (int i + 1)"
      using table_entry [OF i(1)] by (simp add: month_table_eq i_def)
  qed
qed

section \<open>The function\<close>

text \<open>The year guess and the day the function effectively looks at.\<close>

definition guess_year :: "int \<Rightarrow> int" where
  "guess_year t = 1970 + t div 86400 div 365"

definition effective_ts :: "int \<Rightarrow> int" where
  "effective_ts t = t - (if is_leap_year (guess_year t) then 86400 else 0)"

lemma leap_count_jan1:
  assumes "1970 \<le> g"
  shows "tdiv (g - 1968) 4 - tdiv (g - 1900) 100 + tdiv (g - 1600) 400
       = jan1 g - 365 * (g - 1970) + (if is_leap_year g then 1 else 0)"
proof -
  have "tdiv (g - 1968) 4 = g div 4 - 492" using assms by (simp add: tdiv_nonneg)
  moreover have "tdiv (g - 1900) 100 = g div 100 - 19" using assms by (simp add: tdiv_nonneg)
  moreover have "tdiv (g - 1600) 400 = g div 400 - 4" using assms by (simp add: tdiv_nonneg)
  ultimately have "tdiv (g - 1968) 4 - tdiv (g - 1900) 100 + tdiv (g - 1600) 400 = leap_days g - 477"
    by (simp add: leap_days_def)
  then show ?thesis using leap_step [of g] by (simp add: jan1_def)
qed

lemma leap_count_bounds:
  assumes "1970 \<le> g"
  shows "0 \<le> jan1 g - 365 * (g - 1970) \<and> jan1 g - 365 * (g - 1970) \<le> g - 1970"
  using assms
proof (induction g rule: int_ge_induct)
  case base
  show ?case by (simp add: jan1_def leap_days_def)
next
  case (step g)
  then show ?case using jan1_step [of g] by (auto split: if_splits)
qed

lemma get_seconds_in_month_run:
  assumes t: "0 \<le> t" "t \<le> 10 ^ 16"
  obtains y m d where "valid_date y m d" "1 \<le> y"
    "effective_ts t div 86400 = jan1 y + cum_days (is_leap_year y) m + d - 1"
    "get_seconds_in_month t s = (Ok (days_in_month y m * 86400), s)"
proof -
  define D where "D = t div 86400"
  define g where "g = guess_year t"
  define L where "L = jan1 g - 365 * (g - 1970) + (if is_leap_year g then 1 else 0)"
  have D: "0 \<le> D" "D \<le> 115740740740" using t by (auto simp: D_def div_int_pos_iff)
  have g: "g = 1970 + D div 365" by (simp add: g_def guess_year_def D_def)
  then have gb: "1970 \<le> g" "g \<le> 317100000" using D by (auto simp: div_int_pos_iff)
  have L: "L = tdiv (g - 1968) 4 - tdiv (g - 1900) 100 + tdiv (g - 1600) 400"
    using leap_count_jan1 [OF gb(1)] by (simp add: L_def)
  have Lb: "0 \<le> L" "L \<le> g - 1969" using leap_count_bounds [OF gb(1)] by (auto simp: L_def)
  define r where "r = D mod 365 - L"
  have "0 \<le> D mod 365" "D mod 365 < 365" by simp_all
  then have rb: "- r \<le> g - 1969 \<and> r < 365" using Lb unfolding r_def by linarith
  have base: "jan1 g + r = D - (if is_leap_year g then 1 else 0)"
  proof -
    have "D = 365 * (D div 365) + D mod 365" by simp
    then show ?thesis by (simp add: r_def L_def g)
  qed
  have g32: "is_i32 g" "is_i32 (g - 1968)" "is_i32 (g - 1900)" "is_i32 (g - 1600)"
    "is_i32 (g - 1970)" using gb by (auto simp: is_i32_def i32_min_def i32_max_def)
  obtain y1 r1 where bk: "year_back g r = Some (y1, r1)" "0 \<le> r1" "r1 \<le> max r 366" "y1 \<le> g"
    "g - y1 \<le> max 0 (- r)" "jan1 y1 + r1 = jan1 g + r"
    using year_back_result [of r g] rb g32(1) gb by (auto simp: is_i32_def i32_min_def)
  have "r1 \<le> i32_max - y1" "i32_min \<le> y1" "1969 \<le> y1"
    using bk rb gb by (auto simp: i32_max_def i32_min_def)
  then obtain y r2 where fwd: "year_forward y1 r1 = Some (y, r2)" "0 \<le> r2" "r2 < year_len y"
    "y1 \<le> y" "jan1 y + r2 = jan1 y1 + r1"
    using year_forward_result [OF bk(2)] by blast
  obtain m d where md: "valid_date y m d" "r2 = cum_days (is_leap_year y) m + d - 1"
    "month_table y ! find_month r2 0 (month_table y) = days_in_month y m"
    using find_month_date [OF fwd(2,3)] by blast
  have cast: "as_i64 t = t" using t by (intro as_i64_id) (simp add: is_i64_def i64_min_def i64_max_def)
  have year: "1970 + as_i32 (D div 365) = g"
    using g32(5) g by (simp add: as_i32_id)
  have rem: "tmod D 365 - (tdiv (g - 1968) 4 - tdiv (g - 1900) 100 + tdiv (g - 1600) 400) = r"
    using D(1) by (simp add: r_def L tmod_nonneg)
  have D': "tdiv t 86400 = D" "tdiv D 365 = D div 365"
    using t(1) D(1) by (simp_all add: D_def tdiv_nonneg)
  have "get_seconds_in_month t s = (Ok (days_in_month y m * 86400), s)"
    unfolding get_seconds_in_month_def Let_def cast D' year
    using g32 md(3) by (simp add: proc_run bk(1) fwd(1) rem)
  moreover have "effective_ts t div 86400 = jan1 y + cum_days (is_leap_year y) m + d - 1"
  proof -
    have "effective_ts t div 86400 = D - (if is_leap_year g then 1 else 0)"
      using div_mult_self4 [of 86400 "-1" t] by (simp add: effective_ts_def g_def D_def)
    then show ?thesis using base bk(6) fwd(5) md(2) by simp
  qed
  moreover have "1 \<le> y" using \<open>1969 \<le> y1\<close> fwd(4) by simp
  ultimately show thesis using md(1) by (intro that)
qed

lemma get_seconds_in_month_eff:
  assumes "0 \<le> t" "t \<le> 10 ^ 16"
  shows "get_seconds_in_month t s
       = (let (y, m, d) = timestamp_to_ymd (effective_ts t)
          in (Ok (days_in_month y m * 86400) :: ('e, int) outcome, s))"
proof (rule get_seconds_in_month_run [OF assms, of s])
  fix y m d
  assume a: "valid_date y m d" "1 \<le> y"
    "effective_ts t div 86400 = jan1 y + cum_days (is_leap_year y) m + d - 1"
    "get_seconds_in_month t s = (Ok (days_in_month y m * 86400) :: ('e, int) outcome, s)"
  show ?thesis using ymd_of_year_day [OF a(2,1,3)] a(4) by simp
qed

text \<open>\<^verbatim>\<open>get_seconds_in_month\<close> never panics on timestamps up to \<open>10 ^ 16\<close>, and there it returns the
  length of the month of an effective day: the day of the timestamp, except that when the guessed
  year \<open>1970 + days div 365\<close> is a leap year it is the day before.\<close>

lemma get_seconds_in_month_exact:
  assumes "0 \<le> t" "t \<le> 10 ^ 16" "timestamp_to_ymd (effective_ts t) = (y, m, d)"
  shows "get_seconds_in_month t s = (Ok (days_in_month y m * 86400), s)"
  using get_seconds_in_month_eff [OF assms(1,2), of s] assms(3) by simp

lemma get_seconds_in_month_exact_witness:
  "get_seconds_in_month 1706745600 (0::nat) = (Ok (days_in_month 2024 1 * 86400) :: (unit, int) outcome, 0)"
proof -
  have "(0::int) \<le> 1706745600" "(1706745600::int) \<le> 10 ^ 16"
    "timestamp_to_ymd (effective_ts 1706745600) = (2024, 1, 31)" by code_simp+
  from get_seconds_in_month_exact [OF this, of "0::nat"] show ?thesis .
qed

text \<open>In particular the result is right, the length of the timestamp's own month, whenever
  the guessed year is not a leap year.\<close>

theorem get_seconds_in_month_common_year:
  assumes "0 \<le> t" "t \<le> 10 ^ 16" "\<not> is_leap_year (guess_year t)"
    "timestamp_to_ymd t = (y, m, d)"
  shows "get_seconds_in_month t s = (Ok (days_in_month y m * 86400), s)"
  using get_seconds_in_month_eff [OF assms(1,2), of s] assms(3,4) by (simp add: effective_ts_def)

theorem get_seconds_in_month_common_year_witness:
  "get_seconds_in_month 1675209600 (0::nat) = (Ok (days_in_month 2023 2 * 86400) :: (unit, int) outcome, 0)"
proof -
  have "(0::int) \<le> 1675209600" "(1675209600::int) \<le> 10 ^ 16"
    "\<not> is_leap_year (guess_year 1675209600)" "timestamp_to_ymd 1675209600 = (2023, 2, 1)"
    by code_simp+
  from get_seconds_in_month_common_year [OF this, of "0::nat"] show ?thesis .
qed

section \<open>The civil year\<close>

lemma year_day_exists:
  assumes "0 \<le> D"
  shows "\<exists>y r. 1970 \<le> y \<and> 0 \<le> r \<and> r < year_len y \<and> jan1 y + r = D"
  using assms
proof (induction D rule: int_ge_induct)
  case base
  have "jan1 1970 + 0 = 0" by (simp add: jan1_def leap_days_def)
  moreover have "0 < year_len 1970" by (simp add: year_len_def)
  ultimately show ?case by (metis order_refl)
next
  case (step D)
  then obtain y r where yr: "1970 \<le> y" "0 \<le> r" "r < year_len y" "jan1 y + r = D" by blast
  show ?case
  proof (cases "r + 1 < year_len y")
    case True
    then show ?thesis using yr by (intro exI [of _ y] exI [of _ "r + 1"]) simp
  next
    case False
    have "0 < year_len (y + 1)" by (simp add: year_len_def)
    then show ?thesis using False yr year_len_eq [of y]
      by (intro exI [of _ "y + 1"] exI [of _ 0]) simp
  qed
qed

text \<open>The date that the calendar gives to a timestamp, as a day of its year.\<close>

lemma ymd_year_day:
  assumes "0 \<le> t" "timestamp_to_ymd t = (y, m, d)"
  shows "t div 86400 = jan1 y + cum_days (is_leap_year y) m + d - 1" "valid_date y m d" "1970 \<le> y"
proof -
  have "0 \<le> t div 86400" using assms(1) by (simp add: pos_imp_zdiv_nonneg_iff)
  from year_day_exists [OF this] obtain y' r where
    yr: "1970 \<le> y'" "0 \<le> r" "r < year_len y'" "jan1 y' + r = t div 86400" by blast
  obtain m' d' where md: "valid_date y' m' d'" "r = cum_days (is_leap_year y') m' + d' - 1"
    using find_month_date [OF yr(2,3)] by blast
  have day: "t div 86400 = jan1 y' + cum_days (is_leap_year y') m' + d' - 1" using yr(4) md(2) by simp
  have "timestamp_to_ymd t = (y', m', d')" using yr(1) by (intro ymd_of_year_day [OF _ md(1) day]) simp
  then have eq: "y' = y" "m' = m" "d' = d" using assms(2) by simp_all
  show "t div 86400 = jan1 y + cum_days (is_leap_year y) m + d - 1" "valid_date y m d" "1970 \<le> y"
    using day md(1) yr(1) unfolding eq by simp_all
qed

text \<open>Until 2092 at most thirty leap days have passed, so a guessed year that runs ahead does so in December.\<close>

lemma leap_count_mono: "a \<le> b \<Longrightarrow> jan1 a - 365 * (a - 1970) \<le> jan1 b - 365 * (b - 1970)"
proof (induction b rule: int_ge_induct)
  case (step b)
  then show ?case using jan1_step [of b] by (auto split: if_splits)
qed simp

lemma leap_count_2092:
  assumes "1970 \<le> y" "y \<le> 2092"
  shows "0 \<le> jan1 y - 365 * (y - 1970) \<and> jan1 y - 365 * (y - 1970) \<le> 30"
proof -
  have "jan1 2092 - 365 * (2092 - 1970) = 30" by (simp add: jan1_def leap_days_def)
  then show ?thesis using leap_count_bounds [OF assms(1)] leap_count_mono [OF assms(2)] by linarith
qed

lemma cum_days_bounds:
  assumes "1 \<le> m" "m \<le> 12"
  shows "0 \<le> cum_days leap m" "cum_days leap m \<le> 334 + (if leap then 1 else 0)"
    "cum_days leap m + days_in_month y m \<le> 365 + (if leap then 1 else 0) + (if is_leap_year y then 1 else 0)"
proof -
  have "m \<in> {1, 2, 3, 4, 5, 6, 7, 8, 9, 10, 11, 12}" using assms by simp presburger
  then show "0 \<le> cum_days leap m" "cum_days leap m \<le> 334 + (if leap then 1 else 0)"
    "cum_days leap m + days_in_month y m \<le> 365 + (if leap then 1 else 0) + (if is_leap_year y then 1 else 0)"
    by (auto simp: cum_days_def month_start_def days_in_month_def)
qed

lemma guess_runs_ahead:
  assumes "0 \<le> t" "timestamp_to_ymd t = (y, m, d)" "y \<le> 2092"
  shows "guess_year t = y \<or> guess_year t = y + 1 \<and> (is_leap_year y \<or> 2 \<le> d)"
proof -
  define L where "L = jan1 y - 365 * (y - 1970)"
  define doy where "doy = cum_days (is_leap_year y) m + d - 1"
  have v: "valid_date y m d" and y: "1970 \<le> y" by (rule ymd_year_day [OF assms(1,2)])+
  have L: "0 \<le> L" "L \<le> 30"
    using leap_count_2092 [OF y assms(3)] by (simp_all add: L_def)
  have md: "1 \<le> m" "m \<le> 12" "1 \<le> d" "d \<le> days_in_month y m" using v by (simp_all add: valid_date_def)
  have doy: "0 \<le> doy" "doy \<le> 366" "d = 1 \<longrightarrow> \<not> is_leap_year y \<longrightarrow> doy \<le> 334"
    using md cum_days_bounds(1,2) [OF md(1,2), of "is_leap_year y"]
      cum_days_bounds(3) [OF md(1,2), of "is_leap_year y" y] by (auto simp: doy_def split: if_splits)
  have "t div 86400 = 365 * (y - 1970) + (L + doy)"
    using ymd_year_day(1) [OF assms(1,2)] by (simp add: L_def doy_def)
  then have g: "guess_year t = y + (L + doy) div 365" by (simp add: guess_year_def)
  show ?thesis
  proof (cases "L + doy < 365")
    case True
    then show ?thesis using g L(1) doy(1) by simp
  next
    case False
    then have "(L + doy - 365) div 365 = 0" using L(2) doy(2) by (intro div_pos_pos_trivial) linarith+
    then have "(L + doy) div 365 = 1" using div_mult_self4 [of 365 1 "L + doy - 365"] by simp
    moreover have "2 \<le> d \<or> is_leap_year y" using False L(2) doy(3) md(3) by linarith
    ultimately show ?thesis using g by auto
  qed
qed

lemma no_two_leap_years: "is_leap_year y \<Longrightarrow> \<not> is_leap_year (y + 1)"
proof -
  assume "is_leap_year y"
  then have "y mod 4 = 0" using dvd_trans [of 4 400 y] by (auto simp: is_leap_year_def dvd_eq_mod_eq_0)
  then have "(y + 1) mod 4 \<noteq> 0" by presburger
  then show ?thesis using dvd_trans [of 4 400 "y + 1"] by (auto simp: is_leap_year_def dvd_eq_mod_eq_0)
qed

text \<open>So the function is right in every year up to 2092, except on the first day of a month of a leap year.\<close>

lemma seconds_in_month_right:
  assumes "0 \<le> t" "t \<le> 10 ^ 16" "timestamp_to_ymd t = (y, m, d)" "y \<le> 2092" "\<not> is_leap_year y \<or> 2 \<le> d"
  shows "get_seconds_in_month t s = (Ok (days_in_month y m * 86400) :: ('e, int) outcome, s)"
proof (cases "is_leap_year (guess_year t)")
  case False
  then show ?thesis using get_seconds_in_month_eff [OF assms(1,2), of s] assms(3) by (simp add: effective_ts_def)
next
  case True
  have d: "2 \<le> d"
    using guess_runs_ahead [OF assms(1,3,4)] assms(5) True no_two_leap_years by auto
  have v: "valid_date y m (d - 1)" and y: "1 \<le> y"
    using ymd_year_day(2,3) [OF assms(1,3)] d by (simp_all add: valid_date_def)
  have "effective_ts t div 86400 = t div 86400 - 1"
    using True div_mult_self4 [of 86400 "-1" t] by (simp add: effective_ts_def)
  then have "effective_ts t div 86400 = jan1 y + cum_days (is_leap_year y) m + (d - 1) - 1"
    using ymd_year_day(1) [OF assms(1,3)] by simp
  from ymd_of_year_day [OF y v this] show ?thesis
    using get_seconds_in_month_eff [OF assms(1,2), of s] by simp
qed

text \<open>Claim C24. \<^verbatim>\<open>get_seconds_in_month\<close> is right in the civil calendar. For a timestamp from 1970 to the end of
  2092, in a year that is not a leap year, or in a leap year on any day but the first of a month, it does not
  panic and returns the number of seconds of the month in which the calendar puts the timestamp.\<close>

theorem get_seconds_in_month_right:
  assumes "0 \<le> t" "timestamp_to_ymd t = (y, m, d)" "y \<le> 2092" "\<not> is_leap_year y \<or> 2 \<le> d"
  shows "get_seconds_in_month t s = (Ok (days_in_month y m * 86400) :: ('e, int) outcome, s)"
proof -
  have v: "valid_date y m d" and y: "1970 \<le> y" by (rule ymd_year_day [OF assms(1,2)])+
  have "1 \<le> m" "m \<le> 12" "d \<le> days_in_month y m" using v by (simp_all add: valid_date_def)
  then have "t div 86400 \<le> 365 * (y - 1970) + 500"
    using ymd_year_day(1) [OF assms(1,2)] leap_count_2092 [OF y assms(3)]
      cum_days_bounds(3) [of m "is_leap_year y" y]
    by (simp split: if_splits)
  then have "t div 86400 \<le> 100000" using assms(3) by simp
  then have "t \<le> 10 ^ 16" by simp
  then show ?thesis by (rule seconds_in_month_right [OF assms(1) _ assms(2-4)])
qed

theorem get_seconds_in_month_right_witness:
  "get_seconds_in_month 1675209600 (0::nat) = (Ok (days_in_month 2023 2 * 86400) :: (unit, int) outcome, 0)"
proof -
  have "(0::int) \<le> 1675209600" "timestamp_to_ymd 1675209600 = (2023, 2, 1)" "(2023::int) \<le> 2092"
    "\<not> is_leap_year 2023 \<or> 2 \<le> (1::int)"
    by code_simp+
  from get_seconds_in_month_right [OF this, of "0::nat"] show ?thesis .
qed

text \<open>On 1 February 2024 and on 1 April 2024 the off-by-one shows: the function answers 31 days, where
  the crate's own unit tests expect 29 and 30.\<close>

lemma seconds_in_leap_months_off_by_one:
  "get_seconds_in_month 1706745600 (0::nat) = (Ok (31 * 86400) :: (unit, int) outcome, 0)"
  "get_seconds_in_month 1711929600 (0::nat) = (Ok (31 * 86400) :: (unit, int) outcome, 0)"
  "timestamp_to_ymd 1706745600 = (2024, 2, 1)" "timestamp_to_ymd 1711929600 = (2024, 4, 1)"
  by code_simp+

end
