(* ===== verification/Lease_Rent.thy ===== *)
theory Lease_Rent
  imports Lease_Months
begin

text \<open>
  The money functions of \<^verbatim>\<open>leaseflow_math\<close>: the deposit split conserves the deposit, prorated rent
  is the exact floor of rent times duration over the month, and a termination refund never
  exceeds what was paid and stays one unit below it.
\<close>

section \<open>Deposit split\<close>

definition split_shares :: "int \<Rightarrow> int \<Rightarrow> int \<times> int" where
  "split_shares bps dep = the (calculate_deposit_split dep bps)"

definition split_ok :: "int \<Rightarrow> int \<Rightarrow> bool" where
  "split_ok bps dep \<longleftrightarrow> 0 \<le> dep \<and> is_u32 bps \<and> calculate_deposit_split dep bps \<noteq> None"

lemma deposit_split_Some_iff:
  assumes "0 \<le> dep" "is_i128 dep" "0 \<le> bps"
  shows "calculate_deposit_split dep bps =
    (if dep * min bps 10000 \<le> i128_max
     then Some (dep * min bps 10000 div 10000, dep - dep * min bps 10000 div 10000) else None)"
proof -
  define pct where "pct = min bps 10000"
  have p: "0 \<le> pct" "pct \<le> 10000" using assms by (auto simp: pct_def)
  define prod where "prod = dep * pct"
  have prod: "0 \<le> prod" using assms p by (simp add: prod_def)
  have "0 \<le> tdiv prod 10000" "tdiv prod 10000 \<le> dep"
    using tdiv_share_bounds [of dep pct 10000] assms p by (auto simp: prod_def)
  then show ?thesis using assms prod unfolding calculate_deposit_split_def Let_def
    by (simp add: is_i128_def i128_min_def tdiv_nonneg checked_i128_def
        flip: pct_def prod_def)
qed

interpretation deposit_split: payout_split split_shares split_ok
proof
  fix bps dep
  assume ok: "split_ok bps dep"
  then obtain l t where s: "calculate_deposit_split dep bps = Some (l, t)"
    by (auto simp: split_ok_def)
  then have "is_i128 (dep * min bps 10000)" "l = tdiv (dep * min bps 10000) 10000" "t = dep - l"
    by (auto simp: calculate_deposit_split_def Let_def split: option.splits)
  moreover have "0 \<le> tdiv (dep * min bps 10000) 10000"
    "tdiv (dep * min bps 10000) 10000 \<le> dep"
    using ok tdiv_share_bounds [of dep "min bps 10000" 10000]
    by (auto simp: split_ok_def is_u32_def)
  ultimately show "fst (split_shares bps dep) + snd (split_shares bps dep) = dep"
    "0 \<le> fst (split_shares bps dep)" "0 \<le> snd (split_shares bps dep)"
    by (simp_all add: split_shares_def s)
qed

text \<open>When the deposit split returns shares for a non-negative deposit, both are
  non-negative and they add up to the deposit exactly.\<close>

theorem deposit_split_conserves:
  assumes "0 \<le> dep" "is_u32 bps" "calculate_deposit_split dep bps = Some (landlord, tenant)"
  shows "landlord + tenant = dep \<and> 0 \<le> landlord \<and> landlord \<le> dep \<and> 0 \<le> tenant"
proof -
  have ok: "split_ok bps dep" using assms by (simp add: split_ok_def)
  have "split_shares bps dep = (landlord, tenant)" using assms(3) by (simp add: split_shares_def)
  then show ?thesis
    using deposit_split.conserve [OF ok] deposit_split.fst_nonneg [OF ok]
      deposit_split.snd_nonneg [OF ok] by simp
qed

theorem deposit_split_conserves_witness:
  "(333::int) + 668 = 1001 \<and> 0 \<le> (333::int) \<and> (333::int) \<le> 1001 \<and> 0 \<le> (668::int)"
proof -
  have "(0::int) \<le> 1001" "is_u32 3333" "calculate_deposit_split 1001 3333 = Some (333, 668)"
    by code_simp+
  from deposit_split_conserves [OF this] show ?thesis .
qed

section \<open>Prorated rent\<close>

lemma days_in_month_bounds: "28 \<le> days_in_month y m" "days_in_month y m \<le> 31"
  by (auto simp: days_in_month_def)

lemma get_seconds_in_month_bounds:
  assumes "0 \<le> t" "t \<le> 10 ^ 16"
  shows "\<exists>sec. get_seconds_in_month t s = (Ok sec :: ('e, int) outcome, s)
    \<and> 28 * 86400 \<le> sec \<and> sec \<le> 31 * 86400"
proof -
  obtain y m d where "timestamp_to_ymd (effective_ts t) = (y, m, d)" by (cases "timestamp_to_ymd (effective_ts t)")
  then show ?thesis using get_seconds_in_month_eff [OF assms, of s] days_in_month_bounds [of y m] by auto
qed

lemma i64_u64_product: "is_i64 a \<Longrightarrow> is_u64 b \<Longrightarrow> is_i128 (a * b)"
proof -
  assume a: "is_i64 a" and b: "is_u64 b"
  have "\<bar>a * b\<bar> = \<bar>a\<bar> * b" using b by (simp add: abs_mult is_u64_def)
  also have "\<dots> \<le> 2 ^ 63 * (2 ^ 64 - 1)"
    using a b by (intro mult_mono) (auto simp: is_i64_def is_u64_def int_bounds)
  finally show ?thesis by (auto simp: is_i128_def int_bounds)
qed

text \<open>For a positive rent and a non-empty period, prorated rent is the exact floor of
  rent times seconds over the seconds of the start month, or nothing when that leaves \<^verbatim>\<open>i64\<close>; for
  a period within the month it is at most the monthly rent.\<close>

theorem prorated_rent_exact:
  assumes "0 < rent" "is_i64 rent" "0 \<le> start" "start < fin" "start \<le> 10 ^ 16" "is_u64 fin"
    and sec: "get_seconds_in_month start s = (Ok sec :: ('e, int) outcome, s)"
  shows "calculate_prorated_rent rent start fin s =
      (Ok (if rent * (fin - start) div sec \<le> i64_max
           then Some (rent * (fin - start) div sec, fin - start) else None) :: ('e, _) outcome, s)
    \<and> (fin - start \<le> sec \<longrightarrow> rent * (fin - start) div sec \<le> rent)"
proof -
  have secb: "28 * 86400 \<le> sec"
    using get_seconds_in_month_bounds [OF assms(3,5), of s, where ?'e = 'e] sec by auto
  have dur: "is_u64 (fin - start)" "sat_u64 (fin - start) = fin - start"
    using assms(3,4,6) by (auto simp: is_u64_def intro!: sat_id)
  have prod: "is_i128 (rent * (fin - start))" using i64_u64_product [OF assms(2) dur(1)] .
  have nn: "0 \<le> rent * (fin - start)" using assms by simp
  have "rent * (fin - start) div sec \<le> rent * sec div sec" if "fin - start \<le> sec"
    using that secb assms(1) by (intro zdiv_mono1) auto
  then show ?thesis
    using assms(1,4) secb nn prod
    by (simp add: calculate_prorated_rent_def Let_def bind_run sec dur tdiv_nonneg checked_i128_def)
qed

theorem prorated_rent_exact_witness:
  "calculate_prorated_rent 1000 1704067200 1704153600 (0::nat)
     = (Ok (Some (32, 86400)) :: (unit, _) outcome, 0)"
proof -
  have "(0::int) < 1000" "is_i64 1000" "(0::int) \<le> 1704067200" "(1704067200::int) < 1704153600"
    "(1704067200::int) \<le> 10 ^ 16" "is_u64 1704153600"
    "get_seconds_in_month 1704067200 (0::nat) = (Ok 2678400 :: (unit, int) outcome, 0)"
    by code_simp+
  from prorated_rent_exact [OF this] show ?thesis by (simp add: i64_max_def)
qed

section \<open>Termination refund\<close>

text \<open>A termination refund is never negative, and is strictly below the amount paid when
  that is positive (the one-unit security margin); it is returned exactly for termination times
  strictly inside the lease period.\<close>

theorem termination_refund_bounds:
  assumes "0 \<le> rent" "is_i64 rent" "is_i64 paid" "is_u64 fin" "0 \<le> t" "t \<le> 10 ^ 16"
    and sec: "get_seconds_in_month t s = (Ok sec :: ('e, int) outcome, s)"
  shows "\<exists>r. calculate_termination_refund rent start fin t paid s = (Ok r :: ('e, _) outcome, s)
    \<and> (r = None \<longleftrightarrow> t \<le> start \<or> fin \<le> t \<or>
         (i64_max < rent * (fin - t) div sec \<and> rent * (fin - t) div sec \<le> paid))
    \<and> (\<forall>x. r = Some x \<longrightarrow> x = max 0 (min paid (rent * (fin - t) div sec) - 1)
         \<and> 0 \<le> x \<and> x \<le> max 0 (paid - 1))"
proof -
  have secb: "28 * 86400 \<le> sec"
    using get_seconds_in_month_bounds [OF assms(5,6), of s, where ?'e = 'e] sec by auto
  show ?thesis
  proof (cases "t \<le> start \<or> fin \<le> t")
    case True
    then show ?thesis by (auto simp: calculate_termination_refund_def)
  next
    case False
    have dur: "is_u64 (fin - t)" "sat_u64 (fin - t) = fin - t"
      using False assms(4,5) by (auto simp: is_u64_def intro!: sat_id)
    have prod: "is_i128 (rent * (fin - t))" using i64_u64_product [OF assms(2) dur(1)] .
    define q where "q = rent * (fin - t) div sec"
    have q: "0 \<le> q" "tdiv (rent * (fin - t)) sec = q"
      using False assms(1) secb by (simp_all add: q_def tdiv_nonneg div_int_pos_iff)
    have "as_i64 q = q" if "\<not> i64_max < q"
      using that q(1) by (intro as_i64_id) (simp add: is_i64_def i64_min_def)
    moreover have "paid \<le> i64_max" using assms(3) by (simp add: is_i64_def)
    ultimately show ?thesis
      using False secb prod q unfolding q_def [symmetric]
      by (auto simp: calculate_termination_refund_def Let_def bind_run sec dur checked_i128_def)
  qed
qed

theorem termination_refund_bounds_witness:
  "\<exists>r. calculate_termination_refund 1000 1704067200 1706668800 1704921600 1000 (0::nat)
      = (Ok r :: (unit, _) outcome, 0) \<and> r \<noteq> None"
proof -
  have "(0::int) \<le> 1000" "is_i64 1000" "is_u64 1706668800" "(0::int) \<le> 1704921600"
    "(1704921600::int) \<le> 10 ^ 16"
    "get_seconds_in_month 1704921600 (0::nat) = (Ok 2678400 :: (unit, int) outcome, 0)"
    by code_simp+
  from termination_refund_bounds [OF this(1,2,2,3-6), of 1704067200] show ?thesis
    by (auto simp: i64_max_def)
qed

end
