(* ===== verification/Soroban_Host.thy ===== *)
theory Soroban_Host
  imports Rust_Arith
begin

text \<open>
  What the contracts use of the Soroban host: the call environment (ledger time and sequence, the
  addresses that authorised the call, the contract's own address), events, calls to contracts and
  host functions outside the repository, and the ordered \<^verbatim>\<open>Map\<close> of the SDK.
\<close>

type_synonym address = nat
type_synonym bytes32 = nat

section \<open>Calls out of the contract\<close>

text \<open>
  Everything the contracts call that is not in the repository (tokens, NFTs, KYC providers, DEXes,
  yield protocols, asset registries, price oracles, the deployer, signature verification) answers
  through the parameter \<open>ext\<close> of the environment: the reply to a call may depend on every call made
  before it. \<open>Reply_trap\<close> is a callee that panics, \<open>Reply_err\<close> one that returns an error value.
\<close>

datatype ext_call =
    TokenTransfer address address address int
  | TokenBalance address address
  | NftTransfer address address address address int
  | IsVerified address address
  | PathPayment address address address int int "address list"
  | YieldDeposit address address int
  | YieldWithdraw address address int
  | YieldClaim address address
  | RegistryInfo address
  | VerifyOwnership address int address
  | FreezeAsset address int address
  | ThawAsset address int address bytes32
  | UpdateAssetMetadata address int string string
  | GetPrice address address
  | Ed25519Verify bytes32 int bytes32
  | UpdateWasm bytes32
  | BurnDerivedTokens int
  | RevokeAccessToken int

datatype reply =
    Reply_unit
  | Reply_bool bool
  | Reply_int int
  | Reply_hash bytes32
  | Reply_price int int address int
  | Reply_err
  | Reply_trap

record env =
  ledger_timestamp :: int
  ledger_sequence :: int
  auths :: "address list"
  current_contract :: address
  ext :: "ext_call list \<Rightarrow> ext_call \<Rightarrow> reply"

text \<open>The part of a contract's state the host keeps: published events and completed calls. Every
  contract state extends it.\<close>

record 'ev host =
  events :: "'ev list"
  calls :: "ext_call list"

definition publish :: "'ev \<Rightarrow> (('ev, 'x) host_scheme, 'e, unit) proc" where
  "publish ev = modify (\<lambda>s. s\<lparr>events := events s @ [ev]\<rparr>)"

definition call_ext :: "env \<Rightarrow> ext_call \<Rightarrow> (('ev, 'x) host_scheme, 'e, reply) proc" where
  "call_ext env c = (\<lambda>s. let r = ext env (calls s) c in
     if r = Reply_trap then (Trap, s) else (Ok r, s\<lparr>calls := calls s @ [c]\<rparr>))"

definition require_auth :: "env \<Rightarrow> address \<Rightarrow> ('s, 'e, unit) proc" where
  "require_auth env a = require (a \<in> set (auths env))"

text \<open>Calls whose result type is fixed by the client interface; a reply of another shape is a
  conversion failure of the host and traps.\<close>

definition call_unit :: "env \<Rightarrow> ext_call \<Rightarrow> (('ev, 'x) host_scheme, 'e, unit) proc" where
  "call_unit env c = bind (call_ext env c) (\<lambda>r. require (r = Reply_unit))"

definition call_bool :: "env \<Rightarrow> ext_call \<Rightarrow> (('ev, 'x) host_scheme, 'e, bool) proc" where
  "call_bool env c = bind (call_ext env c) (\<lambda>r. case r of Reply_bool b \<Rightarrow> return b | _ \<Rightarrow> trap)"

definition call_int :: "env \<Rightarrow> ext_call \<Rightarrow> (('ev, 'x) host_scheme, 'e, int) proc" where
  "call_int env c = bind (call_ext env c) (\<lambda>r. case r of Reply_int i \<Rightarrow> return i | _ \<Rightarrow> trap)"

lemma publish_Ok_iff [proc_ok]:
  "publish ev s = (Ok a, s') \<longleftrightarrow> s' = s\<lparr>events := events s @ [ev]\<rparr>"
  by (auto simp: publish_def)

lemma publish_run [proc_run]: "publish ev s = (Ok (), s\<lparr>events := events s @ [ev]\<rparr>)"
  by (simp add: publish_def)

lemma call_ext_Ok_iff [proc_ok]:
  "call_ext env c s = (Ok r, s') \<longleftrightarrow>
     r = ext env (calls s) c \<and> r \<noteq> Reply_trap \<and> s' = s\<lparr>calls := calls s @ [c]\<rparr>"
  by (auto simp: call_ext_def Let_def)

lemma call_ext_run [proc_run]:
  "call_ext env c s = (if ext env (calls s) c = Reply_trap then (Trap, s)
     else (Ok (ext env (calls s) c), s\<lparr>calls := calls s @ [c]\<rparr>))"
  by (simp add: call_ext_def Let_def)

lemma call_unit_Ok_iff [proc_ok]:
  "call_unit env c s = (Ok r, s') \<longleftrightarrow>
     ext env (calls s) c = Reply_unit \<and> s' = s\<lparr>calls := calls s @ [c]\<rparr>"
  by (auto simp: call_unit_def proc_ok)

lemma call_unit_run [proc_run]:
  "ext env (calls s) c = Reply_unit \<Longrightarrow> call_unit env c s = (Ok (), s\<lparr>calls := calls s @ [c]\<rparr>)"
  by (simp add: call_unit_def proc_run)

lemma call_bool_Ok_iff [proc_ok]:
  "call_bool env c s = (Ok b, s') \<longleftrightarrow>
     ext env (calls s) c = Reply_bool b \<and> s' = s\<lparr>calls := calls s @ [c]\<rparr>"
  by (auto simp: call_bool_def proc_ok split: reply.splits)

lemma call_int_Ok_iff [proc_ok]:
  "call_int env c s = (Ok i, s') \<longleftrightarrow>
     ext env (calls s) c = Reply_int i \<and> s' = s\<lparr>calls := calls s @ [c]\<rparr>"
  by (auto simp: call_int_def proc_ok split: reply.splits)

lemma require_auth_Ok_iff [proc_ok]:
  "require_auth env a s = (Ok r, s') \<longleftrightarrow> a \<in> set (auths env) \<and> s' = s"
  by (auto simp: require_auth_def proc_ok)

lemma require_auth_run [proc_run]:
  "require_auth env a s = (if a \<in> set (auths env) then (Ok (), s) else (Trap, s))"
  by (simp add: require_auth_def proc_run)

lemma keeps_require_auth [keeps_intros]: "keeps P (require_auth env a)"
  by (simp add: keeps_def require_auth_run)

section \<open>Key-value stores\<close>

lemma map_upd_same_iff [simp]: "f(k \<mapsto> x) = f(k \<mapsto> y) \<longleftrightarrow> x = y"
  by (auto dest: map_upd_eqD1)

text \<open>What the contracts rely on when they keep records under keys: a lookup after an insert.\<close>

locale kv_store =
  fixes lookup :: "'m \<Rightarrow> 'k \<Rightarrow> 'v option"
    and insert :: "'k \<Rightarrow> 'v \<Rightarrow> 'm \<Rightarrow> 'm"
  assumes lookup_insert: "lookup (insert k v m) k' = (if k' = k then Some v else lookup m k')"
begin

lemma lookup_insert_same: "lookup (insert k v m) k = Some v"
  by (simp add: lookup_insert)

lemma lookup_insert_other: "k' \<noteq> k \<Longrightarrow> lookup (insert k v m) k' = lookup m k'"
  by (simp add: lookup_insert)

text \<open>A property of all records survives an insert that satisfies it.\<close>

lemma all_insert:
  "(\<And>k v. lookup m k = Some v \<Longrightarrow> P k v) \<Longrightarrow> P k0 v0 \<Longrightarrow>
     lookup (insert k0 v0 m) k = Some v \<Longrightarrow> P k v"
  by (auto simp: lookup_insert split: if_splits)

end

locale kv_store_delete = kv_store lookup insert
  for lookup :: "'m \<Rightarrow> 'k \<Rightarrow> 'v option" and insert :: "'k \<Rightarrow> 'v \<Rightarrow> 'm \<Rightarrow> 'm" +
  fixes remove :: "'k \<Rightarrow> 'm \<Rightarrow> 'm"
  assumes lookup_remove: "lookup (remove k m) k' = (if k' = k then None else lookup m k')"
begin

lemma lookup_remove_same: "lookup (remove k m) k = None"
  by (simp add: lookup_remove)

lemma all_remove:
  "(\<And>k v. lookup m k = Some v \<Longrightarrow> P k v) \<Longrightarrow> lookup (remove k0 m) k = Some v \<Longrightarrow> P k v"
  by (auto simp: lookup_remove split: if_splits)

end

section \<open>The SDK's ordered map\<close>

text \<open>\<^verbatim>\<open>soroban_sdk::Map\<close> keeps its entries sorted by key; iteration follows that order.\<close>

type_synonym ('k, 'v) omap = "('k \<times> 'v) list"

definition omap_get :: "('k, 'v) omap \<Rightarrow> 'k \<Rightarrow> 'v option" where
  "omap_get m k = map_of m k"

fun omap_set :: "'k::linorder \<Rightarrow> 'v \<Rightarrow> ('k, 'v) omap \<Rightarrow> ('k, 'v) omap" where
  "omap_set k v [] = [(k, v)]"
| "omap_set k v ((k', v') # m) =
     (if k < k' then (k, v) # (k', v') # m
      else if k = k' then (k, v) # m
      else (k', v') # omap_set k v m)"

definition omap_ok :: "('k::linorder, 'v) omap \<Rightarrow> bool" where
  "omap_ok m \<longleftrightarrow> sorted_wrt (<) (map fst m)"

lemma omap_get_set: "omap_ok m \<Longrightarrow> omap_get (omap_set k v m) k' = (if k' = k then Some v else omap_get m k')"
proof (induction m)
  case (Cons x m)
  then show ?case by (cases x) (auto simp: omap_get_def omap_ok_def)
qed (simp add: omap_get_def)

lemma omap_set_keys: "fst ` set (omap_set k v m) = insert k (fst ` set m)"
  by (induction k v m rule: omap_set.induct) auto

lemma omap_ok_set: "omap_ok m \<Longrightarrow> omap_ok (omap_set k v m)"
proof (induction k v m rule: omap_set.induct)
  case (2 k v k' v' m)
  have "\<forall>x \<in> fst ` set (omap_set k v m). k' < x" if "k' < k"
    unfolding omap_set_keys using that 2(2) by (auto simp: omap_ok_def)
  then show ?case using 2 by (auto simp: omap_ok_def)
qed (simp add: omap_ok_def)

lemma omap_ok_Nil [simp]: "omap_ok []"
  by (simp add: omap_ok_def)

lemma omap_set_set: "omap_set k v (omap_set k w m) = omap_set k v m"
  by (induction k w m rule: omap_set.induct) auto

lemma omap_get_Nil [simp]: "omap_get [] k = None"
  by (simp add: omap_get_def)

lemma omap_get_in: "omap_get m k = Some v \<Longrightarrow> (k, v) \<in> set m"
  by (simp add: omap_get_def map_of_SomeD)

lemma omap_in_get: "omap_ok m \<Longrightarrow> (k, v) \<in> set m \<Longrightarrow> omap_get m k = Some v"
proof -
  assume "omap_ok m" "(k, v) \<in> set m"
  moreover have "distinct (map fst m)" using \<open>omap_ok m\<close>
    by (auto simp: omap_ok_def distinct_conv_nth sorted_wrt_iff_nth_less neq_iff dest: less_imp_neq)
  ultimately show ?thesis by (simp add: omap_get_def)
qed

text \<open>The sum of a measure over the entries, and what an update does to it.\<close>

definition omap_sum :: "('v \<Rightarrow> int) \<Rightarrow> ('k, 'v) omap \<Rightarrow> int" where
  "omap_sum f m = sum_list (map (f \<circ> snd) m)"

lemma omap_sum_set:
  "omap_ok m \<Longrightarrow> omap_sum f (omap_set k v m)
     = omap_sum f m + f v - (case omap_get m k of None \<Rightarrow> 0 | Some old \<Rightarrow> f old)"
proof (induction k v m rule: omap_set.induct)
  case (2 k v k' v' m)
  have ok: "omap_ok m" using 2(2) by (simp add: omap_ok_def)
  have "k < k' \<Longrightarrow> map_of m k = None"
    using 2(2) by (auto simp: omap_ok_def map_of_eq_None_iff)
  then show ?case using 2 ok by (auto simp: omap_sum_def omap_get_def)
qed (simp add: omap_sum_def omap_get_def)

lemma omap_sum_nonneg: "(\<And>k v. (k, v) \<in> set m \<Longrightarrow> 0 \<le> f v) \<Longrightarrow> 0 \<le> omap_sum f m"
  unfolding omap_sum_def by (rule sum_list_nonneg) auto

lemma omap_sum_ge_entry:
  assumes "(k, v) \<in> set m" "\<And>k v. (k, v) \<in> set m \<Longrightarrow> 0 \<le> f v"
  shows "f v \<le> omap_sum f m"
proof -
  have "f v \<in> set (map (f \<circ> snd) m)" using assms(1) by force
  then show ?thesis unfolding omap_sum_def
    using assms(2) by (intro member_le_sum_list) auto
qed

text \<open>A map value is always sorted: the SDK type is the subtype of sorted association lists.\<close>

typedef (overloaded) ('k::linorder, 'v) sdk_map = "{m :: ('k, 'v) omap. omap_ok m}"
  morphisms entries Sdk_map
  by (rule exI [of _ "[]"]) simp

setup_lifting type_definition_sdk_map

lift_definition map_empty :: "('k::linorder, 'v) sdk_map" is "[]"
  by simp

lift_definition map_get :: "'k \<Rightarrow> ('k::linorder, 'v) sdk_map \<Rightarrow> 'v option" is "\<lambda>k m. omap_get m k" .

lift_definition map_set :: "'k::linorder \<Rightarrow> 'v \<Rightarrow> ('k, 'v) sdk_map \<Rightarrow> ('k, 'v) sdk_map" is omap_set
  by (rule omap_ok_set)

lift_definition map_sum :: "('v \<Rightarrow> int) \<Rightarrow> ('k::linorder, 'v) sdk_map \<Rightarrow> int" is omap_sum .

lemma map_get_empty [simp]: "map_get k map_empty = None"
  by transfer simp

lemma map_get_set [simp]: "map_get k' (map_set k v m) = (if k' = k then Some v else map_get k' m)"
  by transfer (simp add: omap_get_set)

lemma map_set_set [simp]: "map_set k v (map_set k w m) = map_set k v m"
  by transfer (rule omap_set_set)

lemma entries_empty [simp]: "entries map_empty = []"
  by transfer simp

lemma map_get_entries: "map_get k m = Some v \<longleftrightarrow> (k, v) \<in> set (entries m)"
  by transfer (auto dest: omap_get_in omap_in_get)

lemma entries_sorted: "sorted_wrt (<) (map fst (entries m))"
  using entries [of m] by (simp add: omap_ok_def)

lemma map_sum_empty [simp]: "map_sum f map_empty = 0"
  by transfer (simp add: omap_sum_def)

lemma map_sum_set: "map_sum f (map_set k v m)
     = map_sum f m + f v - (case map_get k m of None \<Rightarrow> 0 | Some old \<Rightarrow> f old)"
  by transfer (rule omap_sum_set)

lemma map_sum_nonneg: "(\<And>k v. map_get k m = Some v \<Longrightarrow> 0 \<le> f v) \<Longrightarrow> 0 \<le> map_sum f m"
  unfolding map_get_entries by transfer (rule omap_sum_nonneg)

lemma map_sum_ge_entry:
  "map_get k m = Some v \<Longrightarrow> (\<And>k v. map_get k m = Some v \<Longrightarrow> 0 \<le> f v) \<Longrightarrow> f v \<le> map_sum f m"
  unfolding map_get_entries by transfer (rule omap_sum_ge_entry)

interpretation sdk: kv_store "\<lambda>m k. map_get k m" map_set
  by unfold_locales simp

end
