(* ===== verification/LeaseFlow.thy ===== *)
theory LeaseFlow
  imports Soroban_Host Lease_Math
begin

text \<open>
  The contract \<^verbatim>\<open>contracts/leaseflow/src/lib.rs\<close>: lease lifecycle with grace period, arrears
  deduction from the escrow vault, residual-debt records and fiat-pegged rent. One definition per
  contract function; \<open>lf_exec\<close> dispatches a message, \<open>lf_step\<close> is one invocation with the host's
  rollback. No function of this contract calls \<^verbatim>\<open>require_auth\<close>; callers are compared only.
\<close>

section \<open>Data\<close>

datatype lease_state = Pending | Active | GracePeriod | EvictionPending | Closed

datatype lf_error =
    InsufficientRentFunds | LeaseNotFound | InvalidStateTransition | Unauthorized
  | GracePeriodExpired | InsufficientDeposit | InvalidAmount | LeaseAlreadyActive | LeaseNotActive
  | EvictionAlreadyPending | LateFeeCalculationError | ArrearsAlreadyProcessed
  | EscrowVaultUnderflow | CreditRecordError | OracleDataStale | OraclePriceManipulation
  | VolatilityCircuitBreaker | OracleCallFailed | InvalidFiatPegConfig

record price_data =
  price :: int
  timestamp :: int
  asset :: address
  decimals :: int

record oracle_config =
  oc_oracle_address :: address
  oc_staleness_threshold :: int
  oc_volatility_threshold :: int
  oc_max_price_age :: int

record fiat_peg_config =
  enabled :: bool
  target_usd_amount :: int
  asset_address :: address
  oracle_address :: address
  staleness_threshold :: int
  volatility_threshold :: int

record credit_record =
  cr_lessee :: address
  total_debt_amount :: int
  default_count :: int
  last_default_timestamp :: int
  associated_lease_ids :: "int list"

record escrow_vault =
  total_locked :: int
  available_balance :: int
  lessor_treasury :: int

record lease =
  lease_id :: int
  lessor :: address
  lessee :: address
  rent_amount :: int
  deposit_amount :: int
  start_date :: int
  end_date :: int
  state :: lease_state
  max_grace_period :: int
  late_fee_rate :: int
  dunning_start_timestamp :: "int option"
  outstanding_balance :: int
  accumulated_late_fees :: int
  last_rent_payment_timestamp :: int
  property_uri :: string
  arrears_processed :: bool
  prorated_initial_rent :: int
  total_paid_rent :: int
  peg_config :: "fiat_peg_config option"
  last_oracle_price :: "int option"
  last_oracle_timestamp :: "int option"

record contract_data =
  leases :: "(int, lease) sdk_map"
  next_lease_id :: int
  vault :: escrow_vault
  credit_records :: "(address, credit_record) sdk_map"
  oracle_cfg :: oracle_config

text \<open>Events, with the fields of the source's event structs in order.\<close>

datatype calculation_type = Initialization | Termination

datatype lf_event =
    RentDelinquencyStarted int int int int int
  | LeaseRecovered int int int int
  | LeaseCreated int address address int int int int int int
  | LeaseActivated int int
  | EvictionPendingEvent int int int
  | DepositSlashedForArrears int int int int int
  | ProratedRentCalculated int int int int calculation_type
  | FiatPeggedRentBilled int int int int int address

record lf_state = "lf_event host" +
  data :: "contract_data option"

type_synonym 'a lf = "(lf_state, lf_error, 'a) proc"

text \<open>\<^verbatim>\<open>env.storage().instance().get(&DATA_KEY).unwrap()\<close> and the matching \<^verbatim>\<open>set\<close>.\<close>

definition get_data :: "contract_data lf" where
  "get_data = bind (gets data) unwrap"

definition set_data :: "contract_data \<Rightarrow> unit lf" where
  "set_data d = modify (\<lambda>s. s\<lparr>data := Some d\<rparr>)"

definition load_lease :: "contract_data \<Rightarrow> int \<Rightarrow> lease lf" where
  "load_lease d lid = ok_or (map_get lid (leases d)) LeaseNotFound"

definition store_lease :: "contract_data \<Rightarrow> int \<Rightarrow> lease \<Rightarrow> contract_data" where
  "store_lease d lid l = d\<lparr>leases := map_set lid l (leases d)\<rparr>"

section \<open>Operations\<close>

definition initialize :: "address \<Rightarrow> unit lf" where
  "initialize oracle_addr = set_data \<lparr>
     leases = map_empty, next_lease_id = 1,
     vault = \<lparr>total_locked = 0, available_balance = 0, lessor_treasury = 0\<rparr>,
     credit_records = map_empty,
     oracle_cfg = \<lparr>oc_oracle_address = oracle_addr, oc_staleness_threshold = 900,
       oc_volatility_threshold = 2000, oc_max_price_age = 3600\<rparr>\<rparr>"

definition create_lease ::
    "env \<Rightarrow> address \<Rightarrow> address \<Rightarrow> int \<Rightarrow> int \<Rightarrow> int \<Rightarrow> int \<Rightarrow> int \<Rightarrow> int \<Rightarrow> string
      \<Rightarrow> fiat_peg_config option \<Rightarrow> int lf" where
  "create_lease env lessor_a lessee_a rent deposit start fin max_grace fee_rate uri peg =
     bind (throw_if (rent \<le> 0 \<or> deposit \<le> 0) InvalidAmount) (\<lambda>_.
     bind (throw_if (start \<ge> fin) InvalidAmount) (\<lambda>_.
     bind (case peg of None \<Rightarrow> return ()
           | Some config \<Rightarrow>
               bind (throw_if (target_usd_amount config \<le> 0) InvalidFiatPegConfig) (\<lambda>_.
               throw_if (staleness_threshold config = 0 \<or> volatility_threshold config = 0)
                 InvalidFiatPegConfig)) (\<lambda>_.
     bind get_data (\<lambda>d.
     let lid = next_lease_id d; now = ledger_timestamp env in
     bind (if now > start
           then bind (calculate_prorated_rent rent now fin)
                  (\<lambda>r. return (case r of Some (amount, _) \<Rightarrow> amount | None \<Rightarrow> rent))
           else return rent) (\<lambda>prorated.
     let l = \<lparr>lease_id = lid, lessor = lessor_a, lessee = lessee_a, rent_amount = rent,
       deposit_amount = deposit, start_date = start, end_date = fin, state = Pending,
       max_grace_period = max_grace, late_fee_rate = fee_rate, dunning_start_timestamp = None,
       outstanding_balance = 0, accumulated_late_fees = 0, last_rent_payment_timestamp = 0,
       property_uri = uri, arrears_processed = False, prorated_initial_rent = prorated,
       total_paid_rent = 0, peg_config = peg, last_oracle_price = None,
       last_oracle_timestamp = None\<rparr> in
     bind (chk_u64 (next_lease_id d + 1)) (\<lambda>next.
     bind (set_data ((store_lease d lid l)\<lparr>next_lease_id := next\<rparr>)) (\<lambda>_.
     bind (publish (LeaseCreated lid lessor_a lessee_a rent deposit start fin max_grace fee_rate)) (\<lambda>_.
     return lid))))))))"

text \<open>The source names the amount added to the vault \<^verbatim>\<open>deposit_amount\<close>, a name the function does not
  bind; it can only stand for the lease's deposit.\<close>

definition activate_lease :: "env \<Rightarrow> int \<Rightarrow> address \<Rightarrow> unit lf" where
  "activate_lease env lid lessee_a =
     bind get_data (\<lambda>d.
     bind (load_lease d lid) (\<lambda>l.
     bind (throw_if (lessee_a \<noteq> lessee l) Unauthorized) (\<lambda>_.
     bind (throw_if (state l \<noteq> Pending) LeaseAlreadyActive) (\<lambda>_.
     bind get_data (\<lambda>d.
     bind (chk_i64 (total_locked (vault d) + deposit_amount l)) (\<lambda>locked.
     bind (chk_i64 (available_balance (vault d) + deposit_amount l)) (\<lambda>available.
     let d = d\<lparr>vault := (vault d)\<lparr>total_locked := locked, available_balance := available\<rparr>\<rparr>;
         l = l\<lparr>state := Active, last_rent_payment_timestamp := ledger_timestamp env\<rparr> in
     bind (if prorated_initial_rent l \<noteq> rent_amount l
           then publish (ProratedRentCalculated lid (rent_amount l)
                  (sat_u64 (end_date l - ledger_timestamp env)) (prorated_initial_rent l)
                  Initialization)
           else return ()) (\<lambda>_.
     bind (set_data (store_lease d lid l)) (\<lambda>_.
     publish (LeaseActivated lid (ledger_timestamp env)))))))))))"

text \<open>The recovery event is built after the late fees are reset, as in the source.\<close>

definition process_rent_payment :: "env \<Rightarrow> int \<Rightarrow> int \<Rightarrow> unit lf" where
  "process_rent_payment env lid amount =
     bind get_data (\<lambda>d.
     bind (load_lease d lid) (\<lambda>l.
     bind (throw_if (amount < rent_amount l) InsufficientRentFunds) (\<lambda>_.
     bind (case state l of
         Active \<Rightarrow>
           bind (chk_i64 (total_paid_rent l + amount)) (\<lambda>paid.
           return (l\<lparr>last_rent_payment_timestamp := ledger_timestamp env,
             outstanding_balance := 0, accumulated_late_fees := 0, total_paid_rent := paid\<rparr>))
       | GracePeriod \<Rightarrow>
           bind (chk_i64 (rent_amount l + accumulated_late_fees l)) (\<lambda>total_required.
           bind (throw_if (amount < total_required) InsufficientRentFunds) (\<lambda>_.
           bind (chk_i64 (total_paid_rent l + amount)) (\<lambda>paid.
           let l = l\<lparr>state := Active, last_rent_payment_timestamp := ledger_timestamp env,
             outstanding_balance := 0, accumulated_late_fees := 0,
             dunning_start_timestamp := None, total_paid_rent := paid\<rparr> in
           bind (publish (LeaseRecovered lid (ledger_timestamp env) amount
             (accumulated_late_fees l))) (\<lambda>_.
           return l))))
       | _ \<Rightarrow> throw LeaseNotActive) (\<lambda>l.
     set_data (store_lease d lid l)))))"

text \<open>The fee is computed in \<^verbatim>\<open>U256\<close>, which has no negative values: a negative base is a conversion
  failure, reported as the error the function uses for every failure.\<close>

definition calculate_late_fee :: "lease \<Rightarrow> int \<Rightarrow> int lf" where
  "calculate_late_fee l base_amount =
     (if base_amount < 0 then throw LateFeeCalculationError
      else let fee_amount = base_amount * late_fee_rate l div 10000 in
        if is_i64 fee_amount then return fee_amount else throw LateFeeCalculationError)"

definition handle_rent_payment_failure :: "env \<Rightarrow> int \<Rightarrow> unit lf" where
  "handle_rent_payment_failure env lid =
     bind get_data (\<lambda>d.
     bind (load_lease d lid) (\<lambda>l.
     bind (throw_if (state l \<noteq> Active) InvalidStateTransition) (\<lambda>_.
     let now = ledger_timestamp env;
         l = l\<lparr>state := GracePeriod, dunning_start_timestamp := Some now,
           outstanding_balance := rent_amount l\<rparr> in
     bind (calculate_late_fee l (rent_amount l)) (\<lambda>late_fee_amount.
     let l = l\<lparr>accumulated_late_fees := late_fee_amount\<rparr> in
     bind (chk_u64 (now + max_grace_period l)) (\<lambda>grace_period_end.
     bind (publish (RentDelinquencyStarted lid now grace_period_end (outstanding_balance l)
       late_fee_amount)) (\<lambda>_.
     set_data (store_lease d lid l)))))))"

definition calculate_deduction_amount :: "int \<Rightarrow> int \<Rightarrow> int lf" where
  "calculate_deduction_amount total_arrears deposit =
     (if total_arrears \<le> 0 \<or> deposit \<le> 0 then throw InvalidAmount
      else if total_arrears \<ge> deposit then return deposit
      else return total_arrears)"

definition update_credit_record ::
    "env \<Rightarrow> contract_data \<Rightarrow> address \<Rightarrow> int \<Rightarrow> int \<Rightarrow> contract_data lf" where
  "update_credit_record env d lessee_a residual_debt lid =
     (let r = (case map_get lessee_a (credit_records d) of
          Some r \<Rightarrow> r
        | None \<Rightarrow> \<lparr>cr_lessee = lessee_a, total_debt_amount = 0, default_count = 0,
            last_default_timestamp = 0, associated_lease_ids = []\<rparr>) in
      bind (chk_i64 (total_debt_amount r + residual_debt)) (\<lambda>debt.
      bind (chk_u32 (default_count r + 1)) (\<lambda>count.
      let ids = (if lid \<in> set (associated_lease_ids r) then associated_lease_ids r
                 else associated_lease_ids r @ [lid]);
          r = r\<lparr>total_debt_amount := debt, default_count := count,
            last_default_timestamp := ledger_timestamp env, associated_lease_ids := ids\<rparr> in
      return (d\<lparr>credit_records := map_set lessee_a r (credit_records d)\<rparr>))))"

definition execute_arrears_deduction :: "env \<Rightarrow> int \<Rightarrow> unit lf" where
  "execute_arrears_deduction env lid =
     bind get_data (\<lambda>d.
     bind (load_lease d lid) (\<lambda>l.
     bind (throw_if (state l \<noteq> EvictionPending) InvalidStateTransition) (\<lambda>_.
     bind (throw_if (arrears_processed l) ArrearsAlreadyProcessed) (\<lambda>_.
     let now = ledger_timestamp env in
     bind (ok_or (dunning_start_timestamp l) InvalidStateTransition) (\<lambda>dunning_start.
     let unpaid_duration = sat_u64 (now - dunning_start) in
     bind (chk_i64 (outstanding_balance l + accumulated_late_fees l)) (\<lambda>total_arrears.
     bind (calculate_deduction_amount total_arrears (deposit_amount l)) (\<lambda>deduction_amount.
     bind (throw_if (available_balance (vault d) < deduction_amount) EscrowVaultUnderflow) (\<lambda>_.
     bind (chk_i64 (available_balance (vault d) - deduction_amount)) (\<lambda>available.
     bind (chk_i64 (lessor_treasury (vault d) + deduction_amount)) (\<lambda>treasury.
     let d = d\<lparr>vault := (vault d)\<lparr>available_balance := available, lessor_treasury := treasury\<rparr>\<rparr>;
         residual_debt = sat_i64 (total_arrears - deduction_amount);
         l = l\<lparr>arrears_processed := True\<rparr> in
     bind (if residual_debt > 0 then update_credit_record env d (lessee l) residual_debt lid
           else return d) (\<lambda>d.
     bind (publish (DepositSlashedForArrears lid unpaid_duration deduction_amount
       (available_balance (vault d)) residual_debt)) (\<lambda>_.
     set_data (store_lease d lid l)))))))))))))"

definition check_grace_period_expiry :: "env \<Rightarrow> int \<Rightarrow> unit lf" where
  "check_grace_period_expiry env lid =
     bind get_data (\<lambda>d.
     bind (load_lease d lid) (\<lambda>l.
     if state l \<noteq> GracePeriod then return () else
     bind (ok_or (dunning_start_timestamp l) InvalidStateTransition) (\<lambda>dunning_start.
     let now = ledger_timestamp env in
     bind (chk_u64 (dunning_start + max_grace_period l)) (\<lambda>expiry.
     if now > expiry then
       let l = l\<lparr>state := EvictionPending\<rparr> in
       bind (chk_i64 (outstanding_balance l + accumulated_late_fees l)) (\<lambda>total_outstanding.
       bind (publish (EvictionPendingEvent lid now total_outstanding)) (\<lambda>_.
       bind (set_data (store_lease d lid l)) (\<lambda>_.
       execute_arrears_deduction env lid)))
     else return ()))))"

definition get_lease :: "int \<Rightarrow> lease lf" where
  "get_lease lid = bind get_data (\<lambda>d. load_lease d lid)"

definition get_user_leases :: "address \<Rightarrow> int list lf" where
  "get_user_leases user =
     bind get_data (\<lambda>d. return
       (map fst (filter (\<lambda>(_, l). lessor l = user \<or> lessee l = user) (entries (leases d)))))"

definition get_credit_record :: "address \<Rightarrow> credit_record lf" where
  "get_credit_record lessee_a =
     bind get_data (\<lambda>d. ok_or (map_get lessee_a (credit_records d)) CreditRecordError)"

definition get_escrow_vault :: "escrow_vault lf" where
  "get_escrow_vault = bind get_data (\<lambda>d. return (vault d))"

definition get_oracle_price :: "env \<Rightarrow> lease \<Rightarrow> address \<Rightarrow> price_data lf" where
  "get_oracle_price env l oracle_addr =
     (let now = ledger_timestamp env in
      bind (unwrap (peg_config l)) (\<lambda>config.
      bind (call_ext env (GetPrice oracle_addr (asset_address config))) (\<lambda>r.
      bind (case r of Reply_price p t a dec \<Rightarrow>
                return \<lparr>price = p, timestamp = t, asset = a, decimals = dec\<rparr>
            | _ \<Rightarrow> throw OracleCallFailed) (\<lambda>pd.
      bind (throw_if (sat_u64 (now - timestamp pd) > staleness_threshold config) OracleDataStale) (\<lambda>_.
      bind (throw_if (sat_u64 (now - timestamp pd) > 3600) OracleDataStale) (\<lambda>_.
      bind (case (last_oracle_price l, last_oracle_timestamp l) of
          (Some last_price, Some last_timestamp) \<Rightarrow>
            if sat_u64 (now - last_timestamp) \<le> 3600 \<and> last_price > 0 then
              bind (chk_i128 (if price pd > last_price then price pd - last_price
                              else last_price - price pd)) (\<lambda>change.
              bind (chk_i128 (change * 10000)) (\<lambda>scaled.
              throw_if (tdiv scaled last_price > volatility_threshold config)
                VolatilityCircuitBreaker))
            else return ()
        | _ \<Rightarrow> return ()) (\<lambda>_.
      return pd)))))))"

definition calculate_fiat_pegged_rent :: "env \<Rightarrow> lease \<Rightarrow> int lf" where
  "calculate_fiat_pegged_rent env l =
     bind (ok_or (peg_config l) InvalidFiatPegConfig) (\<lambda>config.
     if \<not> enabled config then return (rent_amount l) else
     bind (get_oracle_price env l (oracle_address config)) (\<lambda>pd.
     bind (chk_i128 (10 ^ nat (decimals pd))) (\<lambda>decimals_factor.
     bind (chk_i128 (target_usd_amount config * decimals_factor)) (\<lambda>scaled.
     bind (div_or_trap scaled (price pd)) (\<lambda>q.
     bind (chk_i128 q) (\<lambda>crypto_amount_i128.
     bind (throw_if (crypto_amount_i128 > i64_max) InvalidAmount) (\<lambda>_.
     let crypto_amount = as_i64 crypto_amount_i128 in
     bind (throw_if (crypto_amount \<le> 0) InvalidAmount) (\<lambda>_.
     return crypto_amount))))))))"

definition process_fiat_pegged_rent_payment :: "env \<Rightarrow> int \<Rightarrow> unit lf" where
  "process_fiat_pegged_rent_payment env lid =
     bind get_data (\<lambda>d.
     bind (load_lease d lid) (\<lambda>l.
     bind (throw_if (state l \<noteq> Active) LeaseNotActive) (\<lambda>_.
     bind (ok_or (peg_config l) InvalidFiatPegConfig) (\<lambda>config.
     bind (throw_if (\<not> enabled config) InvalidFiatPegConfig) (\<lambda>_.
     bind (calculate_fiat_pegged_rent env l) (\<lambda>current_rent_amount.
     bind (get_oracle_price env l (oracle_address config)) (\<lambda>pd.
     bind (chk_i64 (total_paid_rent l + current_rent_amount)) (\<lambda>paid.
     let l = l\<lparr>last_oracle_price := Some (price pd), last_oracle_timestamp := Some (timestamp pd),
       last_rent_payment_timestamp := ledger_timestamp env, total_paid_rent := paid\<rparr> in
     bind (publish (FiatPeggedRentBilled lid (target_usd_amount config) (price pd)
       current_rent_amount (ledger_timestamp env) (asset_address config))) (\<lambda>_.
     set_data (store_lease d lid l))))))))))"

definition trigger_grace_period_check :: "env \<Rightarrow> int \<Rightarrow> address \<Rightarrow> unit lf" where
  "trigger_grace_period_check env lid caller =
     bind get_data (\<lambda>d.
     bind (load_lease d lid) (\<lambda>l.
     bind (throw_if (caller \<noteq> lessor l) Unauthorized) (\<lambda>_.
     check_grace_period_expiry env lid)))"

definition terminate_lease :: "env \<Rightarrow> int \<Rightarrow> address \<Rightarrow> int lf" where
  "terminate_lease env lid caller =
     bind get_data (\<lambda>d.
     bind (load_lease d lid) (\<lambda>l.
     bind (throw_if (caller \<noteq> lessor l \<and> caller \<noteq> lessee l) Unauthorized) (\<lambda>_.
     bind (throw_if (state l \<noteq> Active) LeaseNotActive) (\<lambda>_.
     let now = ledger_timestamp env in
     bind (calculate_termination_refund (rent_amount l) (start_date l) (end_date l) now
             (total_paid_rent l)) (\<lambda>r.
     let refund_amount = (case r of Some x \<Rightarrow> x | None \<Rightarrow> 0);
         lease_duration = sat_u64 (now - last_rent_payment_timestamp l);
         closed = set_data (store_lease d lid (l\<lparr>state := Closed\<rparr>)) in
     if lease_duration < 86400 \<and> refund_amount > 0 then
       let penalty_amount = tdiv refund_amount 10;
           adjusted_refund = sat_i64 (refund_amount - penalty_amount) in
       bind (publish (ProratedRentCalculated lid (rent_amount l) (sat_u64 (end_date l - now))
         adjusted_refund Termination)) (\<lambda>_.
       bind closed (\<lambda>_. return adjusted_refund))
     else
       bind (publish (ProratedRentCalculated lid (rent_amount l) (sat_u64 (end_date l - now))
         refund_amount Termination)) (\<lambda>_.
       bind closed (\<lambda>_. return refund_amount)))))))"

section \<open>The contract as a system\<close>

text \<open>The state-changing entry points as messages; each invocation brings its own environment.\<close>

datatype lf_call =
    Initialize address
  | CreateLease address address int int int int int int string "fiat_peg_config option"
  | ActivateLease int address
  | ProcessRentPayment int int
  | HandleRentPaymentFailure int
  | CheckGracePeriodExpiry int
  | ExecuteArrearsDeduction int
  | ProcessFiatPeggedRentPayment int
  | TriggerGracePeriodCheck int address
  | TerminateLease int address

fun lf_exec :: "env \<Rightarrow> lf_call \<Rightarrow> unit lf" where
  "lf_exec env (Initialize a) = initialize a"
| "lf_exec env (CreateLease a b r dep st fi g f u p) =
     bind (create_lease env a b r dep st fi g f u p) (\<lambda>_. return ())"
| "lf_exec env (ActivateLease lid a) = activate_lease env lid a"
| "lf_exec env (ProcessRentPayment lid n) = process_rent_payment env lid n"
| "lf_exec env (HandleRentPaymentFailure lid) = handle_rent_payment_failure env lid"
| "lf_exec env (CheckGracePeriodExpiry lid) = check_grace_period_expiry env lid"
| "lf_exec env (ExecuteArrearsDeduction lid) = execute_arrears_deduction env lid"
| "lf_exec env (ProcessFiatPeggedRentPayment lid) = process_fiat_pegged_rent_payment env lid"
| "lf_exec env (TriggerGracePeriodCheck lid a) = trigger_grace_period_check env lid a"
| "lf_exec env (TerminateLease lid a) = bind (terminate_lease env lid a) (\<lambda>_. return ())"

text \<open>The host converts the arguments of an invocation to their Rust types before the contract
  runs, and rejects what does not convert.\<close>

fun lf_typed :: "lf_call \<Rightarrow> bool" where
  "lf_typed (Initialize a) = True"
| "lf_typed (CreateLease a b r dep st fi g f u p) =
     (is_i64 r \<and> is_i64 dep \<and> is_u64 st \<and> is_u64 fi \<and> is_u64 g \<and> is_u32 f)"
| "lf_typed (ActivateLease lid a) = is_u64 lid"
| "lf_typed (ProcessRentPayment lid n) = (is_u64 lid \<and> is_i64 n)"
| "lf_typed (HandleRentPaymentFailure lid) = is_u64 lid"
| "lf_typed (CheckGracePeriodExpiry lid) = is_u64 lid"
| "lf_typed (ExecuteArrearsDeduction lid) = is_u64 lid"
| "lf_typed (ProcessFiatPeggedRentPayment lid) = is_u64 lid"
| "lf_typed (TriggerGracePeriodCheck lid a) = is_u64 lid"
| "lf_typed (TerminateLease lid a) = is_u64 lid"

definition lf_step :: "env \<times> lf_call \<Rightarrow> lf_state \<Rightarrow> lf_state" where
  "lf_step m s = (if lf_typed (snd m) \<and> is_u64 (ledger_timestamp (fst m))
     then snd (invoke (lf_exec (fst m) (snd m)) s) else s)"

definition lf_init :: lf_state where
  "lf_init = \<lparr>events = [], calls = [], data = None\<rparr>"

end
