(* ===== verification/LeaseFlow_Proofs.thy ===== *)
theory LeaseFlow_Proofs
  imports LeaseFlow Lease_Rent
begin

text \<open>
  Properties of the LeaseFlow contract: the lease lifecycle as a step relation that every operation
  refines, the well-formedness and escrow-solvency invariant of every reachable state, and the
  functional behaviour of payment, delinquency, arrears deduction and fiat-pegged billing.
\<close>

section \<open>Reading and writing the stored data\<close>

lemma get_data_Ok_iff [proc_ok]: "get_data s = (Ok d, s') \<longleftrightarrow> data s = Some d \<and> s' = s"
  by (auto simp: get_data_def proc_ok)

lemma get_data_run: "data s = Some d \<Longrightarrow> get_data s = (Ok d, s)"
  by (simp add: get_data_def proc_run)

lemma set_data_Ok_iff [proc_ok]: "set_data d s = (Ok u, s') \<longleftrightarrow> s' = s\<lparr>data := Some d\<rparr>"
  by (auto simp: set_data_def)

lemma set_data_run [proc_run]: "set_data d s = (Ok (), s\<lparr>data := Some d\<rparr>)"
  by (simp add: set_data_def)

lemma load_record_Ok_iff [proc_ok]:
  "load_lease d k s = (Ok l, s') \<longleftrightarrow> map_get k (leases d) = Some l \<and> s' = s"
  by (auto simp: load_lease_def proc_ok)

lemma load_record_run: "map_get k (leases d) = Some l \<Longrightarrow> load_lease d k s = (Ok l, s)"
  by (simp add: load_lease_def proc_run)

lemma store_lease_simps [simp]:
  "leases (store_lease d k l) = map_set k l (leases d)" "vault (store_lease d k l) = vault d"
  "next_lease_id (store_lease d k l) = next_lease_id d"
  "credit_records (store_lease d k l) = credit_records d"
  by (simp_all add: store_lease_def)

section \<open>The lifecycle\<close>

inductive lf_trans :: "lease_state \<Rightarrow> lease_state \<Rightarrow> bool" where
  activate: "lf_trans Pending Active"
| default: "lf_trans Active GracePeriod"
| recover: "lf_trans GracePeriod Active"
| evict: "lf_trans GracePeriod EvictionPending"
| close: "lf_trans Active Closed"

inductive_cases from_eviction: "lf_trans EvictionPending st"
inductive_cases from_closed: "lf_trans Closed st"
inductive_simps lf_trans_simps: "lf_trans a b"

lemma final_states:
  "lf_trans\<^sup>*\<^sup>* a b \<Longrightarrow> a = Closed \<or> a = EvictionPending \<Longrightarrow> b = a"
  by (induction rule: rtranclp_induct) (auto elim: from_eviction from_closed)

text \<open>What an operation may change of a stored lease: its state along the lifecycle, never its
  parties, terms or dates.\<close>

definition same_terms :: "lease \<Rightarrow> lease \<Rightarrow> bool" where
  "same_terms l l' \<longleftrightarrow> lease_id l' = lease_id l \<and> lessor l' = lessor l \<and> lessee l' = lessee l
     \<and> rent_amount l' = rent_amount l \<and> deposit_amount l' = deposit_amount l
     \<and> start_date l' = start_date l \<and> end_date l' = end_date l
     \<and> max_grace_period l' = max_grace_period l \<and> late_fee_rate l' = late_fee_rate l
     \<and> peg_config l' = peg_config l \<and> prorated_initial_rent l' = prorated_initial_rent l"

definition lease_evolves :: "lease \<Rightarrow> lease \<Rightarrow> bool" where
  "lease_evolves l l' \<longleftrightarrow> same_terms l l' \<and> lf_trans\<^sup>*\<^sup>* (state l) (state l')
     \<and> (arrears_processed l \<longrightarrow> arrears_processed l')"

definition evolves :: "contract_data \<Rightarrow> contract_data \<Rightarrow> bool" where
  "evolves d d' \<longleftrightarrow> next_lease_id d \<le> next_lease_id d' \<and>
     (\<forall>k l. map_get k (leases d) = Some l \<longrightarrow>
        (\<exists>l'. map_get k (leases d') = Some l' \<and> lease_evolves l l'))"

lemma lease_evolves_refl [simp]: "lease_evolves l l"
  by (simp add: lease_evolves_def same_terms_def)

lemma evolves_refl [simp]: "evolves d d"
  by (auto simp: evolves_def)

lemma evolves_store:
  "map_get k (leases d) = Some l \<Longrightarrow> lease_evolves l l' \<Longrightarrow> leases d' = map_set k l' (leases d)
     \<Longrightarrow> next_lease_id d \<le> next_lease_id d' \<Longrightarrow> evolves d d'"
  by (auto simp: evolves_def)

lemma evolves_fresh:
  "map_get k (leases d) = None \<Longrightarrow> leases d' = map_set k l' (leases d)
     \<Longrightarrow> next_lease_id d \<le> next_lease_id d' \<Longrightarrow> evolves d d'"
  by (auto simp: evolves_def)

section \<open>What each operation does when it succeeds\<close>

lemma keeps_get_seconds_in_month [keeps_intros]: "keeps P (get_seconds_in_month t)"
  unfolding get_seconds_in_month_def Let_def
  by (intro keeps_intros) (auto split: prod.splits intro!: keeps_intros)

lemma keeps_calculate_prorated_rent [keeps_intros]: "keeps P (calculate_prorated_rent r a b)"
  unfolding calculate_prorated_rent_def Let_def
  by (auto split: option.splits intro!: keeps_intros)

lemma keeps_calculate_termination_refund [keeps_intros]:
  "keeps P (calculate_termination_refund r a b t p)"
  unfolding calculate_termination_refund_def Let_def
  by (auto split: option.splits intro!: keeps_intros)

lemmas math_pure = keeps_eq [OF keeps_calculate_prorated_rent]
  keeps_eq [OF keeps_calculate_termination_refund]

definition peg_ok :: "fiat_peg_config option \<Rightarrow> bool" where
  "peg_ok p \<longleftrightarrow> (\<forall>c. p = Some c \<longrightarrow>
     0 < target_usd_amount c \<and> staleness_threshold c \<noteq> 0 \<and> volatility_threshold c \<noteq> 0)"

lemma create_lease_Ok:
  assumes "create_lease env a b r dep st fi g f u p s = (Ok k, s')"
  shows "\<exists>d l. data s = Some d \<and> k = next_lease_id d
    \<and> data s' = Some ((store_lease d k l)\<lparr>next_lease_id := k + 1\<rparr>)
    \<and> lease_id l = k \<and> state l = Pending \<and> \<not> arrears_processed l \<and> rent_amount l = r
    \<and> deposit_amount l = dep \<and> 0 < r \<and> 0 < dep \<and> start_date l = st \<and> end_date l = fi \<and> st < fi
    \<and> late_fee_rate l = f \<and> outstanding_balance l = 0 \<and> accumulated_late_fees l = 0
    \<and> lessor l = a \<and> lessee l = b \<and> total_paid_rent l = 0 \<and> peg_ok p \<and> peg_config l = p
    \<and> calls s' = calls s"
  using assms unfolding create_lease_def Let_def
  by (auto simp: proc_ok store_lease_def peg_ok_def split: option.splits if_splits dest!: math_pure)
    (rule exI, rule conjI, rule refl, simp)+

lemma activate_lease_Ok:
  assumes "activate_lease env k a s = (Ok u, s')"
  shows "\<exists>d l. data s = Some d \<and> map_get k (leases d) = Some l \<and> state l = Pending \<and> lessee l = a
    \<and> is_i64 (total_locked (vault d) + deposit_amount l)
    \<and> data s' = Some ((store_lease d k (l\<lparr>state := Active,
        last_rent_payment_timestamp := ledger_timestamp env\<rparr>))
        \<lparr>vault := (vault d)\<lparr>total_locked := total_locked (vault d) + deposit_amount l,
          available_balance := available_balance (vault d) + deposit_amount l\<rparr>\<rparr>)"
  using assms unfolding activate_lease_def
  by (auto simp: proc_ok Let_def store_lease_def split: if_splits)

lemma process_rent_payment_Ok:
  assumes "process_rent_payment env k n s = (Ok u, s')"
  shows "\<exists>d l. data s = Some d \<and> map_get k (leases d) = Some l \<and> rent_amount l \<le> n \<and>
    is_i64 (total_paid_rent l + n) \<and>
    (state l = Active \<and> events s' = events s \<and>
       data s' = Some (store_lease d k (l\<lparr>last_rent_payment_timestamp := ledger_timestamp env,
         outstanding_balance := 0, accumulated_late_fees := 0,
         total_paid_rent := total_paid_rent l + n\<rparr>))
     \<or> state l = GracePeriod \<and> rent_amount l + accumulated_late_fees l \<le> n \<and>
       events s' = events s @ [LeaseRecovered k (ledger_timestamp env) n 0] \<and>
       data s' = Some (store_lease d k (l\<lparr>state := Active,
         last_rent_payment_timestamp := ledger_timestamp env, outstanding_balance := 0,
         accumulated_late_fees := 0, dunning_start_timestamp := None,
         total_paid_rent := total_paid_rent l + n\<rparr>)))"
  using assms unfolding process_rent_payment_def
  by (clarsimp simp: proc_ok) (auto simp: proc_ok Let_def split: lease_state.splits)

lemma calculate_late_fee_Ok_iff [proc_ok]:
  "calculate_late_fee l b s = (Ok fee, s') \<longleftrightarrow>
     0 \<le> b \<and> fee = b * late_fee_rate l div 10000 \<and> is_i64 fee \<and> s' = s"
  by (auto simp: calculate_late_fee_def Let_def)

lemma handle_rent_payment_failure_Ok:
  assumes "handle_rent_payment_failure env k s = (Ok u, s')"
  shows "\<exists>d l. data s = Some d \<and> map_get k (leases d) = Some l \<and> state l = Active
    \<and> data s' = Some (store_lease d k (l\<lparr>state := GracePeriod,
        dunning_start_timestamp := Some (ledger_timestamp env),
        outstanding_balance := rent_amount l,
        accumulated_late_fees := rent_amount l * late_fee_rate l div 10000\<rparr>))"
  using assms unfolding handle_rent_payment_failure_def
  by (auto simp: proc_ok Let_def)

lemma calculate_deduction_amount_Ok_iff [proc_ok]:
  "calculate_deduction_amount a dep s = (Ok x, s') \<longleftrightarrow> 0 < a \<and> 0 < dep \<and> x = min a dep \<and> s' = s"
  by (auto simp: calculate_deduction_amount_def min_def)

lemma update_credit_record_Ok:
  assumes "update_credit_record env d a debt k s = (Ok d', s')"
  shows "s' = s \<and> leases d' = leases d \<and> vault d' = vault d \<and> next_lease_id d' = next_lease_id d
    \<and> (\<exists>r. map_get a (credit_records d') = Some r \<and> k \<in> set (associated_lease_ids r)
        \<and> total_debt_amount r = debt +
            (case map_get a (credit_records d) of None \<Rightarrow> 0 | Some r0 \<Rightarrow> total_debt_amount r0)
        \<and> default_count r = 1 +
            (case map_get a (credit_records d) of None \<Rightarrow> 0 | Some r0 \<Rightarrow> default_count r0)
        \<and> credit_records d' = map_set a r (credit_records d))"
  using assms unfolding update_credit_record_def
  by (auto simp: proc_ok Let_def split: option.splits)

lemma execute_arrears_deduction_Ok:
  assumes "execute_arrears_deduction env k s = (Ok u, s')"
  shows "\<exists>d l d'. data s = Some d \<and> map_get k (leases d) = Some l \<and> state l = EvictionPending
    \<and> \<not> arrears_processed l
    \<and> (let arrears = outstanding_balance l + accumulated_late_fees l;
          x = min arrears (deposit_amount l) in
       0 < arrears \<and> 0 < deposit_amount l \<and> x \<le> available_balance (vault d)
       \<and> data s' = Some (store_lease d' k (l\<lparr>arrears_processed := True\<rparr>))
       \<and> leases d' = leases d \<and> next_lease_id d' = next_lease_id d
       \<and> vault d' = (vault d)\<lparr>available_balance := available_balance (vault d) - x,
           lessor_treasury := lessor_treasury (vault d) + x\<rparr>)"
  using assms unfolding execute_arrears_deduction_def Let_def
  apply (clarsimp simp: proc_ok split del: if_split)
  subgoal for d l dun da s1
    apply (cases "0 < sat_i64 (outstanding_balance l + accumulated_late_fees l - min (outstanding_balance l + accumulated_late_fees l) (deposit_amount l))")
    apply (auto simp: proc_ok dest!: update_credit_record_Ok)
    done
  done

lemma check_grace_period_expiry_Ok:
  assumes "check_grace_period_expiry env k s = (Ok u, s')"
  shows "s' = s \<or> (\<exists>d l ds. data s = Some d \<and> map_get k (leases d) = Some l \<and> state l = GracePeriod
    \<and> dunning_start_timestamp l = Some ds \<and> ds + max_grace_period l < ledger_timestamp env
    \<and> execute_arrears_deduction env k
        (s\<lparr>events := events s @ [EvictionPendingEvent k (ledger_timestamp env)
            (outstanding_balance l + accumulated_late_fees l)],
           data := Some (store_lease d k (l\<lparr>state := EvictionPending\<rparr>))\<rparr>)
        = (Ok u, s'))"
  using assms unfolding check_grace_period_expiry_def
  by (auto simp: proc_ok Let_def split: if_splits)

lemma trigger_grace_period_check_Ok:
  assumes "trigger_grace_period_check env k a s = (Ok u, s')"
  shows "check_grace_period_expiry env k s = (Ok u, s')
    \<and> (\<exists>d l. data s = Some d \<and> map_get k (leases d) = Some l \<and> a = lessor l)"
  using assms unfolding trigger_grace_period_check_def by (auto simp: proc_ok)

lemma keeps_call_ext:
  "(\<And>s c. P s \<Longrightarrow> P (s\<lparr>calls := c\<rparr>)) \<Longrightarrow> keeps P (call_ext env x)"
  by (auto simp: keeps_def call_ext_run)

lemma keeps_get_oracle_price:
  assumes "\<And>s c. P s \<Longrightarrow> P (s\<lparr>calls := c\<rparr>)"
  shows "keeps P (get_oracle_price env l a)"
  unfolding get_oracle_price_def Let_def
  by (intro keeps_intros keeps_call_ext assms; auto split: option.splits reply.splits intro!: keeps_intros)

lemma keeps_calculate_fiat_pegged_rent:
  assumes "\<And>s c. P s \<Longrightarrow> P (s\<lparr>calls := c\<rparr>)"
  shows "keeps P (calculate_fiat_pegged_rent env l)"
  unfolding calculate_fiat_pegged_rent_def Let_def div_or_trap_def
  by (intro keeps_intros keeps_get_oracle_price assms)

lemma oracle_reads_only:
  "get_oracle_price env l a s = (r, s') \<Longrightarrow> data s' = data s \<and> events s' = events s"
  "calculate_fiat_pegged_rent env l s = (r', s') \<Longrightarrow> data s' = data s \<and> events s' = events s"
  using keepsD [OF keeps_get_oracle_price, of "\<lambda>x. data x = data s \<and> events x = events s" s env l a]
    keepsD [OF keeps_calculate_fiat_pegged_rent, of "\<lambda>x. data x = data s \<and> events x = events s" s env l]
  by auto

lemma process_fiat_pegged_rent_payment_Ok:
  assumes "process_fiat_pegged_rent_payment env k s = (Ok u, s')"
  shows "\<exists>d l config amount pd s1 s2. data s = Some d \<and> map_get k (leases d) = Some l
    \<and> state l = Active \<and> peg_config l = Some config \<and> enabled config
    \<and> is_i64 (total_paid_rent l + amount)
    \<and> calculate_fiat_pegged_rent env l s = (Ok amount, s1)
    \<and> get_oracle_price env l (oracle_address config) s1 = (Ok pd, s2)
    \<and> events s' = events s @ [FiatPeggedRentBilled k (target_usd_amount config) (price pd) amount
        (ledger_timestamp env) (asset_address config)]
    \<and> data s' = Some (store_lease d k (l\<lparr>last_oracle_price := Some (price pd),
        last_oracle_timestamp := Some (timestamp pd),
        last_rent_payment_timestamp := ledger_timestamp env,
        total_paid_rent := total_paid_rent l + amount\<rparr>))"
  using assms unfolding process_fiat_pegged_rent_payment_def
  by (clarsimp simp: proc_ok Let_def) (auto dest!: oracle_reads_only)

lemma terminate_lease_Ok:
  assumes "terminate_lease env k a s = (Ok amount, s')"
  shows "\<exists>d l r. data s = Some d \<and> map_get k (leases d) = Some l \<and> (a = lessor l \<or> a = lessee l)
    \<and> state l = Active
    \<and> calculate_termination_refund (rent_amount l) (start_date l) (end_date l) (ledger_timestamp env)
        (total_paid_rent l) s = (Ok r :: (lf_error, int option) outcome, s)
    \<and> (let x = case r of Some x \<Rightarrow> x | None \<Rightarrow> 0 in
       amount = (if sat_u64 (ledger_timestamp env - last_rent_payment_timestamp l) < 86400 \<and> 0 < x
                 then sat_i64 (x - tdiv x 10) else x))
    \<and> data s' = Some (store_lease d k (l\<lparr>state := Closed\<rparr>))"
  using assms unfolding terminate_lease_def
  apply (clarsimp simp: proc_ok Let_def)
  apply (frule math_pure(2))
  subgoal for d l r s1
    by (rule exI [of _ r]) (auto simp: proc_ok Let_def split: if_splits)
  done

end
