(* ===== verification/LeaseFlow_Invariant.thy ===== *)
theory LeaseFlow_Invariant
  imports LeaseFlow_Proofs
begin

text \<open>
  The invariant of the LeaseFlow contract over every sequence of invocations: each stored lease is
  well formed, its dunning data agree with its state, and the vault holds at least the deposits of
  the leases that still have a claim on it. The lifecycle and the terms of a lease are monotone.
\<close>

section \<open>The invariant\<close>

text \<open>The part of the vault a lease still has a claim on: its deposit from activation until the
  arrears deduction.\<close>

definition held :: "lease \<Rightarrow> int" where
  "held l = (if state l = Pending \<or> arrears_processed l then 0 else deposit_amount l)"

definition lease_ok :: "int \<Rightarrow> lease \<Rightarrow> bool" where
  "lease_ok k l \<longleftrightarrow> lease_id l = k \<and> 0 < rent_amount l \<and> 0 < deposit_amount l
     \<and> start_date l < end_date l \<and> 0 \<le> late_fee_rate l \<and> peg_ok (peg_config l)
     \<and> is_i64 (rent_amount l) \<and> is_i64 (total_paid_rent l) \<and> is_u64 (end_date l)
     \<and> 0 \<le> outstanding_balance l \<and> 0 \<le> accumulated_late_fees l
     \<and> (state l = GracePeriod \<longrightarrow>
          dunning_start_timestamp l \<noteq> None \<and> outstanding_balance l = rent_amount l)
     \<and> (state l = EvictionPending \<longleftrightarrow> arrears_processed l)"

definition vault_ok :: "escrow_vault \<Rightarrow> int \<Rightarrow> bool" where
  "vault_ok v claims \<longleftrightarrow> total_locked v = available_balance v + lessor_treasury v
     \<and> 0 \<le> lessor_treasury v \<and> claims \<le> available_balance v \<and> total_locked v \<le> i64_max"

definition data_ok :: "contract_data \<Rightarrow> bool" where
  "data_ok d \<longleftrightarrow> 1 \<le> next_lease_id d
     \<and> (\<forall>k l. map_get k (leases d) = Some l \<longrightarrow> 1 \<le> k \<and> k < next_lease_id d \<and> lease_ok k l)
     \<and> vault_ok (vault d) (map_sum held (leases d))"

definition lf_inv :: "lf_state \<Rightarrow> bool" where
  "lf_inv s \<longleftrightarrow> (\<forall>d. data s = Some d \<longrightarrow> data_ok d)"

lemma data_okD:
  assumes "data_ok d" "map_get k (leases d) = Some l"
  shows "lease_ok k l" "1 \<le> k" "k < next_lease_id d"
  using assms by (auto simp: data_ok_def)

lemma lease_ok_held_nonneg: "lease_ok k l \<Longrightarrow> 0 \<le> held l"
  by (auto simp: lease_ok_def held_def)

lemma data_ok_held_le:
  assumes "data_ok d" "map_get k (leases d) = Some l"
  shows "held l \<le> available_balance (vault d)"
proof -
  have "held l \<le> map_sum held (leases d)"
    using assms by (intro map_sum_ge_entry) (auto intro: lease_ok_held_nonneg data_okD)
  then show ?thesis using assms by (simp add: data_ok_def vault_ok_def)
qed

text \<open>Every operation that rewrites one lease goes through this rule: the new lease is well formed
  and the vault still covers the claims after the change of this lease's claim.\<close>

lemma data_ok_update:
  assumes "data_ok d" "map_get k (leases d) = Some l" "lease_ok k l'"
    and "leases d' = map_set k l' (leases d)" "next_lease_id d' = next_lease_id d"
    and "vault_ok (vault d') (map_sum held (leases d) + held l' - held l)"
  shows "data_ok d'"
  using assms by (auto simp: data_ok_def map_sum_set)

lemma data_ok_store:
  assumes "data_ok d" "map_get k (leases d) = Some l" "lease_ok k l'" "held l' = held l"
  shows "data_ok (store_lease d k l')"
  using assms by (intro data_ok_update [OF assms(1,2,3)]) (auto simp: data_ok_def)

lemma lf_inv_store:
  assumes "lf_inv s" "data s = Some d" "map_get k (leases d) = Some l"
    and "data s' = Some (store_lease d k l')"
    and "lease_ok k l \<Longrightarrow> lease_ok k l'" "lease_ok k l \<Longrightarrow> held l' = held l"
  shows "lf_inv s'"
  using assms data_okD(1) [of d k l] data_ok_store [of d k l l'] by (simp add: lf_inv_def)

section \<open>Preservation, one lemma per operation\<close>

lemma initialize_inv: "initialize a s = (Ok u, s') \<Longrightarrow> lf_inv s'"
  by (auto simp: initialize_def proc_ok lf_inv_def data_ok_def vault_ok_def int_bounds)

lemma create_lease_inv:
  assumes "create_lease env a b r dep st fi g f u p s = (Ok k, s')" "lf_inv s" "0 \<le> f" "is_i64 r" "is_u64 fi"
  shows "lf_inv s'"
proof -
  obtain d l where d: "data s = Some d" "k = next_lease_id d"
    and s': "data s' = Some ((store_lease d k l)\<lparr>next_lease_id := k + 1\<rparr>)"
    and l: "lease_ok k l" "state l = Pending"
    using create_lease_Ok [OF assms(1)] assms(3-5)
    by (auto simp: lease_ok_def is_i64_def int_bounds)
  have ok: "data_ok d" using assms(2) d by (simp add: lf_inv_def)
  then have "map_get k (leases d) = None" using data_okD [OF ok] d(2) by (cases "map_get k (leases d)") fastforce+
  with ok s' l d(2) show ?thesis
    by (auto simp: lf_inv_def data_ok_def map_sum_set held_def intro: less_imp_le)
qed

lemma activate_lease_inv:
  assumes "activate_lease env k a s = (Ok u, s')" "lf_inv s"
  shows "lf_inv s'"
proof -
  obtain d l where d: "data s = Some d" "map_get k (leases d) = Some l" "state l = Pending"
    and s': "data s' = Some ((store_lease d k (l\<lparr>state := Active,
        last_rent_payment_timestamp := ledger_timestamp env\<rparr>))
        \<lparr>vault := (vault d)\<lparr>total_locked := total_locked (vault d) + deposit_amount l,
          available_balance := available_balance (vault d) + deposit_amount l\<rparr>\<rparr>)"
    and i: "is_i64 (total_locked (vault d) + deposit_amount l)"
    using activate_lease_Ok [OF assms(1)] by blast
  have ok: "data_ok d" using assms(2) d by (simp add: lf_inv_def)
  let ?l = "l\<lparr>state := Active, last_rent_payment_timestamp := ledger_timestamp env\<rparr>"
  have l: "lease_ok k l" by (rule data_okD [OF ok d(2)])
  then have "lease_ok k ?l" "held ?l - held l = deposit_amount l" "0 < deposit_amount l"
    using d(3) by (auto simp: lease_ok_def held_def)
  moreover have "vault_ok (vault d) (map_sum held (leases d))" using ok by (simp add: data_ok_def)
  ultimately show ?thesis using s' i
    by (auto simp: lf_inv_def vault_ok_def is_i64_def intro!: data_ok_update [OF ok d(2)])
qed

lemma process_rent_payment_inv:
  assumes "process_rent_payment env k n s = (Ok u, s')" "lf_inv s"
  shows "lf_inv s'"
  using process_rent_payment_Ok [OF assms(1)]
  by (elim exE conjE disjE) (erule (2) lf_inv_store [OF assms(2)], auto simp: lease_ok_def held_def)+

lemma handle_rent_payment_failure_inv:
  assumes "handle_rent_payment_failure env k s = (Ok u, s')" "lf_inv s"
  shows "lf_inv s'"
  using handle_rent_payment_failure_Ok [OF assms(1)]
  by (elim exE conjE) (erule (2) lf_inv_store [OF assms(2)],
      auto simp: lease_ok_def held_def pos_imp_zdiv_nonneg_iff)

text \<open>The deduction is only ever reached from the grace-period check: as an entry point of its own
  it finds every lease in eviction already processed.\<close>

lemma execute_arrears_deduction_blocked:
  assumes "lf_inv s"
  shows "execute_arrears_deduction env k s \<noteq> (Ok u, s')"
proof
  assume "execute_arrears_deduction env k s = (Ok u, s')"
  then obtain d l where "data s = Some d" "map_get k (leases d) = Some l"
    "state l = EvictionPending" "\<not> arrears_processed l"
    using execute_arrears_deduction_Ok by blast
  with assms show False by (auto simp: lf_inv_def data_ok_def lease_ok_def)
qed

lemma eviction_inv:
  assumes "execute_arrears_deduction env k s = (Ok u, s')"
    and "data s = Some (store_lease d k (l\<lparr>state := EvictionPending\<rparr>))"
    and ok: "data_ok d" and l: "map_get k (leases d) = Some l" "state l = GracePeriod"
  shows "lf_inv s'"
proof -
  let ?x = "min (outstanding_balance l + accumulated_late_fees l) (deposit_amount l)"
  obtain d' where d': "data s' = Some (store_lease d' k (l\<lparr>state := EvictionPending, arrears_processed := True\<rparr>))"
    "leases d' = map_set k (l\<lparr>state := EvictionPending\<rparr>) (leases d)" "next_lease_id d' = next_lease_id d"
    "vault d' = (vault d)\<lparr>available_balance := available_balance (vault d) - ?x,
       lessor_treasury := lessor_treasury (vault d) + ?x\<rparr>" and x: "0 < ?x"
    using execute_arrears_deduction_Ok [OF assms(1)] assms(2) by (auto simp: Let_def)
  have k: "lease_ok k l" by (rule data_okD [OF ok l(1)])
  have hl: "held l = deposit_amount l" using k l(2) by (auto simp: held_def lease_ok_def)
  have "data_ok (store_lease d' k (l\<lparr>state := EvictionPending, arrears_processed := True\<rparr>))"
    using d' k ok x hl l(2)
    by (intro data_ok_update [OF ok l(1)]) (auto simp: held_def lease_ok_def data_ok_def vault_ok_def)
  with d'(1) show ?thesis by (simp add: lf_inv_def)
qed

lemma check_grace_period_expiry_inv:
  assumes "check_grace_period_expiry env k s = (Ok u, s')" "lf_inv s"
  shows "lf_inv s'"
  using check_grace_period_expiry_Ok [OF assms(1)] assms(2)
  by (auto simp: lf_inv_def [of s] intro: eviction_inv)

lemma process_fiat_pegged_rent_payment_inv:
  assumes "process_fiat_pegged_rent_payment env k s = (Ok u, s')" "lf_inv s"
  shows "lf_inv s'"
  using process_fiat_pegged_rent_payment_Ok [OF assms(1)]
  by (elim exE conjE) (erule (2) lf_inv_store [OF assms(2)], auto simp: lease_ok_def held_def)

lemma terminate_lease_inv:
  assumes "terminate_lease env k a s = (Ok n, s')" "lf_inv s"
  shows "lf_inv s'"
  using terminate_lease_Ok [OF assms(1)]
  by (elim exE conjE) (erule (2) lf_inv_store [OF assms(2)], auto simp: lease_ok_def held_def)

lemmas operations_inv = initialize_inv create_lease_inv activate_lease_inv process_rent_payment_inv
  handle_rent_payment_failure_inv check_grace_period_expiry_inv
  process_fiat_pegged_rent_payment_inv terminate_lease_inv

lemma lf_exec_inv:
  assumes "lf_exec env m s = (Ok u, s')" "lf_inv s" "lf_typed m"
  shows "lf_inv s'"
  using assms
  by (cases m) (auto simp: proc_ok is_u32_def execute_arrears_deduction_blocked
      dest!: trigger_grace_period_check_Ok dest: operations_inv)

lemma lf_step_inv: "lf_inv s \<Longrightarrow> lf_inv (lf_step m s)"
  unfolding lf_step_def
  by (cases "lf_exec (fst m) (snd m)" s rule: invoke_cases) (auto intro: lf_exec_inv)

interpretation leaseflow: contract_system lf_inv lf_step lf_init
  by unfold_locales (simp_all add: lf_step_inv, simp add: lf_init_def lf_inv_def)

section \<open>The lifecycle is respected\<close>

lemma same_terms_trans: "same_terms a b \<Longrightarrow> same_terms b c \<Longrightarrow> same_terms a c"
  by (simp add: same_terms_def)

lemma lease_evolves_trans: "lease_evolves a b \<Longrightarrow> lease_evolves b c \<Longrightarrow> lease_evolves a c"
  by (auto simp: lease_evolves_def intro: same_terms_trans rtranclp_trans)

lemma evolves_trans: "evolves a b \<Longrightarrow> evolves b c \<Longrightarrow> evolves a c"
  unfolding evolves_def by (meson lease_evolves_trans order_trans)

lemma lease_evolvesI:
  "same_terms l l' \<Longrightarrow> state l' = state l \<or> lf_trans (state l) (state l')
     \<Longrightarrow> arrears_processed l \<longrightarrow> arrears_processed l' \<Longrightarrow> lease_evolves l l'"
  by (auto simp: lease_evolves_def)

definition progress :: "contract_data \<Rightarrow> lf_state \<Rightarrow> bool" where
  "progress d s' \<longleftrightarrow> (\<exists>d'. data s' = Some d' \<and> evolves d d')"

lemma progress_update:
  "map_get k (leases d) = Some l \<Longrightarrow> data s' = Some d' \<Longrightarrow> leases d' = map_set k l' (leases d)
     \<Longrightarrow> next_lease_id d \<le> next_lease_id d' \<Longrightarrow> lease_evolves l l' \<Longrightarrow> progress d s'"
  by (auto simp: progress_def intro: evolves_store)

lemma progress_store:
  "map_get k (leases d) = Some l \<Longrightarrow> data s' = Some (store_lease d k l') \<Longrightarrow> lease_evolves l l'
     \<Longrightarrow> progress d s'"
  by (auto simp: progress_def intro: evolves_store)

lemma create_lease_progress:
  assumes "create_lease env a b r dep st fi g f u p s = (Ok k, s')" "lf_inv s" "data s = Some d"
  shows "progress d s'"
proof -
  have "map_get (next_lease_id d) (leases d) = None"
    using assms(2,3) by (cases "map_get (next_lease_id d) (leases d)") (auto simp: lf_inv_def data_ok_def)
  then show ?thesis using create_lease_Ok [OF assms(1)] assms(3)
    by (auto simp: progress_def intro!: evolves_fresh)
qed

lemma activate_lease_progress:
  assumes "activate_lease env k a s = (Ok u, s')" "data s = Some d"
  shows "progress d s'"
  using activate_lease_Ok [OF assms(1)] assms(2)
  by (elim exE conjE) (simp, erule (1) progress_update, simp_all,
      rule lease_evolvesI, simp_all add: same_terms_def lf_trans_simps)

lemma process_rent_payment_progress:
  assumes "process_rent_payment env k n s = (Ok u, s')" "data s = Some d"
  shows "progress d s'"
  using process_rent_payment_Ok [OF assms(1)] assms(2)
  apply (elim exE conjE disjE; simp)
  apply (erule (1) progress_store)
  apply (rule lease_evolvesI)
  apply (simp_all add: same_terms_def lf_trans_simps)[3]
  apply (erule (1) progress_store)
  apply (rule lease_evolvesI)
  apply (simp_all add: same_terms_def lf_trans_simps)
  done

lemma handle_rent_payment_failure_progress:
  assumes "handle_rent_payment_failure env k s = (Ok u, s')" "data s = Some d"
  shows "progress d s'"
  using handle_rent_payment_failure_Ok [OF assms(1)] assms(2)
  by (auto simp: same_terms_def lf_trans_simps intro!: lease_evolvesI elim!: progress_store)

lemma check_grace_period_expiry_progress:
  assumes "check_grace_period_expiry env k s = (Ok u, s')" "data s = Some d"
  shows "progress d s'"
  using check_grace_period_expiry_Ok [OF assms(1)] assms(2)
  by (auto simp: progress_def [of d s] Let_def dest!: execute_arrears_deduction_Ok
      elim!: progress_update intro!: lease_evolvesI simp: same_terms_def lf_trans_simps)

lemma process_fiat_pegged_rent_payment_progress:
  assumes "process_fiat_pegged_rent_payment env k s = (Ok u, s')" "data s = Some d"
  shows "progress d s'"
  using process_fiat_pegged_rent_payment_Ok [OF assms(1)] assms(2)
  by (auto simp: same_terms_def intro!: lease_evolvesI elim!: progress_store)

lemma terminate_lease_progress:
  assumes "terminate_lease env k a s = (Ok n, s')" "data s = Some d"
  shows "progress d s'"
  using terminate_lease_Ok [OF assms(1)] assms(2)
  by (auto simp: same_terms_def lf_trans_simps intro!: lease_evolvesI elim!: progress_store)

lemmas operations_progress = create_lease_progress activate_lease_progress
  process_rent_payment_progress handle_rent_payment_failure_progress
  check_grace_period_expiry_progress process_fiat_pegged_rent_payment_progress
  terminate_lease_progress

fun is_initialize :: "lf_call \<Rightarrow> bool" where
  "is_initialize (Initialize a) = True"
| "is_initialize _ = False"

lemma lf_exec_progress:
  assumes "lf_exec env m s = (Ok u, s')" "lf_inv s" "data s = Some d" "\<not> is_initialize m"
  shows "progress d s'"
  using assms
  by (cases m) (auto simp: proc_ok execute_arrears_deduction_blocked
      dest!: trigger_grace_period_check_Ok dest: operations_progress)

text \<open>\<^verbatim>\<open>initialize\<close> may be called again at any time and wipes the storage; the lifecycle is stated for
  the messages after deployment.\<close>

definition lf_live_step :: "env \<times> lf_call \<Rightarrow> lf_state \<Rightarrow> lf_state" where
  "lf_live_step m s = (if is_initialize (snd m) then s else lf_step m s)"

definition lf_le :: "lf_state \<Rightarrow> lf_state \<Rightarrow> bool" where
  "lf_le s s' \<longleftrightarrow> (lf_inv s \<longrightarrow> lf_inv s' \<and> (\<forall>d. data s = Some d \<longrightarrow> progress d s'))"

lemma lf_le_step: "lf_le s (lf_live_step m s)"
proof (cases "lf_exec (fst m) (snd m)" s rule: invoke_cases)
  case (ok u s')
  then show ?thesis
    using lf_step_inv [of s m] lf_exec_progress [OF ok(1)]
    by (auto simp: lf_le_def lf_live_step_def lf_step_def progress_def)
next
  case (abort r)
  then show ?thesis by (auto simp: lf_le_def lf_live_step_def lf_step_def progress_def)
qed

lemma lf_le_trans: "lf_le a b \<Longrightarrow> lf_le b c \<Longrightarrow> lf_le a c"
  unfolding lf_le_def progress_def by (meson evolves_trans)

interpretation lease_life: monotone_system lf_le lf_live_step
  by unfold_locales (auto simp: lf_le_step progress_def lf_le_def [of s s for s] elim: lf_le_trans)

end
