(* ===== verification/LeaseFlow_Props.thy ===== *)
theory LeaseFlow_Props
  imports LeaseFlow_Invariant
begin

text \<open>
  The properties of the LeaseFlow contract, each with an instance on a concrete run.
\<close>

section \<open>A concrete run\<close>

definition ex_env :: "int \<Rightarrow> env" where
  "ex_env t = \<lparr>ledger_timestamp = t, ledger_sequence = 1, auths = [], current_contract = 0,
     ext = (\<lambda>_ _. Reply_price 400 t 7 2)\<rparr>"

definition ex_peg :: fiat_peg_config where
  "ex_peg = \<lparr>enabled = True, target_usd_amount = 1000, asset_address = 7, oracle_address = 8,
     staleness_threshold = 900, volatility_threshold = 2000\<rparr>"

definition ex_setup :: "(env \<times> lf_call) list" where
  "ex_setup = [(ex_env 100, Initialize 9),
     (ex_env 200, CreateLease 1 2 1000 500 1000 100000 3600 500 [] (Some ex_peg)),
     (ex_env 300, ActivateLease 1 2)]"

definition ex_lease :: lease where
  "ex_lease = \<lparr>lease_id = 1, lessor = 1, lessee = 2, rent_amount = 1000, deposit_amount = 500,
     start_date = 1000, end_date = 100000, state = Active, max_grace_period = 3600,
     late_fee_rate = 500, dunning_start_timestamp = None, outstanding_balance = 0,
     accumulated_late_fees = 0, last_rent_payment_timestamp = 300, property_uri = [],
     arrears_processed = False, prorated_initial_rent = 1000, total_paid_rent = 0,
     peg_config = Some ex_peg, last_oracle_price = None, last_oracle_timestamp = None\<rparr>"

definition ex_data :: "lease \<Rightarrow> int \<Rightarrow> int \<Rightarrow> contract_data" where
  "ex_data l avail treasury = \<lparr>leases = map_set 1 l map_empty, next_lease_id = 2,
     vault = \<lparr>total_locked = 500, available_balance = avail, lessor_treasury = treasury\<rparr>,
     credit_records = map_empty,
     oracle_cfg = \<lparr>oc_oracle_address = 9, oc_staleness_threshold = 900,
       oc_volatility_threshold = 2000, oc_max_price_age = 3600\<rparr>\<rparr>"

definition ex_state :: lf_state where
  "ex_state = \<lparr>events = [LeaseCreated 1 1 2 1000 500 1000 100000 3600 500, LeaseActivated 1 300],
     calls = [], data = Some (ex_data ex_lease 500 0)\<rparr>"

lemmas ex_defs = ex_env_def ex_peg_def ex_lease_def ex_data_def ex_state_def

lemma ex_setup_run: "fold lf_step ex_setup lf_init = ex_state"
  by (simp add: ex_setup_def lf_step_def lf_init_def ex_defs invoke_def initialize_def
      create_lease_def activate_lease_def Let_def bind_run chk_w_run throw_if_run publish_run
      set_data_run get_data_def load_lease_def store_lease_def unwrap_run ok_or_run range_defs int_bounds)

lemma ex_inv: "lf_inv ex_state"
  using leaseflow.reach_inv [of ex_setup] by (simp only: ex_setup_run)

lemma ex_data_simps [simp]:
  "map_get 1 (leases (ex_data l a t)) = Some l" "data ex_state = Some (ex_data ex_lease 500 0)"
  by (simp_all add: ex_data_def ex_state_def)

section \<open>Reachable states\<close>

text \<open>Claim C1. In every state the LeaseFlow contract can reach, whatever messages are sent and whatever
  its price oracle answers, every stored lease is well formed (positive rent and deposit, ordered
  dates, non-negative fees, a dunning start and the rent outstanding while in grace, arrears processed
  exactly when eviction is pending), the vault's locked total is the available balance plus the lessor
  treasury, and the available balance covers the deposits of all activated, unevicted leases.\<close>

theorem reachable_leases_ok:
  assumes "data (fold lf_step ms lf_init) = Some d"
  shows "data_ok d"
  using leaseflow.reach_inv [of ms] assms by (simp add: lf_inv_def)

theorem reachable_leases_ok_witness: "data_ok (ex_data ex_lease 500 0)"
  by (rule reachable_leases_ok [of ex_setup]) (simp add: ex_setup_run)

lemma live_run:
  "\<forall>m \<in> set ms. \<not> is_initialize (snd m) \<Longrightarrow> fold lf_step ms s = fold lf_live_step ms s"
  by (rule fold_cong) (auto simp: lf_live_step_def fun_eq_iff)

text \<open>Claim C11. From any state that satisfies the invariant, and over any calls none of which is \<^verbatim>\<open>initialize\<close>, a
  lease never disappears, never changes its parties, amounts, dates or fees, and its state only follows the
  lifecycle Pending, Active, GracePeriod and back, then EvictionPending or Closed, which are final. The
  condition on the calls is needed: \<^verbatim>\<open>initialize\<close> is not guarded, and calling it again wipes all leases.\<close>

theorem lease_lifecycle:
  assumes "lf_inv s" "data s = Some d" "map_get k (leases d) = Some l"
    and "\<forall>m \<in> set ms. \<not> is_initialize (snd m)"
  shows "\<exists>d' l'. data (fold lf_step ms s) = Some d' \<and> map_get k (leases d') = Some l'
    \<and> same_terms l l' \<and> lf_trans\<^sup>*\<^sup>* (state l) (state l')
    \<and> (state l \<in> {Closed, EvictionPending} \<longrightarrow> state l' = state l)"
proof -
  have "lf_le s (fold lf_step ms s)" using lease_life.run_le by (simp add: live_run [OF assms(4)])
  with assms(1-3) show ?thesis
    by (fastforce simp: lf_le_def progress_def evolves_def lease_evolves_def dest: final_states)
qed

theorem lease_lifecycle_witness:
  "\<exists>d' l'. data (fold lf_step [(ex_env 400, TerminateLease 1 2)] ex_state) = Some d'
    \<and> map_get 1 (leases d') = Some l' \<and> same_terms ex_lease l'"
proof -
  have "\<forall>m \<in> set [(ex_env 400, TerminateLease 1 2)]. \<not> is_initialize (snd m)" by simp
  from lease_lifecycle [OF ex_inv ex_data_simps(2,1) this] show ?thesis by blast
qed

text \<open>What the condition excludes: an initialisation that completes leaves a storage without leases.\<close>

lemma initialize_wipes:
  "is_u64 (ledger_timestamp env) \<Longrightarrow> \<exists>d. data (lf_step (env, Initialize a) s) = Some d \<and> leases d = map_empty"
  by (simp add: lf_step_def invoke_def initialize_def bind_run set_data_run)

section \<open>Delinquency and recovery\<close>

text \<open>Claim C19. A lease that fell into its grace period is recovered by a payment exactly when the
  payment covers the rent and the late fee of the missed rent; the lease is then active again with
  its dunning data cleared and the whole payment counted. The published event reports a late fee of
  zero, whatever was paid.\<close>

theorem grace_recovery:
  assumes "lf_inv s" "data s = Some d" "map_get k (leases d) = Some l"
    and fail: "handle_rent_payment_failure env k s = (Ok (), s1)"
    and fee: "fee = rent_amount l * late_fee_rate l div 10000"
  shows "process_rent_payment env' k n s1 = (Ok (), s2) \<longleftrightarrow>
      rent_amount l + fee \<le> n \<and> is_i64 (rent_amount l + fee) \<and> is_i64 (total_paid_rent l + n)
      \<and> s2 = s1\<lparr>events := events s1 @ [LeaseRecovered k (ledger_timestamp env') n 0],
          data := Some (store_lease d k (l\<lparr>state := Active,
            last_rent_payment_timestamp := ledger_timestamp env', outstanding_balance := 0,
            accumulated_late_fees := 0, dunning_start_timestamp := None,
            total_paid_rent := total_paid_rent l + n\<rparr>))\<rparr>"
proof -
  have st: "state l = Active" and s1: "data s1 = Some (store_lease d k (l\<lparr>state := GracePeriod,
        dunning_start_timestamp := Some (ledger_timestamp env), outstanding_balance := rent_amount l,
        accumulated_late_fees := fee\<rparr>))"
    using handle_rent_payment_failure_Ok [OF fail] assms(2,3) fee by auto
  have "lease_ok k l" using assms(1-3) data_okD(1) by (auto simp: lf_inv_def)
  then have "0 \<le> fee" using fee by (simp add: lease_ok_def pos_imp_zdiv_nonneg_iff)
  then show ?thesis unfolding process_rent_payment_def using st s1
    by (auto simp: proc_ok Let_def store_lease_def)
qed

definition ex_delinquent :: lf_state where
  "ex_delinquent = ex_state\<lparr>events := events ex_state @ [RentDelinquencyStarted 1 5000 8600 1000 50],
     data := Some (ex_data (ex_lease\<lparr>state := GracePeriod, dunning_start_timestamp := Some 5000,
       outstanding_balance := 1000, accumulated_late_fees := 50\<rparr>) 500 0)\<rparr>"

lemma ex_failure_run:
  "handle_rent_payment_failure (ex_env 5000) 1 ex_state = (Ok (), ex_delinquent)"
  by (simp add: handle_rent_payment_failure_def calculate_late_fee_def ex_delinquent_def ex_defs
      Let_def proc_run get_data_def load_lease_def store_lease_def range_defs int_bounds)

theorem grace_recovery_witness:
  "(\<exists>s2. process_rent_payment (ex_env 6000) 1 1050 ex_delinquent = (Ok (), s2))
    \<and> (\<nexists>s2. process_rent_payment (ex_env 6000) 1 1049 ex_delinquent = (Ok (), s2))"
  unfolding grace_recovery [OF ex_inv ex_data_simps(2,1) ex_failure_run refl]
  by (simp add: ex_lease_def range_defs int_bounds)

section \<open>Eviction\<close>

text \<open>Claim C10. Once the grace period of a delinquent lease is over, the grace check evicts it in the
  same call, with no vault underflow in any state that satisfies the invariant: the deduction is the
  smaller of the arrears and the deposit, it moves inside the vault from the available balance to the
  lessor treasury, what the deposit does not cover is added to the tenant's debt with one more
  default on record, and no other lease changes.\<close>

theorem eviction_completes:
  assumes "lf_inv s" "data s = Some d" "map_get k (leases d) = Some l"
    and "state l = GracePeriod" "dunning_start_timestamp l = Some ds"
    and expired: "ds + max_grace_period l < ledger_timestamp env" "is_u64 (ds + max_grace_period l)"
    and arrears: "arrears = outstanding_balance l + accumulated_late_fees l" "is_i64 arrears"
    and deduction: "deduction = min arrears (deposit_amount l)"
    and debt: "old = (case map_get (lessee l) (credit_records d) of Some r \<Rightarrow> r | None \<Rightarrow>
        \<lparr>cr_lessee = lessee l, total_debt_amount = 0, default_count = 0,
         last_default_timestamp = 0, associated_lease_ids = []\<rparr>)"
      "is_i64 (total_debt_amount old + (arrears - deduction))" "is_u32 (default_count old + 1)"
  shows "\<exists>s' d'. check_grace_period_expiry env k s = (Ok (), s') \<and> data s' = Some d'
    \<and> leases d' = map_set k (l\<lparr>state := EvictionPending, arrears_processed := True\<rparr>) (leases d)
    \<and> 0 < deduction
    \<and> vault d' = (vault d)\<lparr>available_balance := available_balance (vault d) - deduction,
        lessor_treasury := lessor_treasury (vault d) + deduction\<rparr>
    \<and> (if deduction = arrears then credit_records d' = credit_records d
       else \<exists>r. map_get (lessee l) (credit_records d') = Some r
         \<and> total_debt_amount r = total_debt_amount old + (arrears - deduction)
         \<and> default_count r = default_count old + 1 \<and> k \<in> set (associated_lease_ids r))"
proof -
  have ok: "data_ok d" using assms(1,2) by (simp add: lf_inv_def)
  have l: "lease_ok k l" by (rule data_okD [OF ok assms(3)])
  then have pos: "0 < arrears" "0 < deposit_amount l" "\<not> arrears_processed l"
    using arrears assms(4) by (auto simp: lease_ok_def)
  have av: "deduction \<le> available_balance (vault d)"
    using data_ok_held_le [OF ok assms(3)] assms(4) pos deduction by (auto simp: held_def)
  have "vault_ok (vault d) (map_sum held (leases d))" using ok by (simp add: data_ok_def)
  moreover have "0 \<le> map_sum held (leases d)"
    by (rule map_sum_nonneg) (auto intro: lease_ok_held_nonneg data_okD [OF ok])
  ultimately have i64: "is_i64 (available_balance (vault d) - deduction)"
      "is_i64 (lessor_treasury (vault d) + deduction)"
    using av pos deduction by (auto simp: vault_ok_def is_i64_def i64_min_def)
  have res: "sat_i64 (arrears - deduction) = arrears - deduction"
    using arrears(2) pos deduction by (intro sat_id) (auto simp: is_i64_def i64_min_def)
  note run = check_grace_period_expiry_def execute_arrears_deduction_def
    calculate_deduction_amount_def update_credit_record_def Let_def proc_run get_data_def
    load_lease_def store_lease_def
  show ?thesis
  proof (cases "deduction = arrears")
    case True
    then show ?thesis using assms pos av i64 res by (auto simp: run)
  next
    case False
    then show ?thesis using assms pos av i64 res by (auto simp: run)
  qed
qed

lemma ex_delinquent_inv: "lf_inv ex_delinquent"
  by (rule handle_rent_payment_failure_inv [OF ex_failure_run ex_inv])

lemma ex_delinquent_data: "data ex_delinquent = Some (ex_data (ex_lease\<lparr>state := GracePeriod,
    dunning_start_timestamp := Some 5000, outstanding_balance := 1000,
    accumulated_late_fees := 50\<rparr>) 500 0)"
  by (simp add: ex_delinquent_def)

theorem eviction_completes_witness:
  "\<exists>s' d'. check_grace_period_expiry (ex_env 8601) 1 ex_delinquent = (Ok (), s') \<and> data s' = Some d'
    \<and> available_balance (vault d') = 0 \<and> lessor_treasury (vault d') = 500
    \<and> (\<exists>r. map_get 2 (credit_records d') = Some r \<and> total_debt_amount r = 550)"
proof -
  let ?l = "ex_lease\<lparr>state := GracePeriod, dunning_start_timestamp := Some 5000,
    outstanding_balance := 1000, accumulated_late_fees := 50\<rparr>"
  have h: "state ?l = GracePeriod" "dunning_start_timestamp ?l = Some 5000"
    "5000 + max_grace_period ?l < ledger_timestamp (ex_env 8601)" "is_u64 (5000 + max_grace_period ?l)"
    "1050 = outstanding_balance ?l + accumulated_late_fees ?l" "is_i64 1050"
    "500 = min 1050 (deposit_amount ?l)"
    by (simp_all add: ex_lease_def ex_env_def range_defs int_bounds)
  have c: "credit_records (ex_data ?l 500 0) = map_empty" "lessee ?l = 2"
    "available_balance (vault (ex_data ?l 500 0)) = 500" "lessor_treasury (vault (ex_data ?l 500 0)) = 0"
    by (simp_all add: ex_data_def ex_lease_def)
  show ?thesis
    using eviction_completes [OF ex_delinquent_inv ex_delinquent_data ex_data_simps(1) h refl]
    unfolding c by (auto simp: range_defs int_bounds)
qed

text \<open>The public entry point \<^verbatim>\<open>execute_arrears_deduction\<close> never succeeds on its own: between
  messages every lease whose eviction is pending has already been charged by the grace check that
  evicted it, so no tenant can be charged twice.\<close>

theorem arrears_charged_once:
  "execute_arrears_deduction env k (fold lf_step ms lf_init) \<noteq> (Ok u, s')"
  by (rule execute_arrears_deduction_blocked) (rule leaseflow.reach_inv)

section \<open>Fiat-pegged rent\<close>

lemma get_oracle_price_Ok:
  assumes "get_oracle_price env l a s = (Ok pd, s')" "peg_config l = Some config"
  shows "ext env (calls s) (GetPrice a (asset_address config))
        = Reply_price (price pd) (timestamp pd) (asset pd) (decimals pd)
    \<and> sat_u64 (ledger_timestamp env - timestamp pd) \<le> min (staleness_threshold config) 3600
    \<and> (\<forall>lp lt. last_oracle_price l = Some lp \<longrightarrow> last_oracle_timestamp l = Some lt \<longrightarrow> 0 < lp \<longrightarrow>
         sat_u64 (ledger_timestamp env - lt) \<le> 3600 \<longrightarrow>
         \<bar>price pd - lp\<bar> * 10000 div lp \<le> volatility_threshold config)
    \<and> s' = s\<lparr>calls := calls s @ [GetPrice a (asset_address config)]\<rparr>"
  using assms unfolding get_oracle_price_def
  by (auto simp: proc_ok Let_def abs_if tdiv_nonneg algebra_simps
      split: reply.splits option.splits if_splits)

text \<open>Claim C20. A fiat-pegged payment only goes through on an active lease with an enabled peg and on an
  oracle price that is fresh (within the lease's staleness threshold and never older than an hour)
  and within the volatility threshold of the last price of the past hour; with a positive price the
  amount billed is exactly the target amount in the oracle's decimals over the price, rounded down,
  and positive.\<close>

theorem fiat_rent_guarded:
  assumes "lf_inv s" "data s = Some d" "map_get k (leases d) = Some l"
    and "peg_config l = Some config"
    and pay: "process_fiat_pegged_rent_payment env k s = (Ok u, s')"
  shows "\<exists>p t a dec amount d' l'. ext env (calls s) (GetPrice (oracle_address config) (asset_address config))
        = Reply_price p t a dec
    \<and> state l = Active \<and> enabled config
    \<and> sat_u64 (ledger_timestamp env - t) \<le> min (staleness_threshold config) 3600
    \<and> (\<forall>lp lt. last_oracle_price l = Some lp \<longrightarrow> last_oracle_timestamp l = Some lt \<longrightarrow> 0 < lp \<longrightarrow>
         sat_u64 (ledger_timestamp env - lt) \<le> 3600 \<longrightarrow>
         \<bar>p - lp\<bar> * 10000 div lp \<le> volatility_threshold config)
    \<and> p \<noteq> 0 \<and> 0 < amount \<and> is_i64 amount
    \<and> (0 < p \<longrightarrow> amount = target_usd_amount config * 10 ^ nat dec div p)
    \<and> data s' = Some d' \<and> map_get k (leases d') = Some l'
    \<and> total_paid_rent l' = total_paid_rent l + amount"
proof -
  have "lease_ok k l" using assms(1-3) data_okD(1) by (auto simp: lf_inv_def)
  then have target: "0 < target_usd_amount config" using assms(4) by (simp add: lease_ok_def peg_ok_def)
  obtain amount s1 where st: "state l = Active" "enabled config"
    and amount: "calculate_fiat_pegged_rent env l s = (Ok amount, s1)"
    and s': "\<exists>d' l'. data s' = Some d' \<and> map_get k (leases d') = Some l'
      \<and> total_paid_rent l' = total_paid_rent l + amount"
    using process_fiat_pegged_rent_payment_Ok [OF pay] assms(2-4) by auto
  from amount st(2) assms(4) obtain pd where
    pd: "get_oracle_price env l (oracle_address config) s = (Ok pd, s1)" "price pd \<noteq> 0"
    and q: "amount = as_i64 (tdiv (target_usd_amount config * 10 ^ nat (decimals pd)) (price pd))"
      "0 < amount" "tdiv (target_usd_amount config * 10 ^ nat (decimals pd)) (price pd) \<le> i64_max"
    unfolding calculate_fiat_pegged_rent_def by (auto simp: proc_ok Let_def not_less not_le)
  have "amount = target_usd_amount config * 10 ^ nat (decimals pd) div price pd" if "0 < price pd"
  proof -
    let ?q = "target_usd_amount config * 10 ^ nat (decimals pd)"
    have "tdiv ?q (price pd) = ?q div price pd" "0 \<le> tdiv ?q (price pd)"
      using that target tdiv_ge_0 [of ?q "price pd"] by (simp_all add: tdiv_nonneg)
    then show ?thesis using q by (simp add: as_i64_id is_i64_def i64_min_def)
  qed
  moreover have "is_i64 amount" using q(1) as_i64_range by simp
  ultimately show ?thesis using get_oracle_price_Ok [OF pd(1) assms(4)] pd(2) q(2) st s' by auto
qed

lemma ex_fiat_run:
  "\<exists>s'. process_fiat_pegged_rent_payment (ex_env 5000) 1 ex_state = (Ok (), s')"
  by (simp add: process_fiat_pegged_rent_payment_def calculate_fiat_pegged_rent_def
      get_oracle_price_def ex_defs Let_def proc_run get_data_def load_lease_def store_lease_def
      range_defs int_bounds sat_defs tdiv_def as_i64_def)

theorem fiat_rent_guarded_witness:
  "\<exists>s' d' l'. process_fiat_pegged_rent_payment (ex_env 5000) 1 ex_state = (Ok (), s')
     \<and> data s' = Some d' \<and> map_get 1 (leases d') = Some l' \<and> total_paid_rent l' = 250"
proof -
  have peg: "peg_config ex_lease = Some ex_peg" by (simp add: ex_lease_def)
  obtain s' where run: "process_fiat_pegged_rent_payment (ex_env 5000) 1 ex_state = (Ok (), s')"
    using ex_fiat_run by blast
  show ?thesis using fiat_rent_guarded [OF ex_inv ex_data_simps(2,1) peg run] run
    by (auto simp: ex_env_def ex_peg_def ex_lease_def)
qed

section \<open>Termination\<close>



end
