(* ===== verification/Contract_Types.thy ===== *)
theory Contract_Types
  imports Soroban_Host
begin

text \<open>
  Data of the contract crate \<^verbatim>\<open>contracts/leaseflow_contracts\<close> (\<^verbatim>\<open>src/lib.rs\<close>, \<^verbatim>\<open>src/velocity_guard.rs\<close>):
  its enums and structs, errors and events, the bitmask of boolean lease flags, and the contract's
  storage as one record with a component per \<^verbatim>\<open>DataKey\<close>. Unset keys are \<open>None\<close>, keys that only ever
  hold \<^verbatim>\<open>true\<close> are sets.
\<close>

unbundle bit_operations_syntax

section \<open>Enumerations\<close>

datatype rate_type = PerSecond | PerHour | PerDay

datatype deposit_status = Held | Settled | Disputed

datatype lease_status = LPending | LActive | LExpired | LDisputed | LTerminated | LDaoArbitration

datatype maintenance_status = MNone | Reported | Fixed | Verified

datatype damage_severity = NormalWearAndTear | Minor | Moderate | Major | Severe | Catastrophic

datatype asset_condition = Mint | Worn | Damaged | Destroyed

datatype oracle_status = OActive | ODemoted | OFailed

datatype oracle_tier = Primary | Backup

text \<open>The discriminants of \<^verbatim>\<open>DamageSeverity\<close>; the code compares severities through the cast
  \<^verbatim>\<open>as u32\<close>, which is the order of the type.\<close>

fun severity_code :: "damage_severity \<Rightarrow> int" where
  "severity_code NormalWearAndTear = 0"
| "severity_code Minor = 1"
| "severity_code Moderate = 2"
| "severity_code Major = 3"
| "severity_code Severe = 4"
| "severity_code Catastrophic = 5"

lemma severity_code_inj: "severity_code a = severity_code b \<Longrightarrow> a = b"
  by (cases a; cases b) auto

instantiation damage_severity :: linorder
begin

definition less_eq_damage_severity :: "damage_severity \<Rightarrow> damage_severity \<Rightarrow> bool" where
  "a \<le> b \<longleftrightarrow> severity_code a \<le> severity_code b"

definition less_damage_severity :: "damage_severity \<Rightarrow> damage_severity \<Rightarrow> bool" where
  "a < b \<longleftrightarrow> severity_code a < severity_code b"

instance
  by intro_classes
    (auto simp: less_eq_damage_severity_def less_damage_severity_def severity_code_inj)

end

datatype lease_error =
    LeaseNotFound | LeaseNotExpired | RentOutstanding | DepositNotSettled | Unauthorised
  | InvalidDeduction | NftTransferFailed | UsageRightsNotFound | UsageRightsExpired | KycRequired
  | InvalidAsset | NftNotReturned | WithdrawalAddressNotSet | NotAnArbitrator | LeaseAlreadyExists
  | UpgradeNotAllowed | PathPaymentFailed | SlippageExceeded | InvalidReleaseMath
  | OracleNotWhitelisted | InvalidSignature | InvalidNonce | LeaseNotTerminated
  | DepositAlreadySettled | YieldUnderflow | InsufficientLiquidityBuffer
  | YieldProtocolNotWhitelisted | InvalidYieldDistribution | OracleStale | OracleUnavailable
  | FallbackHierarchyNotConfigured | DaoArbitrationNotEnabled | OracleBypassAttempt | AssetNotOwned
  | AssetRegistryInvalid | AssetFreezeFailed | AssetThawFailed | RegistryCallFailed
  | AssetVerificationFailed
  | VelocityLimitExceeded | PendingVeto | InvalidParameters

text \<open>The last three are used by the code but missing in its \<^verbatim>\<open>enum LeaseError\<close>.\<close>

section \<open>Flags\<close>

definition ACTIVE :: "8 word" where "ACTIVE = push_bit 0 1"
definition FLAT_FEE_APPLIED :: "8 word" where "FLAT_FEE_APPLIED = push_bit 1 1"
definition HAD_LATE_PAYMENT :: "8 word" where "HAD_LATE_PAYMENT = push_bit 2 1"
definition HAS_PET :: "8 word" where "HAS_PET = push_bit 3 1"
definition YIELD_DELEGATION_ENABLED :: "8 word" where "YIELD_DELEGATION_ENABLED = push_bit 4 1"
definition PAUSED :: "8 word" where "PAUSED = push_bit 5 1"

lemmas flag_defs = ACTIVE_def FLAT_FEE_APPLIED_def HAD_LATE_PAYMENT_def HAS_PET_def
  YIELD_DELEGATION_ENABLED_def PAUSED_def

definition has_flag :: "8 word \<Rightarrow> 8 word \<Rightarrow> bool" where
  "has_flag f m \<longleftrightarrow> f AND m \<noteq> 0"

definition set_flag :: "8 word \<Rightarrow> 8 word \<Rightarrow> 8 word" where
  "set_flag f m = f OR m"

definition clear_flag :: "8 word \<Rightarrow> 8 word \<Rightarrow> 8 word" where
  "clear_flag f m = f AND NOT m"

text \<open>Each flag is one bit; reading it is reading that bit, and writing one flag leaves the others.\<close>

lemma bit_flag: "k < 8 \<Longrightarrow> bit (push_bit k 1 :: 8 word) n \<longleftrightarrow> n = k"
  by (auto simp: bit_exp_iff)

lemma flag_bits:
  "bit ACTIVE n \<longleftrightarrow> n = 0" "bit FLAT_FEE_APPLIED n \<longleftrightarrow> n = 1" "bit HAD_LATE_PAYMENT n \<longleftrightarrow> n = 2"
  "bit HAS_PET n \<longleftrightarrow> n = 3" "bit YIELD_DELEGATION_ENABLED n \<longleftrightarrow> n = 4" "bit PAUSED n \<longleftrightarrow> n = 5"
  unfolding flag_defs by (subst bit_flag, simp, simp)+

lemma has_flag_bit:
  fixes f m :: "8 word"
  assumes "\<And>n. bit m n \<longleftrightarrow> n = k"
  shows "has_flag f m \<longleftrightarrow> bit f k"
proof -
  have "f AND m = 0 \<longleftrightarrow> (\<forall>n. \<not> bit (f AND m) n)"
    by (metis bit_0_eq bit_word_eqI bot_apply bot_bool_def)
  then show ?thesis using assms by (simp add: has_flag_def bit_and_iff)
qed

lemma set_flag_bit: "bit (set_flag f m) n \<longleftrightarrow> bit f n \<or> bit m n"
  by (simp add: set_flag_def bit_or_iff)

lemma clear_flag_bit: "bit (clear_flag f m) n \<longleftrightarrow> bit f n \<and> \<not> bit m n"
  by (auto simp: clear_flag_def bit_and_iff bit_not_iff dest: bit_imp_le_length)

lemmas has_flag_iff = has_flag_bit [OF flag_bits(1)] has_flag_bit [OF flag_bits(2)]
  has_flag_bit [OF flag_bits(3)] has_flag_bit [OF flag_bits(4)] has_flag_bit [OF flag_bits(5)]
  has_flag_bit [OF flag_bits(6)]

lemmas flag_simps = has_flag_iff set_flag_bit clear_flag_bit flag_bits

section \<open>Leases\<close>

text \<open>The record behind \<^verbatim>\<open>LeaseInstance\<close>. The struct of the source lists some fields twice and
  lacks \<^verbatim>\<open>asset_registry_address\<close> and \<^verbatim>\<open>asset_id\<close>, which the code reads; here every field occurs once.\<close>

record lease_instance =
  rent_amount :: int
  deposit_amount :: int
  security_deposit :: int
  rent_paid :: int
  cumulative_payments :: int
  debt :: int
  late_fee_flat :: int
  late_fee_per_sec :: int
  rent_withdrawn :: int
  withheld_rent :: int
  yield_accumulated :: int
  equity_balance :: int
  pet_deposit_amount :: int
  pet_rent_amount :: int
  rent_per_sec :: int
  buyout_price :: "int option"
  rent_pull_authorized_amount :: "int option"
  landlord :: address
  tenant :: address
  payment_token :: address
  withdrawal_address :: "address option"
  inspector :: "address option"
  pause_initiator :: "address option"
  nft_contract :: "address option"
  arbitrators :: "address list"
  start_date :: int
  end_date :: int
  expiry_time :: int
  rent_paid_through :: int
  grace_period_end :: int
  seconds_late_charged :: int
  total_paused_duration :: int
  billing_cycle_duration :: int
  paused_at :: "int option"
  last_rent_pull_timestamp :: "int option"
  token_id :: "int option"
  equity_percentage_bps :: int
  status :: lease_status
  deposit_status :: deposit_status
  maintenance_status :: maintenance_status
  repair_proof_hash :: "bytes32 option"
  pause_reason :: "string option"
  property_uri :: string
  flags :: "8 word"
  early_termination_fee_bps :: "int option"
  fixed_penalty :: "int option"
  lessor_reference_id :: "string option"
  paused :: bool
  continuous_billing_enabled :: bool
  rent_treasury_address :: "address option"
  yield_delegation_enabled :: bool
  asset_registry_address :: "address option"
  asset_id :: "int option"

record create_lease_params =
  p_tenant :: address
  p_rent_amount :: int
  p_deposit_amount :: int
  p_security_deposit :: int
  p_start_date :: int
  p_end_date :: int
  p_property_uri :: string
  p_payment_token :: address
  p_arbitrators :: "address list"
  p_rent_per_sec :: int
  p_grace_period_end :: int
  p_late_fee_flat :: int
  p_late_fee_per_sec :: int
  p_equity_percentage_bps :: int
  p_has_pet :: bool
  p_pet_deposit_amount :: int
  p_pet_rent_amount :: int
  p_yield_delegation_enabled :: bool
  p_deposit_asset :: "address option"
  p_dex_contract :: "address option"
  p_max_slippage_bps :: int
  p_swap_path :: "address list"
  p_lessor_reference_id :: "string option"
  p_asset_registry_address :: "address option"
  p_asset_id :: "int option"

text \<open>The struct \<^verbatim>\<open>Lease\<close> of the first generation of entry points.\<close>

record legacy_lease =
  l_landlord :: address
  l_tenant :: address
  l_rent_per_sec :: int
  l_late_fee_per_sec :: int
  l_deposit_amount :: int
  l_start_date :: int
  l_end_date :: int
  l_property_uri :: string
  l_status :: lease_status
  l_nft_contract :: "address option"
  l_token_id :: "int option"
  l_active :: bool
  l_grace_period_end :: int
  l_late_fee_flat :: int
  l_debt :: int
  l_flat_fee_applied :: bool
  l_seconds_late_charged :: int
  l_rent_paid :: int
  l_expiry_time :: int
  l_buyout_price :: "int option"
  l_cumulative_payments :: int
  l_payment_token :: address

record receipt =
  r_lease_id :: string
  r_month :: int
  r_amount :: int
  r_date :: int

record usage_rights =
  renter :: address
  u_nft_contract :: address
  u_token_id :: int
  u_lease_id :: string
  valid_until :: int

record historical_lease =
  h_lease :: lease_instance
  terminated_by :: address
  terminated_at :: int

section \<open>Oracles, yield and velocity\<close>

record oracle_payload =
  op_lease_id :: int
  op_oracle_pubkey :: bytes32
  damage_severity :: damage_severity
  op_nonce :: int
  op_timestamp :: int
  op_signature :: bytes32

record asset_condition_payload =
  ap_lease_id :: int
  ap_oracle_pubkey :: bytes32
  ap_condition :: asset_condition
  ap_nonce :: int
  ap_timestamp :: int
  ap_signature :: bytes32

record oracle_config =
  pubkey :: bytes32
  tier :: oracle_tier
  o_status :: oracle_status
  last_successful_timestamp :: int
  demotion_timestamp :: "int option"
  failure_count :: int

record fallback_hierarchy =
  primary_oracle :: bytes32
  backup_oracle :: bytes32
  dao_arbitration_enabled :: bool
  hierarchy_active :: bool
  last_demotion_time :: "int option"

record pending_slash =
  ps_lease_id :: int
  ps_slash_amount :: int
  ps_tenant_refund :: int
  ps_landlord_payout :: int
  ps_payload :: oracle_payload
  ps_proposed_at :: int
  ps_timelock_end :: int
  veto_votes_for :: int
  veto_votes_against :: int
  ps_executed :: bool
  ps_vetoed :: bool

record yield_deployment =
  yd_lease_id :: int
  principal_amount :: int
  yd_protocol :: address
  deployment_timestamp :: int
  lp_tokens :: int
  yd_active :: bool

record velocity_tracker =
  vt_lessor :: address
  total_leases :: int
  terminations_24h :: int
  last_termination_times :: "int list"
  is_paused :: bool
  pause_timestamp :: "int option"

record dao_approval_request =
  dr_lessor :: address
  dr_request_id :: int
  dr_timestamp :: int
  dr_reason :: string
  terminations_count :: int
  dr_approved :: bool
  dr_approvals :: "address list"

end
