(* ===== verification/Contract_State.thy ===== *)
theory Contract_State
  imports Contract_Types
begin

text \<open>
  The storage of the lease contract, its events, and the storage helpers of \<^verbatim>\<open>src/lib.rs\<close>
  (\<^verbatim>\<open>save_lease_instance\<close>, \<^verbatim>\<open>archive_lease\<close>, the reentrancy lock and the admin check every
  privileged operation starts with).
\<close>

section \<open>Events\<close>

datatype lc_event =
    RoommateAdded int address
  | RentPaidPartial int address int
  | LeaseStarted int address int
  | LeaseEnded int int int
  | AssetReclaimed int string
  | LeaseTerminatedEvent int
  | TerminateBountyPaid int address int
  | MaintenanceIssueReported int address
  | RepairProofSubmitted int address bytes32
  | MaintenanceVerified int address int
  | TermsHashUpdated bytes32
  | DepositDisputed int address
  | EvictionEligible int address int
  | CrossAssetDepositLocked int address address "address list" int int
  | LeaseSigned int string
  | PaymentLate int int int
  | MutualLeaseFinalized int int int int int
  | DepositSlashed int bytes32 int int int int "string option"
  | RentPaymentExecuted int address int int "string option"
  | TenantFlagged int address string
  | EscrowYieldHarvested int int int int int address int
  | OracleDemoted bytes32 string int int
  | FallbackHierarchyActivated bytes32 bytes32 int string
  | DaoArbitrationTriggered int int string
  | AssetMetadataUpdated int asset_condition bytes32 int asset_condition
  | AssetOwnershipVerified int address int address bytes32 int
  | ReentryDetected int
  | TerminationVelocityAnomalyDetected address int int int int
  | LessorPaused address string int
  | LeaseTerminatedWithVelocityGuard int address address address int int int

section \<open>Storage\<close>

record lc_state = "lc_event host" +
  admin :: "address option"
  kyc_provider :: "address option"
  allowed_assets :: "address set"
  whitelisted_registries :: "address set"
  whitelisted_oracles :: "bytes32 set"
  whitelisted_yield_protocols :: "address set"
  terms_hash :: "bytes32 option"
  platform_fee_amount :: "int option"
  platform_fee_token :: "address option"
  platform_fee_recipient :: "address option"
  legacy_leases :: "string \<rightharpoonup> legacy_lease"
  receipts :: "string \<times> int \<rightharpoonup> receipt"
  usage_rights_of :: "address \<times> int \<rightharpoonup> usage_rights"
  lease_instances :: "int \<rightharpoonup> lease_instance"
  historical_leases :: "int \<rightharpoonup> historical_lease"
  historical_index :: "int list"
  active_leases_index :: "int list"
  authorized_payers :: "(int \<times> address) set"
  roommate_balances :: "int \<times> address \<rightharpoonup> int"
  oracle_nonces :: "bytes32 \<rightharpoonup> int"
  oracle_configs :: "bytes32 \<rightharpoonup> oracle_config"
  fallback :: "fallback_hierarchy option"
  tenant_flags :: "int set"
  security_council :: "unit option"
  pending_slashes :: "int \<rightharpoonup> pending_slash"
  yield_deployments :: "int \<rightharpoonup> yield_deployment"
  yield_totals :: "int \<rightharpoonup> int"
  liquidity_buffer :: "int option"
  asset_conditions :: "int \<rightharpoonup> asset_condition"
  oracle_rate_limits :: "(bytes32 \<times> int) set"
  freeze_proofs :: "int \<times> address \<times> int \<rightharpoonup> bytes32"
  frozen_assets :: "(int \<times> address \<times> int) set"
  velocity_trackers :: "address \<rightharpoonup> velocity_tracker"
  paused_lessors :: "address set"
  dao_requests :: "int \<rightharpoonup> dao_approval_request"
  non_reentrant :: bool

text \<open>
  \<^verbatim>\<open>add_to_active_leases_index\<close> is called by the source but defined nowhere; it is a parameter of the
  environment that maps the stored index and the new lease id to an error or the new index.
\<close>

record lc_env = env +
  add_to_active_leases_index :: "int list \<Rightarrow> int \<Rightarrow> lease_error + int list"

type_synonym 'a lc = "(lc_state, lease_error, 'a) proc"

definition lc_init :: lc_state where
  "lc_init = \<lparr>events = [], calls = [], admin = None, kyc_provider = None, allowed_assets = {},
     whitelisted_registries = {}, whitelisted_oracles = {}, whitelisted_yield_protocols = {},
     terms_hash = None, platform_fee_amount = None, platform_fee_token = None,
     platform_fee_recipient = None, legacy_leases = Map.empty, receipts = Map.empty,
     usage_rights_of = Map.empty, lease_instances = Map.empty, historical_leases = Map.empty,
     historical_index = [], active_leases_index = [], authorized_payers = {},
     roommate_balances = Map.empty, oracle_nonces = Map.empty, oracle_configs = Map.empty,
     fallback = None, tenant_flags = {}, security_council = None, pending_slashes = Map.empty,
     yield_deployments = Map.empty, yield_totals = Map.empty, liquidity_buffer = None,
     asset_conditions = Map.empty, oracle_rate_limits = {}, freeze_proofs = Map.empty,
     frozen_assets = {}, velocity_trackers = Map.empty, paused_lessors = {},
     dao_requests = Map.empty, non_reentrant = False\<rparr>"

section \<open>Storage helpers\<close>

definition unwrap_or :: "'a \<Rightarrow> 'a option \<Rightarrow> 'a" where
  "unwrap_or d x = (case x of None \<Rightarrow> d | Some a \<Rightarrow> a)"

lemma unwrap_or_simps [simp]: "unwrap_or d None = d" "unwrap_or d (Some a) = a"
  by (simp_all add: unwrap_or_def)

definition save_lease_instance :: "int \<Rightarrow> lease_instance \<Rightarrow> unit lc" where
  "save_lease_instance lid l = modify (\<lambda>s. s\<lparr>lease_instances := (lease_instances s)(lid \<mapsto> l)\<rparr>)"

definition load_lease_instance_by_id :: "int \<Rightarrow> lease_instance option lc" where
  "load_lease_instance_by_id lid = gets (\<lambda>s. lease_instances s lid)"

text \<open>\<^verbatim>\<open>load_lease_instance_by_id(..).ok_or(LeaseError::LeaseNotFound)?\<close>\<close>

definition load_lease :: "int \<Rightarrow> lease_instance lc" where
  "load_lease lid = bind (load_lease_instance_by_id lid) (\<lambda>x. ok_or x LeaseNotFound)"

definition delete_lease_instance :: "int \<Rightarrow> unit lc" where
  "delete_lease_instance lid = modify (\<lambda>s. s\<lparr>lease_instances := (lease_instances s)(lid := None)\<rparr>)"

definition save_usage_rights :: "address \<Rightarrow> int \<Rightarrow> usage_rights \<Rightarrow> unit lc" where
  "save_usage_rights nft tid u =
     modify (\<lambda>s. s\<lparr>usage_rights_of := (usage_rights_of s)((nft, tid) \<mapsto> u)\<rparr>)"

definition delete_usage_rights :: "address \<Rightarrow> int \<Rightarrow> unit lc" where
  "delete_usage_rights nft tid =
     modify (\<lambda>s. s\<lparr>usage_rights_of := (usage_rights_of s)((nft, tid) := None)\<rparr>)"

definition load_usage_rights :: "address \<Rightarrow> int \<Rightarrow> usage_rights option lc" where
  "load_usage_rights nft tid = gets (\<lambda>s. usage_rights_of s (nft, tid))"

definition archive_lease :: "env \<Rightarrow> int \<Rightarrow> lease_instance \<Rightarrow> address \<Rightarrow> unit lc" where
  "archive_lease env lid l caller =
     bind (modify (\<lambda>s. s\<lparr>historical_leases := (historical_leases s)(lid \<mapsto>
       \<lparr>h_lease = l, terminated_by = caller, terminated_at = ledger_timestamp env\<rparr>)\<rparr>)) (\<lambda>_.
     bind (modify (\<lambda>s. s\<lparr>historical_index := historical_index s @ [lid]\<rparr>)) (\<lambda>_.
     delete_lease_instance lid))"

definition acquire_reentrancy_lock :: "env \<Rightarrow> unit lc" where
  "acquire_reentrancy_lock env =
     bind (gets non_reentrant) (\<lambda>locked.
     if locked then bind (publish (ReentryDetected (ledger_timestamp env))) (\<lambda>_. trap)
     else modify (\<lambda>s. s\<lparr>non_reentrant := True\<rparr>))"

definition release_reentrancy_lock :: "unit lc" where
  "release_reentrancy_lock = modify (\<lambda>s. s\<lparr>non_reentrant := False\<rparr>)"

text \<open>The check at the head of every admin operation: the stored admin must exist, be the caller, and
  have authorised the call.\<close>

definition require_admin :: "env \<Rightarrow> address \<Rightarrow> unit lc" where
  "require_admin env a =
     bind (gets admin) (\<lambda>stored. bind (ok_or stored Unauthorised) (\<lambda>stored.
     bind (throw_if (a \<noteq> stored) Unauthorised) (\<lambda>_. require_auth env a)))"

definition is_admin :: "address \<Rightarrow> bool lc" where
  "is_admin caller = gets (\<lambda>s. admin s = Some caller)"

text \<open>A token transfer out of the contract, and the return of the lease's NFT to its recipient.\<close>

definition transfer_token :: "env \<Rightarrow> address \<Rightarrow> address \<Rightarrow> address \<Rightarrow> int \<Rightarrow> unit lc" where
  "transfer_token env tok src dst amount = call_unit env (TokenTransfer tok src dst amount)"

definition pay_out :: "env \<Rightarrow> address \<Rightarrow> address \<Rightarrow> int \<Rightarrow> unit lc" where
  "pay_out env tok dst amount =
     (if amount > 0 then transfer_token env tok (current_contract env) dst amount else return ())"

definition transfer_nft_to :: "env \<Rightarrow> address option \<Rightarrow> int option \<Rightarrow> address \<Rightarrow> unit lc" where
  "transfer_nft_to env nft tid dst =
     (case (nft, tid) of
        (Some nft, Some tid) \<Rightarrow>
          call_unit env (NftTransfer nft (current_contract env) (current_contract env) dst tid)
      | _ \<Rightarrow> return ())"

definition return_nft :: "env \<Rightarrow> address option \<Rightarrow> int option \<Rightarrow> address \<Rightarrow> unit lc" where
  "return_nft env nft tid dst =
     (case (nft, tid) of
        (Some nft', Some tid') \<Rightarrow>
          bind (delete_usage_rights nft' tid') (\<lambda>_. transfer_nft_to env nft tid dst)
      | _ \<Rightarrow> return ())"

section \<open>Rules for the helpers\<close>

lemma load_lease_Ok_iff [proc_ok]:
  "load_lease lid s = (Ok l, s') \<longleftrightarrow> lease_instances s lid = Some l \<and> s' = s"
  by (auto simp: load_lease_def load_lease_instance_by_id_def proc_ok)

lemma load_lease_run [proc_run]:
  "load_lease lid s = (case lease_instances s lid of None \<Rightarrow> (Err LeaseNotFound, s) | Some l \<Rightarrow> (Ok l, s))"
  by (simp add: load_lease_def load_lease_instance_by_id_def bind_run ok_or_run split: option.splits)

lemma save_lease_instance_Ok_iff [proc_ok]:
  "save_lease_instance lid l s = (Ok u, s') \<longleftrightarrow> s' = s\<lparr>lease_instances := (lease_instances s)(lid \<mapsto> l)\<rparr>"
  by (auto simp: save_lease_instance_def)

lemma save_lease_instance_run [proc_run]:
  "save_lease_instance lid l s = (Ok (), s\<lparr>lease_instances := (lease_instances s)(lid \<mapsto> l)\<rparr>)"
  by (simp add: save_lease_instance_def)

lemma archive_lease_run [proc_run]:
  "archive_lease env lid l caller s = (Ok (), s\<lparr>historical_leases := (historical_leases s)(lid \<mapsto>
       \<lparr>h_lease = l, terminated_by = caller, terminated_at = ledger_timestamp env\<rparr>),
     historical_index := historical_index s @ [lid],
     lease_instances := (lease_instances s)(lid := None)\<rparr>)"
  by (simp add: archive_lease_def delete_lease_instance_def bind_run)

lemma archive_lease_Ok_iff [proc_ok]:
  "archive_lease env lid l caller s = (Ok u, s') \<longleftrightarrow> s' = s\<lparr>historical_leases := (historical_leases s)(lid \<mapsto>
       \<lparr>h_lease = l, terminated_by = caller, terminated_at = ledger_timestamp env\<rparr>),
     historical_index := historical_index s @ [lid],
     lease_instances := (lease_instances s)(lid := None)\<rparr>"
  by (auto simp: archive_lease_run)

lemma acquire_reentrancy_lock_Ok_iff [proc_ok]:
  "acquire_reentrancy_lock env s = (Ok u, s') \<longleftrightarrow> \<not> non_reentrant s \<and> s' = s\<lparr>non_reentrant := True\<rparr>"
  by (auto simp: acquire_reentrancy_lock_def bind_Ok_iff split: if_splits)

lemma acquire_reentrancy_lock_run [proc_run]:
  "\<not> non_reentrant s \<Longrightarrow> acquire_reentrancy_lock env s = (Ok (), s\<lparr>non_reentrant := True\<rparr>)"
  by (simp add: acquire_reentrancy_lock_def bind_run)

lemma release_reentrancy_lock_run [proc_run]:
  "release_reentrancy_lock s = (Ok (), s\<lparr>non_reentrant := False\<rparr>)"
  by (simp add: release_reentrancy_lock_def)

lemma release_reentrancy_lock_Ok_iff [proc_ok]:
  "release_reentrancy_lock s = (Ok u, s') \<longleftrightarrow> s' = s\<lparr>non_reentrant := False\<rparr>"
  by (auto simp: release_reentrancy_lock_run)

lemma require_admin_Ok_iff [proc_ok]:
  "require_admin env a s = (Ok u, s') \<longleftrightarrow> admin s = Some a \<and> a \<in> set (auths env) \<and> s' = s"
  by (auto simp: require_admin_def proc_ok)

lemma require_admin_run [proc_run]:
  "require_admin env a s = (if admin s \<noteq> Some a then (Err Unauthorised, s)
     else if a \<in> set (auths env) then (Ok (), s) else (Trap, s))"
  by (auto simp: require_admin_def proc_run split: option.splits)

lemma is_admin_Ok_iff [proc_ok]: "is_admin a s = (Ok b, s') \<longleftrightarrow> b = (admin s = Some a) \<and> s' = s"
  by (auto simp: is_admin_def)

lemma is_admin_run [proc_run]: "is_admin a s = (Ok (admin s = Some a), s)"
  by (simp add: is_admin_def)

lemma transfer_token_Ok_iff [proc_ok]:
  "transfer_token env tok src dst n s = (Ok u, s') \<longleftrightarrow>
     ext env (calls s) (TokenTransfer tok src dst n) = Reply_unit
     \<and> s' = s\<lparr>calls := calls s @ [TokenTransfer tok src dst n]\<rparr>"
  by (auto simp: transfer_token_def call_unit_def proc_ok)

lemma pay_out_Ok_iff [proc_ok]:
  "pay_out env tok dst n s = (Ok u, s') \<longleftrightarrow>
     (if 0 < n then ext env (calls s) (TokenTransfer tok (current_contract env) dst n) = Reply_unit
        \<and> s' = s\<lparr>calls := calls s @ [TokenTransfer tok (current_contract env) dst n]\<rparr>
      else s' = s)"
  by (auto simp: pay_out_def proc_ok)

text \<open>The lease instances are a store with deletion.\<close>

interpretation instances: kv_store_delete lease_instances
    "\<lambda>lid l s. snd (save_lease_instance lid l s)" "\<lambda>lid s. snd (delete_lease_instance lid s)"
  by unfold_locales (auto simp: save_lease_instance_def delete_lease_instance_def)

end
