(* ===== verification/Contract_Admin.thy ===== *)
theory Contract_Admin
  imports Contract_State
begin

text \<open>
  \<^verbatim>\<open>src/lib.rs\<close>, administration and the first generation of leases: the admin and its lists, KYC, the
  wasm upgrade, ownership verification of registered assets, and the leases keyed by symbol.
\<close>

section \<open>Administration\<close>

definition initialize :: "address \<Rightarrow> unit lc" where
  "initialize a = modify (\<lambda>s. s\<lparr>admin := Some a\<rparr>)"

definition set_admin :: "address \<Rightarrow> unit lc" where
  "set_admin a =
     bind (gets admin) (\<lambda>x. bind (throw_if (x \<noteq> None) Unauthorised) (\<lambda>_.
     modify (\<lambda>s. s\<lparr>admin := Some a\<rparr>)))"

definition add_allowed_asset :: "env \<Rightarrow> address \<Rightarrow> address \<Rightarrow> unit lc" where
  "add_allowed_asset env a asset =
     bind (require_admin env a) (\<lambda>_. modify (\<lambda>s. s\<lparr>allowed_assets := insert asset (allowed_assets s)\<rparr>))"

definition set_kyc_provider :: "env \<Rightarrow> address \<Rightarrow> address \<Rightarrow> unit lc" where
  "set_kyc_provider env a provider =
     bind (require_admin env a) (\<lambda>_. modify (\<lambda>s. s\<lparr>kyc_provider := Some provider\<rparr>))"

definition set_platform_fee :: "env \<Rightarrow> address \<Rightarrow> int \<Rightarrow> address \<Rightarrow> address \<Rightarrow> unit lc" where
  "set_platform_fee env a fee_amount fee_token fee_recipient =
     bind (require_admin env a) (\<lambda>_.
     modify (\<lambda>s. s\<lparr>platform_fee_amount := Some fee_amount, platform_fee_token := Some fee_token,
       platform_fee_recipient := Some fee_recipient\<rparr>))"

definition set_terms_hash :: "env \<Rightarrow> address \<Rightarrow> bytes32 \<Rightarrow> unit lc" where
  "set_terms_hash env a hash =
     bind (require_admin env a) (\<lambda>_.
     bind (modify (\<lambda>s. s\<lparr>terms_hash := Some hash\<rparr>)) (\<lambda>_. publish (TermsHashUpdated hash)))"

definition upgrade :: "env \<Rightarrow> address \<Rightarrow> bytes32 \<Rightarrow> bytes32 \<Rightarrow> unit lc" where
  "upgrade env a new_wasm_hash expected_terms_hash =
     bind (require_admin env a) (\<lambda>_.
     bind (gets terms_hash) (\<lambda>current.
     bind (case current of None \<Rightarrow> return ()
           | Some current_hash \<Rightarrow> throw_if (current_hash \<noteq> expected_terms_hash) UpgradeNotAllowed) (\<lambda>_.
     call_unit env (UpdateWasm new_wasm_hash))))"

definition whitelist_oracle :: "env \<Rightarrow> address \<Rightarrow> bytes32 \<Rightarrow> unit lc" where
  "whitelist_oracle env a key =
     bind (require_admin env a) (\<lambda>_.
     modify (\<lambda>s. s\<lparr>whitelisted_oracles := insert key (whitelisted_oracles s)\<rparr>))"

definition remove_oracle :: "env \<Rightarrow> address \<Rightarrow> bytes32 \<Rightarrow> unit lc" where
  "remove_oracle env a key =
     bind (require_admin env a) (\<lambda>_.
     modify (\<lambda>s. s\<lparr>whitelisted_oracles := whitelisted_oracles s - {key}\<rparr>))"

definition is_oracle_whitelisted :: "bytes32 \<Rightarrow> bool lc" where
  "is_oracle_whitelisted key = gets (\<lambda>s. key \<in> whitelisted_oracles s)"

section \<open>Registered assets\<close>

text \<open>\<^verbatim>\<open>get_registry_info\<close>: an error or a reply of the wrong shape is the error; the code reads only
  \<^verbatim>\<open>is_whitelisted\<close>.\<close>

definition get_registry_info :: "env \<Rightarrow> address \<Rightarrow> bool lc" where
  "get_registry_info env registry =
     bind (call_ext env (RegistryInfo registry)) (\<lambda>r.
     case r of Reply_bool b \<Rightarrow> return b | Reply_err \<Rightarrow> throw AssetRegistryInvalid | _ \<Rightarrow> trap)"

definition is_registry_whitelisted :: "address \<Rightarrow> bool lc" where
  "is_registry_whitelisted registry = gets (\<lambda>s. registry \<in> whitelisted_registries s)"

definition add_whitelisted_registry :: "env \<Rightarrow> address \<Rightarrow> address \<Rightarrow> unit lc" where
  "add_whitelisted_registry env a registry =
     bind (require_admin env a) (\<lambda>_.
     bind (get_registry_info env registry) (\<lambda>ok.
     bind (throw_if (\<not> ok) AssetRegistryInvalid) (\<lambda>_.
     modify (\<lambda>s. s\<lparr>whitelisted_registries := insert registry (whitelisted_registries s)\<rparr>))))"

definition remove_whitelisted_registry :: "env \<Rightarrow> address \<Rightarrow> address \<Rightarrow> unit lc" where
  "remove_whitelisted_registry env a registry =
     bind (require_admin env a) (\<lambda>_.
     modify (\<lambda>s. s\<lparr>whitelisted_registries := whitelisted_registries s - {registry}\<rparr>))"

definition verify_asset_ownership :: "env \<Rightarrow> int \<Rightarrow> address \<Rightarrow> address \<Rightarrow> int \<Rightarrow> bytes32 lc" where
  "verify_asset_ownership env lid landlord_a registry asset =
     bind (is_registry_whitelisted registry) (\<lambda>ok.
     bind (throw_if (\<not> ok) AssetRegistryInvalid) (\<lambda>_.
     bind (get_registry_info env registry) (\<lambda>ok.
     bind (throw_if (\<not> ok) AssetRegistryInvalid) (\<lambda>_.
     bind (call_bool env (VerifyOwnership registry asset landlord_a)) (\<lambda>is_owner.
     bind (throw_if (\<not> is_owner) AssetNotOwned) (\<lambda>_.
     bind (call_ext env (FreezeAsset registry asset (current_contract env))) (\<lambda>r.
     bind (case r of Reply_hash h \<Rightarrow> return h | Reply_err \<Rightarrow> throw AssetFreezeFailed | _ \<Rightarrow> trap)
       (\<lambda>freeze_proof.
     bind (modify (\<lambda>s. s\<lparr>freeze_proofs := (freeze_proofs s)((lid, registry, asset) \<mapsto> freeze_proof)\<rparr>)) (\<lambda>_.
     bind (modify (\<lambda>s. s\<lparr>frozen_assets := insert (lid, registry, asset) (frozen_assets s)\<rparr>)) (\<lambda>_.
     bind (publish (AssetOwnershipVerified lid registry asset landlord_a freeze_proof
       (ledger_timestamp env))) (\<lambda>_.
     return freeze_proof)))))))))))"

definition thaw_asset :: "env \<Rightarrow> int \<Rightarrow> address \<Rightarrow> int \<Rightarrow> unit lc" where
  "thaw_asset env lid registry asset =
     bind (gets (\<lambda>s. (lid, registry, asset) \<in> frozen_assets s)) (\<lambda>frozen.
     bind (throw_if (\<not> frozen) AssetThawFailed) (\<lambda>_.
     bind (gets (\<lambda>s. freeze_proofs s (lid, registry, asset))) (\<lambda>p.
     bind (ok_or p AssetThawFailed) (\<lambda>freeze_proof.
     bind (call_ext env (ThawAsset registry asset (current_contract env) freeze_proof)) (\<lambda>r.
     bind (case r of Reply_unit \<Rightarrow> return () | Reply_err \<Rightarrow> throw AssetThawFailed | _ \<Rightarrow> trap) (\<lambda>_.
     modify (\<lambda>s. s\<lparr>frozen_assets := frozen_assets s - {(lid, registry, asset)},
       freeze_proofs := (freeze_proofs s)((lid, registry, asset) := None)\<rparr>)))))))"

section \<open>KYC and payment assets\<close>

definition is_asset_allowed :: "address \<Rightarrow> bool lc" where
  "is_asset_allowed tok = gets (\<lambda>s. tok \<in> allowed_assets s)"

definition require_stablecoin :: "address \<Rightarrow> unit lc" where
  "require_stablecoin tok =
     bind (is_asset_allowed tok) (\<lambda>ok. throw_if (\<not> ok) InvalidAsset)"

definition require_kyc :: "env \<Rightarrow> address \<Rightarrow> address \<Rightarrow> unit lc" where
  "require_kyc env landlord_a tenant_a =
     bind (gets kyc_provider) (\<lambda>p. case p of
       None \<Rightarrow> return ()
     | Some provider \<Rightarrow>
         bind (call_bool env (IsVerified provider landlord_a)) (\<lambda>a.
         if \<not> a then throw KycRequired else
         bind (call_bool env (IsVerified provider tenant_a)) (\<lambda>b.
         throw_if (\<not> b) KycRequired)))"

section \<open>Leases keyed by symbol\<close>

definition to_per_second :: "int \<Rightarrow> rate_type \<Rightarrow> int" where
  "to_per_second rate t = (case t of
     PerSecond \<Rightarrow> rate | PerHour \<Rightarrow> tdiv rate 3600 | PerDay \<Rightarrow> tdiv rate 86400)"

definition load_legacy :: "string \<Rightarrow> legacy_lease lc" where
  "load_legacy k = bind (gets (\<lambda>s. legacy_leases s k)) unwrap"

definition save_legacy :: "string \<Rightarrow> legacy_lease \<Rightarrow> unit lc" where
  "save_legacy k l = modify (\<lambda>s. s\<lparr>legacy_leases := (legacy_leases s)(k \<mapsto> l)\<rparr>)"

definition new_legacy ::
    "address \<Rightarrow> address \<Rightarrow> int \<Rightarrow> int \<Rightarrow> int \<Rightarrow> string \<Rightarrow> address \<Rightarrow> legacy_lease" where
  "new_legacy landlord_a tenant_a deposit start fin uri tok =
     \<lparr>l_landlord = landlord_a, l_tenant = tenant_a, l_rent_per_sec = 0, l_late_fee_per_sec = 0,
      l_deposit_amount = deposit, l_start_date = start, l_end_date = fin, l_property_uri = uri,
      l_status = LPending, l_nft_contract = None, l_token_id = None, l_active = True,
      l_grace_period_end = fin, l_late_fee_flat = 0, l_debt = 0, l_flat_fee_applied = False,
      l_seconds_late_charged = 0, l_rent_paid = 0, l_expiry_time = fin, l_buyout_price = None,
      l_cumulative_payments = 0, l_payment_token = tok\<rparr>"

definition initialize_lease ::
    "env \<Rightarrow> string \<Rightarrow> address \<Rightarrow> address \<Rightarrow> int \<Rightarrow> int \<Rightarrow> int \<Rightarrow> string \<Rightarrow> address \<Rightarrow> bool lc" where
  "initialize_lease env k landlord_a tenant_a rent deposit duration uri tok =
     bind (require_auth env landlord_a) (\<lambda>_.
     bind (require_kyc env landlord_a tenant_a) (\<lambda>_.
     bind (require_stablecoin tok) (\<lambda>_.
     let start = ledger_timestamp env; fin = sat_u64 (start + duration) in
     bind (save_legacy k (new_legacy landlord_a tenant_a deposit start fin uri tok)) (\<lambda>_.
     return True))))"

definition create_lease :: "env \<Rightarrow> address \<Rightarrow> address \<Rightarrow> int \<Rightarrow> address \<Rightarrow> string lc" where
  "create_lease env landlord_a tenant_a amount tok =
     bind (require_auth env landlord_a) (\<lambda>_.
     bind (require_kyc env landlord_a tenant_a) (\<lambda>_.
     bind (require_stablecoin tok) (\<lambda>_.
     bind (save_legacy ''lease'' (new_legacy landlord_a tenant_a 0 (ledger_timestamp env) 0 [] tok)) (\<lambda>_.
     return ''lease''))))"

definition activate_lease :: "env \<Rightarrow> string \<Rightarrow> address \<Rightarrow> string lc" where
  "activate_lease env k tenant_a =
     bind (load_legacy k) (\<lambda>l.
     bind (require (l_tenant l = tenant_a)) (\<lambda>_.
     bind (save_legacy k (l\<lparr>l_status := LActive\<rparr>)) (\<lambda>_.
     bind (publish (LeaseStarted (ledger_timestamp env) tenant_a (l_rent_per_sec l))) (\<lambda>_.
     return ''active''))))"

definition pay_rent :: "env \<Rightarrow> string \<Rightarrow> int \<Rightarrow> string lc" where
  "pay_rent env k payment_amount =
     bind (load_legacy k) (\<lambda>l.
     bind (require (l_active l)) (\<lambda>_.
     bind (require_kyc env (l_landlord l) (l_tenant l)) (\<lambda>_.
     bind (require_stablecoin (l_payment_token l)) (\<lambda>_.
     bind (chk_i128 (l_cumulative_payments l + payment_amount)) (\<lambda>paid.
     let l = l\<lparr>l_cumulative_payments := paid\<rparr> in
     bind (case l_buyout_price l of
         Some price \<Rightarrow>
           if paid \<ge> price then
             bind (transfer_nft_to env (l_nft_contract l) (l_token_id l) (l_tenant l)) (\<lambda>_.
             return (l\<lparr>l_active := False, l_status := LTerminated\<rparr>))
           else return l
       | None \<Rightarrow> return l) (\<lambda>l.
     bind (save_legacy k l) (\<lambda>_. return ''paid'')))))))"

definition pay_rent_receipt :: "env \<Rightarrow> string \<Rightarrow> int \<Rightarrow> int \<Rightarrow> bool lc" where
  "pay_rent_receipt env k month amount =
     bind (modify (\<lambda>s. s\<lparr>receipts := (receipts s)((k, month) \<mapsto>
       \<lparr>r_lease_id = k, r_month = month, r_amount = amount, r_date = ledger_timestamp env\<rparr>)\<rparr>))
     (\<lambda>_. return True)"

definition get_receipt :: "string \<Rightarrow> int \<Rightarrow> receipt lc" where
  "get_receipt k month = bind (gets (\<lambda>s. receipts s (k, month))) unwrap"

definition get_lease :: "string \<Rightarrow> legacy_lease lc" where
  "get_lease k = load_legacy k"

definition get_lease_default :: "legacy_lease lc" where
  "get_lease_default = load_legacy ''lease''"

definition set_buyout_price :: "string \<Rightarrow> address \<Rightarrow> int \<Rightarrow> string lc" where
  "set_buyout_price k landlord_a price =
     bind (load_legacy k) (\<lambda>l.
     bind (require (l_landlord l = landlord_a)) (\<lambda>_.
     bind (save_legacy k (l\<lparr>l_buyout_price := Some price\<rparr>)) (\<lambda>_. return ''buyout'')))"

definition end_lease :: "env \<Rightarrow> string \<Rightarrow> address \<Rightarrow> string lc" where
  "end_lease env k caller =
     bind (load_legacy k) (\<lambda>l.
     bind (require (l_landlord l = caller \<or> l_tenant l = caller)) (\<lambda>_.
     bind (require_auth env caller) (\<lambda>_.
     bind (return_nft env (l_nft_contract l) (l_token_id l) (l_landlord l)) (\<lambda>_.
     bind (save_legacy k (l\<lparr>l_status := LTerminated, l_active := False\<rparr>)) (\<lambda>_.
     bind (chk_u64 (ledger_timestamp env - l_start_date l)) (\<lambda>duration.
     bind (publish (LeaseEnded (ledger_timestamp env) duration (l_cumulative_payments l))) (\<lambda>_.
     return ''ended'')))))))"

definition check_usage_rights :: "env \<Rightarrow> address \<Rightarrow> int \<Rightarrow> address \<Rightarrow> usage_rights option lc" where
  "check_usage_rights env nft tid user =
     bind (load_usage_rights nft tid) (\<lambda>u. return (case u of
       Some rights \<Rightarrow> if renter rights = user \<and> ledger_timestamp env \<le> valid_until rights
         then Some rights else None
     | None \<Rightarrow> None))"

end
