(* ===== verification/Velocity_Guard.thy ===== *)
theory Velocity_Guard
  imports Contract_State
begin

text \<open>
  \<^verbatim>\<open>src/velocity_guard.rs\<close>: per-lessor tracking of lease terminations in a sliding window of a day, the
  limit on them, and the pause with its approval request. The percentage is computed in \<^verbatim>\<open>u64\<close>; the
  source compares it with a \<^verbatim>\<open>u32\<close> constant, which is read here as the comparison of the values.
\<close>

definition VELOCITY_WINDOW :: int where "VELOCITY_WINDOW = 86400"
definition VELOCITY_THRESHOLD_PERCENT :: int where "VELOCITY_THRESHOLD_PERCENT = 1000"

lemmas velocity_consts = VELOCITY_WINDOW_def VELOCITY_THRESHOLD_PERCENT_def

definition get_velocity_tracker :: "address \<Rightarrow> velocity_tracker lc" where
  "get_velocity_tracker a = bind (gets (\<lambda>s. velocity_trackers s a)) (\<lambda>t. ok_or t LeaseNotFound)"

definition has_velocity_tracker :: "address \<Rightarrow> bool lc" where
  "has_velocity_tracker a = gets (\<lambda>s. velocity_trackers s a \<noteq> None)"

definition save_velocity_tracker :: "address \<Rightarrow> velocity_tracker \<Rightarrow> unit lc" where
  "save_velocity_tracker a t =
     modify (\<lambda>s. s\<lparr>velocity_trackers := (velocity_trackers s)(a \<mapsto> t)\<rparr>)"

definition is_lessor_paused :: "address \<Rightarrow> bool lc" where
  "is_lessor_paused a = gets (\<lambda>s. a \<in> paused_lessors s)"

definition cleanup_old_terminations :: "env \<Rightarrow> velocity_tracker \<Rightarrow> velocity_tracker lc" where
  "cleanup_old_terminations env t =
     bind (chk_u64 (ledger_timestamp env - VELOCITY_WINDOW)) (\<lambda>cutoff_time.
     let new_termination_times = filter (\<lambda>ts. ts \<ge> cutoff_time) (last_termination_times t) in
     return (t\<lparr>last_termination_times := new_termination_times,
       terminations_24h := int (length new_termination_times)\<rparr>))"

definition pause_lessor :: "env \<Rightarrow> address \<Rightarrow> string \<Rightarrow> unit lc" where
  "pause_lessor env a reason =
     bind (modify (\<lambda>s. s\<lparr>paused_lessors := insert a (paused_lessors s)\<rparr>)) (\<lambda>_.
     bind (get_velocity_tracker a) (\<lambda>t.
     bind (save_velocity_tracker a (t\<lparr>is_paused := True,
       pause_timestamp := Some (ledger_timestamp env)\<rparr>)) (\<lambda>_.
     publish (LessorPaused a reason (ledger_timestamp env)))))"

definition trigger_velocity_anomaly :: "env \<Rightarrow> address \<Rightarrow> velocity_tracker \<Rightarrow> int \<Rightarrow> unit lc" where
  "trigger_velocity_anomaly env a t velocity_percentage =
     bind (publish (TerminationVelocityAnomalyDetected a (terminations_24h t) (total_leases t)
       velocity_percentage (ledger_timestamp env))) (\<lambda>_.
     let rid = ledger_sequence env;
         approval_request = \<lparr>dr_lessor = a, dr_request_id = rid, dr_timestamp = ledger_timestamp env,
           dr_reason = ''Velocity anomaly detected'', terminations_count = terminations_24h t,
           dr_approved = False, dr_approvals = []\<rparr> in
     bind (modify (\<lambda>s. s\<lparr>dao_requests := (dao_requests s)(rid \<mapsto> approval_request)\<rparr>)) (\<lambda>_.
     pause_lessor env a ''Velocity anomaly - pending DAO review''))"

definition check_velocity_limits :: "env \<Rightarrow> address \<Rightarrow> unit lc" where
  "check_velocity_limits env a =
     bind (is_lessor_paused a) (\<lambda>p.
     bind (throw_if p VelocityLimitExceeded) (\<lambda>_.
     bind (get_velocity_tracker a) (\<lambda>t.
     bind (cleanup_old_terminations env t) (\<lambda>t.
     if total_leases t > 0 then
       bind (chk_u64 (terminations_24h t * 10000)) (\<lambda>scaled.
       let velocity_percentage = scaled div total_leases t in
       if velocity_percentage > VELOCITY_THRESHOLD_PERCENT then
         bind (trigger_velocity_anomaly env a t velocity_percentage) (\<lambda>_.
         throw VelocityLimitExceeded)
       else return ())
     else return ()))))"

definition record_termination :: "env \<Rightarrow> address \<Rightarrow> int \<Rightarrow> unit lc" where
  "record_termination env a lid =
     bind (get_velocity_tracker a) (\<lambda>t.
     bind (chk_u64 (terminations_24h t + 1)) (\<lambda>n.
     save_velocity_tracker a (t\<lparr>last_termination_times :=
       last_termination_times t @ [ledger_timestamp env], terminations_24h := n\<rparr>)))"

definition initialize_lessor :: "address \<Rightarrow> unit lc" where
  "initialize_lessor a =
     bind (has_velocity_tracker a) (\<lambda>known.
     if known then return () else
     save_velocity_tracker a \<lparr>vt_lessor = a, total_leases = 0, terminations_24h = 0,
       last_termination_times = [], is_paused = False, pause_timestamp = None\<rparr>)"

definition update_portfolio_size :: "address \<Rightarrow> int \<Rightarrow> unit lc" where
  "update_portfolio_size a delta =
     bind (get_velocity_tracker a) (\<lambda>t.
     bind (if delta > 0 then chk_u64 (total_leases t + as_u64 delta)
           else if delta < 0 \<and> total_leases t > 0 then
             bind (chk_i64 (- delta)) (\<lambda>d. return (sat_u64 (total_leases t - as_u64 d)))
           else return (total_leases t)) (\<lambda>n.
     save_velocity_tracker a (t\<lparr>total_leases := n\<rparr>)))"

definition resume_lessor :: "address \<Rightarrow> unit lc" where
  "resume_lessor a =
     bind (modify (\<lambda>s. s\<lparr>paused_lessors := paused_lessors s - {a}\<rparr>)) (\<lambda>_.
     bind (get_velocity_tracker a) (\<lambda>t.
     save_velocity_tracker a (t\<lparr>is_paused := False, pause_timestamp := None\<rparr>)))"

text \<open>The resumed lessor is the argument of the call; the code does not compare it with the lessor of
  the approved request.\<close>

definition vg_dao_approve_resume :: "address \<Rightarrow> address \<Rightarrow> int \<Rightarrow> unit lc" where
  "vg_dao_approve_resume dao_member a rid =
     bind (gets admin) (\<lambda>stored. bind (ok_or stored Unauthorised) (\<lambda>dao_multisig.
     bind (throw_if (dao_member \<noteq> dao_multisig) Unauthorised) (\<lambda>_.
     bind (gets (\<lambda>s. dao_requests s rid)) (\<lambda>r. bind (ok_or r LeaseNotFound) (\<lambda>request.
     bind (if dao_member \<notin> set (dr_approvals request) then
             let request = request\<lparr>dr_approvals := dr_approvals request @ [dao_member]\<rparr> in
             bind (modify (\<lambda>s. s\<lparr>dao_requests := (dao_requests s)(rid \<mapsto> request)\<rparr>)) (\<lambda>_.
             return request)
           else return request) (\<lambda>request.
     if length (dr_approvals request) \<ge> 1 then
       bind (resume_lessor a) (\<lambda>_.
       modify (\<lambda>s. s\<lparr>dao_requests := (dao_requests s)(rid \<mapsto> request\<lparr>dr_approved := True\<rparr>)\<rparr>))
     else return ()))))))"

definition get_velocity_stats :: "address \<Rightarrow> (int \<times> int \<times> int \<times> bool) lc" where
  "get_velocity_stats a =
     bind (get_velocity_tracker a) (\<lambda>t.
     bind (if total_leases t > 0
           then bind (chk_u64 (terminations_24h t * 10000)) (\<lambda>x. return (x div total_leases t))
           else return 0) (\<lambda>velocity_percentage.
     return (total_leases t, terminations_24h t, velocity_percentage, is_paused t)))"

section \<open>Rules\<close>

lemma get_velocity_tracker_Ok_iff [proc_ok]:
  "get_velocity_tracker a s = (Ok t, s') \<longleftrightarrow> velocity_trackers s a = Some t \<and> s' = s"
  by (auto simp: get_velocity_tracker_def proc_ok)

lemma save_velocity_tracker_Ok_iff [proc_ok]:
  "save_velocity_tracker a t s = (Ok u, s') \<longleftrightarrow>
     s' = s\<lparr>velocity_trackers := (velocity_trackers s)(a \<mapsto> t)\<rparr>"
  by (auto simp: save_velocity_tracker_def)

lemma cleanup_old_terminations_Ok_iff [proc_ok]:
  "cleanup_old_terminations env t s = (Ok t', s') \<longleftrightarrow>
     is_u64 (ledger_timestamp env - 86400) \<and> s' = s
     \<and> t' = t\<lparr>last_termination_times :=
          filter (\<lambda>x. ledger_timestamp env - 86400 \<le> x) (last_termination_times t),
        terminations_24h :=
          int (length (filter (\<lambda>x. ledger_timestamp env - 86400 \<le> x) (last_termination_times t)))\<rparr>"
  by (auto simp: cleanup_old_terminations_def proc_ok Let_def velocity_consts)

text \<open>A lessor passes the velocity check exactly when they are not paused, have a tracker, and the
  terminations of the past day are at most a tenth of the portfolio; passing changes nothing.\<close>

lemma check_velocity_limits_Ok_iff [proc_ok]:
  "check_velocity_limits env a s = (Ok u, s') \<longleftrightarrow>
     s' = s \<and> a \<notin> paused_lessors s \<and> is_u64 (ledger_timestamp env - 86400) \<and>
     (\<exists>t. velocity_trackers s a = Some t \<and>
        (0 < total_leases t \<longrightarrow>
          (let n = int (length (filter (\<lambda>x. ledger_timestamp env - 86400 \<le> x) (last_termination_times t)))
           in is_u64 (n * 10000) \<and> n * 10000 div total_leases t \<le> 1000)))"
  unfolding check_velocity_limits_def
  by (cases "velocity_trackers s a";
      simp add: proc_ok is_lessor_paused_def Let_def velocity_consts split del: if_split;
      auto simp: proc_ok Let_def velocity_consts split: if_splits)

lemma initialize_lessor_Ok_iff [proc_ok]:
  "initialize_lessor a s = (Ok u, s') \<longleftrightarrow>
     s' = (if velocity_trackers s a = None
       then s\<lparr>velocity_trackers := (velocity_trackers s)(a \<mapsto> \<lparr>vt_lessor = a, total_leases = 0,
         terminations_24h = 0, last_termination_times = [], is_paused = False, pause_timestamp = None\<rparr>)\<rparr>
       else s)"
  by (auto simp: initialize_lessor_def has_velocity_tracker_def proc_ok)

lemma record_termination_Ok_iff [proc_ok]:
  "record_termination env a lid s = (Ok u, s') \<longleftrightarrow>
     (\<exists>t. velocity_trackers s a = Some t \<and> is_u64 (terminations_24h t + 1) \<and>
        s' = s\<lparr>velocity_trackers := (velocity_trackers s)(a \<mapsto> t\<lparr>last_termination_times :=
          last_termination_times t @ [ledger_timestamp env],
          terminations_24h := terminations_24h t + 1\<rparr>)\<rparr>)"
  by (auto simp: record_termination_def proc_ok)

lemma get_velocity_stats_Ok [proc_ok]:
  "get_velocity_stats a s = (Ok r, s') \<longleftrightarrow> s' = s \<and> (\<exists>t. velocity_trackers s a = Some t \<and>
     (0 < total_leases t \<longrightarrow> is_u64 (terminations_24h t * 10000)) \<and>
     r = (total_leases t, terminations_24h t,
          if 0 < total_leases t then terminations_24h t * 10000 div total_leases t else 0, is_paused t))"
  unfolding get_velocity_stats_def
  by (cases "velocity_trackers s a"; simp add: proc_ok split del: if_split;
      auto simp: proc_ok split: if_splits)

lemma update_portfolio_size_Ok:
  assumes "update_portfolio_size a delta s = (Ok u, s')"
  shows "\<exists>t n. velocity_trackers s a = Some t
    \<and> s' = s\<lparr>velocity_trackers := (velocity_trackers s)(a \<mapsto> t\<lparr>total_leases := n\<rparr>)\<rparr>
    \<and> (delta = 1 \<longrightarrow> n = total_leases t + 1)
    \<and> (delta = - 1 \<longrightarrow> n = (if 0 < total_leases t then sat_u64 (total_leases t - 1) else total_leases t))"
proof -
  obtain t n s1 where t: "velocity_trackers s a = Some t"
    and n: "(if delta > 0 then chk_u64 (total_leases t + as_u64 delta)
           else if delta < 0 \<and> total_leases t > 0 then
             bind (chk_i64 (- delta)) (\<lambda>d. return (sat_u64 (total_leases t - as_u64 d)))
           else return (total_leases t)) s = (Ok n :: (lease_error, int) outcome, s1)"
    and s': "save_velocity_tracker a (t\<lparr>total_leases := n\<rparr>) s1 = (Ok u, s')"
    using assms unfolding update_portfolio_size_def bind_Ok_iff get_velocity_tracker_Ok_iff by blast
  have "s1 = s" using n by (auto simp: proc_ok split: if_splits)
  moreover have "delta = 1 \<longrightarrow> n = total_leases t + 1"
    using n by (auto simp: proc_ok as_u64_def)
  moreover have "delta = - 1 \<longrightarrow>
      n = (if 0 < total_leases t then sat_u64 (total_leases t - 1) else total_leases t)"
    using n by (auto simp: proc_ok as_u64_def)
  ultimately show ?thesis using t s' unfolding save_velocity_tracker_Ok_iff by blast
qed

end
