(* ===== verification/Contract_Lease.thy ===== *)
theory Contract_Lease
  imports Contract_Admin Velocity_Guard
begin

text \<open>
  \<^verbatim>\<open>src/lib.rs\<close>, the lease instances: creation, rent, late fees, maintenance, the ways a lease ends
  (expiry, early termination, conclusion, reclaim, arbitration, mutual release) and the deposit.
\<close>

section \<open>Creation\<close>

definition execute_deposit_swap ::
    "env \<Rightarrow> int \<Rightarrow> address \<Rightarrow> address \<Rightarrow> address \<Rightarrow> int \<Rightarrow> int \<Rightarrow> address list \<Rightarrow> address option \<Rightarrow> int lc" where
  "execute_deposit_swap env lid tenant_a original_asset collateral_asset original_amount
       max_slippage_bps swap_path dex_contract =
     (if original_asset = collateral_asset then return original_amount
      else if swap_path = [] then throw PathPaymentFailed
      else
        bind (case dex_contract of
            Some dex \<Rightarrow> call_int env (PathPayment dex tenant_a collateral_asset original_amount
              max_slippage_bps swap_path)
          | None \<Rightarrow>
              let simulated_output = tdiv (sat_i128 (original_amount * 9900)) 10000;
                  min_out = tdiv (sat_i128 (original_amount * (10000 - max_slippage_bps))) 10000 in
              if simulated_output < min_out then throw SlippageExceeded
              else return simulated_output) (\<lambda>final_locked_amount.
        bind (publish (CrossAssetDepositLocked lid original_asset collateral_asset swap_path
          original_amount final_locked_amount)) (\<lambda>_.
        return final_locked_amount)))"

text \<open>The literal of the source leaves out \<open>paused\<close>, \<open>continuous_billing_enabled\<close>,
  \<open>rent_treasury_address\<close>, \<open>yield_delegation_enabled\<close> and the two asset fields; they get the
  values of an unset field.\<close>

definition new_instance :: "address \<Rightarrow> create_lease_params \<Rightarrow> int \<Rightarrow> lease_instance" where
  "new_instance landlord_a p locked_amount =
     \<lparr>rent_amount = p_rent_amount p, deposit_amount = p_deposit_amount p,
      security_deposit = locked_amount, rent_paid = 0, cumulative_payments = 0, debt = 0,
      late_fee_flat = p_late_fee_flat p, late_fee_per_sec = p_late_fee_per_sec p,
      rent_withdrawn = 0, withheld_rent = 0, yield_accumulated = 0, equity_balance = 0,
      pet_deposit_amount = p_pet_deposit_amount p, pet_rent_amount = p_pet_rent_amount p,
      rent_per_sec = p_rent_per_sec p, buyout_price = None, rent_pull_authorized_amount = None,
      landlord = landlord_a, tenant = p_tenant p, payment_token = p_payment_token p,
      withdrawal_address = None, inspector = None, pause_initiator = None, nft_contract = None,
      arbitrators = p_arbitrators p, start_date = p_start_date p, end_date = p_end_date p,
      expiry_time = p_end_date p, rent_paid_through = 0, grace_period_end = p_grace_period_end p,
      seconds_late_charged = 0, total_paused_duration = 0, billing_cycle_duration = 2592000,
      paused_at = None, last_rent_pull_timestamp = None, token_id = None,
      equity_percentage_bps = p_equity_percentage_bps p, status = LPending, deposit_status = Held,
      maintenance_status = MNone, repair_proof_hash = None, pause_reason = None,
      property_uri = p_property_uri p,
      flags = (let f = ACTIVE;
                   f = (if p_yield_delegation_enabled p then set_flag f YIELD_DELEGATION_ENABLED else f)
               in if p_has_pet p then set_flag f HAS_PET else f),
      early_termination_fee_bps = None, fixed_penalty = None,
      lessor_reference_id = p_lessor_reference_id p,
      paused = False, continuous_billing_enabled = False, rent_treasury_address = None,
      yield_delegation_enabled = False, asset_registry_address = None, asset_id = None\<rparr>"

text \<open>The literal drops the registry address and the asset id of the parameters, so the freeze made
  here is never found again by the termination functions.\<close>

definition create_lease_instance :: "lc_env \<Rightarrow> int \<Rightarrow> address \<Rightarrow> create_lease_params \<Rightarrow> unit lc" where
  "create_lease_instance lenv lid landlord_a p =
     (let env = env.truncate lenv in
      bind (acquire_reentrancy_lock env) (\<lambda>_.
      bind (gets (\<lambda>s. lease_instances s lid)) (\<lambda>existing.
      if existing \<noteq> None then bind release_reentrancy_lock (\<lambda>_. throw LeaseAlreadyExists) else
      bind (require_auth env landlord_a) (\<lambda>_.
      bind (require_auth env (p_tenant p)) (\<lambda>_.
      bind (case (p_asset_registry_address p, p_asset_id p) of
          (Some registry, Some asset) \<Rightarrow>
            bind (verify_asset_ownership env lid landlord_a registry asset) (\<lambda>proof. return (Some proof))
        | _ \<Rightarrow> return None) (\<lambda>freeze_proof.
      bind (case p_deposit_asset p of
          Some deposit_asset \<Rightarrow>
            bind (attempt (execute_deposit_swap env lid (p_tenant p) deposit_asset (p_payment_token p)
              (p_security_deposit p) (p_max_slippage_bps p) (p_swap_path p) (p_dex_contract p))) (\<lambda>r.
            case r of Inr v \<Rightarrow> return v
            | Inl e \<Rightarrow> bind release_reentrancy_lock (\<lambda>_. throw e))
        | None \<Rightarrow> return (p_security_deposit p)) (\<lambda>locked_amount.
      bind (save_lease_instance lid (new_instance landlord_a p locked_amount)) (\<lambda>_.
      bind (gets active_leases_index) (\<lambda>index.
      let idx = add_to_active_leases_index lenv index lid in
      bind (case idx of Inr index \<Rightarrow> modify (\<lambda>s. s\<lparr>active_leases_index := index\<rparr>)
            | Inl e \<Rightarrow> return ()) (\<lambda>_.
      bind (attempt (initialize_lessor landlord_a)) (\<lambda>vel_init.
      bind (attempt (update_portfolio_size landlord_a 1)) (\<lambda>vel_port.
      bind release_reentrancy_lock (\<lambda>_.
      bind (from_result idx) (\<lambda>_.
      bind (from_result vel_init) (\<lambda>_.
      bind (from_result vel_port) (\<lambda>_.
      publish (LeaseSigned lid (p_property_uri p))))))))))))))))))"

text \<open>A lease with continuous billing is active from the start. Its number is the sequence number of the ledger, and
  a lease that is already stored under it is overwritten. The literal names the flags one by one and leaves out the
  fields for early termination, the reference and the asset. What comes between saving the lease and the event, the
  registration with the billing module of the asset \<^verbatim>\<open>Address::from_string("property_asset")\<close>, is in \<^verbatim>\<open>Billed_Lease\<close>,
  where the conversion is shown to stop every such call. The part kept here is the one without the conversion.\<close>

record billed_params =
  b_landlord :: address
  b_tenant :: address
  b_rent_amount :: int
  b_rent_per_second :: int
  b_deposit_amount :: int
  b_duration :: int
  b_property_uri :: string
  b_payment_token :: address
  b_billing_frequency :: int
  b_rent_treasury_address :: address

definition billed_instance :: "env \<Rightarrow> billed_params \<Rightarrow> int \<Rightarrow> lease_instance" where
  "billed_instance env p authorized =
     (let now = ledger_timestamp env; end_time = sat_u64 (now + b_duration p) in
     \<lparr>rent_amount = b_rent_amount p, deposit_amount = b_deposit_amount p,
      security_deposit = b_deposit_amount p, rent_paid = 0, cumulative_payments = 0, debt = 0,
      late_fee_flat = 0, late_fee_per_sec = 0,
      rent_withdrawn = 0, withheld_rent = 0, yield_accumulated = 0, equity_balance = 0,
      pet_deposit_amount = 0, pet_rent_amount = 0,
      rent_per_sec = b_rent_per_second p, buyout_price = None, rent_pull_authorized_amount = Some authorized,
      landlord = b_landlord p, tenant = b_tenant p, payment_token = b_payment_token p,
      withdrawal_address = None, inspector = None, pause_initiator = None, nft_contract = None,
      arbitrators = [], start_date = now, end_date = end_time,
      expiry_time = end_time, rent_paid_through = now, grace_period_end = end_time,
      seconds_late_charged = 0, total_paused_duration = 0, billing_cycle_duration = b_billing_frequency p,
      paused_at = None, last_rent_pull_timestamp = Some now, token_id = None,
      equity_percentage_bps = 0, status = LActive, deposit_status = Held,
      maintenance_status = MNone, repair_proof_hash = None, pause_reason = None,
      property_uri = b_property_uri p, flags = ACTIVE,
      early_termination_fee_bps = None, fixed_penalty = None, lessor_reference_id = None,
      paused = False, continuous_billing_enabled = True,
      rent_treasury_address = Some (b_rent_treasury_address p),
      yield_delegation_enabled = False, asset_registry_address = None, asset_id = None\<rparr>)"

definition save_billed_lease :: "env \<Rightarrow> billed_params \<Rightarrow> int lc" where
  "save_billed_lease env p =
     bind (require_auth env (b_landlord p)) (\<lambda>_.
     bind (require_kyc env (b_landlord p) (b_tenant p)) (\<lambda>_.
     bind (require_stablecoin (b_payment_token p)) (\<lambda>_.
     bind (chk_i128 (b_rent_amount p * 12)) (\<lambda>authorized.
     bind (save_lease_instance (ledger_sequence env) (billed_instance env p authorized)) (\<lambda>_.
     return (ledger_sequence env))))))"

definition announce_billed_lease :: "billed_params \<Rightarrow> int \<Rightarrow> unit lc" where
  "announce_billed_lease p lid = publish (LeaseStarted lid (b_tenant p) (b_rent_per_second p))"

definition create_billed_lease :: "env \<Rightarrow> billed_params \<Rightarrow> unit lc" where
  "create_billed_lease env p = bind (save_billed_lease env p) (announce_billed_lease p)"

section \<open>Rent\<close>

definition get_lease_instance :: "int \<Rightarrow> lease_instance lc" where
  "get_lease_instance lid = load_lease lid"

definition set_lease_instance_buyout_price :: "env \<Rightarrow> int \<Rightarrow> address \<Rightarrow> int \<Rightarrow> unit lc" where
  "set_lease_instance_buyout_price env lid landlord_a price =
     bind (load_lease lid) (\<lambda>l.
     bind (throw_if (landlord l \<noteq> landlord_a) Unauthorised) (\<lambda>_.
     bind (require_auth env landlord_a) (\<lambda>_.
     save_lease_instance lid (l\<lparr>buyout_price := Some price\<rparr>))))"

definition pay_lease_instance_rent :: "env \<Rightarrow> int \<Rightarrow> address \<Rightarrow> int \<Rightarrow> unit lc" where
  "pay_lease_instance_rent env lid payer payment_amount =
     bind (require_auth env payer) (\<lambda>_.
     bind (load_lease lid) (\<lambda>l.
     bind (require (has_flag (flags l) ACTIVE)) (\<lambda>_.
     bind (gets (\<lambda>s. (lid, payer) \<in> authorized_payers s)) (\<lambda>is_authorized.
     bind (throw_if (payer \<noteq> tenant l \<and> \<not> is_authorized) Unauthorised) (\<lambda>_.
     bind (transfer_token env (payment_token l) payer (current_contract env) payment_amount) (\<lambda>_.
     bind (gets (\<lambda>s. unwrap_or 0 (roommate_balances s (lid, payer)))) (\<lambda>payer_bal.
     bind (chk_i128 (payer_bal + payment_amount)) (\<lambda>payer_bal.
     bind (modify (\<lambda>s. s\<lparr>roommate_balances := (roommate_balances s)((lid, payer) \<mapsto> payer_bal)\<rparr>)) (\<lambda>_.
     bind (chk_i128 (cumulative_payments l + payment_amount)) (\<lambda>cumulative.
     bind (chk_i128 (rent_paid l + payment_amount)) (\<lambda>paid.
     let l = l\<lparr>cumulative_payments := cumulative, rent_paid := paid\<rparr> in
     bind (publish (RentPaidPartial lid payer payment_amount)) (\<lambda>_.
     bind (publish (RentPaymentExecuted lid payer payment_amount (ledger_timestamp env)
       (lessor_reference_id l))) (\<lambda>_.
     case buyout_price l of
       Some price \<Rightarrow>
         if cumulative \<ge> price then
           let l = l\<lparr>flags := clear_flag (flags l) ACTIVE, status := LTerminated\<rparr> in
           bind (transfer_nft_to env (nft_contract l) (token_id l) (tenant l)) (\<lambda>_.
           archive_lease env lid l (current_contract env))
         else save_lease_instance lid l
     | None \<Rightarrow> save_lease_instance lid l)))))))))))))"

definition set_withdrawal_address :: "env \<Rightarrow> int \<Rightarrow> address \<Rightarrow> unit lc" where
  "set_withdrawal_address env lid a =
     bind (load_lease lid) (\<lambda>l.
     bind (require_auth env (landlord l)) (\<lambda>_.
     save_lease_instance lid (l\<lparr>withdrawal_address := Some a\<rparr>)))"

text \<open>Withdrawing marks the rent as withdrawn; no token moves.\<close>

definition withdraw_rent :: "env \<Rightarrow> int \<Rightarrow> address \<Rightarrow> unit lc" where
  "withdraw_rent env lid token_contract_id =
     bind (load_lease lid) (\<lambda>l.
     bind (require_auth env (landlord l)) (\<lambda>_.
     bind (ok_or (withdrawal_address l) WithdrawalAddressNotSet) (\<lambda>_.
     bind (chk_i128 (rent_paid l - rent_withdrawn l)) (\<lambda>withdrawable_amount.
     bind (chk_i128 (rent_withdrawn l + withdrawable_amount)) (\<lambda>withdrawn.
     save_lease_instance lid (l\<lparr>rent_withdrawn := withdrawn\<rparr>))))))"

definition add_authorized_payer :: "env \<Rightarrow> int \<Rightarrow> address \<Rightarrow> address \<Rightarrow> unit lc" where
  "add_authorized_payer env lid landlord_a roommate =
     bind (load_lease lid) (\<lambda>l.
     bind (throw_if (landlord l \<noteq> landlord_a) Unauthorised) (\<lambda>_.
     bind (require_auth env landlord_a) (\<lambda>_.
     bind (modify (\<lambda>s. s\<lparr>authorized_payers := insert (lid, roommate) (authorized_payers s)\<rparr>)) (\<lambda>_.
     publish (RoommateAdded lid roommate)))))"

definition get_roommate_balance :: "int \<Rightarrow> address \<Rightarrow> int lc" where
  "get_roommate_balance lid roommate = gets (\<lambda>s. unwrap_or 0 (roommate_balances s (lid, roommate)))"

text \<open>The late-fee accrual of \<^verbatim>\<open>check_tenant_default\<close>: the flat fee once, then every late second once.\<close>

definition accrue_late_fees :: "int \<Rightarrow> lease_instance \<Rightarrow> lease_instance lc" where
  "accrue_late_fees current_time l =
     bind (chk_u64 (current_time - grace_period_end l)) (\<lambda>seconds_late.
     bind (if \<not> has_flag (flags l) FLAT_FEE_APPLIED then
             bind (chk_i128 (debt l + late_fee_flat l)) (\<lambda>d.
             return (l\<lparr>debt := d, flags := set_flag (flags l) FLAT_FEE_APPLIED\<rparr>))
           else return l) (\<lambda>l.
     if seconds_late > seconds_late_charged l then
       bind (chk_u64 (seconds_late - seconds_late_charged l)) (\<lambda>newly_accrued.
       bind (chk_i128 (newly_accrued * late_fee_per_sec l)) (\<lambda>fee.
       bind (chk_i128 (debt l + fee)) (\<lambda>d.
       return (l\<lparr>debt := d, seconds_late_charged := seconds_late\<rparr>))))
     else return l))"

definition check_tenant_default :: "env \<Rightarrow> int \<Rightarrow> int lc" where
  "check_tenant_default env lid =
     bind (load_lease lid) (\<lambda>l.
     let current_time = ledger_timestamp env;
         elapsed_secs = sat_u64 (current_time - start_date l);
         expected_rent = sat_i128 (elapsed_secs * rent_per_sec l);
         unpaid_rent = sat_i128 (expected_rent - rent_paid l);
         total_debt = (if unpaid_rent > 0 then unpaid_rent else 0) in
     bind (if current_time > grace_period_end l then
             bind (accrue_late_fees current_time l) (\<lambda>l.
             bind (chk_u64 (current_time - grace_period_end l)) (\<lambda>seconds_late.
             bind (publish (PaymentLate lid (seconds_late div 86400) (debt l))) (\<lambda>_.
             return l)))
           else return l) (\<lambda>l.
     bind (chk_i128 (total_debt + debt l)) (\<lambda>total_debt.
     bind (if total_debt \<ge> sat_i128 (rent_amount l * 2)
           then publish (EvictionEligible lid (tenant l) total_debt) else return ()) (\<lambda>_.
     bind (save_lease_instance lid l) (\<lambda>_. return total_debt)))))"

section \<open>Maintenance\<close>

definition set_inspector :: "env \<Rightarrow> int \<Rightarrow> address \<Rightarrow> address \<Rightarrow> unit lc" where
  "set_inspector env lid landlord_a inspector_a =
     bind (load_lease lid) (\<lambda>l.
     bind (throw_if (landlord l \<noteq> landlord_a) Unauthorised) (\<lambda>_.
     bind (require_auth env landlord_a) (\<lambda>_.
     save_lease_instance lid (l\<lparr>inspector := Some inspector_a\<rparr>))))"

definition report_maintenance_issue :: "env \<Rightarrow> int \<Rightarrow> address \<Rightarrow> unit lc" where
  "report_maintenance_issue env lid tenant_a =
     bind (load_lease lid) (\<lambda>l.
     bind (throw_if (tenant l \<noteq> tenant_a) Unauthorised) (\<lambda>_.
     bind (require_auth env tenant_a) (\<lambda>_.
     bind (save_lease_instance lid (l\<lparr>maintenance_status := Reported\<rparr>)) (\<lambda>_.
     publish (MaintenanceIssueReported lid tenant_a)))))"

definition submit_repair_proof :: "env \<Rightarrow> int \<Rightarrow> address \<Rightarrow> bytes32 \<Rightarrow> unit lc" where
  "submit_repair_proof env lid landlord_a proof_hash =
     bind (load_lease lid) (\<lambda>l.
     bind (throw_if (landlord l \<noteq> landlord_a) Unauthorised) (\<lambda>_.
     bind (require_auth env landlord_a) (\<lambda>_.
     bind (require (maintenance_status l = Reported)) (\<lambda>_.
     bind (save_lease_instance lid (l\<lparr>maintenance_status := Fixed,
       repair_proof_hash := Some proof_hash\<rparr>)) (\<lambda>_.
     publish (RepairProofSubmitted lid landlord_a proof_hash))))))"

definition verify_repair :: "env \<Rightarrow> int \<Rightarrow> address \<Rightarrow> unit lc" where
  "verify_repair env lid inspector_a =
     bind (load_lease lid) (\<lambda>l.
     bind (throw_if (inspector l \<noteq> Some inspector_a) Unauthorised) (\<lambda>_.
     bind (require_auth env inspector_a) (\<lambda>_.
     bind (require (maintenance_status l = Fixed)) (\<lambda>_.
     let released = withheld_rent l in
     bind (chk_i128 (cumulative_payments l + released)) (\<lambda>cumulative.
     bind (chk_i128 (rent_paid l + released)) (\<lambda>paid.
     bind (save_lease_instance lid (l\<lparr>cumulative_payments := cumulative, rent_paid := paid,
       withheld_rent := 0, maintenance_status := Verified\<rparr>)) (\<lambda>_.
     publish (MaintenanceVerified lid inspector_a released))))))))"

section \<open>Ending a lease\<close>

definition settle_deposit :: "env \<Rightarrow> int \<Rightarrow> address \<Rightarrow> int \<Rightarrow> int \<Rightarrow> int \<Rightarrow> unit lc" where
  "settle_deposit env lid caller refund payout dao_share =
     bind (load_lease lid) (\<lambda>l.
     bind (is_admin caller) (\<lambda>adm.
     bind (throw_if (caller \<noteq> landlord l \<and> caller \<noteq> tenant l \<and> \<not> adm) Unauthorised) (\<lambda>_.
     bind (require_auth env caller) (\<lambda>_.
     save_lease_instance lid (l\<lparr>deposit_status := Settled\<rparr>)))))"

definition thaw_if_registered :: "env \<Rightarrow> int \<Rightarrow> lease_instance \<Rightarrow> unit lc" where
  "thaw_if_registered env lid l =
     (case (asset_registry_address l, asset_id l) of
        (Some registry, Some asset) \<Rightarrow> bind (attempt (thaw_asset env lid registry asset)) (\<lambda>_. return ())
      | _ \<Rightarrow> return ())"

text \<open>\<^verbatim>\<open>DerivedAccessTokenManager\<close> and \<^verbatim>\<open>LesseeAccessTokenManager\<close> are not modules of the crate; the two
  calls whose results the source discards are calls out of the contract.\<close>

definition terminate_lease :: "env \<Rightarrow> int \<Rightarrow> address \<Rightarrow> unit lc" where
  "terminate_lease env lid caller =
     bind (load_lease lid) (\<lambda>l.
     bind (is_admin caller) (\<lambda>adm.
     bind (throw_if (caller \<noteq> landlord l \<and> caller \<noteq> tenant l \<and> \<not> adm) Unauthorised) (\<lambda>_.
     bind (require_auth env caller) (\<lambda>_.
     bind (throw_if (ledger_timestamp env < end_date l) LeaseNotExpired) (\<lambda>_.
     bind (throw_if (deposit_status l = Held \<or> deposit_status l = Disputed) DepositNotSettled) (\<lambda>_.
     bind (gets (\<lambda>s. (platform_fee_amount s, platform_fee_token s, platform_fee_recipient s))) (\<lambda>fee.
     bind (case fee of
         (Some fee_amount, Some fee_token, Some fee_recipient) \<Rightarrow>
           bind (chk_i128 (fee_amount * 1000)) (\<lambda>scaled.
           let bounty = tdiv scaled 10000 in
           if bounty > 0 then
             bind (transfer_token env fee_token fee_recipient caller bounty) (\<lambda>_.
             publish (TerminateBountyPaid lid caller bounty))
           else return ())
       | _ \<Rightarrow> return ()) (\<lambda>_.
     bind (case token_id l of
         Some tid \<Rightarrow>
           bind (call_ext env (BurnDerivedTokens tid)) (\<lambda>_.
           bind (call_ext env (RevokeAccessToken lid)) (\<lambda>_. return ()))
       | None \<Rightarrow> return ()) (\<lambda>_.
     bind (thaw_if_registered env lid l) (\<lambda>_.
     bind (archive_lease env lid l caller) (\<lambda>_.
     publish (LeaseTerminatedEvent lid))))))))))))"

text \<open>The percentage penalty on the remaining rent, and the four ways the two settings combine.\<close>

definition percentage_penalty :: "int \<Rightarrow> int \<Rightarrow> int \<Rightarrow> int lc" where
  "percentage_penalty fee_bps remaining_time rate =
     (if fee_bps > 0 \<and> remaining_time > 0 then
        bind (chk_i128 (remaining_time * rate)) (\<lambda>remaining_value.
        bind (chk_i128 (remaining_value * fee_bps)) (\<lambda>scaled.
        return (tdiv scaled 10000)))
      else return 0)"

definition early_penalty :: "lease_instance \<Rightarrow> int \<Rightarrow> int lc" where
  "early_penalty l remaining_time =
     (case (early_termination_fee_bps l, fixed_penalty l) of
        (Some fee_bps, Some fixed) \<Rightarrow>
          bind (percentage_penalty fee_bps remaining_time (rent_per_sec l)) (\<lambda>p. return (max p fixed))
      | (Some fee_bps, None) \<Rightarrow> percentage_penalty fee_bps remaining_time (rent_per_sec l)
      | (None, Some fixed) \<Rightarrow> return fixed
      | (None, None) \<Rightarrow> return 0)"

definition execute_early_termination :: "env \<Rightarrow> int \<Rightarrow> address \<Rightarrow> unit lc" where
  "execute_early_termination env lid caller =
     bind (require_auth env caller) (\<lambda>_.
     bind (load_lease lid) (\<lambda>l.
     bind (throw_if (caller \<noteq> tenant l \<and> caller \<noteq> landlord l) Unauthorised) (\<lambda>_.
     bind (throw_if (status l = LTerminated) LeaseNotTerminated) (\<lambda>_.
     bind (initialize_lessor (landlord l)) (\<lambda>_.
     bind (check_velocity_limits env (landlord l)) (\<lambda>_.
     let current_time = ledger_timestamp env in
     bind (chk_u64 (end_date l - start_date l)) (\<lambda>total_duration.
     bind (chk_u64 (current_time - start_date l)) (\<lambda>elapsed_time.
     bind (chk_u64 (end_date l - current_time)) (\<lambda>remaining_time.
     bind (early_penalty l remaining_time) (\<lambda>penalty_amount.
     bind (chk_i128 (security_deposit l + deposit_amount l)) (\<lambda>total_deposit.
     let final_penalty = min penalty_amount total_deposit in
     bind (chk_i128 (total_deposit - final_penalty)) (\<lambda>tenant_refund.
     bind (pay_out env (payment_token l) (tenant l) tenant_refund) (\<lambda>_.
     bind (pay_out env (payment_token l) (landlord l) final_penalty) (\<lambda>_.
     let l = l\<lparr>status := LTerminated, deposit_status := Settled,
       flags := clear_flag (flags l) ACTIVE\<rparr> in
     bind (transfer_nft_to env (nft_contract l) (token_id l) (landlord l)) (\<lambda>_.
     bind (record_termination env (landlord l) lid) (\<lambda>_.
     bind (update_portfolio_size (landlord l) (- 1)) (\<lambda>_.
     bind (thaw_if_registered env lid l) (\<lambda>_.
     bind (archive_lease env lid l caller) (\<lambda>_.
     bind (get_velocity_stats (landlord l)) (\<lambda>(portfolio_size, velocity_24h, _, _).
     bind (publish (LeaseTerminatedEvent lid)) (\<lambda>_.
     publish (LeaseTerminatedWithVelocityGuard lid (landlord l) (tenant l) caller current_time
       portfolio_size velocity_24h))))))))))))))))))))))"

definition reclaim_asset :: "env \<Rightarrow> int \<Rightarrow> address \<Rightarrow> string \<Rightarrow> unit lc" where
  "reclaim_asset env lid caller reason =
     bind (load_lease lid) (\<lambda>l.
     bind (throw_if (caller \<noteq> landlord l \<and> caller \<noteq> tenant l) Unauthorised) (\<lambda>_.
     bind (require_auth env caller) (\<lambda>_.
     publish (AssetReclaimed lid reason))))"

definition conclude_lease :: "env \<Rightarrow> int \<Rightarrow> address \<Rightarrow> int \<Rightarrow> int lc" where
  "conclude_lease env lid landlord_a damage_deduction =
     bind (load_lease lid) (\<lambda>l.
     bind (throw_if (landlord_a \<noteq> landlord l) Unauthorised) (\<lambda>_.
     bind (require_auth env landlord_a) (\<lambda>_.
     bind (throw_if (damage_deduction < 0 \<or> damage_deduction > deposit_amount l) InvalidDeduction) (\<lambda>_.
     bind (save_lease_instance lid (l\<lparr>status := LTerminated, deposit_status := Settled\<rparr>)) (\<lambda>_.
     chk_i128 (deposit_amount l - damage_deduction))))))"

definition reclaim :: "env \<Rightarrow> int \<Rightarrow> address \<Rightarrow> unit lc" where
  "reclaim env lid caller =
     bind (load_lease lid) (\<lambda>l.
     bind (is_admin caller) (\<lambda>adm.
     bind (throw_if (caller \<noteq> landlord l \<and> \<not> adm) Unauthorised) (\<lambda>_.
     bind (require_auth env caller) (\<lambda>_.
     bind (throw_if (deposit_amount l > 0) DepositNotSettled) (\<lambda>_.
     bind (return_nft env (nft_contract l) (token_id l) (landlord l)) (\<lambda>_.
     bind (save_lease_instance lid (l\<lparr>status := LTerminated,
       flags := clear_flag (flags l) ACTIVE\<rparr>)) (\<lambda>_.
     publish (AssetReclaimed lid ''Payment stream ran dry''))))))))"

definition dispute_deposit :: "env \<Rightarrow> int \<Rightarrow> address \<Rightarrow> unit lc" where
  "dispute_deposit env lid caller =
     bind (load_lease lid) (\<lambda>l.
     bind (throw_if (caller \<noteq> landlord l \<and> caller \<noteq> tenant l) Unauthorised) (\<lambda>_.
     bind (require_auth env caller) (\<lambda>_.
     bind (save_lease_instance lid (l\<lparr>deposit_status := Disputed, status := LDisputed\<rparr>)) (\<lambda>_.
     publish (DepositDisputed lid caller)))))"

definition resolve_dispute :: "env \<Rightarrow> int \<Rightarrow> address \<Rightarrow> int \<Rightarrow> int lc" where
  "resolve_dispute env lid arbitrator damage_deduction =
     bind (load_lease lid) (\<lambda>l.
     bind (throw_if (arbitrator \<notin> set (arbitrators l)) NotAnArbitrator) (\<lambda>_.
     bind (require_auth env arbitrator) (\<lambda>_.
     bind (throw_if (damage_deduction < 0 \<or> damage_deduction > security_deposit l) InvalidDeduction) (\<lambda>_.
     bind (chk_i128 (security_deposit l - damage_deduction)) (\<lambda>refund_amount.
     bind (save_lease_instance lid (l\<lparr>status := LTerminated, deposit_status := Settled\<rparr>)) (\<lambda>_.
     return refund_amount))))))"

definition mutual_deposit_release :: "env \<Rightarrow> int \<Rightarrow> address \<Rightarrow> address \<Rightarrow> int \<Rightarrow> int \<Rightarrow> unit lc" where
  "mutual_deposit_release env lid lessee_pubkey lessor_pubkey return_amount slash_amount =
     bind (load_lease lid) (\<lambda>l.
     bind (throw_if (lessee_pubkey \<noteq> tenant l \<or> lessor_pubkey \<noteq> landlord l) Unauthorised) (\<lambda>_.
     bind (require_auth env lessee_pubkey) (\<lambda>_.
     bind (require_auth env lessor_pubkey) (\<lambda>_.
     bind (throw_if (status l \<noteq> LActive \<and> status l \<noteq> LExpired) LeaseNotFound) (\<lambda>_.
     bind (chk_i128 (security_deposit l + deposit_amount l)) (\<lambda>total_escrowed.
     bind (chk_i128 (return_amount + slash_amount)) (\<lambda>released.
     bind (throw_if (released \<noteq> total_escrowed) InvalidReleaseMath) (\<lambda>_.
     bind (throw_if (return_amount < 0 \<or> slash_amount < 0) InvalidReleaseMath) (\<lambda>_.
     bind (pay_out env (payment_token l) (tenant l) return_amount) (\<lambda>_.
     bind (pay_out env (payment_token l) (landlord l) slash_amount) (\<lambda>_.
     let l = l\<lparr>status := LTerminated, deposit_status := Settled,
       flags := clear_flag (flags l) ACTIVE\<rparr> in
     bind (return_nft env (nft_contract l) (token_id l) (landlord l)) (\<lambda>_.
     bind (save_lease_instance lid l) (\<lambda>_.
     publish (MutualLeaseFinalized lid return_amount slash_amount return_amount slash_amount))))))))))))))"

definition init_mutual_release_fb :: "env \<Rightarrow> int \<Rightarrow> address \<Rightarrow> int \<Rightarrow> int \<Rightarrow> unit lc" where
  "init_mutual_release_fb env lid initiator proposed_return proposed_slash =
     bind (load_lease lid) (\<lambda>l.
     bind (throw_if (initiator \<noteq> tenant l \<and> initiator \<noteq> landlord l) Unauthorised) (\<lambda>_.
     bind (require_auth env initiator) (\<lambda>_.
     bind (throw_if (status l \<noteq> LActive \<and> status l \<noteq> LExpired) LeaseNotFound) (\<lambda>_.
     bind (chk_i128 (security_deposit l + deposit_amount l)) (\<lambda>total_escrowed.
     bind (chk_i128 (proposed_return + proposed_slash)) (\<lambda>proposed.
     bind (throw_if (proposed \<noteq> total_escrowed) InvalidReleaseMath) (\<lambda>_.
     bind (throw_if (proposed_return < 0 \<or> proposed_slash < 0) InvalidReleaseMath) (\<lambda>_.
     bind (save_lease_instance lid (l\<lparr>deposit_status := Disputed, status := LDisputed\<rparr>)) (\<lambda>_.
     publish (DepositDisputed lid initiator))))))))))"

text \<open>The Web2 reference must consist of printable ASCII.\<close>

definition set_lessor_reference_id :: "env \<Rightarrow> int \<Rightarrow> address \<Rightarrow> string \<Rightarrow> unit lc" where
  "set_lessor_reference_id env lid landlord_a reference =
     bind (load_lease lid) (\<lambda>l.
     bind (throw_if (landlord l \<noteq> landlord_a) Unauthorised) (\<lambda>_.
     bind (require_auth env landlord_a) (\<lambda>_.
     bind (throw_if (\<exists>c \<in> set reference. of_char c < (32 :: nat) \<or> of_char c > (126 :: nat))
       InvalidParameters) (\<lambda>_.
     save_lease_instance lid (l\<lparr>lessor_reference_id := Some reference\<rparr>)))))"

end
