(* ===== verification/Contract_Oracle.thy ===== *)
theory Contract_Oracle
  imports Contract_Lease
begin

text \<open>
  \<^verbatim>\<open>src/lib.rs\<close>, the oracles: staleness, nonces, the fallback hierarchy, the deposit slash with its veto
  for massive amounts, and the asset condition updates.
\<close>

definition STALENESS_THRESHOLD :: int where "STALENESS_THRESHOLD = 48 * 60 * 60"
definition BACKUP_FAILURE_THRESHOLD :: int where "BACKUP_FAILURE_THRESHOLD = 7 * 24 * 60 * 60"
definition MAX_ORACLE_FAILURES :: int where "MAX_ORACLE_FAILURES = 3"
definition MASSIVE_SLASH_THRESHOLD :: int where "MASSIVE_SLASH_THRESHOLD = 100000000000"
definition VETO_TIMELOCK_PERIOD :: int where "VETO_TIMELOCK_PERIOD = 24 * 60 * 60"

lemmas oracle_consts = STALENESS_THRESHOLD_def BACKUP_FAILURE_THRESHOLD_def MAX_ORACLE_FAILURES_def
  MASSIVE_SLASH_THRESHOLD_def VETO_TIMELOCK_PERIOD_def

section \<open>Oracle records\<close>

definition get_oracle_config :: "bytes32 \<Rightarrow> oracle_config option lc" where
  "get_oracle_config key = gets (\<lambda>s. oracle_configs s key)"

definition set_oracle_config :: "bytes32 \<Rightarrow> oracle_config \<Rightarrow> unit lc" where
  "set_oracle_config key c = modify (\<lambda>s. s\<lparr>oracle_configs := (oracle_configs s)(key \<mapsto> c)\<rparr>)"

definition store_fallback_hierarchy :: "fallback_hierarchy \<Rightarrow> unit lc" where
  "store_fallback_hierarchy h = modify (\<lambda>s. s\<lparr>fallback := Some h\<rparr>)"

definition get_oracle_nonce :: "bytes32 \<Rightarrow> int lc" where
  "get_oracle_nonce key = gets (\<lambda>s. unwrap_or 0 (oracle_nonces s key))"

definition set_oracle_nonce :: "bytes32 \<Rightarrow> int \<Rightarrow> unit lc" where
  "set_oracle_nonce key n = modify (\<lambda>s. s\<lparr>oracle_nonces := (oracle_nonces s)(key \<mapsto> n)\<rparr>)"

definition staleness_check :: "env \<Rightarrow> int \<Rightarrow> bool lc" where
  "staleness_check env payload_timestamp =
     (let current_time = ledger_timestamp env in
      bind (throw_if (payload_timestamp > current_time) OracleStale) (\<lambda>_.
      let age = sat_u64 (current_time - payload_timestamp) in
      bind (throw_if (age > STALENESS_THRESHOLD) OracleStale) (\<lambda>_. return True)))"

definition demote_oracle :: "env \<Rightarrow> bytes32 \<Rightarrow> string \<Rightarrow> unit lc" where
  "demote_oracle env key reason =
     bind (get_oracle_config key) (\<lambda>c. bind (ok_or c OracleNotWhitelisted) (\<lambda>config.
     if o_status config = ODemoted then return () else
     bind (chk_u32 (failure_count config + 1)) (\<lambda>n.
     let config = config\<lparr>o_status := ODemoted, demotion_timestamp := Some (ledger_timestamp env),
       failure_count := n\<rparr> in
     bind (set_oracle_config key config) (\<lambda>_.
     publish (OracleDemoted key reason (ledger_timestamp env) n)))))"

definition activate_fallback_hierarchy :: "env \<Rightarrow> string \<Rightarrow> unit lc" where
  "activate_fallback_hierarchy env reason =
     bind (gets fallback) (\<lambda>h. bind (ok_or h FallbackHierarchyNotConfigured) (\<lambda>hierarchy.
     if hierarchy_active hierarchy then return () else
     bind (store_fallback_hierarchy (hierarchy\<lparr>hierarchy_active := True,
       last_demotion_time := Some (ledger_timestamp env)\<rparr>)) (\<lambda>_.
     publish (FallbackHierarchyActivated (primary_oracle hierarchy) (backup_oracle hierarchy)
       (ledger_timestamp env) reason))))"

definition trigger_dao_arbitration :: "env \<Rightarrow> int \<Rightarrow> string \<Rightarrow> unit lc" where
  "trigger_dao_arbitration env lid reason =
     bind (load_lease lid) (\<lambda>l.
     bind (save_lease_instance lid (l\<lparr>status := LDaoArbitration\<rparr>)) (\<lambda>_.
     publish (DaoArbitrationTriggered lid (ledger_timestamp env) reason)))"

definition check_oracle_availability :: "env \<Rightarrow> bytes32 \<Rightarrow> bool lc" where
  "check_oracle_availability env key =
     bind (get_oracle_config key) (\<lambda>c. bind (ok_or c OracleNotWhitelisted) (\<lambda>config.
     return (case o_status config of
         OActive \<Rightarrow> True
       | ODemoted \<Rightarrow> (case demotion_timestamp config of
             Some demotion_time \<Rightarrow>
               sat_u64 (ledger_timestamp env - demotion_time) > 24 * 60 * 60
                 \<and> failure_count config < MAX_ORACLE_FAILURES
           | None \<Rightarrow> False)
       | OFailed \<Rightarrow> False)))"

definition verify_ed25519_signature :: "env \<Rightarrow> bytes32 \<Rightarrow> int \<Rightarrow> bytes32 \<Rightarrow> unit lc" where
  "verify_ed25519_signature env key message signature = call_unit env (Ed25519Verify key message signature)"

definition is_tenant_flagged :: "int \<Rightarrow> bool lc" where
  "is_tenant_flagged lid = gets (\<lambda>s. lid \<in> tenant_flags s)"

definition flag_tenant :: "int \<Rightarrow> address \<Rightarrow> string \<Rightarrow> unit lc" where
  "flag_tenant lid tenant_a reason =
     bind (modify (\<lambda>s. s\<lparr>tenant_flags := insert lid (tenant_flags s)\<rparr>)) (\<lambda>_.
     publish (TenantFlagged lid tenant_a reason))"

fun calculate_penalty_percentage :: "damage_severity \<Rightarrow> int" where
  "calculate_penalty_percentage NormalWearAndTear = 0"
| "calculate_penalty_percentage Minor = 10"
| "calculate_penalty_percentage Moderate = 25"
| "calculate_penalty_percentage Major = 50"
| "calculate_penalty_percentage Severe = 75"
| "calculate_penalty_percentage Catastrophic = 100"

section \<open>The deposit slash\<close>

text \<open>What happens when the oracle of the payload is not available: every branch ends in an error.\<close>

definition oracle_unavailable ::
    "env \<Rightarrow> oracle_payload \<Rightarrow> fallback_hierarchy option \<Rightarrow> unit lc" where
  "oracle_unavailable env p hierarchy =
     (case hierarchy of
        Some h \<Rightarrow>
          if op_oracle_pubkey p = primary_oracle h then
            bind (demote_oracle env (op_oracle_pubkey p) ''Primary oracle stale or unavailable'') (\<lambda>_.
            bind (activate_fallback_hierarchy env ''Primary oracle demoted due to staleness'') (\<lambda>_.
            throw OracleStale))
          else if op_oracle_pubkey p = backup_oracle h then
            bind (case last_demotion_time h of
                Some last_demotion \<Rightarrow>
                  if sat_u64 (ledger_timestamp env - last_demotion) > BACKUP_FAILURE_THRESHOLD then
                    bind (trigger_dao_arbitration env (op_lease_id p) ''Backup oracle failed for 7+ days'') (\<lambda>_.
                    throw OracleUnavailable)
                  else return ()
              | None \<Rightarrow> return ()) (\<lambda>_.
            bind (demote_oracle env (op_oracle_pubkey p) ''Backup oracle failed'') (\<lambda>_.
            throw OracleUnavailable))
          else throw OracleNotWhitelisted
      | None \<Rightarrow> throw OracleNotWhitelisted)"

text \<open>A successful payload refreshes the oracle's record and reinstates a demoted one.\<close>

definition refreshed_config :: "int \<Rightarrow> oracle_config \<Rightarrow> oracle_config" where
  "refreshed_config current_time c =
     (let c = c\<lparr>last_successful_timestamp := current_time\<rparr> in
      if o_status c = ODemoted \<and> failure_count c < MAX_ORACLE_FAILURES
      then c\<lparr>o_status := OActive, failure_count := 0, demotion_timestamp := None\<rparr> else c)"

definition penalty_of :: "damage_severity \<Rightarrow> int \<Rightarrow> int" where
  "penalty_of sev total_deposit =
     (let pct = calculate_penalty_percentage sev in
      if pct = 0 then 0 else tdiv (sat_i128 (total_deposit * pct)) 100)"

text \<open>The second half: the payout of the deposit once the oracle has been accepted.\<close>

definition slash_payout :: "env \<Rightarrow> oracle_payload \<Rightarrow> lease_instance \<Rightarrow> unit lc" where
  "slash_payout env p l =
     (let lid = op_lease_id p in
      bind (chk_i128 (security_deposit l + deposit_amount l)) (\<lambda>total_deposit.
      let penalty_amount = penalty_of (damage_severity p) total_deposit;
          tenant_refund = sat_i128 (total_deposit - penalty_amount);
          landlord_payout = penalty_amount in
      bind (gets security_council) (\<lambda>council.
      if landlord_payout \<ge> MASSIVE_SLASH_THRESHOLD \<and> council \<noteq> None then
        bind (chk_u64 (ledger_timestamp env + VETO_TIMELOCK_PERIOD)) (\<lambda>timelock_end.
        bind (modify (\<lambda>s. s\<lparr>pending_slashes := (pending_slashes s)(lid \<mapsto>
          \<lparr>ps_lease_id = lid, ps_slash_amount = penalty_amount, ps_tenant_refund = tenant_refund,
           ps_landlord_payout = landlord_payout, ps_payload = p,
           ps_proposed_at = ledger_timestamp env, ps_timelock_end = timelock_end,
           veto_votes_for = 0, veto_votes_against = 0, ps_executed = False, ps_vetoed = False\<rparr>)\<rparr>)) (\<lambda>_.
        throw PendingVeto))
      else
        bind (if damage_severity p \<ge> Severe \<and> penalty_amount \<ge> total_deposit
              then flag_tenant lid (tenant l) ''Severe damage exceeding deposit value''
              else return ()) (\<lambda>_.
        bind (pay_out env (payment_token l) (tenant l) tenant_refund) (\<lambda>_.
        bind (pay_out env (payment_token l) (landlord l) landlord_payout) (\<lambda>_.
        let l = l\<lparr>deposit_status := Settled, flags := clear_flag (flags l) ACTIVE\<rparr> in
        bind (save_lease_instance lid l) (\<lambda>_.
        bind (record_termination env (landlord l) lid) (\<lambda>_.
        bind (update_portfolio_size (landlord l) (- 1)) (\<lambda>_.
        bind (return_nft env (nft_contract l) (token_id l) (landlord l)) (\<lambda>_.
        bind (get_velocity_stats (landlord l)) (\<lambda>_.
        publish (DepositSlashed lid (op_oracle_pubkey p) (severity_code (damage_severity p))
          penalty_amount tenant_refund landlord_payout (lessor_reference_id l)))))))))))))"

definition execute_deposit_slash_inner :: "env \<Rightarrow> oracle_payload \<Rightarrow> unit lc" where
  "execute_deposit_slash_inner env p =
     (let current_time = ledger_timestamp env; key = op_oracle_pubkey p; lid = op_lease_id p in
      bind (staleness_check env (op_timestamp p)) (\<lambda>_.
      bind (gets fallback) (\<lambda>hierarchy.
      bind (is_oracle_whitelisted key) (\<lambda>listed.
      bind (if listed then check_oracle_availability env key else return False) (\<lambda>oracle_available.
      if \<not> oracle_available then oracle_unavailable env p hierarchy else
      bind (case hierarchy of
          Some h \<Rightarrow> throw_if (hierarchy_active h \<and> key \<noteq> backup_oracle h) OracleBypassAttempt
        | None \<Rightarrow> return ()) (\<lambda>_.
      bind (get_oracle_nonce key) (\<lambda>stored_nonce.
      bind (throw_if (op_nonce p \<le> stored_nonce) InvalidNonce) (\<lambda>_.
      bind (throw_if (op_timestamp p > current_time \<or> current_time - op_timestamp p > 86400)
        InvalidSignature) (\<lambda>_.
      bind (verify_ed25519_signature env key lid (op_signature p)) (\<lambda>_.
      bind (get_oracle_config key) (\<lambda>c.
      bind (case c of Some config \<Rightarrow> set_oracle_config key (refreshed_config current_time config)
            | None \<Rightarrow> return ()) (\<lambda>_.
      bind (set_oracle_nonce key (op_nonce p)) (\<lambda>_.
      bind (load_lease lid) (\<lambda>l.
      bind (throw_if (status l = LDaoArbitration) DaoArbitrationNotEnabled) (\<lambda>_.
      bind (throw_if (status l \<noteq> LTerminated \<and> status l \<noteq> LExpired) LeaseNotTerminated) (\<lambda>_.
      bind (throw_if (deposit_status l = Settled) DepositAlreadySettled) (\<lambda>_.
      bind (initialize_lessor (landlord l)) (\<lambda>_.
      bind (check_velocity_limits env (landlord l)) (\<lambda>_.
      slash_payout env p l)))))))))))))))))))"

definition execute_deposit_slash :: "env \<Rightarrow> oracle_payload \<Rightarrow> unit lc" where
  "execute_deposit_slash env p =
     bind (acquire_reentrancy_lock env) (\<lambda>_.
     bind (attempt (execute_deposit_slash_inner env p)) (\<lambda>result.
     bind release_reentrancy_lock (\<lambda>_.
     from_result result)))"

section \<open>Administration of the hierarchy\<close>

definition set_fallback_hierarchy :: "env \<Rightarrow> address \<Rightarrow> bytes32 \<Rightarrow> bytes32 \<Rightarrow> bool \<Rightarrow> unit lc" where
  "set_fallback_hierarchy env a primary backup dao =
     bind (require_admin env a) (\<lambda>_.
     bind (is_oracle_whitelisted primary) (\<lambda>ok. bind (throw_if (\<not> ok) OracleNotWhitelisted) (\<lambda>_.
     bind (is_oracle_whitelisted backup) (\<lambda>ok. bind (throw_if (\<not> ok) OracleNotWhitelisted) (\<lambda>_.
     bind (throw_if (primary = backup) InvalidReleaseMath) (\<lambda>_.
     let config = (\<lambda>key t. \<lparr>pubkey = key, tier = t, o_status = OActive,
       last_successful_timestamp = ledger_timestamp env, demotion_timestamp = None,
       failure_count = 0\<rparr>) in
     bind (set_oracle_config primary (config primary Primary)) (\<lambda>_.
     bind (set_oracle_config backup (config backup Backup)) (\<lambda>_.
     store_fallback_hierarchy \<lparr>primary_oracle = primary, backup_oracle = backup,
       dao_arbitration_enabled = dao, hierarchy_active = False, last_demotion_time = None\<rparr>))))))))"

definition get_oracle_status :: "bytes32 \<Rightarrow> oracle_config lc" where
  "get_oracle_status key = bind (get_oracle_config key) (\<lambda>c. ok_or c OracleNotWhitelisted)"

definition get_hierarchy_status :: "fallback_hierarchy lc" where
  "get_hierarchy_status = bind (gets fallback) (\<lambda>h. ok_or h FallbackHierarchyNotConfigured)"

definition reset_oracle_status :: "env \<Rightarrow> address \<Rightarrow> bytes32 \<Rightarrow> unit lc" where
  "reset_oracle_status env a key =
     bind (require_admin env a) (\<lambda>_.
     bind (get_oracle_config key) (\<lambda>c. bind (ok_or c OracleNotWhitelisted) (\<lambda>config.
     set_oracle_config key (config\<lparr>o_status := OActive, failure_count := 0,
       demotion_timestamp := None, last_successful_timestamp := ledger_timestamp env\<rparr>))))"

section \<open>Asset condition updates\<close>

text \<open>The private second \<^verbatim>\<open>execute_early_termination\<close> of the source; it assigns \<^verbatim>\<open>lease.active\<close>, a field
  the struct has replaced by the flag.\<close>

definition terminate_destroyed :: "env \<Rightarrow> int \<Rightarrow> address \<Rightarrow> unit lc" where
  "terminate_destroyed env lid caller =
     bind (load_lease lid) (\<lambda>l.
     bind (throw_if (status l \<noteq> LActive) LeaseNotTerminated) (\<lambda>_.
     let l = l\<lparr>status := LTerminated, flags := clear_flag (flags l) ACTIVE\<rparr> in
     bind (save_lease_instance lid l) (\<lambda>_.
     bind (archive_lease env lid l caller) (\<lambda>_.
     publish (LeaseTerminatedEvent lid)))))"

fun condition_string :: "asset_condition \<Rightarrow> string" where
  "condition_string Mint = ''Mint''"
| "condition_string Worn = ''Worn''"
| "condition_string Damaged = ''Damaged''"
| "condition_string Destroyed = ''Destroyed''"

definition update_asset_condition_metadata ::
    "env \<Rightarrow> asset_condition_payload \<Rightarrow> address \<Rightarrow> unit lc" where
  "update_asset_condition_metadata env p registry =
     (let current_time = ledger_timestamp env; key = ap_oracle_pubkey p; lid = ap_lease_id p;
          window = (key, current_time div 3600) in
      bind (gets (\<lambda>s. window \<in> oracle_rate_limits s)) (\<lambda>limited.
      bind (throw_if limited OracleStale) (\<lambda>_.
      bind (staleness_check env (ap_timestamp p)) (\<lambda>_.
      bind (is_oracle_whitelisted key) (\<lambda>listed.
      bind (throw_if (\<not> listed) OracleNotWhitelisted) (\<lambda>_.
      bind (check_oracle_availability env key) (\<lambda>_.
      bind (get_oracle_nonce key) (\<lambda>stored_nonce.
      bind (throw_if (ap_nonce p \<le> stored_nonce) InvalidNonce) (\<lambda>_.
      bind (verify_ed25519_signature env key lid (ap_signature p)) (\<lambda>_.
      bind (gets (\<lambda>s. unwrap_or Mint (asset_conditions s lid))) (\<lambda>current_condition.
      bind (modify (\<lambda>s. s\<lparr>asset_conditions := (asset_conditions s)(lid \<mapsto> ap_condition p),
        oracle_rate_limits := insert window (oracle_rate_limits s)\<rparr>)) (\<lambda>_.
      bind (set_oracle_nonce key (ap_nonce p)) (\<lambda>_.
      bind (call_unit env (UpdateAssetMetadata registry lid (condition_string (ap_condition p)) [])) (\<lambda>_.
      bind (publish (AssetMetadataUpdated lid (ap_condition p) key current_time current_condition)) (\<lambda>_.
      if ap_condition p = Destroyed then
        bind (load_lease lid) (\<lambda>l.
        if status l = LActive then
          bind (terminate_destroyed env lid (tenant l)) (\<lambda>_.
          bind (chk_u64 (ap_nonce p + 1)) (\<lambda>next.
          execute_deposit_slash env \<lparr>op_lease_id = lid, op_oracle_pubkey = key,
            damage_severity = Catastrophic, op_nonce = next, op_timestamp = current_time,
            op_signature = ap_signature p\<rparr>))
        else return ())
      else return ())))))))))))))))"

definition get_asset_condition :: "int \<Rightarrow> asset_condition lc" where
  "get_asset_condition lid = gets (\<lambda>s. unwrap_or Mint (asset_conditions s lid))"

end
