(* ===== verification/Contract_Views.thy ===== *)
theory Contract_Views
  imports Contract_Lease
begin

text \<open>
  \<^verbatim>\<open>src/lib.rs\<close>, the deployment of escrowed deposits to yield protocols and the read-only queries:
  pages of archived leases, the simulated termination, the list of active leases.
\<close>

section \<open>Yield\<close>

definition is_yield_protocol_whitelisted :: "address \<Rightarrow> bool lc" where
  "is_yield_protocol_whitelisted p = gets (\<lambda>s. p \<in> whitelisted_yield_protocols s)"

definition get_liquidity_buffer :: "int lc" where
  "get_liquidity_buffer = gets (\<lambda>s. unwrap_or 0 (liquidity_buffer s))"

definition set_liquidity_buffer :: "int \<Rightarrow> unit lc" where
  "set_liquidity_buffer n = modify (\<lambda>s. s\<lparr>liquidity_buffer := Some n\<rparr>)"

definition set_liquidity_buffer_amount :: "env \<Rightarrow> address \<Rightarrow> int \<Rightarrow> unit lc" where
  "set_liquidity_buffer_amount env a n = bind (require_admin env a) (\<lambda>_. set_liquidity_buffer n)"

definition verify_liquidity_buffer :: "int \<Rightarrow> unit lc" where
  "verify_liquidity_buffer required =
     bind get_liquidity_buffer (\<lambda>b. throw_if (b < required) InsufficientLiquidityBuffer)"

definition calculate_yield_distribution :: "int \<Rightarrow> int \<times> int \<times> int" where
  "calculate_yield_distribution total_yield =
     (tdiv (sat_i128 (total_yield * 5000)) 10000,
      tdiv (sat_i128 (total_yield * 3000)) 10000,
      tdiv (sat_i128 (total_yield * 2000)) 10000)"

definition deploy_escrow_to_yield :: "env \<Rightarrow> int \<Rightarrow> address \<Rightarrow> int \<Rightarrow> int \<Rightarrow> unit lc" where
  "deploy_escrow_to_yield env lid protocol deploy_amount max_slippage_bps =
     bind (load_lease lid) (\<lambda>l.
     bind (is_yield_protocol_whitelisted protocol) (\<lambda>ok.
     bind (throw_if (\<not> ok) YieldProtocolNotWhitelisted) (\<lambda>_.
     bind (throw_if (security_deposit l < deploy_amount) InvalidDeduction) (\<lambda>_.
     bind (verify_liquidity_buffer deploy_amount) (\<lambda>_.
     bind (call_int env (YieldDeposit protocol (current_contract env) deploy_amount)) (\<lambda>lp.
     bind (throw_if (lp < tdiv (sat_i128 (deploy_amount * (10000 - max_slippage_bps))) 10000)
       SlippageExceeded) (\<lambda>_.
     bind (modify (\<lambda>s. s\<lparr>yield_deployments := (yield_deployments s)(lid \<mapsto>
       \<lparr>yd_lease_id = lid, principal_amount = deploy_amount, yd_protocol = protocol,
        deployment_timestamp = ledger_timestamp env, lp_tokens = lp, yd_active = True\<rparr>)\<rparr>)) (\<lambda>_.
     bind (chk_i128 (security_deposit l - deploy_amount)) (\<lambda>rest.
     bind (save_lease_instance lid (l\<lparr>security_deposit := rest\<rparr>)) (\<lambda>_.
     bind get_liquidity_buffer (\<lambda>current_buffer.
     bind (chk_i128 (current_buffer - deploy_amount)) (\<lambda>b.
     set_liquidity_buffer b))))))))))))"

definition harvest_yield :: "env \<Rightarrow> int \<Rightarrow> unit lc" where
  "harvest_yield env lid =
     bind (gets (\<lambda>s. yield_deployments s lid)) (\<lambda>y. bind (ok_or y LeaseNotFound) (\<lambda>deployment.
     bind (throw_if (\<not> yd_active deployment) LeaseNotFound) (\<lambda>_.
     bind (load_lease lid) (\<lambda>l.
     bind (call_int env (YieldClaim (yd_protocol deployment) (current_contract env))) (\<lambda>total_yield.
     bind (throw_if (total_yield \<le> 0) YieldUnderflow) (\<lambda>_.
     let (lessee_share, lessor_share, dao_share) = calculate_yield_distribution total_yield in
     bind (pay_out env (payment_token l) (tenant l) lessee_share) (\<lambda>_.
     bind (pay_out env (payment_token l) (landlord l) lessor_share) (\<lambda>_.
     bind (gets platform_fee_recipient) (\<lambda>dao.
     bind (case dao of Some dao_address \<Rightarrow> pay_out env (payment_token l) dao_address dao_share
           | None \<Rightarrow> return ()) (\<lambda>_.
     bind (gets (\<lambda>s. unwrap_or 0 (yield_totals s lid))) (\<lambda>accumulated.
     bind (chk_i128 (accumulated + total_yield)) (\<lambda>t.
     bind (modify (\<lambda>s. s\<lparr>yield_totals := (yield_totals s)(lid \<mapsto> t)\<rparr>)) (\<lambda>_.
     publish (EscrowYieldHarvested lid total_yield lessee_share lessor_share dao_share
       (yd_protocol deployment) (ledger_timestamp env)))))))))))))))"

definition withdraw_from_yield :: "env \<Rightarrow> int \<Rightarrow> int \<Rightarrow> unit lc" where
  "withdraw_from_yield env lid max_slippage_bps =
     bind (gets (\<lambda>s. yield_deployments s lid)) (\<lambda>y. bind (ok_or y LeaseNotFound) (\<lambda>deployment.
     bind (throw_if (\<not> yd_active deployment) LeaseNotFound) (\<lambda>_.
     bind (call_int env (YieldWithdraw (yd_protocol deployment) (current_contract env)
       (lp_tokens deployment))) (\<lambda>withdrawn_amount.
     bind (throw_if (withdrawn_amount < principal_amount deployment) YieldUnderflow) (\<lambda>_.
     let min_expected = tdiv (sat_i128 (principal_amount deployment * (10000 - max_slippage_bps))) 10000 in
     bind (throw_if (withdrawn_amount < min_expected) SlippageExceeded) (\<lambda>_.
     bind (load_lease lid) (\<lambda>l.
     bind (chk_i128 (security_deposit l + withdrawn_amount)) (\<lambda>dep.
     bind (save_lease_instance lid (l\<lparr>security_deposit := dep\<rparr>)) (\<lambda>_.
     bind (modify (\<lambda>s. s\<lparr>yield_deployments := (yield_deployments s)(lid \<mapsto>
       deployment\<lparr>yd_active := False, lp_tokens := 0\<rparr>)\<rparr>)) (\<lambda>_.
     bind get_liquidity_buffer (\<lambda>current_buffer.
     bind (chk_i128 (current_buffer + withdrawn_amount)) (\<lambda>b.
     set_liquidity_buffer b))))))))))))"

definition get_yield_deployment :: "int \<Rightarrow> yield_deployment lc" where
  "get_yield_deployment lid =
     bind (gets (\<lambda>s. yield_deployments s lid)) (\<lambda>y. ok_or y LeaseNotFound)"

definition get_accumulated_yield :: "int \<Rightarrow> int lc" where
  "get_accumulated_yield lid = gets (\<lambda>s. unwrap_or 0 (yield_totals s lid))"

section \<open>Pages of archived leases\<close>

text \<open>The position after the first occurrence of the cursor, or the end when it does not occur.\<close>

fun position_after :: "int \<Rightarrow> int list \<Rightarrow> nat" where
  "position_after c [] = 0"
| "position_after c (x # xs) = (if x = c then 1 else Suc (position_after c xs))"

record historical_lease_page =
  page_leases :: "historical_lease list"
  next_cursor :: "int option"

definition get_historical_leases_paginated :: "int option \<Rightarrow> int \<Rightarrow> historical_lease_page lc" where
  "get_historical_leases_paginated cursor limit =
     bind (gets historical_index) (\<lambda>index.
     bind (gets historical_leases) (\<lambda>archive.
     let total = length index;
         start = (case cursor of None \<Rightarrow> 0 | Some last_id \<Rightarrow> position_after last_id index) in
     if start \<ge> total then return \<lparr>page_leases = [], next_cursor = None\<rparr> else
     bind (chk_u32 (int start + limit)) (\<lambda>e.
     let fin = min (nat e) total;
         found = List.map_filter archive (take (fin - start) (drop start index)) in
     if fin < total then
       bind (chk_u32 (int fin - 1)) (\<lambda>_.
       return \<lparr>page_leases = found, next_cursor = Some (index ! (fin - 1))\<rparr>)
     else return \<lparr>page_leases = found, next_cursor = None\<rparr>)))"

section \<open>Simulated termination\<close>

record termination_simulation =
  sim_deposit_amount :: int
  sim_penalty_amount :: int
  sim_projected_refund :: int

definition simulate_termination :: "int \<Rightarrow> int \<Rightarrow> termination_simulation lc" where
  "simulate_termination lid termination_timestamp =
     bind (load_lease lid) (\<lambda>l.
     bind (chk_i128 (security_deposit l + deposit_amount l)) (\<lambda>total_deposit.
     let remaining_time = (if termination_timestamp < end_date l
                           then end_date l - termination_timestamp else 0) in
     bind (if remaining_time > 0 \<and> rent_per_sec l > 0 then
             bind (chk_i128 (remaining_time * rent_per_sec l)) (\<lambda>remaining_value.
             bind (chk_i128 (remaining_value * 1000)) (\<lambda>scaled.
             return (min (tdiv scaled 10000) total_deposit)))
           else return 0) (\<lambda>penalty_amount.
     let outstanding_debt = max (debt l) 0 in
     bind (chk_i128 (penalty_amount + outstanding_debt)) (\<lambda>owed.
     let total_deduction = min owed total_deposit in
     bind (chk_i128 (total_deposit - total_deduction)) (\<lambda>projected_refund.
     return \<lparr>sim_deposit_amount = total_deposit, sim_penalty_amount = total_deduction,
       sim_projected_refund = projected_refund\<rparr>)))))"

section \<open>Active leases\<close>

definition shows_active :: "lease_instance \<Rightarrow> bool" where
  "shows_active l \<longleftrightarrow> has_flag (flags l) ACTIVE \<and> (status l = LActive \<or> status l = LPending)"

record active_lease_summary =
  sum_lease_id :: int
  sum_landlord :: address
  sum_tenant :: address
  sum_rent_amount :: int
  sum_rent_per_sec :: int
  sum_deposit_amount :: int
  sum_security_deposit :: int
  sum_start_date :: int
  sum_end_date :: int
  sum_property_uri :: string
  sum_status :: lease_status
  sum_payment_token :: address
  sum_rent_paid :: int
  sum_cumulative_payments :: int
  sum_debt :: int
  sum_active :: bool
  sum_yield_delegation_enabled :: bool
  sum_equity_percentage_bps :: int

definition summary_of :: "int \<Rightarrow> lease_instance \<Rightarrow> active_lease_summary" where
  "summary_of lid l =
     \<lparr>sum_lease_id = lid, sum_landlord = landlord l, sum_tenant = tenant l,
      sum_rent_amount = rent_amount l, sum_rent_per_sec = rent_per_sec l,
      sum_deposit_amount = deposit_amount l, sum_security_deposit = security_deposit l,
      sum_start_date = start_date l, sum_end_date = end_date l,
      sum_property_uri = property_uri l, sum_status = status l,
      sum_payment_token = payment_token l, sum_rent_paid = rent_paid l,
      sum_cumulative_payments = cumulative_payments l, sum_debt = debt l,
      sum_active = has_flag (flags l) ACTIVE,
      sum_yield_delegation_enabled = has_flag (flags l) YIELD_DELEGATION_ENABLED,
      sum_equity_percentage_bps = equity_percentage_bps l\<rparr>"

definition get_active_leases :: "active_lease_summary list lc" where
  "get_active_leases = gets (\<lambda>s.
     List.map_filter (\<lambda>lid. case lease_instances s lid of
       Some l \<Rightarrow> if shows_active l then Some (summary_of lid l) else None
     | None \<Rightarrow> None) (active_leases_index s))"

end
