(* ===== verification/Lease_Contract.thy ===== *)
theory Lease_Contract
  imports Contract_Oracle Contract_Views
begin

text \<open>
  The lease contract as a system: its state-changing entry points as messages, one invocation of a
  message with the host's rollback, and the rules that carry a predicate through an invocation that
  returns \<open>Ok\<close>. The message \<open>CreateBilledLease\<close> is the part of \<^verbatim>\<open>create_lease_with_continuous_billing\<close> that writes the
  contract's own storage. In the code no call of that entry point completes (\<^verbatim>\<open>Billed_Lease\<close>), so the message only adds
  runs: what is proved of all runs holds with leases of this kind as well as without them.
\<close>

section \<open>Entry points\<close>

definition dao_approve_resume :: "env \<Rightarrow> address \<Rightarrow> address \<Rightarrow> int \<Rightarrow> unit lc" where
  "dao_approve_resume env dao_member a rid =
     bind (require_auth env dao_member) (\<lambda>_. vg_dao_approve_resume dao_member a rid)"

definition void :: "'a lc \<Rightarrow> unit lc" where
  "void m = bind m (\<lambda>_. return ())"

text \<open>The entry points, grouped as the theories of the model are.\<close>

datatype admin_call =
    Initialize address
  | SetAdmin address
  | AddAllowedAsset address address
  | SetKycProvider address address
  | SetPlatformFee address int address address
  | SetTermsHash address bytes32
  | Upgrade address bytes32 bytes32
  | WhitelistOracle address bytes32
  | RemoveOracle address bytes32
  | AddWhitelistedRegistry address address
  | RemoveWhitelistedRegistry address address
  | SetLiquidityBufferAmount address int
  | DaoApproveResume address address int

fun admin_exec :: "env \<Rightarrow> admin_call \<Rightarrow> unit lc" where
  "admin_exec env (Initialize a) = initialize a"
| "admin_exec env (SetAdmin a) = set_admin a"
| "admin_exec env (AddAllowedAsset a t) = add_allowed_asset env a t"
| "admin_exec env (SetKycProvider a p) = set_kyc_provider env a p"
| "admin_exec env (SetPlatformFee a n t r) = set_platform_fee env a n t r"
| "admin_exec env (SetTermsHash a h) = set_terms_hash env a h"
| "admin_exec env (Upgrade a w h) = upgrade env a w h"
| "admin_exec env (WhitelistOracle a k) = whitelist_oracle env a k"
| "admin_exec env (RemoveOracle a k) = remove_oracle env a k"
| "admin_exec env (AddWhitelistedRegistry a r) = add_whitelisted_registry env a r"
| "admin_exec env (RemoveWhitelistedRegistry a r) = remove_whitelisted_registry env a r"
| "admin_exec env (SetLiquidityBufferAmount a n) = set_liquidity_buffer_amount env a n"
| "admin_exec env (DaoApproveResume m a r) = dao_approve_resume env m a r"

datatype legacy_call =
    InitializeLease string address address int int int string address
  | CreateLease address address int address
  | ActivateLease string address
  | PayRent string int
  | PayRentReceipt string int int
  | SetBuyoutPrice string address int
  | EndLease string address

fun legacy_exec :: "env \<Rightarrow> legacy_call \<Rightarrow> unit lc" where
  "legacy_exec env (InitializeLease k a b r d n u t) = void (initialize_lease env k a b r d n u t)"
| "legacy_exec env (CreateLease a b n t) = void (create_lease env a b n t)"
| "legacy_exec env (ActivateLease k a) = void (activate_lease env k a)"
| "legacy_exec env (PayRent k n) = void (pay_rent env k n)"
| "legacy_exec env (PayRentReceipt k m n) = void (pay_rent_receipt env k m n)"
| "legacy_exec env (SetBuyoutPrice k a n) = void (set_buyout_price k a n)"
| "legacy_exec env (EndLease k a) = void (end_lease env k a)"

datatype lease_call =
    CreateLeaseInstance int address create_lease_params
  | CreateBilledLease billed_params
  | SetLeaseInstanceBuyoutPrice int address int
  | PayLeaseInstanceRent int address int
  | SetWithdrawalAddress int address
  | WithdrawRent int address
  | AddAuthorizedPayer int address address
  | CheckTenantDefault int
  | SetInspector int address address
  | ReportMaintenanceIssue int address
  | SubmitRepairProof int address bytes32
  | VerifyRepair int address
  | SetLessorReferenceId int address string
  | DeployEscrowToYield int address int int
  | HarvestYield int
  | WithdrawFromYield int int

fun lease_exec :: "lc_env \<Rightarrow> env \<Rightarrow> lease_call \<Rightarrow> unit lc" where
  "lease_exec lenv env (CreateLeaseInstance i a p) = create_lease_instance lenv i a p"
| "lease_exec lenv env (CreateBilledLease p) = create_billed_lease env p"
| "lease_exec lenv env (SetLeaseInstanceBuyoutPrice i a n) = set_lease_instance_buyout_price env i a n"
| "lease_exec lenv env (PayLeaseInstanceRent i a n) = pay_lease_instance_rent env i a n"
| "lease_exec lenv env (SetWithdrawalAddress i a) = set_withdrawal_address env i a"
| "lease_exec lenv env (WithdrawRent i a) = withdraw_rent env i a"
| "lease_exec lenv env (AddAuthorizedPayer i a b) = add_authorized_payer env i a b"
| "lease_exec lenv env (CheckTenantDefault i) = void (check_tenant_default env i)"
| "lease_exec lenv env (SetInspector i a b) = set_inspector env i a b"
| "lease_exec lenv env (ReportMaintenanceIssue i a) = report_maintenance_issue env i a"
| "lease_exec lenv env (SubmitRepairProof i a h) = submit_repair_proof env i a h"
| "lease_exec lenv env (VerifyRepair i a) = verify_repair env i a"
| "lease_exec lenv env (SetLessorReferenceId i a r) = set_lessor_reference_id env i a r"
| "lease_exec lenv env (DeployEscrowToYield i p n b) = deploy_escrow_to_yield env i p n b"
| "lease_exec lenv env (HarvestYield i) = harvest_yield env i"
| "lease_exec lenv env (WithdrawFromYield i b) = withdraw_from_yield env i b"

datatype ending_call =
    SettleDeposit int address int int int
  | TerminateLease int address
  | ExecuteEarlyTermination int address
  | ReclaimAsset int address string
  | ConcludeLease int address int
  | Reclaim int address
  | DisputeDeposit int address
  | ResolveDispute int address int
  | MutualDepositRelease int address address int int
  | InitMutualReleaseFb int address int int

fun ending_exec :: "env \<Rightarrow> ending_call \<Rightarrow> unit lc" where
  "ending_exec env (SettleDeposit i a x y z) = settle_deposit env i a x y z"
| "ending_exec env (TerminateLease i a) = terminate_lease env i a"
| "ending_exec env (ExecuteEarlyTermination i a) = execute_early_termination env i a"
| "ending_exec env (ReclaimAsset i a r) = reclaim_asset env i a r"
| "ending_exec env (ConcludeLease i a n) = void (conclude_lease env i a n)"
| "ending_exec env (Reclaim i a) = reclaim env i a"
| "ending_exec env (DisputeDeposit i a) = dispute_deposit env i a"
| "ending_exec env (ResolveDispute i a n) = void (resolve_dispute env i a n)"
| "ending_exec env (MutualDepositRelease i a b x y) = mutual_deposit_release env i a b x y"
| "ending_exec env (InitMutualReleaseFb i a x y) = init_mutual_release_fb env i a x y"

datatype oracle_call =
    SetFallbackHierarchy address bytes32 bytes32 bool
  | ResetOracleStatus address bytes32
  | ExecuteDepositSlash oracle_payload
  | UpdateAssetConditionMetadata asset_condition_payload address

fun oracle_exec :: "env \<Rightarrow> oracle_call \<Rightarrow> unit lc" where
  "oracle_exec env (SetFallbackHierarchy a p b d) = set_fallback_hierarchy env a p b d"
| "oracle_exec env (ResetOracleStatus a k) = reset_oracle_status env a k"
| "oracle_exec env (ExecuteDepositSlash p) = execute_deposit_slash env p"
| "oracle_exec env (UpdateAssetConditionMetadata p r) = update_asset_condition_metadata env p r"

datatype lc_call = Admin admin_call | Legacy legacy_call | Lease lease_call | Ending ending_call | Oracle oracle_call

fun lc_exec :: "lc_env \<Rightarrow> lc_call \<Rightarrow> unit lc" where
  "lc_exec lenv (Admin m) = admin_exec (env.truncate lenv) m"
| "lc_exec lenv (Legacy m) = legacy_exec (env.truncate lenv) m"
| "lc_exec lenv (Lease m) = lease_exec lenv (env.truncate lenv) m"
| "lc_exec lenv (Ending m) = ending_exec (env.truncate lenv) m"
| "lc_exec lenv (Oracle m) = oracle_exec (env.truncate lenv) m"

definition lc_step :: "lc_env \<times> lc_call \<Rightarrow> lc_state \<Rightarrow> lc_state" where
  "lc_step m s = snd (invoke (lc_exec (fst m) (snd m)) s)"

section \<open>Predicates kept by successful procedures\<close>

definition ok_keeps :: "(lc_state \<Rightarrow> bool) \<Rightarrow> 'a lc \<Rightarrow> bool" where
  "ok_keeps P m \<longleftrightarrow> (\<forall>s a s'. P s \<longrightarrow> m s = (Ok a, s') \<longrightarrow> P s')"

named_theorems ok_intros \<open>compositional rules for \<open>ok_keeps\<close>\<close>

lemma ok_keepsD: "ok_keeps P m \<Longrightarrow> P s \<Longrightarrow> m s = (Ok a, s') \<Longrightarrow> P s'"
  by (auto simp: ok_keeps_def)

lemma ok_keeps_keeps: "keeps P m \<Longrightarrow> ok_keeps P m"
  by (fastforce simp: ok_keeps_def keeps_def)

lemma ok_keeps_bind [ok_intros]:
  "ok_keeps P m \<Longrightarrow> (\<And>a. ok_keeps P (k a)) \<Longrightarrow> ok_keeps P (bind m k)"
  unfolding ok_keeps_def bind_Ok_iff by blast

lemma ok_keeps_pure [ok_intros]:
  "ok_keeps P (return x)" "ok_keeps P (throw e)" "ok_keeps P trap" "ok_keeps P (gets f)"
  "ok_keeps P (throw_if c e)" "ok_keeps P (require c)" "ok_keeps P (ok_or y e)" "ok_keeps P (unwrap y)"
  "ok_keeps P (from_result r)" "ok_keeps P (require_auth env a)" "ok_keeps P (require_admin env a)"
  "ok_keeps P (is_admin a)" "ok_keeps P (chk_u64 n)" "ok_keeps P (chk_i128 n)" "ok_keeps P (chk_i64 n)"
  "ok_keeps P (chk_u32 n)"
  by (auto simp: ok_keeps_def proc_ok)

lemma ok_keeps_if [ok_intros]:
  "(c \<Longrightarrow> ok_keeps P m) \<Longrightarrow> (\<not> c \<Longrightarrow> ok_keeps P n) \<Longrightarrow> ok_keeps P (if c then m else n)"
  by simp

lemma ok_keeps_option [ok_intros]:
  "(x = None \<Longrightarrow> ok_keeps P m) \<Longrightarrow> (\<And>a. x = Some a \<Longrightarrow> ok_keeps P (k a))
     \<Longrightarrow> ok_keeps P (case x of None \<Rightarrow> m | Some a \<Rightarrow> k a)"
  by (cases x) auto

lemma ok_keeps_sum [ok_intros]:
  "(\<And>a. x = Inl a \<Longrightarrow> ok_keeps P (m a)) \<Longrightarrow> (\<And>a. x = Inr a \<Longrightarrow> ok_keeps P (k a))
     \<Longrightarrow> ok_keeps P (case x of Inl a \<Rightarrow> m a | Inr a \<Rightarrow> k a)"
  by (cases x) auto

lemma ok_keeps_prod [ok_intros]:
  "(\<And>a b. ok_keeps P (k a b)) \<Longrightarrow> ok_keeps P (case x of (a, b) \<Rightarrow> k a b)"
  by (cases x) auto

lemma ok_keeps_modify [ok_intros]: "(\<And>s. P s \<Longrightarrow> P (f s)) \<Longrightarrow> ok_keeps P (modify f)"
  by (auto simp: ok_keeps_def)

text \<open>A procedure that never returns \<open>Ok\<close> keeps everything.\<close>

lemma ok_keeps_never: "(\<And>s a s'. m s \<noteq> (Ok a, s')) \<Longrightarrow> ok_keeps P m"
  by (auto simp: ok_keeps_def)

lemma ok_keeps_void [ok_intros]: "ok_keeps P m \<Longrightarrow> ok_keeps P (void m)"
  unfolding void_def by (intro ok_intros)

lemma ok_keeps_step:
  assumes "\<And>lenv m. ok_keeps P (lc_exec lenv m)" "P s"
  shows "P (lc_step x s)"
  unfolding lc_step_def
  by (cases "lc_exec (fst x) (snd x)" s rule: invoke_cases)
    (use assms(2) ok_keepsD [OF assms(1,2)] in auto)

end
