(* ===== verification/Contract_Frame.thy ===== *)
theory Contract_Frame
  imports Lease_Contract
begin

text \<open>
  Which part of the storage the operations of the lease contract touch. The locale states what a
  predicate on the storage has to satisfy to survive every operation outside the oracles: it may speak
  of the critical components only, its claims on a lease record survive an update that ends the lease
  or leaves its terms alone, and its claims on a velocity tracker survive the updates of the guard. Its
  lemmas walk through those operations once, for all such predicates.
\<close>

section \<open>The critical components\<close>

definition critical where
  "critical (s :: lc_state) = (lease_instances s, oracle_nonces s, oracle_configs s, fallback s,
     pending_slashes s, security_council s, whitelisted_yield_protocols s, paused_lessors s,
     velocity_trackers s, historical_leases s, historical_index s)"

definition lease_core where
  "lease_core l = (token_id l, nft_contract l, early_termination_fee_bps l, fixed_penalty l,
     asset_registry_address l, asset_id l, continuous_billing_enabled l)"

text \<open>\<open>framed m\<close>: whatever the outcome, \<open>m\<close> leaves the critical components as they are.\<close>

definition framed :: "'a lc \<Rightarrow> bool" where
  "framed m \<longleftrightarrow> (\<forall>s. critical (snd (m s)) = critical s)"

named_theorems framed_intros \<open>compositional rules for \<open>framed\<close>\<close>

lemma framedI: "(\<And>P. keeps P m) \<Longrightarrow> framed m"
  unfolding framed_def using keepsD [of "\<lambda>x. critical x = critical s" m s for s] by auto

lemma framedD: "framed m \<Longrightarrow> m s = (r, s') \<Longrightarrow> critical s' = critical s"
  by (metis framed_def snd_conv)

lemma framed_bind [framed_intros]: "framed m \<Longrightarrow> (\<And>a. framed (k a)) \<Longrightarrow> framed (bind m k)"
  unfolding framed_def bind_run by (auto split: prod.splits outcome.splits) (metis snd_conv)+

lemma framed_pure [framed_intros]:
  "framed (return x)" "framed (throw e)" "framed trap" "framed (gets f)"
  "framed (throw_if c e)" "framed (require c)" "framed (ok_or y e)" "framed (unwrap y)"
  "framed (from_result r)" "framed (require_auth env a)"
  "framed (chk_u64 n)" "framed (chk_i128 n)" "framed (chk_i64 n)" "framed (chk_u32 n)"
  by (intro framedI keeps_intros)+

lemma framed_modify [framed_intros]: "(\<And>s. critical (f s) = critical s) \<Longrightarrow> framed (modify f)"
  by (simp add: framed_def)

lemma framed_if [framed_intros]: "framed m \<Longrightarrow> framed n \<Longrightarrow> framed (if c then m else n)"
  by simp

lemma framed_option [framed_intros]:
  "framed m \<Longrightarrow> (\<And>a. framed (k a)) \<Longrightarrow> framed (case x of None \<Rightarrow> m | Some a \<Rightarrow> k a)"
  by (cases x) auto

lemma framed_prod [framed_intros]: "(\<And>a b. framed (k a b)) \<Longrightarrow> framed (case x of (a, b) \<Rightarrow> k a b)"
  by (cases x) auto

lemma framed_reply [framed_intros]:
  "framed a \<Longrightarrow> (\<And>b. framed (c b)) \<Longrightarrow> (\<And>i. framed (d i)) \<Longrightarrow> (\<And>h. framed (e h))
     \<Longrightarrow> (\<And>p q r t. framed (f p q r t)) \<Longrightarrow> framed g \<Longrightarrow> framed h
     \<Longrightarrow> framed (case r of Reply_unit \<Rightarrow> a | Reply_bool b \<Rightarrow> c b | Reply_int i \<Rightarrow> d i
          | Reply_hash h \<Rightarrow> e h | Reply_price p q r t \<Rightarrow> f p q r t | Reply_err \<Rightarrow> g | Reply_trap \<Rightarrow> h)"
  by (cases r) auto

lemma framed_attempt [framed_intros]: "framed m \<Longrightarrow> framed (attempt m)"
  unfolding framed_def attempt_def by (auto split: prod.splits outcome.splits) (metis snd_conv)+

lemma critical_host [simp]:
  "critical (s\<lparr>events := e\<rparr>) = critical s" "critical (s\<lparr>calls := c\<rparr>) = critical s"
  by (simp_all add: critical_def)

lemma framed_publish [framed_intros]: "framed (publish ev)"
  by (simp add: framed_def publish_run)

lemma framed_call_ext [framed_intros]: "framed (call_ext env c)"
  by (simp add: framed_def call_ext_run)

lemma framed_calls [framed_intros]:
  "framed (call_unit env c)" "framed (call_bool env c)" "framed (call_int env c)"
  unfolding call_unit_def call_bool_def call_int_def by (intro framed_intros)+

lemma framed_helpers [framed_intros]:
  "framed (transfer_token env t a b n)" "framed (pay_out env t a n)"
  "framed (transfer_nft_to env x y a)" "framed (is_admin a)" "framed (require_admin env a)"
  "framed (save_usage_rights c i u)" "framed (delete_usage_rights c i)" "framed (return_nft env x y a)"
  unfolding transfer_token_def pay_out_def transfer_nft_to_def is_admin_def require_admin_def
    save_usage_rights_def delete_usage_rights_def return_nft_def
  by (intro framed_intros; simp add: critical_def)+

lemma framed_locks [framed_intros]:
  "framed (acquire_reentrancy_lock env)" "framed release_reentrancy_lock"
  unfolding acquire_reentrancy_lock_def release_reentrancy_lock_def
  by (intro framed_intros; simp add: critical_def)+

lemma framed_velocity [framed_intros]:
  "framed (get_velocity_tracker a)" "framed (has_velocity_tracker a)" "framed (get_velocity_stats a)"
  "framed (cleanup_old_terminations env t)" "framed (is_lessor_paused a)" "framed (load_lease lid)"
  unfolding get_velocity_tracker_def has_velocity_tracker_def get_velocity_stats_def
    cleanup_old_terminations_def is_lessor_paused_def load_lease_def load_lease_instance_by_id_def Let_def
  by (intro framed_intros)+

lemma framed_assets [framed_intros]:
  "framed (get_registry_info env r)" "framed (is_registry_whitelisted r)"
  "framed (verify_asset_ownership env lid a r x)" "framed (thaw_asset env lid r x)"
  "framed (thaw_if_registered env lid l)"
  unfolding get_registry_info_def is_registry_whitelisted_def verify_asset_ownership_def thaw_asset_def
    thaw_if_registered_def
  by (intro framed_intros; simp add: critical_def)+

lemma framed_admin [framed_intros]:
  "framed (initialize a)" "framed (set_admin a)" "framed (add_allowed_asset env a t)"
  "framed (set_kyc_provider env a p)" "framed (set_platform_fee env a n t r)"
  "framed (set_terms_hash env a h)" "framed (upgrade env a w h)" "framed (whitelist_oracle env a k)"
  "framed (remove_oracle env a k)" "framed (add_whitelisted_registry env a r)"
  "framed (remove_whitelisted_registry env a r)" "framed (set_liquidity_buffer n)"
  "framed (set_liquidity_buffer_amount env a n)"
  unfolding initialize_def set_admin_def add_allowed_asset_def set_kyc_provider_def set_platform_fee_def
    set_terms_hash_def upgrade_def whitelist_oracle_def remove_oracle_def add_whitelisted_registry_def
    remove_whitelisted_registry_def set_liquidity_buffer_def set_liquidity_buffer_amount_def
  by (intro framed_intros; simp add: critical_def)+

lemma framed_legacy_helpers [framed_intros]:
  "framed (is_asset_allowed t)" "framed (require_stablecoin t)" "framed (require_kyc env a b)"
  "framed (load_legacy k)" "framed (save_legacy k l)"
  unfolding is_asset_allowed_def require_stablecoin_def require_kyc_def load_legacy_def save_legacy_def
  by (intro framed_intros; simp add: critical_def)+

lemma framed_legacy [framed_intros]:
  "framed (initialize_lease env k a b r d n u t)" "framed (create_lease env a b n t)"
  "framed (activate_lease env k a)" "framed (pay_rent env k n)" "framed (pay_rent_receipt env k m n)"
  "framed (set_buyout_price k a n)" "framed (end_lease env k a)"
  unfolding initialize_lease_def create_lease_def activate_lease_def pay_rent_def pay_rent_receipt_def
    set_buyout_price_def end_lease_def Let_def
  by (intro framed_intros; simp add: critical_def)+

lemma framed_swap [framed_intros]: "framed (execute_deposit_swap env lid a b c n m p d)"
  unfolding execute_deposit_swap_def Let_def by (intro framed_intros)

lemma framed_void [framed_intros]: "framed m \<Longrightarrow> framed (void m)"
  unfolding void_def by (intro framed_intros)

lemma framed_defaults [framed_intros]: "framed (accrue_late_fees t l)" "framed (percentage_penalty f r n)"
  "framed (early_penalty l r)"
  unfolding accrue_late_fees_def percentage_penalty_def early_penalty_def
  by (intro framed_intros)+

lemma framed_yield [framed_intros]: "framed (is_yield_protocol_whitelisted p)" "framed get_liquidity_buffer"
  "framed (set_liquidity_buffer n)" "framed (verify_liquidity_buffer n)" "framed (harvest_yield env lid)"
  unfolding is_yield_protocol_whitelisted_def get_liquidity_buffer_def set_liquidity_buffer_def
    verify_liquidity_buffer_def harvest_yield_def calculate_yield_distribution_def Let_def
  by (intro framed_intros; simp add: critical_def)+

section \<open>Predicates on the critical components\<close>

definition fresh_tracker :: "address \<Rightarrow> velocity_tracker" where
  "fresh_tracker a = \<lparr>vt_lessor = a, total_leases = 0, terminations_24h = 0, last_termination_times = [],
     is_paused = False, pause_timestamp = None\<rparr>"

definition counted :: "velocity_tracker \<Rightarrow> int \<Rightarrow> velocity_tracker" where
  "counted t now = t\<lparr>last_termination_times := last_termination_times t @ [now],
     terminations_24h := terminations_24h t + 1\<rparr>"

lemma velocity_Err:
  "initialize_lessor a s = (Err e, s') \<Longrightarrow> s' = s"
  "update_portfolio_size a d s = (Err e, s') \<Longrightarrow> s' = s"
  by (auto simp: initialize_lessor_def update_portfolio_size_def has_velocity_tracker_def
      get_velocity_tracker_def save_velocity_tracker_def bind_Err_iff ok_or_run chk_u64_def chk_i64_def
      chk_def proc_ok split: if_splits option.splits)

locale contract_predicate =
  fixes P :: "lc_state \<Rightarrow> bool"
    and lok :: "lease_instance \<Rightarrow> bool"
    and tok :: "address \<Rightarrow> velocity_tracker \<Rightarrow> bool"
  assumes frame: "P s \<Longrightarrow> critical s' = critical s \<Longrightarrow> P s'"
    and load: "P s \<Longrightarrow> lease_instances s lid = Some l \<Longrightarrow> lok l"
    and save: "P s \<Longrightarrow> lok l \<Longrightarrow> P (s\<lparr>lease_instances := (lease_instances s)(lid \<mapsto> l)\<rparr>)"
    and archive: "P s \<Longrightarrow> P (snd (archive_lease env lid l a s))"
    and lok_update: "lok l \<Longrightarrow> lease_core l' = lease_core l
      \<Longrightarrow> status l' = status l \<or> status l' = LTerminated \<or> status l' = LDisputed \<Longrightarrow> lok l'"
    and lok_new: "lok (new_instance a p n)"
    and lok_billed: "lok (billed_instance env q n)"
    and tracker: "P s \<Longrightarrow> velocity_trackers s a = Some t \<Longrightarrow> tok a t"
    and track: "P s \<Longrightarrow> tok a t \<Longrightarrow> P (s\<lparr>velocity_trackers := (velocity_trackers s)(a \<mapsto> t)\<rparr>)"
    and tok_fresh: "P s \<Longrightarrow> velocity_trackers s a = None \<Longrightarrow> tok a (fresh_tracker a)"
    and tok_counted: "tok a t \<Longrightarrow> tok a (counted t now)"
    and tok_sized: "tok a t \<Longrightarrow> tok a (t\<lparr>total_leases := n\<rparr>)"
    and tok_resumed: "tok a t \<Longrightarrow> tok a (t\<lparr>is_paused := False, pause_timestamp := None\<rparr>)"
    and resume: "P s \<Longrightarrow> P (s\<lparr>paused_lessors := paused_lessors s - {a}\<rparr>)"
begin

text \<open>One step of the walk through a procedure: its first part leaves the critical components alone,
  or loads a lease, whose record is then known to be fine.\<close>

lemma kept_framed: "framed m \<Longrightarrow> ok_keeps P m"
  unfolding ok_keeps_def using frame framedD by metis

lemma kept_bind_framed: "framed m \<Longrightarrow> (\<And>a. ok_keeps P (k a)) \<Longrightarrow> ok_keeps P (bind m k)"
  by (rule ok_keeps_bind [OF kept_framed])

lemma kept_load: "(\<And>l. lok l \<Longrightarrow> ok_keeps P (k l)) \<Longrightarrow> ok_keeps P (bind (load_lease lid) k)"
  unfolding ok_keeps_def bind_Ok_iff load_lease_Ok_iff using load by blast

lemma kept_bind_lease:
  assumes "ok_keeps P m" "\<And>s a s'. m s = (Ok a, s') \<Longrightarrow> lok a" "\<And>l. lok l \<Longrightarrow> ok_keeps P (k l)"
  shows "ok_keeps P (bind m k)"
  using assms unfolding ok_keeps_def bind_Ok_iff by blast

lemma kept_save: "lok l \<Longrightarrow> ok_keeps P (save_lease_instance lid l)"
  unfolding save_lease_instance_def by (intro ok_keeps_modify save)

lemma kept_archive: "ok_keeps P (archive_lease env lid l a)"
  unfolding ok_keeps_def using archive by (metis snd_conv)

lemma kept_initialize_lessor: "ok_keeps P (initialize_lessor a)"
  using track [OF _ tok_fresh, unfolded fresh_tracker_def] by (auto simp: ok_keeps_def proc_ok)

lemma kept_check_velocity_limits: "ok_keeps P (check_velocity_limits env a)"
  by (simp add: ok_keeps_def check_velocity_limits_Ok_iff)

lemma kept_record_termination: "ok_keeps P (record_termination env a lid)"
  unfolding ok_keeps_def record_termination_Ok_iff
  using track [OF _ tok_counted [OF tracker], unfolded counted_def] by blast

lemma kept_update_portfolio_size: "ok_keeps P (update_portfolio_size a d)"
  unfolding ok_keeps_def using track [OF _ tok_sized [OF tracker]]
  by (blast dest: update_portfolio_size_Ok)

lemma kept_resume_lessor: "ok_keeps P (resume_lessor a)"
  unfolding ok_keeps_def resume_lessor_def
  using track [OF resume tok_resumed [OF tracker [OF resume]]] by (auto simp: proc_ok)

text \<open>An error bound by the caller keeps the predicate when the state is the old one.\<close>

lemma kept_attempt:
  "ok_keeps P m \<Longrightarrow> (\<And>s e s'. m s = (Err e, s') \<Longrightarrow> s' = s) \<Longrightarrow> ok_keeps P (attempt m)"
  unfolding ok_keeps_def attempt_Ok_iff by blast

lemma kept_attempts:
  "ok_keeps P (attempt (initialize_lessor a))" "ok_keeps P (attempt (update_portfolio_size a d))"
  by (rule kept_attempt [OF kept_initialize_lessor] kept_attempt [OF kept_update_portfolio_size];
      erule velocity_Err)+

lemmas kept_velocity = kept_initialize_lessor kept_check_velocity_limits kept_record_termination
  kept_update_portfolio_size kept_resume_lessor kept_attempts

section \<open>The walk through the operations\<close>

lemma lok_ended [simp]:
  "lok l \<Longrightarrow> lok (l\<lparr>status := LTerminated, flags := f\<rparr>)"
  "lok l \<Longrightarrow> lok (l\<lparr>status := LTerminated, deposit_status := d\<rparr>)"
  "lok l \<Longrightarrow> lok (l\<lparr>status := LTerminated, deposit_status := d, flags := f\<rparr>)"
  "lok l \<Longrightarrow> lok (l\<lparr>deposit_status := d, status := LDisputed\<rparr>)"
  "lok l \<Longrightarrow> lok (l\<lparr>deposit_status := d\<rparr>)"
  by (erule lok_update; simp add: lease_core_def)+

lemma kept_ending:
  "ok_keeps P (settle_deposit env lid a x y z)"
  "ok_keeps P (terminate_lease env lid a)"
  "ok_keeps P (execute_early_termination env lid a)"
  "ok_keeps P (reclaim_asset env lid a r)"
  "ok_keeps P (conclude_lease env lid a n)"
  "ok_keeps P (reclaim env lid a)"
  "ok_keeps P (dispute_deposit env lid a)"
  "ok_keeps P (resolve_dispute env lid a n)"
  "ok_keeps P (mutual_deposit_release env lid a b x y)"
  "ok_keeps P (init_mutual_release_fb env lid a x y)"
  unfolding settle_deposit_def terminate_lease_def execute_early_termination_def reclaim_asset_def
    conclude_lease_def reclaim_def dispute_deposit_def resolve_dispute_def mutual_deposit_release_def
    init_mutual_release_fb_def Let_def
  by ((rule kept_load kept_save kept_archive kept_velocity
        | (rule kept_bind_framed, intro framed_intros; fail)
        | (rule kept_framed, intro framed_intros; fail)
        | rule ok_keeps_bind ok_keeps_prod | simp)+)

lemma lok_amended [simp]:
  "lok l \<Longrightarrow> lok (l\<lparr>buyout_price := x\<rparr>)"
  "lok l \<Longrightarrow> lok (l\<lparr>withdrawal_address := x1\<rparr>)"
  "lok l \<Longrightarrow> lok (l\<lparr>rent_withdrawn := n\<rparr>)"
  "lok l \<Longrightarrow> lok (l\<lparr>inspector := x2\<rparr>)"
  "lok l \<Longrightarrow> lok (l\<lparr>maintenance_status := m\<rparr>)"
  "lok l \<Longrightarrow> lok (l\<lparr>maintenance_status := m, repair_proof_hash := h\<rparr>)"
  "lok l \<Longrightarrow> lok (l\<lparr>cumulative_payments := n2, rent_paid := n1\<rparr>)"
  "lok l \<Longrightarrow> lok (l\<lparr>cumulative_payments := n2, rent_paid := n1, withheld_rent := n3, maintenance_status := m\<rparr>)"
  "lok l \<Longrightarrow> lok (l\<lparr>lessor_reference_id := r\<rparr>)"
  "lok l \<Longrightarrow> lok (l\<lparr>security_deposit := n\<rparr>)"
  by (erule lok_update; simp add: lease_core_def)+

lemma kept_rent:
  "ok_keeps P (create_lease_instance lenv lid a p)"
  "ok_keeps P (create_billed_lease env q)"
  "ok_keeps P (set_lease_instance_buyout_price env lid a n)"
  "ok_keeps P (pay_lease_instance_rent env lid a n)"
  "ok_keeps P (set_withdrawal_address env lid a)"
  "ok_keeps P (withdraw_rent env lid a)"
  "ok_keeps P (add_authorized_payer env lid a b)"
  unfolding create_lease_instance_def create_billed_lease_def save_billed_lease_def announce_billed_lease_def set_lease_instance_buyout_price_def pay_lease_instance_rent_def
    set_withdrawal_address_def withdraw_rent_def add_authorized_payer_def Let_def
  by ((rule kept_load kept_save kept_archive kept_velocity lok_new lok_billed
        | (rule kept_bind_framed, intro framed_intros; fail)
        | (rule kept_framed, intro framed_intros; simp add: critical_def; fail)
        | rule ok_keeps_bind ok_keeps_prod ok_keeps_sum ok_keeps_if ok_keeps_option | simp)+)

lemma kept_maintenance:
  "ok_keeps P (set_inspector env lid a b)"
  "ok_keeps P (report_maintenance_issue env lid a)"
  "ok_keeps P (submit_repair_proof env lid a h)"
  "ok_keeps P (verify_repair env lid a)"
  "ok_keeps P (set_lessor_reference_id env lid a r)"
  unfolding set_inspector_def report_maintenance_issue_def submit_repair_proof_def verify_repair_def
    set_lessor_reference_id_def Let_def
  by ((rule kept_load kept_save
        | (rule kept_bind_framed, intro framed_intros; fail)
        | (rule kept_framed, intro framed_intros; fail)
        | rule ok_keeps_bind | simp)+)

lemma kept_yield:
  "ok_keeps P (deploy_escrow_to_yield env lid p n b)"
  "ok_keeps P (harvest_yield env lid)"
  "ok_keeps P (withdraw_from_yield env lid b)"
  unfolding deploy_escrow_to_yield_def withdraw_from_yield_def Let_def
  by ((rule kept_load kept_save
        | (rule kept_bind_framed, intro framed_intros; simp add: critical_def; fail)
        | (rule kept_framed, intro framed_intros; simp add: critical_def; fail)
        | rule ok_keeps_bind | simp)+)

lemma accrue_late_fees_lok:
  assumes "lok l" "accrue_late_fees t l s = (Ok l', s')"
  shows "lok l'"
proof -
  have "lease_core l' = lease_core l \<and> status l' = status l"
    using assms(2) by (auto simp: accrue_late_fees_def proc_ok lease_core_def split: if_splits)
  then show ?thesis using lok_update [OF assms(1)] by simp
qed

lemma kept_check_tenant_default: "ok_keeps P (check_tenant_default env lid)"
  unfolding check_tenant_default_def Let_def
proof (rule kept_load, rule kept_bind_lease)
  fix l s l' s'
  assume "lok l" and run: "(if grace_period_end l < ledger_timestamp env
         then bind (accrue_late_fees (ledger_timestamp env) l) (\<lambda>l.
              bind (chk_u64 (ledger_timestamp env - grace_period_end l)) (\<lambda>seconds_late.
              bind (publish (PaymentLate lid (seconds_late div 86400) (debt l))) (\<lambda>_. return l)))
         else return l) s = (Ok l', s')"
  show "lok l'"
    using run \<open>lok l\<close> accrue_late_fees_lok [OF \<open>lok l\<close>] by (auto simp: proc_ok split: if_splits)
next
  fix l :: lease_instance and cap unpaid :: int
  assume "lok l"
  then show "ok_keeps P (bind (chk_i128 (unpaid + debt l)) (\<lambda>total_debt.
      bind (if sat_i128 (rent_amount l * 2) \<le> total_debt
            then publish (EvictionEligible lid (tenant l) total_debt) else return ()) (\<lambda>_.
      bind (save_lease_instance lid l) (\<lambda>_. return total_debt))))"
    by (intro kept_bind_framed framed_intros ok_keeps_bind kept_save) (auto intro: ok_intros)
qed (intro kept_framed framed_intros)

text \<open>Every message outside the oracles that returns \<open>Ok\<close> keeps the predicate.\<close>

lemma kept_lease_exec: "ok_keeps P (lease_exec lenv env m)"
  by (cases m) (simp_all add: kept_rent kept_maintenance kept_yield kept_check_tenant_default ok_keeps_void)

lemma kept_ending_exec: "ok_keeps P (ending_exec env m)"
  by (cases m) (simp_all add: kept_ending ok_keeps_void)

lemma kept_legacy_exec: "ok_keeps P (legacy_exec env m)"
  by (cases m) (simp_all add: kept_framed framed_legacy framed_void)

lemma kept_dao_approve_resume: "ok_keeps P (dao_approve_resume env a b r)"
  unfolding dao_approve_resume_def vg_dao_approve_resume_def Let_def
  by ((rule kept_velocity
        | (rule kept_bind_framed, intro framed_intros; simp add: critical_def; fail)
        | (rule kept_framed, intro framed_intros; simp add: critical_def; fail)
        | rule ok_keeps_bind ok_keeps_if | simp)+)

lemma kept_admin_exec: "ok_keeps P (admin_exec env m)"
  by (cases m) (simp_all add: kept_framed framed_admin kept_dao_approve_resume)

lemma kept_exec:
  assumes "\<And>env m. ok_keeps P (oracle_exec env m)"
  shows "ok_keeps P (lc_exec lenv m)"
  using assms by (cases m) (simp_all add: kept_lease_exec kept_ending_exec kept_legacy_exec kept_admin_exec)

end

end
