(* ===== verification/Contract_Reach.thy ===== *)
theory Contract_Reach
  imports Contract_Frame
begin

text \<open>
  The predicates of \<^verbatim>\<open>Contract_Frame\<close> carried through the oracle operations as well, and two of them
  on the model: an invariant of all reachable states, which shows which machinery of the contract never
  runs, and a lower bound on the nonce of an oracle.
\<close>

section \<open>Oracle operations\<close>

definition ok_takes :: "(lc_state \<Rightarrow> bool) \<Rightarrow> (lc_state \<Rightarrow> bool) \<Rightarrow> 'a lc \<Rightarrow> bool" where
  "ok_takes Q P m \<longleftrightarrow> (\<forall>s a s'. Q s \<longrightarrow> m s = (Ok a, s') \<longrightarrow> P s')"

lemma ok_takes_bind: "ok_keeps Q m \<Longrightarrow> (\<And>a. ok_takes Q P (k a)) \<Longrightarrow> ok_takes Q P (bind m k)"
  unfolding ok_keeps_def ok_takes_def bind_Ok_iff by blast

lemma ok_takes_then: "ok_takes Q P m \<Longrightarrow> (\<And>a. ok_keeps P (k a)) \<Longrightarrow> ok_takes Q P (bind m k)"
  unfolding ok_keeps_def ok_takes_def bind_Ok_iff by blast

lemma ok_keeps_throw [simp]: "ok_keeps P (bind m (\<lambda>_. throw e))"
  by (auto simp: ok_keeps_def proc_ok)

definition nonce_below :: "bytes32 \<Rightarrow> int \<Rightarrow> lc_state \<Rightarrow> bool" where
  "nonce_below key n s \<longleftrightarrow> unwrap_or 0 (oracle_nonces s key) < n"

definition quiet_hierarchy :: "fallback_hierarchy \<Rightarrow> bool" where
  "quiet_hierarchy h \<longleftrightarrow> \<not> hierarchy_active h \<and> last_demotion_time h = None"

definition standing :: "oracle_config \<Rightarrow> bool" where
  "standing c \<longleftrightarrow> o_status c = OActive \<and> failure_count c = 0 \<and> demotion_timestamp c = None"

text \<open>Behind the lock, an error of the slash comes back out: it succeeds only when its body does.\<close>

lemma execute_deposit_slash_Ok_iff [proc_ok]:
  "execute_deposit_slash env p s = (Ok u, s') \<longleftrightarrow> \<not> non_reentrant s \<and>
     (\<exists>t. execute_deposit_slash_inner env p (s\<lparr>non_reentrant := True\<rparr>) = (Ok (), t)
        \<and> s' = t\<lparr>non_reentrant := False\<rparr>)"
  by (auto simp: execute_deposit_slash_def proc_ok)

locale oracle_predicate = contract_predicate P lok tok
  for P :: "lc_state \<Rightarrow> bool" and lok :: "lease_instance \<Rightarrow> bool"
    and tok :: "address \<Rightarrow> velocity_tracker \<Rightarrow> bool" +
  fixes cok :: "oracle_config \<Rightarrow> bool"
  assumes config: "P s \<Longrightarrow> oracle_configs s key = Some c \<Longrightarrow> cok c"
    and configure: "P s \<Longrightarrow> cok c \<Longrightarrow> P (s\<lparr>oracle_configs := (oracle_configs s)(key \<mapsto> c)\<rparr>)"
    and cok_refreshed: "cok c \<Longrightarrow> cok (refreshed_config t c)"
    and cok_standing: "standing c \<Longrightarrow> cok c"
    and advance: "P s \<Longrightarrow> nonce_below key n s
      \<Longrightarrow> P (s\<lparr>oracle_nonces := (oracle_nonces s)(key \<mapsto> n)\<rparr>)"
    and hierarchy: "P s \<Longrightarrow> quiet_hierarchy h \<Longrightarrow> P (s\<lparr>fallback := Some h\<rparr>)"
begin

abbreviation pending_nonce :: "bytes32 \<Rightarrow> int \<Rightarrow> lc_state \<Rightarrow> bool" where
  "pending_nonce key n s \<equiv> P s \<and> nonce_below key n s"

lemma kept_set_config: "cok c \<Longrightarrow> ok_keeps P (set_oracle_config key c)"
  unfolding set_oracle_config_def by (intro ok_keeps_modify configure)

lemma takes_refresh:
  assumes "ok_takes (pending_nonce k n) P (m ())"
  shows "ok_takes (pending_nonce k n) P (bind (get_oracle_config key) (\<lambda>c.
    bind (case c of Some c \<Rightarrow> set_oracle_config key (refreshed_config t c) | None \<Rightarrow> return ()) (\<lambda>_. m ())))"
proof -
  have "pending_nonce k n (s\<lparr>oracle_configs := (oracle_configs s)(key \<mapsto> refreshed_config t c)\<rparr>)"
    if "pending_nonce k n s" "oracle_configs s key = Some c" for s c
    using that by (auto simp: nonce_below_def intro!: configure cok_refreshed dest: config)
  then show ?thesis
    using assms unfolding ok_takes_def get_oracle_config_def set_oracle_config_def
    by (fastforce simp: proc_ok split: option.splits)
qed

lemma kept_pending_framed: "framed m \<Longrightarrow> ok_keeps (pending_nonce key n) m"
  using kept_framed [of m] framedD [of m]
  by (fastforce simp: ok_keeps_def nonce_below_def critical_def)

lemma takes_set_nonce: "ok_takes (pending_nonce key n) P (set_oracle_nonce key n)"
  unfolding ok_takes_def set_oracle_nonce_def using advance by auto

text \<open>Reading the nonce and refusing one that is not larger leaves the new one to be stored.\<close>

lemma kept_nonce_check:
  assumes "ok_takes (pending_nonce key n) P (k ())"
  shows "ok_keeps P (bind (get_oracle_nonce key) (\<lambda>stored.
    bind (throw_if (n \<le> stored) e) (\<lambda>_. k ())))"
  using assms by (auto simp: ok_keeps_def ok_takes_def get_oracle_nonce_def nonce_below_def proc_ok)

lemma lok_settled [simp]: "lok l \<Longrightarrow> lok (l\<lparr>deposit_status := d, flags := f\<rparr>)"
  by (erule lok_update; simp add: lease_core_def)

lemma kept_slash_payout: "lok l \<Longrightarrow> ok_keeps P (slash_payout env p l)"
  unfolding slash_payout_def flag_tenant_def Let_def
  apply (rule kept_bind_framed, intro framed_intros)+
  apply (rule ok_keeps_if)
   apply (rule ok_keeps_never, simp add: proc_ok)
  apply ((rule kept_load kept_save kept_velocity
        | (rule kept_bind_framed, intro framed_intros; simp add: critical_def; fail)
        | (rule kept_framed, intro framed_intros; simp add: critical_def; fail)
        | rule ok_keeps_bind | simp)+)
  done

lemma never_unavailable: "ok_keeps P (oracle_unavailable env p h)"
  by (rule ok_keeps_never) (auto simp: oracle_unavailable_def proc_ok split: option.splits if_splits)

lemma framed_oracle_checks [framed_intros]:
  "framed (staleness_check env t)" "framed (is_oracle_whitelisted key)" "framed (get_oracle_config key)"
  "framed (check_oracle_availability env key)" "framed (verify_ed25519_signature env key i h)"
  unfolding staleness_check_def is_oracle_whitelisted_def get_oracle_config_def
    check_oracle_availability_def verify_ed25519_signature_def Let_def
  by (intro framed_intros)+

lemma takes_framed: "framed m \<Longrightarrow> (\<And>a. ok_takes (pending_nonce k n) P (r a))
    \<Longrightarrow> ok_takes (pending_nonce k n) P (bind m r)"
  by (rule ok_takes_bind [OF kept_pending_framed])

lemma takes_set_nonce_then:
  "(\<And>a. ok_keeps P (r a)) \<Longrightarrow> ok_takes (pending_nonce k n) P (bind (set_oracle_nonce k n) r)"
  by (rule ok_takes_then [OF takes_set_nonce])

lemma kept_slash_inner: "ok_keeps P (execute_deposit_slash_inner env p)"
  unfolding execute_deposit_slash_inner_def Let_def
  apply (rule kept_bind_framed, intro framed_intros)+
  apply (rule ok_keeps_if, rule never_unavailable)
  apply (rule kept_bind_framed, intro framed_intros)
  apply (rule kept_nonce_check)
  apply (rule takes_framed, intro framed_intros)
  apply (rule takes_framed, intro framed_intros)
  apply (rule takes_refresh, rule takes_set_nonce_then)
  apply (rule kept_load)
  apply (rule kept_slash_payout kept_velocity ok_keeps_bind ok_keeps_pure | assumption)+
  done

lemma kept_lock: "P s \<Longrightarrow> P (s\<lparr>non_reentrant := b\<rparr>)"
  by (erule frame) (simp add: critical_def)

lemma kept_slash: "ok_keeps P (execute_deposit_slash env p)"
  unfolding ok_keeps_def execute_deposit_slash_Ok_iff
  by (metis kept_lock ok_keepsD [OF kept_slash_inner])

lemma kept_terminate_destroyed: "ok_keeps P (terminate_destroyed env lid a)"
  unfolding terminate_destroyed_def Let_def
  by ((rule kept_load kept_save kept_archive
        | (rule kept_bind_framed, intro framed_intros; fail)
        | (rule kept_framed, intro framed_intros; fail)
        | rule ok_keeps_bind | simp)+)

lemma kept_update_asset_condition: "ok_keeps P (update_asset_condition_metadata env p r)"
  unfolding update_asset_condition_metadata_def Let_def
  apply (rule kept_bind_framed, intro framed_intros)+
  apply (rule kept_nonce_check)
  apply (rule takes_framed, (intro framed_intros; simp add: critical_def))
  apply (rule takes_framed, (intro framed_intros; simp add: critical_def))
  apply (rule takes_framed, (intro framed_intros; simp add: critical_def))
  apply (rule takes_set_nonce_then)
  apply (rule kept_bind_framed, intro framed_intros)+
  apply (rule ok_keeps_if)
   apply (rule kept_load)
   apply (rule ok_keeps_if ok_keeps_bind kept_terminate_destroyed kept_slash ok_keeps_pure)+
  done

lemma kept_set_fallback: "ok_keeps P (set_fallback_hierarchy env a p b d)"
  unfolding set_fallback_hierarchy_def store_fallback_hierarchy_def Let_def
  apply (rule kept_bind_framed, intro framed_intros)+
  apply (intro ok_keeps_bind kept_set_config cok_standing ok_keeps_modify hierarchy)
     apply (simp_all add: standing_def quiet_hierarchy_def)
  done

lemma kept_reset_oracle_status: "ok_keeps P (reset_oracle_status env a key)"
  unfolding reset_oracle_status_def
  apply (rule kept_bind_framed, intro framed_intros)+
  apply (intro kept_set_config cok_standing)
  apply (simp add: standing_def)
  done

lemma kept_oracle_exec: "ok_keeps P (oracle_exec env m)"
  by (cases m) (simp_all add: kept_set_fallback kept_reset_oracle_status kept_slash
      kept_update_asset_condition)

lemma step_kept: "P s \<Longrightarrow> P (lc_step x s)"
  by (rule ok_keeps_step [OF kept_exec [OF kept_oracle_exec]])

lemma run_kept: "P s \<Longrightarrow> P (fold lc_step ms s)"
  by (induction ms arbitrary: s) (auto intro: step_kept)

end

section \<open>The invariant of reachable states\<close>

text \<open>Every lease without continuous billing is pending, disputed or terminated: none is ever activated, and no lease
  waits for arbitration. None holds an NFT, has a termination fee or a registered asset; every
  oracle is standing and the hierarchy quiet; nothing is pending, nobody is paused; the trackers count
  every termination ever made; every archived id of the index has its record.\<close>

definition plain_lease :: "lease_instance \<Rightarrow> bool" where
  "plain_lease l \<longleftrightarrow> (status l = LPending \<or> status l = LDisputed \<or> status l = LTerminated
       \<or> continuous_billing_enabled l \<and> status l = LActive)
     \<and> lease_core l = (None, None, None, None, None, None, continuous_billing_enabled l)"

definition honest_tracker :: "address \<Rightarrow> velocity_tracker \<Rightarrow> bool" where
  "honest_tracker a t \<longleftrightarrow> vt_lessor t = a \<and> \<not> is_paused t \<and> pause_timestamp t = None
     \<and> terminations_24h t = int (length (last_termination_times t))"

definition lc_inv :: "lc_state \<Rightarrow> bool" where
  "lc_inv s \<longleftrightarrow> (\<forall>lid l. lease_instances s lid = Some l \<longrightarrow> plain_lease l)
     \<and> (\<forall>key c. oracle_configs s key = Some c \<longrightarrow> standing c)
     \<and> (\<forall>h. fallback s = Some h \<longrightarrow> quiet_hierarchy h)
     \<and> pending_slashes s = Map.empty \<and> security_council s = None
     \<and> whitelisted_yield_protocols s = {} \<and> paused_lessors s = {}
     \<and> (\<forall>a t. velocity_trackers s a = Some t \<longrightarrow> honest_tracker a t)
     \<and> set (historical_index s) = dom (historical_leases s)"

lemma archive_critical:
  "historical_index (snd (archive_lease env lid l a s)) = historical_index s @ [lid]"
  "dom (historical_leases (snd (archive_lease env lid l a s))) = insert lid (dom (historical_leases s))"
  "lease_instances (snd (archive_lease env lid l a s)) = (lease_instances s)(lid := None)"
  "oracle_configs (snd (archive_lease env lid l a s)) = oracle_configs s"
  "oracle_nonces (snd (archive_lease env lid l a s)) = oracle_nonces s"
  "fallback (snd (archive_lease env lid l a s)) = fallback s"
  "pending_slashes (snd (archive_lease env lid l a s)) = pending_slashes s"
  "security_council (snd (archive_lease env lid l a s)) = security_council s"
  "whitelisted_yield_protocols (snd (archive_lease env lid l a s)) = whitelisted_yield_protocols s"
  "paused_lessors (snd (archive_lease env lid l a s)) = paused_lessors s"
  "velocity_trackers (snd (archive_lease env lid l a s)) = velocity_trackers s"
  by (simp_all add: archive_lease_run)

interpretation plain: oracle_predicate lc_inv plain_lease honest_tracker standing
proof
  fix s s' :: lc_state assume "lc_inv s" "critical s' = critical s"
  then show "lc_inv s'" by (simp add: lc_inv_def critical_def)
next
  fix s lid l assume "lc_inv s" "lease_instances s lid = Some l"
  then show "plain_lease l" by (simp add: lc_inv_def)
next
  fix s lid l assume "lc_inv s" "plain_lease l"
  then show "lc_inv (s\<lparr>lease_instances := (lease_instances s)(lid \<mapsto> l)\<rparr>)" by (simp add: lc_inv_def)
next
  fix s env lid l a assume "lc_inv s"
  then show "lc_inv (snd (archive_lease env lid l a s))"
    by (auto simp: lc_inv_def archive_critical)
next
  fix s a t assume "lc_inv s" "velocity_trackers s a = Some t"
  then show "honest_tracker a t" by (simp add: lc_inv_def)
next
  fix s a t assume "lc_inv s" "honest_tracker a t"
  then show "lc_inv (s\<lparr>velocity_trackers := (velocity_trackers s)(a \<mapsto> t)\<rparr>)" by (simp add: lc_inv_def)
next
  fix s a assume "lc_inv s"
  then show "lc_inv (s\<lparr>paused_lessors := paused_lessors s - {a}\<rparr>)" by (simp add: lc_inv_def)
next
  fix s key c assume "lc_inv s" "oracle_configs s key = Some c"
  then show "standing c" by (simp add: lc_inv_def)
next
  fix s key c assume "lc_inv s" "standing c"
  then show "lc_inv (s\<lparr>oracle_configs := (oracle_configs s)(key \<mapsto> c)\<rparr>)" by (simp add: lc_inv_def)
next
  fix s key n assume "lc_inv s" "nonce_below key n s"
  then show "lc_inv (s\<lparr>oracle_nonces := (oracle_nonces s)(key \<mapsto> n)\<rparr>)" by (simp add: lc_inv_def)
next
  fix s h assume "lc_inv s" "quiet_hierarchy h"
  then show "lc_inv (s\<lparr>fallback := Some h\<rparr>)" by (simp add: lc_inv_def)
qed (auto simp: plain_lease_def lease_core_def new_instance_def billed_instance_def honest_tracker_def fresh_tracker_def
  counted_def standing_def refreshed_config_def Let_def)

interpretation lease_contract: contract_system lc_inv lc_step lc_init
proof
  show "lc_inv s \<Longrightarrow> lc_inv (lc_step x s)" for s x by (rule plain.step_kept)
qed (simp add: lc_inv_def lc_init_def)

section \<open>Nonces\<close>

definition nonce_at_least :: "bytes32 \<Rightarrow> int \<Rightarrow> lc_state \<Rightarrow> bool" where
  "nonce_at_least key n s \<longleftrightarrow> n \<le> unwrap_or 0 (oracle_nonces s key)"

interpretation nonces: oracle_predicate "nonce_at_least key n" "\<lambda>_. True" "\<lambda>_ _. True" "\<lambda>_. True" for key n
  by unfold_locales
    (auto simp: nonce_at_least_def critical_def archive_critical nonce_below_def)

section \<open>Recorded terminations\<close>

text \<open>The guard forgets no time of a termination: the list of the past day that its check makes is not stored.\<close>

definition termination_recorded :: "address \<Rightarrow> int \<Rightarrow> lc_state \<Rightarrow> bool" where
  "termination_recorded b time s \<longleftrightarrow>
     (\<exists>t. velocity_trackers s b = Some t \<and> time \<in> set (last_termination_times t))"

interpretation recorded: oracle_predicate "termination_recorded b time" "\<lambda>_. True"
    "\<lambda>a t. a = b \<longrightarrow> time \<in> set (last_termination_times t)" "\<lambda>_. True" for b time
  by unfold_locales
    (auto simp: termination_recorded_def critical_def archive_critical nonce_below_def counted_def)

definition nonces_le :: "lc_state \<Rightarrow> lc_state \<Rightarrow> bool" where
  "nonces_le s t \<longleftrightarrow> (\<forall>key. unwrap_or 0 (oracle_nonces s key) \<le> unwrap_or 0 (oracle_nonces t key))"

interpretation nonce_order: monotone_system nonces_le lc_step
proof
  show "nonces_le s (lc_step m s)" for s m
    using nonces.step_kept [of _ _ s m] by (auto simp: nonces_le_def nonce_at_least_def)
qed (auto simp: nonces_le_def intro: order_trans)

end
