(* ===== verification/Contract_Effects.thy ===== *)
theory Contract_Effects
  imports Contract_Reach
begin

text \<open>
  What the operations that pay a deposit out have done when they return \<open>Ok\<close>: the guards that held, the
  token transfers made, and the fields changed.
\<close>

section \<open>Transfers\<close>

fun is_transfer :: "ext_call \<Rightarrow> bool" where
  "is_transfer (TokenTransfer tok src dst n) = True"
| "is_transfer _ = False"

text \<open>The transfers a state has made, and the transfers of a list of payments out of the contract, of
  which the code makes only the positive ones.\<close>

definition transfers :: "lc_state \<Rightarrow> ext_call list" where
  "transfers s = filter is_transfer (calls s)"

definition payouts :: "env \<Rightarrow> address \<Rightarrow> (address \<times> int) list \<Rightarrow> ext_call list" where
  "payouts env tok ps =
     map (\<lambda>(a, n). TokenTransfer tok (current_contract env) a n) (filter (\<lambda>(a, n). 0 < n) ps)"

lemma transfers_simps [simp]:
  "transfers (s\<lparr>calls := calls s @ cs\<rparr>) = transfers s @ filter is_transfer cs"
  by (simp add: transfers_def)

lemma payouts_simps [simp]:
  "payouts env tok [] = []"
  "payouts env tok ((a, n) # ps) =
     (if 0 < n then [TokenTransfer tok (current_contract env) a n] else []) @ payouts env tok ps"
  by (simp_all add: payouts_def)

text \<open>A procedure is quiet when it touches no lease, no oracle record and makes no transfer.\<close>

definition same_books :: "lc_state \<Rightarrow> lc_state \<Rightarrow> bool" where
  "same_books s t \<longleftrightarrow> transfers t = transfers s \<and> lease_instances t = lease_instances s
     \<and> historical_leases t = historical_leases s \<and> historical_index t = historical_index s
     \<and> oracle_nonces t = oracle_nonces s \<and> oracle_configs t = oracle_configs s
     \<and> whitelisted_oracles t = whitelisted_oracles s \<and> admin t = admin s"

definition quiet :: "'a lc \<Rightarrow> bool" where
  "quiet m \<longleftrightarrow> (\<forall>s a t. m s = (Ok a, t) \<longrightarrow> same_books s t)"

named_theorems quiet_intros \<open>compositional rules for \<open>quiet\<close>\<close>

lemma quietD: "quiet m \<Longrightarrow> m s = (Ok a, t) \<Longrightarrow> same_books s t"
  by (auto simp: quiet_def)

text \<open>Updates of a state leave the books alone when they touch none of their fields.\<close>

lemma same_booksI:
  "calls t = calls s \<Longrightarrow> lease_instances t = lease_instances s \<Longrightarrow> historical_leases t = historical_leases s
    \<Longrightarrow> historical_index t = historical_index s \<Longrightarrow> oracle_nonces t = oracle_nonces s
    \<Longrightarrow> oracle_configs t = oracle_configs s \<Longrightarrow> whitelisted_oracles t = whitelisted_oracles s
    \<Longrightarrow> admin t = admin s \<Longrightarrow> same_books s t"
  by (simp add: same_books_def transfers_def)

lemma same_books_refl [simp]: "same_books s s"
  by (simp add: same_books_def)

lemma same_books_trans [trans]: "same_books s t \<Longrightarrow> same_books t u \<Longrightarrow> same_books s u"
  by (simp add: same_books_def)

lemma quiet_bind [quiet_intros]: "quiet m \<Longrightarrow> (\<And>a. quiet (k a)) \<Longrightarrow> quiet (bind m k)"
  unfolding quiet_def bind_Ok_iff by (blast intro: same_books_trans)

lemma quiet_pure [quiet_intros]:
  "quiet (return x)" "quiet (throw e)" "quiet (gets f)" "quiet trap" "quiet (from_result r)"
  "quiet (throw_if c e)" "quiet (require c)" "quiet (ok_or y e)" "quiet (chk_u64 n)" "quiet (chk_i64 n)"
  by (auto simp: quiet_def proc_ok)

lemma quiet_branches [quiet_intros]:
  "quiet m \<Longrightarrow> quiet n \<Longrightarrow> quiet (if c then m else n)"
  "quiet m \<Longrightarrow> (\<And>a. quiet (k a)) \<Longrightarrow> quiet (case x of None \<Rightarrow> m | Some a \<Rightarrow> k a)"
  "(\<And>a b. quiet (j a b)) \<Longrightarrow> quiet (case p of (a, b) \<Rightarrow> j a b)"
  by (auto split: option.splits prod.splits)

lemma quiet_modify [quiet_intros]: "(\<And>s. same_books s (f s)) \<Longrightarrow> quiet (modify f)"
  by (simp add: quiet_def)

lemma quiet_publish [quiet_intros]: "quiet (publish ev)"
  unfolding quiet_def publish_Ok_iff by (auto intro: same_booksI)

lemma quiet_call_ext [quiet_intros]: "\<not> is_transfer c \<Longrightarrow> quiet (call_ext env c)"
  unfolding quiet_def call_ext_Ok_iff by (auto simp: same_books_def transfers_def)

lemma quiet_call_unit [quiet_intros]: "\<not> is_transfer c \<Longrightarrow> quiet (call_unit env c)"
  unfolding quiet_def call_unit_Ok_iff by (auto simp: same_books_def transfers_def)

lemma quiet_attempt:
  "quiet m \<Longrightarrow> (\<And>s e t. m s = (Err e, t) \<Longrightarrow> same_books s t) \<Longrightarrow> quiet (attempt m)"
  unfolding quiet_def attempt_Ok_iff by blast

lemma quiet_velocity [quiet_intros]:
  "quiet (get_velocity_tracker a)" "quiet (save_velocity_tracker a t)" "quiet (get_velocity_stats a)"
  "quiet (initialize_lessor a)" "quiet (record_termination env a lid)" "quiet (update_portfolio_size a d)"
  "quiet (check_velocity_limits env a)"
proof -
  show tracker: "quiet (get_velocity_tracker a)" "quiet (save_velocity_tracker a t)" for a t
    unfolding get_velocity_tracker_def save_velocity_tracker_def
    by (intro quiet_intros; simp add: same_booksI)+
  show "quiet (initialize_lessor a)" "quiet (record_termination env a lid)" "quiet (get_velocity_stats a)"
    "quiet (update_portfolio_size a d)"
    unfolding initialize_lessor_def record_termination_def get_velocity_stats_def update_portfolio_size_def
      has_velocity_tracker_def by (intro quiet_intros tracker)+
  show "quiet (check_velocity_limits env a)"
    by (auto simp: quiet_def check_velocity_limits_Ok_iff)
qed

lemma quiet_nft [quiet_intros]:
  "quiet (transfer_nft_to env x y a)" "quiet (return_nft env x y a)"
  unfolding transfer_nft_to_def return_nft_def delete_usage_rights_def
  by (intro quiet_intros; simp add: same_booksI)+

lemma thaw_asset_books: "thaw_asset env lid r x s = (res, t) \<Longrightarrow> same_books s t"
  unfolding thaw_asset_def bind_run
  by (auto simp: proc_run same_books_def transfers_def split: reply.splits option.splits if_splits)

lemma quiet_thaw [quiet_intros]: "quiet (thaw_if_registered env lid l)"
  unfolding thaw_if_registered_def
  by (intro quiet_intros quiet_attempt) (auto simp: quiet_def dest: thaw_asset_books)

text \<open>A payment out of the contract is made exactly when its amount is positive.\<close>

lemma pay_out_books:
  assumes "pay_out env tok a n s = (Ok u, t)"
  shows "transfers t = transfers s @ payouts env tok [(a, n)] \<and> (\<exists>cs. t = s\<lparr>calls := cs\<rparr>)"
  using assms by (auto simp: pay_out_Ok_iff split: if_splits intro: exI [of _ "calls s"])

section \<open>Early termination\<close>

text \<open>The penalty as a plain function of the lease and the remaining time.\<close>

definition percentage_due :: "int \<Rightarrow> int \<Rightarrow> int \<Rightarrow> int" where
  "percentage_due bps r rate = (if 0 < bps \<and> 0 < r then tdiv (r * rate * bps) 10000 else 0)"

definition early_due :: "lease_instance \<Rightarrow> int \<Rightarrow> int" where
  "early_due l r = (case (early_termination_fee_bps l, fixed_penalty l) of
     (Some bps, Some fixed) \<Rightarrow> max (percentage_due bps r (rent_per_sec l)) fixed
   | (Some bps, None) \<Rightarrow> percentage_due bps r (rent_per_sec l)
   | (None, Some fixed) \<Rightarrow> fixed
   | (None, None) \<Rightarrow> 0)"

lemma early_penalty_Ok: "early_penalty l r s = (Ok n, s') \<Longrightarrow> s' = s \<and> n = early_due l r"
  by (auto simp: early_penalty_def percentage_penalty_def early_due_def percentage_due_def proc_ok
      split: option.splits if_splits)

definition ended :: "lease_instance \<Rightarrow> lease_instance" where
  "ended l = l\<lparr>status := LTerminated, deposit_status := Settled, flags := clear_flag (flags l) ACTIVE\<rparr>"

definition total_deposit :: "lease_instance \<Rightarrow> int" where
  "total_deposit l = security_deposit l + deposit_amount l"

lemma ended_sel [simp]:
  "landlord (ended l) = landlord l" "tenant (ended l) = tenant l" "nft_contract (ended l) = nft_contract l"
  "token_id (ended l) = token_id l" "status (ended l) = LTerminated" "deposit_status (ended l) = Settled"
  "payment_token (ended l) = payment_token l" "total_deposit (ended l) = total_deposit l"
  by (simp_all add: ended_def total_deposit_def)

text \<open>Taking a successful call apart into its steps.\<close>

lemma unit_Ex: "(\<exists>u. Q u) = Q ()" for Q :: "unit \<Rightarrow> bool"
  by (metis old.unit.exhaust)

lemmas steps = bind_Ok_iff require_auth_Ok_iff load_lease_Ok_iff throw_if_Ok_iff chk_w_Ok_iff gets_Ok_iff
  modify_Ok_iff unit_Ex split_paired_Ex prod.case ended_sel

lemma check_velocity_same: "check_velocity_limits env a s = (Ok u, s') \<Longrightarrow> s' = s"
  by (simp add: check_velocity_limits_Ok_iff)

lemma get_velocity_stats_same: "get_velocity_stats a s = (Ok r, s') \<Longrightarrow> s' = s"
  by (simp add: get_velocity_stats_Ok)

lemma u64_diff: "is_u64 (x - y) \<Longrightarrow> y \<le> x"
  by (simp add: is_u64_def)

lemma early_termination_steps:
  assumes "execute_early_termination env lid a s = (Ok u, t)"
  obtains l s1 s2 s3 s4 s5 s6 s7 s8 r
  where "lease_instances s lid = Some l" "a \<in> set (auths env)" "a = tenant l \<or> a = landlord l"
    "status l \<noteq> LTerminated" "initialize_lessor (landlord l) s = (Ok (), s1)"
    "check_velocity_limits env (landlord l) s1 = (Ok (), s1)"
    "start_date l \<le> ledger_timestamp env" "ledger_timestamp env \<le> end_date l"
    "pay_out env (payment_token l) (tenant l) (total_deposit l
       - min (early_due l (end_date l - ledger_timestamp env)) (total_deposit l)) s1 = (Ok (), s2)"
    "pay_out env (payment_token l) (landlord l)
       (min (early_due l (end_date l - ledger_timestamp env)) (total_deposit l)) s2 = (Ok (), s3)"
    "transfer_nft_to env (nft_contract l) (token_id l) (landlord l) s3 = (Ok (), s4)"
    "record_termination env (landlord l) lid s4 = (Ok (), s5)"
    "update_portfolio_size (landlord l) (- 1) s5 = (Ok (), s6)"
    "thaw_if_registered env lid (ended l) s6 = (Ok (), s7)"
    "archive_lease env lid (ended l) a s7 = (Ok (), s8)"
    "same_books s8 t" "velocity_trackers t = velocity_trackers s8"
proof -
  have pub: "publish ev s = (Ok u, s') \<Longrightarrow> publish ev' s' = (Ok u', t) \<Longrightarrow> same_books s t"
    "publish ev s = (Ok u, s') \<Longrightarrow> publish ev' s' = (Ok u', t) \<Longrightarrow> velocity_trackers t = velocity_trackers s"
    for ev ev' s s' u u' t
    by (auto simp: publish_Ok_iff intro!: same_booksI)
  show thesis
    using assms unfolding execute_early_termination_def Let_def ended_def [symmetric] total_deposit_def [symmetric]
    apply (simp only: steps)
    apply (elim exE conjE)
    apply (frule early_penalty_Ok, frule check_velocity_same, frule get_velocity_stats_same)
    apply (elim conjE)
    apply hypsubst_thin
    apply (rule that)
                     apply (assumption | blast | erule u64_diff | erule (1) pub)+
    done
qed

text \<open>The tracker of a lessor, a fresh one for a lessor the guard has not seen, and what passing the
  velocity check says of it.\<close>

definition tracker_of :: "lc_state \<Rightarrow> address \<Rightarrow> velocity_tracker" where
  "tracker_of s a = unwrap_or (fresh_tracker a) (velocity_trackers s a)"

definition recent :: "env \<Rightarrow> velocity_tracker \<Rightarrow> int" where
  "recent env t = int (length (filter (\<lambda>x. ledger_timestamp env - 86400 \<le> x) (last_termination_times t)))"

definition within_velocity :: "env \<Rightarrow> velocity_tracker \<Rightarrow> bool" where
  "within_velocity env t \<longleftrightarrow> (0 < total_leases t \<longrightarrow> recent env t * 10000 div total_leases t \<le> 1000)"

lemma initialize_lessor_tracker:
  "initialize_lessor a s = (Ok u, s') \<Longrightarrow> velocity_trackers s' a = Some (tracker_of s a)"
  by (auto simp: initialize_lessor_Ok_iff tracker_of_def fresh_tracker_def unwrap_or_def split: option.splits if_splits)

lemma velocity_passed:
  assumes "initialize_lessor a s = (Ok u, s1)" "check_velocity_limits env a s1 = (Ok u', s1)"
  shows "a \<notin> paused_lessors s \<and> within_velocity env (tracker_of s a)"
  using assms(2) initialize_lessor_tracker [OF assms(1)] assms(1)
  by (auto simp: check_velocity_limits_Ok_iff within_velocity_def recent_def Let_def initialize_lessor_Ok_iff
      split: if_splits)

lemma velocity_recorded:
  assumes "record_termination env a lid s = (Ok u, s1)" "update_portfolio_size a (- 1) s1 = (Ok u', s2)"
    "velocity_trackers s a = Some tr"
  shows "velocity_trackers s2 a = Some ((counted tr (ledger_timestamp env))\<lparr>total_leases :=
    (if 0 < total_leases tr then sat_u64 (total_leases tr - 1) else total_leases tr)\<rparr>)"
  using assms(1,3) update_portfolio_size_Ok [OF assms(2)]
  by (auto simp: record_termination_Ok_iff counted_def)

lemma framed_trackers: "framed m \<Longrightarrow> m s = (r, t) \<Longrightarrow> velocity_trackers t = velocity_trackers s"
  by (drule (1) framedD) (simp add: critical_def)

text \<open>A payment followed by quiet steps, and two payments in a row.\<close>

lemma two_payments:
  assumes "pay_out env tok a m s1 = (Ok u, s2)" "pay_out env tok b n s2 = (Ok u', s3)"
  shows "transfers s3 = transfers s1 @ payouts env tok [(a, m), (b, n)]"
    and "\<exists>cs. s3 = s1\<lparr>calls := cs\<rparr>"
proof -
  note 1 = pay_out_books [OF assms(1)] and 2 = pay_out_books [OF assms(2)]
  show "transfers s3 = transfers s1 @ payouts env tok [(a, m), (b, n)]"
    using 1 2 by (simp add: payouts_def)
  show "\<exists>cs. s3 = s1\<lparr>calls := cs\<rparr>"
    using 1 2 by auto
qed

lemma early_termination_Ok:
  assumes run: "execute_early_termination env lid a s = (Ok u, t)"
  obtains l where "lease_instances s lid = Some l" "a \<in> set (auths env)" "a = tenant l \<or> a = landlord l"
    "status l \<noteq> LTerminated" "start_date l \<le> ledger_timestamp env" "ledger_timestamp env \<le> end_date l"
    "landlord l \<notin> paused_lessors s" "within_velocity env (tracker_of s (landlord l))"
    "transfers t = transfers s @ payouts env (payment_token l)
       [(tenant l, total_deposit l - min (early_due l (end_date l - ledger_timestamp env)) (total_deposit l)),
        (landlord l, min (early_due l (end_date l - ledger_timestamp env)) (total_deposit l))]"
    "lease_instances t = (lease_instances s)(lid := None)"
    "historical_leases t = (historical_leases s)(lid \<mapsto>
       \<lparr>h_lease = ended l, terminated_by = a, terminated_at = ledger_timestamp env\<rparr>)"
    "historical_index t = historical_index s @ [lid]"
    "tracker_of t (landlord l) = (let tr = tracker_of s (landlord l) in
       (counted tr (ledger_timestamp env))\<lparr>total_leases :=
         (if 0 < total_leases tr then sat_u64 (total_leases tr - 1) else total_leases tr)\<rparr>)"
proof -
  obtain l s1 s2 s3 s4 s5 s6 s7 s8 r
    where *: "lease_instances s lid = Some l" "a \<in> set (auths env)" "a = tenant l \<or> a = landlord l"
    "status l \<noteq> LTerminated" "start_date l \<le> ledger_timestamp env" "ledger_timestamp env \<le> end_date l"
    and init: "initialize_lessor (landlord l) s = (Ok (), s1)"
    and check: "check_velocity_limits env (landlord l) s1 = (Ok (), s1)"
    and pay1: "pay_out env (payment_token l) (tenant l) (total_deposit l
       - min (early_due l (end_date l - ledger_timestamp env)) (total_deposit l)) s1 = (Ok (), s2)"
    and pay2: "pay_out env (payment_token l) (landlord l)
       (min (early_due l (end_date l - ledger_timestamp env)) (total_deposit l)) s2 = (Ok (), s3)"
    and nft: "transfer_nft_to env (nft_contract l) (token_id l) (landlord l) s3 = (Ok (), s4)"
    and rec: "record_termination env (landlord l) lid s4 = (Ok (), s5)"
    and size: "update_portfolio_size (landlord l) (- 1) s5 = (Ok (), s6)"
    and thaw: "thaw_if_registered env lid (ended l) s6 = (Ok (), s7)"
    and arch: "archive_lease env lid (ended l) a s7 = (Ok (), s8)"
    and last: "same_books s8 t" "velocity_trackers t = velocity_trackers s8"
    by (rule early_termination_steps [OF run]) blast
  note pay = two_payments [OF pay1 pay2]
  have books: "same_books s s1" "same_books s3 s7"
    using quietD [OF quiet_velocity(4) init] quietD [OF quiet_nft(1) nft] quietD [OF quiet_velocity(5) rec]
      quietD [OF quiet_velocity(6) size] quietD [OF quiet_thaw thaw] same_books_trans by blast+
  have s3: "lease_instances s3 = lease_instances s1" "historical_leases s3 = historical_leases s1"
    "historical_index s3 = historical_index s1" "velocity_trackers s3 = velocity_trackers s1"
    using pay(2) by auto
  have s8: "transfers s8 = transfers s7" "lease_instances s8 = (lease_instances s7)(lid := None)"
    "historical_index s8 = historical_index s7 @ [lid]" "historical_leases s8 = (historical_leases s7)(lid \<mapsto>
       \<lparr>h_lease = ended l, terminated_by = a, terminated_at = ledger_timestamp env\<rparr>)"
    "velocity_trackers s8 = velocity_trackers s7"
    using arch by (simp_all add: archive_lease_Ok_iff transfers_def)
  have "velocity_trackers s4 = velocity_trackers s3" "velocity_trackers s7 = velocity_trackers s6"
    using nft thaw by (auto intro: framed_trackers framed_helpers framed_assets)
  then have "velocity_trackers s4 (landlord l) = Some (tracker_of s (landlord l))"
    using s3 initialize_lessor_tracker [OF init] by simp
  from velocity_recorded [OF rec size this] have tracker: "tracker_of t (landlord l) =
      (let tr = tracker_of s (landlord l) in (counted tr (ledger_timestamp env))\<lparr>total_leases :=
         (if 0 < total_leases tr then sat_u64 (total_leases tr - 1) else total_leases tr)\<rparr>)"
    using last(2) s8 \<open>velocity_trackers s7 = velocity_trackers s6\<close>
    by (simp add: tracker_of_def [of t] Let_def)
  have "transfers t = transfers s3" "transfers s1 = transfers s"
    "lease_instances t = (lease_instances s)(lid := None)"
    "historical_leases t = (historical_leases s)(lid \<mapsto>
       \<lparr>h_lease = ended l, terminated_by = a, terminated_at = ledger_timestamp env\<rparr>)"
    "historical_index t = historical_index s @ [lid]"
    using books s3 s8 last(1) by (simp_all add: same_books_def)
  with pay(1) velocity_passed [OF init check] tracker show thesis
    by (intro that [OF *]) simp_all
qed

lemma check_velocity_run:
  "velocity_trackers s a = Some tr \<Longrightarrow> a \<notin> paused_lessors s \<Longrightarrow> is_u64 (ledger_timestamp env - 86400)
    \<Longrightarrow> is_u64 (recent env tr * 10000) \<Longrightarrow> within_velocity env tr
    \<Longrightarrow> check_velocity_limits env a s = (Ok (), s)"
  by (auto simp: check_velocity_limits_Ok_iff recent_def within_velocity_def Let_def)

text \<open>When an early termination succeeds: the counterpart of its guards.\<close>

lemma early_termination_runs:
  assumes l: "lease_instances s lid = Some l" "plain_lease l" "status l \<noteq> LTerminated"
    and caller: "a \<in> set (auths env)" "a = tenant l \<or> a = landlord l"
    and span: "is_u64 (end_date l - start_date l)" "is_u64 (ledger_timestamp env - start_date l)"
      "is_u64 (end_date l - ledger_timestamp env)"
    and dep: "0 \<le> total_deposit l" "is_i128 (total_deposit l)"
    and guard: "velocity_trackers s (landlord l) = Some tr" "landlord l \<notin> paused_lessors s"
      "is_u64 (ledger_timestamp env - 86400)" "is_u64 (recent env tr * 10000)" "within_velocity env tr"
      "is_u64 (total_leases tr)" "0 \<le> terminations_24h tr" "terminations_24h tr < 10 ^ 15"
    and paid: "\<And>cs tok n. ext env cs (TokenTransfer tok (current_contract env) (tenant l) n) = Reply_unit"
  shows "\<exists>t. execute_early_termination env lid a s = (Ok (), t)"
proof -
  have plain: "early_termination_fee_bps l = None" "fixed_penalty l = None" "nft_contract l = None"
    "token_id l = None" "asset_registry_address l = None" "asset_id l = None"
    using l(2) by (simp_all add: plain_lease_def lease_core_def)
  have init: "initialize_lessor (landlord l) s = (Ok (), s)"
    using guard(1) by (simp add: initialize_lessor_def has_velocity_tracker_def bind_run)
  have pen: "early_penalty l r s = (Ok 0, s)" for r s
    by (simp add: early_penalty_def plain)
  have pay0: "pay_out env tok b 0 s = (Ok (), s)" for tok b s by (simp add: pay_out_def)
  have pay: "\<exists>cs. pay_out env (payment_token l) (tenant l) (total_deposit l) s = (Ok (), s\<lparr>calls := cs\<rparr>)" for s
    using paid by (cases "0 < total_deposit l") (auto simp: pay_out_def transfer_token_def call_unit_run
        intro: exI [of _ "calls s"])
  have nft: "transfer_nft_to env None None b s = (Ok (), s)" for b s
    by (simp add: transfer_nft_to_def)
  have thaw: "thaw_if_registered env lid (ended l) s = (Ok (), s)" for s
    by (simp add: thaw_if_registered_def ended_def plain)
  have rec: "record_termination env (landlord l) lid s' = (Ok (), s'\<lparr>velocity_trackers :=
      (velocity_trackers s')(landlord l \<mapsto> counted tr (ledger_timestamp env))\<rparr>)"
    if "velocity_trackers s' (landlord l) = Some tr" for s'
    using that guard by (auto simp: record_termination_Ok_iff counted_def is_u64_def u64_max_def)
  have size: "update_portfolio_size b (- 1) s' = (Ok (), s'\<lparr>velocity_trackers := (velocity_trackers s')(b \<mapsto>
      v\<lparr>total_leases := if 0 < total_leases v then sat_u64 (total_leases v - 1) else total_leases v\<rparr>)\<rparr>)"
    if "velocity_trackers s' b = Some v" for s' b v
    using that by (simp add: update_portfolio_size_def get_velocity_tracker_def save_velocity_tracker_def bind_run
        ok_or_run chk_w_run range_defs int_bounds as_u64_def)
  have stats: "\<exists>x y z. get_velocity_stats b s' = (Ok (x, y, z), s')"
    if "velocity_trackers s' b = Some v" "0 \<le> terminations_24h v" "terminations_24h v \<le> 10 ^ 15" for s' b v
    using that by (simp add: get_velocity_stats_def get_velocity_tracker_def bind_run ok_or_run chk_w_run is_u64_def
        u64_max_def)
  obtain cs where cs: "pay_out env (payment_token l) (tenant l) (total_deposit l) s = (Ok (), s\<lparr>calls := cs\<rparr>)"
    using pay by blast
  note check = check_velocity_run [OF guard(1-5)]
  have m: "min 0 (total_deposit l) = 0" using dep by simp
  define s1 where "s1 = s\<lparr>calls := cs\<rparr>"
  have s1: "velocity_trackers s1 (landlord l) = Some tr" using guard(1) by (simp add: s1_def)
  define s2 where "s2 = s1\<lparr>velocity_trackers := (velocity_trackers s1)(landlord l \<mapsto> counted tr (ledger_timestamp env))\<rparr>"
  define v where "v = (counted tr (ledger_timestamp env))\<lparr>total_leases := if 0 < total_leases tr then
      sat_u64 (total_leases tr - 1) else total_leases tr\<rparr>"
  define s3 where "s3 = s2\<lparr>velocity_trackers := (velocity_trackers s2)(landlord l \<mapsto> v)\<rparr>"
  have size2: "update_portfolio_size (landlord l) (- 1) s2 = (Ok (), s3)"
    by (subst size [of s2 _ "counted tr (ledger_timestamp env)"])
      (simp_all add: s2_def s3_def v_def counted_def)
  define s4 where "s4 = snd (archive_lease env lid (ended l) a s3)"
  have arch: "archive_lease env lid (ended l) a s3 = (Ok (), s4)"
    by (simp add: s4_def archive_lease_run)
  have "velocity_trackers s4 (landlord l) = Some v"
    by (simp add: s4_def archive_critical s3_def)
  then obtain x y z where stat: "get_velocity_stats (landlord l) s4 = (Ok (x, y, z), s4)"
    using stats [of s4 "landlord l" v] guard by (auto simp: v_def counted_def)
  show ?thesis
    unfolding execute_early_termination_def Let_def ended_def [symmetric] total_deposit_def [symmetric]
    using caller by (simp add: bind_run require_auth_run load_lease_run throw_if_run chk_w_run l init check span pen
        dep m cs s1_def [symmetric] nft plain rec [OF s1] s2_def [symmetric] size2 thaw arch stat publish_run pay0
        split: prod.splits)
qed

section \<open>Deposit slash\<close>

definition settled :: "lease_instance \<Rightarrow> lease_instance" where
  "settled l = l\<lparr>deposit_status := Settled, flags := clear_flag (flags l) ACTIVE\<rparr>"

lemma settled_sel [simp]:
  "landlord (settled l) = landlord l" "tenant (settled l) = tenant l" "nft_contract (settled l) = nft_contract l"
  "token_id (settled l) = token_id l" "status (settled l) = status l" "deposit_status (settled l) = Settled"
  "lessor_reference_id (settled l) = lessor_reference_id l" "total_deposit (settled l) = total_deposit l"
  by (simp_all add: settled_def total_deposit_def)

text \<open>The penalty never exceeds the deposit, whatever saturates on the way.\<close>

lemma penalty_of_bounds: "0 \<le> dep \<Longrightarrow> 0 \<le> penalty_of sev dep \<and> penalty_of sev dep \<le> dep"
proof -
  assume dep: "0 \<le> dep"
  have *: "0 \<le> tdiv (sat_i128 (dep * k)) 100 \<and> tdiv (sat_i128 (dep * k)) 100 \<le> dep"
    if "0 \<le> k" "k \<le> 100" for k :: int
  proof -
    have "0 \<le> sat_i128 (dep * k)" "sat_i128 (dep * k) \<le> dep * k"
      using mult_nonneg_nonneg [OF dep that(1)] by (auto simp: sat_defs i128_min_def i128_max_def)
    moreover have "dep * k \<le> dep * 100" using dep that by (intro mult_left_mono) auto
    ultimately have "0 \<le> sat_i128 (dep * k)" "sat_i128 (dep * k) div 100 \<le> dep * 100 div 100"
      by (auto intro: zdiv_mono1)
    then show ?thesis by (simp add: tdiv_def pos_imp_zdiv_nonneg_iff)
  qed
  have "penalty_of sev dep = (if calculate_penalty_percentage sev = 0 then 0
      else tdiv (sat_i128 (dep * calculate_penalty_percentage sev)) 100)"
    by (simp add: penalty_of_def Let_def)
  moreover have "0 \<le> calculate_penalty_percentage sev" "calculate_penalty_percentage sev \<le> 100"
    by (cases sev; simp)+
  ultimately show ?thesis using * dep by simp
qed

definition slash_shares :: "damage_severity \<Rightarrow> int \<Rightarrow> int \<times> int" where
  "slash_shares sev dep = (sat_i128 (dep - penalty_of sev dep), penalty_of sev dep)"

definition slashable :: "damage_severity \<Rightarrow> int \<Rightarrow> bool" where
  "slashable sev dep \<longleftrightarrow> 0 \<le> dep \<and> is_i128 dep"

interpretation slash: payout_split slash_shares slashable
proof
  fix sev dep assume "slashable sev dep"
  then have "0 \<le> penalty_of sev dep" "penalty_of sev dep \<le> dep" "is_i128 (dep - penalty_of sev dep)"
    using penalty_of_bounds [of dep sev] by (auto simp: slashable_def is_i128_def i128_min_def)
  then show "fst (slash_shares sev dep) + snd (slash_shares sev dep) = dep"
    "0 \<le> fst (slash_shares sev dep)" "0 \<le> snd (slash_shares sev dep)"
    by (simp_all add: slash_shares_def sat_id)
qed

lemma slash_payout_steps:
  assumes "slash_payout env p l s = (Ok u, t)"
  obtains s1 s2 s3 s4 s5 s6 s7
  where "is_i128 (total_deposit l)"
    "\<not> (MASSIVE_SLASH_THRESHOLD \<le> penalty_of (damage_severity p) (total_deposit l) \<and> security_council s \<noteq> None)"
    "same_books s s1"
    "pay_out env (payment_token l) (tenant l)
       (sat_i128 (total_deposit l - penalty_of (damage_severity p) (total_deposit l))) s1 = (Ok (), s2)"
    "pay_out env (payment_token l) (landlord l) (penalty_of (damage_severity p) (total_deposit l)) s2 = (Ok (), s3)"
    "save_lease_instance (op_lease_id p) (settled l) s3 = (Ok (), s4)"
    "record_termination env (landlord l) (op_lease_id p) s4 = (Ok (), s5)"
    "update_portfolio_size (landlord l) (- 1) s5 = (Ok (), s6)"
    "return_nft env (nft_contract l) (token_id l) (landlord l) s6 = (Ok (), s7)"
    "same_books s7 t"
proof -
  have flag: "(if c then flag_tenant i a r else return ()) s = (Ok (), t) \<Longrightarrow> same_books s t" for c i a r s t
    by (auto simp: flag_tenant_def proc_ok split: if_splits intro!: same_booksI)
  have pub: "publish ev s = (Ok u, t) \<Longrightarrow> same_books s t" for ev s u t
    by (auto simp: publish_Ok_iff intro!: same_booksI)
  show thesis
    using assms unfolding slash_payout_def Let_def settled_def [symmetric] total_deposit_def [symmetric]
    apply (simp only: steps settled_sel)
    apply (elim exE conjE)
    apply (split if_split_asm)
     apply (simp only: steps throw_Ok_iff, blast)
    apply (simp only: steps settled_sel)
    apply (elim exE conjE)
    apply hypsubst_thin
    apply (frule get_velocity_stats_same)
    apply hypsubst_thin
    apply (rule that)
             apply (assumption | erule flag | erule pub)+
    done
qed

text \<open>An oracle is available when it is active, or demoted for more than a day with few failures.\<close>

definition oracle_available :: "env \<Rightarrow> oracle_config \<Rightarrow> bool" where
  "oracle_available env c \<longleftrightarrow> o_status c = OActive \<or>
     o_status c = ODemoted \<and> (\<exists>d. demotion_timestamp c = Some d
       \<and> 86400 < ledger_timestamp env - d \<and> failure_count c < MAX_ORACLE_FAILURES)"

lemma check_oracle_availability_Ok:
  assumes "check_oracle_availability env key s = (Ok b, s')"
  shows "s' = s \<and> (b \<longrightarrow> (\<exists>c. oracle_configs s key = Some c \<and> oracle_available env c))"
proof -
  obtain c where c: "oracle_configs s key = Some c" "s' = s"
    and b: "b = (case o_status c of OActive \<Rightarrow> True
       | ODemoted \<Rightarrow> (case demotion_timestamp c of
             Some d \<Rightarrow> sat_u64 (ledger_timestamp env - d) > 24 * 60 * 60 \<and> failure_count c < MAX_ORACLE_FAILURES
           | None \<Rightarrow> False)
       | OFailed \<Rightarrow> False)"
    using assms unfolding check_oracle_availability_def get_oracle_config_def
    by (simp only: steps ok_or_Ok_iff return_Ok_iff) blast
  have "sat_u64 x > 24 * 60 * 60 \<Longrightarrow> 86400 < x" for x
    by (auto simp: sat_defs u64_max_def split: if_splits)
  then show ?thesis
    using b c by (cases "o_status c") (auto simp: oracle_available_def split: option.splits)
qed

lemma oracle_unavailable_not_Ok: "oracle_unavailable env p h s = (Ok u, t) \<Longrightarrow> thesis"
  by (auto simp: oracle_unavailable_def proc_ok split: option.splits if_splits)

lemma staleness_check_Ok: "staleness_check env x s = (Ok b, s') \<Longrightarrow> s' = s"
  by (auto simp: staleness_check_def proc_ok Let_def)

lemma slash_inner_steps:
  assumes "execute_deposit_slash_inner env p s = (Ok u, t)"
  obtains l s1 s2 s3
  where "op_oracle_pubkey p \<in> whitelisted_oracles s"
    "check_oracle_availability env (op_oracle_pubkey p) s = (Ok True, s)"
    "case fallback s of Some h \<Rightarrow> hierarchy_active h \<longrightarrow> op_oracle_pubkey p = backup_oracle h | None \<Rightarrow> True"
    "unwrap_or 0 (oracle_nonces s (op_oracle_pubkey p)) < op_nonce p"
    "op_timestamp p \<le> ledger_timestamp env" "ledger_timestamp env - op_timestamp p \<le> 86400"
    "verify_ed25519_signature env (op_oracle_pubkey p) (op_lease_id p) (op_signature p) s = (Ok (), s1)"
    "(case oracle_configs s1 (op_oracle_pubkey p) of
        Some c \<Rightarrow> set_oracle_config (op_oracle_pubkey p) (refreshed_config (ledger_timestamp env) c)
      | None \<Rightarrow> return ()) s1 = (Ok (), s2)"
    "lease_instances (s2\<lparr>oracle_nonces := (oracle_nonces s2)(op_oracle_pubkey p \<mapsto> op_nonce p)\<rparr>)
       (op_lease_id p) = Some l"
    "status l = LTerminated \<or> status l = LExpired" "deposit_status l \<noteq> Settled"
    "initialize_lessor (landlord l) (s2\<lparr>oracle_nonces := (oracle_nonces s2)(op_oracle_pubkey p \<mapsto> op_nonce p)\<rparr>)
       = (Ok (), s3)"
    "check_velocity_limits env (landlord l) s3 = (Ok (), s3)"
    "slash_payout env p l s3 = (Ok u, t)"
proof -
  have fb: "(case h of Some h \<Rightarrow> throw_if (hierarchy_active h \<and> k \<noteq> backup_oracle h) e | None \<Rightarrow> return ()) s
      = (Ok u, s') \<Longrightarrow> s' = s \<and> (case h of Some h \<Rightarrow> hierarchy_active h \<longrightarrow> k = backup_oracle h | None \<Rightarrow> True)"
    for h k e s u s' by (auto simp: proc_ok split: option.splits)
  have not_false: "return False s = (Ok b, s') \<Longrightarrow> \<not> b" for b and s s' :: lc_state
    by simp
  show thesis
    using assms unfolding execute_deposit_slash_inner_def Let_def
    apply (simp only: steps is_oracle_whitelisted_def get_oracle_nonce_def get_oracle_config_def set_oracle_nonce_def)
    apply (elim exE conjE)
    apply (split if_split_asm)
    prefer 2
    apply (drule not_false)
     apply (simp only: if_True not_False_eq_True)
     apply (erule oracle_unavailable_not_Ok)
    apply (split if_split_asm)
     apply (erule oracle_unavailable_not_Ok)
    apply (simp only: steps not_not not_less not_le de_Morgan_conj de_Morgan_disj)
    apply (elim exE conjE)
    apply (frule staleness_check_Ok, frule check_velocity_same, drule fb)
    apply (frule check_oracle_availability_Ok)
    apply (elim conjE)
    apply hypsubst_thin
    apply (rule that)
                 apply (assumption | blast)+
    done
qed

text \<open>What a successful slash has checked and done.\<close>

lemma deposit_slash_Ok:
  assumes run: "execute_deposit_slash env p s = (Ok u, t)"
  obtains l c where "\<not> non_reentrant s" "op_oracle_pubkey p \<in> whitelisted_oracles s"
    "oracle_configs s (op_oracle_pubkey p) = Some c" "oracle_available env c"
    "case fallback s of Some h \<Rightarrow> hierarchy_active h \<longrightarrow> op_oracle_pubkey p = backup_oracle h | None \<Rightarrow> True"
    "unwrap_or 0 (oracle_nonces s (op_oracle_pubkey p)) < op_nonce p"
    "op_timestamp p \<le> ledger_timestamp env" "ledger_timestamp env - op_timestamp p \<le> 86400"
    "ext env (calls s) (Ed25519Verify (op_oracle_pubkey p) (op_lease_id p) (op_signature p)) = Reply_unit"
    "lease_instances s (op_lease_id p) = Some l"
    "status l = LTerminated \<or> status l = LExpired" "deposit_status l \<noteq> Settled"
    "landlord l \<notin> paused_lessors s" "within_velocity env (tracker_of s (landlord l))"
    "is_i128 (total_deposit l)"
    "transfers t = transfers s @ payouts env (payment_token l)
       [(tenant l, sat_i128 (total_deposit l - penalty_of (damage_severity p) (total_deposit l))),
        (landlord l, penalty_of (damage_severity p) (total_deposit l))]"
    "lease_instances t = (lease_instances s)(op_lease_id p \<mapsto> settled l)"
    "oracle_nonces t = (oracle_nonces s)(op_oracle_pubkey p \<mapsto> op_nonce p)"
proof -
  obtain t' where free: "\<not> non_reentrant s"
    and inner: "execute_deposit_slash_inner env p (s\<lparr>non_reentrant := True\<rparr>) = (Ok (), t')"
    and t: "t = t'\<lparr>non_reentrant := False\<rparr>"
    using run by (auto simp: execute_deposit_slash_Ok_iff)
  obtain l s1 s2 s3
    where g: "op_oracle_pubkey p \<in> whitelisted_oracles (s\<lparr>non_reentrant := True\<rparr>)"
    "case fallback (s\<lparr>non_reentrant := True\<rparr>) of
       Some h \<Rightarrow> hierarchy_active h \<longrightarrow> op_oracle_pubkey p = backup_oracle h | None \<Rightarrow> True"
    "unwrap_or 0 (oracle_nonces (s\<lparr>non_reentrant := True\<rparr>) (op_oracle_pubkey p)) < op_nonce p"
    and fresh: "op_timestamp p \<le> ledger_timestamp env" "ledger_timestamp env - op_timestamp p \<le> 86400"
    and avail: "check_oracle_availability env (op_oracle_pubkey p) (s\<lparr>non_reentrant := True\<rparr>)
      = (Ok True, s\<lparr>non_reentrant := True\<rparr>)"
    and verify: "verify_ed25519_signature env (op_oracle_pubkey p) (op_lease_id p) (op_signature p)
      (s\<lparr>non_reentrant := True\<rparr>) = (Ok (), s1)"
    and refresh: "(case oracle_configs s1 (op_oracle_pubkey p) of
        Some c \<Rightarrow> set_oracle_config (op_oracle_pubkey p) (refreshed_config (ledger_timestamp env) c)
      | None \<Rightarrow> return ()) s1 = (Ok (), s2)"
    and lease: "lease_instances (s2\<lparr>oracle_nonces := (oracle_nonces s2)(op_oracle_pubkey p \<mapsto> op_nonce p)\<rparr>)
       (op_lease_id p) = Some l"
    and st: "status l = LTerminated \<or> status l = LExpired" "deposit_status l \<noteq> Settled"
    and init: "initialize_lessor (landlord l)
       (s2\<lparr>oracle_nonces := (oracle_nonces s2)(op_oracle_pubkey p \<mapsto> op_nonce p)\<rparr>) = (Ok (), s3)"
    and check: "check_velocity_limits env (landlord l) s3 = (Ok (), s3)"
    and payout: "slash_payout env p l s3 = (Ok (), t')"
    by (rule slash_inner_steps [OF inner]) blast
  obtain s1' s2' s3' s4' s5' s6' s7'
    where dep: "is_i128 (total_deposit l)" and b1: "same_books s3 s1'"
    and pay: "pay_out env (payment_token l) (tenant l)
       (sat_i128 (total_deposit l - penalty_of (damage_severity p) (total_deposit l))) s1' = (Ok (), s2')"
      "pay_out env (payment_token l) (landlord l) (penalty_of (damage_severity p) (total_deposit l)) s2'
       = (Ok (), s3')"
    and save: "save_lease_instance (op_lease_id p) (settled l) s3' = (Ok (), s4')"
    and rec: "record_termination env (landlord l) (op_lease_id p) s4' = (Ok (), s5')"
    and size: "update_portfolio_size (landlord l) (- 1) s5' = (Ok (), s6')"
    and nft: "return_nft env (nft_contract l) (token_id l) (landlord l) s6' = (Ok (), s7')"
    and b2: "same_books s7' t'"
    by (rule slash_payout_steps [OF payout]) blast
  obtain c where c: "oracle_configs s (op_oracle_pubkey p) = Some c" "oracle_available env c"
    using check_oracle_availability_Ok [OF avail] by auto
  have s1: "s1 = s\<lparr>non_reentrant := True, calls := calls s @ [Ed25519Verify (op_oracle_pubkey p) (op_lease_id p) (op_signature p)]\<rparr>"
    and reply: "ext env (calls s) (Ed25519Verify (op_oracle_pubkey p) (op_lease_id p) (op_signature p)) = Reply_unit"
    using verify by (simp_all add: verify_ed25519_signature_def call_unit_Ok_iff)
  obtain cs where s2: "s2 = s1\<lparr>oracle_configs := cs\<rparr>"
    using refresh by (cases "oracle_configs s1 (op_oracle_pubkey p)")
      (auto simp: set_oracle_config_def intro: that [of "oracle_configs s1"])
  define s2n where "s2n = s2\<lparr>oracle_nonces := (oracle_nonces s2)(op_oracle_pubkey p \<mapsto> op_nonce p)\<rparr>"
  have s2n: "transfers s2n = transfers s" "lease_instances s2n = lease_instances s"
    "oracle_nonces s2n = (oracle_nonces s)(op_oracle_pubkey p \<mapsto> op_nonce p)"
    "paused_lessors s2n = paused_lessors s" "tracker_of s2n = tracker_of s"
    unfolding s2n_def s2 s1 by (simp_all add: transfers_def tracker_of_def fun_eq_iff)
  have books: "same_books s2n s1'" "same_books s4' t'"
    using quietD [OF quiet_velocity(4) init] b1 quietD [OF quiet_velocity(5) rec] quietD [OF quiet_velocity(6) size]
      quietD [OF quiet_nft(2) nft] b2 same_books_trans unfolding s2n_def by blast+
  note pays = two_payments [OF pay]
  obtain calls' where s3': "s3' = s1'\<lparr>calls := calls'\<rparr>" using pays(2) by blast
  have s4': "transfers s4' = transfers s3'" "lease_instances s4' = (lease_instances s1')(op_lease_id p \<mapsto> settled l)"
    "oracle_nonces s4' = oracle_nonces s1'"
    using save by (simp_all add: save_lease_instance_Ok_iff transfers_def s3')
  have effect: "transfers t = transfers s @ payouts env (payment_token l)
       [(tenant l, sat_i128 (total_deposit l - penalty_of (damage_severity p) (total_deposit l))),
        (landlord l, penalty_of (damage_severity p) (total_deposit l))]"
    "lease_instances t = (lease_instances s)(op_lease_id p \<mapsto> settled l)"
    "oracle_nonces t = (oracle_nonces s)(op_oracle_pubkey p \<mapsto> op_nonce p)"
    using books s4' s2n pays(1) by (simp_all add: same_books_def t transfers_def [of "t'\<lparr>non_reentrant := False\<rparr>"])
      (simp_all add: transfers_def)
  have "landlord l \<notin> paused_lessors s \<and> within_velocity env (tracker_of s (landlord l))"
    using velocity_passed [OF init check] s2n unfolding s2n_def by simp
  then show thesis
    using that [OF free _ c _ _ fresh reply _ st _ _ dep effect] g lease s2n(2) unfolding s2n_def by simp
qed

section \<open>The effects at a known lease\<close>

lemma early_termination_at:
  assumes run: "execute_early_termination env lid a s = (Ok u, t)"
    and l: "lease_instances s lid = Some l"
  shows "a \<in> set (auths env) \<and> (a = tenant l \<or> a = landlord l) \<and> status l \<noteq> LTerminated
    \<and> start_date l \<le> ledger_timestamp env \<and> ledger_timestamp env \<le> end_date l
    \<and> within_velocity env (tracker_of s (landlord l))
    \<and> (let penalty = min (early_due l (end_date l - ledger_timestamp env)) (total_deposit l);
           refund = total_deposit l - penalty
       in transfers t = transfers s @ payouts env (payment_token l) [(tenant l, refund), (landlord l, penalty)])
    \<and> lease_instances t = (lease_instances s)(lid := None)
    \<and> historical_leases t lid = Some \<lparr>h_lease = ended l, terminated_by = a, terminated_at = ledger_timestamp env\<rparr>
    \<and> historical_index t = historical_index s @ [lid]
    \<and> recent env (tracker_of t (landlord l)) = recent env (tracker_of s (landlord l)) + 1"
proof (rule early_termination_Ok [OF run])
  fix l' assume l': "lease_instances s lid = Some l'" and *: "a \<in> set (auths env)" "a = tenant l' \<or> a = landlord l'"
    "status l' \<noteq> LTerminated" "start_date l' \<le> ledger_timestamp env" "ledger_timestamp env \<le> end_date l'"
    "within_velocity env (tracker_of s (landlord l'))"
    "transfers t = transfers s @ payouts env (payment_token l')
       [(tenant l', total_deposit l' - min (early_due l' (end_date l' - ledger_timestamp env)) (total_deposit l')),
        (landlord l', min (early_due l' (end_date l' - ledger_timestamp env)) (total_deposit l'))]"
    "lease_instances t = (lease_instances s)(lid := None)"
    "historical_index t = historical_index s @ [lid]"
    and hist: "historical_leases t = (historical_leases s)(lid \<mapsto>
       \<lparr>h_lease = ended l', terminated_by = a, terminated_at = ledger_timestamp env\<rparr>)"
    and tracker: "tracker_of t (landlord l') = (let tr = tracker_of s (landlord l') in
       (counted tr (ledger_timestamp env))\<lparr>total_leases :=
         (if 0 < total_leases tr then sat_u64 (total_leases tr - 1) else total_leases tr)\<rparr>)"
  have "l' = l" using l' l by simp
  have "recent env (tracker_of t (landlord l')) = recent env (tracker_of s (landlord l')) + 1"
    unfolding tracker by (simp add: Let_def recent_def counted_def)
  moreover have "historical_leases t lid
      = Some \<lparr>h_lease = ended l', terminated_by = a, terminated_at = ledger_timestamp env\<rparr>"
    by (simp add: hist)
  ultimately show ?thesis
    using * unfolding Let_def \<open>l' = l\<close> by blast
qed

lemma deposit_slash_at:
  assumes run: "execute_deposit_slash env p s = (Ok u, t)"
    and l: "lease_instances s (op_lease_id p) = Some l" "0 \<le> total_deposit l"
  shows "op_oracle_pubkey p \<in> whitelisted_oracles s
    \<and> (\<exists>c. oracle_configs s (op_oracle_pubkey p) = Some c \<and> oracle_available env c)
    \<and> unwrap_or 0 (oracle_nonces s (op_oracle_pubkey p)) < op_nonce p
    \<and> ext env (calls s) (Ed25519Verify (op_oracle_pubkey p) (op_lease_id p) (op_signature p)) = Reply_unit
    \<and> op_timestamp p \<le> ledger_timestamp env \<and> ledger_timestamp env - op_timestamp p \<le> 86400
    \<and> (status l = LTerminated \<or> status l = LExpired) \<and> deposit_status l \<noteq> Settled
    \<and> within_velocity env (tracker_of s (landlord l))
    \<and> (let penalty = penalty_of (damage_severity p) (total_deposit l); refund = total_deposit l - penalty in
        0 \<le> penalty \<and> 0 \<le> refund
        \<and> transfers t = transfers s @ payouts env (payment_token l) [(tenant l, refund), (landlord l, penalty)])
    \<and> lease_instances t = (lease_instances s)(op_lease_id p \<mapsto> settled l)
    \<and> oracle_nonces t = (oracle_nonces s)(op_oracle_pubkey p \<mapsto> op_nonce p)"
proof (rule deposit_slash_Ok [OF run])
  fix l' c
  assume l': "lease_instances s (op_lease_id p) = Some l'" and range: "is_i128 (total_deposit l')"
    and rest: "op_oracle_pubkey p \<in> whitelisted_oracles s"
    "oracle_configs s (op_oracle_pubkey p) = Some c" "oracle_available env c"
    "unwrap_or 0 (oracle_nonces s (op_oracle_pubkey p)) < op_nonce p"
    "op_timestamp p \<le> ledger_timestamp env" "ledger_timestamp env - op_timestamp p \<le> 86400"
    "ext env (calls s) (Ed25519Verify (op_oracle_pubkey p) (op_lease_id p) (op_signature p)) = Reply_unit"
    "status l' = LTerminated \<or> status l' = LExpired" "deposit_status l' \<noteq> Settled"
    "within_velocity env (tracker_of s (landlord l'))"
    "transfers t = transfers s @ payouts env (payment_token l')
       [(tenant l', sat_i128 (total_deposit l' - penalty_of (damage_severity p) (total_deposit l'))),
        (landlord l', penalty_of (damage_severity p) (total_deposit l'))]"
    "lease_instances t = (lease_instances s)(op_lease_id p \<mapsto> settled l')"
    "oracle_nonces t = (oracle_nonces s)(op_oracle_pubkey p \<mapsto> op_nonce p)"
  have "l' = l" using l' l(1) by simp
  have ok: "slashable (damage_severity p) (total_deposit l)"
    using range l(2) \<open>l' = l\<close> by (simp add: slashable_def)
  have shares: "sat_i128 (total_deposit l - penalty_of (damage_severity p) (total_deposit l))
      = total_deposit l - penalty_of (damage_severity p) (total_deposit l)"
    "0 \<le> penalty_of (damage_severity p) (total_deposit l)"
    "0 \<le> total_deposit l - penalty_of (damage_severity p) (total_deposit l)"
    using slash.conserve [OF ok] slash.fst_nonneg [OF ok] slash.snd_nonneg [OF ok]
    by (simp_all add: slash_shares_def)
  show ?thesis
    unfolding Let_def using rest [unfolded \<open>l' = l\<close> shares(1)] shares(2,3) by blast
qed

end
