(* ===== verification/Contract_Example.thy ===== *)
theory Contract_Example
  imports Contract_Effects
begin

text \<open>
  A concrete deployment of the lease contract for the witnesses: an administrator (1) with two oracles
  (71 and 72) and their hierarchy, and a landlord (2) who leases to a tenant (3).
\<close>

definition lx_env :: "int \<Rightarrow> env" where
  "lx_env now = \<lparr>ledger_timestamp = now, ledger_sequence = now, auths = [1, 2, 3, 4], current_contract = 9,
     ext = (\<lambda>cs c. case c of VerifyOwnership a b d \<Rightarrow> Reply_bool True | _ \<Rightarrow> Reply_unit)\<rparr>"

definition lx_lenv :: "int \<Rightarrow> lc_env" where
  "lx_lenv now = env.extend (lx_env now) (lc_env.fields (\<lambda>xs i. Inr (xs @ [i])))"

definition lx_params :: "int \<Rightarrow> create_lease_params" where
  "lx_params dep = \<lparr>p_tenant = 3, p_rent_amount = 1000, p_deposit_amount = dep, p_security_deposit = 2000,
     p_start_date = 0, p_end_date = 1000000, p_property_uri = [], p_payment_token = 50,
     p_arbitrators = [4], p_rent_per_sec = 2, p_grace_period_end = 100000, p_late_fee_flat = 30,
     p_late_fee_per_sec = 3, p_equity_percentage_bps = 0, p_has_pet = False, p_pet_deposit_amount = 0,
     p_pet_rent_amount = 0, p_yield_delegation_enabled = False, p_deposit_asset = None,
     p_dex_contract = None, p_max_slippage_bps = 0, p_swap_path = [], p_lessor_reference_id = None,
     p_asset_registry_address = None, p_asset_id = None\<rparr>"

definition lx_deploy :: "(lc_env \<times> lc_call) list" where
  "lx_deploy = map (\<lambda>c. (lx_lenv 100, Admin c)) [Initialize 1, WhitelistOracle 1 71, WhitelistOracle 1 72]
     @ [(lx_lenv 100, Oracle (SetFallbackHierarchy 1 71 72 True))]"

text \<open>Lease 5 has a deposit of 2000 and 500, lease 6 one of 2000 only.\<close>

definition lx_setup :: "(lc_env \<times> lc_call) list" where
  "lx_setup = lx_deploy @ [(lx_lenv 200, Lease (CreateLeaseInstance 5 2 (lx_params 500))),
     (lx_lenv 200, Lease (CreateLeaseInstance 6 2 (lx_params 0)))]"

definition lx_state :: lc_state where
  "lx_state = fold lc_step lx_setup lc_init"

lemma lx_early: "fst (execute_early_termination (lx_env 90000) 5 3 lx_state) = Ok ()"
  by code_simp

end
