(* ===== verification/Contract_Props.thy ===== *)
theory Contract_Props
  imports Contract_Example
begin

text \<open>
  Properties of the lease contract: what its runs can reach, what its operations pay out and under which
  guards.
\<close>

section \<open>Reachable states\<close>

text \<open>Whatever sequence of calls the lease contract receives after deployment, several parts of
  it never come into play. No operation activates a lease made by \<^verbatim>\<open>create_lease_instance\<close>: each stays pending until it
  is disputed or terminated, and only leases with continuous billing, which are made active, are ever active. An operation that returns an error is rolled back, so the records written just
  before the error are lost: no lease ever waits for arbitration, no oracle is ever demoted, the fallback
  hierarchy never becomes active, no slash is ever pending a veto, no lessor is ever paused. And no operation
  gives a lease an NFT, a termination fee, or adds a yield protocol.\<close>
theorem dormant_machinery:
  assumes "s = fold lc_step ms lc_init"
  shows "(\<forall>lid l. lease_instances s lid = Some l \<longrightarrow>
        (status l = LPending \<or> status l = LDisputed \<or> status l = LTerminated
          \<or> continuous_billing_enabled l \<and> status l = LActive) \<and> token_id l = None
        \<and> nft_contract l = None \<and> early_termination_fee_bps l = None \<and> fixed_penalty l = None)
    \<and> (\<forall>key c. oracle_configs s key = Some c \<longrightarrow>
        o_status c = OActive \<and> failure_count c = 0 \<and> demotion_timestamp c = None)
    \<and> (\<forall>h. fallback s = Some h \<longrightarrow> \<not> hierarchy_active h)
    \<and> pending_slashes s = Map.empty \<and> paused_lessors s = {} \<and> whitelisted_yield_protocols s = {}"
  using lease_contract.reach_inv [of ms] unfolding assms
  by (auto simp: lc_inv_def plain_lease_def lease_core_def standing_def quiet_hierarchy_def)

theorem dormant_machinery_witness:
  "\<exists>l c. lease_instances lx_state 5 = Some l \<and> status l \<noteq> LActive \<and> \<not> continuous_billing_enabled l \<and> fixed_penalty l = None
     \<and> oracle_configs lx_state 71 = Some c \<and> o_status c = OActive"
proof -
  obtain l c where l: "lease_instances lx_state 5 = Some l" "\<not> continuous_billing_enabled l"
    and c: "oracle_configs lx_state 71 = Some c"
  proof -
    have "map_option continuous_billing_enabled (lease_instances lx_state 5) = Some False"
      "oracle_configs lx_state 71 \<noteq> None" by code_simp+
    then show ?thesis using that by fastforce
  qed
  then have "status l \<noteq> LActive" "fixed_penalty l = None" "o_status c = OActive"
    using dormant_machinery [OF lx_state_def] by fastforce+
  then show ?thesis using l c by blast
qed

section \<open>Oracle slashes\<close>

text \<open>Claim C3. The nonce of an oracle only moves forward: once a slash signed by an oracle has succeeded, no
  slash of that oracle with the same or a smaller nonce succeeds in any later state, whatever calls come in
  between.\<close>
theorem slash_no_replay:
  assumes "execute_deposit_slash env p s = (Ok u, s1)"
    and "op_oracle_pubkey q = op_oracle_pubkey p" "op_nonce q \<le> op_nonce p"
  shows "execute_deposit_slash env' q (fold lc_step ms s1) \<noteq> (Ok v, s2)"
proof
  assume again: "execute_deposit_slash env' q (fold lc_step ms s1) = (Ok v, s2)"
  have "oracle_nonces s1 (op_oracle_pubkey p) = Some (op_nonce p)"
    by (rule deposit_slash_Ok [OF assms(1)]) simp
  then have "op_nonce p \<le> unwrap_or 0 (oracle_nonces (fold lc_step ms s1) (op_oracle_pubkey p))"
    using nonce_order.run_le [of s1 ms] by (auto simp: nonces_le_def dest!: spec [of _ "op_oracle_pubkey p"])
  moreover have "unwrap_or 0 (oracle_nonces (fold lc_step ms s1) (op_oracle_pubkey q)) < op_nonce q"
    by (rule deposit_slash_Ok [OF again])
  ultimately show False using assms(2,3) by simp
qed

definition lx_payload :: "int \<Rightarrow> oracle_payload" where
  "lx_payload n = \<lparr>op_lease_id = 6, op_oracle_pubkey = 71, damage_severity = Minor, op_nonce = n,
     op_timestamp = 90000, op_signature = 0\<rparr>"

definition lx_reclaimed :: lc_state where
  "lx_reclaimed = lc_step (lx_lenv 90000, Ending (Reclaim 6 2)) lx_state"

lemma lx_slash: "execute_deposit_slash (lx_env 90000) (lx_payload 1) lx_reclaimed
    = (Ok (), snd (execute_deposit_slash (lx_env 90000) (lx_payload 1) lx_reclaimed))"
proof -
  have "fst (execute_deposit_slash (lx_env 90000) (lx_payload 1) lx_reclaimed) = Ok ()" by code_simp
  then show ?thesis by (metis prod.collapse)
qed

theorem slash_no_replay_witness:
  "fst (execute_deposit_slash (lx_env 90001) (lx_payload 1)
     (snd (execute_deposit_slash (lx_env 90000) (lx_payload 1) lx_reclaimed))) \<noteq> Ok ()"
  using slash_no_replay [OF lx_slash refl order_refl, of "lx_env 90001" "[]" "()"]
  by (metis fold_simps(1) prod.collapse)

text \<open>Claim C2. A slash that succeeds was made by a whitelisted, available oracle with a larger nonce, a signature
  the host accepted and a timestamp of the past day, on a lease that has ended and whose deposit is not
  settled, of a lessor within the velocity limit. It pays the penalty of the reported severity to the
  landlord and the rest of the deposit to the tenant (both non-negative and together the whole deposit),
  settles the deposit in the lease and stores the nonce.\<close>
theorem slash_pays_the_deposit:
  assumes run: "execute_deposit_slash env p s = (Ok u, t)"
    and l: "lease_instances s (op_lease_id p) = Some l" "0 \<le> total_deposit l"
  shows "op_oracle_pubkey p \<in> whitelisted_oracles s
    \<and> (\<exists>c. oracle_configs s (op_oracle_pubkey p) = Some c \<and> oracle_available env c)
    \<and> unwrap_or 0 (oracle_nonces s (op_oracle_pubkey p)) < op_nonce p
    \<and> ext env (calls s) (Ed25519Verify (op_oracle_pubkey p) (op_lease_id p) (op_signature p)) = Reply_unit
    \<and> op_timestamp p \<le> ledger_timestamp env \<and> ledger_timestamp env - op_timestamp p \<le> 86400
    \<and> (status l = LTerminated \<or> status l = LExpired) \<and> deposit_status l \<noteq> Settled
    \<and> within_velocity env (tracker_of s (landlord l))
    \<and> (let penalty = penalty_of (damage_severity p) (total_deposit l); refund = total_deposit l - penalty in
        0 \<le> penalty \<and> 0 \<le> refund
        \<and> transfers t = transfers s @ payouts env (payment_token l) [(tenant l, refund), (landlord l, penalty)])
    \<and> lease_instances t = (lease_instances s)(op_lease_id p \<mapsto> settled l)
    \<and> oracle_nonces t = (oracle_nonces s)(op_oracle_pubkey p \<mapsto> op_nonce p)"
  using assms by (rule deposit_slash_at)

definition lx_lease6 :: lease_instance where
  "lx_lease6 = (new_instance 2 (lx_params 0) 2000)\<lparr>status := LTerminated,
     flags := clear_flag (flags (new_instance 2 (lx_params 0) 2000)) ACTIVE\<rparr>"

lemma lx_lease6_total: "total_deposit lx_lease6 = 2000"
  by (simp add: lx_lease6_def total_deposit_def new_instance_def lx_params_def)

lemma lx_reclaimed_lease: "lease_instances lx_reclaimed 6 = Some lx_lease6"
  by code_simp

theorem slash_pays_the_deposit_witness:
  "transfers (snd (execute_deposit_slash (lx_env 90000) (lx_payload 1) lx_reclaimed))
     = transfers lx_reclaimed @ [TokenTransfer 50 9 3 1800, TokenTransfer 50 9 2 200]"
proof -
  have pen: "penalty_of Minor 2000 = 200"
    by (simp add: penalty_of_def Let_def tdiv_def sat_defs i128_min_def i128_max_def)
  have "lease_instances lx_reclaimed (op_lease_id (lx_payload 1)) = Some lx_lease6"
    by (simp add: lx_payload_def lx_reclaimed_lease)
  from slash_pays_the_deposit [OF lx_slash this] show ?thesis
    by (simp add: lx_lease6_total Let_def) (simp add: lx_payload_def pen lx_lease6_def new_instance_def
        lx_params_def lx_env_def)
qed

section \<open>Early termination\<close>

text \<open>Claim C5. Early termination is for the parties: when it succeeds, the caller authorised the call and is the
  tenant or the landlord, the lease had not ended, and the day's terminations of the landlord are within a
  tenth of the portfolio. The deposit is split exactly: the penalty the terms of the lease give for the
  remaining time, at most the deposit, to the landlord, and the rest to the tenant. The lease leaves the
  storage, its final record (terminated, settled) is archived under its id, and the guard counts it.\<close>
theorem early_termination_settles:
  assumes run: "execute_early_termination env lid a s = (Ok u, t)"
    and l: "lease_instances s lid = Some l"
  shows "a \<in> set (auths env) \<and> (a = tenant l \<or> a = landlord l) \<and> status l \<noteq> LTerminated
    \<and> start_date l \<le> ledger_timestamp env \<and> ledger_timestamp env \<le> end_date l
    \<and> within_velocity env (tracker_of s (landlord l))
    \<and> (let penalty = min (early_due l (end_date l - ledger_timestamp env)) (total_deposit l);
           refund = total_deposit l - penalty
       in transfers t = transfers s @ payouts env (payment_token l) [(tenant l, refund), (landlord l, penalty)])
    \<and> lease_instances t = (lease_instances s)(lid := None)
    \<and> historical_leases t lid = Some \<lparr>h_lease = ended l, terminated_by = a, terminated_at = ledger_timestamp env\<rparr>
    \<and> historical_index t = historical_index s @ [lid]
    \<and> recent env (tracker_of t (landlord l)) = recent env (tracker_of s (landlord l)) + 1"
  using assms by (rule early_termination_at)

lemma lx_lease5: "lease_instances lx_state 5 = Some (new_instance 2 (lx_params 500) 2000)"
  by code_simp

lemma lx_early_run: "execute_early_termination (lx_env 90000) 5 3 lx_state
    = (Ok (), snd (execute_early_termination (lx_env 90000) 5 3 lx_state))"
  using lx_early by (metis prod.collapse)

theorem early_termination_settles_witness:
  "transfers (snd (execute_early_termination (lx_env 90000) 5 3 lx_state))
     = transfers lx_state @ [TokenTransfer 50 9 3 2500]"
  using early_termination_settles [OF lx_early_run lx_lease5]
  by (simp add: Let_def early_due_def total_deposit_def new_instance_def lx_params_def lx_env_def)

text \<open>In every state the contract can reach, an early termination costs its initiator nothing: no
  operation ever sets the termination fee or the fixed penalty of a lease, so whoever terminates, and however
  much of the term remains, the tenant gets the whole deposit back and the landlord receives nothing.\<close>
theorem early_termination_is_free:
  assumes run: "execute_early_termination env lid a (fold lc_step ms lc_init) = (Ok u, t)"
    and l: "lease_instances (fold lc_step ms lc_init) lid = Some l" "0 < total_deposit l"
  shows "transfers t = transfers (fold lc_step ms lc_init)
    @ [TokenTransfer (payment_token l) (current_contract env) (tenant l) (total_deposit l)]"
proof -
  have "plain_lease l" using lease_contract.reach_inv [of ms] l(1) by (simp add: lc_inv_def)
  then have "early_due l r = 0" for r by (simp add: plain_lease_def lease_core_def early_due_def)
  then show ?thesis
    using early_termination_at [OF run l(1)] l(2) by (simp add: Let_def)
qed

theorem early_termination_is_free_witness:
  "transfers (snd (execute_early_termination (lx_env 90000) 5 3 lx_state))
     = transfers lx_state @ [TokenTransfer 50 9 3 2500]"
proof -
  have "0 < total_deposit (new_instance 2 (lx_params 500) 2000)"
    by (simp add: total_deposit_def new_instance_def lx_params_def)
  from early_termination_is_free [OF lx_early_run [unfolded lx_state_def] lx_lease5 [unfolded lx_state_def] this]
  show ?thesis
    by (simp add: lx_state_def total_deposit_def new_instance_def lx_params_def lx_env_def)
qed

lemma recent_member:
  assumes "x \<in> set (last_termination_times tr)" "ledger_timestamp env - 86400 \<le> x"
  shows "1 \<le> recent env tr"
proof -
  have "x \<in> set (filter (\<lambda>x. ledger_timestamp env - 86400 \<le> x) (last_termination_times tr))" using assms by simp
  then show ?thesis unfolding recent_def by (metis length_pos_if_in_set One_nat_def Suc_leI of_nat_1 of_nat_le_iff)
qed


definition lx_terminated :: lc_state where
  "lx_terminated = snd (execute_early_termination (lx_env 90000) 5 3 lx_state)"


section \<open>A deposit paid twice\<close>

definition lx_slashed :: lc_state where
  "lx_slashed = snd (execute_deposit_slash (lx_env 90000) (lx_payload 1) lx_reclaimed)"

lemma lx_slashed_tracker:
  "velocity_trackers lx_slashed 2 = Some ((counted (fresh_tracker 2) 90000)\<lparr>total_leases := 1\<rparr>)"
  by code_simp

lemma lx_slashed_guard: "paused_lessors lx_slashed = {}"
proof -
  have "lc_inv lx_reclaimed"
    unfolding lx_reclaimed_def lx_state_def by (intro plain.step_kept lease_contract.reach_inv)
  then have "lc_inv lx_slashed"
    using ok_keepsD [OF plain.kept_slash _ lx_slash] unfolding lx_slashed_def by blast
  then show ?thesis by (simp add: lc_inv_def)
qed

definition lx_disputed :: lease_instance where
  "lx_disputed = (settled lx_lease6)\<lparr>deposit_status := Disputed, status := LDisputed\<rparr>"

lemma lx_disputed_terms:
  "landlord lx_disputed = 2" "tenant lx_disputed = 3" "start_date lx_disputed = 0" "end_date lx_disputed = 1000000"
  "payment_token lx_disputed = 50" "status lx_disputed = LDisputed" "total_deposit lx_disputed = 2000"
  "plain_lease lx_disputed" "early_due lx_disputed r = 0"
  by (simp_all add: lx_disputed_def settled_def lx_lease6_def new_instance_def lx_params_def total_deposit_def
      plain_lease_def lease_core_def early_due_def)

text \<open>A deposit can be paid out twice. The landlord has reclaimed a lease; an oracle slashes it, which pays
  the deposit of 2000 out to the two parties and settles it. Then the tenant opens a dispute, which checks no
  status and marks the settled deposit as disputed, and terminates the lease early, which looks neither at the
  deposit's status nor at the earlier payout: the same 2000 leave the contract a second time, out of the
  tokens held for other leases.\<close>
theorem deposit_paid_twice:
  "\<exists>t1 t2 t3. execute_deposit_slash (lx_env 90000) (lx_payload 1) lx_reclaimed = (Ok (), t1)
     \<and> dispute_deposit (lx_env 200000) 6 3 t1 = (Ok (), t2)
     \<and> execute_early_termination (lx_env 200000) 6 3 t2 = (Ok (), t3)
     \<and> map_option total_deposit (lease_instances lx_reclaimed 6) = Some 2000
     \<and> transfers t3 = transfers lx_reclaimed
         @ [TokenTransfer 50 9 3 1800, TokenTransfer 50 9 2 200, TokenTransfer 50 9 3 2000]"
proof -
  have slash: "execute_deposit_slash (lx_env 90000) (lx_payload 1) lx_reclaimed = (Ok (), lx_slashed)"
    using lx_slash by (simp add: lx_slashed_def)
  have pen: "penalty_of Minor 2000 = 200"
    by (simp add: penalty_of_def Let_def tdiv_def sat_defs i128_min_def i128_max_def)
  have "lease_instances lx_reclaimed (op_lease_id (lx_payload 1)) = Some lx_lease6"
    by (simp add: lx_payload_def lx_reclaimed_lease)
  from deposit_slash_at [OF slash this]
  have "lease_instances lx_slashed = (lease_instances lx_reclaimed)(6 \<mapsto> settled lx_lease6)
     \<and> transfers lx_slashed = transfers lx_reclaimed @ [TokenTransfer 50 9 3 1800, TokenTransfer 50 9 2 200]"
    by (simp add: lx_lease6_total Let_def) (simp add: lx_payload_def pen lx_lease6_def new_instance_def
        lx_params_def lx_env_def)
  then have lease: "lease_instances lx_slashed 6 = Some (settled lx_lease6)"
    and paid: "transfers lx_slashed = transfers lx_reclaimed
      @ [TokenTransfer 50 9 3 1800, TokenTransfer 50 9 2 200]" by simp_all
  have parties: "tenant lx_lease6 = 3" "3 \<in> set (auths (lx_env n))" for n
    by (simp_all add: lx_lease6_def new_instance_def lx_params_def lx_env_def)
  obtain t2 where dispute: "dispute_deposit (lx_env 200000) 6 3 lx_slashed = (Ok (), t2)"
    and t2: "lease_instances t2 6 = Some lx_disputed" "velocity_trackers t2 = velocity_trackers lx_slashed"
      "paused_lessors t2 = {}" "calls t2 = calls lx_slashed"
    using lx_slashed_guard parties
    by (simp add: dispute_deposit_def bind_run load_lease_run lease throw_if_run require_auth_run
        save_lease_instance_run publish_run lx_disputed_def [symmetric])
  obtain t3 where early: "execute_early_termination (lx_env 200000) 6 3 t2 = (Ok (), t3)"
    using early_termination_runs [OF t2(1), of 3 "lx_env 200000" "(counted (fresh_tracker 2) 90000)\<lparr>total_leases := 1\<rparr>"]
    by (auto simp: lx_disputed_terms lx_env_def range_defs int_bounds t2 lx_slashed_tracker counted_def
        fresh_tracker_def recent_def within_velocity_def)
  have "transfers t3 = transfers t2 @ [TokenTransfer 50 9 3 2000]"
    using early_termination_at [OF early t2(1)] by (simp add: lx_disputed_terms lx_env_def)
  then show ?thesis
    using slash dispute early paid t2(4) lx_reclaimed_lease lx_lease6_total by (simp add: transfers_def)
qed

end
