(* ===== verification/Contract_Accounts.thy ===== *)
theory Contract_Accounts
  imports Contract_Example
begin

text \<open>
  The money of the lease contract outside slashes and early termination: rent, late fees, mutual release,
  yield; and the branch for destroyed assets.
\<close>

section \<open>Mutual release\<close>

lemma publish_books: "publish ev s = (Ok u, t) \<Longrightarrow> same_books s t"
  by (auto simp: publish_Ok_iff intro!: same_booksI)

lemma mutual_release_steps:
  assumes "mutual_deposit_release env lid a b x y s = (Ok u, t)"
  obtains l s1 s2 s3 s4 where "lease_instances s lid = Some l" "a = tenant l \<and> b = landlord l" "a \<in> set (auths env)"
    "b \<in> set (auths env)" "status l = LActive \<or> status l = LExpired" "x + y = total_deposit l" "0 \<le> x \<and> 0 \<le> y"
    "pay_out env (payment_token l) (tenant l) x s = (Ok (), s1)"
    "pay_out env (payment_token l) (landlord l) y s1 = (Ok (), s2)"
    "return_nft env (nft_contract l) (token_id l) (landlord l) s2 = (Ok (), s3)"
    "save_lease_instance lid (ended l) s3 = (Ok (), s4)"
    "same_books s4 t"
  using assms unfolding mutual_deposit_release_def Let_def ended_def [symmetric] total_deposit_def [symmetric]
  apply (simp only: steps de_Morgan_disj de_Morgan_conj not_not not_less simp_thms ex_simps)
  apply (elim exE conjE)
  apply (simp only: )
  apply (rule that)
             apply (assumption | blast | erule publish_books | simp)+
  done

text \<open>Claim C6. A mutual release needs both parties: when it succeeds, the two keys are those of the tenant and
  the landlord of the lease, both authorised the call, the lease was active or expired, and the two amounts
  are non-negative and add up to the whole deposit. Exactly these amounts are paid, and the lease is left
  terminated and settled, so that no second release of it can succeed.\<close>
theorem mutual_release_splits_the_deposit:
  assumes run: "mutual_deposit_release env lid a b x y s = (Ok u, t)"
    and l: "lease_instances s lid = Some l"
  shows "a = tenant l \<and> b = landlord l \<and> {a, b} \<subseteq> set (auths env)
    \<and> (status l = LActive \<or> status l = LExpired) \<and> 0 \<le> x \<and> 0 \<le> y \<and> x + y = total_deposit l
    \<and> transfers t = transfers s @ payouts env (payment_token l) [(tenant l, x), (landlord l, y)]
    \<and> lease_instances t = (lease_instances s)(lid \<mapsto> ended l)
    \<and> mutual_deposit_release env' lid a' b' x' y' t \<noteq> (Ok v, t')"
proof -
  obtain l' s1 s2 s3 s4 where l': "lease_instances s lid = Some l'"
    and g: "a = tenant l' \<and> b = landlord l'" "a \<in> set (auths env)" "b \<in> set (auths env)"
    "status l' = LActive \<or> status l' = LExpired" "x + y = total_deposit l'" "0 \<le> x \<and> 0 \<le> y"
    and pay: "pay_out env (payment_token l') (tenant l') x s = (Ok (), s1)"
      "pay_out env (payment_token l') (landlord l') y s1 = (Ok (), s2)"
    and nft: "return_nft env (nft_contract l') (token_id l') (landlord l') s2 = (Ok (), s3)"
    and save: "save_lease_instance lid (ended l') s3 = (Ok (), s4)"
    and pub: "same_books s4 t"
    by (rule mutual_release_steps [OF run]) blast
  have "l' = l" using l l' by simp
  note pays = two_payments [OF pay]
  obtain cs where s2: "s2 = s\<lparr>calls := cs\<rparr>" using pays(2) by blast
  have s3: "transfers s3 = transfers s2" "lease_instances s3 = lease_instances s"
    using quietD [OF quiet_nft(2) nft] by (simp_all add: same_books_def s2)
  have t: "transfers t = transfers s3" "lease_instances t = (lease_instances s)(lid \<mapsto> ended l)"
    using save pub s3 \<open>l' = l\<close> by (simp_all add: save_lease_instance_Ok_iff same_books_def transfers_def)
  have "mutual_deposit_release env' lid a' b' x' y' t \<noteq> (Ok v, t')"
    by (auto simp: mutual_deposit_release_def bind_Ok_iff load_lease_Ok_iff throw_if_Ok_iff
        require_auth_Ok_iff t(2) Let_def)
  then show ?thesis using g t pays(1) s3 \<open>l' = l\<close> by simp
qed

section \<open>Rent\<close>

lemma transfer_nft_Ok:
  "transfer_nft_to env x y a s = (Ok u, t)
    \<Longrightarrow> \<exists>cs. t = s\<lparr>calls := calls s @ cs\<rparr> \<and> filter is_transfer cs = []"
  by (auto simp: transfer_nft_to_def call_unit_Ok_iff split: option.splits intro: exI [of _ "[]"])

text \<open>Claim C12. A rent payment is made by the tenant or an authorised payer, with that payer's authorisation, on
  an active lease. It moves the amount from the payer to the contract once, adds it to the payer's balance, to
  the rent paid and to the cumulative payments; and it ends the lease (terminated, inactive, archived under its
  id) exactly when a buyout price is set and the cumulative payments reach it.\<close>
theorem rent_payment_recorded:
  assumes run: "pay_lease_instance_rent env lid payer n s = (Ok u, t)"
    and l: "lease_instances s lid = Some l"
  shows "payer \<in> set (auths env) \<and> (payer = tenant l \<or> (lid, payer) \<in> authorized_payers s)
    \<and> has_flag (flags l) ACTIVE
    \<and> transfers t = transfers s @ [TokenTransfer (payment_token l) payer (current_contract env) n]
    \<and> roommate_balances t (lid, payer) = Some (unwrap_or 0 (roommate_balances s (lid, payer)) + n)
    \<and> (let paid = l\<lparr>cumulative_payments := cumulative_payments l + n, rent_paid := rent_paid l + n\<rparr> in
       case buyout_price l of
         Some due \<Rightarrow>
           if due \<le> cumulative_payments paid
           then lease_instances t = (lease_instances s)(lid := None) \<and> historical_leases t lid = Some
             \<lparr>h_lease = paid\<lparr>flags := clear_flag (flags l) ACTIVE, status := LTerminated\<rparr>,
              terminated_by = current_contract env, terminated_at = ledger_timestamp env\<rparr>
           else lease_instances t = (lease_instances s)(lid \<mapsto> paid)
       | None \<Rightarrow> lease_instances t = (lease_instances s)(lid \<mapsto> paid))"
proof -
  define paid where "paid = l\<lparr>cumulative_payments := cumulative_payments l + n, rent_paid := rent_paid l + n\<rparr>"
  obtain s1 where g: "payer \<in> set (auths env)" "payer = tenant l \<or> (lid, payer) \<in> authorized_payers s"
      "has_flag (flags l) ACTIVE"
    and s1: "s1 = s\<lparr>calls := calls s @ [TokenTransfer (payment_token l) payer (current_contract env) n],
        roommate_balances := (roommate_balances s)((lid, payer) \<mapsto>
          unwrap_or 0 (roommate_balances s (lid, payer)) + n),
        events := events s @ [RentPaidPartial lid payer n,
          RentPaymentExecuted lid payer n (ledger_timestamp env) (lessor_reference_id l)]\<rparr>"
    and fin: "(case buyout_price l of
       Some price \<Rightarrow>
         if cumulative_payments l + n \<ge> price then
           bind (transfer_nft_to env (nft_contract l) (token_id l) (tenant l)) (\<lambda>_.
           archive_lease env lid (paid\<lparr>flags := clear_flag (flags l) ACTIVE, status := LTerminated\<rparr>)
             (current_contract env))
         else save_lease_instance lid paid
     | None \<Rightarrow> save_lease_instance lid paid) s1 = (Ok u, t)"
    using run unfolding pay_lease_instance_rent_def Let_def
    by (simp add: bind_Ok_iff require_auth_Ok_iff load_lease_Ok_iff l throw_if_Ok_iff chk_w_Ok_iff require_Ok_iff
        transfer_token_Ok_iff publish_Ok_iff paid_def cong: option.case_cong if_cong)
  show ?thesis
  proof (cases "buyout_price l \<noteq> None \<and> the (buyout_price l) \<le> cumulative_payments l + n")
    case True
    then obtain s2 where nft: "transfer_nft_to env (nft_contract l) (token_id l) (tenant l) s1 = (Ok (), s2)"
      and arch: "archive_lease env lid (paid\<lparr>flags := clear_flag (flags l) ACTIVE, status := LTerminated\<rparr>)
             (current_contract env) s2 = (Ok u, t)"
      using fin by (auto simp: bind_Ok_iff)
    obtain cs where s2: "s2 = s1\<lparr>calls := calls s1 @ cs\<rparr>" "filter is_transfer cs = []"
      using transfer_nft_Ok [OF nft] by blast
    obtain due where "buyout_price l = Some due" "due \<le> cumulative_payments l + n"
      using True by auto
    then show ?thesis
      using g arch s2 unfolding paid_def [symmetric] Let_def
      by (simp add: archive_lease_Ok_iff s1 transfers_def) (simp add: paid_def)
  next
    case False
    then have "t = s1\<lparr>lease_instances := (lease_instances s1)(lid \<mapsto> paid)\<rparr>"
      using fin by (auto simp: save_lease_instance_Ok_iff split: option.splits)
    then show ?thesis
      using False g unfolding paid_def [symmetric] Let_def
      by (auto simp: s1 transfers_def paid_def split: option.splits)
  qed
qed

section \<open>Late fees\<close>

text \<open>The late fees a lease owes at a time, as a function: the flat fee once, and the fee per second for the
  seconds late that were not charged before.\<close>

definition late_charged :: "int \<Rightarrow> lease_instance \<Rightarrow> lease_instance" where
  "late_charged now l = (let late = now - grace_period_end l in
     if late \<le> 0 then l else
     l\<lparr>flags := set_flag (flags l) FLAT_FEE_APPLIED,
       debt := debt l + (if has_flag (flags l) FLAT_FEE_APPLIED then 0 else late_fee_flat l)
         + max 0 (late - seconds_late_charged l) * late_fee_per_sec l,
       seconds_late_charged := max (seconds_late_charged l) late\<rparr>)"

definition rent_arrears :: "int \<Rightarrow> lease_instance \<Rightarrow> int" where
  "rent_arrears now l = (if 0 < sat_i128 (sat_i128 (sat_u64 (now - start_date l) * rent_per_sec l) - rent_paid l)
     then sat_i128 (sat_i128 (sat_u64 (now - start_date l) * rent_per_sec l) - rent_paid l) else 0)"

lemma set_flat_fee_idem: "has_flag f FLAT_FEE_APPLIED \<Longrightarrow> set_flag f FLAT_FEE_APPLIED = f"
  by (rule bit_word_eqI) (auto simp: flag_simps set_flag_def bit_simps)

lemma accrue_late_fees_charged:
  assumes "accrue_late_fees now l s = (Ok l', s')" "grace_period_end l < now"
  shows "s' = s \<and> l' = late_charged now l"
  using assms
  by (cases "has_flag (flags l) FLAT_FEE_APPLIED"; cases "now - grace_period_end l \<le> seconds_late_charged l")
    (auto simp: accrue_late_fees_def late_charged_def proc_ok max_def Let_def set_flat_fee_idem)

text \<open>Charging at one time and again later is charging once, at the later time.\<close>

lemma late_charged_twice: "t1 \<le> t2 \<Longrightarrow> late_charged t2 (late_charged t1 l) = late_charged t2 l"
proof (cases "t1 \<le> grace_period_end l")
  case False
  assume "t1 \<le> t2"
  have flag: "has_flag (set_flag f FLAT_FEE_APPLIED) FLAT_FEE_APPLIED" for f
    by (simp add: flag_simps)
  have amount: "max 0 (t1 - g - c) * fee + max 0 (t2 - g - max c (t1 - g)) * fee = max 0 (t2 - g - c) * fee"
    for g c fee :: int
    unfolding distrib_right [symmetric] using \<open>t1 \<le> t2\<close> by (auto simp: max_def)
  show ?thesis
    using False \<open>t1 \<le> t2\<close> amount [of "grace_period_end l" "seconds_late_charged l" "late_fee_per_sec l"]
    by (simp add: late_charged_def Let_def flag set_flat_fee_idem max.assoc)
qed (simp add: late_charged_def)

lemma late_charged_sel [simp]:
  "start_date (late_charged t l) = start_date l" "rent_per_sec (late_charged t l) = rent_per_sec l"
  "rent_paid (late_charged t l) = rent_paid l"
  by (simp_all add: late_charged_def Let_def)

lemma check_tenant_default_Ok:
  assumes "check_tenant_default env lid s = (Ok d, t)"
  obtains l where "lease_instances s lid = Some l"
    "lease_instances t = (lease_instances s)(lid \<mapsto> late_charged (ledger_timestamp env) l)"
    "d = rent_arrears (ledger_timestamp env) l + debt (late_charged (ledger_timestamp env) l)"
proof -
  define now where "now = ledger_timestamp env"
  have "\<exists>l l' s1 s2. lease_instances s lid = Some l
    \<and> (if now > grace_period_end l then
             bind (accrue_late_fees now l) (\<lambda>l.
             bind (chk_u64 (now - grace_period_end l)) (\<lambda>seconds_late.
             bind (publish (PaymentLate lid (seconds_late div 86400) (debt l))) (\<lambda>_.
             return l)))
           else return l) s = (Ok l', s1)
    \<and> d = rent_arrears now l + debt l'
    \<and> (if d \<ge> sat_i128 (rent_amount l' * 2)
        then publish (EvictionEligible lid (tenant l') d) else return ()) s1 = (Ok () :: (lease_error, unit) outcome, s2)
    \<and> save_lease_instance lid l' s2 = (Ok (), t)"
    using assms unfolding check_tenant_default_def Let_def now_def [symmetric] rent_arrears_def [symmetric]
    apply (simp only: steps return_Ok_iff)
    apply (elim exE conjE)
    apply hypsubst_thin
    apply (intro exI conjI)
        apply (assumption | rule refl)+
    done
  then obtain l l' s1 s2 where l: "lease_instances s lid = Some l"
    and acc: "(if now > grace_period_end l then
             bind (accrue_late_fees now l) (\<lambda>l.
             bind (chk_u64 (now - grace_period_end l)) (\<lambda>seconds_late.
             bind (publish (PaymentLate lid (seconds_late div 86400) (debt l))) (\<lambda>_.
             return l)))
           else return l) s = (Ok l', s1)"
    and d: "d = rent_arrears now l + debt l'"
    and ev: "(if d \<ge> sat_i128 (rent_amount l' * 2)
        then publish (EvictionEligible lid (tenant l') d) else return ()) s1 = (Ok () :: (lease_error, unit) outcome, s2)"
    and save: "save_lease_instance lid l' s2 = (Ok (), t)"
    by blast
  have "l' = late_charged now l \<and> lease_instances s1 = lease_instances s"
    using acc by (auto simp: bind_Ok_iff chk_w_Ok_iff publish_Ok_iff late_charged_def [of now l]
        dest!: accrue_late_fees_charged split: if_splits)
  moreover have "lease_instances s2 = lease_instances s1"
    using ev by (auto simp: publish_Ok_iff split: if_splits)
  ultimately show thesis
    using that l d save by (simp add: save_lease_instance_Ok_iff now_def)
qed

text \<open>Claim C23. Late fees do not depend on how often they are assessed. Checking a tenant at one time and again later
  leaves the lease and reports the debt exactly as a single check at the later time would: the flat fee is
  charged once and every second of delay once.\<close>
theorem late_fees_path_independent:
  assumes first: "check_tenant_default env1 lid s = (Ok d1, s1)"
    and second: "check_tenant_default env2 lid s1 = (Ok d2, s2)"
    and once: "check_tenant_default env2 lid s = (Ok d, t)"
    and later: "ledger_timestamp env1 \<le> ledger_timestamp env2"
  shows "lease_instances s2 = lease_instances t \<and> d2 = d"
proof -
  obtain l where l: "lease_instances s lid = Some l"
    "lease_instances s1 = (lease_instances s)(lid \<mapsto> late_charged (ledger_timestamp env1) l)"
    by (rule check_tenant_default_Ok [OF first])
  obtain l2 where l2: "lease_instances s1 lid = Some l2"
    "lease_instances s2 = (lease_instances s1)(lid \<mapsto> late_charged (ledger_timestamp env2) l2)"
    "d2 = rent_arrears (ledger_timestamp env2) l2 + debt (late_charged (ledger_timestamp env2) l2)"
    by (rule check_tenant_default_Ok [OF second])
  obtain l3 where l3: "lease_instances s lid = Some l3"
    "lease_instances t = (lease_instances s)(lid \<mapsto> late_charged (ledger_timestamp env2) l3)"
    "d = rent_arrears (ledger_timestamp env2) l3 + debt (late_charged (ledger_timestamp env2) l3)"
    by (rule check_tenant_default_Ok [OF once])
  have "l3 = l" "l2 = late_charged (ledger_timestamp env1) l" using l l2(1) l3(1) by simp_all
  then show ?thesis
    using l l2 l3 late_charged_twice [OF later] by (simp add: rent_arrears_def)
qed

section \<open>Yield\<close>

text \<open>Harvested yield is divided in the ratio 5 : 3 : 2 between tenant, landlord and DAO, each share
  rounded down: the shares never exceed the yield and at most two units of it stay in the contract.\<close>
theorem yield_distribution_dust:
  assumes "0 \<le> y" "y * 5000 \<le> i128_max"
  shows "case calculate_yield_distribution y of (lessee, lessor, dao) \<Rightarrow>
    lessee = y div 2 \<and> lessor = 3 * y div 10 \<and> dao = y div 5
    \<and> lessee + lessor + dao \<le> y \<and> y - 2 \<le> lessee + lessor + dao"
proof -
  have sat: "sat_i128 (y * k) = y * k" if "0 \<le> k" "k \<le> 5000" for k
  proof -
    have "0 \<le> y * k" "y * k \<le> y * 5000" using assms(1) that by (auto intro: mult_left_mono)
    then show ?thesis using assms(2) by (intro sat_id) (simp add: is_i128_def i128_min_def)
  qed
  have "calculate_yield_distribution y = (y * 5000 div 10000, y * 3000 div 10000, y * 2000 div 10000)"
    using assms(1) by (simp add: calculate_yield_distribution_def sat tdiv_def)
  moreover have "y * 5000 div 10000 = y div 2" "y * 3000 div 10000 = 3 * y div 10" "y * 2000 div 10000 = y div 5"
    by linarith+
  moreover have "y div 2 + 3 * y div 10 + y div 5 \<le> y \<and> y - 2 \<le> y div 2 + 3 * y div 10 + y div 5"
    by linarith
  ultimately show ?thesis by simp
qed

theorem yield_distribution_dust_witness:
  "case calculate_yield_distribution 109 of (lessee, lessor, dao) \<Rightarrow> lessee + lessor + dao \<ge> 107"
  using yield_distribution_dust [of 109] by (simp add: i128_max_def split: prod.splits)

text \<open>The deployment of a deposit to a yield protocol always fails, with one of two errors: no lease, or a
  protocol that is not whitelisted. In no reachable state is any protocol whitelisted, since the contract has
  no operation that adds one.\<close>
theorem yield_deployment_fails:
  "fst (deploy_escrow_to_yield env lid protocol n bps (fold lc_step ms lc_init))
     \<in> {Err LeaseNotFound, Err YieldProtocolNotWhitelisted}"
proof -
  have "whitelisted_yield_protocols (fold lc_step ms lc_init) = {}"
    using lease_contract.reach_inv [of ms] by (simp add: lc_inv_def)
  then show ?thesis
    by (simp add: deploy_escrow_to_yield_def bind_run load_lease_run is_yield_protocol_whitelisted_def throw_if_run
        split: option.splits)
qed

section \<open>Destroyed assets\<close>

lemma slash_finds_lease:
  assumes "execute_deposit_slash env p s = (Ok u, t)"
  shows "lease_instances s (op_lease_id p) \<noteq> None"
  by (rule deposit_slash_Ok [OF assms]) blast

text \<open>Reporting the asset of an active lease as destroyed can never succeed: the report terminates and
  archives the lease first and then slashes the deposit of a lease that is no longer there, and the error of
  the slash undoes everything. The deposit of a destroyed asset cannot be slashed this way.\<close>
theorem destroyed_report_fails:
  assumes "ap_condition p = Destroyed" "lease_instances s (ap_lease_id p) = Some l" "status l = LActive"
  shows "update_asset_condition_metadata env p registry s \<noteq> (Ok u, t)"
proof
  assume run: "update_asset_condition_metadata env p registry s = (Ok u, t)"
  have avail: "check_oracle_availability env key s = (Ok b, s') \<Longrightarrow> s' = s" for key b s s'
    by (simp add: check_oracle_availability_Ok)
  obtain s1 s2 n where s1: "lease_instances s1 = lease_instances s"
    and ending: "terminate_destroyed env (ap_lease_id p) (tenant l) s1 = (Ok (), s2)"
    and slash: "execute_deposit_slash env \<lparr>op_lease_id = ap_lease_id p, op_oracle_pubkey = ap_oracle_pubkey p,
        damage_severity = Catastrophic, op_nonce = n, op_timestamp = ledger_timestamp env,
        op_signature = ap_signature p\<rparr> s2 = (Ok u, t)"
    using run assms(2,3) unfolding update_asset_condition_metadata_def Let_def assms(1)
    by (auto simp: bind_Ok_iff throw_if_Ok_iff is_oracle_whitelisted_def get_oracle_nonce_def set_oracle_nonce_def
        verify_ed25519_signature_def call_unit_Ok_iff publish_Ok_iff load_lease_Ok_iff chk_w_Ok_iff
        dest!: staleness_check_Ok avail) (erule that [rotated], simp, simp)
  have "lease_instances s2 (ap_lease_id p) = None"
    using ending by (auto simp: terminate_destroyed_def Let_def bind_Ok_iff load_lease_Ok_iff throw_if_Ok_iff
        save_lease_instance_Ok_iff archive_lease_Ok_iff publish_Ok_iff)
  then show False
    using slash_finds_lease [OF slash] by simp
qed

text \<open>Witnesses. Lease 5 of the example, active; its tenant pays rent, is assessed, and both parties release the
  deposit.\<close>

definition lx_active :: lease_instance where
  "lx_active = (new_instance 2 (lx_params 500) 2000)\<lparr>status := LActive\<rparr>"

definition lx_books :: lc_state where
  "lx_books = lc_init\<lparr>lease_instances := [5 \<mapsto> lx_active]\<rparr>"

lemma lx_books_lease: "lease_instances lx_books 5 = Some lx_active"
  by (simp add: lx_books_def)

lemma lx_active_terms: "tenant lx_active = 3" "landlord lx_active = 2" "payment_token lx_active = 50"
  "total_deposit lx_active = 2500" "buyout_price lx_active = None" "status lx_active = LActive"
  by (simp_all add: lx_active_def new_instance_def lx_params_def total_deposit_def)

lemma returns_Ok: "fst (m s) = Ok x \<Longrightarrow> m s = (Ok x, snd (m s))"
  by (metis prod.collapse)

theorem mutual_release_splits_the_deposit_witness:
  "transfers (snd (mutual_deposit_release (lx_env 90000) 5 3 2 2000 500 lx_books))
     = [TokenTransfer 50 9 3 2000, TokenTransfer 50 9 2 500]"
proof -
  have "fst (mutual_deposit_release (lx_env 90000) 5 3 2 2000 500 lx_books) = Ok ()" by code_simp
  from mutual_release_splits_the_deposit [OF returns_Ok [of "mutual_deposit_release _ _ _ _ _ _", OF this] lx_books_lease]
  show ?thesis
    by (simp add: lx_active_terms lx_env_def) (simp add: lx_books_def lc_init_def transfers_def)
qed

theorem rent_payment_recorded_witness:
  "transfers (snd (pay_lease_instance_rent (lx_env 90000) 5 3 700 lx_books)) = [TokenTransfer 50 3 9 700]"
proof -
  have "fst (pay_lease_instance_rent (lx_env 90000) 5 3 700 lx_books) = Ok ()" by code_simp
  from rent_payment_recorded [OF returns_Ok [of "pay_lease_instance_rent _ _ _ _", OF this] lx_books_lease]
  show ?thesis
    by (simp add: lx_active_terms lx_env_def) (simp add: lx_books_def lc_init_def transfers_def)
qed

definition lx_checked :: lc_state where
  "lx_checked = snd (check_tenant_default (lx_env 150000) 5 lx_books)"

theorem late_fees_path_independent_witness:
  "lease_instances (snd (check_tenant_default (lx_env 200000) 5 lx_checked))
     = lease_instances (snd (check_tenant_default (lx_env 200000) 5 lx_books))"
proof -
  have "fst (check_tenant_default (lx_env 150000) 5 lx_books) = Ok 450030"
    "fst (check_tenant_default (lx_env 200000) 5 lx_checked) = Ok 700030"
    "fst (check_tenant_default (lx_env 200000) 5 lx_books) = Ok 700030" by code_simp+
  note runs = this [THEN returns_Ok [of "check_tenant_default _ _"]]
  show ?thesis
    by (rule conjunct1 [OF late_fees_path_independent [OF runs(1) [folded lx_checked_def] runs(2,3)]])
      (simp add: lx_env_def)
qed

theorem destroyed_report_fails_witness:
  "fst (update_asset_condition_metadata (lx_env 90000) \<lparr>ap_lease_id = 5, ap_oracle_pubkey = 71,
     ap_condition = Destroyed, ap_nonce = 1, ap_timestamp = 90000, ap_signature = 0\<rparr> 60 lx_books) \<noteq> Ok ()"
  using destroyed_report_fails [of "\<lparr>ap_lease_id = 5, ap_oracle_pubkey = 71,
     ap_condition = Destroyed, ap_nonce = 1, ap_timestamp = 90000, ap_signature = 0\<rparr>" lx_books lx_active
     "lx_env 90000" 60 "()"]
  by (metis asset_condition_payload.select_convs lx_active_terms(6) lx_books_lease prod.collapse)

end
