(* ===== verification/Contract_Archive.thy ===== *)
theory Contract_Archive
  imports Contract_Example
begin

text \<open>
  The queries of the lease contract: walking through the pages of archived leases, and the simulated
  termination against the real one.
\<close>

section \<open>Pages\<close>

text \<open>A client that follows the cursors: page after page from \<open>c\<close>, for at most \<open>n\<close> pages. \<open>None\<close> when a page
  fails or the pages are not enough.\<close>

fun walk :: "nat \<Rightarrow> int option \<Rightarrow> int \<Rightarrow> lc_state \<Rightarrow> historical_lease list option" where
  "walk 0 c limit s = None"
| "walk (Suc n) c limit s =
     (case fst (get_historical_leases_paginated c limit s) of
        Ok page \<Rightarrow> (case next_cursor page of
            None \<Rightarrow> Some (page_leases page)
          | Some c' \<Rightarrow> map_option (\<lambda>rest. page_leases page @ rest) (walk n (Some c') limit s))
      | _ \<Rightarrow> None)"

definition start_of :: "int option \<Rightarrow> int list \<Rightarrow> nat" where
  "start_of c xs = (case c of None \<Rightarrow> 0 | Some a \<Rightarrow> position_after a xs)"

lemma position_after_nth: "distinct xs \<Longrightarrow> i < length xs \<Longrightarrow> position_after (xs ! i) xs = Suc i"
proof (induction xs arbitrary: i)
  case (Cons x xs)
  then show ?case by (cases i) auto
qed simp

lemma map_filter_total: "set xs \<subseteq> dom f \<Longrightarrow> List.map_filter f xs = map (\<lambda>x. the (f x)) xs"
  by (induction xs) (auto simp: List.map_filter_simps)

lemma page_run:
  assumes "1 \<le> limit" "int (length (historical_index s)) + limit \<le> u32_max"
  shows "get_historical_leases_paginated c limit s =
    (let index = historical_index s; start = start_of c index; fin = min (start + nat limit) (length index) in
     if length index \<le> start then (Ok \<lparr>page_leases = [], next_cursor = None\<rparr>, s) else
     (Ok \<lparr>page_leases = List.map_filter (historical_leases s) (take (fin - start) (drop start index)),
       next_cursor = (if fin < length index then Some (index ! (fin - 1)) else None)\<rparr>, s))"
  using assms
  by (auto simp: get_historical_leases_paginated_def start_of_def bind_run chk_w_run is_u32_def Let_def
      nat_add_distrib split: option.splits)

lemma walk_from:
  assumes "distinct (historical_index s)" "set (historical_index s) \<subseteq> dom (historical_leases s)"
    and "1 \<le> limit" "int (length (historical_index s)) + limit \<le> u32_max"
  shows "length (historical_index s) - start_of c (historical_index s) < n \<Longrightarrow>
    walk n c limit s = Some (map (\<lambda>i. the (historical_leases s i)) (drop (start_of c (historical_index s)) (historical_index s)))"
proof (induction n arbitrary: c)
  case (Suc n)
  define index where "index = historical_index s"
  define start where "start = start_of c index"
  define fin where "fin = min (start + nat limit) (length index)"
  have total: "List.map_filter (historical_leases s) ys = map (\<lambda>i. the (historical_leases s i)) ys"
    if "set ys \<subseteq> set index" for ys
    using that assms(2) by (intro map_filter_total) (auto simp: index_def)
  show ?case
  proof (cases "length index \<le> start")
    case True
    then show ?thesis by (simp add: page_run assms(3,4) Let_def index_def start_def)
  next
    case False
    then have fin: "start < fin" using assms(3) by (auto simp: fin_def)
    have page: "get_historical_leases_paginated c limit s =
      (Ok \<lparr>page_leases = map (\<lambda>i. the (historical_leases s i)) (take (fin - start) (drop start index)),
       next_cursor = (if fin < length index then Some (index ! (fin - 1)) else None)\<rparr>, s)"
      using False by (subst page_run [OF assms(3,4)])
        (auto simp: Let_def index_def [symmetric] start_def [symmetric] fin_def [symmetric] intro!: total
          dest: in_set_takeD in_set_dropD)
    show ?thesis
    proof (cases "fin < length index")
      case True
      have cursor: "start_of (Some (index ! (fin - Suc 0))) index = fin"
        using position_after_nth [of index "fin - 1"] True fin assms(1) by (simp add: start_of_def index_def)
      have "walk n (Some (index ! (fin - 1))) limit s
          = Some (map (\<lambda>i. the (historical_leases s i)) (drop fin index))"
        using Suc.IH [of "Some (index ! (fin - 1))"] Suc.prems fin True
        by (simp add: cursor index_def [symmetric] start_def [symmetric])
      moreover have "take (fin - start) (drop start index) @ drop fin index = drop start index"
        using fin by (metis append_take_drop_id drop_drop le_add_diff_inverse2 less_imp_le)
      ultimately show ?thesis
        using page True by (simp add: index_def [symmetric] start_def [symmetric] flip: map_append)
    next
      case False
      then have "fin = length index" by (simp add: fin_def)
      then show ?thesis
        using page by (simp add: index_def [symmetric] start_def [symmetric])
    qed
  qed
qed simp


definition lx_archive :: lc_state where
  "lx_archive = lc_step (lx_lenv 90000, Ending (ExecuteEarlyTermination 5 3)) lx_state"

lemma lx_archive_run:
  "lx_archive = fold lc_step (lx_setup @ [(lx_lenv 90000, Ending (ExecuteEarlyTermination 5 3))]) lc_init"
  by (simp add: lx_archive_def lx_state_def)

lemma lx_archive_index: "historical_index lx_archive = [5]"
  by code_simp


text \<open>Ids archived twice break the pages. An id is free again once its lease is archived, so the index can
  hold it twice; the cursor is an id and is looked up at its first occurrence. When an id comes back after
  another one and is not the last, a client that reads page by page never gets to the end: it reads the same two
  records for ever, whatever number of pages it is willing to read, and never sees the last lease.\<close>
theorem reused_id_traps_the_client:
  assumes "historical_index s = [a, b, a, c]" "a \<noteq> b"
  shows "walk n None 1 s = None"
proof -
  have page: "\<exists>ls. fst (get_historical_leases_paginated x 1 s) = Ok \<lparr>page_leases = ls, next_cursor = Some y\<rparr>"
    if "(x, y) \<in> {(None, a), (Some a, b), (Some b, a)}" for x y
    using that assms(2) by (subst page_run) (auto simp: assms(1) u32_max_def start_of_def Let_def)
  have "walk n (Some a) 1 s = None \<and> walk n (Some b) 1 s = None" for n
    using page [of "Some a" b] page [of "Some b" a] by (induction n) (auto split: outcome.splits)
  then show ?thesis
    using page [of None a] by (cases n) auto
qed

theorem reused_id_traps_the_client_witness:
  "walk 1000 None 1 (lc_init\<lparr>historical_index := [5, 6, 5, 7]\<rparr>) = None"
  by (rule reused_id_traps_the_client [of _ 5 6 7]) simp_all

section \<open>Simulated and real termination\<close>

lemma simulate_termination_Ok:
  assumes "simulate_termination lid now s = (Ok r, s')" "lease_instances s lid = Some l" "now \<le> end_date l"
    and "0 \<le> total_deposit l"
  shows "sim_penalty_amount r = min (total_deposit l)
      (min (max 0 ((end_date l - now) * rent_per_sec l * 1000 div 10000)) (total_deposit l) + max (debt l) 0)
    \<and> sim_projected_refund r = total_deposit l - sim_penalty_amount r"
proof -
  define rem where "rem = (if now < end_date l then end_date l - now else 0)"
  have "rem = end_date l - now" using assms(3) by (simp add: rem_def)
  have "\<exists>pen. (if rem > 0 \<and> rent_per_sec l > 0 then
             bind (chk_i128 (rem * rent_per_sec l)) (\<lambda>remaining_value.
             bind (chk_i128 (remaining_value * 1000)) (\<lambda>scaled.
             return (min (tdiv scaled 10000) (total_deposit l))))
           else return 0) s = (Ok pen :: (lease_error, int) outcome, s)
     \<and> sim_penalty_amount r = min (pen + max (debt l) 0) (total_deposit l)
     \<and> sim_projected_refund r = total_deposit l - sim_penalty_amount r"
    using assms(1,2) unfolding simulate_termination_def Let_def rem_def total_deposit_def [symmetric]
    by (auto simp: bind_Ok_iff load_lease_Ok_iff chk_w_Ok_iff split: if_splits)
  then obtain pen where pen: "(if rem > 0 \<and> rent_per_sec l > 0 then
             bind (chk_i128 (rem * rent_per_sec l)) (\<lambda>remaining_value.
             bind (chk_i128 (remaining_value * 1000)) (\<lambda>scaled.
             return (min (tdiv scaled 10000) (total_deposit l))))
           else return 0) s = (Ok pen :: (lease_error, int) outcome, s)"
    and r: "sim_penalty_amount r = min (pen + max (debt l) 0) (total_deposit l)"
      "sim_projected_refund r = total_deposit l - sim_penalty_amount r" by blast
  have "pen = min (max 0 (rem * rent_per_sec l * 1000 div 10000)) (total_deposit l)"
  proof (cases "rem > 0 \<and> rent_per_sec l > 0")
    case True
    then have "0 < rem * rent_per_sec l" by simp
    then show ?thesis using pen True
      by (auto simp: bind_Ok_iff chk_w_Ok_iff tdiv_def pos_imp_zdiv_nonneg_iff max_def)
  next
    case False
    have "0 \<le> rem" using assms(3) by (simp add: \<open>rem = end_date l - now\<close>)
    then have "rem = 0 \<or> rent_per_sec l \<le> 0" using False by linarith
    then have "rem * rent_per_sec l \<le> 0" using \<open>0 \<le> rem\<close> by (auto intro: mult_nonneg_nonpos)
    then have "rem * rent_per_sec l * 1000 div 10000 \<le> 0" by (intro div_nonpos_pos_le0) simp_all
    then have "max 0 (rem * rent_per_sec l * 1000 div 10000) = 0" by (rule max_absorb1)
    moreover have "pen = 0" using pen False by (simp add: return_def)
    ultimately show ?thesis using assms(4) by (simp only: min_absorb1)
  qed
  from r [unfolded this \<open>rem = end_date l - now\<close>] show ?thesis
    unfolding min.commute [of "total_deposit l"] by blast
qed

text \<open>What the contract's simulation of a termination reports and what the termination does differ by the
  whole simulated penalty. In every reachable state where both calls succeed at the same time, the simulation
  splits the deposit into a deduction (a tenth of the remaining rent, plus debts, at most the deposit) and a
  projected refund, and the real termination pays the tenant the sum of the two.\<close>
theorem simulation_understates_the_refund:
  assumes run: "execute_early_termination env lid a (fold lc_step ms lc_init) = (Ok u, t)"
    and sim: "simulate_termination lid (ledger_timestamp env) (fold lc_step ms lc_init) = (Ok r, s')"
    and l: "lease_instances (fold lc_step ms lc_init) lid = Some l" "0 < total_deposit l"
  shows "let remaining = end_date l - ledger_timestamp env in
      sim_penalty_amount r = min (total_deposit l)
        (min (max 0 (remaining * rent_per_sec l * 1000 div 10000)) (total_deposit l) + max (debt l) 0)
    \<and> 0 \<le> sim_penalty_amount r \<and> 0 \<le> sim_projected_refund r
    \<and> transfers t = transfers (fold lc_step ms lc_init)
        @ [TokenTransfer (payment_token l) (current_contract env) (tenant l)
             (sim_projected_refund r + sim_penalty_amount r)]"
proof -
  have at: "ledger_timestamp env \<le> end_date l"
    "transfers t = transfers (fold lc_step ms lc_init) @ payouts env (payment_token l)
       [(tenant l, total_deposit l - min (early_due l (end_date l - ledger_timestamp env)) (total_deposit l)),
        (landlord l, min (early_due l (end_date l - ledger_timestamp env)) (total_deposit l))]"
    using early_termination_at [OF run l(1)] by (simp_all add: Let_def)
  have "plain_lease l" using lease_contract.reach_inv [of ms] l(1) by (simp add: lc_inv_def)
  then have free: "early_due l n = 0" for n by (simp add: plain_lease_def lease_core_def early_due_def)
  have dep: "0 \<le> total_deposit l" using l(2) by simp
  have paid: "transfers t = transfers (fold lc_step ms lc_init)
      @ [TokenTransfer (payment_token l) (current_contract env) (tenant l) (total_deposit l)]"
    using at(2) l(2) by (simp add: free)
  note sim' = simulate_termination_Ok [OF sim l(1) at(1) dep]
  then have total: "sim_projected_refund r + sim_penalty_amount r = total_deposit l" by simp
  have "0 \<le> min (total_deposit l) (min (max 0 x) (total_deposit l) + max (debt l) 0)" for x
    using dep by (simp add: min_def max_def)
  then have "0 \<le> sim_penalty_amount r" "0 \<le> sim_projected_refund r"
    using sim' by (simp_all only: le_diff_eq add_0_left min.cobounded1)
  then show ?thesis
    unfolding Let_def using conjunct1 [OF sim'] paid [folded total] by blast
qed

theorem simulation_understates_the_refund_witness:
  "transfers (snd (execute_early_termination (lx_env 90000) 5 3 lx_state)) = transfers lx_state
     @ [TokenTransfer 50 9 3 2500]
   \<and> fst (simulate_termination 5 90000 lx_state) = Ok \<lparr>sim_deposit_amount = 2500, sim_penalty_amount = 2500,
       sim_projected_refund = 0\<rparr>"
proof -
  have sim: "fst (simulate_termination 5 90000 lx_state) = Ok \<lparr>sim_deposit_amount = 2500, sim_penalty_amount = 2500,
       sim_projected_refund = 0\<rparr>" by code_simp
  have l: "lease_instances lx_state 5 = Some (new_instance 2 (lx_params 500) 2000)" by code_simp
  have dep: "0 < total_deposit (new_instance 2 (lx_params 500) 2000)"
    by (simp add: total_deposit_def new_instance_def lx_params_def)
  have early: "execute_early_termination (lx_env 90000) 5 3 lx_state
    = (Ok (), snd (execute_early_termination (lx_env 90000) 5 3 lx_state))"
    using lx_early by (metis prod.collapse)
  have sim': "simulate_termination 5 (ledger_timestamp (lx_env 90000)) lx_state = (Ok \<lparr>sim_deposit_amount = 2500,
       sim_penalty_amount = 2500, sim_projected_refund = 0\<rparr>, snd (simulate_termination 5 90000 lx_state))"
    using sim by (simp add: lx_env_def prod_eq_iff)
  show ?thesis
    using simulation_understates_the_refund [OF early [unfolded lx_state_def] sim' [unfolded lx_state_def]
        l [unfolded lx_state_def] dep] sim
    by (simp add: Let_def lx_state_def [symmetric]) (simp add: new_instance_def lx_params_def lx_env_def)
qed

end
