(* ===== verification/Timelock_Upgrade.thy ===== *)
theory Timelock_Upgrade
  imports Soroban_Host
begin

text \<open>
  \<^verbatim>\<open>contracts/leaseflow_contracts/src/timelock_upgrade.rs\<close>: upgrade proposals of a council of signers, with
  approvals, a waiting period and cancellation. The error strings of the source are the constructors of
  \<open>tl_error\<close>. A signer entry of the storage is only ever written as \<open>true\<close> or removed, so the entries are a
  set.
\<close>

section \<open>State\<close>

datatype proposal_status = Pending | Approved | Executed | Cancelled

datatype tl_error =
    AlreadyInitialized
  | NotAuthorizedSigner
  | ProposalNotFound
  | ProposalAlreadyExecuted
  | ProposalCancelled
  | AlreadyApproved
  | ProposalNotApproved
  | TimelockNotElapsed
  | ProposalAlreadyCancelled

record upgrade_proposal =
  up_proposal_id :: int
  up_proposer :: address
  up_new_wasm_hash :: bytes32
  up_description :: string
  up_status :: proposal_status
  up_created_at :: int
  up_approvals :: "address list"
  up_approval_count :: int
  up_required_approvals :: int
  up_execution_time :: int

datatype tl_event =
    UpgradeProposed int address bytes32 string int int
  | UpgradeApproved int address int int
  | UpgradeExecuted int bytes32 bytes32 int
  | UpgradeCancelled int address string int
  | SignerAdded address address int
  | SignerRemoved address address int

record tl_state = "tl_event host" +
  tl_proposals :: "int \<rightharpoonup> upgrade_proposal"
  tl_proposal_count :: "int option"
  tl_signers :: "address set"
  tl_duration :: "int option"
  tl_min_approvals :: "int option"
  tl_wasm_hash :: "bytes32 option"

type_synonym 'a tl = "(tl_state, tl_error, 'a) proc"

definition tl_init :: tl_state where
  "tl_init = \<lparr>events = [], calls = [], tl_proposals = Map.empty, tl_proposal_count = None, tl_signers = {},
     tl_duration = None, tl_min_approvals = None, tl_wasm_hash = None\<rparr>"

definition default_to :: "'a \<Rightarrow> 'a option \<Rightarrow> 'a" where
  "default_to d x = (case x of None \<Rightarrow> d | Some a \<Rightarrow> a)"

lemma default_to_simps [simp]: "default_to d None = d" "default_to d (Some a) = a"
  by (simp_all add: default_to_def)

section \<open>Operations\<close>

definition is_signer :: "address \<Rightarrow> bool tl" where
  "is_signer a = gets (\<lambda>s. a \<in> tl_signers s)"

definition require_signer :: "address \<Rightarrow> unit tl" where
  "require_signer a = bind (is_signer a) (\<lambda>ok. throw_if (\<not> ok) NotAuthorizedSigner)"

definition get_proposal :: "int \<Rightarrow> upgrade_proposal tl" where
  "get_proposal pid = bind (gets (\<lambda>s. tl_proposals s pid)) (\<lambda>x. ok_or x ProposalNotFound)"

definition get_timelock_duration :: "int tl" where
  "get_timelock_duration = gets (\<lambda>s. default_to 1209600 (tl_duration s))"

definition store_proposal :: "int \<Rightarrow> upgrade_proposal \<Rightarrow> unit tl" where
  "store_proposal pid p = modify (\<lambda>s. s\<lparr>tl_proposals := (tl_proposals s)(pid \<mapsto> p)\<rparr>)"

definition initialize_timelock :: "env \<Rightarrow> address \<Rightarrow> int \<Rightarrow> int \<Rightarrow> unit tl" where
  "initialize_timelock env a timelock_duration min_approvals =
     bind (require_auth env a) (\<lambda>_.
     bind (gets tl_duration) (\<lambda>known.
     bind (throw_if (known \<noteq> None) AlreadyInitialized) (\<lambda>_.
     let duration = (if timelock_duration > 0 then timelock_duration else 1209600);
         approvals = (if min_approvals > 0 then min_approvals else 3) in
     bind (modify (\<lambda>s. s\<lparr>tl_duration := Some duration, tl_min_approvals := Some approvals,
       tl_signers := insert a (tl_signers s), tl_proposal_count := Some 0\<rparr>)) (\<lambda>_.
     publish (SignerAdded a a (ledger_timestamp env))))))"

definition add_signer :: "env \<Rightarrow> address \<Rightarrow> address \<Rightarrow> unit tl" where
  "add_signer env caller new_signer =
     bind (require_auth env caller) (\<lambda>_.
     bind (require_signer caller) (\<lambda>_.
     bind (modify (\<lambda>s. s\<lparr>tl_signers := insert new_signer (tl_signers s)\<rparr>)) (\<lambda>_.
     publish (SignerAdded new_signer caller (ledger_timestamp env)))))"

definition remove_signer :: "env \<Rightarrow> address \<Rightarrow> address \<Rightarrow> unit tl" where
  "remove_signer env caller signer_to_remove =
     bind (require_auth env caller) (\<lambda>_.
     bind (require_signer caller) (\<lambda>_.
     bind (modify (\<lambda>s. s\<lparr>tl_signers := tl_signers s - {signer_to_remove}\<rparr>)) (\<lambda>_.
     publish (SignerRemoved signer_to_remove caller (ledger_timestamp env)))))"

definition propose_upgrade :: "env \<Rightarrow> address \<Rightarrow> bytes32 \<Rightarrow> string \<Rightarrow> int tl" where
  "propose_upgrade env a hash description =
     bind (require_auth env a) (\<lambda>_.
     bind (require_signer a) (\<lambda>_.
     bind (gets (\<lambda>s. default_to 0 (tl_proposal_count s))) (\<lambda>pid.
     bind get_timelock_duration (\<lambda>duration.
     bind (gets (\<lambda>s. default_to 3 (tl_min_approvals s))) (\<lambda>required.
     bind (chk_u64 (ledger_timestamp env + duration)) (\<lambda>execution_time.
     bind (store_proposal pid \<lparr>up_proposal_id = pid, up_proposer = a, up_new_wasm_hash = hash,
       up_description = description, up_status = Pending, up_created_at = ledger_timestamp env,
       up_approvals = [], up_approval_count = 0, up_required_approvals = required,
       up_execution_time = execution_time\<rparr>) (\<lambda>_.
     bind (chk_u64 (pid + 1)) (\<lambda>next_count.
     bind (modify (\<lambda>s. s\<lparr>tl_proposal_count := Some next_count\<rparr>)) (\<lambda>_.
     bind (publish (UpgradeProposed pid a hash description execution_time (ledger_timestamp env))) (\<lambda>_.
     return pid))))))))))"

definition approve_upgrade :: "env \<Rightarrow> address \<Rightarrow> int \<Rightarrow> unit tl" where
  "approve_upgrade env approver pid =
     bind (require_auth env approver) (\<lambda>_.
     bind (require_signer approver) (\<lambda>_.
     bind (get_proposal pid) (\<lambda>p.
     bind (throw_if (up_status p = Executed) ProposalAlreadyExecuted) (\<lambda>_.
     bind (throw_if (up_status p = Cancelled) ProposalCancelled) (\<lambda>_.
     bind (throw_if (approver \<in> set (up_approvals p)) AlreadyApproved) (\<lambda>_.
     bind (chk_u32 (up_approval_count p + 1)) (\<lambda>n.
     let p = p\<lparr>up_approvals := up_approvals p @ [approver], up_approval_count := n\<rparr>;
         p = (if n \<ge> up_required_approvals p then p\<lparr>up_status := Approved\<rparr> else p) in
     bind (store_proposal pid p) (\<lambda>_.
     publish (UpgradeApproved pid approver n (ledger_timestamp env))))))))))"

definition execute_upgrade :: "env \<Rightarrow> address \<Rightarrow> int \<Rightarrow> unit tl" where
  "execute_upgrade env executor pid =
     bind (require_auth env executor) (\<lambda>_.
     bind (get_proposal pid) (\<lambda>p.
     bind (throw_if (up_status p \<noteq> Approved) ProposalNotApproved) (\<lambda>_.
     bind (throw_if (ledger_timestamp env < up_execution_time p) TimelockNotElapsed) (\<lambda>_.
     bind (gets (\<lambda>s. default_to 0 (tl_wasm_hash s))) (\<lambda>old_hash.
     bind (call_unit env (UpdateWasm (up_new_wasm_hash p))) (\<lambda>_.
     bind (store_proposal pid (p\<lparr>up_status := Executed\<rparr>)) (\<lambda>_.
     bind (modify (\<lambda>s. s\<lparr>tl_wasm_hash := Some (up_new_wasm_hash p)\<rparr>)) (\<lambda>_.
     publish (UpgradeExecuted pid old_hash (up_new_wasm_hash p) (ledger_timestamp env))))))))))"

definition cancel_upgrade :: "env \<Rightarrow> address \<Rightarrow> int \<Rightarrow> string \<Rightarrow> unit tl" where
  "cancel_upgrade env canceller pid reason =
     bind (require_auth env canceller) (\<lambda>_.
     bind (require_signer canceller) (\<lambda>_.
     bind (get_proposal pid) (\<lambda>p.
     bind (throw_if (up_status p = Executed) ProposalAlreadyExecuted) (\<lambda>_.
     bind (throw_if (up_status p = Cancelled) ProposalAlreadyCancelled) (\<lambda>_.
     bind (store_proposal pid (p\<lparr>up_status := Cancelled\<rparr>)) (\<lambda>_.
     publish (UpgradeCancelled pid canceller reason (ledger_timestamp env))))))))"

section \<open>The contract as a system\<close>

datatype tl_call =
    InitializeTimelock address int int
  | AddSigner address address
  | RemoveSigner address address
  | ProposeUpgrade address bytes32 string
  | ApproveUpgrade address int
  | ExecuteUpgrade address int
  | CancelUpgrade address int string

fun tl_exec :: "env \<Rightarrow> tl_call \<Rightarrow> unit tl" where
  "tl_exec env (InitializeTimelock a d n) = initialize_timelock env a d n"
| "tl_exec env (AddSigner a b) = add_signer env a b"
| "tl_exec env (RemoveSigner a b) = remove_signer env a b"
| "tl_exec env (ProposeUpgrade a h x) = bind (propose_upgrade env a h x) (\<lambda>_. return ())"
| "tl_exec env (ApproveUpgrade a i) = approve_upgrade env a i"
| "tl_exec env (ExecuteUpgrade a i) = execute_upgrade env a i"
| "tl_exec env (CancelUpgrade a i r) = cancel_upgrade env a i r"

definition tl_step :: "env \<times> tl_call \<Rightarrow> tl_state \<Rightarrow> tl_state" where
  "tl_step m s = snd (invoke (tl_exec (fst m) (snd m)) s)"

section \<open>Effects\<close>

lemma require_signer_Ok_iff [proc_ok]:
  "require_signer a s = (Ok u, s') \<longleftrightarrow> a \<in> tl_signers s \<and> s' = s"
  by (auto simp: require_signer_def is_signer_def proc_ok)

lemma get_proposal_Ok_iff [proc_ok]:
  "get_proposal pid s = (Ok p, s') \<longleftrightarrow> tl_proposals s pid = Some p \<and> s' = s"
  by (auto simp: get_proposal_def proc_ok)

lemma store_proposal_Ok_iff [proc_ok]:
  "store_proposal pid p s = (Ok u, s') \<longleftrightarrow> s' = s\<lparr>tl_proposals := (tl_proposals s)(pid \<mapsto> p)\<rparr>"
  by (auto simp: store_proposal_def)

definition approved_by :: "address \<Rightarrow> upgrade_proposal \<Rightarrow> upgrade_proposal" where
  "approved_by a p = (let p = p\<lparr>up_approvals := up_approvals p @ [a], up_approval_count := up_approval_count p + 1\<rparr>
     in if up_required_approvals p \<le> up_approval_count p then p\<lparr>up_status := Approved\<rparr> else p)"

lemma approve_upgrade_Ok:
  "approve_upgrade env a pid s = (Ok u, t) \<Longrightarrow>
     \<exists>p ev. tl_proposals s pid = Some p \<and> a \<in> set (auths env) \<and> a \<in> tl_signers s
       \<and> up_status p \<noteq> Executed \<and> up_status p \<noteq> Cancelled \<and> a \<notin> set (up_approvals p)
       \<and> t = s\<lparr>tl_proposals := (tl_proposals s)(pid \<mapsto> approved_by a p), events := ev\<rparr>"
  unfolding approve_upgrade_def by (auto simp: proc_ok approved_by_def Let_def split del: if_split)

lemma execute_upgrade_Ok:
  "execute_upgrade env a pid s = (Ok u, t) \<Longrightarrow>
     \<exists>p ev. tl_proposals s pid = Some p \<and> up_status p = Approved \<and> up_execution_time p \<le> ledger_timestamp env
       \<and> t = s\<lparr>calls := calls s @ [UpdateWasm (up_new_wasm_hash p)],
           tl_proposals := (tl_proposals s)(pid \<mapsto> p\<lparr>up_status := Executed\<rparr>),
           tl_wasm_hash := Some (up_new_wasm_hash p), events := ev\<rparr>"
  unfolding execute_upgrade_def by (auto simp: proc_ok)

lemma cancel_upgrade_Ok:
  "cancel_upgrade env a pid r s = (Ok u, t) \<Longrightarrow>
     \<exists>p ev. tl_proposals s pid = Some p \<and> a \<in> tl_signers s \<and> up_status p \<noteq> Executed \<and> up_status p \<noteq> Cancelled
       \<and> t = s\<lparr>tl_proposals := (tl_proposals s)(pid \<mapsto> p\<lparr>up_status := Cancelled\<rparr>), events := ev\<rparr>"
  unfolding cancel_upgrade_def by (auto simp: proc_ok)

definition proposed :: "env \<Rightarrow> address \<Rightarrow> bytes32 \<Rightarrow> string \<Rightarrow> tl_state \<Rightarrow> upgrade_proposal" where
  "proposed env a h x s = \<lparr>up_proposal_id = default_to 0 (tl_proposal_count s), up_proposer = a,
     up_new_wasm_hash = h, up_description = x, up_status = Pending, up_created_at = ledger_timestamp env,
     up_approvals = [], up_approval_count = 0, up_required_approvals = default_to 3 (tl_min_approvals s),
     up_execution_time = ledger_timestamp env + default_to 1209600 (tl_duration s)\<rparr>"

lemma propose_upgrade_Ok:
  "propose_upgrade env a h x s = (Ok pid, t) \<Longrightarrow>
     a \<in> tl_signers s \<and> pid = default_to 0 (tl_proposal_count s) \<and>
     (\<exists>ev. t = s\<lparr>tl_proposals := (tl_proposals s)(pid \<mapsto> proposed env a h x s),
        tl_proposal_count := Some (pid + 1), events := ev\<rparr>)"
  unfolding propose_upgrade_def by (auto simp: proc_ok get_timelock_duration_def proposed_def)

lemma initialize_timelock_Ok:
  "initialize_timelock env a d n s = (Ok u, t) \<Longrightarrow>
     tl_duration s = None \<and> (\<exists>ev. t = s\<lparr>tl_duration := Some (if d > 0 then d else 1209600),
       tl_min_approvals := Some (if n > 0 then n else 3),
       tl_signers := insert a (tl_signers s), tl_proposal_count := Some 0, events := ev\<rparr>)"
  unfolding initialize_timelock_def Let_def
  by (simp add: proc_ok split del: if_split) blast

lemma signer_ops_Ok:
  "add_signer env a b s = (Ok u, t) \<Longrightarrow> \<exists>ev. t = s\<lparr>tl_signers := insert b (tl_signers s), events := ev\<rparr>"
  "remove_signer env a b s = (Ok u, t) \<Longrightarrow> \<exists>ev. t = s\<lparr>tl_signers := tl_signers s - {b}, events := ev\<rparr>"
  unfolding add_signer_def remove_signer_def by (auto simp: proc_ok)

end
