(* ===== verification/Timelock_Props.thy ===== *)
theory Timelock_Props
  imports Timelock_Upgrade
begin

text \<open>
  The invariant of the timelocked upgrades, the lifecycle of a proposal, and their properties.
\<close>

section \<open>Invariant\<close>

definition proposal_ok :: "int \<Rightarrow> upgrade_proposal \<Rightarrow> bool" where
  "proposal_ok i p \<longleftrightarrow> up_proposal_id p = i \<and> distinct (up_approvals p)
     \<and> up_approval_count p = int (length (up_approvals p)) \<and> 1 \<le> up_required_approvals p
     \<and> (up_status p = Pending \<longrightarrow> up_approval_count p < up_required_approvals p)
     \<and> (up_status p = Approved \<or> up_status p = Executed \<longrightarrow> up_required_approvals p \<le> up_approval_count p)
     \<and> up_created_at p < up_execution_time p"

definition executed :: "tl_state \<Rightarrow> int set" where
  "executed s = {i. \<exists>p. tl_proposals s i = Some p \<and> up_status p = Executed}"

text \<open>The updates of the contract's code are the executed proposals, one each.\<close>

definition updates_ok :: "tl_state \<Rightarrow> bool" where
  "updates_ok s \<longleftrightarrow> finite (executed s) \<and> length (calls s) = card (executed s)
     \<and> (\<forall>c \<in> set (calls s). \<exists>i \<in> executed s. c = UpdateWasm (up_new_wasm_hash (the (tl_proposals s i))))"

definition tl_inv :: "tl_state \<Rightarrow> bool" where
  "tl_inv s \<longleftrightarrow> (\<forall>i p. tl_proposals s i = Some p \<longrightarrow> proposal_ok i p \<and> i < default_to 0 (tl_proposal_count s))
     \<and> (case tl_duration s of
          None \<Rightarrow> tl_signers s = {} \<and> tl_proposals s = Map.empty \<and> tl_min_approvals s = None
        | Some d \<Rightarrow> 0 < d \<and> (\<exists>n. tl_min_approvals s = Some n \<and> 0 < n)
            \<and> (\<forall>i p. tl_proposals s i = Some p \<longrightarrow> up_execution_time p = up_created_at p + d))
     \<and> updates_ok s"

lemma proposal_ok_approved: "proposal_ok i p \<Longrightarrow> a \<notin> set (up_approvals p) \<Longrightarrow> up_status p \<noteq> Executed \<Longrightarrow>
    proposal_ok i (approved_by a p)"
  by (cases "up_status p") (auto simp: proposal_ok_def approved_by_def Let_def)

lemma executed_upd:
  "executed (s\<lparr>tl_proposals := (tl_proposals s)(i \<mapsto> p), events := ev\<rparr>)
     = (if up_status p = Executed then insert i (executed s) else executed s - {i})"
  by (auto simp: executed_def)

text \<open>A proposal that is stored in a status other than executed leaves the updates alone.\<close>

lemma updates_store:
  assumes "updates_ok s" "i \<notin> executed s" "up_status q \<noteq> Executed"
    and "t = s\<lparr>tl_proposals := (tl_proposals s)(i \<mapsto> q), events := ev\<rparr> \<or>
      t = s\<lparr>tl_proposals := (tl_proposals s)(i \<mapsto> q), tl_proposal_count := c, events := ev\<rparr>"
  shows "updates_ok t"
proof -
  have "executed t = executed s" "calls t = calls s"
    using assms(2-4) by (auto simp: executed_def split: if_splits)
  moreover have "tl_proposals t j = tl_proposals s j" if "j \<in> executed s" for j
    using that assms(2,4) by auto
  ultimately show ?thesis
    using assms(1) by (auto simp: updates_ok_def)
qed

lemma not_executed: "tl_proposals s i = Some p \<Longrightarrow> up_status p \<noteq> Executed \<Longrightarrow> i \<notin> executed s"
  by (simp add: executed_def)

lemma tl_inv_proposals:
  assumes "tl_inv s" "tl_proposals s i = Some p" "proposal_ok i q" "updates_ok t"
    and "(up_created_at q, up_execution_time q) = (up_created_at p, up_execution_time p)"
    and "tl_proposals t = (tl_proposals s)(i \<mapsto> q)" "tl_proposal_count t = tl_proposal_count s"
    and "tl_duration t = tl_duration s" "tl_signers t = tl_signers s" "tl_min_approvals t = tl_min_approvals s"
  shows "tl_inv t"
  using assms by (auto simp: tl_inv_def split: option.splits)

lemma approved_by_times [simp]:
  "up_created_at (approved_by a p) = up_created_at p" "up_execution_time (approved_by a p) = up_execution_time p"
  by (simp_all add: approved_by_def Let_def)

lemma approve_inv:
  assumes "approve_upgrade env a i s = (Ok u, t)" "tl_inv s"
  shows "tl_inv t"
proof -
  obtain p ev where p: "tl_proposals s i = Some p" "up_status p \<noteq> Executed" "up_status p \<noteq> Cancelled"
    "a \<notin> set (up_approvals p)"
    and t: "t = s\<lparr>tl_proposals := (tl_proposals s)(i \<mapsto> approved_by a p), events := ev\<rparr>"
    using approve_upgrade_Ok [OF assms(1)] by blast
  have "up_status (approved_by a p) \<noteq> Executed"
    using p(2) by (simp add: approved_by_def Let_def)
  then have upd: "updates_ok t"
    using updates_store [OF _ not_executed [OF p(1,2)] _ disjI1 [OF t]] assms(2) by (simp add: tl_inv_def)
  have ok: "proposal_ok i (approved_by a p)"
    using p assms(2) by (intro proposal_ok_approved) (auto simp: tl_inv_def)
  show ?thesis
    by (rule tl_inv_proposals [OF assms(2) p(1) ok upd]) (simp_all add: t)
qed

lemma cancel_inv:
  assumes "cancel_upgrade env a i r s = (Ok u, t)" "tl_inv s"
  shows "tl_inv t"
proof -
  obtain p ev where p: "tl_proposals s i = Some p" "up_status p \<noteq> Executed"
    and t: "t = s\<lparr>tl_proposals := (tl_proposals s)(i \<mapsto> p\<lparr>up_status := Cancelled\<rparr>), events := ev\<rparr>"
    using cancel_upgrade_Ok [OF assms(1)] by blast
  have upd: "updates_ok t"
    using updates_store [OF _ not_executed [OF p] _ disjI1 [OF t]] assms(2) by (simp add: tl_inv_def)
  have "proposal_ok i p" using p assms(2) by (simp add: tl_inv_def)
  then have ok: "proposal_ok i (p\<lparr>up_status := Cancelled\<rparr>)"
    by (simp add: proposal_ok_def)
  show ?thesis
    by (rule tl_inv_proposals [OF assms(2) p(1) ok upd]) (simp_all add: t)
qed

lemma execute_inv:
  assumes "execute_upgrade env a i s = (Ok u, t)" "tl_inv s"
  shows "tl_inv t"
proof -
  obtain p ev where p: "tl_proposals s i = Some p" "up_status p = Approved"
    and t: "t = s\<lparr>calls := calls s @ [UpdateWasm (up_new_wasm_hash p)],
           tl_proposals := (tl_proposals s)(i \<mapsto> p\<lparr>up_status := Executed\<rparr>),
           tl_wasm_hash := Some (up_new_wasm_hash p), events := ev\<rparr>"
    using execute_upgrade_Ok [OF assms(1)] by blast
  have old: "i \<notin> executed s" by (rule not_executed [OF p(1)]) (simp add: p(2))
  have new: "executed t = insert i (executed s)"
    by (auto simp: executed_def t)
  have same: "tl_proposals t j = tl_proposals s j" if "j \<in> executed s" for j
    using that old t by auto
  have calls: "calls t = calls s @ [UpdateWasm (up_new_wasm_hash (the (tl_proposals t i)))]"
    by (simp add: t)
  have upd: "updates_ok t"
    using assms(2) old same unfolding updates_ok_def tl_inv_def new calls by auto
  have "proposal_ok i p" using p assms(2) by (simp add: tl_inv_def)
  then have ok: "proposal_ok i (p\<lparr>up_status := Executed\<rparr>)"
    using p by (simp add: proposal_ok_def)
  show ?thesis
    by (rule tl_inv_proposals [OF assms(2) p(1) ok upd]) (simp_all add: t)
qed

lemma propose_inv:
  assumes "propose_upgrade env a h x s = (Ok i, t)" "tl_inv s"
  shows "tl_inv t"
proof -
  obtain ev where signer: "a \<in> tl_signers s" and i: "i = default_to 0 (tl_proposal_count s)"
    and t: "t = s\<lparr>tl_proposals := (tl_proposals s)(i \<mapsto> proposed env a h x s),
        tl_proposal_count := Some (i + 1), events := ev\<rparr>"
    using propose_upgrade_Ok [OF assms(1)] by blast
  obtain d n where d: "tl_duration s = Some d" "0 < d" and n: "tl_min_approvals s = Some n" "0 < n"
    using assms(2) signer by (auto simp: tl_inv_def split: option.splits)
  have ok: "proposal_ok i (proposed env a h x s)"
    using d n by (simp add: proposal_ok_def proposed_def i)
  have fresh: "tl_proposals s i = None"
    using assms(2) i by (auto simp: tl_inv_def dest: spec [of _ i])
  then have "updates_ok t"
    using updates_store [OF _ _ _ disjI2 [OF t]] assms(2) by (simp add: tl_inv_def executed_def proposed_def)
  moreover have "proposal_ok j p \<and> j < i + 1" if "tl_proposals t j = Some p" for j p
    using that assms(2) ok i by (fastforce simp: t tl_inv_def split: if_splits)
  moreover have "up_execution_time p = up_created_at p + d" if "tl_proposals t j = Some p" for j p
    using that assms(2) d(1) by (auto simp: t tl_inv_def proposed_def split: if_splits)
  ultimately show ?thesis
    using d n by (simp add: tl_inv_def t)
qed

lemma setup_inv:
  "initialize_timelock env a d n s = (Ok u, t) \<Longrightarrow> tl_inv s \<Longrightarrow> tl_inv t"
  "add_signer env a b s = (Ok u, t) \<Longrightarrow> tl_inv s \<Longrightarrow> tl_inv t"
  "remove_signer env a b s = (Ok u, t) \<Longrightarrow> tl_inv s \<Longrightarrow> tl_inv t"
proof -
  assume "initialize_timelock env a d n s = (Ok u, t)" "tl_inv s"
  with initialize_timelock_Ok [OF this(1)] show "tl_inv t"
    by (auto simp: tl_inv_def updates_ok_def executed_def)
next
  assume "add_signer env a b s = (Ok u, t)" and inv: "tl_inv s"
  then obtain ev where t: "t = s\<lparr>tl_signers := insert b (tl_signers s), events := ev\<rparr>"
    and "a \<in> tl_signers s"
    by (auto simp: add_signer_def proc_ok)
  with inv show "tl_inv t"
    by (auto simp: tl_inv_def updates_ok_def executed_def split: option.splits)
next
  assume "remove_signer env a b s = (Ok u, t)" and inv: "tl_inv s"
  then obtain ev where t: "t = s\<lparr>tl_signers := tl_signers s - {b}, events := ev\<rparr>"
    using signer_ops_Ok(2) by blast
  with inv show "tl_inv t"
    by (auto simp: tl_inv_def updates_ok_def executed_def split: option.splits)
qed

lemma tl_exec_inv: "tl_exec env m s = (Ok u, t) \<Longrightarrow> tl_inv s \<Longrightarrow> tl_inv t"
  by (cases m) (auto simp: bind_Ok_iff intro: setup_inv approve_inv cancel_inv execute_inv propose_inv)

lemma tl_step_inv: "tl_inv s \<Longrightarrow> tl_inv (tl_step m s)"
  by (cases "tl_exec (fst m) (snd m)" s rule: invoke_cases) (auto simp: tl_step_def dest: tl_exec_inv)

interpretation timelock: contract_system tl_inv tl_step tl_init
proof
  show "tl_inv (tl_step m s)" if "tl_inv s" for m s using that by (rule tl_step_inv)
qed (simp add: tl_init_def tl_inv_def updates_ok_def executed_def)

section \<open>Lifecycle\<close>

definition proposal_evolves :: "upgrade_proposal \<Rightarrow> upgrade_proposal \<Rightarrow> bool" where
  "proposal_evolves p q \<longleftrightarrow> (up_proposer q, up_new_wasm_hash q, up_description q, up_required_approvals q,
       up_created_at q, up_execution_time q)
     = (up_proposer p, up_new_wasm_hash p, up_description p, up_required_approvals p, up_created_at p,
       up_execution_time p)
     \<and> set (up_approvals p) \<subseteq> set (up_approvals q)
     \<and> (up_status p = Executed \<or> up_status p = Cancelled \<longrightarrow> q = p)
     \<and> (up_status p = Approved \<longrightarrow> up_status q \<noteq> Pending)"

lemma proposal_evolves_refl [simp]: "proposal_evolves p p"
  by (simp add: proposal_evolves_def)

lemma proposal_evolves_trans: "proposal_evolves p q \<Longrightarrow> proposal_evolves q r \<Longrightarrow> proposal_evolves p r"
  by (cases "up_status q") (auto simp: proposal_evolves_def)

definition proposals_evolve :: "tl_state \<Rightarrow> tl_state \<Rightarrow> bool" where
  "proposals_evolve s t \<longleftrightarrow> (\<forall>i p. tl_proposals s i = Some p \<longrightarrow>
     (\<exists>q. tl_proposals t i = Some q \<and> proposal_evolves p q))"

lemma proposals_evolve_upd:
  "tl_proposals t = (tl_proposals s)(i \<mapsto> q) \<Longrightarrow>
     (\<And>p. tl_proposals s i = Some p \<Longrightarrow> proposal_evolves p q) \<Longrightarrow> proposals_evolve s t"
  by (auto simp: proposals_evolve_def)

lemma proposals_evolve_same: "tl_proposals t = tl_proposals s \<Longrightarrow> proposals_evolve s t"
  by (simp add: proposals_evolve_def)

lemma tl_exec_evolves:
  assumes "tl_exec env m s = (Ok u, t)" "tl_inv s"
  shows "proposals_evolve s t"
proof (cases m)
  case (InitializeTimelock a d n)
  then show ?thesis using assms(1) by (auto dest!: initialize_timelock_Ok intro!: proposals_evolve_same)
next
  case (AddSigner a b)
  then show ?thesis using assms(1) by (auto dest!: signer_ops_Ok intro!: proposals_evolve_same)
next
  case (RemoveSigner a b)
  then show ?thesis using assms(1) by (auto dest!: signer_ops_Ok intro!: proposals_evolve_same)
next
  case (ProposeUpgrade a h x)
  then obtain i where run: "propose_upgrade env a h x s = (Ok i, t)"
    using assms(1) by (auto simp: bind_Ok_iff)
  have i: "i = default_to 0 (tl_proposal_count s)" and
    t: "tl_proposals t = (tl_proposals s)(i \<mapsto> proposed env a h x s)"
    using propose_upgrade_Ok [OF run] by auto
  have "tl_proposals s i = None"
    using assms(2) i by (auto simp: tl_inv_def dest: spec [of _ i])
  then show ?thesis
    by (intro proposals_evolve_upd [OF t]) simp
next
  case (ApproveUpgrade a i)
  then obtain p where p: "tl_proposals s i = Some p" "up_status p \<noteq> Executed" "up_status p \<noteq> Cancelled"
    and t: "tl_proposals t = (tl_proposals s)(i \<mapsto> approved_by a p)"
    using assms(1) approve_upgrade_Ok by fastforce
  then show ?thesis
    by (intro proposals_evolve_upd [OF t]) (auto simp: proposal_evolves_def approved_by_def Let_def)
next
  case (ExecuteUpgrade a i)
  then obtain p where p: "tl_proposals s i = Some p" "up_status p = Approved"
    and t: "tl_proposals t = (tl_proposals s)(i \<mapsto> p\<lparr>up_status := Executed\<rparr>)"
    using assms(1) execute_upgrade_Ok by fastforce
  then show ?thesis
    by (intro proposals_evolve_upd [OF t]) (simp add: proposal_evolves_def)
next
  case (CancelUpgrade a i r)
  then obtain p where p: "tl_proposals s i = Some p" "up_status p \<noteq> Executed" "up_status p \<noteq> Cancelled"
    and t: "tl_proposals t = (tl_proposals s)(i \<mapsto> p\<lparr>up_status := Cancelled\<rparr>)"
    using assms(1) cancel_upgrade_Ok by fastforce
  then show ?thesis
    by (intro proposals_evolve_upd [OF t]) (simp add: proposal_evolves_def)
qed

definition tl_le :: "tl_state \<Rightarrow> tl_state \<Rightarrow> bool" where
  "tl_le s t \<longleftrightarrow> (tl_inv s \<longrightarrow> tl_inv t \<and> proposals_evolve s t)"

lemma tl_le_step: "tl_le s (tl_step m s)"
  by (cases "tl_exec (fst m) (snd m)" s rule: invoke_cases)
    (auto simp: tl_le_def tl_step_def proposals_evolve_same dest: tl_exec_inv tl_exec_evolves)

lemma tl_le_trans: "tl_le a b \<Longrightarrow> tl_le b c \<Longrightarrow> tl_le a c"
  unfolding tl_le_def proposals_evolve_def by (meson proposal_evolves_trans)

interpretation proposal_life: monotone_system tl_le tl_step
proof
  show "tl_le s s" for s by (simp add: tl_le_def proposals_evolve_same)
qed (auto intro: tl_le_step tl_le_trans)

section \<open>Properties\<close>

text \<open>Only an execution updates the code, of an approved proposal whose waiting period is over.\<close>

lemma tl_step_update:
  assumes "tl_inv s" "t = tl_step (env, m) s" "calls t \<noteq> calls s"
  shows "\<exists>a i p. m = ExecuteUpgrade a i \<and> tl_proposals s i = Some p \<and> up_status p = Approved
    \<and> tl_duration s \<noteq> None \<and> up_execution_time p = up_created_at p + the (tl_duration s)
    \<and> up_execution_time p \<le> ledger_timestamp env
    \<and> up_required_approvals p \<le> int (card (set (up_approvals p)))
    \<and> calls t = calls s @ [UpdateWasm (up_new_wasm_hash p)]
    \<and> tl_proposals t = (tl_proposals s)(i \<mapsto> p\<lparr>up_status := Executed\<rparr>)"
proof (cases "tl_exec env m" s rule: invoke_cases)
  case (ok u s')
  then have t: "t = s'" and run: "tl_exec env m s = (Ok u, t)"
    using assms(2) by (simp_all add: tl_step_def)
  have "calls t = calls s" if "\<And>a i. m \<noteq> ExecuteUpgrade a i"
    using that run by (cases m) (auto simp: bind_Ok_iff dest!: initialize_timelock_Ok signer_ops_Ok
      propose_upgrade_Ok approve_upgrade_Ok cancel_upgrade_Ok)
  then obtain a i where m: "m = ExecuteUpgrade a i"
    using assms(3) by blast
  obtain p where p: "tl_proposals s i = Some p" "up_status p = Approved" "up_execution_time p \<le> ledger_timestamp env"
    "calls t = calls s @ [UpdateWasm (up_new_wasm_hash p)]"
    "tl_proposals t = (tl_proposals s)(i \<mapsto> p\<lparr>up_status := Executed\<rparr>)"
    using run m by (auto dest!: execute_upgrade_Ok)
  have "proposal_ok i p" "tl_duration s \<noteq> None" "up_execution_time p = up_created_at p + the (tl_duration s)"
    using assms(1) p(1) by (auto simp: tl_inv_def split: option.splits)
  with m p show ?thesis by (auto simp: proposal_ok_def distinct_card)
qed (use assms in \<open>simp add: tl_step_def\<close>)

text \<open>Claim C8. The contract's code changes only through executed proposals. In every reachable state each update of
  the code is the one of a proposal marked executed, there are exactly as many updates as executed proposals,
  and an executed proposal carries the approvals of as many different addresses as it required, at least one.
  A further call either updates nothing, or it executes an approved proposal, which carries as many approvals as
  it requires, at a ledger time that is at least the configured duration of the timelock after the creation of
  the proposal; the code is updated to the hash that was proposed, and the proposal is marked executed.\<close>
theorem updates_are_executed_proposals:
  assumes "s = fold tl_step ms tl_init" "t = tl_step (env, m) s"
  shows "length (calls s) = card (executed s)
    \<and> (\<forall>c \<in> set (calls s). \<exists>i p. tl_proposals s i = Some p \<and> up_status p = Executed
         \<and> c = UpdateWasm (up_new_wasm_hash p))
    \<and> (\<forall>i p. tl_proposals s i = Some p \<and> up_status p = Executed \<longrightarrow>
         1 \<le> up_required_approvals p \<and> up_required_approvals p \<le> int (card (set (up_approvals p)))
         \<and> up_created_at p < up_execution_time p)
    \<and> (calls t = calls s \<or> (\<exists>a i p d. m = ExecuteUpgrade a i \<and> tl_proposals s i = Some p
         \<and> up_status p = Approved \<and> up_required_approvals p \<le> int (card (set (up_approvals p)))
         \<and> tl_duration s = Some d \<and> 0 < d \<and> up_created_at p + d \<le> ledger_timestamp env
         \<and> calls t = calls s @ [UpdateWasm (up_new_wasm_hash p)]
         \<and> tl_proposals t = (tl_proposals s)(i \<mapsto> p\<lparr>up_status := Executed\<rparr>)))"
proof -
  have inv: "tl_inv s" using timelock.reach_inv [of ms] by (simp add: assms)
  then have upd: "updates_ok s" and ok: "\<And>i p. tl_proposals s i = Some p \<Longrightarrow> proposal_ok i p"
    and dur: "\<And>d. tl_duration s = Some d \<Longrightarrow> 0 < d"
    by (simp_all add: tl_inv_def)
  have "\<exists>i p. tl_proposals s i = Some p \<and> up_status p = Executed \<and> c = UpdateWasm (up_new_wasm_hash p)"
    if "c \<in> set (calls s)" for c
    using upd that by (fastforce simp: updates_ok_def executed_def)
  moreover have "1 \<le> up_required_approvals p \<and> up_required_approvals p \<le> int (card (set (up_approvals p)))
         \<and> up_created_at p < up_execution_time p" if "tl_proposals s i = Some p" "up_status p = Executed" for i p
    using ok [OF that(1)] that(2) by (simp add: proposal_ok_def distinct_card)
  moreover have "calls t = calls s \<or> (\<exists>a i p d. m = ExecuteUpgrade a i \<and> tl_proposals s i = Some p
         \<and> up_status p = Approved \<and> up_required_approvals p \<le> int (card (set (up_approvals p)))
         \<and> tl_duration s = Some d \<and> 0 < d \<and> up_created_at p + d \<le> ledger_timestamp env
         \<and> calls t = calls s @ [UpdateWasm (up_new_wasm_hash p)]
         \<and> tl_proposals t = (tl_proposals s)(i \<mapsto> p\<lparr>up_status := Executed\<rparr>))"
    using tl_step_update [OF inv assms(2)] dur by fastforce
  ultimately show ?thesis
    using upd by (auto simp: updates_ok_def)
qed

text \<open>Claim C38. A proposal keeps its content for ever. After any further calls it is still there, with the same proposer,
  code hash, description, required approvals and execution time; approvals are never taken back; and once it is
  executed or cancelled it does not change at all, so neither can follow the other.\<close>
theorem proposals_are_final:
  assumes "s = fold tl_step ms tl_init" "tl_proposals s i = Some p"
  shows "\<exists>q. tl_proposals (fold tl_step ms' s) i = Some q \<and> proposal_evolves p q"
  using proposal_life.run_le [of s ms'] timelock.reach_inv [of ms] assms
  by (auto simp: tl_le_def proposals_evolve_def)

definition tx_env :: "int \<Rightarrow> env" where
  "tx_env now = \<lparr>ledger_timestamp = now, ledger_sequence = now, auths = [1, 11, 12], current_contract = 9,
     ext = (\<lambda>cs c. Reply_unit)\<rparr>"

definition tx_run :: "(env \<times> tl_call) list" where
  "tx_run = [(tx_env 100, InitializeTimelock 1 1209600 3), (tx_env 200, AddSigner 1 11), (tx_env 200, AddSigner 1 12),
     (tx_env 200, ProposeUpgrade 1 77 []), (tx_env 200, ApproveUpgrade 1 0), (tx_env 200, ApproveUpgrade 11 0),
     (tx_env 200, ApproveUpgrade 12 0), (tx_env 1209800, ExecuteUpgrade 1 0)]"

text \<open>The council is as strong as its weakest member: any signer may add signers, at once and without
  approval. A single signer who adds two addresses of their own and approves with all three upgrades the code
  of a contract set up with a threshold of three.\<close>
theorem one_signer_is_enough:
  "calls (fold tl_step tx_run tl_init) = [UpdateWasm 77]
    \<and> tl_signers (fold tl_step (take 1 tx_run) tl_init) = {1}
    \<and> tl_min_approvals (fold tl_step (take 1 tx_run) tl_init) = Some 3"
  by (intro conjI; code_simp)

theorem updates_are_executed_proposals_witness:
  "\<exists>a i p d. ExecuteUpgrade 1 0 = ExecuteUpgrade a i \<and> tl_proposals (fold tl_step (take 7 tx_run) tl_init) i = Some p
     \<and> tl_duration (fold tl_step (take 7 tx_run) tl_init) = Some d \<and> up_created_at p + d \<le> 1209800
     \<and> calls (tl_step (tx_env 1209800, ExecuteUpgrade 1 0) (fold tl_step (take 7 tx_run) tl_init))
         = [UpdateWasm (up_new_wasm_hash p)]"
proof -
  have calls: "calls (fold tl_step (take 7 tx_run) tl_init) = []"
    "calls (tl_step (tx_env 1209800, ExecuteUpgrade 1 0) (fold tl_step (take 7 tx_run) tl_init)) \<noteq> []"
    by code_simp+
  have now: "ledger_timestamp (tx_env 1209800) = 1209800" by code_simp
  show ?thesis
    using updates_are_executed_proposals
      [OF refl refl, of "take 7 tx_run" "tx_env 1209800" "ExecuteUpgrade 1 0"] calls
    unfolding now by fastforce
qed

theorem proposals_are_final_witness:
  "\<exists>p q. tl_proposals (fold tl_step tx_run tl_init) 0 = Some p
     \<and> tl_proposals (fold tl_step [(tx_env 1209900, CancelUpgrade 1 0 [])] (fold tl_step tx_run tl_init)) 0 = Some q
     \<and> proposal_evolves p q"
proof -
  have "tl_proposals (fold tl_step tx_run tl_init) 0 \<noteq> None" by code_simp
  then obtain p where "tl_proposals (fold tl_step tx_run tl_init) 0 = Some p" by blast
  with proposals_are_final [OF refl this] show ?thesis by blast
qed

end
