(* ===== verification/Escrow_Vault.thy ===== *)
theory Escrow_Vault
  imports Soroban_Host
begin

text \<open>
  \<^verbatim>\<open>contracts/leaseflow_contracts/src/escrow_vault.rs\<close>: escrow entries under the sequence number of the ledger,
  slashes, releases and arrears on locked entries, and the freeze of the security council. The source moves
  the entry into the map before it reads its token; the model reads the token of the entry moved. The topics of
  the events (a symbol and the id or time) are left out.
\<close>

section \<open>State\<close>

datatype escrow_error =
    EUnauthorized
  | EscrowFrozen
  | EscrowNotFound
  | EInvalidInput
  | InsufficientFunds
  | AlreadyReleased
  | TransferFailed
  | InvalidStatus

record escrow_entry =
  ee_escrow_id :: int
  ee_depositor :: address
  ee_beneficiary :: address
  ee_amount :: int
  ee_token :: address
  ee_purpose :: string
  ee_status :: string
  ee_created_at :: int
  ee_lock_until :: int
  ee_conditions_met :: bool
  ee_release_signature :: "bytes32 option"
  ee_lease_id :: "int option"

datatype escrow_event =
    EmergencyEscrowFreezeActivated address int string
  | EmergencyEscrowFreezeLifted address int int
  | EscrowDepositInitialized int address address int address int
  | EscrowOracleSlashExecuted int int address int
  | EscrowMutualRelease int address int int
  | EscrowArrearsDeducted int int address int

record ev_state = "escrow_event host" +
  ev_admin :: "address option"
  ev_council :: "address option"
  ev_frozen :: "bool option"
  ev_freeze_timestamp :: "int option"
  ev_version :: "string option"
  ev_escrows :: "(int, escrow_entry) sdk_map option"

type_synonym 'a ev = "(ev_state, escrow_error, 'a) proc"

definition ev_init :: ev_state where
  "ev_init = \<lparr>events = [], calls = [], ev_admin = None, ev_council = None, ev_frozen = None,
     ev_freeze_timestamp = None, ev_version = None, ev_escrows = None\<rparr>"

section \<open>Operations\<close>

definition vault_initialize :: "address \<Rightarrow> address \<Rightarrow> unit ev" where
  "vault_initialize a council =
     bind (gets ev_admin) (\<lambda>x. bind (throw_if (x \<noteq> None) EUnauthorized) (\<lambda>_.
     modify (\<lambda>s. s\<lparr>ev_admin := Some a, ev_council := Some council, ev_version := Some ''1.0.0'',
       ev_frozen := Some False, ev_escrows := Some map_empty\<rparr>)))"

definition is_escrow_frozen :: "bool ev" where
  "is_escrow_frozen = gets (\<lambda>s. ev_frozen s = Some True)"

definition check_freeze_status :: "unit ev" where
  "check_freeze_status = bind is_escrow_frozen (\<lambda>is_frozen. throw_if is_frozen EscrowFrozen)"

definition load_escrows :: "(int, escrow_entry) sdk_map ev" where
  "load_escrows = gets (\<lambda>s. case ev_escrows s of None \<Rightarrow> map_empty | Some m \<Rightarrow> m)"

definition store_escrows :: "(int, escrow_entry) sdk_map \<Rightarrow> unit ev" where
  "store_escrows m = modify (\<lambda>s. s\<lparr>ev_escrows := Some m\<rparr>)"

definition transfer_tokens :: "env \<Rightarrow> address \<Rightarrow> address \<Rightarrow> address \<Rightarrow> int \<Rightarrow> unit ev" where
  "transfer_tokens env tok src dst n = call_unit env (TokenTransfer tok src dst n)"

definition initialize_deposit :: "env \<Rightarrow> address \<Rightarrow> address \<Rightarrow> address \<Rightarrow> int \<Rightarrow> string \<Rightarrow> int \<Rightarrow> int option \<Rightarrow> int ev" where
  "initialize_deposit env depositor beneficiary tok n purpose lock_duration lid =
     bind check_freeze_status (\<lambda>_.
     bind (require_auth env depositor) (\<lambda>_.
     let current_time = ledger_timestamp env; escrow_id = ledger_sequence env in
     bind (chk_u64 (current_time + lock_duration)) (\<lambda>lock_until.
     let escrow = \<lparr>ee_escrow_id = escrow_id, ee_depositor = depositor, ee_beneficiary = beneficiary,
       ee_amount = n, ee_token = tok, ee_purpose = purpose, ee_status = ''pending'',
       ee_created_at = current_time, ee_lock_until = lock_until, ee_conditions_met = False,
       ee_release_signature = None, ee_lease_id = lid\<rparr> in
     bind load_escrows (\<lambda>escrows.
     bind (store_escrows (map_set escrow_id escrow escrows)) (\<lambda>_.
     bind (transfer_tokens env tok depositor (current_contract env) n) (\<lambda>_.
     bind (publish (EscrowDepositInitialized escrow_id depositor beneficiary n tok current_time)) (\<lambda>_.
     return escrow_id)))))))"

definition load_escrow :: "int \<Rightarrow> ((int, escrow_entry) sdk_map \<times> escrow_entry) ev" where
  "load_escrow i = bind load_escrows (\<lambda>m. bind (ok_or (map_get i m) EscrowNotFound) (\<lambda>e. return (m, e)))"

definition execute_oracle_slash :: "env \<Rightarrow> address \<Rightarrow> int \<Rightarrow> int \<Rightarrow> address \<Rightarrow> unit ev" where
  "execute_oracle_slash env oracle i n recipient =
     bind check_freeze_status (\<lambda>_.
     bind (require_auth env oracle) (\<lambda>_.
     bind (load_escrow i) (\<lambda>(escrows, escrow).
     bind (throw_if (ee_status escrow \<noteq> ''locked'') InvalidStatus) (\<lambda>_.
     bind (throw_if (n > ee_amount escrow) InsufficientFunds) (\<lambda>_.
     bind (chk_i128 (ee_amount escrow - n)) (\<lambda>rest.
     bind (store_escrows (map_set i (escrow\<lparr>ee_amount := rest\<rparr>) escrows)) (\<lambda>_.
     bind (transfer_tokens env (ee_token escrow) (current_contract env) recipient n) (\<lambda>_.
     publish (EscrowOracleSlashExecuted i n oracle (ledger_timestamp env))))))))))"

text \<open>The tail that release and arrears share: the entry is reduced, and released when nothing is left.\<close>

definition reduce_escrow :: "env \<Rightarrow> (int, escrow_entry) sdk_map \<Rightarrow> int \<Rightarrow> escrow_entry \<Rightarrow> int \<Rightarrow> address \<Rightarrow> unit ev" where
  "reduce_escrow env escrows i escrow n recipient =
     bind (throw_if (ee_status escrow \<noteq> ''locked'') InvalidStatus) (\<lambda>_.
     bind (throw_if (n > ee_amount escrow) InsufficientFunds) (\<lambda>_.
     bind (chk_i128 (ee_amount escrow - n)) (\<lambda>rest.
     let escrow = escrow\<lparr>ee_amount := rest\<rparr>;
         escrow = (if rest = 0 then escrow\<lparr>ee_status := ''released''\<rparr> else escrow) in
     bind (store_escrows (map_set i escrow escrows)) (\<lambda>_.
     transfer_tokens env (ee_token escrow) (current_contract env) recipient n))))"

definition execute_mutual_release :: "env \<Rightarrow> address \<Rightarrow> int \<Rightarrow> int \<Rightarrow> address \<Rightarrow> unit ev" where
  "execute_mutual_release env releaser i n recipient =
     bind check_freeze_status (\<lambda>_.
     bind (require_auth env releaser) (\<lambda>_.
     bind (load_escrow i) (\<lambda>(escrows, escrow).
     bind (throw_if (releaser \<noteq> ee_depositor escrow \<and> releaser \<noteq> ee_beneficiary escrow) EUnauthorized) (\<lambda>_.
     bind (reduce_escrow env escrows i escrow n recipient) (\<lambda>_.
     publish (EscrowMutualRelease i recipient n (ledger_timestamp env)))))))"

definition deduct_arrears :: "env \<Rightarrow> address \<Rightarrow> int \<Rightarrow> int \<Rightarrow> address \<Rightarrow> unit ev" where
  "deduct_arrears env collector i n recipient =
     bind check_freeze_status (\<lambda>_.
     bind (require_auth env collector) (\<lambda>_.
     bind (load_escrow i) (\<lambda>(escrows, escrow).
     bind (reduce_escrow env escrows i escrow n recipient) (\<lambda>_.
     publish (EscrowArrearsDeducted i n recipient (ledger_timestamp env))))))"

definition toggle_escrow_freeze :: "env \<Rightarrow> address \<Rightarrow> bool \<Rightarrow> string \<Rightarrow> unit ev" where
  "toggle_escrow_freeze env dao_member freeze reason =
     bind (gets ev_council) (\<lambda>c. bind (unwrap c) (\<lambda>council.
     bind (throw_if (dao_member \<noteq> council) EUnauthorized) (\<lambda>_.
     bind (require_auth env dao_member) (\<lambda>_.
     bind is_escrow_frozen (\<lambda>current_freeze_status.
     if freeze \<and> \<not> current_freeze_status then
       bind (modify (\<lambda>s. s\<lparr>ev_frozen := Some True, ev_freeze_timestamp := Some (ledger_timestamp env)\<rparr>)) (\<lambda>_.
       publish (EmergencyEscrowFreezeActivated dao_member (ledger_timestamp env) reason))
     else if \<not> freeze \<and> current_freeze_status then
       bind (gets (\<lambda>s. case ev_freeze_timestamp s of None \<Rightarrow> 0 | Some t \<Rightarrow> t)) (\<lambda>freeze_timestamp.
       bind (chk_u64 (ledger_timestamp env - freeze_timestamp)) (\<lambda>frozen_duration.
       bind (modify (\<lambda>s. s\<lparr>ev_frozen := Some False, ev_freeze_timestamp := None\<rparr>)) (\<lambda>_.
       publish (EmergencyEscrowFreezeLifted dao_member frozen_duration (ledger_timestamp env)))))
     else return ())))))"

definition get_escrow :: "int \<Rightarrow> escrow_entry ev" where
  "get_escrow i = bind load_escrows (\<lambda>m. ok_or (map_get i m) EscrowNotFound)"

definition get_freeze_timestamp :: "int option ev" where
  "get_freeze_timestamp = gets ev_freeze_timestamp"

definition set_dao_security_council :: "env \<Rightarrow> address \<Rightarrow> address \<Rightarrow> unit ev" where
  "set_dao_security_council env a new_dao_council =
     bind (gets ev_admin) (\<lambda>x. bind (unwrap x) (\<lambda>contract_admin.
     bind (throw_if (contract_admin \<noteq> a) EUnauthorized) (\<lambda>_.
     bind (require_auth env a) (\<lambda>_.
     modify (\<lambda>s. s\<lparr>ev_council := Some new_dao_council\<rparr>)))))"

definition get_version :: "string ev" where
  "get_version = gets (\<lambda>s. case ev_version s of None \<Rightarrow> ''1.0.0'' | Some v \<Rightarrow> v)"

section \<open>The contract as a system\<close>

datatype ev_call =
    VaultInitialize address address
  | InitializeDeposit address address address int string int "int option"
  | ExecuteOracleSlash address int int address
  | ExecuteMutualRelease address int int address
  | DeductArrears address int int address
  | ToggleEscrowFreeze address bool string
  | SetDaoSecurityCouncil address address

fun ev_exec :: "env \<Rightarrow> ev_call \<Rightarrow> unit ev" where
  "ev_exec env (VaultInitialize a c) = vault_initialize a c"
| "ev_exec env (InitializeDeposit a b t n p d l) = bind (initialize_deposit env a b t n p d l) (\<lambda>_. return ())"
| "ev_exec env (ExecuteOracleSlash a i n r) = execute_oracle_slash env a i n r"
| "ev_exec env (ExecuteMutualRelease a i n r) = execute_mutual_release env a i n r"
| "ev_exec env (DeductArrears a i n r) = deduct_arrears env a i n r"
| "ev_exec env (ToggleEscrowFreeze a f r) = toggle_escrow_freeze env a f r"
| "ev_exec env (SetDaoSecurityCouncil a c) = set_dao_security_council env a c"

definition ev_step :: "env \<times> ev_call \<Rightarrow> ev_state \<Rightarrow> ev_state" where
  "ev_step m s = snd (invoke (ev_exec (fst m) (snd m)) s)"

section \<open>Invariant\<close>

definition escrow_map :: "ev_state \<Rightarrow> (int, escrow_entry) sdk_map" where
  "escrow_map s = (case ev_escrows s of None \<Rightarrow> map_empty | Some m \<Rightarrow> m)"

definition all_pending :: "ev_state \<Rightarrow> bool" where
  "all_pending s \<longleftrightarrow> (\<forall>i e. map_get i (escrow_map s) = Some e \<longrightarrow> ee_status e = ''pending'')"

lemma check_freeze_Ok_iff [proc_ok]:
  "check_freeze_status s = (Ok u, s') \<longleftrightarrow> ev_frozen s \<noteq> Some True \<and> s' = s"
  by (auto simp: check_freeze_status_def is_escrow_frozen_def proc_ok)

lemma load_escrow_Ok_iff [proc_ok]:
  "load_escrow i s = (Ok r, s') \<longleftrightarrow> s' = s \<and> fst r = escrow_map s \<and> map_get i (escrow_map s) = Some (snd r)"
  by (cases r) (auto simp: load_escrow_def load_escrows_def escrow_map_def proc_ok)

text \<open>Nothing ever locks an entry, so the three operations on locked entries fail.\<close>

lemma locked_operations_fail:
  assumes "all_pending s"
  shows "execute_oracle_slash env a i n r s \<noteq> (Ok u, t)"
    "execute_mutual_release env a i n r s \<noteq> (Ok u, t)"
    "deduct_arrears env a i n r s \<noteq> (Ok u, t)"
  using assms
  by (auto simp: execute_oracle_slash_def execute_mutual_release_def deduct_arrears_def reduce_escrow_def
      proc_ok all_pending_def Let_def split: prod.splits)

definition deposit_entry ::
    "env \<Rightarrow> address \<Rightarrow> address \<Rightarrow> address \<Rightarrow> int \<Rightarrow> string \<Rightarrow> int \<Rightarrow> int option \<Rightarrow> escrow_entry" where
  "deposit_entry env a b tok n purpose d lid =
     \<lparr>ee_escrow_id = ledger_sequence env, ee_depositor = a, ee_beneficiary = b, ee_amount = n, ee_token = tok,
      ee_purpose = purpose, ee_status = ''pending'', ee_created_at = ledger_timestamp env,
      ee_lock_until = ledger_timestamp env + d, ee_conditions_met = False, ee_release_signature = None,
      ee_lease_id = lid\<rparr>"

lemma initialize_deposit_Ok:
  assumes "initialize_deposit env a b tok n p d l s = (Ok i, t)"
  shows "i = ledger_sequence env \<and> a \<in> set (auths env) \<and> ev_frozen s \<noteq> Some True
    \<and> (\<exists>ev. t = s\<lparr>ev_escrows := Some (map_set i (deposit_entry env a b tok n p d l) (escrow_map s)),
             calls := calls s @ [TokenTransfer tok a (current_contract env) n], events := ev\<rparr>)"
  using assms
  by (auto simp: initialize_deposit_def Let_def proc_ok load_escrows_def store_escrows_def transfer_tokens_def
      escrow_map_def [symmetric] deposit_entry_def)

lemma vault_initialize_Ok:
  "vault_initialize a c s = (Ok u, t) \<Longrightarrow> ev_admin s = None \<and> t = s\<lparr>ev_admin := Some a, ev_council := Some c,
     ev_version := Some ''1.0.0'', ev_frozen := Some False, ev_escrows := Some map_empty\<rparr>"
  by (auto simp: vault_initialize_def proc_ok)

lemma toggle_escrow_freeze_Ok:
  assumes "toggle_escrow_freeze env a freeze r s = (Ok u, t)"
  shows "ev_council s = Some a \<and> a \<in> set (auths env) \<and> escrow_map t = escrow_map s \<and> calls t = calls s
    \<and> ev_admin t = ev_admin s \<and> ev_council t = ev_council s \<and> (ev_frozen t = Some True \<longleftrightarrow> freeze)"
  using assms
  by (auto simp: toggle_escrow_freeze_def proc_ok is_escrow_frozen_def escrow_map_def split: if_splits)

lemma set_council_Ok:
  "set_dao_security_council env a c s = (Ok u, t) \<Longrightarrow>
     ev_admin s = Some a \<and> a \<in> set (auths env) \<and> t = s\<lparr>ev_council := Some c\<rparr>"
  by (auto simp: set_dao_security_council_def proc_ok)

lemmas ev_effects = initialize_deposit_Ok vault_initialize_Ok toggle_escrow_freeze_Ok set_council_Ok

text \<open>The invariant: every entry is pending, and an uninitialised vault is not frozen.\<close>

definition ev_inv :: "ev_state \<Rightarrow> bool" where
  "ev_inv s \<longleftrightarrow> all_pending s \<and> (ev_admin s = None \<longrightarrow> ev_frozen s \<noteq> Some True \<and> ev_council s = None)"

lemma ev_exec_inv:
  assumes "ev_exec env m s = (Ok u, t)" "ev_inv s"
  shows "ev_inv t"
proof -
  have pending: "all_pending s" using assms(2) by (simp add: ev_inv_def)
  note locked_operations_fail [OF pending, simp]
  show ?thesis
  proof (cases m)
    case (VaultInitialize a c)
    then show ?thesis using assms(1)
      by (auto dest!: vault_initialize_Ok simp: ev_inv_def all_pending_def escrow_map_def)
  next
    case (InitializeDeposit a b tok n p d l)
    then obtain i where "initialize_deposit env a b tok n p d l s = (Ok i, t)"
      using assms(1) by (auto simp: bind_Ok_iff)
    from initialize_deposit_Ok [OF this] show ?thesis
      using assms(2) by (auto simp: ev_inv_def all_pending_def escrow_map_def deposit_entry_def split: if_splits)
  next
    case (ToggleEscrowFreeze a f r)
    then show ?thesis using assms
      by (auto dest!: toggle_escrow_freeze_Ok simp: ev_inv_def all_pending_def)
  next
    case (SetDaoSecurityCouncil a c)
    then show ?thesis using assms
      by (auto dest!: set_council_Ok simp: ev_inv_def all_pending_def escrow_map_def)
  qed (use assms(1) in auto)
qed

text \<open>What a successful call adds to the calls of the vault, and what it does while the vault is frozen.\<close>

lemma ev_exec_calls:
  assumes "ev_exec env m s = (Ok u, t)" "ev_inv s"
  shows "calls t = calls s \<or> (\<exists>tok a n. calls t = calls s @ [TokenTransfer tok a (current_contract env) n])"
proof -
  have pending: "all_pending s" using assms(2) by (simp add: ev_inv_def)
  show ?thesis
    using assms(1) locked_operations_fail [OF pending]
    by (cases m) (auto simp: bind_Ok_iff dest!: ev_effects)
qed

lemma ev_exec_frozen:
  assumes "ev_exec env m s = (Ok u, t)" "ev_inv s" "ev_frozen s = Some True"
  shows "escrow_map t = escrow_map s \<and> calls t = calls s \<and> (ev_frozen t = Some True \<or>
    (\<exists>a r. m = ToggleEscrowFreeze a False r \<and> ev_council s = Some a \<and> a \<in> set (auths env)))"
proof -
  have "all_pending s" "ev_admin s \<noteq> None" using assms(2,3) by (auto simp: ev_inv_def)
  then show ?thesis
    using assms(1,3) locked_operations_fail [OF \<open>all_pending s\<close>]
    by (cases m) (auto simp: bind_Ok_iff escrow_map_def dest!: ev_effects)
qed

interpretation vault: contract_system ev_inv ev_step ev_init
proof
  show "ev_inv (ev_step m s)" if "ev_inv s" for m s
    by (cases "ev_exec (fst m) (snd m)" s rule: invoke_cases)
      (use that ev_exec_inv in \<open>auto simp: ev_step_def\<close>)
qed (simp add: ev_init_def ev_inv_def all_pending_def escrow_map_def)

section \<open>Properties\<close>

text \<open>Tokens enter the escrow vault and never leave it. No operation gives an entry the status that slashes,
  releases and arrears require, so in every reachable state these three operations fail, and every call the
  vault (at address \<open>vault\<close>) has ever made is a token transfer to itself.\<close>
theorem escrows_are_stuck:
  assumes "\<forall>(env, m) \<in> set ms. current_contract env = vault" "s = fold ev_step ms ev_init"
  shows "(\<forall>c \<in> set (calls s). \<exists>tok a n. c = TokenTransfer tok a vault n)
    \<and> execute_oracle_slash env a i n r s \<noteq> (Ok u, t)
    \<and> execute_mutual_release env a i n r s \<noteq> (Ok u, t) \<and> deduct_arrears env a i n r s \<noteq> (Ok u, t)"
proof -
  have "\<forall>c \<in> set (calls (fold ev_step ms s0)). \<exists>tok a n. c = TokenTransfer tok a vault n"
    if "ev_inv s0" "\<forall>c \<in> set (calls s0). \<exists>tok a n. c = TokenTransfer tok a vault n"
      "\<forall>(env, m) \<in> set ms. current_contract env = vault" for s0 ms
    using that
  proof (induction ms arbitrary: s0)
    case (Cons x ms)
    have "\<forall>c \<in> set (calls (ev_step x s0)). \<exists>tok a n. c = TokenTransfer tok a vault n"
      using Cons.prems ev_exec_calls [of "fst x" "snd x" s0]
      by (cases "ev_exec (fst x) (snd x)" s0 rule: invoke_cases) (fastforce simp: ev_step_def)+
    then show ?case
      using Cons.IH [OF vault.step_inv [OF Cons.prems(1)]] Cons.prems(3) by simp
  qed simp
  then have "\<forall>c \<in> set (calls s). \<exists>tok a n. c = TokenTransfer tok a vault n"
    using assms vault.init_inv by (auto simp: ev_init_def)
  moreover have "all_pending s" using vault.reach_inv [of ms] assms(2) by (simp add: ev_inv_def)
  ultimately show ?thesis by (simp add: locked_operations_fail)
qed

lemma frozen_operations_fail:
  assumes "ev_frozen s = Some True"
  shows "fst (initialize_deposit env a b tok n p d l s) = Err EscrowFrozen"
    "fst (execute_oracle_slash env a i n r s) = Err EscrowFrozen"
    "fst (execute_mutual_release env a i n r s) = Err EscrowFrozen"
    "fst (deduct_arrears env a i n r s) = Err EscrowFrozen"
  using assms by (simp_all add: initialize_deposit_def execute_oracle_slash_def execute_mutual_release_def
    deduct_arrears_def check_freeze_status_def is_escrow_frozen_def bind_run gets_run throw_if_run)

text \<open>Claim C18. A frozen vault stands still. From every reachable frozen state on, whatever calls come, as long as the
  security council does not lift the freeze, the vault stays frozen, its entries stay as they are and no token moves;
  deposits, slashes, releases and arrears are refused with \<^verbatim>\<open>EscrowFrozen\<close>, whoever asks for them. The freeze is lifted
  only by the address of the council at that time, with its authorisation.\<close>
theorem frozen_vault_stands_still:
  assumes "s = fold ev_step ms ev_init" "ev_frozen s = Some True"
    and "\<forall>m \<in> set ms'. \<forall>a r. snd m \<noteq> ToggleEscrowFreeze a False r" "t = fold ev_step ms' s"
  shows "ev_frozen t = Some True \<and> escrow_map t = escrow_map s \<and> calls t = calls s
    \<and> fst (initialize_deposit env a b tok n p d l t) = Err EscrowFrozen
    \<and> fst (execute_oracle_slash env a i n r t) = Err EscrowFrozen
    \<and> fst (execute_mutual_release env a i n r t) = Err EscrowFrozen
    \<and> fst (deduct_arrears env a i n r t) = Err EscrowFrozen
    \<and> (fst (toggle_escrow_freeze env a False p t) = Ok () \<longrightarrow> ev_council t = Some a \<and> a \<in> set (auths env))"
proof -
  have "ev_inv s" using vault.reach_inv [of ms] by (simp add: assms(1))
  then have still: "ev_inv t \<and> ev_frozen t = Some True \<and> escrow_map t = escrow_map s \<and> calls t = calls s"
    using assms(2,3) unfolding assms(4)
  proof (induction ms' arbitrary: s)
    case (Cons m ms')
    have "ev_frozen (ev_step m s) = Some True \<and> escrow_map (ev_step m s) = escrow_map s \<and> calls (ev_step m s) = calls s"
      using Cons.prems ev_exec_frozen [of "fst m" "snd m" s]
      by (cases "ev_exec (fst m) (snd m)" s rule: invoke_cases) (auto simp: ev_step_def)
    then show ?case using Cons.IH [of "ev_step m s"] Cons.prems(1,3) vault.step_inv by simp
  qed simp
  have "ev_council t = Some a \<and> a \<in> set (auths env)" if "fst (toggle_escrow_freeze env a False p t) = Ok ()"
  proof -
    have "toggle_escrow_freeze env a False p t = (Ok (), snd (toggle_escrow_freeze env a False p t))"
      using that by (metis prod.collapse)
    from toggle_escrow_freeze_Ok [OF this] show ?thesis by blast
  qed
  then show ?thesis using still by (simp add: frozen_operations_fail)
qed

text \<open>Two deposits in one ledger share an id: the id of an escrow is the sequence number of the ledger, so
  the second deposit takes the place of the first. Both transfers have been made, but only the second deposit
  is on record; the first has no entry left.\<close>
theorem same_ledger_deposit_lost:
  assumes first: "initialize_deposit env a b tok n p d l s = (Ok i, s1)"
    and second: "initialize_deposit env' a' b' tok' n' p' d' l' s1 = (Ok j, t)"
    and ledger: "ledger_sequence env' = ledger_sequence env"
  shows "j = i \<and> escrow_map t = map_set i (deposit_entry env' a' b' tok' n' p' d' l') (escrow_map s)
    \<and> calls t = calls s @ [TokenTransfer tok a (current_contract env) n,
         TokenTransfer tok' a' (current_contract env') n']"
  using initialize_deposit_Ok [OF first] initialize_deposit_Ok [OF second] ledger
  by (auto simp: escrow_map_def)

definition vx_env :: "int \<Rightarrow> env" where
  "vx_env now = \<lparr>ledger_timestamp = now, ledger_sequence = 5, auths = [1, 2, 3], current_contract = 9,
     ext = (\<lambda>cs c. Reply_unit)\<rparr>"

definition vx_run :: "(env \<times> ev_call) list" where
  "vx_run = [(vx_env 100, VaultInitialize 1 2), (vx_env 100, InitializeDeposit 3 4 50 700 [] 10 None),
     (vx_env 100, ToggleEscrowFreeze 2 True [])]"

lemma vx_run_calls: "calls (fold ev_step vx_run ev_init) = [TokenTransfer 50 3 9 700]"
  by code_simp

theorem escrows_are_stuck_witness:
  "fst (execute_mutual_release (vx_env 200) 3 5 700 3 (fold ev_step vx_run ev_init)) \<noteq> Ok ()
    \<and> calls (fold ev_step vx_run ev_init) = [TokenTransfer 50 3 9 700]"
proof -
  have "\<forall>(env, m) \<in> set vx_run. current_contract env = 9" by (simp add: vx_run_def vx_env_def)
  from escrows_are_stuck [OF this refl, of "vx_env 200" 3 5 700 3 "()"
      "snd (execute_mutual_release (vx_env 200) 3 5 700 3 (fold ev_step vx_run ev_init))"]
  show ?thesis using vx_run_calls by (metis prod.collapse)
qed

theorem frozen_vault_stands_still_witness:
  "calls (fold ev_step [(vx_env 200, InitializeDeposit 3 4 50 700 [] 10 None)] (fold ev_step vx_run ev_init))
     = [TokenTransfer 50 3 9 700]"
proof -
  have "ev_frozen (fold ev_step vx_run ev_init) = Some True" by code_simp
  from frozen_vault_stands_still [OF refl this _ refl, of "[(vx_env 200, InitializeDeposit 3 4 50 700 [] 10 None)]"]
  show ?thesis by (simp add: vx_run_calls)
qed

theorem same_ledger_deposit_lost_witness:
  "map_option ee_amount (map_get 5 (escrow_map (snd (initialize_deposit (vx_env 100) 3 4 50 80 [] 10 None
     (snd (initialize_deposit (vx_env 100) 3 4 50 700 [] 10 None ev_init)))))) = Some 80"
proof -
  have "initialize_deposit (vx_env 100) 3 4 50 700 [] 10 None ev_init
      = (Ok 5, snd (initialize_deposit (vx_env 100) 3 4 50 700 [] 10 None ev_init))"
    "initialize_deposit (vx_env 100) 3 4 50 80 [] 10 None
        (snd (initialize_deposit (vx_env 100) 3 4 50 700 [] 10 None ev_init))
      = (Ok 5, snd (initialize_deposit (vx_env 100) 3 4 50 80 [] 10 None
          (snd (initialize_deposit (vx_env 100) 3 4 50 700 [] 10 None ev_init))))"
    by (simp_all add: prod_eq_iff initialize_deposit_def vx_env_def ev_init_def check_freeze_status_def
        is_escrow_frozen_def bind_run require_auth_run chk_w_run load_escrows_def store_escrows_def
        transfer_tokens_def call_unit_run publish_run Let_def throw_if_run range_defs int_bounds)
  from same_ledger_deposit_lost [OF this refl] show ?thesis
    by (simp add: deposit_entry_def)
qed

end
