(* ===== verification/Escrow_Ledger.thy ===== *)
theory Escrow_Ledger
  imports Rust_Arith
begin

text \<open>
  \<^verbatim>\<open>contracts/leaseflow_contracts/src/escrow_invariant.rs\<close>: the ledger of escrowed funds (active deposits, pending
  yield, disputed funds and their total) that verifies its own solvency after every update before it saves
  itself. A method works on \<open>self\<close>, the ledger in memory, and writes the stored one with \<open>save\<close>; both are kept
  in the state. The nested \<^verbatim>\<open>safe_add\<close> of the report passes a result where a number is expected; it is read as
  the sum that is absent when either addition overflows.
\<close>

section \<open>State\<close>

record escrow_invariant =
  iv_total_escrowed :: int
  iv_active_deposits :: int
  iv_pending_yield :: int
  iv_disputed_funds :: int
  iv_vault_total_locked :: int
  iv_lease_count :: int
  iv_precision_loss_cumulative :: int
  iv_dust_cumulative :: int

datatype invariant_violation =
    CoreInvariantViolated int int int int int int int
  | VaultSynchronizationLost int int
  | NegativeComponentValues int int int int int
  | LeaseCountMismatch int int
  | NegativeDepositAmount int
  | NegativeYieldAmount int
  | NegativeDisputeAmount int
  | NegativeSettlementAmounts int int int
  | NegativeReleaseAmounts int int
  | InsufficientActiveDeposits int int
  | InsufficientFundsForDispute int int
  | InsufficientFundsForSettlement int int
  | MutualReleaseMathMismatch int int int int
  | ComponentSumMismatch int int int int int
  | DustAccountingError int int int
  | InvalidSlashPercentage int
  | SlashExceedsTotal int int
  | CalculationOverflow

record invariant_report =
  ir_total_escrowed :: int
  ir_active_deposits :: int
  ir_pending_yield :: int
  ir_disputed_funds :: int
  ir_vault_total_locked :: int
  ir_lease_count :: int
  ir_precision_loss_cumulative :: int
  ir_dust_cumulative :: int
  ir_component_sum :: int
  ir_invariant_holds :: bool
  ir_vault_synchronized :: bool
  ir_all_components_non_negative :: bool

record ledger_state =
  self :: escrow_invariant
  stored :: "escrow_invariant option"

type_synonym 'a iv = "(ledger_state, invariant_violation, 'a) proc"

definition new_invariant :: escrow_invariant where
  "new_invariant = \<lparr>iv_total_escrowed = 0, iv_active_deposits = 0, iv_pending_yield = 0, iv_disputed_funds = 0,
     iv_vault_total_locked = 0, iv_lease_count = 0, iv_precision_loss_cumulative = 0, iv_dust_cumulative = 0\<rparr>"

definition load_invariant :: "unit iv" where
  "load_invariant = modify (\<lambda>s. s\<lparr>self := case stored s of None \<Rightarrow> new_invariant | Some i \<Rightarrow> i\<rparr>)"

definition save_invariant :: "unit iv" where
  "save_invariant = modify (\<lambda>s. s\<lparr>stored := Some (self s)\<rparr>)"

section \<open>Arithmetic helpers\<close>

definition safe_add :: "int \<Rightarrow> int \<Rightarrow> int iv" where
  "safe_add a b = ok_or (checked_i128 (a + b)) CalculationOverflow"

definition safe_sub :: "int \<Rightarrow> int \<Rightarrow> int iv" where
  "safe_sub a b = ok_or (checked_i128 (a - b)) CalculationOverflow"

definition safe_mul :: "int \<Rightarrow> int \<Rightarrow> int iv" where
  "safe_mul a b = ok_or (checked_i128 (a * b)) CalculationOverflow"

definition simulate_soroban_precision_loss :: "int \<Rightarrow> int" where
  "simulate_soroban_precision_loss n = (if n > 0 then tdiv n 1000000 else 0)"

definition calculate_settlement_dust :: "int \<Rightarrow> int \<Rightarrow> int" where
  "calculate_settlement_dust total_settlement escrowed =
     (if total_settlement = escrowed then 0 else escrowed - total_settlement)"

definition calculate_settlement_sources :: "int \<Rightarrow> int \<Rightarrow> int \<Rightarrow> int \<Rightarrow> int \<times> int \<times> int" where
  "calculate_settlement_sources total_settlement disputed pending active =
     (let from_disputed = min total_settlement disputed;
          remaining = total_settlement - from_disputed;
          from_pending = min remaining pending;
          final_remaining = remaining - from_pending;
          from_active = min final_remaining active
      in (from_disputed, from_pending, from_active))"

text \<open>\<open>adjust get put f\<close> is the assignment \<^verbatim>\<open>self.x = f(self.x)?\<close> to one field.\<close>

definition adjust :: "(escrow_invariant \<Rightarrow> int) \<Rightarrow> ((int \<Rightarrow> int) \<Rightarrow> escrow_invariant \<Rightarrow> escrow_invariant)
    \<Rightarrow> (int \<Rightarrow> int iv) \<Rightarrow> unit iv" where
  "adjust get put f = bind (gets (get \<circ> self)) (\<lambda>x. bind (f x) (\<lambda>y.
     modify (\<lambda>s. s\<lparr>self := put (\<lambda>_. y) (self s)\<rparr>)))"

section \<open>Operations\<close>

definition verify_core_invariant :: "unit iv" where
  "verify_core_invariant =
     bind (gets self) (\<lambda>i.
     bind (ok_or (case checked_i128 (iv_active_deposits i + iv_pending_yield i) of None \<Rightarrow> None
       | Some x \<Rightarrow> checked_i128 (x + iv_disputed_funds i)) CalculationOverflow) (\<lambda>calculated_total.
     bind (throw_if (calculated_total \<noteq> iv_total_escrowed i) (CoreInvariantViolated (iv_total_escrowed i)
       calculated_total (iv_active_deposits i) (iv_pending_yield i) (iv_disputed_funds i)
       (iv_precision_loss_cumulative i) (iv_dust_cumulative i))) (\<lambda>_.
     bind (throw_if (iv_vault_total_locked i \<noteq> iv_total_escrowed i)
       (VaultSynchronizationLost (iv_vault_total_locked i) (iv_total_escrowed i))) (\<lambda>_.
     bind (throw_if (iv_total_escrowed i < 0 \<or> iv_active_deposits i < 0 \<or> iv_pending_yield i < 0
         \<or> iv_disputed_funds i < 0 \<or> iv_vault_total_locked i < 0)
       (NegativeComponentValues (iv_total_escrowed i) (iv_active_deposits i) (iv_pending_yield i)
         (iv_disputed_funds i) (iv_vault_total_locked i))) (\<lambda>_.
     throw_if (iv_lease_count i > 0 \<and> iv_total_escrowed i = 0)
       (LeaseCountMismatch (iv_lease_count i) (iv_total_escrowed i)))))))"

definition verify_and_save :: "unit iv" where
  "verify_and_save = bind verify_core_invariant (\<lambda>_. save_invariant)"

definition apply_lease_creation :: "int \<Rightarrow> unit iv" where
  "apply_lease_creation deposit =
     bind (throw_if (deposit < 0) (NegativeDepositAmount deposit)) (\<lambda>_.
     bind (adjust iv_total_escrowed iv_total_escrowed_update (\<lambda>x. safe_add x deposit)) (\<lambda>_.
     bind (adjust iv_active_deposits iv_active_deposits_update (\<lambda>x. safe_add x deposit)) (\<lambda>_.
     bind (adjust iv_vault_total_locked iv_vault_total_locked_update (\<lambda>x. safe_add x deposit)) (\<lambda>_.
     bind (adjust iv_lease_count iv_lease_count_update (\<lambda>n. chk_u64 (n + 1))) (\<lambda>_.
     bind (if deposit > 1000000 then
         adjust iv_precision_loss_cumulative iv_precision_loss_cumulative_update
           (\<lambda>x. safe_add x (simulate_soroban_precision_loss deposit))
       else return ()) (\<lambda>_.
     verify_and_save))))))"

definition apply_yield_accumulation :: "int \<Rightarrow> unit iv" where
  "apply_yield_accumulation yield_amount =
     bind (throw_if (yield_amount < 0) (NegativeYieldAmount yield_amount)) (\<lambda>_.
     bind (gets (iv_active_deposits \<circ> self)) (\<lambda>active.
     bind (throw_if (yield_amount > active) (InsufficientActiveDeposits yield_amount active)) (\<lambda>_.
     bind (adjust iv_active_deposits iv_active_deposits_update (\<lambda>x. safe_sub x yield_amount)) (\<lambda>_.
     bind (adjust iv_pending_yield iv_pending_yield_update (\<lambda>x. safe_add x yield_amount)) (\<lambda>_.
     bind (adjust iv_precision_loss_cumulative iv_precision_loss_cumulative_update
       (\<lambda>x. safe_add x (simulate_soroban_precision_loss yield_amount))) (\<lambda>_.
     verify_and_save))))))"

definition apply_dispute_initiation :: "int \<Rightarrow> unit iv" where
  "apply_dispute_initiation dispute =
     bind (throw_if (dispute < 0) (NegativeDisputeAmount dispute)) (\<lambda>_.
     bind (gets self) (\<lambda>i.
     bind (safe_add (iv_active_deposits i) (iv_pending_yield i)) (\<lambda>available.
     bind (throw_if (dispute > available) (InsufficientFundsForDispute dispute available)) (\<lambda>_.
     let from_pending = min dispute (iv_pending_yield i) in
     bind (safe_sub dispute from_pending) (\<lambda>from_active.
     bind (adjust iv_pending_yield iv_pending_yield_update (\<lambda>x. safe_sub x from_pending)) (\<lambda>_.
     bind (adjust iv_active_deposits iv_active_deposits_update (\<lambda>x. safe_sub x from_active)) (\<lambda>_.
     bind (adjust iv_disputed_funds iv_disputed_funds_update (\<lambda>x. safe_add x dispute)) (\<lambda>_.
     verify_and_save))))))))"

definition apply_lease_settlement :: "int \<Rightarrow> int \<Rightarrow> int \<Rightarrow> unit iv" where
  "apply_lease_settlement tenant_refund landlord_payout protocol_fee =
     bind (throw_if (tenant_refund < 0 \<or> landlord_payout < 0 \<or> protocol_fee < 0)
       (NegativeSettlementAmounts tenant_refund landlord_payout protocol_fee)) (\<lambda>_.
     bind (safe_add tenant_refund landlord_payout) (\<lambda>x.
     bind (safe_add x protocol_fee) (\<lambda>total_settlement.
     bind (gets self) (\<lambda>i.
     bind (throw_if (total_settlement > iv_total_escrowed i)
       (InsufficientFundsForSettlement total_settlement (iv_total_escrowed i))) (\<lambda>_.
     let dust = calculate_settlement_dust total_settlement (iv_total_escrowed i) in
     bind (adjust iv_dust_cumulative iv_dust_cumulative_update (\<lambda>x. safe_add x dust)) (\<lambda>_.
     let (from_disputed, from_pending, from_active) = calculate_settlement_sources total_settlement
       (iv_disputed_funds i) (iv_pending_yield i) (iv_active_deposits i) in
     bind (safe_add from_disputed from_pending) (\<lambda>x.
     bind (safe_add x from_active) (\<lambda>source_total.
     bind (throw_if (source_total \<noteq> total_settlement)
       (DustAccountingError total_settlement source_total dust)) (\<lambda>_.
     bind (adjust iv_disputed_funds iv_disputed_funds_update (\<lambda>x. safe_sub x from_disputed)) (\<lambda>_.
     bind (adjust iv_pending_yield iv_pending_yield_update (\<lambda>x. safe_sub x from_pending)) (\<lambda>_.
     bind (adjust iv_active_deposits iv_active_deposits_update (\<lambda>x. safe_sub x from_active)) (\<lambda>_.
     bind (adjust iv_total_escrowed iv_total_escrowed_update (\<lambda>x. safe_sub x total_settlement)) (\<lambda>_.
     bind (adjust iv_vault_total_locked iv_vault_total_locked_update (\<lambda>x. safe_sub x total_settlement)) (\<lambda>_.
     bind (if total_settlement > 0 then
         adjust iv_lease_count iv_lease_count_update (\<lambda>n. return (sat_u64 (n - 1)))
       else return ()) (\<lambda>_.
     verify_and_save)))))))))))))))"

definition apply_mutual_release :: "int \<Rightarrow> int \<Rightarrow> unit iv" where
  "apply_mutual_release return_amount slash_amount =
     bind (throw_if (return_amount < 0 \<or> slash_amount < 0) (NegativeReleaseAmounts return_amount slash_amount)) (\<lambda>_.
     bind (safe_add return_amount slash_amount) (\<lambda>total_release.
     bind (gets self) (\<lambda>i.
     bind (throw_if (total_release \<noteq> iv_total_escrowed i)
       (MutualReleaseMathMismatch (iv_total_escrowed i) total_release return_amount slash_amount)) (\<lambda>_.
     bind (safe_add (iv_active_deposits i) (iv_pending_yield i)) (\<lambda>x.
     bind (safe_add x (iv_disputed_funds i)) (\<lambda>component_sum.
     bind (throw_if (component_sum \<noteq> total_release) (ComponentSumMismatch total_release component_sum
       (iv_active_deposits i) (iv_pending_yield i) (iv_disputed_funds i))) (\<lambda>_.
     bind (modify (\<lambda>s. s\<lparr>self := (self s)\<lparr>iv_active_deposits := 0, iv_pending_yield := 0,
       iv_disputed_funds := 0, iv_total_escrowed := 0, iv_vault_total_locked := 0,
       iv_lease_count := sat_u64 (iv_lease_count (self s) - 1)\<rparr>\<rparr>)) (\<lambda>_.
     verify_and_save))))))))"

definition slash_share :: "int \<Rightarrow> int \<Rightarrow> int iv" where
  "slash_share funds slash_ratio = bind (chk_u128 (as_u128 funds * slash_ratio)) (\<lambda>x. return (x div 10000))"

definition apply_partial_slashing :: "int \<Rightarrow> unit iv" where
  "apply_partial_slashing bps =
     bind (throw_if (bps > 10000) (InvalidSlashPercentage bps)) (\<lambda>_.
     bind (gets self) (\<lambda>i.
     if iv_total_escrowed i = 0 then return () else
     bind (safe_mul (iv_total_escrowed i) bps) (\<lambda>raw_amount.
     let slash_amount = tdiv raw_amount 10000 in
     bind (throw_if (slash_amount > iv_total_escrowed i)
       (SlashExceedsTotal slash_amount (iv_total_escrowed i))) (\<lambda>_.
     bind (if iv_total_escrowed i > 0 then
         bind (chk_u128 (as_u128 slash_amount * 10000)) (\<lambda>x. return (x div as_u128 (iv_total_escrowed i)))
       else return 0) (\<lambda>slash_ratio.
     bind (slash_share (iv_active_deposits i) slash_ratio) (\<lambda>active_slash.
     bind (slash_share (iv_pending_yield i) slash_ratio) (\<lambda>pending_slash.
     bind (slash_share (iv_disputed_funds i) slash_ratio) (\<lambda>disputed_slash.
     bind (adjust iv_active_deposits iv_active_deposits_update (\<lambda>x. chk_i128 (x - as_i128 active_slash))) (\<lambda>_.
     bind (adjust iv_pending_yield iv_pending_yield_update (\<lambda>x. chk_i128 (x - as_i128 pending_slash))) (\<lambda>_.
     bind (adjust iv_disputed_funds iv_disputed_funds_update (\<lambda>x. chk_i128 (x - as_i128 disputed_slash))) (\<lambda>_.
     bind (adjust iv_total_escrowed iv_total_escrowed_update (\<lambda>x. chk_i128 (x - slash_amount))) (\<lambda>_.
     bind (adjust iv_vault_total_locked iv_vault_total_locked_update (\<lambda>x. chk_i128 (x - slash_amount))) (\<lambda>_.
     bind (safe_add (as_i128 active_slash) (as_i128 pending_slash)) (\<lambda>x.
     bind (safe_add x (as_i128 disputed_slash)) (\<lambda>actual_slash_total.
     bind (if actual_slash_total < slash_amount then
         bind (safe_sub slash_amount actual_slash_total) (\<lambda>truncation_dust.
         adjust iv_dust_cumulative iv_dust_cumulative_update (\<lambda>x. safe_add x truncation_dust))
       else return ()) (\<lambda>_.
     verify_and_save))))))))))))))))"

definition get_invariant_report :: "invariant_report iv" where
  "get_invariant_report =
     bind (gets self) (\<lambda>i. bind (attempt verify_core_invariant) (\<lambda>verified.
     return \<lparr>ir_total_escrowed = iv_total_escrowed i, ir_active_deposits = iv_active_deposits i,
       ir_pending_yield = iv_pending_yield i, ir_disputed_funds = iv_disputed_funds i,
       ir_vault_total_locked = iv_vault_total_locked i, ir_lease_count = iv_lease_count i,
       ir_precision_loss_cumulative = iv_precision_loss_cumulative i, ir_dust_cumulative = iv_dust_cumulative i,
       ir_component_sum = (case checked_i128 (iv_active_deposits i + iv_pending_yield i) of None \<Rightarrow> i128_min
         | Some x \<Rightarrow> (case checked_i128 (x + iv_disputed_funds i) of None \<Rightarrow> i128_min | Some y \<Rightarrow> y)),
       ir_invariant_holds = (verified = Inr ()),
       ir_vault_synchronized = (iv_vault_total_locked i = iv_total_escrowed i),
       ir_all_components_non_negative = (iv_total_escrowed i \<ge> 0 \<and> iv_active_deposits i \<ge> 0
         \<and> iv_pending_yield i \<ge> 0 \<and> iv_disputed_funds i \<ge> 0 \<and> iv_vault_total_locked i \<ge> 0)\<rparr>))"

text \<open>The functions of the contract around the ledger. They report every violation as \<open>InvalidDeduction\<close>.\<close>

datatype ledger_error = InvalidDeduction

definition initialize_invariant_tracking :: "(ledger_state, ledger_error, unit) proc" where
  "initialize_invariant_tracking = modify (\<lambda>s. s\<lparr>self := new_invariant, stored := Some new_invariant\<rparr>)"

definition on_loaded :: "'a iv \<Rightarrow> (ledger_state, ledger_error, 'a) proc" where
  "on_loaded m = map_err (\<lambda>_. InvalidDeduction) (bind load_invariant (\<lambda>_. m))"

definition verify_invariant :: "(ledger_state, ledger_error, unit) proc" where
  "verify_invariant = on_loaded verify_core_invariant"

definition update_invariant_lease_creation :: "int \<Rightarrow> (ledger_state, ledger_error, unit) proc" where
  "update_invariant_lease_creation deposit = on_loaded (apply_lease_creation deposit)"

definition update_invariant_lease_settlement :: "int \<Rightarrow> int \<Rightarrow> int \<Rightarrow> (ledger_state, ledger_error, unit) proc" where
  "update_invariant_lease_settlement tenant_refund landlord_payout protocol_fee =
     on_loaded (apply_lease_settlement tenant_refund landlord_payout protocol_fee)"

end
