(* ===== verification/Escrow_Solvency.thy ===== *)
theory Escrow_Solvency
  imports Escrow_Ledger
begin

text \<open>What the escrow ledger guarantees: solvency over every run, and exactly which updates succeed.\<close>

section \<open>Solvent ledgers\<close>

definition solvent :: "escrow_invariant \<Rightarrow> bool" where
  "solvent i \<longleftrightarrow> iv_total_escrowed i = iv_active_deposits i + iv_pending_yield i + iv_disputed_funds i
     \<and> iv_vault_total_locked i = iv_total_escrowed i
     \<and> 0 \<le> iv_active_deposits i \<and> 0 \<le> iv_pending_yield i \<and> 0 \<le> iv_disputed_funds i
     \<and> iv_total_escrowed i \<le> i128_max \<and> (0 < iv_lease_count i \<longrightarrow> 0 < iv_total_escrowed i)"

lemma verify_Ok_iff [proc_ok]:
  "verify_core_invariant s = (Ok u, s') \<longleftrightarrow> solvent (self s) \<and> s' = s"
proof -
  obtain a p d t v n where i: "iv_active_deposits (self s) = a" "iv_pending_yield (self s) = p"
    "iv_disputed_funds (self s) = d" "iv_total_escrowed (self s) = t" "iv_vault_total_locked (self s) = v"
    "iv_lease_count (self s) = n" by blast
  show ?thesis
    unfolding verify_core_invariant_def solvent_def i
    by (auto simp: proc_ok i is_i128_def i128_min_def split: option.splits)
qed

lemma verify_and_save_Ok_iff [proc_ok]:
  "verify_and_save s = (Ok u, s') \<longleftrightarrow> solvent (self s) \<and> s' = s\<lparr>stored := Some (self s)\<rparr>"
  by (auto simp: verify_and_save_def save_invariant_def proc_ok)

lemma safe_Ok_iff [proc_ok]:
  "safe_add a b s = (Ok x, s') \<longleftrightarrow> is_i128 (a + b) \<and> x = a + b \<and> s' = s"
  "safe_sub a b s = (Ok x, s') \<longleftrightarrow> is_i128 (a - b) \<and> x = a - b \<and> s' = s"
  "safe_mul a b s = (Ok x, s') \<longleftrightarrow> is_i128 (a * b) \<and> x = a * b \<and> s' = s"
  by (auto simp: safe_add_def safe_sub_def safe_mul_def proc_ok)

lemma adjust_Ok_iff [proc_ok]:
  "adjust get put f s = (Ok u, s') \<longleftrightarrow>
     (\<exists>y t. f (get (self s)) s = (Ok y, t) \<and> s' = t\<lparr>self := put (\<lambda>_. y) (self t)\<rparr>)"
  by (auto simp: adjust_def proc_ok)

lemma safe_run [proc_run]:
  "safe_add a b s = (if is_i128 (a + b) then (Ok (a + b), s) else (Err CalculationOverflow, s))"
  "safe_sub a b s = (if is_i128 (a - b) then (Ok (a - b), s) else (Err CalculationOverflow, s))"
  "safe_mul a b s = (if is_i128 (a * b) then (Ok (a * b), s) else (Err CalculationOverflow, s))"
  by (simp_all add: safe_add_def safe_sub_def safe_mul_def ok_or_run checked_i128_def)

lemma adjust_run [proc_run]:
  "adjust get put f s = (case f (get (self s)) s of
      (Ok y, t) \<Rightarrow> (Ok (), t\<lparr>self := put (\<lambda>_. y) (self t)\<rparr>) | (Err e, t) \<Rightarrow> (Err e, t) | (Trap, t) \<Rightarrow> (Trap, t))"
  by (simp add: adjust_def bind_run split: prod.splits outcome.splits)

lemma apply_yield_accumulation_Ok:
  assumes "apply_yield_accumulation y s = (Ok u, t)"
  shows "0 \<le> y \<and> y \<le> iv_active_deposits (self s) \<and> (\<exists>l. solvent l \<and> t = \<lparr>self = l, stored = Some l\<rparr>
    \<and> iv_total_escrowed l = iv_total_escrowed (self s) \<and> iv_active_deposits l = iv_active_deposits (self s) - y
    \<and> iv_pending_yield l = iv_pending_yield (self s) + y \<and> iv_disputed_funds l = iv_disputed_funds (self s)
    \<and> iv_lease_count l = iv_lease_count (self s))"
  using assms unfolding apply_yield_accumulation_def
  by (cases s) (auto simp: proc_ok)

lemma apply_lease_creation_Ok:
  assumes "apply_lease_creation d s = (Ok u, t)"
  shows "0 \<le> d \<and> (\<exists>l. solvent l \<and> t = \<lparr>self = l, stored = Some l\<rparr>
    \<and> iv_total_escrowed l = iv_total_escrowed (self s) + d \<and> iv_active_deposits l = iv_active_deposits (self s) + d
    \<and> iv_pending_yield l = iv_pending_yield (self s) \<and> iv_disputed_funds l = iv_disputed_funds (self s)
    \<and> iv_lease_count l = iv_lease_count (self s) + 1)"
  using assms unfolding apply_lease_creation_def
  by (cases s) (auto simp: proc_ok split: if_splits)

lemma apply_dispute_initiation_Ok:
  assumes "apply_dispute_initiation d s = (Ok u, t)"
  shows "0 \<le> d \<and> (\<exists>l. solvent l \<and> t = \<lparr>self = l, stored = Some l\<rparr>
    \<and> iv_total_escrowed l = iv_total_escrowed (self s)
    \<and> iv_disputed_funds l = iv_disputed_funds (self s) + d \<and> iv_lease_count l = iv_lease_count (self s))"
  using assms unfolding apply_dispute_initiation_def
  by (cases s) (auto simp: proc_ok Let_def)

lemma apply_mutual_release_Ok:
  assumes "apply_mutual_release r p s = (Ok u, t)"
  shows "0 \<le> r \<and> 0 \<le> p \<and> r + p = iv_total_escrowed (self s) \<and> (\<exists>l. solvent l \<and> t = \<lparr>self = l, stored = Some l\<rparr>
    \<and> iv_total_escrowed l = 0 \<and> iv_lease_count l = sat_u64 (iv_lease_count (self s) - 1))"
  using assms unfolding apply_mutual_release_def
  by (cases s) (auto simp: proc_ok Let_def)

section \<open>Settlements\<close>

text \<open>The ledger after a settlement of \<open>n\<close>: disputed funds first, then pending yield, then deposits.\<close>

definition settled_ledger :: "int \<Rightarrow> escrow_invariant \<Rightarrow> escrow_invariant" where
  "settled_ledger n i = (let fd = min n (iv_disputed_funds i); fp = min (n - fd) (iv_pending_yield i) in
     i\<lparr>iv_dust_cumulative := iv_dust_cumulative i + (iv_total_escrowed i - n),
       iv_disputed_funds := iv_disputed_funds i - fd, iv_pending_yield := iv_pending_yield i - fp,
       iv_active_deposits := iv_active_deposits i - (n - fd - fp),
       iv_total_escrowed := iv_total_escrowed i - n, iv_vault_total_locked := iv_total_escrowed i - n,
       iv_lease_count := (if n > 0 then sat_u64 (iv_lease_count i - 1) else iv_lease_count i)\<rparr>)"

lemma calculate_settlement_dust_eq: "calculate_settlement_dust n e = e - n"
  by (simp add: calculate_settlement_dust_def)

lemma sources_cover:
  assumes "solvent i" "n \<le> iv_total_escrowed i" "0 \<le> n"
  shows "calculate_settlement_sources n (iv_disputed_funds i) (iv_pending_yield i) (iv_active_deposits i)
    = (min n (iv_disputed_funds i), min (n - min n (iv_disputed_funds i)) (iv_pending_yield i),
       n - min n (iv_disputed_funds i) - min (n - min n (iv_disputed_funds i)) (iv_pending_yield i))"
  using assms by (auto simp: solvent_def calculate_settlement_sources_def Let_def min_def)

lemma i128_between: "0 \<le> x \<Longrightarrow> x \<le> y \<Longrightarrow> y \<le> i128_max \<Longrightarrow> is_i128 x"
  by (simp add: is_i128_def i128_min_def)

lemma apply_lease_settlement_Ok_iff:
  assumes sol: "solvent (self s)"
  shows "apply_lease_settlement r p f s = (Ok u, t) \<longleftrightarrow> 0 \<le> r \<and> 0 \<le> p \<and> 0 \<le> f
    \<and> r + p + f \<le> iv_total_escrowed (self s)
    \<and> is_i128 (iv_dust_cumulative (self s) + (iv_total_escrowed (self s) - (r + p + f)))
    \<and> solvent (settled_ledger (r + p + f) (self s))
    \<and> t = s\<lparr>self := settled_ledger (r + p + f) (self s), stored := Some (settled_ledger (r + p + f) (self s))\<rparr>"
proof (cases "0 \<le> r \<and> 0 \<le> p \<and> 0 \<le> f \<and> r + p + f \<le> iv_total_escrowed (self s)")
  case False
  then show ?thesis
    by (auto simp: apply_lease_settlement_def proc_ok Let_def split: prod.splits)
next
  case True
  define i where "i = self s"
  define n where "n = r + p + f"
  define fd where "fd = min n (iv_disputed_funds i)"
  define fp where "fp = min (n - fd) (iv_pending_yield i)"
  have i: "self s = i" "r + p + f = n" by (simp_all add: i_def n_def)
  have n: "0 \<le> r" "0 \<le> p" "0 \<le> f" "0 \<le> n" "n \<le> iv_total_escrowed i" using True by (simp_all add: i_def n_def)
  have fit: "iv_total_escrowed i \<le> i128_max" using sol by (simp add: solvent_def i_def)
  have sum: "iv_total_escrowed i = iv_active_deposits i + iv_pending_yield i + iv_disputed_funds i"
    "0 \<le> iv_active_deposits i" "0 \<le> iv_pending_yield i" "0 \<le> iv_disputed_funds i"
    using sol by (simp_all add: solvent_def i_def)
  have src: "calculate_settlement_sources n (iv_disputed_funds i) (iv_pending_yield i) (iv_active_deposits i)
      = (fd, fp, n - fd - fp)"
    unfolding fd_def fp_def using sol n by (intro sources_cover) (simp_all add: i_def)
  have b: "0 \<le> fd" "fd \<le> iv_disputed_funds i" "0 \<le> fp" "fp \<le> iv_pending_yield i" "fd + fp \<le> n"
    "n - fd - fp \<le> iv_active_deposits i"
    using sol n unfolding fd_def fp_def solvent_def i by (auto simp: min_def)
  have ranges: "is_i128 (r + p)" "is_i128 n" "is_i128 (fd + fp)" "is_i128 (iv_total_escrowed i - n)"
    "is_i128 (iv_disputed_funds i - fd)" "is_i128 (iv_pending_yield i - fp)"
    "is_i128 (iv_active_deposits i - (n - fd - fp))"
    by (rule i128_between [OF _ _ fit]; use sum n b n_def in linarith)+
  have vault: "iv_vault_total_locked i = iv_total_escrowed i" using sol by (simp add: solvent_def i)
  have set: "settled_ledger n i = i\<lparr>iv_dust_cumulative := iv_dust_cumulative i + (iv_total_escrowed i - n),
      iv_disputed_funds := iv_disputed_funds i - fd, iv_pending_yield := iv_pending_yield i - fp,
      iv_active_deposits := iv_active_deposits i - (n - fd - fp),
      iv_total_escrowed := iv_total_escrowed i - n, iv_vault_total_locked := iv_total_escrowed i - n,
      iv_lease_count := (if n > 0 then sat_u64 (iv_lease_count i - 1) else iv_lease_count i)\<rparr>"
    by (simp add: settled_ledger_def Let_def fd_def fp_def)
  show ?thesis
  proof (cases "is_i128 (iv_dust_cumulative i + (iv_total_escrowed i - n))")
    case dust: True
    have "apply_lease_settlement r p f s = verify_and_save (s\<lparr>self := settled_ledger n i\<rparr>)"
      unfolding apply_lease_settlement_def set using n ranges dust
      by (simp add: bind_run throw_if_run safe_run adjust_run i src vault calculate_settlement_dust_eq Let_def
          not_less)
    then show ?thesis using n dust by (simp add: i verify_and_save_Ok_iff)
  next
    case False
    then show ?thesis using n ranges
      by (simp add: apply_lease_settlement_def bind_run throw_if_run safe_run adjust_run i src
          calculate_settlement_dust_eq Let_def not_less)
  qed
qed

lemma settled_ledger_solvent:
  assumes "solvent i" "is_u64 (iv_lease_count i)" "0 \<le> n" "n \<le> iv_total_escrowed i"
  shows "solvent (settled_ledger n i) \<longleftrightarrow> (n = iv_total_escrowed i \<longrightarrow> iv_lease_count i \<le> 1)"
proof -
  define fd where "fd = min n (iv_disputed_funds i)"
  define fp where "fp = min (n - fd) (iv_pending_yield i)"
  have b: "fd \<le> iv_disputed_funds i" "fp \<le> iv_pending_yield i" "n - fd - fp \<le> iv_active_deposits i"
    using assms unfolding fd_def fp_def solvent_def by (auto simp: min_def)
  have count: "0 < sat_u64 (iv_lease_count i - 1) \<longleftrightarrow> 1 < iv_lease_count i"
    using assms(2) by (auto simp: sat_defs is_u64_def)
  have l: "settled_ledger n i = i\<lparr>iv_dust_cumulative := iv_dust_cumulative i + (iv_total_escrowed i - n),
      iv_disputed_funds := iv_disputed_funds i - fd, iv_pending_yield := iv_pending_yield i - fp,
      iv_active_deposits := iv_active_deposits i - (n - fd - fp),
      iv_total_escrowed := iv_total_escrowed i - n, iv_vault_total_locked := iv_total_escrowed i - n,
      iv_lease_count := (if n > 0 then sat_u64 (iv_lease_count i - 1) else iv_lease_count i)\<rparr>"
    by (simp add: settled_ledger_def Let_def fd_def fp_def)
  show ?thesis
  proof (cases "n = 0")
    case True
    then show ?thesis unfolding l using assms b by (auto simp: solvent_def)
  next
    case False
    then show ?thesis unfolding l using assms b count by (auto simp: solvent_def)
  qed
qed

section \<open>Slashes\<close>

text \<open>The share of a component is computed from a ratio that was itself rounded down to basis points.\<close>

definition slash_amount_of :: "int \<Rightarrow> escrow_invariant \<Rightarrow> int" where
  "slash_amount_of bps i = iv_total_escrowed i * bps div 10000"

definition slash_ratio_of :: "int \<Rightarrow> escrow_invariant \<Rightarrow> int" where
  "slash_ratio_of bps i = slash_amount_of bps i * 10000 div iv_total_escrowed i"

definition share_of :: "int \<Rightarrow> escrow_invariant \<Rightarrow> int \<Rightarrow> int" where
  "share_of bps i x = x * slash_ratio_of bps i div 10000"

definition shares_of :: "int \<Rightarrow> escrow_invariant \<Rightarrow> int" where
  "shares_of bps i = share_of bps i (iv_active_deposits i) + share_of bps i (iv_pending_yield i)
     + share_of bps i (iv_disputed_funds i)"

definition slashed_ledger :: "int \<Rightarrow> escrow_invariant \<Rightarrow> escrow_invariant" where
  "slashed_ledger bps i = i\<lparr>
     iv_active_deposits := iv_active_deposits i - share_of bps i (iv_active_deposits i),
     iv_pending_yield := iv_pending_yield i - share_of bps i (iv_pending_yield i),
     iv_disputed_funds := iv_disputed_funds i - share_of bps i (iv_disputed_funds i),
     iv_total_escrowed := iv_total_escrowed i - slash_amount_of bps i,
     iv_vault_total_locked := iv_total_escrowed i - slash_amount_of bps i\<rparr>"

lemma mult_div_le_int: "0 < b \<Longrightarrow> b * (a div b) \<le> (a :: int)"
  by (simp add: minus_mod_eq_mult_div [symmetric])

lemma slash_bounds:
  assumes "0 \<le> bps" "bps \<le> 10000" "0 < iv_total_escrowed i"
  shows "0 \<le> slash_amount_of bps i" "slash_amount_of bps i \<le> iv_total_escrowed i"
    "slash_amount_of bps i * 10000 \<le> iv_total_escrowed i * bps"
    "0 \<le> slash_ratio_of bps i" "slash_ratio_of bps i \<le> bps"
    "iv_total_escrowed i * slash_ratio_of bps i \<le> slash_amount_of bps i * 10000"
proof -
  define e where "e = iv_total_escrowed i"
  define a where "a = slash_amount_of bps i"
  have e: "0 < e" "a = e * bps div 10000" "slash_ratio_of bps i = a * 10000 div e"
    using assms by (simp_all add: e_def a_def slash_amount_of_def slash_ratio_of_def)
  show a: "0 \<le> slash_amount_of bps i" "slash_amount_of bps i \<le> iv_total_escrowed i"
    using tdiv_share_bounds [of e bps 10000] assms by (simp_all add: slash_amount_of_def e_def tdiv_nonneg)
  show le: "slash_amount_of bps i * 10000 \<le> iv_total_escrowed i * bps"
    using mult_div_le_int [of 10000 "iv_total_escrowed i * bps"] by (simp add: slash_amount_of_def mult.commute)
  show "0 \<le> slash_ratio_of bps i" using e a by (simp add: a_def pos_imp_zdiv_nonneg_iff)
  have "a * 10000 div e \<le> e * bps div e"
    using le e(1) by (intro zdiv_mono1) (simp_all add: a_def e_def)
  then show "slash_ratio_of bps i \<le> bps" using e by simp
  show "iv_total_escrowed i * slash_ratio_of bps i \<le> slash_amount_of bps i * 10000"
    unfolding slash_ratio_of_def using assms(3) by (rule mult_div_le_int)
qed

lemma share_bounds:
  assumes "0 \<le> bps" "bps \<le> 10000" "0 < iv_total_escrowed i" "0 \<le> x" "x \<le> iv_total_escrowed i"
  shows "0 \<le> share_of bps i x" "share_of bps i x \<le> x" "0 \<le> x * slash_ratio_of bps i"
    "x * slash_ratio_of bps i \<le> iv_total_escrowed i * bps"
proof -
  note r = slash_bounds [OF assms(1-3)]
  have r1: "slash_ratio_of bps i \<le> 10000" using r(5) assms(2) by linarith
  show "0 \<le> share_of bps i x" "share_of bps i x \<le> x"
    using tdiv_share_bounds [OF assms(4) r(4) r1] assms(4) r(4) by (simp_all add: share_of_def tdiv_nonneg)
  show "0 \<le> x * slash_ratio_of bps i" using assms(4) r(4) by simp
  have "x * slash_ratio_of bps i \<le> iv_total_escrowed i * slash_ratio_of bps i"
    using assms(5) r(4) by (rule mult_right_mono)
  then show "x * slash_ratio_of bps i \<le> iv_total_escrowed i * bps" using r(6,3) by linarith
qed

lemma slash_share_run:
  assumes "0 \<le> bps" "bps \<le> 10000" "0 < iv_total_escrowed i" "0 \<le> x" "x \<le> iv_total_escrowed i"
    "is_i128 (iv_total_escrowed i * bps)" "is_i128 x"
  shows "slash_share x (slash_ratio_of bps i) s = (Ok (share_of bps i x), s)"
proof -
  have "is_u128 (x * slash_ratio_of bps i)"
    using share_bounds(3,4) [OF assms(1-5)] assms(6) by (simp add: is_u128_def is_i128_def int_bounds)
  then show ?thesis
    using as_u128_id [OF assms(4,7)] by (simp add: slash_share_def bind_run chk_w_run share_of_def)
qed

lemma apply_partial_slashing_Ok_iff:
  assumes sol: "solvent (self s)" and bps: "0 \<le> bps" "bps \<le> 10000" and pos: "0 < iv_total_escrowed (self s)"
    and fit: "is_i128 (iv_total_escrowed (self s) * bps)"
  shows "apply_partial_slashing bps s = (Ok u, t) \<longleftrightarrow> shares_of bps (self s) = slash_amount_of bps (self s)
    \<and> solvent (slashed_ledger bps (self s))
    \<and> t = s\<lparr>self := slashed_ledger bps (self s), stored := Some (slashed_ledger bps (self s))\<rparr>"
proof -
  define i where "i = self s"
  have i: "self s = i" by (simp add: i_def)
  note sol = sol [unfolded i] and pos = pos [unfolded i] and fit = fit [unfolded i]
  have sum: "iv_total_escrowed i = iv_active_deposits i + iv_pending_yield i + iv_disputed_funds i"
    "0 \<le> iv_active_deposits i" "0 \<le> iv_pending_yield i" "0 \<le> iv_disputed_funds i"
    "iv_vault_total_locked i = iv_total_escrowed i" "iv_total_escrowed i \<le> i128_max"
    using sol by (simp_all add: solvent_def)
  define x y z where "x = share_of bps i (iv_active_deposits i)" and "y = share_of bps i (iv_pending_yield i)"
    and "z = share_of bps i (iv_disputed_funds i)"
  have le: "iv_active_deposits i \<le> iv_total_escrowed i" "iv_pending_yield i \<le> iv_total_escrowed i"
    "iv_disputed_funds i \<le> iv_total_escrowed i"
    using sum by linarith+
  have bx: "0 \<le> x" "x \<le> iv_active_deposits i" "0 \<le> y" "y \<le> iv_pending_yield i" "0 \<le> z" "z \<le> iv_disputed_funds i"
    unfolding x_def y_def z_def using share_bounds [OF bps pos] sum le by blast+
  define a where "a = slash_amount_of bps i"
  have ba: "0 \<le> a" "a \<le> iv_total_escrowed i" "a * 10000 \<le> iv_total_escrowed i * bps"
    unfolding a_def by (rule slash_bounds [OF bps pos])+
  have ranges: "is_i128 (iv_active_deposits i)" "is_i128 (iv_pending_yield i)" "is_i128 (iv_disputed_funds i)"
    "is_i128 (iv_total_escrowed i)" "is_i128 a" "is_i128 x" "is_i128 y" "is_i128 z" "is_i128 (x + y)"
    "is_i128 (x + y + z)" "is_i128 (iv_active_deposits i - x)" "is_i128 (iv_pending_yield i - y)"
    "is_i128 (iv_disputed_funds i - z)" "is_i128 (iv_total_escrowed i - a)"
    by (rule i128_between [OF _ _ sum(6)]; use sum bx ba in linarith)+
  have u: "is_u128 (as_u128 a * 10000)"
    using ba fit as_u128_id [OF ba(1) ranges(5)] by (simp add: is_u128_def is_i128_def int_bounds)
  have ratio: "as_u128 a * 10000 div as_u128 (iv_total_escrowed i) = slash_ratio_of bps i"
    using as_u128_id [OF ba(1) ranges(5)] as_u128_id [OF less_imp_le [OF pos] ranges(4)]
    by (simp add: slash_ratio_of_def a_def)
  have am: "tdiv (iv_total_escrowed i * bps) 10000 = a"
    using pos bps by (simp add: a_def slash_amount_of_def tdiv_nonneg)
  note sh = slash_share_run [OF bps pos sum(2) le(1) fit ranges(1), folded x_def]
    slash_share_run [OF bps pos sum(3) le(2) fit ranges(2), folded y_def]
    slash_share_run [OF bps pos sum(4) le(3) fit ranges(3), folded z_def]
  have l: "slashed_ledger bps i = i\<lparr>iv_active_deposits := iv_active_deposits i - x,
      iv_pending_yield := iv_pending_yield i - y, iv_disputed_funds := iv_disputed_funds i - z,
      iv_total_escrowed := iv_total_escrowed i - a, iv_vault_total_locked := iv_total_escrowed i - a\<rparr>"
    "shares_of bps i = x + y + z"
    by (simp_all add: slashed_ledger_def shares_of_def x_def y_def z_def a_def)
  note run = apply_partial_slashing_def bind_run throw_if_run safe_run adjust_run chk_w_run i am u ratio sh sum(5)
  show ?thesis
  proof (cases "x + y + z < a")
    case True
    have "\<not> solvent (i\<lparr>iv_active_deposits := iv_active_deposits i - x,
      iv_pending_yield := iv_pending_yield i - y, iv_disputed_funds := iv_disputed_funds i - z,
      iv_total_escrowed := iv_total_escrowed i - a, iv_vault_total_locked := iv_total_escrowed i - a,
      iv_dust_cumulative := d\<rparr>)" for d
      using True sum(1) by (simp add: solvent_def)
    then have "apply_partial_slashing bps s \<noteq> (Ok u, t)"
      using True ba bps fit pos ranges
      by (simp add: run as_i128_id Let_def not_less verify_and_save_Ok_iff)
    then show ?thesis using True by (simp add: i l a_def)
  next
    case False
    have "apply_partial_slashing bps s = verify_and_save (s\<lparr>self := slashed_ledger bps i\<rparr>)"
      using False ba bps fit pos ranges by (simp add: run as_i128_id Let_def not_less l)
    moreover have "solvent (slashed_ledger bps i) \<Longrightarrow> x + y + z = a" using sum(1) by (simp add: solvent_def l)
    ultimately show ?thesis by (auto simp: i verify_and_save_Ok_iff l(2) a_def)
  qed
qed

lemma slashed_ledger_solvent:
  assumes "solvent i" "0 < iv_total_escrowed i" "0 \<le> bps" "bps \<le> 10000"
    "shares_of bps i = slash_amount_of bps i"
  shows "solvent (slashed_ledger bps i) \<longleftrightarrow> (0 < iv_lease_count i \<longrightarrow> slash_amount_of bps i < iv_total_escrowed i)"
proof -
  have sum: "iv_total_escrowed i = iv_active_deposits i + iv_pending_yield i + iv_disputed_funds i"
    "0 \<le> iv_active_deposits i" "0 \<le> iv_pending_yield i" "0 \<le> iv_disputed_funds i" "iv_total_escrowed i \<le> i128_max"
    using assms(1) by (simp_all add: solvent_def)
  have "share_of bps i (iv_active_deposits i) \<le> iv_active_deposits i"
    "share_of bps i (iv_pending_yield i) \<le> iv_pending_yield i"
    "share_of bps i (iv_disputed_funds i) \<le> iv_disputed_funds i"
    using share_bounds(2) [OF assms(3,4,2)] sum by simp_all
  moreover have "0 \<le> slash_amount_of bps i" by (rule slash_bounds(1) [OF assms(3,4,2)])
  ultimately show ?thesis using sum assms(5) by (auto simp: solvent_def slashed_ledger_def shares_of_def)
qed

end
