(* ===== verification/Ledger_Props.thy ===== *)
theory Ledger_Props
  imports Escrow_Solvency
begin

text \<open>
  The escrow ledger as a system: any sequence of updates, each loading the stored ledger and, as an invocation,
  rolled back when it fails. The properties of the ledger.
\<close>

section \<open>Runs\<close>

datatype iv_call =
    LeaseCreation int
  | YieldAccumulation int
  | DisputeInitiation int
  | LeaseSettlement int int int
  | MutualRelease int int
  | PartialSlashing nat
  | InitializeTracking

fun iv_exec :: "iv_call \<Rightarrow> (ledger_state, ledger_error, unit) proc" where
  "iv_exec (LeaseCreation d) = update_invariant_lease_creation d"
| "iv_exec (YieldAccumulation y) = on_loaded (apply_yield_accumulation y)"
| "iv_exec (DisputeInitiation d) = on_loaded (apply_dispute_initiation d)"
| "iv_exec (LeaseSettlement r p f) = update_invariant_lease_settlement r p f"
| "iv_exec (MutualRelease r p) = on_loaded (apply_mutual_release r p)"
| "iv_exec (PartialSlashing bps) = on_loaded (apply_partial_slashing (int bps))"
| "iv_exec InitializeTracking = initialize_invariant_tracking"

definition iv_step :: "iv_call \<Rightarrow> ledger_state \<Rightarrow> ledger_state" where
  "iv_step m s = snd (invoke (iv_exec m) s)"

definition ledger_init :: ledger_state where
  "ledger_init = \<lparr>self = new_invariant, stored = None\<rparr>"

definition loaded :: "ledger_state \<Rightarrow> escrow_invariant" where
  "loaded s = (case stored s of None \<Rightarrow> new_invariant | Some i \<Rightarrow> i)"

text \<open>What a successful update adds to the escrowed total.\<close>

fun flow :: "iv_call \<Rightarrow> escrow_invariant \<Rightarrow> int" where
  "flow (LeaseCreation d) i = d"
| "flow (YieldAccumulation y) i = 0"
| "flow (DisputeInitiation d) i = 0"
| "flow (LeaseSettlement r p f) i = - (r + p + f)"
| "flow (MutualRelease r p) i = - (r + p)"
| "flow (PartialSlashing bps) i = - slash_amount_of (int bps) i"
| "flow InitializeTracking i = - iv_total_escrowed i"

fun net_flow :: "ledger_state \<Rightarrow> iv_call list \<Rightarrow> int" where
  "net_flow s [] = 0"
| "net_flow s (m # ms) = (if fst (iv_exec m s) = Ok () then flow m (loaded s) else 0) + net_flow (iv_step m s) ms"

lemma on_loaded_Ok_iff [proc_ok]:
  "on_loaded m s = (Ok a, t) \<longleftrightarrow> m (s\<lparr>self := loaded s\<rparr>) = (Ok a, t)"
  by (auto simp: on_loaded_def load_invariant_def loaded_def proc_ok)

lemma loaded_simps [simp]:
  "loaded (s\<lparr>self := i\<rparr>) = loaded s" "loaded (s\<lparr>stored := Some i\<rparr>) = i" "loaded \<lparr>self = j, stored = Some i\<rparr> = i"
  by (simp_all add: loaded_def)

lemma solvent_new: "solvent new_invariant"
  by (simp add: solvent_def new_invariant_def i128_max_def)

lemma slashing_step:
  assumes "apply_partial_slashing (int bps) s = (Ok u, t)" "solvent (self s)" "loaded s = self s"
  shows "solvent (loaded t) \<and> iv_total_escrowed (loaded t) = iv_total_escrowed (self s) - slash_amount_of (int bps) (self s)"
proof (cases "iv_total_escrowed (self s) = 0")
  case True
  then show ?thesis using assms by (simp add: apply_partial_slashing_def proc_ok slash_amount_of_def)
next
  case False
  have pos: "0 < iv_total_escrowed (self s)" using False assms(2) by (auto simp: solvent_def)
  have b: "int bps \<le> 10000" "is_i128 (iv_total_escrowed (self s) * int bps)"
    using assms(1) False by (auto simp: apply_partial_slashing_def proc_ok)
  have "t = s\<lparr>self := slashed_ledger (int bps) (self s), stored := Some (slashed_ledger (int bps) (self s))\<rparr>"
    "solvent (slashed_ledger (int bps) (self s))"
    using apply_partial_slashing_Ok_iff [OF assms(2) _ b(1) pos b(2)] assms(1) by auto
  then show ?thesis by (simp add: slashed_ledger_def)
qed

lemma iv_exec_flow:
  assumes sol: "solvent (loaded s)" and run: "iv_exec m s = (Ok u, t)"
  shows "solvent (loaded t) \<and> iv_total_escrowed (loaded t) = iv_total_escrowed (loaded s) + flow m (loaded s)"
proof (cases m)
  case (LeaseCreation d)
  then show ?thesis
    using run apply_lease_creation_Ok [of d "s\<lparr>self := loaded s\<rparr>"]
    by (auto simp: update_invariant_lease_creation_def proc_ok)
next
  case (YieldAccumulation y)
  then show ?thesis
    using run apply_yield_accumulation_Ok [of y "s\<lparr>self := loaded s\<rparr>"] by (auto simp: proc_ok)
next
  case (DisputeInitiation d)
  then show ?thesis
    using run apply_dispute_initiation_Ok [of d "s\<lparr>self := loaded s\<rparr>"] by (auto simp: proc_ok)
next
  case (LeaseSettlement r p f)
  then show ?thesis
    using run apply_lease_settlement_Ok_iff [of "s\<lparr>self := loaded s\<rparr>" r p f] sol
    by (auto simp: update_invariant_lease_settlement_def proc_ok settled_ledger_def Let_def)
next
  case (MutualRelease r p)
  then show ?thesis
    using run apply_mutual_release_Ok [of r p "s\<lparr>self := loaded s\<rparr>"] by (auto simp: proc_ok)
next
  case (PartialSlashing bps)
  then show ?thesis
    using run slashing_step [of bps "s\<lparr>self := loaded s\<rparr>"] sol by (auto simp: proc_ok)
next
  case InitializeTracking
  then show ?thesis
    using run solvent_new by (auto simp: initialize_invariant_tracking_def proc_ok new_invariant_def)
qed

interpretation ledger: contract_system "\<lambda>s. solvent (loaded s)" iv_step ledger_init
proof
  fix m s
  assume "solvent (loaded s)"
  then show "solvent (loaded (iv_step m s))"
    using iv_exec_flow [of s m] by (cases "iv_exec m" s rule: invoke_cases) (auto simp: iv_step_def)
next
  show "solvent (loaded ledger_init)" using solvent_new by (simp add: loaded_def ledger_init_def)
qed

lemma run_flow:
  "solvent (loaded s) \<Longrightarrow>
     iv_total_escrowed (loaded (fold iv_step ms s)) = iv_total_escrowed (loaded s) + net_flow s ms"
proof (induction ms arbitrary: s)
  case (Cons m ms)
  note IH = Cons.IH [OF ledger.step_inv [OF Cons.prems], of m]
  show ?case
  proof (cases "iv_exec m" s rule: invoke_cases)
    case (ok u t)
    then show ?thesis using IH iv_exec_flow [OF Cons.prems ok(1)] by (simp add: iv_step_def)
  next
    case (abort r)
    then have "fst (iv_exec m s) \<noteq> Ok ()" by (metis invoke_Ok_iff prod.collapse prod.inject)
    then show ?thesis using IH abort by (simp add: iv_step_def)
  qed
qed simp

section \<open>Properties\<close>

text \<open>Claim C4. The ledger is solvent and balanced after every sequence of updates: its total is the sum of active
  deposits, pending yield and disputed funds, equals what the vault has locked, no part is negative, and it is
  exactly what the successful creations brought in less what the successful settlements, releases, slashes
  and resets took out. Failed updates leave no trace.\<close>
theorem ledger_solvent_and_balanced:
  assumes "i = loaded (fold iv_step ms ledger_init)"
  shows "iv_total_escrowed i = iv_active_deposits i + iv_pending_yield i + iv_disputed_funds i
    \<and> iv_vault_total_locked i = iv_total_escrowed i
    \<and> 0 \<le> iv_active_deposits i \<and> 0 \<le> iv_pending_yield i \<and> 0 \<le> iv_disputed_funds i
    \<and> iv_total_escrowed i = net_flow ledger_init ms"
proof -
  have "iv_total_escrowed (loaded ledger_init) = 0" by (simp add: loaded_def ledger_init_def new_invariant_def)
  then show ?thesis
    using ledger.reach_inv [of ms] run_flow [OF ledger.init_inv, of ms] by (auto simp: assms solvent_def)
qed

text \<open>When a settlement succeeds. On a solvent ledger with no dust counted beyond the range of the type, a
  settlement goes through exactly when its three amounts are non-negative and add up to no more than the escrowed
  total, unless it would pay out everything while more than one lease is counted. It takes disputed funds
  first, then pending yield, then deposits, and counts everything that stays escrowed as dust.\<close>
theorem settlement_succeeds_iff:
  assumes "stored s = Some i" "solvent i" "is_u64 (iv_lease_count i)"
    "is_i128 (iv_dust_cumulative i + iv_total_escrowed i)" "is_i128 (iv_dust_cumulative i)"
  shows "if 0 \<le> r \<and> 0 \<le> p \<and> 0 \<le> f \<and> r + p + f \<le> iv_total_escrowed i
      \<and> (r + p + f = iv_total_escrowed i \<longrightarrow> iv_lease_count i \<le> 1)
    then \<exists>t. update_invariant_lease_settlement r p f s = (Ok (), t) \<and> stored t = Some (settled_ledger (r + p + f) i)
    else fst (update_invariant_lease_settlement r p f s) \<noteq> Ok ()"
proof -
  have l: "loaded s = i" using assms(1) by (simp add: loaded_def)
  let ?ok = "0 \<le> r \<and> 0 \<le> p \<and> 0 \<le> f \<and> r + p + f \<le> iv_total_escrowed i"
  have Ok: "update_invariant_lease_settlement r p f s = (Ok (), t) \<longleftrightarrow> ?ok
      \<and> is_i128 (iv_dust_cumulative i + (iv_total_escrowed i - (r + p + f))) \<and> solvent (settled_ledger (r + p + f) i)
      \<and> t = s\<lparr>self := settled_ledger (r + p + f) i, stored := Some (settled_ledger (r + p + f) i)\<rparr>" for t
    using apply_lease_settlement_Ok_iff [of "s\<lparr>self := i\<rparr>" r p f] assms(2)
    by (simp add: update_invariant_lease_settlement_def proc_ok l)
  have dust: "?ok \<Longrightarrow> is_i128 (iv_dust_cumulative i + (iv_total_escrowed i - (r + p + f)))"
    using assms(4,5) by (auto simp: is_i128_def)
  have sol: "?ok \<Longrightarrow> solvent (settled_ledger (r + p + f) i)
      \<longleftrightarrow> (r + p + f = iv_total_escrowed i \<longrightarrow> iv_lease_count i \<le> 1)"
    by (rule settled_ledger_solvent [OF assms(2,3)]) auto
  show ?thesis
  proof (cases "?ok \<and> (r + p + f = iv_total_escrowed i \<longrightarrow> iv_lease_count i \<le> 1)")
    case True
    then show ?thesis using Ok dust sol by auto
  next
    case False
    then have "\<not> (?ok \<and> solvent (settled_ledger (r + p + f) i))" using sol by blast
    then have "update_invariant_lease_settlement r p f s \<noteq> (Ok (), t)" for t using Ok by blast
    then show ?thesis using False by (metis prod.collapse)
  qed
qed

text \<open>A partial slash goes through only when rounding loses nothing. On a solvent ledger with funds, slashing
  a share in basis points (within the range of the type) succeeds exactly when the three shares, each computed
  from the rounded ratio, add up to the slash amount, and the slash leaves funds or no lease is counted. The
  truncation dust the code computes is therefore never recorded: a slash that loses a unit is refused.\<close>
theorem slashing_succeeds_iff:
  assumes "stored s = Some i" "solvent i" "0 < iv_total_escrowed i" "0 \<le> bps" "bps \<le> 10000"
    "iv_total_escrowed i * bps \<le> i128_max"
  shows "if shares_of bps i = slash_amount_of bps i \<and> (0 < iv_lease_count i \<longrightarrow> slash_amount_of bps i < iv_total_escrowed i)
    then \<exists>t. on_loaded (apply_partial_slashing bps) s = (Ok (), t) \<and> stored t = Some (slashed_ledger bps i)
      \<and> iv_dust_cumulative (slashed_ledger bps i) = iv_dust_cumulative i
    else fst (on_loaded (apply_partial_slashing bps) s) \<noteq> Ok ()"
proof -
  have l: "loaded s = i" using assms(1) by (simp add: loaded_def)
  have fit: "is_i128 (iv_total_escrowed i * bps)" using assms(3,4,6) by (intro i128_between [of _ i128_max]) simp_all
  have Ok: "on_loaded (apply_partial_slashing bps) s = (Ok (), t) \<longleftrightarrow> shares_of bps i = slash_amount_of bps i
      \<and> solvent (slashed_ledger bps i)
      \<and> t = s\<lparr>self := slashed_ledger bps i, stored := Some (slashed_ledger bps i)\<rparr>" for t
    using apply_partial_slashing_Ok_iff [of "s\<lparr>self := i\<rparr>" bps] assms(2-5) fit by (simp add: proc_ok l)
  have sol: "shares_of bps i = slash_amount_of bps i \<Longrightarrow> solvent (slashed_ledger bps i)
      \<longleftrightarrow> (0 < iv_lease_count i \<longrightarrow> slash_amount_of bps i < iv_total_escrowed i)"
    using assms(2-5) by (rule slashed_ledger_solvent)
  show ?thesis
  proof (cases "shares_of bps i = slash_amount_of bps i \<and> solvent (slashed_ledger bps i)")
    case True
    then show ?thesis using Ok sol by (auto simp: slashed_ledger_def)
  next
    case False
    then have "on_loaded (apply_partial_slashing bps) s \<noteq> (Ok (), t)" for t using Ok by blast
    then show ?thesis using False sol by (metis prod.collapse)
  qed
qed

definition lx_ledger :: escrow_invariant where
  "lx_ledger = \<lparr>iv_total_escrowed = 1000, iv_active_deposits = 999, iv_pending_yield = 1, iv_disputed_funds = 0,
     iv_vault_total_locked = 1000, iv_lease_count = 2, iv_precision_loss_cumulative = 0, iv_dust_cumulative = 0\<rparr>"

theorem ledger_solvent_and_balanced_witness:
  "iv_total_escrowed (loaded (fold iv_step [LeaseCreation 1000, YieldAccumulation 1, PartialSlashing 5000,
     LeaseSettlement 600 300 0] ledger_init)) = 100"
proof -
  let ?ms = "[LeaseCreation 1000, YieldAccumulation 1, PartialSlashing 5000, LeaseSettlement 600 300 0]"
  have "net_flow ledger_init ?ms = 100" by code_simp
  then show ?thesis using ledger_solvent_and_balanced [OF refl, of ?ms] by simp
qed

lemma lx_ledger_solvent: "solvent lx_ledger"
  by (simp add: solvent_def lx_ledger_def i128_max_def)

theorem settlement_succeeds_iff_witness:
  "fst (update_invariant_lease_settlement 600 400 0 \<lparr>self = lx_ledger, stored = Some lx_ledger\<rparr>) \<noteq> Ok ()"
  using settlement_succeeds_iff [of "\<lparr>self = lx_ledger, stored = Some lx_ledger\<rparr>" lx_ledger 600 400 0] lx_ledger_solvent
  by (simp add: lx_ledger_def range_defs int_bounds)

theorem slashing_succeeds_iff_witness:
  "fst (on_loaded (apply_partial_slashing 5000) \<lparr>self = lx_ledger, stored = Some lx_ledger\<rparr>) \<noteq> Ok ()"
  using slashing_succeeds_iff [of "\<lparr>self = lx_ledger, stored = Some lx_ledger\<rparr>" lx_ledger 5000] lx_ledger_solvent
  by (simp add: lx_ledger_def range_defs int_bounds shares_of_def share_of_def slash_ratio_of_def slash_amount_of_def)

end
