(* ===== verification/Oracle_Governance.thy ===== *)
theory Oracle_Governance
  imports Soroban_Host
begin

text \<open>
  \<^verbatim>\<open>contracts/leaseflow_contracts/src/oracle_governance.rs\<close>: the registry of oracles with its whitelist, suspensions
  and blacklist, the migration of leases between oracles, and the governance admins. The error strings of the
  source are the constructors of \<open>og_error\<close>. An admin entry of the storage is only ever written as \<open>true\<close> or
  removed, so the entries are a set.
\<close>

section \<open>State\<close>

datatype governance_status = Whitelisted | Blacklisted | Suspended

datatype og_error =
    NotGovernanceAdmin
  | OracleAlreadyInRegistry
  | OracleNotFound
  | OracleAlreadyBlacklisted
  | CannotReactivateBlacklisted
  | NewOracleNotWhitelisted
  | NewOracleNotActive
  | AlreadyInitialized

record governance_record =
  gr_oracle_pubkey :: bytes32
  gr_status :: governance_status
  gr_added_at :: int
  gr_updated_at :: int
  gr_reason :: string
  gr_affected_leases :: "int list"
  gr_added_by :: address

record oracle_migration =
  om_lease_id :: int
  om_old_oracle :: bytes32
  om_new_oracle :: bytes32
  om_migrated_at :: int
  om_migrated_by :: address

datatype og_event =
    OracleWhitelisted bytes32 address int
  | OracleBlacklisted bytes32 string address int
  | OracleSuspended bytes32 string address int
  | OracleReactivated bytes32 address int
  | LeaseOracleMigrated int bytes32 bytes32 address int
  | EmergencyBlacklist bytes32 string address int int

record og_state = "og_event host" +
  og_records :: "bytes32 \<rightharpoonup> governance_record"
  og_whitelist_count :: "int option"
  og_blacklist_count :: "int option"
  og_admins :: "address set"
  og_lease_oracle :: "int \<rightharpoonup> bytes32"
  og_migrations :: "int \<rightharpoonup> oracle_migration"

type_synonym 'a og = "(og_state, og_error, 'a) proc"

definition og_init :: og_state where
  "og_init = \<lparr>events = [], calls = [], og_records = Map.empty, og_whitelist_count = None, og_blacklist_count = None,
     og_admins = {}, og_lease_oracle = Map.empty, og_migrations = Map.empty\<rparr>"

definition count_or_0 :: "int option \<Rightarrow> int" where
  "count_or_0 x = (case x of None \<Rightarrow> 0 | Some n \<Rightarrow> n)"

section \<open>Operations\<close>

definition require_admin :: "address \<Rightarrow> unit og" where
  "require_admin a = bind (gets (\<lambda>s. a \<in> og_admins s)) (\<lambda>ok. throw_if (\<not> ok) NotGovernanceAdmin)"

definition store_record :: "bytes32 \<Rightarrow> governance_record \<Rightarrow> unit og" where
  "store_record k r = modify (\<lambda>s. s\<lparr>og_records := (og_records s)(k \<mapsto> r)\<rparr>)"

definition get_oracle_record :: "bytes32 \<Rightarrow> governance_record og" where
  "get_oracle_record k = bind (gets (\<lambda>s. og_records s k)) (\<lambda>r. ok_or r OracleNotFound)"

definition whitelist_oracle :: "env \<Rightarrow> address \<Rightarrow> bytes32 \<Rightarrow> string \<Rightarrow> unit og" where
  "whitelist_oracle env a k reason =
     bind (require_admin a) (\<lambda>_.
     bind (require_auth env a) (\<lambda>_.
     bind (gets (\<lambda>s. og_records s k)) (\<lambda>existing.
     bind (throw_if (case existing of None \<Rightarrow> False | Some r \<Rightarrow> gr_status r \<noteq> Blacklisted)
       OracleAlreadyInRegistry) (\<lambda>_.
     let now = ledger_timestamp env in
     bind (store_record k \<lparr>gr_oracle_pubkey = k, gr_status = Whitelisted, gr_added_at = now, gr_updated_at = now,
       gr_reason = reason, gr_affected_leases = [], gr_added_by = a\<rparr>) (\<lambda>_.
     bind (gets (count_or_0 \<circ> og_whitelist_count)) (\<lambda>n.
     bind (chk_u64 (n + 1)) (\<lambda>n.
     bind (modify (\<lambda>s. s\<lparr>og_whitelist_count := Some n\<rparr>)) (\<lambda>_.
     publish (OracleWhitelisted k a now)))))))))"

definition emergency_blacklist :: "env \<Rightarrow> address \<Rightarrow> bytes32 \<Rightarrow> string \<Rightarrow> int list \<Rightarrow> unit og" where
  "emergency_blacklist env a k reason affected_leases =
     bind (require_admin a) (\<lambda>_.
     bind (require_auth env a) (\<lambda>_.
     bind (gets (\<lambda>s. og_records s k)) (\<lambda>existing.
     let now = ledger_timestamp env;
         r = (case existing of
             Some r \<Rightarrow> r\<lparr>gr_status := Blacklisted, gr_updated_at := now, gr_reason := reason,
               gr_affected_leases := affected_leases\<rparr>
           | None \<Rightarrow> \<lparr>gr_oracle_pubkey = k, gr_status = Blacklisted, gr_added_at = now, gr_updated_at = now,
               gr_reason = reason, gr_affected_leases = affected_leases, gr_added_by = a\<rparr>) in
     bind (store_record k r) (\<lambda>_.
     bind (gets (count_or_0 \<circ> og_blacklist_count)) (\<lambda>n.
     bind (chk_u64 (n + 1)) (\<lambda>n.
     bind (modify (\<lambda>s. s\<lparr>og_blacklist_count := Some n\<rparr>)) (\<lambda>_.
     bind (publish (EmergencyBlacklist k reason a (as_u32 (int (length affected_leases))) now)) (\<lambda>_.
     publish (OracleBlacklisted k reason a now)))))))))"

definition suspend_oracle :: "env \<Rightarrow> address \<Rightarrow> bytes32 \<Rightarrow> string \<Rightarrow> unit og" where
  "suspend_oracle env a k reason =
     bind (require_admin a) (\<lambda>_.
     bind (require_auth env a) (\<lambda>_.
     bind (get_oracle_record k) (\<lambda>r.
     bind (throw_if (gr_status r = Blacklisted) OracleAlreadyBlacklisted) (\<lambda>_.
     bind (store_record k (r\<lparr>gr_status := Suspended, gr_updated_at := ledger_timestamp env, gr_reason := reason\<rparr>)) (\<lambda>_.
     publish (OracleSuspended k reason a (ledger_timestamp env)))))))"

definition reactivate_oracle :: "env \<Rightarrow> address \<Rightarrow> bytes32 \<Rightarrow> unit og" where
  "reactivate_oracle env a k =
     bind (require_admin a) (\<lambda>_.
     bind (require_auth env a) (\<lambda>_.
     bind (get_oracle_record k) (\<lambda>r.
     bind (throw_if (gr_status r = Blacklisted) CannotReactivateBlacklisted) (\<lambda>_.
     bind (store_record k (r\<lparr>gr_status := Whitelisted, gr_updated_at := ledger_timestamp env,
       gr_reason := ''Reactivated by governance''\<rparr>)) (\<lambda>_.
     publish (OracleReactivated k a (ledger_timestamp env)))))))"

definition migrate_lease_oracle :: "env \<Rightarrow> address \<Rightarrow> int \<Rightarrow> bytes32 \<Rightarrow> bytes32 \<Rightarrow> unit og" where
  "migrate_lease_oracle env caller lid old_oracle new_oracle =
     bind (require_auth env caller) (\<lambda>_.
     bind (gets (\<lambda>s. og_records s new_oracle)) (\<lambda>x.
     bind (ok_or x NewOracleNotWhitelisted) (\<lambda>r.
     bind (throw_if (gr_status r \<noteq> Whitelisted) NewOracleNotActive) (\<lambda>_.
     bind (modify (\<lambda>s. s\<lparr>og_migrations := (og_migrations s)(lid \<mapsto> \<lparr>om_lease_id = lid, om_old_oracle = old_oracle,
       om_new_oracle = new_oracle, om_migrated_at = ledger_timestamp env, om_migrated_by = caller\<rparr>)\<rparr>)) (\<lambda>_.
     bind (modify (\<lambda>s. s\<lparr>og_lease_oracle := (og_lease_oracle s)(lid \<mapsto> new_oracle)\<rparr>)) (\<lambda>_.
     publish (LeaseOracleMigrated lid old_oracle new_oracle caller (ledger_timestamp env))))))))"

definition is_oracle_active :: "bytes32 \<Rightarrow> bool og" where
  "is_oracle_active k = gets (\<lambda>s. case og_records s k of None \<Rightarrow> False | Some r \<Rightarrow> gr_status r = Whitelisted)"

definition is_oracle_blacklisted :: "bytes32 \<Rightarrow> bool og" where
  "is_oracle_blacklisted k = gets (\<lambda>s. case og_records s k of None \<Rightarrow> False | Some r \<Rightarrow> gr_status r = Blacklisted)"

definition get_lease_oracle :: "int \<Rightarrow> bytes32 option og" where
  "get_lease_oracle lid = gets (\<lambda>s. og_lease_oracle s lid)"

definition get_migration_history :: "int \<Rightarrow> oracle_migration option og" where
  "get_migration_history lid = gets (\<lambda>s. og_migrations s lid)"

definition add_governance_admin :: "env \<Rightarrow> address \<Rightarrow> address \<Rightarrow> unit og" where
  "add_governance_admin env caller new_admin =
     bind (require_admin caller) (\<lambda>_.
     bind (require_auth env caller) (\<lambda>_.
     modify (\<lambda>s. s\<lparr>og_admins := insert new_admin (og_admins s)\<rparr>)))"

definition remove_governance_admin :: "env \<Rightarrow> address \<Rightarrow> address \<Rightarrow> unit og" where
  "remove_governance_admin env caller admin_to_remove =
     bind (require_admin caller) (\<lambda>_.
     bind (require_auth env caller) (\<lambda>_.
     modify (\<lambda>s. s\<lparr>og_admins := og_admins s - {admin_to_remove}\<rparr>)))"

definition initialize_governance :: "env \<Rightarrow> address \<Rightarrow> unit og" where
  "initialize_governance env a =
     bind (require_auth env a) (\<lambda>_.
     bind (gets (\<lambda>s. a \<in> og_admins s)) (\<lambda>known.
     bind (throw_if known AlreadyInitialized) (\<lambda>_.
     modify (\<lambda>s. s\<lparr>og_admins := insert a (og_admins s)\<rparr>))))"

section \<open>The contract as a system\<close>

datatype og_call =
    WhitelistOracle address bytes32 string
  | BlacklistOracle address bytes32 string "int list"
  | SuspendOracle address bytes32 string
  | ReactivateOracle address bytes32
  | MigrateLeaseOracle address int bytes32 bytes32
  | AddGovernanceAdmin address address
  | RemoveGovernanceAdmin address address
  | InitializeGovernance address

fun og_exec :: "env \<Rightarrow> og_call \<Rightarrow> unit og" where
  "og_exec env (WhitelistOracle a k r) = whitelist_oracle env a k r"
| "og_exec env (BlacklistOracle a k r ls) = emergency_blacklist env a k r ls"
| "og_exec env (SuspendOracle a k r) = suspend_oracle env a k r"
| "og_exec env (ReactivateOracle a k) = reactivate_oracle env a k"
| "og_exec env (MigrateLeaseOracle a l o1 o2) = migrate_lease_oracle env a l o1 o2"
| "og_exec env (AddGovernanceAdmin a b) = add_governance_admin env a b"
| "og_exec env (RemoveGovernanceAdmin a b) = remove_governance_admin env a b"
| "og_exec env (InitializeGovernance a) = initialize_governance env a"

definition og_step :: "env \<times> og_call \<Rightarrow> og_state \<Rightarrow> og_state" where
  "og_step m s = snd (invoke (og_exec (fst m) (snd m)) s)"

end
