(* ===== verification/Governance_Props.thy ===== *)
theory Governance_Props
  imports Oracle_Governance
begin

text \<open>The oracle registry: the life of an oracle's status as an abstract machine, well-formed records, and who can
  change them.\<close>

section \<open>Effects\<close>

definition statuses :: "og_state \<Rightarrow> bytes32 \<rightharpoonup> governance_status" where
  "statuses s k = map_option gr_status (og_records s k)"

lemma statuses_store:
  "og_records t = (og_records s)(k \<mapsto> r) \<Longrightarrow> statuses t = (statuses s)(k \<mapsto> gr_status r)"
  by (auto simp: statuses_def fun_eq_iff)

lemma statuses_same: "og_records t = og_records s \<Longrightarrow> statuses t = statuses s"
  by (simp add: statuses_def fun_eq_iff)

lemma governance_admin_Ok_iff [proc_ok]: "require_admin a s = (Ok u, s') \<longleftrightarrow> a \<in> og_admins s \<and> s' = s"
  by (auto simp: require_admin_def proc_ok)

lemma get_oracle_record_Ok_iff [proc_ok]:
  "get_oracle_record k s = (Ok r, s') \<longleftrightarrow> og_records s k = Some r \<and> s' = s"
  by (auto simp: get_oracle_record_def proc_ok)

lemma store_record_Ok_iff [proc_ok]:
  "store_record k r s = (Ok u, s') \<longleftrightarrow> s' = s\<lparr>og_records := (og_records s)(k \<mapsto> r)\<rparr>"
  by (auto simp: store_record_def)

text \<open>What each successful operation does to the records, the admins and the oracles of leases.\<close>

definition by_admin :: "env \<Rightarrow> address \<Rightarrow> og_state \<Rightarrow> bool" where
  "by_admin env a s \<longleftrightarrow> a \<in> og_admins s \<and> a \<in> set (auths env)"

definition same_rest :: "og_state \<Rightarrow> og_state \<Rightarrow> bool" where
  "same_rest s t \<longleftrightarrow> og_admins t = og_admins s \<and> og_lease_oracle t = og_lease_oracle s \<and> og_migrations t = og_migrations s"

lemma whitelist_oracle_Ok:
  "whitelist_oracle env a k x s = (Ok u, t) \<Longrightarrow> by_admin env a s \<and> same_rest s t
     \<and> (statuses s k = None \<or> statuses s k = Some Blacklisted)
     \<and> (\<exists>r. gr_oracle_pubkey r = k \<and> gr_status r = Whitelisted \<and> og_records t = (og_records s)(k \<mapsto> r))"
  by (auto simp: whitelist_oracle_def proc_ok Let_def by_admin_def same_rest_def statuses_def split: option.splits)

lemma emergency_blacklist_Ok:
  assumes "emergency_blacklist env a k x ls s = (Ok u, t)"
  shows "by_admin env a s \<and> same_rest s t \<and> (\<exists>r. gr_status r = Blacklisted \<and> og_records t = (og_records s)(k \<mapsto> r)
     \<and> gr_oracle_pubkey r = (case og_records s k of None \<Rightarrow> k | Some r \<Rightarrow> gr_oracle_pubkey r))"
  using assms
  by (auto simp: emergency_blacklist_def proc_ok Let_def by_admin_def same_rest_def split: option.splits)

lemma suspend_oracle_Ok:
  "suspend_oracle env a k x s = (Ok u, t) \<Longrightarrow> by_admin env a s \<and> same_rest s t
     \<and> (\<exists>r q. og_records s k = Some r \<and> gr_status r \<noteq> Blacklisted \<and> gr_oracle_pubkey q = gr_oracle_pubkey r
         \<and> gr_status q = Suspended \<and> og_records t = (og_records s)(k \<mapsto> q))"
  by (auto simp: suspend_oracle_def proc_ok by_admin_def same_rest_def)

lemma reactivate_oracle_Ok:
  "reactivate_oracle env a k s = (Ok u, t) \<Longrightarrow> by_admin env a s \<and> same_rest s t
     \<and> (\<exists>r q. og_records s k = Some r \<and> gr_status r \<noteq> Blacklisted \<and> gr_oracle_pubkey q = gr_oracle_pubkey r
         \<and> gr_status q = Whitelisted \<and> og_records t = (og_records s)(k \<mapsto> q))"
  by (auto simp: reactivate_oracle_def proc_ok by_admin_def same_rest_def)

lemma migrate_lease_oracle_Ok:
  "migrate_lease_oracle env a l o1 o2 s = (Ok u, t) \<Longrightarrow> a \<in> set (auths env) \<and> statuses s o2 = Some Whitelisted
     \<and> og_records t = og_records s \<and> og_admins t = og_admins s \<and> og_lease_oracle t = (og_lease_oracle s)(l \<mapsto> o2)
     \<and> (\<exists>m. om_lease_id m = l \<and> om_new_oracle m = o2 \<and> og_migrations t = (og_migrations s)(l \<mapsto> m))"
  by (auto simp: migrate_lease_oracle_def proc_ok statuses_def)

lemma admin_ops_Ok:
  "add_governance_admin env a b s = (Ok u, t) \<Longrightarrow> by_admin env a s \<and> t = s\<lparr>og_admins := insert b (og_admins s)\<rparr>"
  "remove_governance_admin env a b s = (Ok u, t) \<Longrightarrow> by_admin env a s \<and> t = s\<lparr>og_admins := og_admins s - {b}\<rparr>"
  "initialize_governance env a s = (Ok u, t) \<Longrightarrow> a \<in> set (auths env) \<and> t = s\<lparr>og_admins := insert a (og_admins s)\<rparr>"
  by (auto simp: add_governance_admin_def remove_governance_admin_def initialize_governance_def proc_ok by_admin_def)

lemmas og_effects = whitelist_oracle_Ok emergency_blacklist_Ok suspend_oracle_Ok reactivate_oracle_Ok
  migrate_lease_oracle_Ok admin_ops_Ok

section \<open>The abstract registry\<close>

text \<open>The transitions are labelled with the call that makes them, and guarded by the status before: an oracle is
  enlisted when it is unknown or on the blacklist, suspended and reactivated when it is known and not on the
  blacklist, and put on the blacklist from any status. No other call is a label.\<close>

inductive registry_step :: "og_call \<Rightarrow> (bytes32 \<rightharpoonup> governance_status) \<Rightarrow> (bytes32 \<rightharpoonup> governance_status) \<Rightarrow> bool"
where
  enlist: "f k = None \<or> f k = Some Blacklisted \<Longrightarrow>
     registry_step (WhitelistOracle a k x) f (f(k \<mapsto> Whitelisted))"
| ban: "registry_step (BlacklistOracle a k x ls) f (f(k \<mapsto> Blacklisted))"
| suspend: "f k = Some Whitelisted \<or> f k = Some Suspended \<Longrightarrow>
     registry_step (SuspendOracle a k x) f (f(k \<mapsto> Suspended))"
| reactivate: "f k = Some Whitelisted \<or> f k = Some Suspended \<Longrightarrow>
     registry_step (ReactivateOracle a k) f (f(k \<mapsto> Whitelisted))"

inductive_simps registry_step_simps:
  "registry_step (WhitelistOracle a k x) f g" "registry_step (BlacklistOracle a k x ls) f g"
  "registry_step (SuspendOracle a k x) f g" "registry_step (ReactivateOracle a k) f g"
  "registry_step (MigrateLeaseOracle a l o1 o2) f g" "registry_step (AddGovernanceAdmin a b) f g"
  "registry_step (RemoveGovernanceAdmin a b) f g" "registry_step (InitializeGovernance a) f g"

fun og_caller :: "og_call \<Rightarrow> address" where
  "og_caller (WhitelistOracle a k r) = a"
| "og_caller (BlacklistOracle a k r ls) = a"
| "og_caller (SuspendOracle a k r) = a"
| "og_caller (ReactivateOracle a k) = a"
| "og_caller (MigrateLeaseOracle a l o1 o2) = a"
| "og_caller (AddGovernanceAdmin a b) = a"
| "og_caller (RemoveGovernanceAdmin a b) = a"
| "og_caller (InitializeGovernance a) = a"

lemma known_status:
  "og_records s k = Some r \<Longrightarrow> gr_status r \<noteq> Blacklisted \<Longrightarrow>
     statuses s k = Some Whitelisted \<or> statuses s k = Some Suspended"
  by (cases "gr_status r") (auto simp: statuses_def)

text \<open>Soundness: what a call changes is a transition with its label.\<close>

lemma og_exec_status:
  assumes run: "og_exec env m s = (Ok u, t)"
  shows "statuses t = statuses s
    \<or> registry_step m (statuses s) (statuses t) \<and> by_admin env (og_caller m) s"
proof (cases m)
  case (WhitelistOracle a k x)
  then show ?thesis using whitelist_oracle_Ok [of env a k x s u t] run
    by (auto simp: statuses_store registry_step_simps)
next
  case (BlacklistOracle a k x ls)
  then show ?thesis using emergency_blacklist_Ok [of env a k x ls s u t] run
    by (auto simp: statuses_store registry_step_simps)
next
  case (SuspendOracle a k x)
  then show ?thesis using suspend_oracle_Ok [of env a k x s u t] run
    by (auto simp: statuses_store registry_step_simps dest: known_status)
next
  case (ReactivateOracle a k)
  then show ?thesis using reactivate_oracle_Ok [of env a k s u t] run
    by (auto simp: statuses_store registry_step_simps dest: known_status)
next
  case (MigrateLeaseOracle a l o1 o2)
  then have "og_records t = og_records s" using migrate_lease_oracle_Ok [of env a l o1 o2 s u t] run by simp
  from statuses_same [OF this] show ?thesis ..
next
  case (AddGovernanceAdmin a b)
  then have "og_records t = og_records s" using admin_ops_Ok(1) [of env a b s u t] run by simp
  from statuses_same [OF this] show ?thesis ..
next
  case (RemoveGovernanceAdmin a b)
  then have "og_records t = og_records s" using admin_ops_Ok(2) [of env a b s u t] run by simp
  from statuses_same [OF this] show ?thesis ..
next
  case (InitializeGovernance a)
  then have "og_records t = og_records s" using admin_ops_Ok(3) [of env a s u t] run by simp
  from statuses_same [OF this] show ?thesis ..
qed

text \<open>Completeness: the call of an admin makes every transition with its label.\<close>

definition counters_fit :: "og_state \<Rightarrow> bool" where
  "counters_fit s \<longleftrightarrow> is_u64 (count_or_0 (og_whitelist_count s) + 1) \<and> is_u64 (count_or_0 (og_blacklist_count s) + 1)"

lemmas og_runs = og_step_def invoke_def require_admin_def store_record_def get_oracle_record_def bind_run
  require_auth_run throw_if_run chk_w_run publish_run ok_or_run Let_def statuses_def

lemma registry_step_made:
  assumes "registry_step m (statuses s) f" "by_admin env (og_caller m) s" "counters_fit s"
  shows "statuses (og_step (env, m) s) = f"
proof (cases m)
  case (WhitelistOracle a k x)
  with assms show ?thesis by (cases "og_records s k")
    (auto simp: registry_step_simps og_runs whitelist_oracle_def by_admin_def counters_fit_def fun_eq_iff)
next
  case (BlacklistOracle a k x ls)
  with assms show ?thesis by (cases "og_records s k")
    (auto simp: registry_step_simps og_runs emergency_blacklist_def by_admin_def counters_fit_def fun_eq_iff)
next
  case (SuspendOracle a k x)
  with assms show ?thesis by (cases "og_records s k")
    (auto simp: registry_step_simps og_runs suspend_oracle_def by_admin_def fun_eq_iff)
next
  case (ReactivateOracle a k)
  with assms show ?thesis by (cases "og_records s k")
    (auto simp: registry_step_simps og_runs reactivate_oracle_def by_admin_def fun_eq_iff)
qed (use assms in \<open>simp_all add: registry_step_simps\<close>)

section \<open>Well-formed registries\<close>

definition og_wf :: "og_state \<Rightarrow> bool" where
  "og_wf s \<longleftrightarrow> (\<forall>k r. og_records s k = Some r \<longrightarrow> gr_oracle_pubkey r = k)
     \<and> (\<forall>l. og_lease_oracle s l = map_option om_new_oracle (og_migrations s l))
     \<and> (\<forall>l m. og_migrations s l = Some m \<longrightarrow> om_lease_id m = l \<and> og_records s (om_new_oracle m) \<noteq> None)"

lemma og_wf_store:
  assumes "og_wf s" "og_records t = (og_records s)(k \<mapsto> r)" "gr_oracle_pubkey r = k" "same_rest s t"
  shows "og_wf t"
  using assms by (auto simp: og_wf_def same_rest_def)

lemma og_wf_admins: "og_wf s \<Longrightarrow> og_wf (s\<lparr>og_admins := A\<rparr>)"
  by (simp add: og_wf_def)

lemma og_exec_wf:
  assumes wf: "og_wf s" and run: "og_exec env m s = (Ok u, t)"
  shows "og_wf t"
proof (cases m)
  case (WhitelistOracle a k x)
  then show ?thesis using whitelist_oracle_Ok [of env a k x s u t] run by (auto intro: og_wf_store [OF wf])
next
  case (BlacklistOracle a k x ls)
  then show ?thesis using emergency_blacklist_Ok [of env a k x ls s u t] run wf
    by (auto simp: og_wf_def [of s] intro!: og_wf_store [OF wf] split: option.splits)
next
  case (SuspendOracle a k x)
  then show ?thesis using suspend_oracle_Ok [of env a k x s u t] run wf
    by (auto simp: og_wf_def [of s] intro!: og_wf_store [OF wf])
next
  case (ReactivateOracle a k)
  then show ?thesis using reactivate_oracle_Ok [of env a k s u t] run wf
    by (auto simp: og_wf_def [of s] intro!: og_wf_store [OF wf])
next
  case (MigrateLeaseOracle a l o1 o2)
  then show ?thesis using migrate_lease_oracle_Ok [of env a l o1 o2 s u t] run wf
    by (auto simp: og_wf_def statuses_def split: if_splits)
next
  case (AddGovernanceAdmin a b)
  then show ?thesis using admin_ops_Ok(1) [of env a b s u t] run wf by (auto simp: og_wf_admins)
next
  case (RemoveGovernanceAdmin a b)
  then show ?thesis using admin_ops_Ok(2) [of env a b s u t] run wf by (auto simp: og_wf_admins)
next
  case (InitializeGovernance a)
  then show ?thesis using admin_ops_Ok(3) [of env a s u t] run wf by (auto simp: og_wf_admins)
qed

interpretation registry: contract_system og_wf og_step og_init
proof
  fix m :: "env \<times> og_call" and s
  assume "og_wf s"
  then show "og_wf (og_step m s)"
    using og_exec_wf [of s "fst m" "snd m"]
    by (cases "og_exec (fst m) (snd m)" s rule: invoke_cases) (auto simp: og_step_def)
next
  show "og_wf og_init" by (simp add: og_wf_def og_init_def)
qed

section \<open>Properties\<close>

text \<open>Claim C9. The registry implements an abstract machine over the statuses of oracles whose transitions are labelled
  with the calls: enlisting an oracle that is unknown or on the blacklist, suspending or reactivating one that
  is known and not on the blacklist, and banning any. Whatever a call changes in the statuses is the transition
  with its label, and its caller is a governance admin who authorised it. Conversely, while the two counters
  fit into u64, the authorised call of an admin makes every transition with its label.\<close>
theorem registry_refines_machine:
  assumes "t = og_step (env, m) s"
  shows "(statuses t = statuses s
      \<or> registry_step m (statuses s) (statuses t) \<and> og_caller m \<in> og_admins s \<and> og_caller m \<in> set (auths env))
    \<and> (\<forall>f. registry_step m (statuses s) f \<and> og_caller m \<in> og_admins s \<and> og_caller m \<in> set (auths env)
         \<and> counters_fit s \<longrightarrow> statuses t = f)"
proof
  show "statuses t = statuses s
      \<or> registry_step m (statuses s) (statuses t) \<and> og_caller m \<in> og_admins s \<and> og_caller m \<in> set (auths env)"
  proof (cases "og_exec env m" s rule: invoke_cases)
    case (ok u t')
    then show ?thesis using og_exec_status [OF ok(1)] assms by (auto simp: og_step_def by_admin_def)
  next
    case (abort r)
    then show ?thesis using assms by (simp add: og_step_def)
  qed
  show "\<forall>f. registry_step m (statuses s) f \<and> og_caller m \<in> og_admins s \<and> og_caller m \<in> set (auths env)
         \<and> counters_fit s \<longrightarrow> statuses t = f"
    using registry_step_made by (simp add: assms by_admin_def)
qed

text \<open>Claim C39. The storage of the registry is well formed in every reachable state: each record is stored under the
  key it carries; a lease has an active oracle exactly when it was migrated, namely the oracle of its last
  migration, stored under that lease; and that oracle has a record, whatever became of its status.\<close>
theorem registry_well_formed:
  assumes "s = fold og_step ms og_init"
  shows "(\<forall>k r. og_records s k = Some r \<longrightarrow> gr_oracle_pubkey r = k)
    \<and> (\<forall>l. og_lease_oracle s l = map_option om_new_oracle (og_migrations s l))
    \<and> (\<forall>l m. og_migrations s l = Some m \<longrightarrow> om_lease_id m = l \<and> og_records s (om_new_oracle m) \<noteq> None)"
  using registry.reach_inv [of ms] unfolding assms og_wf_def by blast

text \<open>The registry is open to everybody. In any state, any address that authorises the call becomes a
  governance admin by initialising the governance, and can then put any oracle on the blacklist; and any
  address can move any lease to any whitelisted oracle.\<close>
theorem outsiders_control_oracles:
  assumes "a \<in> set (auths env)" "is_u64 (count_or_0 (og_blacklist_count s) + 1)"
  shows "a \<in> og_admins (og_step (env, InitializeGovernance a) s)
    \<and> statuses (og_step (env, BlacklistOracle a k x ls) (og_step (env, InitializeGovernance a) s)) k = Some Blacklisted
    \<and> (statuses s k' = Some Whitelisted \<longrightarrow>
        og_lease_oracle (og_step (env, MigrateLeaseOracle a l o1 k') s) l = Some k')"
proof -
  define s1 where "s1 = og_step (env, InitializeGovernance a) s"
  have s1: "a \<in> og_admins s1" "og_blacklist_count s1 = og_blacklist_count s"
    using assms(1) by (auto simp: s1_def og_step_def invoke_def initialize_governance_def bind_run require_auth_run
        throw_if_run)
  have "statuses (og_step (env, BlacklistOracle a k x ls) s1) k = Some Blacklisted"
    using s1 assms by (cases "og_records s1 k") (auto simp: og_step_def invoke_def emergency_blacklist_def
        require_admin_def store_record_def bind_run require_auth_run throw_if_run chk_w_run publish_run Let_def statuses_def)
  moreover have "og_lease_oracle (og_step (env, MigrateLeaseOracle a l o1 k') s) l = Some k'"
    if "statuses s k' = Some Whitelisted"
    using that assms(1) by (auto simp: og_step_def invoke_def migrate_lease_oracle_def bind_run require_auth_run
        throw_if_run publish_run ok_or_run statuses_def)
  ultimately show ?thesis using s1 by (simp add: s1_def)
qed

definition ox_env :: env where
  "ox_env = \<lparr>ledger_timestamp = 100, ledger_sequence = 1, auths = [7], current_contract = 9, ext = (\<lambda>cs c. Reply_unit)\<rparr>"

definition ox_run :: "(env \<times> og_call) list" where
  "ox_run = map (Pair ox_env) [InitializeGovernance 7, WhitelistOracle 7 50 [], MigrateLeaseOracle 7 3 40 50,
     BlacklistOracle 7 50 [] [3]]"

theorem registry_refines_machine_witness:
  "registry_step (BlacklistOracle 7 50 [] [3]) (statuses (fold og_step (take 3 ox_run) og_init))
     (statuses (fold og_step ox_run og_init))"
proof -
  have "fold og_step ox_run og_init = og_step (ox_env, BlacklistOracle 7 50 [] [3]) (fold og_step (take 3 ox_run) og_init)"
    by (simp add: ox_run_def)
  note r = registry_refines_machine [OF this]
  have "statuses (fold og_step (take 3 ox_run) og_init) 50 = Some Whitelisted"
    "statuses (fold og_step ox_run og_init) 50 = Some Blacklisted"
    by code_simp+
  then show ?thesis using r by auto
qed

theorem registry_well_formed_witness:
  "og_lease_oracle (fold og_step ox_run og_init) 3 = Some 50 \<and> og_records (fold og_step ox_run og_init) 50 \<noteq> None"
proof -
  have "og_lease_oracle (fold og_step ox_run og_init) 3 = Some 50" by code_simp
  with registry_well_formed [OF refl, of ox_run] show ?thesis by force
qed

theorem outsiders_control_oracles_witness:
  "statuses (og_step (ox_env, BlacklistOracle 7 50 [] []) (og_step (ox_env, InitializeGovernance 7) og_init)) 50
     = Some Blacklisted"
  by (rule outsiders_control_oracles [THEN conjunct2, THEN conjunct1])
    (simp_all add: ox_env_def og_init_def count_or_0_def range_defs int_bounds)

end
