(* ===== verification/Identity_Registry.thy ===== *)
theory Identity_Registry
  imports Soroban_Host
begin

text \<open>
  \<^verbatim>\<open>contracts/leaseflow_contracts/src/sep12_identity.rs\<close>: identity providers, the providers each lessor trusts, and
  the council that suspends and revokes providers. The error strings of the source are the constructors of
  \<open>id_error\<close>. A council entry of the storage is only ever written as \<open>true\<close>, so the entries are a set.
\<close>

section \<open>State\<close>

datatype provider_status = ProviderActive | ProviderSuspended | ProviderRevoked

datatype id_error =
    ProviderAlreadyRegistered
  | ProviderNotFound
  | ProviderNotActive
  | ProviderAlreadyTrusted
  | NoTrustedProviders
  | ProviderNotInTrustedList
  | ProviderAlreadyRevoked
  | NotCouncilMember
  | ProposalNotFound
  | ProposalAlreadyExecuted
  | InsufficientVotes

record identity_provider =
  ip_provider_id :: bytes32
  ip_provider_address :: address
  ip_name :: string
  ip_status :: provider_status
  ip_registered_at :: int
  ip_last_updated :: int
  ip_verification_count :: int
  ip_trust_score :: int

record lessor_trusted_providers =
  lt_lessor :: address
  lt_trusted_providers :: "bytes32 list"
  lt_auto_accept_new_providers :: bool

record revocation_proposal =
  rp_proposal_id :: int
  rp_provider_id :: bytes32
  rp_proposer :: address
  rp_reason :: string
  rp_votes_for :: int
  rp_votes_against :: int
  rp_created_at :: int
  rp_executed :: bool

datatype id_event =
    IdentityProviderRegistered bytes32 address string int
  | IdentityProviderSuspended bytes32 string int
  | IdentityProviderRevoked bytes32 string int
  | LessorTrustedProviderAdded address bytes32 int
  | LessorTrustedProviderRemoved address bytes32 int
  | RevocationProposalCreated int bytes32 address int
  | RevocationProposalExecuted int bytes32 int

record id_state = "id_event host" +
  id_providers :: "bytes32 \<rightharpoonup> identity_provider"
  id_trusted :: "address \<rightharpoonup> lessor_trusted_providers"
  id_council :: "address set"
  id_proposals :: "int \<rightharpoonup> revocation_proposal"
  id_count :: "int option"

type_synonym 'a idp = "(id_state, id_error, 'a) proc"

definition id_init :: id_state where
  "id_init = \<lparr>events = [], calls = [], id_providers = Map.empty, id_trusted = Map.empty, id_council = {},
     id_proposals = Map.empty, id_count = None\<rparr>"

section \<open>Operations\<close>

definition registry_count :: "int idp" where
  "registry_count = gets (\<lambda>s. case id_count s of None \<Rightarrow> 0 | Some n \<Rightarrow> n)"

definition store_provider :: "bytes32 \<Rightarrow> identity_provider \<Rightarrow> unit idp" where
  "store_provider k p = modify (\<lambda>s. s\<lparr>id_providers := (id_providers s)(k \<mapsto> p)\<rparr>)"

definition store_trusted :: "address \<Rightarrow> lessor_trusted_providers \<Rightarrow> unit idp" where
  "store_trusted a x = modify (\<lambda>s. s\<lparr>id_trusted := (id_trusted s)(a \<mapsto> x)\<rparr>)"

definition store_proposal :: "int \<Rightarrow> revocation_proposal \<Rightarrow> unit idp" where
  "store_proposal i p = modify (\<lambda>s. s\<lparr>id_proposals := (id_proposals s)(i \<mapsto> p)\<rparr>)"

definition require_governance_council :: "address \<Rightarrow> unit idp" where
  "require_governance_council a = bind (gets (\<lambda>s. a \<in> id_council s)) (\<lambda>ok. throw_if (\<not> ok) NotCouncilMember)"

definition get_provider :: "bytes32 \<Rightarrow> identity_provider idp" where
  "get_provider k = bind (gets (\<lambda>s. id_providers s k)) (\<lambda>p. ok_or p ProviderNotFound)"

definition get_trusted_providers :: "address \<Rightarrow> lessor_trusted_providers idp" where
  "get_trusted_providers a = bind (gets (\<lambda>s. id_trusted s a)) (\<lambda>x. ok_or x NoTrustedProviders)"

definition get_revocation_proposal :: "int \<Rightarrow> revocation_proposal idp" where
  "get_revocation_proposal i = bind (gets (\<lambda>s. id_proposals s i)) (\<lambda>x. ok_or x ProposalNotFound)"

definition register_identity_provider :: "env \<Rightarrow> bytes32 \<Rightarrow> address \<Rightarrow> string \<Rightarrow> unit idp" where
  "register_identity_provider env k a name =
     bind (require_auth env a) (\<lambda>_.
     bind (gets (\<lambda>s. id_providers s k)) (\<lambda>existing.
     bind (throw_if (existing \<noteq> None) ProviderAlreadyRegistered) (\<lambda>_.
     let now = ledger_timestamp env in
     bind (store_provider k \<lparr>ip_provider_id = k, ip_provider_address = a, ip_name = name, ip_status = ProviderActive,
       ip_registered_at = now, ip_last_updated = now, ip_verification_count = 0, ip_trust_score = 5000\<rparr>) (\<lambda>_.
     bind registry_count (\<lambda>n.
     bind (chk_u64 (n + 1)) (\<lambda>n.
     bind (modify (\<lambda>s. s\<lparr>id_count := Some n\<rparr>)) (\<lambda>_.
     publish (IdentityProviderRegistered k a name now))))))))"

definition add_trusted_provider :: "env \<Rightarrow> address \<Rightarrow> bytes32 \<Rightarrow> unit idp" where
  "add_trusted_provider env lessor k =
     bind (require_auth env lessor) (\<lambda>_.
     bind (get_provider k) (\<lambda>p.
     bind (throw_if (ip_status p \<noteq> ProviderActive) ProviderNotActive) (\<lambda>_.
     bind (gets (\<lambda>s. case id_trusted s lessor of Some x \<Rightarrow> x
       | None \<Rightarrow> \<lparr>lt_lessor = lessor, lt_trusted_providers = [], lt_auto_accept_new_providers = False\<rparr>)) (\<lambda>trusted.
     bind (throw_if (k \<in> set (lt_trusted_providers trusted)) ProviderAlreadyTrusted) (\<lambda>_.
     bind (store_trusted lessor (trusted\<lparr>lt_trusted_providers := lt_trusted_providers trusted @ [k]\<rparr>)) (\<lambda>_.
     publish (LessorTrustedProviderAdded lessor k (ledger_timestamp env))))))))"

definition remove_trusted_provider :: "env \<Rightarrow> address \<Rightarrow> bytes32 \<Rightarrow> unit idp" where
  "remove_trusted_provider env lessor k =
     bind (require_auth env lessor) (\<lambda>_.
     bind (get_trusted_providers lessor) (\<lambda>trusted.
     let new_providers = filter (\<lambda>x. x \<noteq> k) (lt_trusted_providers trusted);
         found = (k \<in> set (lt_trusted_providers trusted)) in
     bind (throw_if (\<not> found) ProviderNotInTrustedList) (\<lambda>_.
     bind (store_trusted lessor (trusted\<lparr>lt_trusted_providers := new_providers\<rparr>)) (\<lambda>_.
     publish (LessorTrustedProviderRemoved lessor k (ledger_timestamp env))))))"

definition suspend_provider :: "env \<Rightarrow> address \<Rightarrow> bytes32 \<Rightarrow> string \<Rightarrow> unit idp" where
  "suspend_provider env a k reason =
     bind (require_governance_council a) (\<lambda>_.
     bind (require_auth env a) (\<lambda>_.
     bind (get_provider k) (\<lambda>p.
     bind (throw_if (ip_status p = ProviderRevoked) ProviderAlreadyRevoked) (\<lambda>_.
     bind (store_provider k (p\<lparr>ip_status := ProviderSuspended, ip_last_updated := ledger_timestamp env\<rparr>)) (\<lambda>_.
     publish (IdentityProviderSuspended k reason (ledger_timestamp env)))))))"

definition create_revocation_proposal :: "env \<Rightarrow> address \<Rightarrow> bytes32 \<Rightarrow> string \<Rightarrow> int idp" where
  "create_revocation_proposal env a k reason =
     bind (require_auth env a) (\<lambda>_.
     bind (require_governance_council a) (\<lambda>_.
     bind (get_provider k) (\<lambda>_.
     bind registry_count (\<lambda>i.
     bind (store_proposal i \<lparr>rp_proposal_id = i, rp_provider_id = k, rp_proposer = a, rp_reason = reason,
       rp_votes_for = 0, rp_votes_against = 0, rp_created_at = ledger_timestamp env, rp_executed = False\<rparr>) (\<lambda>_.
     bind (publish (RevocationProposalCreated i k a (ledger_timestamp env))) (\<lambda>_.
     return i))))))"

definition vote_on_revocation :: "env \<Rightarrow> address \<Rightarrow> int \<Rightarrow> bool \<Rightarrow> unit idp" where
  "vote_on_revocation env voter i vote_for =
     bind (require_auth env voter) (\<lambda>_.
     bind (require_governance_council voter) (\<lambda>_.
     bind (get_revocation_proposal i) (\<lambda>p.
     bind (throw_if (rp_executed p) ProposalAlreadyExecuted) (\<lambda>_.
     bind (if vote_for then bind (chk_u32 (rp_votes_for p + 1)) (\<lambda>n. return (p\<lparr>rp_votes_for := n\<rparr>))
       else bind (chk_u32 (rp_votes_against p + 1)) (\<lambda>n. return (p\<lparr>rp_votes_against := n\<rparr>))) (\<lambda>p.
     store_proposal i p)))))"

definition execute_revocation :: "env \<Rightarrow> address \<Rightarrow> int \<Rightarrow> unit idp" where
  "execute_revocation env executor i =
     bind (require_auth env executor) (\<lambda>_.
     bind (require_governance_council executor) (\<lambda>_.
     bind (get_revocation_proposal i) (\<lambda>p.
     bind (throw_if (rp_executed p) ProposalAlreadyExecuted) (\<lambda>_.
     bind (chk_u32 (rp_votes_for p + rp_votes_against p)) (\<lambda>total_votes.
     bind (if total_votes < 3 then return True else
       bind (chk_u32 (rp_votes_for p * 2)) (\<lambda>twice. return (twice \<le> total_votes * 1))) (\<lambda>too_few.
     bind (throw_if too_few InsufficientVotes) (\<lambda>_.
     bind (get_provider (rp_provider_id p)) (\<lambda>provider.
     bind (store_provider (rp_provider_id p)
       (provider\<lparr>ip_status := ProviderRevoked, ip_last_updated := ledger_timestamp env\<rparr>)) (\<lambda>_.
     bind (store_proposal i (p\<lparr>rp_executed := True\<rparr>)) (\<lambda>_.
     bind (publish (IdentityProviderRevoked (rp_provider_id p) (rp_reason p) (ledger_timestamp env))) (\<lambda>_.
     publish (RevocationProposalExecuted i (rp_provider_id p) (ledger_timestamp env)))))))))))))"

definition is_provider_trusted :: "address \<Rightarrow> bytes32 \<Rightarrow> bool idp" where
  "is_provider_trusted lessor k = gets (\<lambda>s. case id_trusted s lessor of None \<Rightarrow> False
     | Some trusted \<Rightarrow> k \<in> set (lt_trusted_providers trusted))"

definition add_governance_council_member :: "env \<Rightarrow> address \<Rightarrow> address \<Rightarrow> unit idp" where
  "add_governance_council_member env a member =
     bind (require_governance_council a) (\<lambda>_.
     bind (require_auth env a) (\<lambda>_.
     modify (\<lambda>s. s\<lparr>id_council := insert member (id_council s)\<rparr>)))"

section \<open>The contract as a system\<close>

datatype id_call =
    RegisterIdentityProvider bytes32 address string
  | AddTrustedProvider address bytes32
  | RemoveTrustedProvider address bytes32
  | SuspendProvider address bytes32 string
  | CreateRevocationProposal address bytes32 string
  | VoteOnRevocation address int bool
  | ExecuteRevocation address int
  | AddGovernanceCouncilMember address address

fun id_exec :: "env \<Rightarrow> id_call \<Rightarrow> unit idp" where
  "id_exec env (RegisterIdentityProvider k a x) = register_identity_provider env k a x"
| "id_exec env (AddTrustedProvider a k) = add_trusted_provider env a k"
| "id_exec env (RemoveTrustedProvider a k) = remove_trusted_provider env a k"
| "id_exec env (SuspendProvider a k x) = suspend_provider env a k x"
| "id_exec env (CreateRevocationProposal a k x) = bind (create_revocation_proposal env a k x) (\<lambda>_. return ())"
| "id_exec env (VoteOnRevocation a i b) = vote_on_revocation env a i b"
| "id_exec env (ExecuteRevocation a i) = execute_revocation env a i"
| "id_exec env (AddGovernanceCouncilMember a b) = add_governance_council_member env a b"

definition id_step :: "env \<times> id_call \<Rightarrow> id_state \<Rightarrow> id_state" where
  "id_step m s = snd (invoke (id_exec (fst m) (snd m)) s)"

section \<open>The council is empty for ever\<close>

lemma require_council_Ok_iff [proc_ok]:
  "require_governance_council a s = (Ok u, s') \<longleftrightarrow> a \<in> id_council s \<and> s' = s"
  by (auto simp: require_governance_council_def proc_ok)

lemma council_operations_fail:
  assumes "id_council s = {}"
  shows "suspend_provider env a k x s \<noteq> (Ok u, t)" "create_revocation_proposal env a k x s \<noteq> (Ok i, t)"
    "vote_on_revocation env a i b s \<noteq> (Ok u, t)" "execute_revocation env a i s \<noteq> (Ok u, t)"
    "add_governance_council_member env a m s \<noteq> (Ok u, t)"
  using assms
  by (simp_all add: suspend_provider_def create_revocation_proposal_def vote_on_revocation_def
      execute_revocation_def add_governance_council_member_def proc_ok)

definition id_wf :: "id_state \<Rightarrow> bool" where
  "id_wf s \<longleftrightarrow> id_council s = {} \<and> id_proposals s = Map.empty
     \<and> (\<forall>k p. id_providers s k = Some p \<longrightarrow> ip_provider_id p = k \<and> ip_status p = ProviderActive)
     \<and> (\<forall>a x. id_trusted s a = Some x \<longrightarrow> lt_lessor x = a \<and> distinct (lt_trusted_providers x)
         \<and> (\<forall>k \<in> set (lt_trusted_providers x). id_providers s k \<noteq> None))"

lemma register_identity_provider_Ok:
  assumes "register_identity_provider env k a x s = (Ok u, t)"
  shows "id_providers s k = None \<and> id_council t = id_council s \<and> id_proposals t = id_proposals s
    \<and> id_trusted t = id_trusted s \<and> a \<in> set (auths env)
    \<and> (\<exists>p. id_providers t = (id_providers s)(k \<mapsto> p) \<and> ip_provider_id p = k \<and> ip_status p = ProviderActive)"
  using assms
  by (auto simp: register_identity_provider_def registry_count_def store_provider_def proc_ok Let_def)

lemma add_trusted_provider_Ok:
  assumes "add_trusted_provider env a k s = (Ok u, t)"
  shows "id_council t = id_council s \<and> id_proposals t = id_proposals s \<and> id_providers t = id_providers s
    \<and> id_providers s k \<noteq> None
    \<and> (\<exists>x. id_trusted t = (id_trusted s)(a \<mapsto> x) \<and> (case id_trusted s a of
         None \<Rightarrow> lt_lessor x = a \<and> lt_trusted_providers x = [k]
       | Some y \<Rightarrow> lt_lessor x = lt_lessor y \<and> k \<notin> set (lt_trusted_providers y)
           \<and> lt_trusted_providers x = lt_trusted_providers y @ [k]))"
  using assms
  by (cases "id_trusted s a") (auto simp: add_trusted_provider_def get_provider_def store_trusted_def proc_ok)

lemma remove_trusted_provider_Ok:
  assumes "remove_trusted_provider env a k s = (Ok u, t)"
  shows "id_council t = id_council s \<and> id_proposals t = id_proposals s \<and> id_providers t = id_providers s
    \<and> (\<exists>x y. id_trusted s a = Some y \<and> id_trusted t = (id_trusted s)(a \<mapsto> x) \<and> lt_lessor x = lt_lessor y
         \<and> lt_trusted_providers x = filter (\<lambda>z. z \<noteq> k) (lt_trusted_providers y))"
  using assms
  by (auto simp: remove_trusted_provider_def get_trusted_providers_def store_trusted_def proc_ok Let_def)

end
