(* ===== verification/Identity_Props.thy ===== *)
theory Identity_Props
  imports Identity_Registry
begin

text \<open>The identity registry: well-formed trust lists, and a governance that can never act.\<close>

lemma id_exec_wf:
  assumes wf: "id_wf s" and run: "id_exec env m s = (Ok u, t)"
  shows "id_wf t"
proof (cases m)
  case (RegisterIdentityProvider k a x)
  then have "register_identity_provider env k a x s = (Ok u, t)" using run by simp
  from register_identity_provider_Ok [OF this] show ?thesis using wf by (auto simp: id_wf_def split: if_splits)
next
  case (AddTrustedProvider a k)
  then have "add_trusted_provider env a k s = (Ok u, t)" using run by simp
  from add_trusted_provider_Ok [OF this] show ?thesis
    using wf by (cases "id_trusted s a") (auto simp: id_wf_def split: if_splits)
next
  case (RemoveTrustedProvider a k)
  then have "remove_trusted_provider env a k s = (Ok u, t)" using run by simp
  from remove_trusted_provider_Ok [OF this] show ?thesis using wf by (auto simp: id_wf_def split: if_splits)
next
  case (CreateRevocationProposal a k x)
  then show ?thesis using run council_operations_fail(2) [of s env a k x] wf by (auto simp: proc_ok id_wf_def)
qed (use run wf council_operations_fail [of s env] in \<open>auto simp: id_wf_def\<close>)

interpretation identities: contract_system id_wf id_step id_init
proof
  fix m :: "env \<times> id_call" and s
  assume "id_wf s"
  then show "id_wf (id_step m s)"
    using id_exec_wf [of s "fst m" "snd m"]
    by (cases "id_exec (fst m) (snd m)" s rule: invoke_cases) (auto simp: id_step_def)
next
  show "id_wf id_init" by (simp add: id_wf_def id_init_def)
qed

text \<open>The governance of the identity registry can never act. Only a member of the council can add a member,
  and nothing adds the first: in every reachable state the council is empty, so suspending a provider,
  proposing, voting on and executing a revocation and adding a member all fail, and every provider ever
  registered is active for ever, compromised or not.\<close>
theorem providers_cannot_be_revoked:
  assumes "s = fold id_step ms id_init"
  shows "(\<forall>k p. id_providers s k = Some p \<longrightarrow> ip_status p = ProviderActive)
    \<and> fst (suspend_provider env a k x s) \<noteq> Ok () \<and> fst (create_revocation_proposal env a k x s) \<noteq> Ok i
    \<and> fst (vote_on_revocation env a i b s) \<noteq> Ok () \<and> fst (execute_revocation env a i s) \<noteq> Ok ()
    \<and> fst (add_governance_council_member env a m s) \<noteq> Ok ()"
proof -
  have wf: "id_wf s" using identities.reach_inv [of ms] by (simp add: assms)
  then have "id_council s = {}" by (simp add: id_wf_def)
  note council_operations_fail [OF this]
  then show ?thesis using wf by (metis id_wf_def prod.collapse)
qed

text \<open>Claim C28. Trust lists are well formed. In every reachable state a lessor's list is stored under that lessor, holds
  no provider twice and only registered ones; and \<open>is_provider_trusted\<close> answers yes exactly for its elements.\<close>
theorem trust_lists_well_formed:
  assumes "s = fold id_step ms id_init" "id_trusted s a = Some l"
  shows "lt_lessor l = a \<and> distinct (lt_trusted_providers l)
    \<and> (\<forall>k \<in> set (lt_trusted_providers l). \<exists>p. id_providers s k = Some p \<and> ip_provider_id p = k)
    \<and> fst (is_provider_trusted a k s) = Ok (k \<in> set (lt_trusted_providers l))"
proof -
  have "id_wf s" using identities.reach_inv [of ms] by (simp add: assms)
  then show ?thesis using assms(2) unfolding id_wf_def is_provider_trusted_def by fastforce
qed

definition ix_env :: env where
  "ix_env = \<lparr>ledger_timestamp = 100, ledger_sequence = 1, auths = [7, 8], current_contract = 9,
     ext = (\<lambda>cs c. Reply_unit)\<rparr>"

definition ix_run :: "(env \<times> id_call) list" where
  "ix_run = map (Pair ix_env) [RegisterIdentityProvider 50 7 [], RegisterIdentityProvider 51 7 [],
     AddTrustedProvider 8 50, AddTrustedProvider 8 51, RemoveTrustedProvider 8 50, AddGovernanceCouncilMember 7 7,
     SuspendProvider 7 50 []]"

theorem providers_cannot_be_revoked_witness:
  "fst (execute_revocation ix_env 7 0 (fold id_step ix_run id_init)) \<noteq> Ok ()
    \<and> map_option ip_status (id_providers (fold id_step ix_run id_init) 50) = Some ProviderActive"
proof -
  have "id_providers (fold id_step ix_run id_init) 50 \<noteq> None" by code_simp
  then show ?thesis using providers_cannot_be_revoked [of "fold id_step ix_run id_init" ix_run] by auto
qed

theorem trust_lists_well_formed_witness:
  "fst (is_provider_trusted 8 51 (fold id_step ix_run id_init)) = Ok True"
proof -
  have "map_option lt_trusted_providers (id_trusted (fold id_step ix_run id_init) 8) = Some [51]" by code_simp
  then obtain l where "id_trusted (fold id_step ix_run id_init) 8 = Some l" "lt_trusted_providers l = [51]" by auto
  with trust_lists_well_formed [OF refl this(1), of 51] show ?thesis by simp
qed

end
