(* ===== verification/Proration.thy ===== *)
theory Proration
  imports Lease_Months
begin

text \<open>
  \<^verbatim>\<open>contracts/leaseflow_contracts/src/proration.rs\<close>: the rent of the first month to the second. The file carries its own
  copies of the calendar functions of the math crate.
\<close>

section \<open>Definitions\<close>

definition pr_timestamp_to_ymd :: "int \<Rightarrow> int \<times> int \<times> int" where
  "pr_timestamp_to_ymd timestamp =
     (let days_since_epoch = timestamp div 86400;
          z = days_since_epoch + 719468;
          era = z div 146097;
          doe = z - era * 146097;
          yoe = (doe - doe div 1460 + doe div 36524 - doe div 146096) div 365;
          y = yoe + era * 400;
          doy = doe - (365 * yoe + yoe div 4 - yoe div 100);
          mp = (5 * doy + 2) div 153;
          d = doy - (153 * mp + 2) div 5 + 1;
          m = (if mp < 10 then mp + 3 else mp - 9);
          year = (if m \<le> 2 then y + 1 else y)
      in (year, m, d))"

definition pr_is_leap_year :: "int \<Rightarrow> bool" where
  "pr_is_leap_year year \<longleftrightarrow> (year mod 4 = 0 \<and> year mod 100 \<noteq> 0) \<or> year mod 400 = 0"

definition pr_days_in_month :: "int \<Rightarrow> int \<Rightarrow> int" where
  "pr_days_in_month year month =
     (if month \<in> {4, 6, 9, 11} then 30
      else if month = 2 then (if pr_is_leap_year year then 29 else 28)
      else 31)"

definition calculate_first_month_rent :: "int \<Rightarrow> int \<Rightarrow> ('s, 'e, int) proc" where
  "calculate_first_month_rent start_date rent_amount =
     (let (year, month, day) = pr_timestamp_to_ymd start_date;
          total_days = pr_days_in_month year month in
      bind (chk_u64 (total_days * 86400)) (\<lambda>total_month_secs.
      bind (chk_u64 (day - 1)) (\<lambda>days_elapsed.
      let secs_in_current_day_elapsed = start_date mod 86400 in
      bind (chk_u64 (days_elapsed * 86400)) (\<lambda>x.
      bind (chk_u64 (x + secs_in_current_day_elapsed)) (\<lambda>elapsed_secs.
      let occupied_secs = sat_u64 (total_month_secs - elapsed_secs) in
      div_or_trap (sat_i128 (rent_amount * occupied_secs)) total_month_secs)))))"

section \<open>The copies agree with the math crate\<close>

lemma pr_calendar:
  "pr_timestamp_to_ymd = timestamp_to_ymd" "pr_is_leap_year = is_leap_year" "pr_days_in_month = days_in_month"
proof -
  show "pr_timestamp_to_ymd = timestamp_to_ymd"
    by (rule ext) (simp only: pr_timestamp_to_ymd_def timestamp_to_ymd_def)
  show leap: "pr_is_leap_year = is_leap_year"
    by (rule ext) (simp only: pr_is_leap_year_def is_leap_year_def)
  show "pr_days_in_month = days_in_month"
    by (intro ext) (simp only: pr_days_in_month_def days_in_month_def leap)
qed

lemma second_of_day: "\<exists>r. t mod 86400 = r \<and> 0 \<le> r \<and> r < (86400 :: int)"
  by simp

lemma days_before:
  assumes "1 \<le> d" "d \<le> n"
  shows "\<exists>e. (d - 1) * 86400 = e \<and> 0 \<le> e \<and> e + 86400 \<le> n * (86400 :: int)"
proof -
  have "0 \<le> (d - 1) * 86400" using assms(1) by simp
  moreover have "(d - 1) * 86400 + 86400 = d * 86400" by (simp add: left_diff_distrib)
  moreover have "d * 86400 \<le> n * 86400" using assms(2) by simp
  ultimately show ?thesis by simp
qed

text \<open>The first second of a timestamp's month.\<close>

lemma month_start_exists:
  assumes "is_u64 t" "timestamp_to_ymd t = (y, m, d)"
  shows "ymd_to_timestamp y m 1 s = (Ok (t - t mod 86400 - (d - 1) * 86400), s)"
proof -
  have t: "0 \<le> t" "t \<le> u64_max" using assms(1) by (auto simp: is_u64_def)
  obtain era yoe mp dd where p: "timestamp_to_ymd t = ymd_of_parts era yoe mp dd"
    "valid_parts yoe mp dd" "days_of_parts era yoe mp dd = t div 86400 + 719468" "0 \<le> era"
    using timestamp_to_ymd_parts [OF t(1)] by blast
  have d: "dd = d" "1 \<le> d" using p(1,2) assms(2) by (auto simp: ymd_of_parts_def valid_parts_def split: if_splits)
  have v: "valid_parts yoe mp 1" using p(2) d by (auto simp: valid_parts_def)
  have q: "ymd_of_parts era yoe mp 1 = (y, m, 1)"
    using p(1) assms(2) by (auto simp: ymd_of_parts_def split: if_splits)
  have D: "days_of_parts era yoe mp 1 = t div 86400 + 719468 - (d - 1)"
    using p(3) d by (simp add: days_of_parts_def)
  have lo: "719468 \<le> days_of_parts era yoe mp 1"
    by (rule days_of_parts_epoch [OF v p(4) q timestamp_valid_date(2) [OF t(1) assms(2)]])
  have day: "t div 86400 * 86400 = t - t mod 86400" by (simp add: minus_mod_eq_div_mult)
  then have eq: "(days_of_parts era yoe mp 1 - 719468) * 86400 = t - t mod 86400 - (d - 1) * 86400"
    unfolding D by (simp only: diff_diff_add [symmetric] left_diff_distrib add_diff_cancel_right' flip: day)
      (simp add: left_diff_distrib)
  obtain r where r: "t mod 86400 = r" "0 \<le> r" using second_of_day by blast
  obtain e where e: "(d - 1) * 86400 = e" "0 \<le> e" using days_before [OF d(2) order_refl] by blast
  have "t - r - (d - 1) * 86400 \<le> u64_max" unfolding e(1) using r(2) t(2) e(2) by linarith
  then have "(days_of_parts era yoe mp 1 - 719468) * 86400 \<le> u64_max" by (simp only: eq r(1))
  from ymd_to_timestamp_parts [OF v p(4) lo this q, of s] show ?thesis by (simp only: eq)
qed

lemma days_in_month_range: "28 \<le> days_in_month y m \<and> days_in_month y m \<le> 31"
  by (simp add: days_in_month_def)

text \<open>What the code computes: the seconds from the timestamp to the end of its month.\<close>

lemma first_month_rent_run:
  assumes t: "is_u64 t" and ymd: "timestamp_to_ymd t = (y, m, d)"
    and first: "ymd_to_timestamp y m 1 (0 :: nat) = (Ok f :: (unit, int) outcome, 0)"
    and left: "left = f + days_in_month y m * 86400 - t"
    and fit: "is_i128 (rent * left)"
  shows "0 < left" "left \<le> days_in_month y m * 86400"
    "calculate_first_month_rent t rent s = (Ok (tdiv (rent * left) (days_in_month y m * 86400)), s)"
proof -
  have f: "f = t - t mod 86400 - (d - 1) * 86400"
    using trans [OF first [symmetric] month_start_exists [OF t ymd]] by simp
  have nn: "0 \<le> t" using t by (simp add: is_u64_def)
  have d: "1 \<le> d" "d \<le> days_in_month y m" using timestamp_valid_date(1) [OF nn ymd] by (simp_all add: valid_date_def)
  obtain r where r: "t mod 86400 = r" "0 \<le> r" "r < 86400" using second_of_day by blast
  have l: "left = days_in_month y m * 86400 - ((d - 1) * 86400 + r)" using f left by (simp add: r(1))
  obtain e where e: "(d - 1) * 86400 = e" "0 \<le> e" "e + 86400 \<le> days_in_month y m * 86400"
    using days_before [OF d] by blast
  show lb: "0 < left" "left \<le> days_in_month y m * 86400" using e r(2,3) unfolding l e(1) by linarith+
  have u: "is_u64 (days_in_month y m * 86400)" "is_u64 (d - 1)" "is_u64 ((d - 1) * 86400)"
    "is_u64 ((d - 1) * 86400 + r)" "is_u64 left"
    using days_in_month_range [of y m] d r(2,3) lb by (simp_all add: is_u64_def u64_max_def)
  have "sat_u64 (days_in_month y m * 86400 - ((d - 1) * 86400 + r)) = left"
    using sat_id(1) [OF u(5)] l by simp
  then show "calculate_first_month_rent t rent s = (Ok (tdiv (rent * left) (days_in_month y m * 86400)), s)"
    using u fit days_in_month_range [of y m]
    by (simp add: calculate_first_month_rent_def pr_calendar ymd r(1) Let_def bind_run chk_w_run div_or_trap_run sat_id)
qed

text \<open>Claim C25. The rent of the first month is prorated exactly, leap years included, for a positive rent in i64 and a
  timestamp up to \<open>10 ^ 16\<close>. From the timestamp's month with its first second \<open>f\<close> the code takes the seconds left
  and returns the rent times these over the seconds of the month, rounded down: at most the monthly rent, and the
  full rent at the first second of a month. Up to the year 2092, except on the first day of a month of a leap year,
  it is the same as the math crate's proration up to the end of the month.\<close>
theorem first_month_rent_exact:
  assumes t: "is_u64 t" "t \<le> 10 ^ 16" and rent: "0 < rent" "rent \<le> i64_max" and ymd: "timestamp_to_ymd t = (y, m, d)"
    and first: "ymd_to_timestamp y m 1 (0 :: nat) = (Ok f :: (unit, int) outcome, 0)"
    and month: "month = days_in_month y m * 86400"
  shows "f \<le> t \<and> t < f + month
    \<and> calculate_first_month_rent t rent s = (Ok (rent * (f + month - t) div month) :: ('e, int) outcome, s)
    \<and> rent * (f + month - t) div month \<le> rent \<and> (t = f \<longrightarrow> rent * (f + month - t) div month = rent)
    \<and> (y \<le> 2092 \<and> (\<not> is_leap_year y \<or> 2 \<le> d) \<longrightarrow> calculate_prorated_rent rent t (f + month) s
         = (Ok (Some (rent * (f + month - t) div month, f + month - t)) :: ('e, _) outcome, s))"
proof -
  define left where "left = f + days_in_month y m * 86400 - t"
  have nn: "0 \<le> t" using t(1) by (simp add: is_u64_def)
  have mp: "0 < month" "month \<le> 2678400" using days_in_month_range [of y m] by (simp_all add: month)
  have d: "1 \<le> d" using timestamp_valid_date(1) [OF nn ymd] by (simp add: valid_date_def)
  have f: "f = t - t mod 86400 - (d - 1) * 86400"
    using trans [OF first [symmetric] month_start_exists [OF t(1) ymd]] by simp
  obtain r where r: "t mod 86400 = r" "0 \<le> r" "r < 86400" using second_of_day by blast
  note f = f [unfolded r(1)]
  have dd: "d \<le> days_in_month y m" using timestamp_valid_date(1) [OF nn ymd] by (simp add: valid_date_def)
  obtain e where e: "(d - 1) * 86400 = e" "0 \<le> e" "e + 86400 \<le> month"
    using days_before [OF d dd] by (auto simp: month)
  have ft: "f \<le> t" unfolding f e(1) using e(2) r(2) by linarith
  have lm: "left \<le> month" using ft by (simp add: left_def month)
  note run = first_month_rent_run [OF t(1) ymd first left_def]
  have lp: "0 < left" unfolding left_def f e(1) month [symmetric] using e(3) r(3) by linarith
  have "rent * left \<le> i64_max * 2678400" using rent lp lm mp by (intro mult_mono) simp_all
  then have fit: "is_i128 (rent * left)" using rent lp by (simp add: is_i128_def int_bounds order_trans [of _ 0])
  have le: "rent * left div month \<le> rent * month div month"
    using rent lm mp by (intro zdiv_mono1) simp_all
  have small: "rent * left div month \<le> i64_max" using le mp rent by simp
  have "calculate_prorated_rent rent t (f + month) s
      = (Ok (Some (rent * left div month, left)) :: ('e, _) outcome, s)" if "y \<le> 2092" "\<not> is_leap_year y \<or> 2 \<le> d"
  proof -
    have sec: "get_seconds_in_month t s = (Ok month :: ('e, int) outcome, s)"
      unfolding month by (rule seconds_in_month_right [OF nn t(2) ymd that])
    have "f + month - t = left" by (simp add: left_def month)
    moreover have "sat_u64 left = left" using lp lm mp by (intro sat_id) (simp add: is_u64_def u64_max_def)
    ultimately show ?thesis
      using rent lp mp small fit
      by (simp add: calculate_prorated_rent_def sec bind_run Let_def checked_i128_def tdiv_nonneg)
  qed
  then show ?thesis
    using run(3) [OF fit, of s] ft lp le small mp rent
    by (auto simp: left_def month [symmetric] tdiv_nonneg)
qed

theorem first_month_rent_exact_witness:
  "calculate_first_month_rent 1676419200 30000000000 (0 :: nat) = (Ok 15000000000 :: (unit, int) outcome, 0)"
proof -
  have "is_u64 1676419200" "(1676419200 :: int) \<le> 10 ^ 16" "(0 :: int) < 30000000000" "30000000000 \<le> i64_max"
    "timestamp_to_ymd 1676419200 = (2023, 2, 15)"
    "ymd_to_timestamp 2023 2 1 (0 :: nat) = (Ok 1675209600 :: (unit, int) outcome, 0)"
    "(2419200 :: int) = days_in_month 2023 2 * 86400"
    by code_simp+
  note exact = first_month_rent_exact [OF this, of "0 :: nat", THEN conjunct2, THEN conjunct2, THEN conjunct1]
  show ?thesis by (rule trans [OF exact]) simp
qed

end
