(* ===== verification/Continuous_Billing.thy ===== *)
theory Continuous_Billing
  imports Soroban_Host
begin

text \<open>
  \<^verbatim>\<open>contracts/leaseflow_contracts/src/continuous_billing_module.rs\<close>: billing cycles per lease, payments into a treasury,
  pull payments on an authorisation, and the administration of the module. The source reads a few records after
  it has moved them into a map or a new variable; the model reads the record moved. The key of an authorisation,
  a text made from lease and nonce, is the pair of both. The topics of the events are left out.
\<close>

section \<open>State\<close>

datatype billing_error =
    BUnauthorized
  | BLeaseNotFound
  | BInvalidInput
  | BillingCycleNotFound
  | AlreadyProcessed
  | BInsufficientFunds
  | BTransferFailed
  | ReentrancyDetected
  | AuthorizationExpired
  | AuthorizationInvalid
  | TreasuryInsufficient
  | InvalidTimestamp
  | LeaseNotActive
  | BillingNotEnabled

record billing_cycle =
  bc_cycle_id :: int
  bc_lease_id :: int
  bc_lessor :: address
  bc_lessee :: address
  bc_asset_address :: address
  bc_rent_amount :: int
  bc_rent_per_second :: int
  bc_token :: address
  bc_cycle_start :: int
  bc_cycle_end :: int
  bc_status :: string
  bc_processed_at :: "int option"
  bc_payment_received :: bool
  bc_arrears_amount :: int
  bc_actual_duration_seconds :: int
  bc_next_billing_date :: int

record active_lease =
  al_lease_id :: int
  al_lessor :: address
  al_lessee :: address
  al_asset_address :: address
  al_rent_amount :: int
  al_rent_per_second :: int
  al_token :: address
  al_start_time :: int
  al_end_time :: int
  al_billing_frequency :: int
  al_last_billing_cycle :: int
  al_status :: string
  al_total_owed :: int
  al_total_paid :: int
  al_billing_enabled :: bool
  al_authorization_enabled :: bool
  al_max_authorized_amount :: int
  al_current_authorized_amount :: int
  al_authorization_expiry :: int
  al_rent_treasury_address :: address

record billing_config =
  cf_grace_period :: int
  cf_late_fee_percentage :: int
  cf_max_arrears_threshold :: int
  cf_auto_process_enabled :: bool
  cf_continuous_billing_enabled :: bool
  cf_min_billing_interval :: int
  cf_max_billing_interval :: int
  cf_reentrancy_protection_enabled :: bool

record rent_treasury =
  rt_treasury_address :: address
  rt_total_collected :: int
  rt_total_distributed :: int
  rt_available_balance :: int
  rt_last_collection_time :: int
  rt_collection_count :: int

record payment_authorization =
  pa_lease_id :: int
  pa_lessee :: address
  pa_authorized_amount :: int
  pa_expiry_timestamp :: int
  pa_nonce :: int
  pa_signature :: nat
  pa_created_at :: int
  pa_is_active :: bool

record billing_state =
  bs_global_billing_enabled :: bool
  bs_emergency_pause :: bool
  bs_pause_reason :: "string option"
  bs_pause_timestamp :: "int option"
  bs_total_cycles_processed :: int
  bs_total_rent_collected :: int
  bs_last_process_time :: int

datatype billing_event =
    RentPaymentExecuted int int int address address address int int
  | BillingCycleProcessed int int int int bool
  | LeaseBillingStarted int address address int int int int
  | ArrearsAccumulated int address int int
  | PaymentReceived int address int int
  | AuthorizationGranted int address int int int
  | TreasuryUpdated address int int int

record cb_state = "billing_event host" +
  cb_admin :: "address option"
  cb_version :: "string option"
  cb_cycles :: "(int, billing_cycle) sdk_map option"
  cb_leases :: "(int, active_lease) sdk_map option"
  cb_nonces :: "(address, int) sdk_map option"
  cb_guard :: "bool option"
  cb_treasury :: "rent_treasury option"
  cb_billing :: "billing_state option"
  cb_config :: "billing_config option"
  cb_authorizations :: "int \<times> int \<rightharpoonup> payment_authorization"

type_synonym 'a cb = "(cb_state, billing_error, 'a) proc"

definition cb_init :: cb_state where
  "cb_init = \<lparr>events = [], calls = [], cb_admin = None, cb_version = None, cb_cycles = None, cb_leases = None,
     cb_nonces = None, cb_guard = None, cb_treasury = None, cb_billing = None, cb_config = None,
     cb_authorizations = Map.empty\<rparr>"

definition default_config :: billing_config where
  "default_config = \<lparr>cf_grace_period = 86400, cf_late_fee_percentage = 500, cf_max_arrears_threshold = 86400000,
     cf_auto_process_enabled = True, cf_continuous_billing_enabled = True, cf_min_billing_interval = 3600,
     cf_max_billing_interval = 2592000, cf_reentrancy_protection_enabled = True\<rparr>"

text \<open>The state of the billing when none is stored: the operations differ in whether it is then enabled and in
  its last time.\<close>

definition default_billing :: "bool \<Rightarrow> int \<Rightarrow> billing_state" where
  "default_billing enabled now = \<lparr>bs_global_billing_enabled = enabled, bs_emergency_pause = False,
     bs_pause_reason = None, bs_pause_timestamp = None, bs_total_cycles_processed = 0, bs_total_rent_collected = 0,
     bs_last_process_time = now\<rparr>"

definition or_default :: "'a \<Rightarrow> 'a option \<Rightarrow> 'a" where
  "or_default d x = (case x of None \<Rightarrow> d | Some a \<Rightarrow> a)"

lemma or_default_simps [simp]: "or_default d None = d" "or_default d (Some a) = a"
  by (simp_all add: or_default_def)

section \<open>Storage access\<close>

definition cycle_map :: "cb_state \<Rightarrow> (int, billing_cycle) sdk_map" where
  "cycle_map s = or_default map_empty (cb_cycles s)"

definition lease_map :: "cb_state \<Rightarrow> (int, active_lease) sdk_map" where
  "lease_map s = or_default map_empty (cb_leases s)"

definition store_cycle :: "int \<Rightarrow> billing_cycle \<Rightarrow> unit cb" where
  "store_cycle i c = modify (\<lambda>s. s\<lparr>cb_cycles := Some (map_set i c (cycle_map s))\<rparr>)"

definition store_lease :: "int \<Rightarrow> active_lease \<Rightarrow> unit cb" where
  "store_lease i l = modify (\<lambda>s. s\<lparr>cb_leases := Some (map_set i l (lease_map s))\<rparr>)"

definition get_active_lease :: "int \<Rightarrow> active_lease cb" where
  "get_active_lease i = bind (gets (\<lambda>s. map_get i (lease_map s))) (\<lambda>l. ok_or l BLeaseNotFound)"

definition get_billing_cycle :: "int \<Rightarrow> billing_cycle cb" where
  "get_billing_cycle i = bind (gets (\<lambda>s. map_get i (cycle_map s))) (\<lambda>c. ok_or c BillingCycleNotFound)"

definition get_rent_treasury :: "rent_treasury cb" where
  "get_rent_treasury = bind (gets cb_treasury) (\<lambda>t. ok_or t TreasuryInsufficient)"

definition store_treasury :: "rent_treasury \<Rightarrow> unit cb" where
  "store_treasury t = modify (\<lambda>s. s\<lparr>cb_treasury := Some t\<rparr>)"

definition store_billing :: "billing_state \<Rightarrow> unit cb" where
  "store_billing b = modify (\<lambda>s. s\<lparr>cb_billing := Some b\<rparr>)"

definition get_billing_state :: "billing_state cb" where
  "get_billing_state = gets (\<lambda>s. or_default (default_billing True 0) (cb_billing s))"

definition get_billing_config :: "billing_config cb" where
  "get_billing_config = gets (\<lambda>s. or_default default_config (cb_config s))"

definition get_version :: "string cb" where
  "get_version = gets (\<lambda>s. or_default ''2.0.0'' (cb_version s))"

definition enter_reentrancy_guard :: "unit cb" where
  "enter_reentrancy_guard =
     bind get_billing_config (\<lambda>config.
     if cf_reentrancy_protection_enabled config then
       bind (gets cb_guard) (\<lambda>g.
       bind (throw_if (g = Some True) ReentrancyDetected) (\<lambda>_.
       modify (\<lambda>s. s\<lparr>cb_guard := Some True\<rparr>)))
     else return ())"

definition exit_reentrancy_guard :: "unit cb" where
  "exit_reentrancy_guard =
     bind get_billing_config (\<lambda>config.
     if cf_reentrancy_protection_enabled config then modify (\<lambda>s. s\<lparr>cb_guard := Some False\<rparr>) else return ())"

text \<open>An early return that opens the guard again first.\<close>

definition guarded_throw_if :: "bool \<Rightarrow> billing_error \<Rightarrow> unit cb" where
  "guarded_throw_if c e = (if c then bind exit_reentrancy_guard (\<lambda>_. throw e) else return ())"

section \<open>Operations\<close>

definition initialize :: "env \<Rightarrow> address \<Rightarrow> address \<Rightarrow> unit cb" where
  "initialize env a rent_treasury_address =
     bind (gets cb_admin) (\<lambda>known.
     bind (throw_if (known \<noteq> None) BUnauthorized) (\<lambda>_.
     modify (\<lambda>s. s\<lparr>cb_admin := Some a, cb_version := Some ''2.0.0'', cb_cycles := Some map_empty,
       cb_leases := Some map_empty, cb_nonces := Some map_empty, cb_guard := Some False,
       cb_treasury := Some \<lparr>rt_treasury_address = rent_treasury_address, rt_total_collected = 0,
         rt_total_distributed = 0, rt_available_balance = 0, rt_last_collection_time = ledger_timestamp env,
         rt_collection_count = 0\<rparr>,
       cb_billing := Some (default_billing True (ledger_timestamp env)),
       cb_config := Some default_config\<rparr>)))"

definition register_lease_billing :: "env \<Rightarrow> int \<Rightarrow> address \<Rightarrow> address \<Rightarrow> address \<Rightarrow> int \<Rightarrow> int \<Rightarrow> address
    \<Rightarrow> int \<Rightarrow> int \<Rightarrow> int \<Rightarrow> unit cb" where
  "register_lease_billing env lid lessor lessee asset_address rent_amount rent_per_second token
      start_time end_time billing_frequency =
     bind (gets (\<lambda>s. or_default (default_billing False 0) (cb_billing s))) (\<lambda>b.
     bind (throw_if (\<not> bs_global_billing_enabled b \<or> bs_emergency_pause b) BillingNotEnabled) (\<lambda>_.
     bind get_rent_treasury (\<lambda>treasury.
     bind (store_lease lid \<lparr>al_lease_id = lid, al_lessor = lessor, al_lessee = lessee,
       al_asset_address = asset_address, al_rent_amount = rent_amount, al_rent_per_second = rent_per_second,
       al_token = token, al_start_time = start_time, al_end_time = end_time,
       al_billing_frequency = billing_frequency, al_last_billing_cycle = 0, al_status = ''active'',
       al_total_owed = 0, al_total_paid = 0, al_billing_enabled = True, al_authorization_enabled = False,
       al_max_authorized_amount = 0, al_current_authorized_amount = 0, al_authorization_expiry = 0,
       al_rent_treasury_address = rt_treasury_address treasury\<rparr>) (\<lambda>_.
     publish (LeaseBillingStarted lid lessor lessee rent_amount rent_per_second billing_frequency
       (ledger_timestamp env))))))"

definition next_cycle_time_of :: "active_lease \<Rightarrow> int cb" where
  "next_cycle_time_of l = (if al_last_billing_cycle l = 0 then return (al_start_time l)
     else chk_u64 (al_last_billing_cycle l + al_billing_frequency l))"

definition process_billing_cycle :: "env \<Rightarrow> int \<Rightarrow> int cb" where
  "process_billing_cycle env lid =
     bind enter_reentrancy_guard (\<lambda>_.
     let current_time = ledger_timestamp env in
     bind (get_active_lease lid) (\<lambda>l.
     bind (guarded_throw_if (al_status l \<noteq> ''active'' \<or> \<not> al_billing_enabled l) LeaseNotActive) (\<lambda>_.
     bind (next_cycle_time_of l) (\<lambda>next_cycle_time.
     bind (guarded_throw_if (current_time < next_cycle_time) InvalidTimestamp) (\<lambda>_.
     bind (chk_u64 ((if current_time > al_end_time l then al_end_time l else current_time) - next_cycle_time))
       (\<lambda>actual_duration.
     bind (if al_rent_per_second l > 0 then chk_i128 (al_rent_per_second l * actual_duration)
       else return (al_rent_amount l)) (\<lambda>calculated_rent.
     let cycle_id = ledger_sequence env in
     bind (chk_u64 (next_cycle_time + al_billing_frequency l)) (\<lambda>cycle_end.
     bind (store_cycle cycle_id \<lparr>bc_cycle_id = cycle_id, bc_lease_id = lid, bc_lessor = al_lessor l,
       bc_lessee = al_lessee l, bc_asset_address = al_asset_address l, bc_rent_amount = calculated_rent,
       bc_rent_per_second = al_rent_per_second l, bc_token = al_token l, bc_cycle_start = next_cycle_time,
       bc_cycle_end = cycle_end, bc_status = ''pending'', bc_processed_at = None, bc_payment_received = False,
       bc_arrears_amount = 0, bc_actual_duration_seconds = actual_duration,
       bc_next_billing_date = cycle_end\<rparr>) (\<lambda>_.
     bind (chk_i128 (al_total_owed l + calculated_rent)) (\<lambda>total_owed.
     bind (store_lease lid (l\<lparr>al_last_billing_cycle := next_cycle_time, al_total_owed := total_owed\<rparr>)) (\<lambda>_.
     bind (gets (\<lambda>s. or_default (default_billing True current_time) (cb_billing s))) (\<lambda>b.
     bind (chk_u64 (bs_total_cycles_processed b + 1)) (\<lambda>n.
     bind (store_billing (b\<lparr>bs_total_cycles_processed := n, bs_last_process_time := current_time\<rparr>)) (\<lambda>_.
     bind exit_reentrancy_guard (\<lambda>_.
     return cycle_id)))))))))))))))"

definition process_payment :: "env \<Rightarrow> address \<Rightarrow> int \<Rightarrow> int \<Rightarrow> unit cb" where
  "process_payment env payer cycle_id payment_amount =
     bind enter_reentrancy_guard (\<lambda>_.
     bind (require_auth env payer) (\<lambda>_.
     let current_time = ledger_timestamp env in
     bind (get_billing_cycle cycle_id) (\<lambda>c.
     bind (guarded_throw_if (bc_status c = ''processed'') AlreadyProcessed) (\<lambda>_.
     bind (guarded_throw_if (payment_amount > bc_rent_amount c) BInvalidInput) (\<lambda>_.
     bind get_rent_treasury (\<lambda>t.
     bind (call_unit env (TokenTransfer (bc_token c) payer (rt_treasury_address t) payment_amount)) (\<lambda>_.
     bind (chk_i128 (rt_total_collected t + payment_amount)) (\<lambda>collected.
     bind (chk_i128 (rt_available_balance t + payment_amount)) (\<lambda>available.
     bind (chk_u64 (rt_collection_count t + 1)) (\<lambda>n.
     let t = t\<lparr>rt_total_collected := collected, rt_available_balance := available, rt_collection_count := n,
       rt_last_collection_time := current_time\<rparr> in
     bind (store_treasury t) (\<lambda>_.
     let c = c\<lparr>bc_payment_received := True, bc_processed_at := Some current_time\<rparr> in
     bind (if payment_amount = bc_rent_amount c then return (c\<lparr>bc_status := ''processed''\<rparr>)
       else bind (chk_i128 (bc_rent_amount c - payment_amount)) (\<lambda>arrears.
         return (c\<lparr>bc_status := ''failed'', bc_arrears_amount := arrears\<rparr>))) (\<lambda>c.
     bind (store_cycle cycle_id c) (\<lambda>_.
     bind (get_active_lease (bc_lease_id c)) (\<lambda>l.
     bind (chk_i128 (al_total_paid l + payment_amount)) (\<lambda>paid.
     let l = l\<lparr>al_total_paid := paid\<rparr> in
     bind (if bc_arrears_amount c > 0 then
         bind (chk_i128 (al_total_owed l + bc_arrears_amount c)) (\<lambda>owed.
         bind (publish (ArrearsAccumulated (bc_lease_id c) (bc_lessee c) (bc_arrears_amount c) current_time)) (\<lambda>_.
         return (l\<lparr>al_total_owed := owed\<rparr>)))
       else return l) (\<lambda>l.
     bind (store_lease (bc_lease_id c) l) (\<lambda>_.
     bind (gets (\<lambda>s. or_default (default_billing True current_time) (cb_billing s))) (\<lambda>b.
     bind (chk_i128 (bs_total_rent_collected b + payment_amount)) (\<lambda>total.
     bind (store_billing (b\<lparr>bs_total_rent_collected := total\<rparr>)) (\<lambda>_.
     bind (publish (PaymentReceived (bc_lease_id c) payer payment_amount current_time)) (\<lambda>_.
     bind (publish (RentPaymentExecuted (bc_lease_id c) cycle_id payment_amount (bc_lessee c) (bc_lessor c)
       (rt_treasury_address t) current_time (bc_actual_duration_seconds c))) (\<lambda>_.
     bind (publish (TreasuryUpdated (rt_treasury_address t) (rt_total_collected t) (rt_available_balance t)
       current_time)) (\<lambda>_.
     bind (publish (BillingCycleProcessed cycle_id (bc_lease_id c) (bc_rent_amount c) current_time
       (bc_payment_received c))) (\<lambda>_.
     exit_reentrancy_guard))))))))))))))))))))))))"

definition grant_payment_authorization :: "env \<Rightarrow> int \<Rightarrow> address \<Rightarrow> int \<Rightarrow> int \<Rightarrow> nat \<Rightarrow> unit cb" where
  "grant_payment_authorization env lid lessee authorized_amount expiry_timestamp signature =
     bind enter_reentrancy_guard (\<lambda>_.
     bind (require_auth env lessee) (\<lambda>_.
     let current_time = ledger_timestamp env in
     bind (guarded_throw_if (expiry_timestamp \<le> current_time) AuthorizationExpired) (\<lambda>_.
     bind (gets (\<lambda>s. or_default map_empty (cb_nonces s))) (\<lambda>nonces.
     bind (chk_u64 (or_default 0 (map_get lessee nonces) + 1)) (\<lambda>nonce.
     bind (modify (\<lambda>s. s\<lparr>cb_nonces := Some (map_set lessee nonce nonces)\<rparr>)) (\<lambda>_.
     bind (modify (\<lambda>s. s\<lparr>cb_authorizations := (cb_authorizations s)((lid, nonce) \<mapsto>
       \<lparr>pa_lease_id = lid, pa_lessee = lessee, pa_authorized_amount = authorized_amount,
        pa_expiry_timestamp = expiry_timestamp, pa_nonce = nonce, pa_signature = signature,
        pa_created_at = current_time, pa_is_active = True\<rparr>)\<rparr>)) (\<lambda>_.
     bind (get_active_lease lid) (\<lambda>l.
     bind (store_lease lid (l\<lparr>al_authorization_enabled := True, al_max_authorized_amount := authorized_amount,
       al_current_authorized_amount := authorized_amount, al_authorization_expiry := expiry_timestamp\<rparr>)) (\<lambda>_.
     bind (publish (AuthorizationGranted lid lessee authorized_amount expiry_timestamp current_time)) (\<lambda>_.
     exit_reentrancy_guard))))))))))"

definition execute_pull_payment :: "env \<Rightarrow> int \<Rightarrow> int \<Rightarrow> int \<Rightarrow> unit cb" where
  "execute_pull_payment env lid cycle_id nonce =
     bind enter_reentrancy_guard (\<lambda>_.
     let current_time = ledger_timestamp env in
     bind (gets (\<lambda>s. cb_authorizations s (lid, nonce))) (\<lambda>x.
     bind (ok_or x AuthorizationInvalid) (\<lambda>auth.
     bind (guarded_throw_if (\<not> pa_is_active auth \<or> pa_expiry_timestamp auth < current_time) AuthorizationExpired) (\<lambda>_.
     bind (get_billing_cycle cycle_id) (\<lambda>c.
     bind (guarded_throw_if (bc_rent_amount c > pa_authorized_amount auth) AuthorizationInvalid) (\<lambda>_.
     bind (modify (\<lambda>s. s\<lparr>cb_authorizations := (cb_authorizations s)((lid, nonce) \<mapsto>
       auth\<lparr>pa_is_active := False\<rparr>)\<rparr>)) (\<lambda>_.
     bind exit_reentrancy_guard (\<lambda>_.
     process_payment env (pa_lessee auth) cycle_id (bc_rent_amount c)))))))))"

definition terminate_lease_billing :: "env \<Rightarrow> int \<Rightarrow> address \<Rightarrow> unit cb" where
  "terminate_lease_billing env lid terminator =
     bind enter_reentrancy_guard (\<lambda>_.
     bind (get_active_lease lid) (\<lambda>l.
     bind (gets cb_admin) (\<lambda>x. bind (unwrap x) (\<lambda>a.
     bind (guarded_throw_if (terminator \<noteq> al_lessor l \<and> terminator \<noteq> a) BUnauthorized) (\<lambda>_.
     bind (require_auth env terminator) (\<lambda>_.
     bind (store_lease lid (l\<lparr>al_status := ''terminated'', al_billing_enabled := False\<rparr>)) (\<lambda>_.
     exit_reentrancy_guard)))))))"

definition toggle_emergency_pause :: "env \<Rightarrow> address \<Rightarrow> bool \<Rightarrow> string option \<Rightarrow> unit cb" where
  "toggle_emergency_pause env a pause reason =
     bind (gets cb_admin) (\<lambda>x. bind (unwrap x) (\<lambda>contract_admin.
     bind (throw_if (contract_admin \<noteq> a) BUnauthorized) (\<lambda>_.
     bind (require_auth env a) (\<lambda>_.
     bind get_billing_state (\<lambda>b.
     store_billing (if pause
       then b\<lparr>bs_emergency_pause := pause, bs_pause_reason := reason,
         bs_pause_timestamp := Some (ledger_timestamp env)\<rparr>
       else b\<lparr>bs_emergency_pause := pause, bs_pause_reason := None, bs_pause_timestamp := None\<rparr>))))))"

definition update_billing_config :: "env \<Rightarrow> address \<Rightarrow> billing_config \<Rightarrow> unit cb" where
  "update_billing_config env a config =
     bind (gets cb_admin) (\<lambda>x. bind (unwrap x) (\<lambda>contract_admin.
     bind (throw_if (contract_admin \<noteq> a) BUnauthorized) (\<lambda>_.
     bind (require_auth env a) (\<lambda>_.
     modify (\<lambda>s. s\<lparr>cb_config := Some config\<rparr>)))))"

definition check_lease_expiration :: "env \<Rightarrow> int \<Rightarrow> bool cb" where
  "check_lease_expiration env lid = bind (get_active_lease lid) (\<lambda>l. return (ledger_timestamp env \<ge> al_end_time l))"

definition calculate_final_settlement :: "env \<Rightarrow> int \<Rightarrow> (int \<times> int) cb" where
  "calculate_final_settlement env lid =
     bind (get_active_lease lid) (\<lambda>l.
     let current_time = ledger_timestamp env in
     bind (if current_time \<ge> al_end_time l then return 0 else
       bind (chk_u64 (al_end_time l - current_time)) (\<lambda>remaining_time.
       bind (chk_u64 (remaining_time + al_billing_frequency l)) (\<lambda>x.
       bind (chk_u64 (x - 1)) (\<lambda>x. div_or_trap x (al_billing_frequency l))))) (\<lambda>remaining_cycles.
     bind (if al_rent_per_second l > 0 then
         bind (if current_time \<ge> al_end_time l then return 0 else chk_u64 (al_end_time l - current_time)) (\<lambda>remaining_seconds.
         chk_i128 (al_rent_per_second l * remaining_seconds))
       else chk_i128 (remaining_cycles * al_rent_amount l)) (\<lambda>remaining_rent.
     bind (chk_i128 (al_total_owed l - al_total_paid l)) (\<lambda>current_arrears.
     return (remaining_rent, current_arrears)))))"

definition distribute_rent_treasury :: "env \<Rightarrow> address \<Rightarrow> address \<Rightarrow> int \<Rightarrow> unit cb" where
  "distribute_rent_treasury env a lessor n =
     bind enter_reentrancy_guard (\<lambda>_.
     bind (gets cb_admin) (\<lambda>x. bind (unwrap x) (\<lambda>contract_admin.
     bind (guarded_throw_if (contract_admin \<noteq> a) BUnauthorized) (\<lambda>_.
     bind (require_auth env a) (\<lambda>_.
     bind get_rent_treasury (\<lambda>t.
     bind (guarded_throw_if (n > rt_available_balance t) TreasuryInsufficient) (\<lambda>_.
     bind (call_unit env (TokenTransfer (rt_treasury_address t) (rt_treasury_address t) lessor n)) (\<lambda>_.
     bind (chk_i128 (rt_total_distributed t + n)) (\<lambda>distributed.
     bind (chk_i128 (rt_available_balance t - n)) (\<lambda>available.
     bind (store_treasury (t\<lparr>rt_total_distributed := distributed, rt_available_balance := available\<rparr>)) (\<lambda>_.
     exit_reentrancy_guard)))))))))))"

section \<open>The contract as a system\<close>

datatype cb_call =
    Initialize address address
  | RegisterLeaseBilling int address address address int int address int int int
  | ProcessBillingCycle int
  | ProcessPayment address int int
  | GrantPaymentAuthorization int address int int nat
  | ExecutePullPayment int int int
  | TerminateLeaseBilling int address
  | ToggleEmergencyPause address bool "string option"
  | UpdateBillingConfig address billing_config
  | DistributeRentTreasury address address int

fun cb_exec :: "env \<Rightarrow> cb_call \<Rightarrow> unit cb" where
  "cb_exec env (Initialize a t) = initialize env a t"
| "cb_exec env (RegisterLeaseBilling i a b c r p tok st e f) = register_lease_billing env i a b c r p tok st e f"
| "cb_exec env (ProcessBillingCycle i) = bind (process_billing_cycle env i) (\<lambda>_. return ())"
| "cb_exec env (ProcessPayment a i n) = process_payment env a i n"
| "cb_exec env (GrantPaymentAuthorization i a n e g) = grant_payment_authorization env i a n e g"
| "cb_exec env (ExecutePullPayment l i n) = execute_pull_payment env l i n"
| "cb_exec env (TerminateLeaseBilling i a) = terminate_lease_billing env i a"
| "cb_exec env (ToggleEmergencyPause a b r) = toggle_emergency_pause env a b r"
| "cb_exec env (UpdateBillingConfig a c) = update_billing_config env a c"
| "cb_exec env (DistributeRentTreasury a b n) = distribute_rent_treasury env a b n"

definition cb_step :: "env \<times> cb_call \<Rightarrow> cb_state \<Rightarrow> cb_state" where
  "cb_step m s = snd (invoke (cb_exec (fst m) (snd m)) s)"

section \<open>Effects of the building blocks\<close>

lemma cb_get_Ok_iff [proc_ok]:
  "get_active_lease i s = (Ok l, s') \<longleftrightarrow> map_get i (lease_map s) = Some l \<and> s' = s"
  "get_billing_cycle i s = (Ok c, s') \<longleftrightarrow> map_get i (cycle_map s) = Some c \<and> s' = s"
  "get_rent_treasury s = (Ok t, s') \<longleftrightarrow> cb_treasury s = Some t \<and> s' = s"
  "get_billing_config s = (Ok cf, s') \<longleftrightarrow> cf = or_default default_config (cb_config s) \<and> s' = s"
  "get_billing_state s = (Ok b, s') \<longleftrightarrow> b = or_default (default_billing True 0) (cb_billing s) \<and> s' = s"
  by (auto simp: get_active_lease_def get_billing_cycle_def get_rent_treasury_def get_billing_config_def
      get_billing_state_def proc_ok)

lemma cb_store_Ok_iff [proc_ok]:
  "store_cycle i c s = (Ok u, s') \<longleftrightarrow> s' = s\<lparr>cb_cycles := Some (map_set i c (cycle_map s))\<rparr>"
  "store_lease i l s = (Ok u, s') \<longleftrightarrow> s' = s\<lparr>cb_leases := Some (map_set i l (lease_map s))\<rparr>"
  "store_treasury t s = (Ok u, s') \<longleftrightarrow> s' = s\<lparr>cb_treasury := Some t\<rparr>"
  "store_billing b s = (Ok u, s') \<longleftrightarrow> s' = s\<lparr>cb_billing := Some b\<rparr>"
  by (auto simp: store_cycle_def store_lease_def store_treasury_def store_billing_def)

lemma guarded_throw_if_Ok_iff [proc_ok]: "guarded_throw_if c e s = (Ok u, s') \<longleftrightarrow> \<not> c \<and> s' = s"
  by (auto simp: guarded_throw_if_def proc_ok)

text \<open>The guard brackets an operation: both ends only touch the guard entry.\<close>

definition protected :: "cb_state \<Rightarrow> bool" where
  "protected s \<longleftrightarrow> cf_reentrancy_protection_enabled (or_default default_config (cb_config s))"

definition guard_to :: "bool \<Rightarrow> cb_state \<Rightarrow> cb_state" where
  "guard_to b s = (if protected s then s\<lparr>cb_guard := Some b\<rparr> else s)"

lemma enter_guard_Ok_iff [proc_ok]:
  "enter_reentrancy_guard s = (Ok u, s') \<longleftrightarrow> (protected s \<longrightarrow> cb_guard s \<noteq> Some True) \<and> s' = guard_to True s"
  by (auto simp: enter_reentrancy_guard_def proc_ok protected_def guard_to_def)

lemma exit_guard_Ok_iff [proc_ok]: "exit_reentrancy_guard s = (Ok u, s') \<longleftrightarrow> s' = guard_to False s"
  by (auto simp: exit_reentrancy_guard_def proc_ok protected_def guard_to_def)

lemma guard_to_simps [simp]:
  "cb_admin (guard_to b s) = cb_admin s" "cb_leases (guard_to b s) = cb_leases s" "cb_cycles (guard_to b s) = cb_cycles s"
  "cb_treasury (guard_to b s) = cb_treasury s" "cb_billing (guard_to b s) = cb_billing s"
  "cb_config (guard_to b s) = cb_config s" "cb_nonces (guard_to b s) = cb_nonces s"
  "cb_authorizations (guard_to b s) = cb_authorizations s"
  "calls (guard_to b s) = calls s" "lease_map (guard_to b s) = lease_map s" "cycle_map (guard_to b s) = cycle_map s"
  "protected (guard_to b s) = protected s" "cb_guard (guard_to b s) = (if protected s then Some b else cb_guard s)"
  by (simp_all add: guard_to_def protected_def lease_map_def cycle_map_def)

lemma map_simps [simp]:
  "lease_map (s\<lparr>cb_leases := Some m\<rparr>) = m" "cycle_map (s\<lparr>cb_cycles := Some n\<rparr>) = n"
  "lease_map (s\<lparr>cb_cycles := x\<rparr>) = lease_map s" "cycle_map (s\<lparr>cb_leases := y\<rparr>) = cycle_map s"
  "lease_map (s\<lparr>cb_treasury := t\<rparr>) = lease_map s" "cycle_map (s\<lparr>cb_treasury := t\<rparr>) = cycle_map s"
  "lease_map (s\<lparr>cb_billing := b\<rparr>) = lease_map s" "cycle_map (s\<lparr>cb_billing := b\<rparr>) = cycle_map s"
  "lease_map (s\<lparr>cb_guard := g\<rparr>) = lease_map s" "cycle_map (s\<lparr>cb_guard := g\<rparr>) = cycle_map s"
  "lease_map (s\<lparr>cb_authorizations := a\<rparr>) = lease_map s" "cycle_map (s\<lparr>cb_authorizations := a\<rparr>) = cycle_map s"
  "lease_map (s\<lparr>cb_nonces := k\<rparr>) = lease_map s" "cycle_map (s\<lparr>cb_nonces := k\<rparr>) = cycle_map s"
  "lease_map (s\<lparr>events := ev\<rparr>) = lease_map s" "cycle_map (s\<lparr>events := ev\<rparr>) = cycle_map s"
  "lease_map (s\<lparr>calls := cs\<rparr>) = lease_map s" "cycle_map (s\<lparr>calls := cs\<rparr>) = cycle_map s"
  by (simp_all add: lease_map_def cycle_map_def)

lemma protected_simps [simp]:
  "protected (s\<lparr>cb_leases := x1\<rparr>) = protected s" "protected (s\<lparr>cb_cycles := x2\<rparr>) = protected s"
  "protected (s\<lparr>cb_treasury := x3\<rparr>) = protected s" "protected (s\<lparr>cb_billing := x4\<rparr>) = protected s"
  "protected (s\<lparr>cb_guard := x5\<rparr>) = protected s" "protected (s\<lparr>cb_authorizations := x6\<rparr>) = protected s"
  "protected (s\<lparr>cb_nonces := x7\<rparr>) = protected s" "protected (s\<lparr>events := x8\<rparr>) = protected s"
  "protected (s\<lparr>calls := x9\<rparr>) = protected s"
  by (simp_all add: protected_def)

end
