(* ===== verification/Billing_Props.thy ===== *)
theory Billing_Props
  imports Continuous_Billing
begin

text \<open>Continuous billing: what a cycle charges, what a payment does, the treasury, and pull payments.\<close>

section \<open>Billing cycles\<close>

definition due :: "active_lease \<Rightarrow> int" where
  "due l = (if al_last_billing_cycle l = 0 then al_start_time l else al_last_billing_cycle l + al_billing_frequency l)"

definition cycles_processed :: "cb_state \<Rightarrow> int" where
  "cycles_processed s = (case cb_billing s of None \<Rightarrow> 0 | Some b \<Rightarrow> bs_total_cycles_processed b)"

definition billed :: "int \<Rightarrow> active_lease \<Rightarrow> active_lease" where
  "billed now l = l\<lparr>al_last_billing_cycle := due l,
     al_total_owed := al_total_owed l + al_rent_per_second l * (now - due l)\<rparr>"

lemma next_cycle_time_Ok: "is_u64 (due l) \<Longrightarrow> next_cycle_time_of l s = (Ok (due l), s)"
  by (auto simp: next_cycle_time_of_def due_def chk_w_run split: if_splits)

lemma cb_get_run:
  "map_get i (lease_map s) = Some l \<Longrightarrow> get_active_lease i s = (Ok l, s)"
  "map_get i (cycle_map s) = Some c \<Longrightarrow> get_billing_cycle i s = (Ok c, s)"
  by (simp_all add: proc_ok)

lemma guard_run:
  "cb_guard s \<noteq> Some True \<Longrightarrow> enter_reentrancy_guard s = (Ok (), guard_to True s)"
  "exit_reentrancy_guard s = (Ok (), guard_to False s)"
  by (simp_all add: proc_ok)

lemma store_run:
  "store_cycle i c s = (Ok (), s\<lparr>cb_cycles := Some (map_set i c (cycle_map s))\<rparr>)"
  "store_lease i l s = (Ok (), s\<lparr>cb_leases := Some (map_set i l (lease_map s))\<rparr>)"
  "store_billing b s = (Ok (), s\<lparr>cb_billing := Some b\<rparr>)"
  "guarded_throw_if False e s = (Ok (), s)"
  by (simp_all add: proc_ok)

text \<open>A cycle of a lease billed by the second, processed between its due time and the end of the lease.\<close>

lemma process_billing_cycle_run:
  assumes lease: "map_get lid (lease_map s) = Some l" "al_status l = ''active''" "al_billing_enabled l"
      "0 < al_rent_per_second l"
    and guard: "cb_guard s \<noteq> Some True"
    and time: "0 \<le> due l" "due l \<le> ledger_timestamp env" "ledger_timestamp env \<le> al_end_time l"
      "0 \<le> al_billing_frequency l" "al_end_time l + al_billing_frequency l \<le> u64_max"
    and owed: "0 \<le> al_total_owed l"
      "al_total_owed l + al_rent_per_second l * (ledger_timestamp env - due l) \<le> i128_max"
    and cyc: "0 \<le> cycles_processed s" "cycles_processed s < u64_max"
  shows "\<exists>t. process_billing_cycle env lid s = (Ok (ledger_sequence env), t)
    \<and> lease_map t = map_set lid (billed (ledger_timestamp env) l) (lease_map s)
    \<and> cb_guard t \<noteq> Some True \<and> cycles_processed t = cycles_processed s + 1"
proof -
  let ?now = "ledger_timestamp env"
  have u: "is_u64 (due l)" "is_u64 (?now - due l)" "is_u64 (due l + al_billing_frequency l)"
    using time by (simp_all add: is_u64_def)
  have nn: "0 \<le> al_rent_per_second l * (?now - due l)" using lease(4) time(2) by simp
  have r: "is_i128 (al_rent_per_second l * (?now - due l))"
    "is_i128 (al_total_owed l + al_rent_per_second l * (?now - due l))"
    using nn owed by (simp_all add: is_i128_def i128_min_def)
  have n: "is_u64 (bs_total_cycles_processed (or_default (default_billing True ?now) (cb_billing s)) + 1)"
    using cyc by (cases "cb_billing s") (simp_all add: cycles_processed_def is_u64_def default_billing_def u64_max_def)
  have not: "(al_status l \<noteq> ''active'' \<or> \<not> al_billing_enabled l) = False" "(?now < due l) = False"
    "(?now > al_end_time l) = False"
    using lease time by auto
  note g = guard_run(1) [OF guard]
  have l: "get_active_lease lid (guard_to True s) = (Ok l, guard_to True s)"
    by (rule cb_get_run) (simp add: lease)
  show ?thesis
    unfolding process_billing_cycle_def Let_def
    by (simp only: bind_run g l prod.case outcome.case not store_run next_cycle_time_Ok [OF u(1)] if_False)
      (use u r n lease(4) guard in \<open>simp add: bind_run chk_w_run store_run guard_run billed_def cycles_processed_def
        default_billing_def split: option.splits\<close>)
qed

text \<open>The seconds by which a sequence of calls misses the due times, and that each comes at or after its due
  time and before the end of the lease.\<close>

fun lateness :: "int \<Rightarrow> int \<Rightarrow> env list \<Rightarrow> int" where
  "lateness d f [] = 0"
| "lateness d f (e # es) = (ledger_timestamp e - d) + lateness (d + f) f es"

fun none_early :: "int \<Rightarrow> int \<Rightarrow> int \<Rightarrow> env list \<Rightarrow> bool" where
  "none_early d f fin [] \<longleftrightarrow> True"
| "none_early d f fin (e # es) \<longleftrightarrow> d \<le> ledger_timestamp e \<and> ledger_timestamp e \<le> fin \<and> none_early (d + f) f fin es"

lemma lateness_nonneg: "none_early d f fin es \<Longrightarrow> 0 \<le> lateness d f es"
  by (induction d f fin es rule: none_early.induct) auto

definition run_cycles :: "int \<Rightarrow> env list \<Rightarrow> cb_state \<Rightarrow> cb_state" where
  "run_cycles lid es = fold (\<lambda>e. cb_step (e, ProcessBillingCycle lid)) es"

lemma cycle_step:
  "process_billing_cycle e lid s = (Ok i, t) \<Longrightarrow> cb_step (e, ProcessBillingCycle lid) s = t"
  by (simp add: cb_step_def invoke_def bind_run)

lemma run_cycles_owed:
  assumes "map_get lid (lease_map s) = Some l" "al_status l = ''active''" "al_billing_enabled l"
      "0 < al_rent_per_second l" "cb_guard s \<noteq> Some True" "0 < due l" "0 \<le> al_billing_frequency l"
      "al_end_time l + al_billing_frequency l \<le> u64_max"
      "none_early (due l) (al_billing_frequency l) (al_end_time l) es" "0 \<le> al_total_owed l"
      "al_total_owed l + al_rent_per_second l * lateness (due l) (al_billing_frequency l) es \<le> i128_max"
      "0 \<le> cycles_processed s" "cycles_processed s + int (length es) \<le> u64_max"
  shows "\<exists>l'. map_get lid (lease_map (run_cycles lid es s)) = Some l'
    \<and> al_total_owed l' = al_total_owed l + al_rent_per_second l * lateness (due l) (al_billing_frequency l) es"
  using assms
proof (induction es arbitrary: s l)
  case Nil
  then show ?case by (simp add: run_cycles_def)
next
  case (Cons e es)
  let ?f = "al_billing_frequency l" and ?r = "al_rent_per_second l" and ?l = "billed (ledger_timestamp e) l"
  have rest: "0 \<le> lateness (due l + ?f) ?f es" 
    using lateness_nonneg [of "due l + ?f" ?f "al_end_time l" es] Cons.prems(9) by simp
  have first: "0 \<le> ?r * (ledger_timestamp e - due l)" using Cons.prems(4,9) by simp
  have split: "?r * lateness (due l) ?f (e # es) = ?r * (ledger_timestamp e - due l) + ?r * lateness (due l + ?f) ?f es"
    by (simp add: distrib_left)
  have "0 \<le> ?r * lateness (due l + ?f) ?f es" using rest Cons.prems(4) by simp
  then have fit: "al_total_owed l + ?r * (ledger_timestamp e - due l) \<le> i128_max"
    using Cons.prems(11) split by linarith
  obtain t where t: "process_billing_cycle e lid s = (Ok (ledger_sequence e), t)"
    "lease_map t = map_set lid ?l (lease_map s)" "cb_guard t \<noteq> Some True" "cycles_processed t = cycles_processed s + 1"
    using process_billing_cycle_run [of lid s l e] Cons.prems fit by auto
  have due: "due ?l = due l + ?f" using Cons.prems(6) by (simp add: billed_def due_def)
  have "\<exists>l'. map_get lid (lease_map (run_cycles lid es t)) = Some l'
    \<and> al_total_owed l' = al_total_owed ?l + al_rent_per_second ?l * lateness (due ?l) (al_billing_frequency ?l) es"
  proof (rule Cons.IH)
    show "map_get lid (lease_map t) = Some ?l" by (simp add: t(2))
    show "0 < due ?l" using due Cons.prems(6,7) by simp
    show "none_early (due ?l) (al_billing_frequency ?l) (al_end_time ?l) es"
      using Cons.prems(9) due by (simp add: billed_def)
    show "0 \<le> al_total_owed ?l" using Cons.prems(10) first by (simp add: billed_def)
    show "al_total_owed ?l + al_rent_per_second ?l * lateness (due ?l) (al_billing_frequency ?l) es \<le> i128_max"
      using Cons.prems(11) split unfolding due by (simp add: billed_def)
    show "cycles_processed t + int (length es) \<le> u64_max" using Cons.prems(13) t(4) by simp
  qed (use Cons.prems t in \<open>simp_all add: billed_def\<close>)
  moreover have "run_cycles lid (e # es) s = run_cycles lid es t"
    by (simp add: run_cycles_def cycle_step [OF t(1)])
  moreover have "al_total_owed ?l + al_rent_per_second ?l * lateness (due ?l) (al_billing_frequency ?l) es
      = al_total_owed l + ?r * lateness (due l) ?f (e # es)"
    unfolding due split by (simp add: billed_def)
  ultimately show ?case by simp
qed

lemma lateness_on_time:
  "(\<forall>k < length es. ledger_timestamp (es ! k) = d + int k * f) \<Longrightarrow> lateness d f es = 0"
proof (induction es arbitrary: d)
  case (Cons e es)
  have "lateness (d + f) f es = 0"
  proof (rule Cons.IH, intro allI impI)
    fix k assume "k < length es"
    then show "ledger_timestamp (es ! k) = d + f + int k * f"
      using Cons.prems [rule_format, of "Suc k"] by (simp add: distrib_right)
  qed
  moreover have "ledger_timestamp e = d" using Cons.prems [rule_format, of 0] by simp
  ultimately show ?case by simp
qed simp

section \<open>Payments\<close>

definition rent_collected :: "cb_state \<Rightarrow> int" where
  "rent_collected s = (case cb_billing s of None \<Rightarrow> 0 | Some b \<Rightarrow> bs_total_rent_collected b)"

lemma rent_collected_default [simp]:
  "bs_total_rent_collected (or_default (default_billing b now) (cb_billing s)) = rent_collected s"
  by (cases "cb_billing s") (simp_all add: rent_collected_def default_billing_def)

lemma rent_collected_simps [simp]:
  "rent_collected (guard_to g s) = rent_collected s"
  "rent_collected (s\<lparr>cb_billing := Some b\<rparr>) = bs_total_rent_collected b"
  "rent_collected (s\<lparr>events := ev\<rparr>) = rent_collected s" "rent_collected (s\<lparr>calls := cs\<rparr>) = rent_collected s"
  "rent_collected (s\<lparr>cb_treasury := x1\<rparr>) = rent_collected s" "rent_collected (s\<lparr>cb_cycles := x2\<rparr>) = rent_collected s"
  "rent_collected (s\<lparr>cb_leases := x3\<rparr>) = rent_collected s"
  by (simp_all add: rent_collected_def)

definition debt :: "active_lease \<Rightarrow> int" where
  "debt l = al_total_owed l - al_total_paid l"

text \<open>The arrears a payment leaves in the cycle: those of an earlier payment stay when the rent is paid in full.\<close>

definition arrears_left :: "billing_cycle \<Rightarrow> int \<Rightarrow> int" where
  "arrears_left c n = (if n = bc_rent_amount c then bc_arrears_amount c else bc_rent_amount c - n)"

lemma process_payment_Ok:
  assumes "process_payment env a i n s = (Ok u, t)"
  shows "\<exists>c l tr. map_get i (cycle_map s) = Some c \<and> bc_status c \<noteq> ''processed'' \<and> n \<le> bc_rent_amount c
    \<and> a \<in> set (auths env) \<and> cb_treasury s = Some tr \<and> map_get (bc_lease_id c) (lease_map s) = Some l
    \<and> calls t = calls s @ [TokenTransfer (bc_token c) a (rt_treasury_address tr) n]
    \<and> cb_treasury t = Some (tr\<lparr>rt_total_collected := rt_total_collected tr + n,
         rt_available_balance := rt_available_balance tr + n, rt_collection_count := rt_collection_count tr + 1,
         rt_last_collection_time := ledger_timestamp env\<rparr>)
    \<and> lease_map t = map_set (bc_lease_id c) (l\<lparr>al_total_paid := al_total_paid l + n,
         al_total_owed := al_total_owed l + max 0 (arrears_left c n)\<rparr>) (lease_map s)
    \<and> map_option bc_status (map_get i (cycle_map t)) = Some (if n = bc_rent_amount c then ''processed'' else ''failed'')
    \<and> rent_collected t = rent_collected s + n
    \<and> (cb_guard t \<noteq> Some True \<or> cb_guard t = cb_guard s) \<and> cb_admin t = cb_admin s \<and> cb_authorizations t = cb_authorizations s"
proof -
  obtain c where c: "map_get i (cycle_map s) = Some c"
    using assms by (auto simp: process_payment_def proc_ok Let_def)
  show ?thesis
  proof (cases "n = bc_rent_amount c")
    case True
    show ?thesis
    proof (cases "0 < bc_arrears_amount c")
      case arrears: True
      show ?thesis
        using assms arrears unfolding process_payment_def Let_def True
        by (clarsimp simp: proc_ok c arrears_left_def max_def)
    next
      case False
      then show ?thesis
        using assms unfolding process_payment_def Let_def True
        by (clarsimp simp: proc_ok c arrears_left_def max_def)
    qed
  next
    case False
    show ?thesis
    proof (cases "0 < bc_rent_amount c - n")
      case True
      then show ?thesis
        using assms False unfolding process_payment_def Let_def
        by (clarsimp simp: proc_ok c arrears_left_def max_def)
    next
      case le: False
      then show ?thesis
        using assms False unfolding process_payment_def Let_def
        by (clarsimp simp: proc_ok c arrears_left_def max_def)
    qed
  qed
qed

section \<open>The treasury\<close>

text \<open>What is collected is what the billing counted, and is either distributed or available; between calls the
  guard is open.\<close>

definition treasury_ok :: "cb_state \<Rightarrow> bool" where
  "treasury_ok s \<longleftrightarrow> cb_guard s \<noteq> Some True
     \<and> (case cb_treasury s of None \<Rightarrow> rent_collected s = 0
        | Some t \<Rightarrow> rt_total_collected t = rent_collected s
            \<and> rt_total_collected t = rt_total_distributed t + rt_available_balance t)"

lemma rent_collected_more [simp]:
  "rent_collected (s\<lparr>cb_authorizations := x4\<rparr>) = rent_collected s" "rent_collected (s\<lparr>cb_nonces := x5\<rparr>) = rent_collected s"
  "rent_collected (s\<lparr>cb_config := x6\<rparr>) = rent_collected s"
  by (simp_all add: rent_collected_def)

lemma rent_collected_or_default [simp]:
  "bs_total_rent_collected (or_default (default_billing b now) (cb_billing s)) = rent_collected s"
  by (cases "cb_billing s") (simp_all add: rent_collected_def default_billing_def)

lemma process_payment_inv: "process_payment env a i n s = (Ok u, t) \<Longrightarrow> treasury_ok s \<Longrightarrow> treasury_ok t"
  by (drule process_payment_Ok) (auto simp: treasury_ok_def)

lemma execute_pull_payment_Ok:
  assumes "execute_pull_payment env l i k s = (Ok u, t)"
  obtains g c s1 where "cb_authorizations s (l, k) = Some g" "pa_is_active g" "ledger_timestamp env \<le> pa_expiry_timestamp g"
    "map_get i (cycle_map s) = Some c" "bc_rent_amount c \<le> pa_authorized_amount g"
    "s1 = guard_to False ((guard_to True s)\<lparr>cb_authorizations := (cb_authorizations s)((l, k) \<mapsto> g\<lparr>pa_is_active := False\<rparr>)\<rparr>)"
    "process_payment env (pa_lessee g) i (bc_rent_amount c) s1 = (Ok u, t)"
  using assms unfolding execute_pull_payment_def by (auto simp: proc_ok Let_def not_le not_less)

lemma treasury_ok_frame:
  assumes "treasury_ok s" "cb_guard t \<noteq> Some True" "cb_treasury t = cb_treasury s" "rent_collected t = rent_collected s"
  shows "treasury_ok t"
  using assms by (simp add: treasury_ok_def split: option.splits)

text \<open>The branches of a billing cycle that only compute a number, without a split.\<close>

lemma next_cycle_time_same: "next_cycle_time_of l s = (Ok d, s') \<Longrightarrow> s' = s"
  by (auto simp: next_cycle_time_of_def proc_ok split: if_splits)

lemma rent_of_cycle_same: "(if b then chk_i128 x else return y) s = (Ok r, s') \<Longrightarrow> s' = s"
  by (auto simp: proc_ok split: if_splits)

lemma process_billing_cycle_frame:
  assumes "process_billing_cycle e i s = (Ok u, t)"
  shows "cb_treasury t = cb_treasury s \<and> rent_collected t = rent_collected s
    \<and> (cb_guard s \<noteq> Some True \<longrightarrow> cb_guard t \<noteq> Some True)"
  using assms unfolding process_billing_cycle_def Let_def
  by (clarsimp simp: proc_ok dest!: next_cycle_time_same rent_of_cycle_same split del: if_split)
    (simp split: if_splits)

lemma cb_exec_treasury:
  assumes inv: "treasury_ok s" and run: "cb_exec e m s = (Ok u, t)"
  shows "treasury_ok t"
proof (cases m)
  case (ProcessPayment a i n)
  then show ?thesis using run inv process_payment_inv by auto
next
  case (ExecutePullPayment l i k)
  then have "execute_pull_payment e l i k s = (Ok u, t)" using run by simp
  then obtain g c s1 where "cb_authorizations s (l, k) = Some g" "pa_is_active g" "ledger_timestamp e \<le> pa_expiry_timestamp g"
      "map_get i (cycle_map s) = Some c" "bc_rent_amount c \<le> pa_authorized_amount g"
    and s1: "s1 = guard_to False ((guard_to True s)\<lparr>cb_authorizations := (cb_authorizations s)((l, k) \<mapsto> g\<lparr>pa_is_active := False\<rparr>)\<rparr>)"
    and pay: "process_payment e (pa_lessee g) i (bc_rent_amount c) s1 = (Ok u, t)"
    by (rule execute_pull_payment_Ok)
  have "treasury_ok s1" using inv unfolding s1 by (intro treasury_ok_frame [OF inv]) (auto simp: treasury_ok_def)
  then show ?thesis using pay process_payment_inv by blast
next
  case (DistributeRentTreasury a b n)
  then show ?thesis using run inv
    by (auto simp: distribute_rent_treasury_def proc_ok treasury_ok_def Let_def split: if_splits)
next
  case (Initialize a b)
  then show ?thesis using run
    by (auto simp: initialize_def proc_ok treasury_ok_def rent_collected_def default_billing_def)
next
  case (ProcessBillingCycle i)
  then show ?thesis using run inv
    by (intro treasury_ok_frame [OF inv]) (auto simp: proc_ok treasury_ok_def dest!: process_billing_cycle_frame)
next
  case (RegisterLeaseBilling i a b c r p tok st e f)
  then show ?thesis using run inv
    by (intro treasury_ok_frame [OF inv]) (auto simp: register_lease_billing_def proc_ok treasury_ok_def Let_def split: if_splits)
next
  case (GrantPaymentAuthorization i a n e g)
  then show ?thesis using run inv
    by (intro treasury_ok_frame [OF inv]) (auto simp: grant_payment_authorization_def proc_ok treasury_ok_def Let_def split: if_splits)
next
  case (TerminateLeaseBilling i a)
  then show ?thesis using run inv
    by (intro treasury_ok_frame [OF inv]) (auto simp: terminate_lease_billing_def proc_ok treasury_ok_def Let_def split: if_splits)
next
  case (ToggleEmergencyPause a b r)
  then show ?thesis using run inv
    by (intro treasury_ok_frame [OF inv]) (auto simp: toggle_emergency_pause_def proc_ok treasury_ok_def Let_def split: if_splits)
next
  case (UpdateBillingConfig a c)
  then show ?thesis using run inv
    by (intro treasury_ok_frame [OF inv]) (auto simp: update_billing_config_def proc_ok treasury_ok_def Let_def split: if_splits)
qed

lemma cb_step_treasury: "treasury_ok s \<Longrightarrow> treasury_ok (cb_step m s)"
  by (cases "cb_exec (fst m) (snd m)" s rule: invoke_cases) (auto simp: cb_step_def intro: cb_exec_treasury)

interpretation billing: contract_system treasury_ok cb_step cb_init
  by unfold_locales (simp add: cb_step_treasury, simp add: treasury_ok_def cb_init_def rent_collected_def)

section \<open>Properties\<close>

text \<open>What billing charges. A cycle is charged, per second, for the time between its due time and the call
  that processes it, not for the time it covers. So any sequence of calls, each at or after its due time and before
  the end of the lease, adds the rent of the summed lateness to the total owed; calls that are exactly on time charge
  nothing however many months they bill, and calls that catch up late charge overlapping periods.\<close>
theorem cycles_charge_lateness:
  assumes "map_get lid (lease_map s) = Some l" "al_status l = ''active''" "al_billing_enabled l"
      "0 < al_rent_per_second l" "cb_guard s \<noteq> Some True" "0 < due l" "0 \<le> al_billing_frequency l"
      "al_end_time l + al_billing_frequency l \<le> u64_max"
      "none_early (due l) (al_billing_frequency l) (al_end_time l) es" "0 \<le> al_total_owed l"
      "al_total_owed l + al_rent_per_second l * lateness (due l) (al_billing_frequency l) es \<le> i128_max"
      "0 \<le> cycles_processed s" "cycles_processed s + int (length es) \<le> u64_max"
  shows "\<exists>l'. map_get lid (lease_map (run_cycles lid es s)) = Some l'
    \<and> al_total_owed l' = al_total_owed l + al_rent_per_second l * lateness (due l) (al_billing_frequency l) es
    \<and> ((\<forall>k < length es. ledger_timestamp (es ! k) = due l + int k * al_billing_frequency l)
         \<longrightarrow> al_total_owed l' = al_total_owed l)"
  using run_cycles_owed [OF assms] by (auto simp: lateness_on_time)

lemma processed_not_paid:
  "map_option bc_status (map_get i (cycle_map s)) = Some ''processed'' \<Longrightarrow> process_payment env a i n s \<noteq> (Ok u, t)"
  by (auto dest!: process_payment_Ok)

text \<open>Claim C26. A payment goes to the treasury, once, when nothing is in arrears from an earlier one. When it succeeds, the
  payer authorised it, the cycle is not processed and the amount is at most its rent; exactly that amount moves, in one
  transfer, from the payer to the treasury, and the treasury's books, the collected rent and the total paid of the
  lease grow by it; what is missing from the rent is owed, and no other lease changes. A payment in full closes the
  cycle, and no further payment of it succeeds; a smaller one leaves it failed.\<close>
theorem payment_effect:
  assumes "process_payment env a i n s = (Ok u, t)" "map_get i (cycle_map s) = Some c" "bc_arrears_amount c = 0"
  shows "a \<in> set (auths env) \<and> bc_status c \<noteq> ''processed'' \<and> n \<le> bc_rent_amount c
    \<and> (\<exists>tr. cb_treasury s = Some tr
        \<and> calls t = calls s @ [TokenTransfer (bc_token c) a (rt_treasury_address tr) n]
        \<and> cb_treasury t = Some (tr\<lparr>rt_total_collected := rt_total_collected tr + n,
            rt_available_balance := rt_available_balance tr + n, rt_collection_count := rt_collection_count tr + 1,
            rt_last_collection_time := ledger_timestamp env\<rparr>))
    \<and> rent_collected t = rent_collected s + n
    \<and> (\<exists>l. map_get (bc_lease_id c) (lease_map s) = Some l
        \<and> lease_map t = map_set (bc_lease_id c) (l\<lparr>al_total_paid := al_total_paid l + n,
            al_total_owed := al_total_owed l + (bc_rent_amount c - n)\<rparr>) (lease_map s))
    \<and> map_option bc_status (map_get i (cycle_map t)) = Some (if n = bc_rent_amount c then ''processed'' else ''failed'')
    \<and> (n = bc_rent_amount c \<longrightarrow> (\<forall>env' a' n' t'. process_payment env' a' i n' t \<noteq> (Ok (), t')))"
  using process_payment_Ok [OF assms(1)] assms(2,3) processed_not_paid [of i t]
  by (auto simp: arrears_left_def)

text \<open>A payment in part grows the debt when less than half is paid: the rest of the rent is added to a total that
  holds the rent already.\<close>

lemma part_payment_debt:
  assumes "process_payment env a i n s = (Ok u, t)" "map_get i (cycle_map s) = Some c" "bc_arrears_amount c = 0"
  shows "\<exists>l l'. map_get (bc_lease_id c) (lease_map s) = Some l \<and> map_get (bc_lease_id c) (lease_map t) = Some l'
        \<and> debt l' = debt l + (bc_rent_amount c - n) - n"
  using process_payment_Ok [OF assms(1)] assms(2,3) by (auto simp: debt_def arrears_left_def)

text \<open>Claim C14. The treasury adds up. After any sequence of invocations, by whomever, the rent collected equals the rent
  the billing state counts and the sum of what is distributed and what is available, and the guard against
  reentrancy is open.\<close>
theorem treasury_balanced:
  "cb_guard (fold cb_step ms cb_init) \<noteq> Some True
   \<and> (case cb_treasury (fold cb_step ms cb_init) of None \<Rightarrow> rent_collected (fold cb_step ms cb_init) = 0
      | Some t \<Rightarrow> rt_total_collected t = rent_collected (fold cb_step ms cb_init)
          \<and> rt_available_balance t = rt_total_collected t - rt_total_distributed t)"
  using billing.reach_inv [of ms] by (auto simp: treasury_ok_def split: option.splits)

text \<open>A pull payment is no pull. A payment on an authorisation uses up an active, unexpired authorisation that
  covers the rent of the cycle and pays the rent in full from the lessee; yet it succeeds only when the lessee who
  gave the authorisation authorises the very call that pulls it.\<close>
theorem pull_payment_needs_the_lessee:
  assumes "execute_pull_payment env lid i k s = (Ok u, t)"
  shows "\<exists>g c. cb_authorizations s (lid, k) = Some g \<and> pa_is_active g \<and> ledger_timestamp env \<le> pa_expiry_timestamp g
    \<and> map_get i (cycle_map s) = Some c \<and> bc_rent_amount c \<le> pa_authorized_amount g
    \<and> cb_authorizations t (lid, k) = Some (g\<lparr>pa_is_active := False\<rparr>)
    \<and> map_option bc_status (map_get i (cycle_map t)) = Some ''processed''
    \<and> pa_lessee g \<in> set (auths env)"
proof -
  obtain g c s1 where g: "cb_authorizations s (lid, k) = Some g" "pa_is_active g" "ledger_timestamp env \<le> pa_expiry_timestamp g"
      "map_get i (cycle_map s) = Some c" "bc_rent_amount c \<le> pa_authorized_amount g"
    and s1: "s1 = guard_to False ((guard_to True s)\<lparr>cb_authorizations := (cb_authorizations s)((lid, k) \<mapsto> g\<lparr>pa_is_active := False\<rparr>)\<rparr>)"
    and pay: "process_payment env (pa_lessee g) i (bc_rent_amount c) s1 = (Ok u, t)"
    by (rule execute_pull_payment_Ok [OF assms])
  have "cycle_map s1 = cycle_map s" "cb_authorizations s1 (lid, k) = Some (g\<lparr>pa_is_active := False\<rparr>)"
    unfolding s1 by (simp_all add: cycle_map_def)
  then show ?thesis using g process_payment_Ok [OF pay] by auto
qed

section \<open>An example\<close>

definition bx_lease :: active_lease where
  "bx_lease = \<lparr>al_lease_id = 3, al_lessor = 1, al_lessee = 2, al_asset_address = 90, al_rent_amount = 200,
     al_rent_per_second = 2, al_token = 50, al_start_time = 1000, al_end_time = 100000, al_billing_frequency = 100,
     al_last_billing_cycle = 0, al_status = ''active'', al_total_owed = 0, al_total_paid = 0, al_billing_enabled = True,
     al_authorization_enabled = False, al_max_authorized_amount = 0, al_current_authorized_amount = 0,
     al_authorization_expiry = 0, al_rent_treasury_address = 70\<rparr>"

definition bx_cycle :: billing_cycle where
  "bx_cycle = \<lparr>bc_cycle_id = 9, bc_lease_id = 3, bc_lessor = 1, bc_lessee = 2, bc_asset_address = 90,
     bc_rent_amount = 100, bc_rent_per_second = 2, bc_token = 50, bc_cycle_start = 1000, bc_cycle_end = 1100,
     bc_status = ''pending'', bc_processed_at = None, bc_payment_received = False, bc_arrears_amount = 0,
     bc_actual_duration_seconds = 50, bc_next_billing_date = 1100\<rparr>"

definition bx_state :: cb_state where
  "bx_state = cb_init\<lparr>cb_admin := Some 7, cb_leases := Some (map_set 3 bx_lease map_empty),
     cb_cycles := Some (map_set 9 bx_cycle map_empty),
     cb_treasury := Some \<lparr>rt_treasury_address = 70, rt_total_collected = 0, rt_total_distributed = 0,
       rt_available_balance = 0, rt_last_collection_time = 0, rt_collection_count = 0\<rparr>,
     cb_authorizations := [(3, 1) \<mapsto> \<lparr>pa_lease_id = 3, pa_lessee = 2, pa_authorized_amount = 500,
       pa_expiry_timestamp = 5000, pa_nonce = 1, pa_signature = 0, pa_created_at = 0, pa_is_active = True\<rparr>]\<rparr>"

definition bx_env :: "int \<Rightarrow> env" where
  "bx_env now = \<lparr>ledger_timestamp = now, ledger_sequence = 10, auths = [2], current_contract = 99,
     ext = (\<lambda>cs c. Reply_unit)\<rparr>"

lemmas bx_defs = bx_state_def bx_lease_def bx_cycle_def bx_env_def cb_init_def

lemmas billing_eval = Let_def bind_run guard_to_def protected_def or_default_def default_config_def default_billing_def
  proc_run enter_reentrancy_guard_def exit_reentrancy_guard_def get_billing_config_def guarded_throw_if_def
  get_billing_cycle_def get_active_lease_def get_rent_treasury_def store_treasury_def store_cycle_def store_lease_def
  store_billing_def cycle_map_def lease_map_def chk_w_run range_defs int_bounds

theorem cycles_charge_lateness_witness:
  "map_option al_total_owed (map_get 3 (lease_map (run_cycles 3 [bx_env 1010, bx_env 1150] bx_state))) = Some 120"
  using cycles_charge_lateness [of 3 bx_state bx_lease "[bx_env 1010, bx_env 1150]"]
  by (auto simp: bx_defs due_def int_bounds cycles_processed_def lease_map_def)

theorem payment_effect_witness:
  "al_total_paid (the (map_get 3 (lease_map (snd (process_payment (bx_env 1200) 2 9 100 bx_state))))) = 100
     \<and> fst (process_payment (bx_env 1300) 2 9 100 (snd (process_payment (bx_env 1200) 2 9 100 bx_state))) \<noteq> Ok ()"
proof -
  have run: "process_payment (bx_env 1200) 2 9 100 bx_state = (Ok (), snd (process_payment (bx_env 1200) 2 9 100 bx_state))"
    by (rule prod_eqI) (simp_all add: process_payment_def bx_defs billing_eval)
  have "map_get 9 (cycle_map bx_state) = Some bx_cycle" "map_get 3 (lease_map bx_state) = Some bx_lease"
    by (simp_all add: bx_state_def cb_init_def lease_map_def cycle_map_def)
  note effect = payment_effect [OF run this(1)] and lease = this(2)
  have "\<forall>env' a' n' t'. process_payment env' a' 9 n' (snd (process_payment (bx_env 1200) 2 9 100 bx_state)) \<noteq> (Ok (), t')"
    using effect by (simp add: bx_cycle_def)
  then have "fst (process_payment (bx_env 1300) 2 9 100 (snd (process_payment (bx_env 1200) 2 9 100 bx_state))) \<noteq> Ok ()"
    by (metis prod.collapse)
  then show ?thesis using effect lease by (auto simp: bx_cycle_def bx_lease_def)
qed

theorem pull_payment_needs_the_lessee_witness:
  "map_option bc_status (map_get 9 (cycle_map (snd (execute_pull_payment (bx_env 1200) 3 9 1 bx_state)))) = Some ''processed''"
proof -
  have run: "execute_pull_payment (bx_env 1200) 3 9 1 bx_state = (Ok (), snd (execute_pull_payment (bx_env 1200) 3 9 1 bx_state))"
    by (rule prod_eqI) (simp_all add: execute_pull_payment_def process_payment_def bx_defs billing_eval)
  show ?thesis using pull_payment_needs_the_lessee [OF run] by blast
qed

end
