(* ===== verification/Sample_Lease.thy ===== *)
theory Sample_Lease
  imports Contract_Types
begin

text \<open>A lease for the witnesses: landlord 1, tenant 2, rent 3000, deposits 500 and 200, ending at the given time.\<close>

definition sample_lease :: "int \<Rightarrow> lease_instance" where
  "sample_lease ends = \<lparr>rent_amount = 3000, deposit_amount = 500, security_deposit = 200, rent_paid = 0, cumulative_payments = 0,
     debt = 0, late_fee_flat = 0, late_fee_per_sec = 0, rent_withdrawn = 0, withheld_rent = 0, yield_accumulated = 0,
     equity_balance = 0, pet_deposit_amount = 0, pet_rent_amount = 0, rent_per_sec = 0, buyout_price = None,
     rent_pull_authorized_amount = None, landlord = 1, tenant = 2, payment_token = 50, withdrawal_address = None,
     inspector = None, pause_initiator = None, nft_contract = None, arbitrators = [], start_date = 1000,
     end_date = ends, expiry_time = ends, rent_paid_through = 0, grace_period_end = 0, seconds_late_charged = 0,
     total_paused_duration = 0, billing_cycle_duration = 0, paused_at = None, last_rent_pull_timestamp = None,
     token_id = None, equity_percentage_bps = 0, status = LActive, deposit_status = Held, maintenance_status = MNone,
     repair_proof_hash = None, pause_reason = None, property_uri = ''u'', flags = ACTIVE,
     early_termination_fee_bps = None, fixed_penalty = None, lessor_reference_id = None, paused = False,
     continuous_billing_enabled = False, rent_treasury_address = None, yield_delegation_enabled = False,
     asset_registry_address = None, asset_id = None\<rparr>"

end
