(* ===== verification/Token_Index.thy ===== *)
theory Token_Index
  imports Contract_Types Soroban_Host
begin

text \<open>
  What the token modules share: the index from a key to the list of tokens filed under it, token ids made of a
  lease id and a time, and the storage cell of a lease. The key \<^verbatim>\<open>LeaseInstance(id)\<close> of the lease contract and of
  the data-key enums of the modules is the same ledger key, under which the payment router also writes values of
  other types; reading a value of another type is a conversion failure of the host and traps.
\<close>

section \<open>Lists of tokens under a key\<close>

definition listed :: "('k \<rightharpoonup> 'a list) \<Rightarrow> 'k \<Rightarrow> 'a list" where
  "listed ix k = (case ix k of None \<Rightarrow> [] | Some xs \<Rightarrow> xs)"

text \<open>Reading a \<^verbatim>\<open>Vec\<close> (empty when absent), \<^verbatim>\<open>push_back\<close> and \<^verbatim>\<open>retain(|id| id != x)\<close>, and writing it back.\<close>

definition list_push :: "'k \<Rightarrow> 'a \<Rightarrow> ('k \<rightharpoonup> 'a list) \<Rightarrow> 'k \<rightharpoonup> 'a list" where
  "list_push k x ix = ix(k \<mapsto> listed ix k @ [x])"

definition list_drop :: "'k \<Rightarrow> 'a \<Rightarrow> ('k \<rightharpoonup> 'a list) \<Rightarrow> 'k \<rightharpoonup> 'a list" where
  "list_drop k x ix = ix(k \<mapsto> filter (\<lambda>y. y \<noteq> x) (listed ix k))"

lemma listed_push [simp]: "listed (list_push k x ix) k' = (if k' = k then listed ix k @ [x] else listed ix k')"
  by (simp add: listed_def list_push_def)

lemma listed_drop [simp]:
  "listed (list_drop k x ix) k' = (if k' = k then filter (\<lambda>y. y \<noteq> x) (listed ix k) else listed ix k')"
  by (simp add: listed_def list_drop_def)

lemma listed_empty [simp]: "listed Map.empty k = []"
  by (simp add: listed_def)

lemma count_list_drop [simp]: "count_list (filter (\<lambda>y. y \<noteq> x) xs) z = (if z = x then 0 else count_list xs z)"
  by (induction xs) auto

text \<open>An index is exact for an ownership when every token is filed once, under its owner, and nowhere else.\<close>

definition exact_index :: "('a \<rightharpoonup> 'k) \<Rightarrow> ('k \<rightharpoonup> 'a list) \<Rightarrow> bool" where
  "exact_index owner ix \<longleftrightarrow> (\<forall>k x. count_list (listed ix k) x = (if owner x = Some k then 1 else 0))"

lemma exact_index_empty: "exact_index Map.empty Map.empty"
  by (simp add: exact_index_def)

lemma exact_index_push: "exact_index owner ix \<Longrightarrow> owner x = None \<Longrightarrow> exact_index (owner(x \<mapsto> k)) (list_push k x ix)"
  by (auto simp: exact_index_def)

lemma exact_index_move:
  "exact_index owner ix \<Longrightarrow> owner x = Some j \<Longrightarrow> exact_index (owner(x \<mapsto> k)) (list_push k x (list_drop j x ix))"
  by (auto simp: exact_index_def)

lemma count_list_1_distinct: "(\<And>x. count_list xs x \<le> 1) \<Longrightarrow> distinct xs"
proof (induction xs)
  case (Cons a xs)
  have "count_list xs x \<le> 1" for x using Cons.prems [of x] by (auto split: if_splits)
  moreover have "a \<notin> set xs" using Cons.prems [of a] by (auto simp: count_list_0_iff)
  ultimately show ?case using Cons.IH by simp
qed simp

lemma exact_index_listed:
  assumes "exact_index owner ix"
  shows "distinct (listed ix k)" "x \<in> set (listed ix k) \<longleftrightarrow> owner x = Some k"
proof -
  have c: "count_list (listed ix k) y = (if owner y = Some k then 1 else 0)" for y
    using assms by (simp add: exact_index_def)
  show "distinct (listed ix k)" by (rule count_list_1_distinct) (simp add: c)
  show "x \<in> set (listed ix k) \<longleftrightarrow> owner x = Some k"
    using c [of x] count_list_0_iff [of "listed ix k" x] by (auto split: if_splits)
qed

section \<open>Token ids\<close>

text \<open>\<^verbatim>\<open>((id as u128) << 64) | (timestamp as u128)\<close>: the bits shifted beyond the 128 of the type are lost.\<close>

definition token_id_from :: "int \<Rightarrow> env \<Rightarrow> int" where
  "token_id_from i env = or (take_bit 128 (push_bit 64 i)) (ledger_timestamp env)"

lemma token_id_from_eq:
  assumes "0 \<le> i" "is_u64 (ledger_timestamp env)"
  shows "token_id_from i env = (i mod 2 ^ 64) * 2 ^ 64 + ledger_timestamp env"
proof -
  let ?t = "ledger_timestamp env"
  have t: "?t = take_bit 64 ?t" using assms(2) by (simp add: take_bit_eq_mod is_u64_def u64_max_def)
  have "take_bit 128 (push_bit 64 i) = push_bit 64 (take_bit 64 i)"
    by (simp add: push_bit_take_bit)
  moreover have "or (push_bit 64 (take_bit 64 i)) ?t = push_bit 64 (take_bit 64 i) + ?t"
  proof (rule disjunctive_add [symmetric])
    fix n show "\<not> bit (push_bit 64 (take_bit 64 i)) n \<or> \<not> bit ?t n"
      by (subst t) (auto simp: bit_simps)
  qed
  ultimately show ?thesis by (simp add: token_id_from_def push_bit_eq_mult take_bit_eq_mod)
qed

text \<open>Ids made from different lease ids differ, whatever the times.\<close>

lemma token_id_from_inj:
  assumes "is_u64 i" "is_u64 j" "is_u64 (ledger_timestamp e)" "is_u64 (ledger_timestamp f)"
    and eq: "token_id_from i e = token_id_from j f"
  shows "i = j"
proof -
  have "i * 2 ^ 64 + ledger_timestamp e = j * 2 ^ 64 + ledger_timestamp f"
    using eq assms by (simp add: token_id_from_eq is_u64_def u64_max_def)
  then have "(i * 2 ^ 64 + ledger_timestamp e) div 2 ^ 64 = (j * 2 ^ 64 + ledger_timestamp f) div 2 ^ 64" by simp
  then show ?thesis using assms by (simp add: is_u64_def u64_max_def)
qed

text \<open>The lease a token id was made for.\<close>

definition lease_of_token :: "int \<Rightarrow> int" where
  "lease_of_token t = t div 2 ^ 64"

lemma lease_of_token [simp]:
  "is_u64 i \<Longrightarrow> is_u64 (ledger_timestamp e) \<Longrightarrow> lease_of_token (token_id_from i e) = i"
  by (simp add: lease_of_token_def token_id_from_eq is_u64_def u64_max_def)

end
