(* ===== verification/Lessor_NFT.thy ===== *)
theory Lessor_NFT
  imports Token_Index
begin

text \<open>
  \<^verbatim>\<open>contracts/leaseflow_contracts/src/lessor_rights_nft.rs\<close>: one token per lease that carries the lessor's rights, its
  holder, its lock, and its transfer with a proration of the rent. The hash of the property is a parameter, the
  SHA-256 of the host. The index of a transfer record is a field \<^verbatim>\<open>transfer_count\<close> that the record does not have;
  it is read as the count of the token's metadata. The elapsed time, a \<^verbatim>\<open>u64\<close>, is multiplied with the rent as \<^verbatim>\<open>i128\<close>.
  The state also holds the leases, by the cells the payment router shares with them.
\<close>

section \<open>State\<close>

record nft_metadata =
  nm_lease_id :: int
  nm_original_lessor :: address
  nm_current_holder :: address
  nm_lease_start :: int
  nm_lease_end :: int
  nm_monthly_rent :: int
  nm_security_deposit :: int
  nm_property_hash :: bytes32
  nm_minted_at :: int
  nm_last_transfer :: int
  nm_transfer_count :: int
  nm_pending_yield :: int
  nm_billing_cycle_start :: int

record nft_transfer_record =
  nr_token_id :: int
  nr_from_holder :: address
  nr_to_holder :: address
  nr_transfer_timestamp :: int
  nr_accrued_rent_at_transfer :: int
  nr_proration_amount :: int
  nr_billing_cycle_remaining :: int

datatype verification_purpose = RentPayment | DepositRefund | Slashing | Buyout | Termination

record ownership_request =
  oq_lease_id :: int
  oq_requesting_contract :: address
  oq_verification_purpose :: verification_purpose

record ownership_response =
  or_is_valid :: bool
  or_current_holder :: address
  or_verification_timestamp :: int
  or_lease_id :: int
  or_token_id :: int

datatype lock_reason = LeaseActive | LeaseDisputed | ArbitrationInProgress | RegulatoryHold

record nft_lock =
  nl_lease_id :: int
  nl_token_id :: int
  nl_lock_reason :: lock_reason
  nl_locked_at :: int
  nl_expires_at :: "int option"

datatype nft_error =
    NLeaseNotFound
  | NFTAlreadyExists
  | NInvalidLeaseState
  | NUnauthorizedTransfer
  | NFTNotFound
  | TransferDuringLock
  | InvalidProration
  | OwnershipVerificationFailed
  | NCrossContractCallFailed
  | InsufficientYield
  | TokenIndestructible
  | MetadataCorruption

text \<open>The values of the payment router that live in the cell of a lease.\<close>

record yield_accumulation =
  ya_lease_id :: int
  ya_holder :: address
  ya_accumulated_yield :: int
  ya_accumulation_start :: int
  ya_last_payment_timestamp :: int
  ya_payment_count :: int

record payment_routing_config =
  pr_lease_id :: int
  pr_current_holder :: address
  pr_routing_enabled :: bool
  pr_last_routing_update :: int
  pr_yield_accumulation_start :: int

datatype lease_cell =
    Lease_cell lease_instance
  | Yield_cell yield_accumulation
  | Routing_cell payment_routing_config
  | Count_cell int

datatype nft_event =
    LessorRightsTokenized int int address int
  | NFTTransferred int address address int int int
  | YieldRedirected int address int int
  | NFTLocked int int lock_reason int
  | PaymentRouted int address address int int
  | YieldAccumulated int address int int
  | RoutingUpdated int address address int
  | MutualLeaseFinalized int int int int int

record nft_state = "nft_event host" +
  ns_cells :: "int \<rightharpoonup> lease_cell"
  ns_metadata :: "int \<rightharpoonup> nft_metadata"
  ns_transfers :: "int \<times> int \<rightharpoonup> nft_transfer_record"
  ns_locks :: "int \<rightharpoonup> nft_lock"
  ns_token_of :: "int \<rightharpoonup> int"
  ns_holder_nfts :: "address \<rightharpoonup> int list"
  ns_verified :: "int \<times> address \<rightharpoonup> ownership_response"
  ns_authorized_payers :: "(int \<times> address) set"

type_synonym 'a nft = "(nft_state, nft_error, 'a) proc"

definition nft_init :: nft_state where
  "nft_init = \<lparr>events = [], calls = [], ns_cells = Map.empty, ns_metadata = Map.empty, ns_transfers = Map.empty,
     ns_locks = Map.empty, ns_token_of = Map.empty, ns_holder_nfts = Map.empty, ns_verified = Map.empty,
     ns_authorized_payers = {}\<rparr>"

section \<open>Storage access\<close>

definition load_cell_lease :: "int \<Rightarrow> (nft_state, 'e, lease_instance option) proc" where
  "load_cell_lease lid = bind (gets (\<lambda>s. ns_cells s lid)) (\<lambda>c. case c of
     None \<Rightarrow> return None | Some (Lease_cell l) \<Rightarrow> return (Some l) | Some _ \<Rightarrow> trap)"

definition save_cell_lease :: "int \<Rightarrow> lease_instance \<Rightarrow> (nft_state, 'e, unit) proc" where
  "save_cell_lease lid l = modify (\<lambda>s. s\<lparr>ns_cells := (ns_cells s)(lid \<mapsto> Lease_cell l)\<rparr>)"

definition token_of_lease :: "int \<Rightarrow> int nft" where
  "token_of_lease lid = bind (gets (\<lambda>s. ns_token_of s lid)) (\<lambda>t. ok_or t NFTNotFound)"

definition get_nft_metadata :: "int \<Rightarrow> nft_metadata nft" where
  "get_nft_metadata t = bind (gets (\<lambda>s. ns_metadata s t)) (\<lambda>m. ok_or m NFTNotFound)"

definition get_holder_nfts :: "address \<Rightarrow> int list nft" where
  "get_holder_nfts a = gets (\<lambda>s. listed (ns_holder_nfts s) a)"

definition get_current_holder :: "int \<Rightarrow> address nft" where
  "get_current_holder lid =
     bind (token_of_lease lid) (\<lambda>t. bind (get_nft_metadata t) (\<lambda>m. return (nm_current_holder m)))"

section \<open>Helpers\<close>

definition is_lease_tokenizable :: "lease_instance \<Rightarrow> bool" where
  "is_lease_tokenizable l \<longleftrightarrow> status l = LActive \<or> status l = LPending"

definition generate_unique_token_id :: "env \<Rightarrow> int \<Rightarrow> int" where
  "generate_unique_token_id env lid = token_id_from lid env"

definition compute_property_hash :: "(string \<Rightarrow> bytes32) \<Rightarrow> string \<Rightarrow> bytes32" where
  "compute_property_hash sha256 uri = sha256 uri"

definition create_nft_metadata :: "(string \<Rightarrow> bytes32) \<Rightarrow> env \<Rightarrow> lease_instance \<Rightarrow> int \<Rightarrow> address \<Rightarrow> nft_metadata nft" where
  "create_nft_metadata sha256 env l lid lessor =
     bind (chk_i128 (deposit_amount l + security_deposit l)) (\<lambda>deposits.
     return \<lparr>nm_lease_id = lid, nm_original_lessor = lessor, nm_current_holder = lessor,
       nm_lease_start = start_date l, nm_lease_end = end_date l, nm_monthly_rent = rent_amount l,
       nm_security_deposit = deposits, nm_property_hash = compute_property_hash sha256 (property_uri l),
       nm_minted_at = ledger_timestamp env, nm_last_transfer = ledger_timestamp env, nm_transfer_count = 0,
       nm_pending_yield = 0, nm_billing_cycle_start = start_date l\<rparr>)"

definition store_nft_data :: "int \<Rightarrow> nft_metadata \<Rightarrow> int \<Rightarrow> unit nft" where
  "store_nft_data t m lid = modify (\<lambda>s. s\<lparr>ns_metadata := (ns_metadata s)(t \<mapsto> m),
     ns_token_of := (ns_token_of s)(lid \<mapsto> t),
     ns_holder_nfts := list_push (nm_current_holder m) t (ns_holder_nfts s)\<rparr>)"

definition create_indestructibility_lock :: "env \<Rightarrow> int \<Rightarrow> int \<Rightarrow> lock_reason \<Rightarrow> unit nft" where
  "create_indestructibility_lock env lid t r = modify (\<lambda>s. s\<lparr>ns_locks := (ns_locks s)(lid \<mapsto>
     \<lparr>nl_lease_id = lid, nl_token_id = t, nl_lock_reason = r, nl_locked_at = ledger_timestamp env,
      nl_expires_at = None\<rparr>)\<rparr>)"

definition update_lease_for_nft :: "env \<Rightarrow> int \<Rightarrow> int \<Rightarrow> unit nft" where
  "update_lease_for_nft env lid t =
     bind (load_cell_lease lid) (\<lambda>x. bind (ok_or x NLeaseNotFound) (\<lambda>l.
     save_cell_lease lid (l\<lparr>nft_contract := Some (current_contract env), token_id := Some t\<rparr>)))"

definition is_nft_locked :: "int \<Rightarrow> bool nft" where
  "is_nft_locked lid = gets (\<lambda>s. ns_locks s lid \<noteq> None)"

text \<open>\<open>nft_cycle\<close> is the 30 days of a billing cycle. The result has accrued rent, proration and remaining time.\<close>

definition nft_cycle :: int where
  "nft_cycle = 30 * 24 * 60 * 60"

definition calculate_yield_proration :: "env \<Rightarrow> nft_metadata \<Rightarrow> (int \<times> int \<times> int) nft" where
  "calculate_yield_proration env m =
     (let time_elapsed = sat_u64 (ledger_timestamp env - nm_billing_cycle_start m) in
     bind (chk_i128 (time_elapsed * nm_monthly_rent m)) (\<lambda>x.
     let accrued_rent = tdiv x nft_cycle;
         billing_cycle_remaining = sat_u64 (nft_cycle - time_elapsed)
     in return (accrued_rent, accrued_rent, billing_cycle_remaining)))"

definition store_transfer_record :: "int \<Rightarrow> int \<Rightarrow> nft_transfer_record \<Rightarrow> unit nft" where
  "store_transfer_record t i r = modify (\<lambda>s. s\<lparr>ns_transfers := (ns_transfers s)((t, i) \<mapsto> r)\<rparr>)"

definition execute_yield_redirection :: "env \<Rightarrow> int \<Rightarrow> address \<Rightarrow> int \<Rightarrow> unit nft" where
  "execute_yield_redirection env t to_holder proration =
     publish (YieldRedirected t to_holder proration (ledger_timestamp env))"

definition update_nft_metadata_on_transfer :: "env \<Rightarrow> int \<Rightarrow> address \<Rightarrow> unit nft" where
  "update_nft_metadata_on_transfer env t new_holder =
     bind (get_nft_metadata t) (\<lambda>m.
     bind (chk_u32 (nm_transfer_count m + 1)) (\<lambda>n.
     modify (\<lambda>s. s\<lparr>ns_metadata := (ns_metadata s)(t \<mapsto> m\<lparr>nm_current_holder := new_holder,
       nm_last_transfer := ledger_timestamp env, nm_transfer_count := n, nm_pending_yield := 0,
       nm_billing_cycle_start := ledger_timestamp env\<rparr>)\<rparr>)))"

definition update_holder_mappings :: "int \<Rightarrow> address \<Rightarrow> address \<Rightarrow> unit nft" where
  "update_holder_mappings t from_holder to_holder =
     modify (\<lambda>s. s\<lparr>ns_holder_nfts := list_push to_holder t (list_drop from_holder t (ns_holder_nfts s))\<rparr>)"

definition verify_purpose_validity :: "int \<Rightarrow> verification_purpose \<Rightarrow> unit nft" where
  "verify_purpose_validity lid p =
     bind (load_cell_lease lid) (\<lambda>x. bind (ok_or x NLeaseNotFound) (\<lambda>l.
     case p of
       RentPayment \<Rightarrow> throw_if (status l \<noteq> LActive) NInvalidLeaseState
     | Buyout \<Rightarrow> throw_if (status l \<noteq> LActive) NInvalidLeaseState
     | _ \<Rightarrow> throw_if (status l \<noteq> LTerminated \<and> status l \<noteq> LExpired) NInvalidLeaseState))"

definition cache_verification_result :: "ownership_request \<Rightarrow> ownership_response \<Rightarrow> unit nft" where
  "cache_verification_result q r =
     modify (\<lambda>s. s\<lparr>ns_verified := (ns_verified s)((oq_lease_id q, oq_requesting_contract q) \<mapsto> r)\<rparr>)"

section \<open>Operations\<close>

definition mint_lessor_rights_token :: "(string \<Rightarrow> bytes32) \<Rightarrow> env \<Rightarrow> int \<Rightarrow> address \<Rightarrow> int nft" where
  "mint_lessor_rights_token sha256 env lid lessor =
     bind (load_cell_lease lid) (\<lambda>x. bind (ok_or x NLeaseNotFound) (\<lambda>l.
     bind (throw_if (\<not> is_lease_tokenizable l) NInvalidLeaseState) (\<lambda>_.
     bind (gets (\<lambda>s. ns_token_of s lid)) (\<lambda>known.
     bind (throw_if (known \<noteq> None) NFTAlreadyExists) (\<lambda>_.
     let t = generate_unique_token_id env lid in
     bind (create_nft_metadata sha256 env l lid lessor) (\<lambda>m.
     bind (store_nft_data t m lid) (\<lambda>_.
     bind (create_indestructibility_lock env lid t LeaseActive) (\<lambda>_.
     bind (update_lease_for_nft env lid t) (\<lambda>_.
     bind (publish (LessorRightsTokenized lid t lessor (ledger_timestamp env))) (\<lambda>_.
     return t))))))))))"

definition transfer_nft :: "env \<Rightarrow> int \<Rightarrow> address \<Rightarrow> address \<Rightarrow> unit nft" where
  "transfer_nft env t from_holder to_holder =
     bind (get_nft_metadata t) (\<lambda>m.
     bind (throw_if (nm_current_holder m \<noteq> from_holder) NUnauthorizedTransfer) (\<lambda>_.
     bind (is_nft_locked (nm_lease_id m)) (\<lambda>locked.
     bind (throw_if locked TransferDuringLock) (\<lambda>_.
     bind (calculate_yield_proration env m) (\<lambda>(accrued, proration, remaining).
     bind (store_transfer_record t (nm_transfer_count m) \<lparr>nr_token_id = t, nr_from_holder = from_holder,
       nr_to_holder = to_holder, nr_transfer_timestamp = ledger_timestamp env,
       nr_accrued_rent_at_transfer = accrued, nr_proration_amount = proration,
       nr_billing_cycle_remaining = remaining\<rparr>) (\<lambda>_.
     bind (execute_yield_redirection env t to_holder proration) (\<lambda>_.
     bind (update_nft_metadata_on_transfer env t to_holder) (\<lambda>_.
     bind (update_holder_mappings t from_holder to_holder) (\<lambda>_.
     publish (NFTTransferred t from_holder to_holder (ledger_timestamp env) accrued proration))))))))))"

definition verify_token_ownership :: "env \<Rightarrow> ownership_request \<Rightarrow> ownership_response nft" where
  "verify_token_ownership env q =
     bind (token_of_lease (oq_lease_id q)) (\<lambda>t.
     bind (get_nft_metadata t) (\<lambda>m.
     bind (verify_purpose_validity (oq_lease_id q) (oq_verification_purpose q)) (\<lambda>_.
     let r = \<lparr>or_is_valid = True, or_current_holder = nm_current_holder m,
       or_verification_timestamp = ledger_timestamp env, or_lease_id = oq_lease_id q, or_token_id = t\<rparr> in
     bind (cache_verification_result q r) (\<lambda>_. return r))))"

definition update_nft_lock :: "env \<Rightarrow> int \<Rightarrow> lock_reason \<Rightarrow> int option \<Rightarrow> unit nft" where
  "update_nft_lock env lid r expires =
     bind (token_of_lease lid) (\<lambda>t.
     bind (modify (\<lambda>s. s\<lparr>ns_locks := (ns_locks s)(lid \<mapsto> \<lparr>nl_lease_id = lid, nl_token_id = t,
       nl_lock_reason = r, nl_locked_at = ledger_timestamp env, nl_expires_at = expires\<rparr>)\<rparr>)) (\<lambda>_.
     publish (NFTLocked t lid r (ledger_timestamp env))))"

definition release_nft_lock :: "int \<Rightarrow> unit nft" where
  "release_nft_lock lid =
     bind (gets (\<lambda>s. ns_locks s lid)) (\<lambda>k.
     if k = None then return () else modify (\<lambda>s. s\<lparr>ns_locks := (ns_locks s)(lid := None)\<rparr>))"

end
