(* ===== verification/Payment_Router.thy ===== *)
theory Payment_Router
  imports Lessor_NFT
begin

text \<open>
  \<^verbatim>\<open>contracts/leaseflow_contracts/src/lease_payment_router.rs\<close>: payments, refunds and releases of a lease that go to the
  holder of its token. The router keeps its accumulations, its configuration and a payment counter under the key of
  the lease itself. The \<^verbatim>\<open>?\<close> operator on a routing or token error, for which the source has no conversion, hands
  the error on. \<open>fresh\<close> is the address \<^verbatim>\<open>Address::generate\<close> returns. The heartbeat sets a field
  \<^verbatim>\<open>last_tenant_interaction\<close> that a lease does not have; only the rest of it is modelled.
\<close>

section \<open>Errors and cells\<close>

datatype routing_error =
    RoLeaseNotFound
  | RoNFTNotFound
  | RoOwnershipVerificationFailed
  | InvalidRoutingState
  | RoInsufficientYield
  | ProrationCalculationFailed
  | RoCrossContractCallFailed
  | PaymentRoutingDisabled

datatype payment_error =
    PLeaseNotFound
  | PUnauthorised
  | PInvalidState
  | PInvalidReleaseMath
  | Routing routing_error
  | Nft nft_error

type_synonym 'a routing = "(nft_state, routing_error, 'a) proc"
type_synonym 'a payment = "(nft_state, payment_error, 'a) proc"

definition read_yield :: "int \<Rightarrow> (nft_state, 'e, yield_accumulation option) proc" where
  "read_yield lid = bind (gets (\<lambda>s. ns_cells s lid)) (\<lambda>c. case c of
     None \<Rightarrow> return None | Some (Yield_cell y) \<Rightarrow> return (Some y) | Some _ \<Rightarrow> trap)"

definition read_routing :: "int \<Rightarrow> (nft_state, 'e, payment_routing_config option) proc" where
  "read_routing lid = bind (gets (\<lambda>s. ns_cells s lid)) (\<lambda>c. case c of
     None \<Rightarrow> return None | Some (Routing_cell r) \<Rightarrow> return (Some r) | Some _ \<Rightarrow> trap)"

definition read_count :: "int \<Rightarrow> (nft_state, 'e, int option) proc" where
  "read_count lid = bind (gets (\<lambda>s. ns_cells s lid)) (\<lambda>c. case c of
     None \<Rightarrow> return None | Some (Count_cell n) \<Rightarrow> return (Some n) | Some _ \<Rightarrow> trap)"

definition write_cell :: "int \<Rightarrow> lease_cell \<Rightarrow> (nft_state, 'e, unit) proc" where
  "write_cell lid c = modify (\<lambda>s. s\<lparr>ns_cells := (ns_cells s)(lid \<mapsto> c)\<rparr>)"

section \<open>Helpers\<close>

definition get_current_nft_holder :: "int \<Rightarrow> address routing" where
  "get_current_nft_holder lid = map_err (\<lambda>_. RoNFTNotFound) (get_current_holder lid)"

definition update_yield_accumulation :: "env \<Rightarrow> int \<Rightarrow> address \<Rightarrow> int \<Rightarrow> unit routing" where
  "update_yield_accumulation env lid holder n =
     bind (read_yield lid) (\<lambda>x.
     let y = (case x of Some y \<Rightarrow> y | None \<Rightarrow> \<lparr>ya_lease_id = lid, ya_holder = holder, ya_accumulated_yield = 0,
       ya_accumulation_start = ledger_timestamp env, ya_last_payment_timestamp = ledger_timestamp env,
       ya_payment_count = 0\<rparr>) in
     bind (chk_i128 (ya_accumulated_yield y + n)) (\<lambda>total.
     bind (chk_u32 (ya_payment_count y + 1)) (\<lambda>count.
     bind (write_cell lid (Yield_cell (y\<lparr>ya_accumulated_yield := total,
       ya_last_payment_timestamp := ledger_timestamp env, ya_payment_count := count\<rparr>))) (\<lambda>_.
     bind (chk_u64 (ledger_timestamp env - ya_accumulation_start y)) (\<lambda>period.
     publish (YieldAccumulated lid holder n period))))))"

definition route_payment_to_nft_holder :: "env \<Rightarrow> address \<Rightarrow> int \<Rightarrow> address \<Rightarrow> int \<Rightarrow> unit routing" where
  "route_payment_to_nft_holder env fresh lid holder n =
     bind (update_yield_accumulation env lid holder n) (\<lambda>_.
     publish (PaymentRouted lid fresh holder n (ledger_timestamp env)))"

definition verify_ownership_for_deposit_refund :: "env \<Rightarrow> int \<Rightarrow> address \<Rightarrow> unit routing" where
  "verify_ownership_for_deposit_refund env lid claimed_holder =
     bind (map_err (\<lambda>_. RoOwnershipVerificationFailed) (verify_token_ownership env \<lparr>oq_lease_id = lid,
       oq_requesting_contract = current_contract env, oq_verification_purpose = DepositRefund\<rparr>)) (\<lambda>r.
     throw_if (\<not> or_is_valid r \<or> or_current_holder r \<noteq> claimed_holder) RoOwnershipVerificationFailed)"

definition execute_deposit_refund :: "env \<Rightarrow> int \<Rightarrow> address \<Rightarrow> int \<Rightarrow> unit routing" where
  "execute_deposit_refund env lid holder n =
     publish (PaymentRouted lid (current_contract env) holder n (ledger_timestamp env))"

definition execute_mutual_release_payments :: "env \<Rightarrow> int \<Rightarrow> address \<Rightarrow> address \<Rightarrow> int \<Rightarrow> int \<Rightarrow> unit routing" where
  "execute_mutual_release_payments env lid lessee holder return_amount slash_amount =
     bind (if return_amount > 0 then
         publish (PaymentRouted lid (current_contract env) lessee return_amount (ledger_timestamp env))
       else return ()) (\<lambda>_.
     if slash_amount > 0 then
       publish (PaymentRouted lid (current_contract env) holder slash_amount (ledger_timestamp env))
     else return ())"

text \<open>The result has the accumulated yield, the proration, the elapsed time and the ratio.\<close>

definition calculate_yield_proration_on_transfer :: "env \<Rightarrow> int \<Rightarrow> (int \<times> int \<times> int \<times> int) routing" where
  "calculate_yield_proration_on_transfer env lid =
     bind (read_yield lid) (\<lambda>x. bind (ok_or x RoInsufficientYield) (\<lambda>y.
     let elapsed_time = sat_u64 (ledger_timestamp env - ya_accumulation_start y) in
     bind (if elapsed_time < nft_cycle then bind (chk_u64 (elapsed_time * 10000)) (\<lambda>x. return (x div nft_cycle))
       else return 10000) (\<lambda>proration_ratio.
     bind (chk_i128 (ya_accumulated_yield y * proration_ratio)) (\<lambda>x.
     return (ya_accumulated_yield y, tdiv x 10000, elapsed_time, proration_ratio)))))"

definition execute_yield_redistribution :: "env \<Rightarrow> int \<Rightarrow> address \<Rightarrow> address \<Rightarrow> int \<Rightarrow> unit routing" where
  "execute_yield_redistribution env lid previous_holder new_holder proration =
     bind (if proration > 0 then
         publish (PaymentRouted lid (current_contract env) previous_holder proration (ledger_timestamp env))
       else return ()) (\<lambda>_.
     write_cell lid (Yield_cell \<lparr>ya_lease_id = lid, ya_holder = new_holder, ya_accumulated_yield = 0,
       ya_accumulation_start = ledger_timestamp env, ya_last_payment_timestamp = ledger_timestamp env,
       ya_payment_count = 0\<rparr>))"

definition update_routing_configuration :: "env \<Rightarrow> int \<Rightarrow> address \<Rightarrow> unit routing" where
  "update_routing_configuration env lid new_holder =
     write_cell lid (Routing_cell \<lparr>pr_lease_id = lid, pr_current_holder = new_holder, pr_routing_enabled = True,
       pr_last_routing_update = ledger_timestamp env, pr_yield_accumulation_start = ledger_timestamp env\<rparr>)"

definition update_payment_tracking :: "int \<Rightarrow> unit routing" where
  "update_payment_tracking lid =
     bind (read_count lid) (\<lambda>x.
     bind (chk_u32 ((case x of None \<Rightarrow> 0 | Some n \<Rightarrow> n) + 1)) (\<lambda>n. write_cell lid (Count_cell n)))"

definition load_payment_lease :: "int \<Rightarrow> lease_instance payment" where
  "load_payment_lease lid = bind (load_cell_lease lid) (\<lambda>x. ok_or x PLeaseNotFound)"

definition update_tenant_heartbeat :: "env \<Rightarrow> int \<Rightarrow> address \<Rightarrow> unit payment" where
  "update_tenant_heartbeat env lid a =
     bind (load_payment_lease lid) (\<lambda>l.
     bind (throw_if (tenant l \<noteq> a) PUnauthorised) (\<lambda>_.
     save_cell_lease lid l))"

section \<open>Operations\<close>

definition pay_lease_rent_with_nft_routing :: "env \<Rightarrow> address \<Rightarrow> int \<Rightarrow> address \<Rightarrow> int \<Rightarrow> unit payment" where
  "pay_lease_rent_with_nft_routing env fresh lid payer n =
     bind (require_auth env payer) (\<lambda>_.
     bind (load_payment_lease lid) (\<lambda>l.
     bind (require (has_flag (flags l) ACTIVE)) (\<lambda>_.
     bind (gets (\<lambda>s. (lid, payer) \<in> ns_authorized_payers s)) (\<lambda>is_authorized.
     bind (throw_if (payer \<noteq> tenant l \<and> \<not> is_authorized) PUnauthorised) (\<lambda>_.
     bind (map_err (\<lambda>_. PInvalidState) (get_current_nft_holder lid)) (\<lambda>holder.
     bind (map_err Routing (route_payment_to_nft_holder env fresh lid holder n)) (\<lambda>_.
     bind (if payer = tenant l then update_tenant_heartbeat env lid payer else return ()) (\<lambda>_.
     map_err Routing (update_payment_tracking lid)))))))))"

definition refund_deposit_to_nft_holder :: "env \<Rightarrow> int \<Rightarrow> int \<Rightarrow> unit payment" where
  "refund_deposit_to_nft_holder env lid n =
     bind (load_payment_lease lid) (\<lambda>l.
     bind (throw_if (status l \<noteq> LTerminated \<and> status l \<noteq> LExpired) PInvalidState) (\<lambda>_.
     bind (map_err (\<lambda>_. PInvalidState) (get_current_nft_holder lid)) (\<lambda>holder.
     bind (map_err Routing (verify_ownership_for_deposit_refund env lid holder)) (\<lambda>_.
     map_err Routing (execute_deposit_refund env lid holder n)))))"

definition mutual_release_with_nft_verification :: "env \<Rightarrow> int \<Rightarrow> address \<Rightarrow> address \<Rightarrow> int \<Rightarrow> int \<Rightarrow> unit payment" where
  "mutual_release_with_nft_verification env lid lessee lessor return_amount slash_amount =
     bind (load_payment_lease lid) (\<lambda>l.
     bind (throw_if (lessee \<noteq> tenant l) PUnauthorised) (\<lambda>_.
     bind (map_err (\<lambda>_. PInvalidState) (get_current_nft_holder lid)) (\<lambda>holder.
     bind (throw_if (lessor \<noteq> holder) PUnauthorised) (\<lambda>_.
     bind (require_auth env lessee) (\<lambda>_.
     bind (require_auth env lessor) (\<lambda>_.
     bind (throw_if (status l \<noteq> LActive \<and> status l \<noteq> LExpired) PLeaseNotFound) (\<lambda>_.
     bind (chk_i128 (security_deposit l + deposit_amount l)) (\<lambda>total_escrowed.
     bind (chk_i128 (return_amount + slash_amount)) (\<lambda>released.
     bind (throw_if (released \<noteq> total_escrowed) PInvalidReleaseMath) (\<lambda>_.
     bind (throw_if (return_amount < 0 \<or> slash_amount < 0) PInvalidReleaseMath) (\<lambda>_.
     bind (map_err Routing (execute_mutual_release_payments env lid lessee holder return_amount slash_amount)) (\<lambda>_.
     bind (map_err Nft (release_nft_lock lid)) (\<lambda>_.
     bind (save_cell_lease lid (l\<lparr>status := LTerminated, deposit_status := Settled,
       flags := clear_flag (flags l) ACTIVE\<rparr>)) (\<lambda>_.
     publish (MutualLeaseFinalized lid return_amount slash_amount return_amount slash_amount)))))))))))))))"

definition update_payment_routing_on_nft_transfer :: "env \<Rightarrow> int \<Rightarrow> address \<Rightarrow> address \<Rightarrow> unit payment" where
  "update_payment_routing_on_nft_transfer env lid previous_holder new_holder =
     bind (load_payment_lease lid) (\<lambda>l.
     bind (map_err Routing (calculate_yield_proration_on_transfer env lid)) (\<lambda>(_, proration, _, _).
     bind (map_err Routing (execute_yield_redistribution env lid previous_holder new_holder proration)) (\<lambda>_.
     bind (map_err Routing (update_routing_configuration env lid new_holder)) (\<lambda>_.
     publish (RoutingUpdated lid previous_holder new_holder (ledger_timestamp env))))))"

definition get_payment_routing_config :: "env \<Rightarrow> int \<Rightarrow> payment_routing_config payment" where
  "get_payment_routing_config env lid =
     bind (read_routing lid) (\<lambda>x. case x of
       Some r \<Rightarrow> return r
     | None \<Rightarrow>
         bind (map_err (\<lambda>_. PInvalidState) (get_current_nft_holder lid)) (\<lambda>holder.
         return \<lparr>pr_lease_id = lid, pr_current_holder = holder, pr_routing_enabled = True,
           pr_last_routing_update = ledger_timestamp env, pr_yield_accumulation_start = ledger_timestamp env\<rparr>))"

section \<open>The token and the router as a system\<close>

text \<open>The lease contract itself saves, deletes and authorises; its calls are part of the system. A call whose
  arguments exceed the widths of their types is not delivered.\<close>

datatype nft_call =
    MintRights int address
  | TransferNft int address address
  | VerifyOwnershipOf ownership_request
  | UpdateNftLock int lock_reason "int option"
  | ReleaseNftLock int
  | PayRentRouted address int address int
  | RefundDepositToHolder int int
  | MutualReleaseWithNft int address address int int
  | UpdateRouting int address address
  | SaveLease int lease_instance
  | DeleteLease int
  | AuthorizePayer int address

fun nft_typed :: "nft_call \<Rightarrow> bool" where
  "nft_typed (MintRights lid a) \<longleftrightarrow> is_u64 lid"
| "nft_typed _ \<longleftrightarrow> True"

fun nft_exec :: "(string \<Rightarrow> bytes32) \<Rightarrow> env \<Rightarrow> nft_call \<Rightarrow> unit payment" where
  "nft_exec sha env (MintRights lid a) = map_err Nft (bind (mint_lessor_rights_token sha env lid a) (\<lambda>_. return ()))"
| "nft_exec sha env (TransferNft t a b) = map_err Nft (transfer_nft env t a b)"
| "nft_exec sha env (VerifyOwnershipOf q) = map_err Nft (bind (verify_token_ownership env q) (\<lambda>_. return ()))"
| "nft_exec sha env (UpdateNftLock lid r x) = map_err Nft (update_nft_lock env lid r x)"
| "nft_exec sha env (ReleaseNftLock lid) = map_err Nft (release_nft_lock lid)"
| "nft_exec sha env (PayRentRouted fresh lid a n) = pay_lease_rent_with_nft_routing env fresh lid a n"
| "nft_exec sha env (RefundDepositToHolder lid n) = refund_deposit_to_nft_holder env lid n"
| "nft_exec sha env (MutualReleaseWithNft lid a b n k) = mutual_release_with_nft_verification env lid a b n k"
| "nft_exec sha env (UpdateRouting lid a b) = update_payment_routing_on_nft_transfer env lid a b"
| "nft_exec sha env (SaveLease lid l) = save_cell_lease lid l"
| "nft_exec sha env (DeleteLease lid) = modify (\<lambda>s. s\<lparr>ns_cells := (ns_cells s)(lid := None)\<rparr>)"
| "nft_exec sha env (AuthorizePayer lid a) =
     modify (\<lambda>s. s\<lparr>ns_authorized_payers := insert (lid, a) (ns_authorized_payers s)\<rparr>)"

definition nft_step :: "(string \<Rightarrow> bytes32) \<Rightarrow> env \<times> nft_call \<Rightarrow> nft_state \<Rightarrow> nft_state" where
  "nft_step sha m s = (if is_u64 (ledger_timestamp (fst m)) \<and> nft_typed (snd m)
     then snd (invoke (nft_exec sha (fst m) (snd m)) s) else s)"

end
