(* ===== verification/NFT_Props.thy ===== *)
theory NFT_Props
  imports Sample_Lease Payment_Router
begin

text \<open>The lessor tokens and the payment router as one system: ownership, custody, and what the router achieves.\<close>

section \<open>Effects of the operations\<close>

lemma load_cell_lease_Ok_iff [proc_ok]:
  "load_cell_lease lid s = (Ok x, s') \<longleftrightarrow> s' = s
     \<and> (case x of None \<Rightarrow> ns_cells s lid = None | Some l \<Rightarrow> ns_cells s lid = Some (Lease_cell l))"
  by (auto simp: load_cell_lease_def proc_ok split: option.splits lease_cell.splits)

lemma save_cell_lease_Ok_iff [proc_ok]:
  "save_cell_lease lid l s = (Ok u, s') \<longleftrightarrow> s' = s\<lparr>ns_cells := (ns_cells s)(lid \<mapsto> Lease_cell l)\<rparr>"
  by (auto simp: save_cell_lease_def)

lemma nft_get_Ok_iff [proc_ok]:
  "token_of_lease lid s = (Ok t, s') \<longleftrightarrow> ns_token_of s lid = Some t \<and> s' = s"
  "get_nft_metadata t s = (Ok m, s') \<longleftrightarrow> ns_metadata s t = Some m \<and> s' = s"
  "get_current_holder lid s = (Ok a, s') \<longleftrightarrow>
     (\<exists>t m. ns_token_of s lid = Some t \<and> ns_metadata s t = Some m \<and> a = nm_current_holder m) \<and> s' = s"
  "is_nft_locked lid s = (Ok b, s') \<longleftrightarrow> b = (ns_locks s lid \<noteq> None) \<and> s' = s"
  by (auto simp: token_of_lease_def get_nft_metadata_def get_current_holder_def is_nft_locked_def proc_ok)

text \<open>The part of the state that says who owns which token.\<close>

record token_part =
  tp_metadata :: "int \<rightharpoonup> nft_metadata"
  tp_token_of :: "int \<rightharpoonup> int"
  tp_holders :: "address \<rightharpoonup> int list"
  tp_transfers :: "int \<times> int \<rightharpoonup> nft_transfer_record"

definition tokens :: "nft_state \<Rightarrow> token_part" where
  "tokens s = \<lparr>tp_metadata = ns_metadata s, tp_token_of = ns_token_of s, tp_holders = ns_holder_nfts s,
     tp_transfers = ns_transfers s\<rparr>"

lemma tokens_simps [simp]:
  "tokens (s\<lparr>ns_cells := x1\<rparr>) = tokens s" "tokens (s\<lparr>ns_locks := x2\<rparr>) = tokens s"
  "tokens (s\<lparr>ns_verified := x3\<rparr>) = tokens s" "tokens (s\<lparr>ns_authorized_payers := x4\<rparr>) = tokens s"
  "tokens (s\<lparr>events := x5\<rparr>) = tokens s" "tokens (s\<lparr>calls := x6\<rparr>) = tokens s"
  by (simp_all add: tokens_def)

lemma mint_Ok:
  assumes "mint_lessor_rights_token sha env lid a s = (Ok t, s')"
  shows "ns_token_of s lid = None \<and> t = token_id_from lid env \<and> (\<exists>m.
    nm_lease_id m = lid \<and> nm_original_lessor m = a \<and> nm_current_holder m = a \<and> nm_transfer_count m = 0
    \<and> tokens s' = (tokens s)\<lparr>tp_metadata := (ns_metadata s)(t \<mapsto> m), tp_token_of := (ns_token_of s)(lid \<mapsto> t),
       tp_holders := list_push a t (ns_holder_nfts s)\<rparr>)"
  using assms unfolding mint_lessor_rights_token_def create_nft_metadata_def store_nft_data_def
    create_indestructibility_lock_def update_lease_for_nft_def generate_unique_token_id_def
  by (auto simp: proc_ok Let_def tokens_def)

lemma transfer_Ok:
  assumes "transfer_nft env t a b s = (Ok u, s')"
  obtains m r where "ns_metadata s t = Some m" "nm_current_holder m = a" "ns_locks s (nm_lease_id m) = None"
    "nr_token_id r = t" "nr_from_holder r = a" "nr_to_holder r = b"
    "tokens s' = (tokens s)\<lparr>
       tp_metadata := (ns_metadata s)(t \<mapsto> m\<lparr>nm_current_holder := b, nm_last_transfer := ledger_timestamp env,
         nm_transfer_count := nm_transfer_count m + 1, nm_pending_yield := 0,
         nm_billing_cycle_start := ledger_timestamp env\<rparr>),
       tp_holders := list_push b t (list_drop a t (ns_holder_nfts s)),
       tp_transfers := (ns_transfers s)((t, nm_transfer_count m) \<mapsto> r)\<rparr>"
  using assms unfolding transfer_nft_def calculate_yield_proration_def store_transfer_record_def
    execute_yield_redirection_def update_nft_metadata_on_transfer_def update_holder_mappings_def
  by (auto simp: proc_ok Let_def tokens_def)

text \<open>Every other call leaves the ownership alone.\<close>

lemma keeps_cell [keeps_intros]:
  "keeps P (load_cell_lease lid)" "keeps P (read_yield lid)" "keeps P (read_routing lid)" "keeps P (read_count lid)"
  "keeps P (token_of_lease lid)" "keeps P (get_nft_metadata t)" "keeps P (get_current_holder lid)"
  by (auto simp: load_cell_lease_def read_yield_def read_routing_def read_count_def token_of_lease_def
      get_nft_metadata_def get_current_holder_def intro!: keeps_intros split: option.splits lease_cell.splits)

lemma keeps_tokens [keeps_intros]:
  "keeps (\<lambda>s. tokens s = T) (publish ev)" "keeps (\<lambda>s. tokens s = T) (write_cell lid c)"
  "keeps (\<lambda>s. tokens s = T) (save_cell_lease lid l)" "keeps (\<lambda>s. tokens s = T) (release_nft_lock lid)"
  "keeps (\<lambda>s. tokens s = T) (cache_verification_result q r)"
  by (auto simp: keeps_def publish_def write_cell_def save_cell_lease_def release_nft_lock_def bind_run
      cache_verification_result_def)

lemma keeps_verify [keeps_intros]: "keeps (\<lambda>s. tokens s = T) (verify_token_ownership env q)"
  unfolding verify_token_ownership_def verify_purpose_validity_def Let_def
  by (intro keeps_intros) (auto intro!: keeps_intros split: verification_purpose.splits)

lemma keeps_routing [keeps_intros]:
  "keeps (\<lambda>s. tokens s = T) (pay_lease_rent_with_nft_routing env fresh lid a n)"
  "keeps (\<lambda>s. tokens s = T) (refund_deposit_to_nft_holder env lid n)"
  "keeps (\<lambda>s. tokens s = T) (mutual_release_with_nft_verification env lid a b n k)"
  "keeps (\<lambda>s. tokens s = T) (update_payment_routing_on_nft_transfer env lid a b)"
  unfolding pay_lease_rent_with_nft_routing_def refund_deposit_to_nft_holder_def
    mutual_release_with_nft_verification_def update_payment_routing_on_nft_transfer_def load_payment_lease_def
    get_current_nft_holder_def route_payment_to_nft_holder_def update_yield_accumulation_def
    update_tenant_heartbeat_def update_payment_tracking_def verify_ownership_for_deposit_refund_def
    execute_deposit_refund_def execute_mutual_release_payments_def calculate_yield_proration_on_transfer_def
    execute_yield_redistribution_def update_routing_configuration_def Let_def
  by (auto intro!: keeps_intros split: prod.splits)


section \<open>Ownership and custody\<close>

text \<open>Who held a token before its \<open>i\<close>-th transfer, by the transfer records.\<close>

definition holder_before :: "nft_metadata \<Rightarrow> (int \<times> int \<rightharpoonup> nft_transfer_record) \<Rightarrow> int \<Rightarrow> int \<Rightarrow> address option" where
  "holder_before m tr t i = (if i = 0 then Some (nm_original_lessor m) else map_option nr_to_holder (tr (t, i - 1)))"

definition custody :: "int \<Rightarrow> nft_metadata \<Rightarrow> (int \<times> int \<rightharpoonup> nft_transfer_record) \<Rightarrow> bool" where
  "custody t m tr \<longleftrightarrow> 0 \<le> nm_transfer_count m
     \<and> (\<forall>i. 0 \<le> i \<and> i < nm_transfer_count m \<longrightarrow> map_option nr_from_holder (tr (t, i)) = holder_before m tr t i)
     \<and> Some (nm_current_holder m) = holder_before m tr t (nm_transfer_count m)"

definition tokens_ok :: "token_part \<Rightarrow> bool" where
  "tokens_ok p \<longleftrightarrow>
     (\<forall>lid t. tp_token_of p lid = Some t \<longrightarrow> is_u64 lid \<and> lease_of_token t = lid
        \<and> (\<exists>m. tp_metadata p t = Some m \<and> nm_lease_id m = lid))
     \<and> (\<forall>t m. tp_metadata p t = Some m \<longrightarrow> tp_token_of p (nm_lease_id m) = Some t \<and> custody t m (tp_transfers p))
     \<and> exact_index (\<lambda>t. map_option nm_current_holder (tp_metadata p t)) (tp_holders p)"

lemma custody_other:
  "custody t m tr \<Longrightarrow> t' \<noteq> t \<Longrightarrow> custody t m (tr((t', i) \<mapsto> r))"
  by (simp add: custody_def holder_before_def)

lemma custody_transfer:
  assumes "custody t m tr" "nr_from_holder r = nm_current_holder m" "nr_to_holder r = b"
  shows "custody t (m\<lparr>nm_current_holder := b, nm_last_transfer := x, nm_transfer_count := nm_transfer_count m + 1,
     nm_pending_yield := y, nm_billing_cycle_start := z\<rparr>) (tr((t, nm_transfer_count m) \<mapsto> r))"
  using assms by (auto simp: custody_def holder_before_def)

lemma mint_tokens_ok:
  assumes ok: "tokens_ok p" and t: "is_u64 lid" "lease_of_token t = lid" and new: "tp_token_of p lid = None"
    and m: "nm_lease_id m = lid" "nm_original_lessor m = a" "nm_current_holder m = a" "nm_transfer_count m = 0"
  shows "tokens_ok (p\<lparr>tp_metadata := (tp_metadata p)(t \<mapsto> m), tp_token_of := (tp_token_of p)(lid \<mapsto> t),
     tp_holders := list_push a t (tp_holders p)\<rparr>)"
proof -
  have fresh: "tp_metadata p t = None"
  proof (rule ccontr)
    assume "tp_metadata p t \<noteq> None"
    then obtain m' where m': "tp_metadata p t = Some m'" by blast
    then have "tp_token_of p (nm_lease_id m') = Some t" using ok by (simp add: tokens_ok_def)
    moreover from this have "nm_lease_id m' = lid" using ok t by (auto simp: tokens_ok_def)
    ultimately show False using new by simp
  qed
  have "custody t m (tp_transfers p)" using m by (auto simp: custody_def holder_before_def)
  moreover have "exact_index ((\<lambda>t. map_option nm_current_holder (tp_metadata p t))(t \<mapsto> a)) (list_push a t (tp_holders p))"
    by (rule exact_index_push) (use ok fresh in \<open>simp_all add: tokens_ok_def\<close>)
  moreover have "(\<lambda>t. map_option nm_current_holder (tp_metadata p t))(t \<mapsto> a)
      = (\<lambda>t'. map_option nm_current_holder (((tp_metadata p)(t \<mapsto> m)) t'))"
    using m by auto
  moreover have "nm_lease_id m' \<noteq> lid" if "tp_metadata p t' = Some m'" for t' m'
    using that ok new by (auto simp: tokens_ok_def)
  ultimately show ?thesis using ok t m fresh by (auto simp: tokens_ok_def)
qed

lemma transfer_tokens_ok:
  assumes ok: "tokens_ok p" and m: "tp_metadata p t = Some m" "nm_current_holder m = a"
    and r: "nr_from_holder r = a" "nr_to_holder r = b"
    and m': "m' = m\<lparr>nm_current_holder := b, nm_last_transfer := x, nm_transfer_count := nm_transfer_count m + 1,
         nm_pending_yield := y, nm_billing_cycle_start := z\<rparr>"
  shows "tokens_ok (p\<lparr>tp_metadata := (tp_metadata p)(t \<mapsto> m'),
     tp_holders := list_push b t (list_drop a t (tp_holders p)),
     tp_transfers := (tp_transfers p)((t, nm_transfer_count m) \<mapsto> r)\<rparr>)"
proof -
  have "exact_index ((\<lambda>t. map_option nm_current_holder (tp_metadata p t))(t \<mapsto> b))
      (list_push b t (list_drop a t (tp_holders p)))"
    by (rule exact_index_move) (use ok m in \<open>simp_all add: tokens_ok_def\<close>)
  moreover have "(\<lambda>t. map_option nm_current_holder (tp_metadata p t))(t \<mapsto> b)
      = (\<lambda>t'. map_option nm_current_holder (((tp_metadata p)(t \<mapsto> m')) t'))"
    unfolding m' by auto
  moreover have "custody t m' ((tp_transfers p)((t, nm_transfer_count m) \<mapsto> r))"
    unfolding m' by (rule custody_transfer) (use ok m r in \<open>simp_all add: tokens_ok_def\<close>)
  moreover have "nm_lease_id m' = nm_lease_id m" by (simp add: m')
  moreover have "nm_lease_id m = lid" if "tp_token_of p lid = Some t" for lid
    using that ok m(1) by (fastforce simp: tokens_ok_def)
  ultimately show ?thesis using ok m(1) by (auto simp: tokens_ok_def custody_other)
qed

fun moves_tokens :: "nft_call \<Rightarrow> bool" where
  "moves_tokens (MintRights lid a) \<longleftrightarrow> True"
| "moves_tokens (TransferNft t a b) \<longleftrightarrow> True"
| "moves_tokens _ \<longleftrightarrow> False"

lemma keeps_tokens_modify: "(\<And>s. tokens (f s) = tokens s) \<Longrightarrow> keeps (\<lambda>s. tokens s = T) (modify f)"
  by (simp add: keeps_def)

lemma other_calls_keep_tokens: "\<not> moves_tokens c \<Longrightarrow> keeps (\<lambda>s. tokens s = T) (nft_exec sha env c)"
  by (cases c) (simp_all add: update_nft_lock_def keeps_map_err keeps_bind keeps_return keeps_verify keeps_cell
    keeps_tokens keeps_routing keeps_tokens_modify)

lemma nft_exec_tokens:
  assumes ok: "tokens_ok (tokens s)" and ty: "is_u64 (ledger_timestamp env)" "nft_typed c"
    and run: "nft_exec sha env c s = (Ok u, s')"
  shows "tokens_ok (tokens s')"
proof -
  show ?thesis
  proof (cases "moves_tokens c")
    case False
    show ?thesis using keepsD [OF other_calls_keep_tokens [OF False, where T = "tokens s" and sha = sha and env = env], of s] ok run by simp
  next
    case True
    then consider (MintRights) lid a where "c = MintRights lid a" | (TransferNft) t a b where "c = TransferNft t a b"
      by (cases c) auto
    then show ?thesis
    proof cases
      case MintRights
      then obtain t where "mint_lessor_rights_token sha env lid a s = (Ok t, s')" using run by (auto simp: proc_ok)
      note M = mint_Ok [OF this]
      then obtain m where m: "nm_lease_id m = lid" "nm_original_lessor m = a" "nm_current_holder m = a"
          "nm_transfer_count m = 0" and t: "t = token_id_from lid env" "ns_token_of s lid = None"
        and s': "tokens s' = (tokens s)\<lparr>tp_metadata := (ns_metadata s)(t \<mapsto> m), tp_token_of := (ns_token_of s)(lid \<mapsto> t),
         tp_holders := list_push a t (ns_holder_nfts s)\<rparr>" by blast
      have "tokens_ok ((tokens s)\<lparr>tp_metadata := (tp_metadata (tokens s))(t \<mapsto> m),
          tp_token_of := (tp_token_of (tokens s))(lid \<mapsto> t), tp_holders := list_push a t (tp_holders (tokens s))\<rparr>)"
        by (rule mint_tokens_ok [OF ok _ _ _ m])
          (use t MintRights ty in \<open>simp_all add: tokens_def\<close>)
      then show ?thesis using s' by (simp add: tokens_def)
    next
      case TransferNft
      then have "transfer_nft env t a b s = (Ok u, s')" using run by (simp add: proc_ok)
      then obtain m r where m: "ns_metadata s t = Some m" "nm_current_holder m = a" and r: "nr_from_holder r = a" "nr_to_holder r = b"
        and s': "tokens s' = (tokens s)\<lparr>
         tp_metadata := (ns_metadata s)(t \<mapsto> m\<lparr>nm_current_holder := b, nm_last_transfer := ledger_timestamp env,
           nm_transfer_count := nm_transfer_count m + 1, nm_pending_yield := 0,
           nm_billing_cycle_start := ledger_timestamp env\<rparr>),
         tp_holders := list_push b t (list_drop a t (ns_holder_nfts s)),
         tp_transfers := (ns_transfers s)((t, nm_transfer_count m) \<mapsto> r)\<rparr>"
        by (rule transfer_Ok)
      show ?thesis unfolding s' using transfer_tokens_ok [OF ok _ m(2) r refl, of t] m(1) by (simp add: tokens_def)
    qed
  qed
qed

lemma nft_step_tokens: "tokens_ok (tokens s) \<Longrightarrow> tokens_ok (tokens (nft_step sha m s))"
  by (cases "nft_exec sha (fst m) (snd m)" s rule: invoke_cases) (auto simp: nft_step_def intro: nft_exec_tokens)

interpretation nft: contract_system "\<lambda>s. tokens_ok (tokens s)" "nft_step sha" nft_init for sha
  by unfold_locales
    (simp_all add: nft_step_tokens, simp add: tokens_ok_def tokens_def nft_init_def exact_index_empty exact_index_def)

section \<open>What the router can do\<close>

lemma read_cells_Ok_iff [proc_ok]:
  "read_yield lid s = (Ok y, s') \<longleftrightarrow> s' = s
     \<and> (case y of None \<Rightarrow> ns_cells s lid = None | Some v \<Rightarrow> ns_cells s lid = Some (Yield_cell v))"
  "read_routing lid s = (Ok r, s') \<longleftrightarrow> s' = s
     \<and> (case r of None \<Rightarrow> ns_cells s lid = None | Some v \<Rightarrow> ns_cells s lid = Some (Routing_cell v))"
  by (auto simp: read_yield_def read_routing_def proc_ok split: option.splits lease_cell.splits)

lemma load_payment_lease_Ok_iff [proc_ok]:
  "load_payment_lease lid s = (Ok l, s') \<longleftrightarrow> ns_cells s lid = Some (Lease_cell l) \<and> s' = s"
  by (auto simp: load_payment_lease_def proc_ok)

lemma get_current_nft_holder_Ok_iff [proc_ok]:
  "get_current_nft_holder lid s = (Ok a, s') \<longleftrightarrow>
     (\<exists>t m. ns_token_of s lid = Some t \<and> ns_metadata s t = Some m \<and> a = nm_current_holder m) \<and> s' = s"
  by (auto simp: get_current_nft_holder_def proc_ok)

lemma release_nft_lock_Ok_iff [proc_ok]:
  "release_nft_lock lid s = (Ok u, s') \<longleftrightarrow> s' = s\<lparr>ns_locks := (ns_locks s)(lid := None)\<rparr>"
  by (auto simp: release_nft_lock_def proc_ok fun_upd_idem)

section \<open>Properties\<close>

text \<open>Claim C7. Ownership of the lessor tokens is exact. In every reachable state, whoever called what, each token
  belongs to the lease in its metadata and is the only token of that lease; it is listed once, under its current
  holder and nowhere else, and nothing but such tokens is listed; and its transfer records form a chain of custody from
  the original lessor to the current holder, each transfer starting where the one before ended.\<close>
theorem token_ownership_exact:
  assumes "s = fold (nft_step sha) ms nft_init" "ns_metadata s t = Some m"
  shows "ns_token_of s (nm_lease_id m) = Some t \<and> is_u64 (nm_lease_id m)
    \<and> (\<forall>a. distinct (listed (ns_holder_nfts s) a) \<and> (t \<in> set (listed (ns_holder_nfts s) a) \<longleftrightarrow> a = nm_current_holder m))
    \<and> (\<forall>a u. u \<in> set (listed (ns_holder_nfts s) a) \<longrightarrow> ns_metadata s u \<noteq> None)
    \<and> custody t m (ns_transfers s)"
proof -
  have ok: "tokens_ok (tokens s)" unfolding assms(1) by (rule nft.reach_inv)
  then have index: "exact_index (\<lambda>t. map_option nm_current_holder (ns_metadata s t)) (ns_holder_nfts s)"
    by (simp add: tokens_ok_def tokens_def)
  then have "ns_metadata s u \<noteq> None" if "u \<in> set (listed (ns_holder_nfts s) a)" for a u
    using exact_index_listed [OF index] that by auto
  moreover from exact_index_listed [OF index] have "distinct (listed (ns_holder_nfts s) a)
      \<and> (t \<in> set (listed (ns_holder_nfts s) a) \<longleftrightarrow> a = nm_current_holder m)" for a
    using assms(2) by auto
  ultimately show ?thesis using ok assms(2) by (auto simp: tokens_ok_def tokens_def)
qed

text \<open>A token can be taken from its holder. Neither the release of a lock nor a transfer asks for an
  authorisation: in any state, whatever lock a token has, two calls that nobody authorised move it to any address
  (as long as the rent accrued and the transfer count stay within their types).\<close>
theorem token_taken_without_consent:
  assumes "ns_metadata s t = Some m" "auths env = []" "is_u64 (ledger_timestamp env)"
    "is_i128 (sat_u64 (ledger_timestamp env - nm_billing_cycle_start m) * nm_monthly_rent m)"
    "is_u32 (nm_transfer_count m + 1)"
  shows "map_option nm_current_holder (ns_metadata (fold (nft_step sha) [(env, ReleaseNftLock (nm_lease_id m)),
    (env, TransferNft t (nm_current_holder m) b)] s) t) = Some b"
proof -
  define s1 where "s1 = s\<lparr>ns_locks := (ns_locks s)(nm_lease_id m := None)\<rparr>"
  have "nft_exec sha env (ReleaseNftLock (nm_lease_id m)) s = (Ok (), s1)"
    by (simp add: s1_def proc_ok)
  then have "nft_step sha (env, ReleaseNftLock (nm_lease_id m)) s = s1"
    using assms(3) by (simp add: nft_step_def invoke_def)
  moreover have "ns_metadata s1 t = Some m" "ns_locks s1 (nm_lease_id m) = None"
    using assms(1) by (simp_all add: s1_def)
  then have "map_option nm_current_holder (ns_metadata (nft_step sha (env, TransferNft t (nm_current_holder m) b) s1) t) = Some b"
    using assms(3-5)
    by (simp add: nft_step_def invoke_def map_err_def transfer_nft_def get_nft_metadata_def is_nft_locked_def
        calculate_yield_proration_def store_transfer_record_def execute_yield_redirection_def
        update_nft_metadata_on_transfer_def update_holder_mappings_def proc_run Let_def)
  ultimately show ?thesis by simp
qed

text \<open>Routed rent can never be paid. The router files its accumulations, its configuration and its
  counter under the storage key of the lease, so the lease it just loaded is what it then reads as an
  accumulation: in every state, paying the rent of a lease and updating its routing fail, and the configuration of
  a lease that exists cannot be read.\<close>
theorem routed_rent_never_paid:
  "fst (pay_lease_rent_with_nft_routing env fresh lid a n s) \<noteq> Ok ()
   \<and> fst (update_payment_routing_on_nft_transfer env lid a b s) \<noteq> Ok ()
   \<and> (\<forall>l. ns_cells s lid = Some (Lease_cell l) \<longrightarrow> fst (get_payment_routing_config env lid s) = Trap)"
proof -
  have "pay_lease_rent_with_nft_routing env fresh lid a n s \<noteq> (Ok (), t)"
    "update_payment_routing_on_nft_transfer env lid a b s \<noteq> (Ok (), t)" for t
    by (auto simp: pay_lease_rent_with_nft_routing_def route_payment_to_nft_holder_def update_yield_accumulation_def
        update_payment_routing_on_nft_transfer_def calculate_yield_proration_on_transfer_def proc_ok Let_def
        split: option.splits)
  then show ?thesis
    by (auto simp: get_payment_routing_config_def read_routing_def proc_run prod_eq_iff split: option.splits)
qed

text \<open>The mutual release of the router. It succeeds exactly when the tenant and the current holder of the
  lease's token, who need not be the lessor, authorise an exact division of the deposits of a lease that is active
  or expired; then the lease is terminated and settled and its token unlocked. The shares are
  announced in events, but no token moves.\<close>
theorem nft_release_settles_without_paying:
  assumes "ns_cells s lid = Some (Lease_cell l)" "is_i128 (security_deposit l + deposit_amount l)" "is_i128 (r + k)"
    "ns_token_of s lid = Some t" "ns_metadata s t = Some m"
  shows "if a = tenant l \<and> b = nm_current_holder m \<and> a \<in> set (auths env) \<and> b \<in> set (auths env)
      \<and> (status l = LActive \<or> status l = LExpired) \<and> r + k = security_deposit l + deposit_amount l \<and> 0 \<le> r \<and> 0 \<le> k
    then \<exists>s'. mutual_release_with_nft_verification env lid a b r k s = (Ok (), s')
      \<and> ns_cells s' = (ns_cells s)(lid \<mapsto> Lease_cell (l\<lparr>status := LTerminated, deposit_status := Settled,
           flags := clear_flag (flags l) ACTIVE\<rparr>))
      \<and> ns_locks s' lid = None \<and> calls s' = calls s
    else fst (mutual_release_with_nft_verification env lid a b r k s) \<noteq> Ok ()"
proof (cases "a = tenant l \<and> b = nm_current_holder m \<and> a \<in> set (auths env) \<and> b \<in> set (auths env)
    \<and> (status l = LActive \<or> status l = LExpired) \<and> r + k = security_deposit l + deposit_amount l \<and> 0 \<le> r \<and> 0 \<le> k")
  case True
  define res where "res = mutual_release_with_nft_verification env lid a b r k s"
  have auth: "tenant l \<in> set (auths env)" "nm_current_holder m \<in> set (auths env)" using True by auto
  have "fst res = Ok ()"
    using True auth assms
    by (simp add: res_def mutual_release_with_nft_verification_def execute_mutual_release_payments_def
        load_payment_lease_def load_cell_lease_def get_current_nft_holder_def get_current_holder_def token_of_lease_def
        get_nft_metadata_def release_nft_lock_def save_cell_lease_def map_err_def proc_run)
  then obtain s' where s': "mutual_release_with_nft_verification env lid a b r k s = (Ok (), s')"
    by (metis prod.collapse res_def)
  then have "ns_cells s' = (ns_cells s)(lid \<mapsto> Lease_cell (l\<lparr>status := LTerminated, deposit_status := Settled,
           flags := clear_flag (flags l) ACTIVE\<rparr>)) \<and> ns_locks s' lid = None \<and> calls s' = calls s"
    using assms by (auto simp: mutual_release_with_nft_verification_def execute_mutual_release_payments_def proc_ok
        split: if_splits)
  then show ?thesis using True s' by auto
next
  case False
  then have "mutual_release_with_nft_verification env lid a b r k s \<noteq> (Ok (), s')" for s'
    using assms by (auto simp: mutual_release_with_nft_verification_def proc_ok)
  then show ?thesis using False by (metis prod.collapse)
qed

section \<open>An example\<close>

definition nx_env :: "int \<Rightarrow> address list \<Rightarrow> env" where
  "nx_env now a = \<lparr>ledger_timestamp = now, ledger_sequence = 1, auths = a, current_contract = 99,
     ext = (\<lambda>cs c. Reply_unit)\<rparr>"

definition nx_minted :: nft_state where
  "nx_minted = fold (nft_step (\<lambda>u. 7)) [(nx_env 1000 [], SaveLease 3 (sample_lease 9000000)), (nx_env 1000 [1], MintRights 3 1)] nft_init"

definition nx_token :: int where
  "nx_token = token_id_from 3 (nx_env 1000 [1])"

definition nx_metadata :: nft_metadata where
  "nx_metadata = \<lparr>nm_lease_id = 3, nm_original_lessor = 1, nm_current_holder = 1, nm_lease_start = 1000,
     nm_lease_end = 9000000, nm_monthly_rent = 3000, nm_security_deposit = 700, nm_property_hash = 7, nm_minted_at = 1000,
     nm_last_transfer = 1000, nm_transfer_count = 0, nm_pending_yield = 0, nm_billing_cycle_start = 1000\<rparr>"

definition nx_run :: "(env \<times> nft_call) list" where
  "nx_run = [(nx_env 1000 [], SaveLease 3 (sample_lease 9000000)), (nx_env 1000 [1], MintRights 3 1),
     (nx_env 1000 [1], ReleaseNftLock 3), (nx_env 2000 [1], TransferNft nx_token 1 5)]"

lemma nx_minted_facts:
  "ns_metadata nx_minted nx_token = Some nx_metadata" "ns_token_of nx_minted 3 = Some nx_token"
  "ns_cells nx_minted 3 = Some (Lease_cell ((sample_lease 9000000)\<lparr>nft_contract := Some 99, token_id := Some nx_token\<rparr>))"
  by code_simp+

theorem token_ownership_exact_witness:
  "nx_token \<in> set (listed (ns_holder_nfts (fold (nft_step (\<lambda>u. 7)) nx_run nft_init)) 5)
   \<and> nx_token \<notin> set (listed (ns_holder_nfts (fold (nft_step (\<lambda>u. 7)) nx_run nft_init)) 1)"
proof -
  have "map_option nm_current_holder (ns_metadata (fold (nft_step (\<lambda>u. 7)) nx_run nft_init) nx_token) = Some 5"
    by code_simp
  then obtain m where m: "ns_metadata (fold (nft_step (\<lambda>u. 7)) nx_run nft_init) nx_token = Some m"
      "nm_current_holder m = 5" by blast
  from token_ownership_exact [OF refl m(1)] m(2) show ?thesis by auto
qed

theorem token_taken_without_consent_witness:
  "map_option nm_current_holder (ns_metadata (fold (nft_step (\<lambda>u. 7)) [(nx_env 2000000 [], ReleaseNftLock 3),
     (nx_env 2000000 [], TransferNft nx_token 1 66)] nx_minted) nx_token) = Some 66"
  using token_taken_without_consent [OF nx_minted_facts(1), of "nx_env 2000000 []" "\<lambda>u. 7" 66]
  by (simp add: nx_metadata_def nx_env_def range_defs int_bounds sat_defs)

theorem nft_release_settles_without_paying_witness:
  "\<exists>s'. mutual_release_with_nft_verification (nx_env 2000000 [1, 2]) 3 2 1 500 200 nx_minted = (Ok (), s')
     \<and> calls s' = calls nx_minted"
  using nft_release_settles_without_paying [OF nx_minted_facts(3) _ _ nx_minted_facts(2,1), of 500 200 2 1 "nx_env 2000000 [1, 2]"]
  by (auto simp: sample_lease_def nx_metadata_def nx_env_def range_defs int_bounds)

theorem routed_rent_never_paid_witness:
  "fst (get_payment_routing_config (nx_env 2000 []) 3 nx_minted) = Trap"
  using routed_rent_never_paid [of "nx_env 2000 []" 0 3 0 0 nx_minted 0] nx_minted_facts(3) by blast

end
