(* ===== verification/Access_Token.thy ===== *)
theory Access_Token
  imports Token_Index
begin

text \<open>
  \<^verbatim>\<open>contracts/leaseflow_contracts/src/lessee_access_token.rs\<close>: the token that proves a lessee's access to an asset,
  minted for an active lease with a held deposit, verified by external systems, transferred, renewed and revoked.
  The state has a component per data key, those of the derived tokens included. The key of the revocation index,
  \<^verbatim>\<open>TenantFlag(id)\<close>, is also the key of the lease contract's tenant flag, a boolean. The time to live given to the
  host is a difference of two \<^verbatim>\<open>u64\<close>; its subtraction is modelled, the extension itself is not.
\<close>

section \<open>State\<close>

datatype asset_type = Physical | Digital | IoT | Hybrid

datatype access_level = Full | Limited | TimeBased | Conditional

datatype revocation_reason =
    ReasonTerminated
  | ReasonExpired
  | ReasonEvicted
  | ReasonDefaulted
  | ReasonDisputed
  | SecurityBreach
  | AssetDamage
  | RegulatoryCompliance
  | CourtOrder
  | OtherReason string

record access_token =
  ac_lease_id :: int
  ac_lessee :: address
  ac_asset_identifier :: string
  ac_expiration_timestamp :: int
  ac_minted_at :: int
  ac_last_verified :: int
  ac_verification_count :: int
  ac_transferable :: bool
  ac_transfer_count :: int
  ac_revoked :: bool
  ac_revoked_at :: "int option"
  ac_revocation_reason :: "revocation_reason option"
  ac_asset_type :: asset_type
  ac_access_level :: access_level

datatype access_purpose = Unlock | Access | Authenticate | Validate | Audit

record access_request =
  aq_token_id :: int
  aq_requesting_system :: address
  aq_verification_purpose :: access_purpose
  aq_system_identifier :: string
  aq_timestamp :: int

record access_response =
  ap_token_id :: int
  ap_is_valid :: bool
  ap_lessee :: address
  ap_asset_identifier :: string
  ap_expiration_timestamp :: int
  ap_access_level :: access_level
  ap_verification_timestamp :: int
  ap_remaining_time :: int
  ap_transferable :: bool

record token_transfer_request =
  at_token_id :: int
  at_from_lessee :: address
  at_to_lessee :: address
  at_transfer_reason :: string
  at_timestamp :: int

datatype access_error =
    ALeaseNotFound
  | TokenNotFound
  | TokenAlreadyExists
  | AInvalidLeaseState
  | AUnauthorizedTransfer
  | TokenRevoked
  | TokenExpired
  | TransferNotAllowed
  | VerificationFailed
  | RevocationFailed
  | RenewalFailed
  | InvalidAssetType
  | InvalidAccessLevel
  | ACrossContractCallFailed

text \<open>The derived tokens of \<^verbatim>\<open>derived_access_token.rs\<close>.\<close>

datatype spatial_zone = EntireProperty | SpecificRoom string | Zone string | CustomArea string

record derived_token =
  dt_token_id :: int
  dt_parent_token_id :: int
  dt_root_lease_id :: int
  dt_sublessee :: address
  dt_spatial_zone :: spatial_zone
  dt_expiration_timestamp :: int
  dt_minted_at :: int
  dt_hierarchy_depth :: int
  dt_access_level :: access_level
  dt_transferable :: bool
  dt_transfer_count :: int
  dt_revoked :: bool
  dt_revoked_at :: "int option"
  dt_revocation_reason :: "revocation_reason option"
  dt_child_tokens :: "int list"

record hierarchy_metrics =
  hm_total_tokens :: int
  hm_max_depth :: int
  hm_avg_depth :: int
  hm_last_updated :: int

datatype access_event =
    LesseeAccessGranted int int address string int int
  | LesseeAccessRevoked int int address revocation_reason int
  | AccessTokenTransferred int address address string int
  | AccessTokenVerified int address access_purpose bool int
  | AccessTokenRenewed int int int
  | DerivedTokenMinted int int int address spatial_zone int int int
  | DerivedHierarchyBurned int int revocation_reason int int int
  | DerivedTokenTransferred int address address int int
  | SpatialZoneUpdated int spatial_zone spatial_zone int

datatype flag_cell = Flag_cell bool | Index_cell int

record access_state = "access_event host" +
  as_leases :: "int \<rightharpoonup> lease_instance"
  as_tokens :: "int \<rightharpoonup> access_token"
  as_token_of :: "int \<rightharpoonup> int"
  as_lessee_tokens :: "address \<rightharpoonup> int list"
  as_asset_tokens :: "string \<rightharpoonup> int list"
  as_verified :: "int \<times> address \<times> int \<rightharpoonup> bool"
  as_history :: "int \<times> int \<rightharpoonup> int \<times> revocation_reason \<times> int"
  as_flags :: "int \<rightharpoonup> flag_cell"
  ds_tokens :: "int \<rightharpoonup> derived_token"
  ds_children :: "int \<rightharpoonup> int list"
  ds_lease_tokens :: "int \<rightharpoonup> int list"
  ds_sublessee_tokens :: "address \<rightharpoonup> int list"
  ds_zone_tokens :: "string \<times> int \<rightharpoonup> int list"
  ds_metrics :: "int \<rightharpoonup> hierarchy_metrics"

type_synonym 'a access = "(access_state, access_error, 'a) proc"

definition access_init :: access_state where
  "access_init = \<lparr>events = [], calls = [], as_leases = Map.empty, as_tokens = Map.empty, as_token_of = Map.empty,
     as_lessee_tokens = Map.empty, as_asset_tokens = Map.empty, as_verified = Map.empty, as_history = Map.empty,
     as_flags = Map.empty, ds_tokens = Map.empty, ds_children = Map.empty, ds_lease_tokens = Map.empty,
     ds_sublessee_tokens = Map.empty, ds_zone_tokens = Map.empty, ds_metrics = Map.empty\<rparr>"

section \<open>Storage access and helpers\<close>

definition get_access_token :: "int \<Rightarrow> access_token access" where
  "get_access_token t = bind (gets (\<lambda>s. as_tokens s t)) (\<lambda>k. ok_or k TokenNotFound)"

definition access_token_of_lease :: "int \<Rightarrow> int access" where
  "access_token_of_lease lid = bind (gets (\<lambda>s. as_token_of s lid)) (\<lambda>t. ok_or t TokenNotFound)"

definition get_access_token_by_lease :: "int \<Rightarrow> access_token access" where
  "get_access_token_by_lease lid = bind (access_token_of_lease lid) get_access_token"

definition get_lessee_tokens :: "address \<Rightarrow> int list access" where
  "get_lessee_tokens a = gets (\<lambda>s. listed (as_lessee_tokens s) a)"

definition get_asset_tokens :: "string \<Rightarrow> int list access" where
  "get_asset_tokens x = gets (\<lambda>s. listed (as_asset_tokens s) x)"

definition generate_access_token_id :: "env \<Rightarrow> int \<Rightarrow> int" where
  "generate_access_token_id env lid = token_id_from lid env"

definition store_access_token :: "env \<Rightarrow> int \<Rightarrow> access_token \<Rightarrow> unit access" where
  "store_access_token env t k =
     bind (modify (\<lambda>s. s\<lparr>as_tokens := (as_tokens s)(t \<mapsto> k), as_token_of := (as_token_of s)(ac_lease_id k \<mapsto> t),
       as_lessee_tokens := list_push (ac_lessee k) t (as_lessee_tokens s),
       as_asset_tokens := list_push (ac_asset_identifier k) t (as_asset_tokens s)\<rparr>)) (\<lambda>_.
     bind (chk_u64 (ac_expiration_timestamp k - ledger_timestamp env)) (\<lambda>ttl. return ()))"

definition update_lease_for_access_token :: "env \<Rightarrow> int \<Rightarrow> int \<Rightarrow> unit access" where
  "update_lease_for_access_token env lid t =
     bind (gets (\<lambda>s. as_leases s lid)) (\<lambda>x. bind (ok_or x ALeaseNotFound) (\<lambda>l.
     modify (\<lambda>s. s\<lparr>as_leases := (as_leases s)(lid \<mapsto>
       l\<lparr>nft_contract := Some (current_contract env), token_id := Some t\<rparr>)\<rparr>)))"

definition is_token_valid :: "access_token \<Rightarrow> int \<Rightarrow> bool" where
  "is_token_valid k current_time \<longleftrightarrow> \<not> ac_revoked k \<and> current_time \<le> ac_expiration_timestamp k"

definition update_verification_stats :: "env \<Rightarrow> int \<Rightarrow> unit access" where
  "update_verification_stats env t =
     bind (get_access_token t) (\<lambda>k.
     bind (chk_u32 (ac_verification_count k + 1)) (\<lambda>n.
     modify (\<lambda>s. s\<lparr>as_tokens := (as_tokens s)(t \<mapsto>
       k\<lparr>ac_last_verified := ledger_timestamp env, ac_verification_count := n\<rparr>)\<rparr>)))"

definition cache_access_verification :: "access_request \<Rightarrow> bool \<Rightarrow> unit access" where
  "cache_access_verification q b =
     modify (\<lambda>s. s\<lparr>as_verified := (as_verified s)((aq_token_id q, aq_requesting_system q, aq_timestamp q) \<mapsto> b)\<rparr>)"

definition update_lessee_mappings :: "int \<Rightarrow> address \<Rightarrow> address \<Rightarrow> unit access" where
  "update_lessee_mappings t from_lessee to_lessee =
     modify (\<lambda>s. s\<lparr>as_lessee_tokens := list_push to_lessee t (list_drop from_lessee t (as_lessee_tokens s))\<rparr>)"

definition read_revocation_index :: "int \<Rightarrow> int access" where
  "read_revocation_index lid = bind (gets (\<lambda>s. as_flags s lid)) (\<lambda>c. case c of
     None \<Rightarrow> return 0 | Some (Index_cell n) \<Rightarrow> return n | Some (Flag_cell b) \<Rightarrow> trap)"

definition store_revocation_history :: "env \<Rightarrow> int \<Rightarrow> int \<Rightarrow> revocation_reason \<Rightarrow> unit access" where
  "store_revocation_history env lid t r =
     bind (read_revocation_index lid) (\<lambda>i.
     bind (modify (\<lambda>s. s\<lparr>as_history := (as_history s)((lid, i) \<mapsto> (t, r, ledger_timestamp env))\<rparr>)) (\<lambda>_.
     bind (chk_u64 (i + 1)) (\<lambda>n.
     modify (\<lambda>s. s\<lparr>as_flags := (as_flags s)(lid \<mapsto> Index_cell n)\<rparr>))))"

section \<open>Operations\<close>

definition mint_lessee_access_token :: "env \<Rightarrow> int \<Rightarrow> string \<Rightarrow> asset_type \<Rightarrow> access_level \<Rightarrow> bool \<Rightarrow> int access" where
  "mint_lessee_access_token env lid asset_identifier typ level transferable =
     bind (gets (\<lambda>s. as_leases s lid)) (\<lambda>x. bind (ok_or x ALeaseNotFound) (\<lambda>l.
     bind (throw_if (status l \<noteq> LActive) AInvalidLeaseState) (\<lambda>_.
     bind (throw_if (deposit_status l \<noteq> Held) AInvalidLeaseState) (\<lambda>_.
     bind (gets (\<lambda>s. as_token_of s lid)) (\<lambda>known.
     bind (throw_if (known \<noteq> None) TokenAlreadyExists) (\<lambda>_.
     let t = generate_access_token_id env lid in
     bind (store_access_token env t \<lparr>ac_lease_id = lid, ac_lessee = tenant l, ac_asset_identifier = asset_identifier,
       ac_expiration_timestamp = end_date l, ac_minted_at = ledger_timestamp env,
       ac_last_verified = ledger_timestamp env, ac_verification_count = 0, ac_transferable = transferable,
       ac_transfer_count = 0, ac_revoked = False, ac_revoked_at = None, ac_revocation_reason = None,
       ac_asset_type = typ, ac_access_level = level\<rparr>) (\<lambda>_.
     bind (update_lease_for_access_token env lid t) (\<lambda>_.
     bind (publish (LesseeAccessGranted lid t (tenant l) asset_identifier (end_date l) (ledger_timestamp env))) (\<lambda>_.
     return t)))))))))"

definition verify_access_token :: "env \<Rightarrow> access_request \<Rightarrow> access_response access" where
  "verify_access_token env q =
     bind (get_access_token (aq_token_id q)) (\<lambda>k.
     let now = ledger_timestamp env; is_valid = is_token_valid k now in
     bind (if now < ac_expiration_timestamp k then chk_u64 (ac_expiration_timestamp k - now) else return 0) (\<lambda>remaining.
     bind (update_verification_stats env (aq_token_id q)) (\<lambda>_.
     bind (cache_access_verification q is_valid) (\<lambda>_.
     bind (publish (AccessTokenVerified (aq_token_id q) (aq_requesting_system q) (aq_verification_purpose q)
       is_valid now)) (\<lambda>_.
     return \<lparr>ap_token_id = aq_token_id q, ap_is_valid = is_valid, ap_lessee = ac_lessee k,
       ap_asset_identifier = ac_asset_identifier k, ap_expiration_timestamp = ac_expiration_timestamp k,
       ap_access_level = ac_access_level k, ap_verification_timestamp = now, ap_remaining_time = remaining,
       ap_transferable = ac_transferable k\<rparr>)))))"

definition transfer_access_token :: "env \<Rightarrow> token_transfer_request \<Rightarrow> unit access" where
  "transfer_access_token env q =
     bind (get_access_token (at_token_id q)) (\<lambda>k.
     bind (throw_if (\<not> ac_transferable k) TransferNotAllowed) (\<lambda>_.
     bind (throw_if (ac_revoked k) TokenRevoked) (\<lambda>_.
     bind (throw_if (ledger_timestamp env > ac_expiration_timestamp k) TokenExpired) (\<lambda>_.
     bind (throw_if (ac_lessee k \<noteq> at_from_lessee q) AUnauthorizedTransfer) (\<lambda>_.
     bind (chk_u32 (ac_transfer_count k + 1)) (\<lambda>n.
     bind (store_access_token env (at_token_id q) (k\<lparr>ac_lessee := at_to_lessee q, ac_transfer_count := n\<rparr>)) (\<lambda>_.
     bind (update_lessee_mappings (at_token_id q) (at_from_lessee q) (at_to_lessee q)) (\<lambda>_.
     publish (AccessTokenTransferred (at_token_id q) (at_from_lessee q) (at_to_lessee q) (at_transfer_reason q)
       (at_timestamp q))))))))))"

definition revoke_access_token :: "env \<Rightarrow> int \<Rightarrow> revocation_reason \<Rightarrow> unit access" where
  "revoke_access_token env lid r =
     bind (access_token_of_lease lid) (\<lambda>t.
     bind (get_access_token t) (\<lambda>k.
     bind (store_access_token env t (k\<lparr>ac_revoked := True, ac_revoked_at := Some (ledger_timestamp env),
       ac_revocation_reason := Some r\<rparr>)) (\<lambda>_.
     bind (store_revocation_history env lid t r) (\<lambda>_.
     publish (LesseeAccessRevoked lid t (ac_lessee k) r (ledger_timestamp env))))))"

definition renew_access_token :: "env \<Rightarrow> int \<Rightarrow> int \<Rightarrow> unit access" where
  "renew_access_token env lid new_expiration =
     bind (access_token_of_lease lid) (\<lambda>t.
     bind (get_access_token t) (\<lambda>k.
     bind (throw_if (ac_revoked k) TokenRevoked) (\<lambda>_.
     bind (store_access_token env t (k\<lparr>ac_expiration_timestamp := new_expiration\<rparr>)) (\<lambda>_.
     publish (AccessTokenRenewed t new_expiration (ledger_timestamp env))))))"

definition handle_lease_state_change :: "env \<Rightarrow> int \<Rightarrow> lease_status \<Rightarrow> lease_status \<Rightarrow> unit access" where
  "handle_lease_state_change env lid old_status new_status =
     (case (case new_status of LTerminated \<Rightarrow> Some ReasonTerminated | LExpired \<Rightarrow> Some ReasonExpired
        | LDisputed \<Rightarrow> Some ReasonDisputed | _ \<Rightarrow> None) of
       Some r \<Rightarrow> revoke_access_token env lid r
     | None \<Rightarrow> return ())"

end
