(* ===== verification/Derived_Token.thy ===== *)
theory Derived_Token
  imports Access_Token
begin

text \<open>
  \<^verbatim>\<open>contracts/leaseflow_contracts/src/derived_access_token.rs\<close>: tokens derived from access tokens for sub-lessees, in a
  hierarchy that is burned as a whole. It lives in the storage of the access tokens. The recursive burn has the
  call depth the host allows as its fuel and traps when that is used up, as the host does.
\<close>

datatype derived_error =
    ParentTokenNotFound
  | ParentTokenExpired
  | ParentTokenRevoked
  | InvalidTemporalDependency
  | HierarchyDepthExceeded
  | SpatialConflict
  | UnauthorizedSublease
  | RecursiveBurnFailed
  | DTokenAlreadyExists
  | InvalidSpatialZone
  | DCrossContractCallFailed

record derived_request =
  dq_parent_token_id :: int
  dq_sublessee :: address
  dq_spatial_zone :: spatial_zone
  dq_access_level :: access_level
  dq_transferable :: bool
  dq_expiration_timestamp :: "int option"

type_synonym 'a derived = "(access_state, derived_error, 'a) proc"

definition MAX_HIERARCHY_DEPTH :: int where "MAX_HIERARCHY_DEPTH = 10"

section \<open>Storage access and helpers\<close>

definition get_derived_token :: "int \<Rightarrow> derived_token derived" where
  "get_derived_token t = bind (gets (\<lambda>s. ds_tokens s t)) (\<lambda>k. ok_or k ParentTokenNotFound)"

definition get_lease_derived_tokens :: "int \<Rightarrow> int list derived" where
  "get_lease_derived_tokens lid = gets (\<lambda>s. listed (ds_lease_tokens s) lid)"

definition get_sublessee_derived_tokens :: "address \<Rightarrow> int list derived" where
  "get_sublessee_derived_tokens a = gets (\<lambda>s. listed (ds_sublessee_tokens s) a)"

definition get_hierarchy_metrics :: "int \<Rightarrow> hierarchy_metrics derived" where
  "get_hierarchy_metrics lid = bind (gets (\<lambda>s. ds_metrics s lid)) (\<lambda>x. ok_or x ParentTokenNotFound)"

definition is_derived_token_valid :: "env \<Rightarrow> int \<Rightarrow> bool derived" where
  "is_derived_token_valid env t =
     bind (get_derived_token t) (\<lambda>k. return (\<not> dt_revoked k \<and> ledger_timestamp env \<le> dt_expiration_timestamp k))"

definition get_parent_token :: "int \<Rightarrow> access_token derived" where
  "get_parent_token t = map_err (\<lambda>_. ParentTokenNotFound) (get_access_token t)"

definition get_token_hierarchy_depth :: "int \<Rightarrow> int derived" where
  "get_token_hierarchy_depth t = bind (get_derived_token t) (\<lambda>k. return (dt_hierarchy_depth k))"

definition get_root_lease_id :: "int \<Rightarrow> int derived" where
  "get_root_lease_id t = bind (get_parent_token t) (\<lambda>k. return (ac_lease_id k))"

definition generate_unique_derived_token_id :: "env \<Rightarrow> int \<Rightarrow> int" where
  "generate_unique_derived_token_id env parent = token_id_from parent env"

definition validate_spatial_zone :: "spatial_zone \<Rightarrow> unit derived" where
  "validate_spatial_zone z = (case z of
     SpecificRoom x \<Rightarrow> throw_if (x = []) InvalidSpatialZone
   | Zone x \<Rightarrow> throw_if (x = []) InvalidSpatialZone
   | CustomArea x \<Rightarrow> throw_if (x = []) InvalidSpatialZone
   | EntireProperty \<Rightarrow> return ())"

definition get_zone_key :: "spatial_zone \<Rightarrow> int \<Rightarrow> string \<times> int" where
  "get_zone_key z lid = (case z of EntireProperty \<Rightarrow> (''entire_property'', lid) | SpecificRoom x \<Rightarrow> (x, lid)
     | Zone x \<Rightarrow> (x, lid) | CustomArea x \<Rightarrow> (x, lid))"

definition store_derived_token :: "env \<Rightarrow> int \<Rightarrow> derived_token \<Rightarrow> unit derived" where
  "store_derived_token env t k =
     bind (modify (\<lambda>s. s\<lparr>ds_tokens := (ds_tokens s)(t \<mapsto> k),
       ds_lease_tokens := list_push (dt_root_lease_id k) t (ds_lease_tokens s),
       ds_sublessee_tokens := list_push (dt_sublessee k) t (ds_sublessee_tokens s),
       ds_zone_tokens := list_push (get_zone_key (dt_spatial_zone k) (dt_root_lease_id k)) t (ds_zone_tokens s)\<rparr>)) (\<lambda>_.
     bind (chk_u64 (dt_expiration_timestamp k - ledger_timestamp env)) (\<lambda>ttl. return ()))"

definition add_child_to_parent :: "env \<Rightarrow> int \<Rightarrow> int \<Rightarrow> unit derived" where
  "add_child_to_parent env parent child =
     bind (attempt (get_derived_token parent)) (\<lambda>r.
     bind (case r of Inr k \<Rightarrow> store_derived_token env parent (k\<lparr>dt_child_tokens := dt_child_tokens k @ [child]\<rparr>)
       | Inl e \<Rightarrow> return ()) (\<lambda>_.
     modify (\<lambda>s. s\<lparr>ds_children := list_push parent child (ds_children s)\<rparr>)))"

text \<open>The loop of the metrics: the largest and the summed depth of the tokens found.\<close>

fun metrics_loop :: "int list \<Rightarrow> int \<Rightarrow> int \<Rightarrow> (int \<times> int) derived" where
  "metrics_loop [] max_depth total_depth = return (max_depth, total_depth)"
| "metrics_loop (t # ts) max_depth total_depth =
     bind (attempt (get_derived_token t)) (\<lambda>r. case r of
       Inr k \<Rightarrow> bind (chk_u32 (total_depth + dt_hierarchy_depth k)) (\<lambda>total.
         metrics_loop ts (max max_depth (dt_hierarchy_depth k)) total)
     | Inl e \<Rightarrow> metrics_loop ts max_depth total_depth)"

definition update_hierarchy_metrics :: "env \<Rightarrow> int \<Rightarrow> unit derived" where
  "update_hierarchy_metrics env lid =
     bind (get_lease_derived_tokens lid) (\<lambda>ts.
     let total_tokens = as_u32 (int (length ts)) in
     bind (metrics_loop ts 0 0) (\<lambda>(max_depth, total_depth).
     let avg_depth = (if total_tokens > 0 then total_depth div total_tokens else 0) in
     modify (\<lambda>s. s\<lparr>ds_metrics := (ds_metrics s)(lid \<mapsto> \<lparr>hm_total_tokens = total_tokens,
       hm_max_depth = max_depth, hm_avg_depth = avg_depth, hm_last_updated = ledger_timestamp env\<rparr>)\<rparr>)))"

definition update_sublessee_mappings :: "int \<Rightarrow> address \<Rightarrow> address \<Rightarrow> unit derived" where
  "update_sublessee_mappings t from_sublessee to_sublessee = modify (\<lambda>s. s\<lparr>ds_sublessee_tokens :=
     list_push to_sublessee t (list_drop from_sublessee t (ds_sublessee_tokens s))\<rparr>)"

definition update_spatial_mappings :: "int \<Rightarrow> spatial_zone \<Rightarrow> spatial_zone \<Rightarrow> unit derived" where
  "update_spatial_mappings t old_zone new_zone =
     bind (get_derived_token t) (\<lambda>k.
     modify (\<lambda>s. s\<lparr>ds_zone_tokens := list_push (get_zone_key new_zone (dt_root_lease_id k)) t
       (list_drop (get_zone_key old_zone (dt_root_lease_id k)) t (ds_zone_tokens s))\<rparr>))"

section \<open>Operations\<close>

definition mint_derived_access_token :: "env \<Rightarrow> derived_request \<Rightarrow> int derived" where
  "mint_derived_access_token env q =
     bind (get_parent_token (dq_parent_token_id q)) (\<lambda>parent.
     let now = ledger_timestamp env in
     bind (throw_if (ac_revoked parent) ParentTokenRevoked) (\<lambda>_.
     bind (throw_if (now > ac_expiration_timestamp parent) ParentTokenExpired) (\<lambda>_.
     bind (throw_if (\<not> ac_transferable parent) UnauthorizedSublease) (\<lambda>_.
     bind (get_token_hierarchy_depth (dq_parent_token_id q)) (\<lambda>parent_depth.
     bind (chk_u32 (parent_depth + 1)) (\<lambda>depth.
     bind (throw_if (depth > MAX_HIERARCHY_DEPTH) HierarchyDepthExceeded) (\<lambda>_.
     let expiration = min (case dq_expiration_timestamp q of None \<Rightarrow> ac_expiration_timestamp parent | Some x \<Rightarrow> x)
       (ac_expiration_timestamp parent) in
     bind (throw_if (expiration > ac_expiration_timestamp parent) InvalidTemporalDependency) (\<lambda>_.
     bind (validate_spatial_zone (dq_spatial_zone q)) (\<lambda>_.
     let t = generate_unique_derived_token_id env (dq_parent_token_id q) in
     bind (get_root_lease_id (dq_parent_token_id q)) (\<lambda>root.
     bind (store_derived_token env t \<lparr>dt_token_id = t, dt_parent_token_id = dq_parent_token_id q,
       dt_root_lease_id = root, dt_sublessee = dq_sublessee q, dt_spatial_zone = dq_spatial_zone q,
       dt_expiration_timestamp = expiration, dt_minted_at = now, dt_hierarchy_depth = depth,
       dt_access_level = dq_access_level q, dt_transferable = dq_transferable q, dt_transfer_count = 0,
       dt_revoked = False, dt_revoked_at = None, dt_revocation_reason = None, dt_child_tokens = []\<rparr>) (\<lambda>_.
     bind (add_child_to_parent env (dq_parent_token_id q) t) (\<lambda>_.
     bind (update_hierarchy_metrics env root) (\<lambda>_.
     bind (publish (DerivedTokenMinted t (dq_parent_token_id q) root (dq_sublessee q) (dq_spatial_zone q) expiration
       depth now)) (\<lambda>_.
     return t))))))))))))))"

definition burned :: "env \<Rightarrow> revocation_reason \<Rightarrow> derived_token \<Rightarrow> derived_token" where
  "burned env r k = k\<lparr>dt_revoked := True, dt_revoked_at := Some (ledger_timestamp env), dt_revocation_reason := Some r\<rparr>"

function (sequential) recursive_burn_internal :: "nat \<Rightarrow> env \<Rightarrow> int \<Rightarrow> revocation_reason \<Rightarrow> int \<times> int \<Rightarrow> (int \<times> int) derived"
  and burn_children :: "nat \<Rightarrow> env \<Rightarrow> int list \<Rightarrow> revocation_reason \<Rightarrow> int \<times> int \<Rightarrow> (int \<times> int) derived" where
  "recursive_burn_internal 0 env t r acc = trap"
| "recursive_burn_internal (Suc n) env t r (tokens_burned, max_depth) =
     bind (get_derived_token t) (\<lambda>k.
     bind (burn_children n env (dt_child_tokens k) r (tokens_burned, max max_depth (dt_hierarchy_depth k)))
       (\<lambda>(tokens_burned, max_depth).
     bind (modify (\<lambda>s. s\<lparr>ds_tokens := (ds_tokens s)(t \<mapsto> burned env r k)\<rparr>)) (\<lambda>_.
     bind (chk_u32 (tokens_burned + 1)) (\<lambda>tokens_burned.
     return (tokens_burned, max_depth)))))"
| "burn_children n env [] r acc = return acc"
| "burn_children n env (c # cs) r acc =
     bind (recursive_burn_internal n env c r acc) (\<lambda>acc. burn_children n env cs r acc)"
  by pat_completeness auto

termination
  by (relation "measures [\<lambda>x. case x of Inl (n, _) \<Rightarrow> n | Inr (n, _) \<Rightarrow> n,
      \<lambda>x. case x of Inl _ \<Rightarrow> 0 | Inr (_, _, cs, _) \<Rightarrow> Suc (length cs)]") auto

definition recursive_burn_hierarchy :: "nat \<Rightarrow> env \<Rightarrow> int \<Rightarrow> revocation_reason \<Rightarrow> int derived" where
  "recursive_burn_hierarchy call_depth env root_token_id burn_reason =
     bind (get_derived_token root_token_id) (\<lambda>root.
     bind (recursive_burn_internal call_depth env root_token_id burn_reason (0, 0)) (\<lambda>(tokens_burned, max_depth).
     bind (publish (DerivedHierarchyBurned root_token_id (dt_root_lease_id root) burn_reason tokens_burned max_depth
       (ledger_timestamp env))) (\<lambda>_.
     return tokens_burned)))"

definition transfer_derived_token :: "env \<Rightarrow> int \<Rightarrow> address \<Rightarrow> address \<Rightarrow> string \<Rightarrow> unit derived" where
  "transfer_derived_token env t from_sublessee to_sublessee transfer_reason =
     bind (get_derived_token t) (\<lambda>k.
     bind (throw_if (\<not> dt_transferable k) UnauthorizedSublease) (\<lambda>_.
     bind (throw_if (dt_revoked k) ParentTokenRevoked) (\<lambda>_.
     bind (throw_if (ledger_timestamp env > dt_expiration_timestamp k) ParentTokenExpired) (\<lambda>_.
     bind (throw_if (dt_sublessee k \<noteq> from_sublessee) UnauthorizedSublease) (\<lambda>_.
     bind (chk_u32 (dt_transfer_count k + 1)) (\<lambda>n.
     bind (store_derived_token env t (k\<lparr>dt_sublessee := to_sublessee, dt_transfer_count := n\<rparr>)) (\<lambda>_.
     bind (update_sublessee_mappings t from_sublessee to_sublessee) (\<lambda>_.
     publish (DerivedTokenTransferred t from_sublessee to_sublessee (dt_hierarchy_depth k)
       (ledger_timestamp env))))))))))"

definition update_spatial_zone :: "env \<Rightarrow> int \<Rightarrow> spatial_zone \<Rightarrow> unit derived" where
  "update_spatial_zone env t new_zone =
     bind (get_derived_token t) (\<lambda>k.
     bind (throw_if (dt_revoked k) ParentTokenRevoked) (\<lambda>_.
     bind (validate_spatial_zone new_zone) (\<lambda>_.
     bind (store_derived_token env t (k\<lparr>dt_spatial_zone := new_zone\<rparr>)) (\<lambda>_.
     bind (update_spatial_mappings t (dt_spatial_zone k) new_zone) (\<lambda>_.
     publish (SpatialZoneUpdated t (dt_spatial_zone k) new_zone (ledger_timestamp env)))))))"

section \<open>Access and derived tokens as a system\<close>

text \<open>The lease contract saves leases and flags tenants in the same storage. Calls whose arguments exceed the widths
  of their types are not delivered.\<close>

datatype access_call =
    MintAccess int string asset_type access_level bool
  | VerifyAccess access_request
  | TransferAccess token_transfer_request
  | RevokeAccess int revocation_reason
  | RenewAccess int int
  | LeaseStateChange int lease_status lease_status
  | MintDerived derived_request
  | BurnHierarchy nat int revocation_reason
  | TransferDerived int address address string
  | UpdateZone int spatial_zone
  | ContractSavesLease int lease_instance
  | ContractFlagsTenant int

datatype token_error = Access_error access_error | Derived_error derived_error

fun access_typed :: "access_call \<Rightarrow> bool" where
  "access_typed (MintAccess lid x a b c) \<longleftrightarrow> is_u64 lid"
| "access_typed _ \<longleftrightarrow> True"

fun access_exec :: "env \<Rightarrow> access_call \<Rightarrow> (access_state, token_error, unit) proc" where
  "access_exec env (MintAccess lid x a b c) =
     map_err Access_error (bind (mint_lessee_access_token env lid x a b c) (\<lambda>_. return ()))"
| "access_exec env (VerifyAccess q) = map_err Access_error (bind (verify_access_token env q) (\<lambda>_. return ()))"
| "access_exec env (TransferAccess q) = map_err Access_error (transfer_access_token env q)"
| "access_exec env (RevokeAccess lid r) = map_err Access_error (revoke_access_token env lid r)"
| "access_exec env (RenewAccess lid x) = map_err Access_error (renew_access_token env lid x)"
| "access_exec env (LeaseStateChange lid a b) = map_err Access_error (handle_lease_state_change env lid a b)"
| "access_exec env (MintDerived q) = map_err Derived_error (bind (mint_derived_access_token env q) (\<lambda>_. return ()))"
| "access_exec env (BurnHierarchy n t r) =
     map_err Derived_error (bind (recursive_burn_hierarchy n env t r) (\<lambda>_. return ()))"
| "access_exec env (TransferDerived t a b x) = map_err Derived_error (transfer_derived_token env t a b x)"
| "access_exec env (UpdateZone t z) = map_err Derived_error (update_spatial_zone env t z)"
| "access_exec env (ContractSavesLease lid l) = modify (\<lambda>s. s\<lparr>as_leases := (as_leases s)(lid \<mapsto> l)\<rparr>)"
| "access_exec env (ContractFlagsTenant lid) = modify (\<lambda>s. s\<lparr>as_flags := (as_flags s)(lid \<mapsto> Flag_cell True)\<rparr>)"

definition access_step :: "env \<times> access_call \<Rightarrow> access_state \<Rightarrow> access_state" where
  "access_step m s = (if is_u64 (ledger_timestamp (fst m)) \<and> access_typed (snd m)
     then snd (invoke (access_exec (fst m) (snd m)) s) else s)"

end
