(* ===== verification/Access_Props.thy ===== *)
theory Access_Props
  imports Sample_Lease Derived_Token
begin

text \<open>Access tokens and the tokens derived from them: revocation, the hierarchy that never comes to be, its burning.\<close>

section \<open>Effects of the operations\<close>

lemma access_get_Ok_iff [proc_ok]:
  "get_access_token t s = (Ok k, s') \<longleftrightarrow> as_tokens s t = Some k \<and> s' = s"
  "access_token_of_lease lid s = (Ok t, s') \<longleftrightarrow> as_token_of s lid = Some t \<and> s' = s"
  "get_derived_token t s = (Ok d, s') \<longleftrightarrow> ds_tokens s t = Some d \<and> s' = s"
  by (auto simp: get_access_token_def access_token_of_lease_def get_derived_token_def proc_ok)

definition stored_token :: "int \<Rightarrow> access_token \<Rightarrow> access_state \<Rightarrow> access_state" where
  "stored_token t k s = s\<lparr>as_tokens := (as_tokens s)(t \<mapsto> k), as_token_of := (as_token_of s)(ac_lease_id k \<mapsto> t),
     as_lessee_tokens := list_push (ac_lessee k) t (as_lessee_tokens s),
     as_asset_tokens := list_push (ac_asset_identifier k) t (as_asset_tokens s)\<rparr>"

lemma store_access_token_Ok_iff [proc_ok]:
  "store_access_token env t k s = (Ok u, s') \<longleftrightarrow>
     is_u64 (ac_expiration_timestamp k - ledger_timestamp env) \<and> s' = stored_token t k s"
  by (auto simp: store_access_token_def stored_token_def proc_ok)

lemma stored_token_simps [simp]:
  "as_tokens (stored_token t k s) = (as_tokens s)(t \<mapsto> k)"
  "as_token_of (stored_token t k s) = (as_token_of s)(ac_lease_id k \<mapsto> t)"
  "as_lessee_tokens (stored_token t k s) = list_push (ac_lessee k) t (as_lessee_tokens s)"
  "ds_tokens (stored_token t k s) = ds_tokens s" "as_flags (stored_token t k s) = as_flags s"
  "as_leases (stored_token t k s) = as_leases s"
  by (simp_all add: stored_token_def)

text \<open>What the invariants speak about.\<close>

definition same_access :: "access_state \<Rightarrow> access_state \<Rightarrow> bool" where
  "same_access s s' \<longleftrightarrow> as_tokens s' = as_tokens s \<and> as_token_of s' = as_token_of s
     \<and> as_lessee_tokens s' = as_lessee_tokens s \<and> ds_tokens s' = ds_tokens s"

lemma mint_access_Ok:
  assumes "mint_lessee_access_token env lid x a b c s = (Ok t, s')"
  shows "as_token_of s lid = None \<and> t = token_id_from lid env \<and> (\<exists>k. ac_lease_id k = lid \<and> \<not> ac_revoked k
    \<and> same_access (stored_token t k s) s')"
  using assms unfolding mint_lessee_access_token_def update_lease_for_access_token_def generate_access_token_id_def Let_def
  by (auto simp: proc_ok same_access_def)

lemma verify_access_Ok:
  assumes "verify_access_token env q s = (Ok r, s')"
  shows "\<exists>k. as_tokens s (aq_token_id q) = Some k \<and> ap_is_valid r = is_token_valid k (ledger_timestamp env)
    \<and> as_tokens s' = (as_tokens s)(aq_token_id q \<mapsto> k\<lparr>ac_last_verified := ledger_timestamp env,
         ac_verification_count := ac_verification_count k + 1\<rparr>)
    \<and> as_token_of s' = as_token_of s \<and> as_lessee_tokens s' = as_lessee_tokens s \<and> ds_tokens s' = ds_tokens s"
  using assms unfolding verify_access_token_def update_verification_stats_def cache_access_verification_def Let_def
  by (auto simp: proc_ok split: if_splits)

lemma transfer_access_Ok:
  assumes "transfer_access_token env q s = (Ok u, s')"
  shows "\<exists>k k'. as_tokens s (at_token_id q) = Some k \<and> ac_lessee k = at_from_lessee q \<and> \<not> ac_revoked k
    \<and> k' = k\<lparr>ac_lessee := at_to_lessee q, ac_transfer_count := ac_transfer_count k + 1\<rparr>
    \<and> as_tokens s' = (as_tokens s)(at_token_id q \<mapsto> k')
    \<and> as_token_of s' = (as_token_of s)(ac_lease_id k \<mapsto> at_token_id q) \<and> ds_tokens s' = ds_tokens s
    \<and> as_lessee_tokens s' = list_push (at_to_lessee q) (at_token_id q) (list_drop (at_from_lessee q) (at_token_id q)
         (list_push (at_to_lessee q) (at_token_id q) (as_lessee_tokens s)))"
  using assms unfolding transfer_access_token_def update_lessee_mappings_def
  by (auto simp: proc_ok)

text \<open>Revocation and renewal store the token again.\<close>

definition updated_token :: "access_token \<Rightarrow> access_token \<Rightarrow> bool" where
  "updated_token k k' \<longleftrightarrow> ac_lease_id k' = ac_lease_id k \<and> ac_lessee k' = ac_lessee k
     \<and> (ac_revoked k \<longrightarrow> ac_revoked k' \<and> ac_expiration_timestamp k' = ac_expiration_timestamp k)"

lemma revoke_access_Ok:
  assumes "revoke_access_token env lid r s = (Ok u, s')"
  shows "\<exists>t k k'. as_token_of s lid = Some t \<and> as_tokens s t = Some k \<and> ac_revoked k' \<and> updated_token k k'
    \<and> is_u64 (ac_expiration_timestamp k - ledger_timestamp env) \<and> same_access (stored_token t k' s) s'"
  using assms unfolding revoke_access_token_def store_revocation_history_def
  by (auto simp: proc_ok read_revocation_index_def updated_token_def same_access_def split: option.splits flag_cell.splits)

lemma renew_access_Ok:
  assumes "renew_access_token env lid x s = (Ok u, s')"
  shows "\<exists>t k k'. as_token_of s lid = Some t \<and> as_tokens s t = Some k \<and> \<not> ac_revoked k \<and> updated_token k k'
    \<and> same_access (stored_token t k' s) s'"
  using assms unfolding renew_access_token_def
  by (auto simp: proc_ok updated_token_def same_access_def)

text \<open>Without a derived token, nothing can be done with derived tokens, and none can be minted.\<close>

lemma derived_calls_fail:
  assumes "ds_tokens s = Map.empty"
  shows "mint_derived_access_token env q s \<noteq> (Ok t, s')" "recursive_burn_hierarchy n env x r s \<noteq> (Ok i, s')"
    "transfer_derived_token env x a b w s \<noteq> (Ok u, s')" "update_spatial_zone env x z s \<noteq> (Ok u, s')"
  using assms
  by (auto simp: mint_derived_access_token_def recursive_burn_hierarchy_def transfer_derived_token_def
      update_spatial_zone_def get_token_hierarchy_depth_def get_parent_token_def proc_ok Let_def)

section \<open>Invariant and progress\<close>

definition access_ok :: "access_state \<Rightarrow> bool" where
  "access_ok s \<longleftrightarrow>
     (\<forall>lid t. as_token_of s lid = Some t \<longrightarrow> is_u64 lid \<and> lease_of_token t = lid
        \<and> (\<exists>k. as_tokens s t = Some k \<and> ac_lease_id k = lid))
     \<and> (\<forall>t k. as_tokens s t = Some k \<longrightarrow> as_token_of s (ac_lease_id k) = Some t)
     \<and> (\<forall>a t. t \<in> set (listed (as_lessee_tokens s) a) \<longleftrightarrow> (\<exists>k. as_tokens s t = Some k \<and> ac_lessee k = a))
     \<and> ds_tokens s = Map.empty"

lemma access_okD:
  "access_ok s \<Longrightarrow> as_token_of s lid = Some t \<Longrightarrow> is_u64 lid \<and> lease_of_token t = lid
     \<and> (\<exists>k. as_tokens s t = Some k \<and> ac_lease_id k = lid)"
  "access_ok s \<Longrightarrow> as_tokens s t = Some k \<Longrightarrow> as_token_of s (ac_lease_id k) = Some t"
  "access_ok s \<Longrightarrow> t \<in> set (listed (as_lessee_tokens s) a) \<longleftrightarrow> (\<exists>k. as_tokens s t = Some k \<and> ac_lessee k = a)"
  "access_ok s \<Longrightarrow> ds_tokens s = Map.empty"
  by (simp_all add: access_ok_def)

definition token_evolves :: "access_token \<Rightarrow> access_token \<Rightarrow> bool" where
  "token_evolves k k' \<longleftrightarrow> ac_lease_id k' = ac_lease_id k
     \<and> (ac_revoked k \<longrightarrow> ac_revoked k' \<and> ac_lessee k' = ac_lessee k
          \<and> ac_expiration_timestamp k' = ac_expiration_timestamp k)"

definition access_evolves :: "access_state \<Rightarrow> access_state \<Rightarrow> bool" where
  "access_evolves s s' \<longleftrightarrow> (\<forall>t k. as_tokens s t = Some k \<longrightarrow> (\<exists>k'. as_tokens s' t = Some k' \<and> token_evolves k k'))"

lemma token_evolves_refl [simp]: "token_evolves k k"
  by (simp add: token_evolves_def)

lemma access_evolves_refl [simp]: "access_evolves s s"
  by (simp add: access_evolves_def)

lemma access_evolves_trans: "access_evolves s t \<Longrightarrow> access_evolves t u \<Longrightarrow> access_evolves s u"
  unfolding access_evolves_def token_evolves_def by metis

text \<open>A token written over one of the same lease keeps both, when the lists of its lessees are right.\<close>

lemma token_rewritten:
  assumes ok: "access_ok s" and k: "as_tokens s t = Some k" and k': "token_evolves k k'"
    and s': "as_tokens s' = (as_tokens s)(t \<mapsto> k')" "as_token_of s' = (as_token_of s)(ac_lease_id k \<mapsto> t)"
      "ds_tokens s' = ds_tokens s"
    and lists: "\<And>a. set (listed (as_lessee_tokens s') a) = (if a = ac_lessee k' then insert t (set (listed (as_lessee_tokens s) a))
        else set (listed (as_lessee_tokens s) a) - {t})"
  shows "access_ok s' \<and> access_evolves s s'"
proof
  have id: "ac_lease_id k' = ac_lease_id k" "as_token_of s (ac_lease_id k) = Some t"
    using k' ok k by (auto simp: token_evolves_def access_ok_def)
  then have tok: "as_token_of s' = as_token_of s" using s'(2) by auto
  have "t' \<in> set (listed (as_lessee_tokens s') a) \<longleftrightarrow> (\<exists>k. as_tokens s' t' = Some k \<and> ac_lessee k = a)" for a t'
    using ok by (auto simp: lists s'(1) access_ok_def)
  moreover have "is_u64 lid \<and> lease_of_token x = lid \<and> (\<exists>k. as_tokens s' x = Some k \<and> ac_lease_id k = lid)"
    if look: "as_token_of s lid = Some x" for lid x
  proof -
    obtain k1 where "as_tokens s x = Some k1" "ac_lease_id k1 = lid" "is_u64 lid" "lease_of_token x = lid"
      using access_okD(1) [OF ok look] by blast
    then show ?thesis using id k by (cases "x = t") (auto simp: s'(1))
  qed
  moreover have "as_token_of s (ac_lease_id k1) = Some x" if "as_tokens s' x = Some k1" for x k1
    using that id ok by (auto simp: s'(1) access_ok_def split: if_splits)
  ultimately show "access_ok s'" using ok s'(3) by (simp add: access_ok_def tok)
  show "access_evolves s s'" using k k' by (simp add: access_evolves_def s'(1))
qed

lemma same_access_ok: "same_access s s' \<Longrightarrow> access_ok s \<Longrightarrow> access_ok s' \<and> access_evolves s s'"
  by (simp add: same_access_def access_ok_def access_evolves_def)

lemma same_access_trans:
  "access_ok t \<and> access_evolves s t \<Longrightarrow> same_access t u \<Longrightarrow> access_ok u \<and> access_evolves s u"
  using same_access_ok access_evolves_trans by blast

lemma updated_token_step:
  assumes ok: "access_ok s" and k: "as_tokens s t = Some k" and k': "updated_token k k'"
  shows "access_ok (stored_token t k' s) \<and> access_evolves s (stored_token t k' s)"
  by (rule token_rewritten [OF ok k, of k'])
    (use k' access_okD(2,3) [OF ok] k in \<open>auto simp: updated_token_def token_evolves_def\<close>)

lemma minted_token_step:
  assumes ok: "access_ok s" and new: "as_token_of s (ac_lease_id k) = None"
    and t: "is_u64 (ac_lease_id k)" "lease_of_token t = ac_lease_id k"
  shows "access_ok (stored_token t k s) \<and> access_evolves s (stored_token t k s)"
proof -
  have fresh: "as_tokens s t = None"
  proof (rule ccontr)
    assume "as_tokens s t \<noteq> None"
    then obtain k' where "as_tokens s t = Some k'" by blast
    then have "as_token_of s (ac_lease_id k') = Some t" by (rule access_okD(2) [OF ok])
    then show False using access_okD(1) [OF ok] t(2) new by fastforce
  qed
  have "x \<in> set (listed (as_lessee_tokens (stored_token t k s)) a) \<longleftrightarrow>
      (\<exists>k'. as_tokens (stored_token t k s) x = Some k' \<and> ac_lessee k' = a)" for a x
    using access_okD(3) [OF ok] fresh by auto
  moreover have "is_u64 lid \<and> lease_of_token x = lid \<and> (\<exists>k'. as_tokens (stored_token t k s) x = Some k' \<and> ac_lease_id k' = lid)"
    if "as_token_of (stored_token t k s) lid = Some x" for lid x
    using that access_okD(1) [OF ok, of lid x] t fresh by (auto split: if_splits)
  moreover have "as_token_of (stored_token t k s) (ac_lease_id k1) = Some x"
    if "as_tokens (stored_token t k s) x = Some k1" for x k1
    using that access_okD(2) [OF ok] new by (fastforce split: if_splits)
  ultimately show ?thesis using access_okD(4) [OF ok] fresh by (auto simp: access_ok_def access_evolves_def)
qed

lemma access_exec_evolves:
  assumes ok: "access_ok s" and ty: "is_u64 (ledger_timestamp env)" "access_typed c"
    and run: "access_exec env c s = (Ok u, s')"
  shows "access_ok s' \<and> access_evolves s s'"
proof (cases c)
  case (MintAccess lid x a b d)
  then obtain t where "mint_lessee_access_token env lid x a b d s = (Ok t, s')" using run by (auto simp: proc_ok)
  from mint_access_Ok [OF this] obtain k where k: "as_token_of s lid = None" "t = token_id_from lid env"
      "ac_lease_id k = lid" "same_access (stored_token t k s) s'" by blast
  then have "access_ok (stored_token t k s) \<and> access_evolves s (stored_token t k s)"
    using ty MintAccess by (intro minted_token_step [OF ok]) simp_all
  then show ?thesis using k(4) by (rule same_access_trans)
next
  case (VerifyAccess q)
  then obtain r where "verify_access_token env q s = (Ok r, s')" using run by (auto simp: proc_ok)
  from verify_access_Ok [OF this] obtain k where k: "as_tokens s (aq_token_id q) = Some k"
    "as_tokens s' = (as_tokens s)(aq_token_id q \<mapsto> k\<lparr>ac_last_verified := ledger_timestamp env,
         ac_verification_count := ac_verification_count k + 1\<rparr>)"
    "as_token_of s' = as_token_of s" "as_lessee_tokens s' = as_lessee_tokens s" "ds_tokens s' = ds_tokens s" by blast
  show ?thesis
    by (rule token_rewritten [OF ok k(1) _ k(2)])
      (use k access_okD(2,3) [OF ok] in \<open>auto simp: token_evolves_def\<close>)
next
  case (TransferAccess q)
  then have "transfer_access_token env q s = (Ok u, s')" using run by (simp add: proc_ok)
  from transfer_access_Ok [OF this] obtain k k' where k: "as_tokens s (at_token_id q) = Some k"
    "ac_lessee k = at_from_lessee q" "\<not> ac_revoked k"
    "k' = k\<lparr>ac_lessee := at_to_lessee q, ac_transfer_count := ac_transfer_count k + 1\<rparr>"
    "as_tokens s' = (as_tokens s)(at_token_id q \<mapsto> k')"
    "as_token_of s' = (as_token_of s)(ac_lease_id k \<mapsto> at_token_id q)" "ds_tokens s' = ds_tokens s"
    "as_lessee_tokens s' = list_push (at_to_lessee q) (at_token_id q) (list_drop (at_from_lessee q) (at_token_id q)
         (list_push (at_to_lessee q) (at_token_id q) (as_lessee_tokens s)))" by blast
  show ?thesis
    by (rule token_rewritten [OF ok k(1) _ k(5,6,7)])
      (use k(1-4,8) access_okD(3) [OF ok] in \<open>auto simp: token_evolves_def\<close>)
next
  case (RevokeAccess lid r)
  then have "revoke_access_token env lid r s = (Ok u, s')" using run by (simp add: proc_ok)
  from revoke_access_Ok [OF this] show ?thesis using updated_token_step [OF ok] same_access_trans by blast
next
  case (RenewAccess lid x)
  then have "renew_access_token env lid x s = (Ok u, s')" using run by (simp add: proc_ok)
  from renew_access_Ok [OF this] show ?thesis using updated_token_step [OF ok] same_access_trans by blast
next
  case (LeaseStateChange lid a b)
  then have "(\<exists>r. revoke_access_token env lid r s = (Ok u, s')) \<or> s' = s"
    using run by (auto simp: proc_ok handle_lease_state_change_def split: option.splits)
  then show ?thesis
  proof
    assume "\<exists>r. revoke_access_token env lid r s = (Ok u, s')"
    then show ?thesis using revoke_access_Ok updated_token_step [OF ok] same_access_trans by blast
  qed (use ok in simp)
next
  case (ContractSavesLease lid l)
  then show ?thesis using run ok by (auto simp: proc_ok access_ok_def access_evolves_def)
next
  case (ContractFlagsTenant lid)
  then show ?thesis using run ok by (auto simp: proc_ok access_ok_def access_evolves_def)
qed (use run derived_calls_fail [OF access_okD(4) [OF ok]] in \<open>auto simp: proc_ok\<close>)

lemma access_step_evolves: "access_ok s \<Longrightarrow> access_ok (access_step m s) \<and> access_evolves s (access_step m s)"
  by (cases "access_exec (fst m) (snd m)" s rule: invoke_cases) (auto simp: access_step_def dest: access_exec_evolves)

interpretation access: contract_system access_ok access_step access_init
  by unfold_locales (simp add: access_step_evolves, simp add: access_ok_def access_init_def)

interpretation access_life: monotone_system "\<lambda>s t. access_ok s \<longrightarrow> access_ok t \<and> access_evolves s t" access_step
  by unfold_locales (auto simp: access_step_evolves elim: access_evolves_trans)

section \<open>Burning a hierarchy\<close>

text \<open>A hierarchy is well formed when the children of every token exist one level deeper, up to the maximal depth.\<close>

definition hierarchy_ok :: "(int \<rightharpoonup> derived_token) \<Rightarrow> bool" where
  "hierarchy_ok m \<longleftrightarrow> (\<forall>t k. m t = Some k \<longrightarrow> 0 \<le> dt_hierarchy_depth k \<and> dt_hierarchy_depth k \<le> MAX_HIERARCHY_DEPTH
     \<and> (\<forall>c \<in> set (dt_child_tokens k). \<exists>k'. m c = Some k' \<and> dt_hierarchy_depth k' = dt_hierarchy_depth k + 1))"

text \<open>The tokens below a token in the order in which they are burned, the levels of a token, and the map after
  burning a set of tokens.\<close>

fun subtree :: "nat \<Rightarrow> (int \<rightharpoonup> derived_token) \<Rightarrow> int \<Rightarrow> int list" where
  "subtree 0 m t = []"
| "subtree (Suc n) m t = (case m t of None \<Rightarrow> [] | Some k \<Rightarrow> concat (map (subtree n m) (dt_child_tokens k)) @ [t])"

definition levels :: "derived_token \<Rightarrow> nat" where
  "levels k = nat (MAX_HIERARCHY_DEPTH + 1 - dt_hierarchy_depth k)"

definition burn_set :: "env \<Rightarrow> revocation_reason \<Rightarrow> int set \<Rightarrow> (int \<rightharpoonup> derived_token) \<Rightarrow> int \<rightharpoonup> derived_token" where
  "burn_set env r B m t = (if t \<in> B then map_option (burned env r) (m t) else m t)"

lemma burned_simps [simp]:
  "burned env r (burned env r k) = burned env r k" "dt_child_tokens (burned env r k) = dt_child_tokens k"
  "dt_hierarchy_depth (burned env r k) = dt_hierarchy_depth k" "dt_revoked (burned env r k)"
  by (simp_all add: burned_def)

lemma burn_set_burn_set [simp]: "burn_set env r B (burn_set env r C m) = burn_set env r (C \<union> B) m"
  by (auto simp: burn_set_def fun_eq_iff option.map_comp comp_def)

lemma burn_set_empty [simp]: "burn_set env r {} m = m"
  by (simp add: burn_set_def fun_eq_iff)

lemma burn_set_lookup:
  "m t = Some k \<Longrightarrow> \<exists>k'. burn_set env r B m t = Some k' \<and> dt_child_tokens k' = dt_child_tokens k
     \<and> dt_hierarchy_depth k' = dt_hierarchy_depth k \<and> burned env r k' = burned env r k"
  by (simp add: burn_set_def)

lemma burn_internal_run:
  assumes "hierarchy_ok m"
  shows "m t = Some k \<Longrightarrow> levels k \<le> n \<Longrightarrow> ds_tokens s = burn_set env r B m \<Longrightarrow> 0 \<le> b
      \<Longrightarrow> b + int (length (subtree n m t)) \<le> u32_max
    \<Longrightarrow> \<exists>d'. recursive_burn_internal n env t r (b, d) s
      = (Ok (b + int (length (subtree n m t)), d'), s\<lparr>ds_tokens := burn_set env r (B \<union> set (subtree n m t)) m\<rparr>)"
proof (induction n arbitrary: t k s B b d)
  case 0
  then have "dt_hierarchy_depth k \<le> MAX_HIERARCHY_DEPTH" using assms by (auto simp: hierarchy_ok_def)
  then show ?case using 0 by (simp add: levels_def)
next
  case (Suc n)
  have kids: "\<exists>k'. m c = Some k' \<and> levels k' \<le> n" if kid: "c \<in> set (dt_child_tokens k)" for c
  proof -
    obtain k' where k': "m c = Some k'" "dt_hierarchy_depth k' = dt_hierarchy_depth k + 1"
      using assms Suc.prems(1) kid unfolding hierarchy_ok_def by blast
    have "0 \<le> dt_hierarchy_depth k" "dt_hierarchy_depth k \<le> MAX_HIERARCHY_DEPTH"
      using assms Suc.prems(1) unfolding hierarchy_ok_def by blast+
    then show ?thesis using k' Suc.prems(2) by (auto simp: levels_def)
  qed
  have children: "\<exists>d'. burn_children n env cs r (b, d) s
      = (Ok (b + int (length (concat (map (subtree n m) cs))), d'),
         s\<lparr>ds_tokens := burn_set env r (B \<union> set (concat (map (subtree n m) cs))) m\<rparr>)"
    if "set cs \<subseteq> set (dt_child_tokens k)" "ds_tokens s = burn_set env r B m" "0 \<le> b"
      "b + int (length (concat (map (subtree n m) cs))) \<le> u32_max" for cs b d s B
    using that
  proof (induction cs arbitrary: b d s B)
    case Nil
    then show ?case by simp
  next
    case (Cons c cs)
    obtain k' where k': "m c = Some k'" "levels k' \<le> n" using kids [of c] Cons.prems(1) by auto
    have fit: "b + int (length (subtree n m c)) \<le> u32_max" using Cons.prems(4) by simp
    obtain d1 where first: "recursive_burn_internal n env c r (b, d) s = (Ok (b + int (length (subtree n m c)), d1),
        s\<lparr>ds_tokens := burn_set env r (B \<union> set (subtree n m c)) m\<rparr>)"
      using Suc.IH [OF k' Cons.prems(2,3) fit] by blast
    let ?s = "s\<lparr>ds_tokens := burn_set env r (B \<union> set (subtree n m c)) m\<rparr>"
    obtain d2 where "burn_children n env cs r (b + int (length (subtree n m c)), d1) ?s
      = (Ok (b + int (length (subtree n m c)) + int (length (concat (map (subtree n m) cs))), d2),
         ?s\<lparr>ds_tokens := burn_set env r (B \<union> set (subtree n m c) \<union> set (concat (map (subtree n m) cs))) m\<rparr>)"
      using Cons.IH [of ?s "B \<union> set (subtree n m c)" "b + int (length (subtree n m c))" d1] Cons.prems by auto
    then show ?case by (simp add: bind_run first add.assoc Un_assoc)
  qed
  obtain k' where k': "ds_tokens s t = Some k'" "dt_child_tokens k' = dt_child_tokens k" "burned env r k' = burned env r k"
    using burn_set_lookup [where m = m and t = t and k = k and env = env and r = r and B = B] Suc.prems(1,3) by auto
  let ?xs = "concat (map (subtree n m) (dt_child_tokens k))"
  have tree: "subtree (Suc n) m t = ?xs @ [t]" by (simp add: Suc.prems(1))
  obtain d' where d': "burn_children n env (dt_child_tokens k) r (b, max d (dt_hierarchy_depth k')) s
      = (Ok (b + int (length ?xs), d'), s\<lparr>ds_tokens := burn_set env r (B \<union> set ?xs) m\<rparr>)"
    using children [OF subset_refl Suc.prems(3,4)] Suc.prems(5) unfolding tree by fastforce
  have "(burn_set env r (B \<union> set ?xs) m)(t \<mapsto> burned env r k') = burn_set env r (B \<union> set (?xs @ [t])) m"
    using Suc.prems(1) k'(3) by (auto simp: burn_set_def fun_eq_iff)
  moreover have "is_u32 (b + int (length ?xs) + 1)"
    using Suc.prems(4,5) unfolding tree by (simp add: is_u32_def)
  ultimately show ?case
    unfolding tree by (simp add: bind_run get_derived_token_def ok_or_run k' d' chk_w_run Suc.prems(1))
qed

section \<open>Properties\<close>

text \<open>Claim C13. Revocation of an access token is final. Once a token is revoked in a reachable state, it is revoked in
  every later state, with the lessee and the expiration it had then: no mint, renewal or transfer revives or moves it,
  and no verification of it ever answers that it is valid.\<close>
theorem revoked_access_is_final:
  assumes "s = fold access_step ms access_init" "as_tokens s t = Some k" "ac_revoked k"
    and "s' = fold access_step ms' s"
  shows "\<exists>k'. as_tokens s' t = Some k' \<and> ac_revoked k' \<and> ac_lessee k' = ac_lessee k
      \<and> ac_expiration_timestamp k' = ac_expiration_timestamp k
      \<and> (\<forall>env q r u. aq_token_id q = t \<longrightarrow> verify_access_token env q s' = (Ok r, u) \<longrightarrow> \<not> ap_is_valid r)"
proof -
  have "access_ok s" unfolding assms(1) by (rule access.reach_inv)
  then have "access_evolves s s'" using access_life.run_le [of s ms'] assms(4) by simp
  then obtain k' where k': "as_tokens s' t = Some k'" "token_evolves k k'"
    using assms(2) by (auto simp: access_evolves_def)
  moreover have "\<not> ap_is_valid r" if "aq_token_id q = t" "verify_access_token env q s' = (Ok r, u)" for env q r u
    using verify_access_Ok [OF that(2)] that(1) k' assms(3) by (auto simp: is_token_valid_def token_evolves_def)
  ultimately show ?thesis using assms(3) by (auto simp: token_evolves_def)
qed

text \<open>When a revocation succeeds. The token of a lease can be revoked exactly while it has not expired and
  the lease contract has not flagged the tenant: computing the time to live of an expired token underflows, and the
  flag of the contract sits under the key of the revocation index. So the hook for a lease that expires, which
  comes after the end of the lease, panics unless the token was renewed.\<close>
theorem revocation_succeeds_iff:
  assumes "as_token_of s lid = Some t" "as_tokens s t = Some k" "is_u64 (ac_expiration_timestamp k)"
    "is_u64 (ledger_timestamp env)" "\<And>i. as_flags s lid = Some (Index_cell i) \<Longrightarrow> is_u64 (i + 1)"
  shows "(fst (revoke_access_token env lid r s) = Ok ()
      \<longleftrightarrow> ledger_timestamp env \<le> ac_expiration_timestamp k \<and> (\<forall>b. as_flags s lid \<noteq> Some (Flag_cell b)))
    \<and> fst (handle_lease_state_change env lid old LExpired s) = fst (revoke_access_token env lid ReasonExpired s)"
proof
  have "is_u64 (ac_expiration_timestamp k - ledger_timestamp env) \<longleftrightarrow> ledger_timestamp env \<le> ac_expiration_timestamp k"
    using assms(3,4) by (auto simp: is_u64_def)
  moreover have "is_u64 1" by (simp add: is_u64_def u64_max_def)
  ultimately show "fst (revoke_access_token env lid r s) = Ok ()
      \<longleftrightarrow> ledger_timestamp env \<le> ac_expiration_timestamp k \<and> (\<forall>b. as_flags s lid \<noteq> Some (Flag_cell b))"
    using assms(1,2,5)
    by (auto simp: revoke_access_token_def access_token_of_lease_def get_access_token_def store_access_token_def
        store_revocation_history_def read_revocation_index_def proc_run split: option.splits flag_cell.splits)
qed (simp add: handle_lease_state_change_def)

text \<open>No token is ever derived. Minting takes the depth of its parent from the derived tokens, although the
  parent is an access token: in every reachable state there is no derived token, and minting one, burning a
  hierarchy, transferring and rezoning all fail.\<close>
theorem no_token_is_ever_derived:
  assumes "s = fold access_step ms access_init"
  shows "ds_tokens s = Map.empty \<and> fst (mint_derived_access_token env q s) \<noteq> Ok t
    \<and> fst (recursive_burn_hierarchy n env x r s) \<noteq> Ok i \<and> fst (transfer_derived_token env x a b w s) \<noteq> Ok ()
    \<and> fst (update_spatial_zone env x z s) \<noteq> Ok ()"
proof -
  have "access_ok s" unfolding assms by (rule access.reach_inv)
  then have e: "ds_tokens s = Map.empty" by (rule access_okD)
  show ?thesis using derived_calls_fail [OF e] e by (metis prod.collapse)
qed

text \<open>The recursive burn terminates and burns exactly the hierarchy. If the storage held a well-formed hierarchy,
  of the maximal depth of ten, a call depth of eleven would be enough for any token in it: the burn returns the size of its
  subtree, every token of the subtree is revoked, and no other changes.\<close>
theorem burn_completes:
  assumes "hierarchy_ok (ds_tokens s)" "ds_tokens s t = Some k" "int (length (subtree n (ds_tokens s) t)) \<le> u32_max"
    "11 \<le> n"
  shows "\<exists>s'. recursive_burn_hierarchy n env t r s = (Ok (int (length (subtree n (ds_tokens s) t))), s')
    \<and> (\<forall>x. ds_tokens s' x = (if x \<in> set (subtree n (ds_tokens s) t) then map_option (burned env r) (ds_tokens s x)
         else ds_tokens s x))"
proof -
  have "0 \<le> dt_hierarchy_depth k" using assms(1,2) unfolding hierarchy_ok_def by blast
  then have "levels k \<le> n" using assms(4) by (simp add: levels_def MAX_HIERARCHY_DEPTH_def)
  from burn_internal_run [OF assms(1,2) this, of s env r "{}" 0 0] assms(3)
  obtain d where "recursive_burn_internal n env t r (0, 0) s = (Ok (int (length (subtree n (ds_tokens s) t)), d),
      s\<lparr>ds_tokens := burn_set env r (set (subtree n (ds_tokens s) t)) (ds_tokens s)\<rparr>)" by auto
  then show ?thesis
    by (simp add: recursive_burn_hierarchy_def get_derived_token_def assms(2) proc_run burn_set_def)
qed

section \<open>An example\<close>

definition ax_env :: "int \<Rightarrow> env" where
  "ax_env now = \<lparr>ledger_timestamp = now, ledger_sequence = 1, auths = [], current_contract = 99,
     ext = (\<lambda>cs c. Reply_unit)\<rparr>"

definition ax_token :: int where
  "ax_token = token_id_from 3 (ax_env 1000)"

definition ax_minted :: "(env \<times> access_call) list" where
  "ax_minted = [(ax_env 1000, ContractSavesLease 3 (sample_lease 9000)), (ax_env 1000, MintAccess 3 ''lock'' IoT Full True)]"

definition ax_revoked :: "(env \<times> access_call) list" where
  "ax_revoked = ax_minted @ [(ax_env 2000, RevokeAccess 3 CourtOrder)]"

definition ax_attempts :: "(env \<times> access_call) list" where
  "ax_attempts = [(ax_env 3000, RenewAccess 3 99999), (ax_env 3000, MintAccess 3 ''lock'' IoT Full True)]"

theorem revoked_access_is_final_witness:
  "map_option ac_revoked (as_tokens (fold access_step ax_attempts (fold access_step ax_revoked access_init)) ax_token) = Some True"
proof -
  have "map_option ac_revoked (as_tokens (fold access_step ax_revoked access_init) ax_token) = Some True" by code_simp
  then obtain k where "as_tokens (fold access_step ax_revoked access_init) ax_token = Some k" "ac_revoked k" by auto
  from revoked_access_is_final [OF refl this refl, of ax_attempts] show ?thesis by auto
qed

theorem revocation_succeeds_iff_witness:
  "fst (revoke_access_token (ax_env 9001) 3 ReasonExpired (fold access_step ax_minted access_init)) \<noteq> Ok ()"
proof -
  let ?s = "fold access_step ax_minted access_init"
  have t: "as_token_of ?s 3 = Some ax_token" "map_option ac_expiration_timestamp (as_tokens ?s ax_token) = Some 9000"
      "as_flags ?s 3 = None"
    by code_simp+
  then obtain k where k: "as_tokens ?s ax_token = Some k" "ac_expiration_timestamp k = 9000" by auto
  show ?thesis
    using revocation_succeeds_iff [OF t(1) k(1), of "ax_env 9001"] k(2) t(3)
    by (simp add: ax_env_def is_u64_def u64_max_def)
qed

theorem no_token_is_ever_derived_witness:
  "fst (mint_derived_access_token (ax_env 2000) \<lparr>dq_parent_token_id = ax_token, dq_sublessee = 8,
     dq_spatial_zone = EntireProperty, dq_access_level = Full, dq_transferable = True, dq_expiration_timestamp = None\<rparr>
     (fold access_step ax_minted access_init)) \<noteq> Ok 0"
  using no_token_is_ever_derived [OF refl] by blast

definition ax_derived :: "int \<Rightarrow> int \<Rightarrow> int list \<Rightarrow> derived_token" where
  "ax_derived t d cs = \<lparr>dt_token_id = t, dt_parent_token_id = 0, dt_root_lease_id = 3, dt_sublessee = 8,
     dt_spatial_zone = EntireProperty, dt_expiration_timestamp = 9000, dt_minted_at = 1000, dt_hierarchy_depth = d,
     dt_access_level = Full, dt_transferable = True, dt_transfer_count = 0, dt_revoked = False, dt_revoked_at = None,
     dt_revocation_reason = None, dt_child_tokens = cs\<rparr>"

definition ax_hierarchy :: access_state where
  "ax_hierarchy = access_init\<lparr>ds_tokens := [10 \<mapsto> ax_derived 10 0 [11, 12], 11 \<mapsto> ax_derived 11 1 [13],
     12 \<mapsto> ax_derived 12 1 [], 13 \<mapsto> ax_derived 13 2 [], 20 \<mapsto> ax_derived 20 0 []]\<rparr>"

theorem burn_completes_witness:
  "fst (recursive_burn_hierarchy 11 (ax_env 2000) 10 CourtOrder ax_hierarchy) = Ok 4"
proof -
  have h: "hierarchy_ok (ds_tokens ax_hierarchy)"
    by (auto simp: hierarchy_ok_def ax_hierarchy_def ax_derived_def MAX_HIERARCHY_DEPTH_def split: if_splits)
  have t: "ds_tokens ax_hierarchy 10 = Some (ax_derived 10 0 [11, 12])" by (simp add: ax_hierarchy_def)
  have n: "length (subtree 11 (ds_tokens ax_hierarchy) 10) = 4" by code_simp
  show ?thesis using burn_completes [OF h t, of 11 "ax_env 2000" CourtOrder] n by (auto simp: u32_max_def)
qed

end
