(* ===== verification/Storage_Cleanup.thy ===== *)
theory Storage_Cleanup
  imports Contract_Types Soroban_Host
begin

text \<open>
  \<^verbatim>\<open>contracts/leaseflow_contracts/src/storage_cleanup.rs\<close>: the record of a finished lease is replaced by a tombstone
  sixty days after its end, unless a legal hold is on it. SHA-256 over the listed values is a parameter, and so are
  the two random addresses under which the clean-up of payers and balances looks. The keys of this module that also
  occur in the key type of the lease contract (leases, administrator, tenant flags, payers, balances) name the same
  storage.
\<close>

section \<open>State\<close>

datatype legal_hold_type = Appeal | HoldRegulatory | CourtOrder | Investigation

record legal_hold =
  lh_lease_id :: int
  lh_hold_type :: legal_hold_type
  lh_initiated_by :: address
  lh_initiated_at :: int
  lh_reason :: string
  lh_expires_at :: "int option"

record lease_tombstone =
  lt_lease_id :: int
  lt_original_hash :: bytes32
  lt_terminated_at :: int
  lt_terminated_by :: address
  lt_final_status :: lease_status
  lt_total_rent_paid :: int
  lt_total_deposits :: int
  lt_property_uri_hash :: bytes32
  lt_tenant_anonymous_hash :: bytes32
  lt_landlord_anonymous_hash :: bytes32
  lt_created_at :: int
  lt_pruned_at :: int
  lt_pruned_by :: address
  lt_bytes_recovered :: int

record storage_metrics =
  sm_total_leases_pruned :: int
  sm_total_bytes_recovered :: int
  sm_total_tombstones_created :: int
  sm_active_legal_holds :: int
  sm_last_prune_timestamp :: int
  sm_average_lease_size_bytes :: int

datatype cleanup_error =
    CLeaseNotFound
  | LeaseNotFinalized
  | PruneCooldownNotMet
  | ActiveLegalHold
  | ActiveStatePruneAttempt
  | TombstoneExists
  | CNotAuthorized
  | StorageCleanupFailed
  | CInvalidTimestamp
  | HashComputationFailed

datatype cleanup_event =
    LeaseDataPruned int int bytes32 address int
  | LegalHoldPlaced int legal_hold_type address string "int option"
  | LegalHoldReleased int address int

record cleanup_state = "cleanup_event host" +
  cs_leases :: "int \<rightharpoonup> lease_instance"
  cs_tombstones :: "int \<rightharpoonup> lease_tombstone"
  cs_holds :: "int \<rightharpoonup> legal_hold"
  cs_metrics :: "storage_metrics option"
  cs_admin :: "address option"
  cs_whitelist :: "address set"
  cs_payers :: "(int \<times> address) set"
  cs_balances :: "int \<times> address \<rightharpoonup> int"
  cs_tenant_flags :: "int set"

type_synonym 'a cleanup = "(cleanup_state, cleanup_error, 'a) proc"

definition cleanup_init :: cleanup_state where
  "cleanup_init = \<lparr>events = [], calls = [], cs_leases = Map.empty, cs_tombstones = Map.empty, cs_holds = Map.empty,
     cs_metrics = None, cs_admin = None, cs_whitelist = {}, cs_payers = {}, cs_balances = Map.empty,
     cs_tenant_flags = {}\<rparr>"

text \<open>The values that are hashed.\<close>

datatype hashed = HAddress address | HInt int | HStatus lease_status | HHash bytes32 | HString string

type_synonym sha = "hashed list \<Rightarrow> bytes32"

definition PRUNE_COOLDOWN_DAYS :: int where "PRUNE_COOLDOWN_DAYS = 60"
definition DAY_IN_SECONDS :: int where "DAY_IN_SECONDS = 86400"
definition PRUNE_COOLDOWN_SECONDS :: int where "PRUNE_COOLDOWN_SECONDS = PRUNE_COOLDOWN_DAYS * DAY_IN_SECONDS"

section \<open>Guards\<close>

definition is_cleanup_admin :: "address \<Rightarrow> cleanup_state \<Rightarrow> bool" where
  "is_cleanup_admin a s \<longleftrightarrow> cs_admin s = Some a"

definition verify_prune_authorization :: "address \<Rightarrow> unit cleanup" where
  "verify_prune_authorization caller = bind (gets (\<lambda>s. caller \<in> cs_whitelist s \<or> is_cleanup_admin caller s))
     (\<lambda>ok. throw_if (\<not> ok) CNotAuthorized)"

definition verify_legal_authority :: "address \<Rightarrow> unit cleanup" where
  "verify_legal_authority caller = bind (gets (is_cleanup_admin caller)) (\<lambda>ok. throw_if (\<not> ok) CNotAuthorized)"

definition verify_lease_finalized :: "lease_instance \<Rightarrow> unit cleanup" where
  "verify_lease_finalized l = throw_if (status l \<noteq> LTerminated \<and> status l \<noteq> LExpired) LeaseNotFinalized"

definition verify_prune_cooldown :: "env \<Rightarrow> lease_instance \<Rightarrow> unit cleanup" where
  "verify_prune_cooldown env l = bind (chk_u64 (end_date l + PRUNE_COOLDOWN_SECONDS)) (\<lambda>t.
     throw_if (ledger_timestamp env < t) PruneCooldownNotMet)"

definition verify_no_legal_holds :: "int \<Rightarrow> unit cleanup" where
  "verify_no_legal_holds lid = bind (gets (\<lambda>s. cs_holds s lid)) (\<lambda>h. throw_if (h \<noteq> None) ActiveLegalHold)"

section \<open>Sizes, hashes, tombstones\<close>

definition calculate_lease_storage_size :: "int \<Rightarrow> int cleanup" where
  "calculate_lease_storage_size lid = bind (gets (\<lambda>s. cs_leases s lid)) (\<lambda>x. case x of
     None \<Rightarrow> return 0
   | Some l \<Rightarrow>
     bind (chk_u32 (int (length (arbitrators l)) * 32)) (\<lambda>a.
     bind (chk_u32 (512 + a)) (\<lambda>b. bind (chk_u32 (b + 8 * 16)) (\<lambda>c. chk_u32 (c + 4 * 64)))))"

definition calculate_tombstone_size :: int where
  "calculate_tombstone_size = 128"

definition compute_lease_hash :: "sha \<Rightarrow> lease_instance \<Rightarrow> bytes32" where
  "compute_lease_hash sha256 l = sha256 [HAddress (landlord l), HAddress (tenant l), HInt (rent_amount l),
     HInt (deposit_amount l), HInt (start_date l), HInt (end_date l), HStatus (status l), HInt (rent_paid l),
     HInt (cumulative_payments l)]"

definition compute_string_hash :: "sha \<Rightarrow> string \<Rightarrow> bytes32" where
  "compute_string_hash sha256 x = sha256 [HString x]"

definition compute_address_hash :: "sha \<Rightarrow> address \<Rightarrow> bytes32" where
  "compute_address_hash sha256 a = sha256 [HAddress a]"

definition compute_tombstone_hash :: "sha \<Rightarrow> lease_tombstone \<Rightarrow> bytes32" where
  "compute_tombstone_hash sha256 t = sha256 [HInt (lt_lease_id t), HHash (lt_original_hash t),
     HInt (lt_terminated_at t), HStatus (lt_final_status t), HInt (lt_total_rent_paid t), HInt (lt_total_deposits t),
     HInt (lt_pruned_at t)]"

definition create_tombstone :: "sha \<Rightarrow> env \<Rightarrow> lease_instance \<Rightarrow> int \<Rightarrow> address \<Rightarrow> lease_tombstone cleanup" where
  "create_tombstone sha256 env l lid caller =
     bind (chk_i128 (deposit_amount l + security_deposit l)) (\<lambda>deposits.
     return \<lparr>lt_lease_id = lid, lt_original_hash = compute_lease_hash sha256 l, lt_terminated_at = end_date l,
       lt_terminated_by = caller, lt_final_status = status l, lt_total_rent_paid = rent_paid l,
       lt_total_deposits = deposits, lt_property_uri_hash = compute_string_hash sha256 (property_uri l),
       lt_tenant_anonymous_hash = compute_address_hash sha256 (tenant l),
       lt_landlord_anonymous_hash = compute_address_hash sha256 (landlord l), lt_created_at = start_date l,
       lt_pruned_at = ledger_timestamp env, lt_pruned_by = caller, lt_bytes_recovered = 0\<rparr>)"

section \<open>Metrics\<close>

definition get_storage_metrics :: "cleanup_state \<Rightarrow> storage_metrics" where
  "get_storage_metrics s = (case cs_metrics s of Some m \<Rightarrow> m | None \<Rightarrow>
     \<lparr>sm_total_leases_pruned = 0, sm_total_bytes_recovered = 0, sm_total_tombstones_created = 0,
      sm_active_legal_holds = 0, sm_last_prune_timestamp = 0, sm_average_lease_size_bytes = 0\<rparr>)"

definition save_metrics :: "storage_metrics \<Rightarrow> unit cleanup" where
  "save_metrics m = modify (\<lambda>s. s\<lparr>cs_metrics := Some m\<rparr>)"

definition update_storage_metrics :: "env \<Rightarrow> int \<Rightarrow> unit cleanup" where
  "update_storage_metrics env bytes_recovered =
     bind (gets get_storage_metrics) (\<lambda>m.
     bind (chk_u64 (sm_total_leases_pruned m + 1)) (\<lambda>n.
     bind (chk_u64 (sm_total_bytes_recovered m + bytes_recovered)) (\<lambda>b.
     bind (chk_u64 (sm_total_tombstones_created m + 1)) (\<lambda>t.
     save_metrics (m\<lparr>sm_total_leases_pruned := n, sm_total_bytes_recovered := b, sm_total_tombstones_created := t,
       sm_last_prune_timestamp := ledger_timestamp env,
       sm_average_lease_size_bytes := if n > 0 then as_u32 (b div n) else sm_average_lease_size_bytes m\<rparr>)))))"

definition increment_legal_holds :: "unit cleanup" where
  "increment_legal_holds = bind (gets get_storage_metrics) (\<lambda>m.
     bind (chk_u64 (sm_active_legal_holds m + 1)) (\<lambda>n. save_metrics (m\<lparr>sm_active_legal_holds := n\<rparr>)))"

definition decrement_legal_holds :: "unit cleanup" where
  "decrement_legal_holds = bind (gets get_storage_metrics) (\<lambda>m.
     save_metrics (m\<lparr>sm_active_legal_holds := sat_u64 (sm_active_legal_holds m - 1)\<rparr>))"

section \<open>Operations\<close>

definition cleanup_related_data :: "address \<times> address \<Rightarrow> int \<Rightarrow> unit cleanup" where
  "cleanup_related_data drawn lid = modify (\<lambda>s. s\<lparr>cs_payers := cs_payers s - {(lid, fst drawn)},
     cs_balances := (cs_balances s)((lid, snd drawn) := None), cs_tenant_flags := cs_tenant_flags s - {lid}\<rparr>)"

definition execute_storage_cleanup :: "address \<times> address \<Rightarrow> int \<Rightarrow> lease_tombstone \<Rightarrow> int cleanup" where
  "execute_storage_cleanup drawn lid tombstone =
     bind (calculate_lease_storage_size lid) (\<lambda>bytes_before.
     bind (modify (\<lambda>s. s\<lparr>cs_leases := (cs_leases s)(lid := None)\<rparr>)) (\<lambda>_.
     bind (cleanup_related_data drawn lid) (\<lambda>_.
     bind (modify (\<lambda>s. s\<lparr>cs_tombstones := (cs_tombstones s)(lid \<mapsto> tombstone)\<rparr>)) (\<lambda>_.
     return (sat_u32 (bytes_before - calculate_tombstone_size))))))"

definition prune_finalized_lease :: "sha \<Rightarrow> address \<times> address \<Rightarrow> env \<Rightarrow> int \<Rightarrow> address \<Rightarrow> bytes32 cleanup" where
  "prune_finalized_lease sha256 drawn env lid caller =
     bind (verify_prune_authorization caller) (\<lambda>_.
     bind (gets (\<lambda>s. cs_leases s lid)) (\<lambda>x. bind (ok_or x CLeaseNotFound) (\<lambda>l.
     bind (verify_lease_finalized l) (\<lambda>_.
     bind (verify_prune_cooldown env l) (\<lambda>_.
     bind (verify_no_legal_holds lid) (\<lambda>_.
     bind (calculate_lease_storage_size lid) (\<lambda>_.
     bind (create_tombstone sha256 env l lid caller) (\<lambda>tombstone.
     let tombstone_hash = compute_tombstone_hash sha256 tombstone in
     bind (execute_storage_cleanup drawn lid tombstone) (\<lambda>bytes_recovered.
     bind (update_storage_metrics env bytes_recovered) (\<lambda>_.
     bind (publish (LeaseDataPruned lid bytes_recovered tombstone_hash caller (ledger_timestamp env))) (\<lambda>_.
     return tombstone_hash)))))))))))"

definition place_legal_hold :: "env \<Rightarrow> int \<Rightarrow> legal_hold_type \<Rightarrow> string \<Rightarrow> int option \<Rightarrow> address \<Rightarrow> unit cleanup" where
  "place_legal_hold env lid hold_type reason expires caller =
     bind (verify_legal_authority caller) (\<lambda>_.
     bind (gets (\<lambda>s. cs_leases s lid)) (\<lambda>x. bind (ok_or x CLeaseNotFound) (\<lambda>_.
     bind (gets (\<lambda>s. cs_holds s lid)) (\<lambda>h.
     bind (throw_if (h \<noteq> None) ActiveLegalHold) (\<lambda>_.
     bind (modify (\<lambda>s. s\<lparr>cs_holds := (cs_holds s)(lid \<mapsto> \<lparr>lh_lease_id = lid, lh_hold_type = hold_type,
       lh_initiated_by = caller, lh_initiated_at = ledger_timestamp env, lh_reason = reason,
       lh_expires_at = expires\<rparr>)\<rparr>)) (\<lambda>_.
     bind increment_legal_holds (\<lambda>_.
     publish (LegalHoldPlaced lid hold_type caller reason expires))))))))"

definition release_legal_hold :: "env \<Rightarrow> int \<Rightarrow> address \<Rightarrow> unit cleanup" where
  "release_legal_hold env lid caller =
     bind (verify_legal_authority caller) (\<lambda>_.
     bind (gets (\<lambda>s. cs_holds s lid)) (\<lambda>x. bind (ok_or x CLeaseNotFound) (\<lambda>h.
     bind (gets (is_cleanup_admin caller)) (\<lambda>admin.
     bind (throw_if (lh_initiated_by h \<noteq> caller \<and> \<not> admin) CNotAuthorized) (\<lambda>_.
     bind (modify (\<lambda>s. s\<lparr>cs_holds := (cs_holds s)(lid := None)\<rparr>)) (\<lambda>_.
     bind decrement_legal_holds (\<lambda>_.
     publish (LegalHoldReleased lid caller (ledger_timestamp env)))))))))"

definition get_lease_tombstone :: "int \<Rightarrow> cleanup_state \<Rightarrow> lease_tombstone option" where
  "get_lease_tombstone lid s = cs_tombstones s lid"

definition verify_lease_integrity :: "sha \<Rightarrow> int \<Rightarrow> bytes32 \<Rightarrow> bool cleanup" where
  "verify_lease_integrity sha256 lid provided_hash =
     bind (gets (get_lease_tombstone lid)) (\<lambda>x. bind (ok_or x CLeaseNotFound) (\<lambda>t.
     return (compute_tombstone_hash sha256 t = provided_hash)))"

definition add_prune_whitelist :: "env \<Rightarrow> address \<Rightarrow> address \<Rightarrow> unit cleanup" where
  "add_prune_whitelist env admin a =
     bind (gets (is_cleanup_admin admin)) (\<lambda>ok. bind (throw_if (\<not> ok) CNotAuthorized) (\<lambda>_.
     bind (require_auth env admin) (\<lambda>_. modify (\<lambda>s. s\<lparr>cs_whitelist := insert a (cs_whitelist s)\<rparr>))))"

definition remove_prune_whitelist :: "env \<Rightarrow> address \<Rightarrow> address \<Rightarrow> unit cleanup" where
  "remove_prune_whitelist env admin a =
     bind (gets (is_cleanup_admin admin)) (\<lambda>ok. bind (throw_if (\<not> ok) CNotAuthorized) (\<lambda>_.
     bind (require_auth env admin) (\<lambda>_. modify (\<lambda>s. s\<lparr>cs_whitelist := cs_whitelist s - {a}\<rparr>))))"

section \<open>The clean-up as a system\<close>

text \<open>The lease contract works on the same storage: it saves leases, and deletes them when it archives them
  (\<^verbatim>\<open>delete_lease_instance\<close>), as the sweep of proposals and the storage optimizer do; it records payers, balances of
  roommates and flags of tenants, and its administrator. Calls whose arguments exceed the widths of their types are not
  delivered.\<close>

datatype cleanup_call =
    PruneLease "address \<times> address" int address
  | PlaceHold int legal_hold_type string "int option" address
  | ReleaseHold int address
  | AddWhitelist address address
  | RemoveWhitelist address address
  | SavesLease int lease_instance
  | DeletesLease int
  | RecordsPayer int address
  | RecordsBalance int address int
  | FlagsTenant int
  | SetsAdmin address

fun cleanup_exec :: "sha \<Rightarrow> env \<Rightarrow> cleanup_call \<Rightarrow> unit cleanup" where
  "cleanup_exec sha256 env (PruneLease drawn lid a) =
     bind (prune_finalized_lease sha256 drawn env lid a) (\<lambda>_. return ())"
| "cleanup_exec sha256 env (PlaceHold lid h r x a) = place_legal_hold env lid h r x a"
| "cleanup_exec sha256 env (ReleaseHold lid a) = release_legal_hold env lid a"
| "cleanup_exec sha256 env (AddWhitelist a b) = add_prune_whitelist env a b"
| "cleanup_exec sha256 env (RemoveWhitelist a b) = remove_prune_whitelist env a b"
| "cleanup_exec sha256 env (SavesLease lid l) = modify (\<lambda>s. s\<lparr>cs_leases := (cs_leases s)(lid \<mapsto> l)\<rparr>)"
| "cleanup_exec sha256 env (DeletesLease lid) = modify (\<lambda>s. s\<lparr>cs_leases := (cs_leases s)(lid := None)\<rparr>)"
| "cleanup_exec sha256 env (RecordsPayer lid a) = modify (\<lambda>s. s\<lparr>cs_payers := insert (lid, a) (cs_payers s)\<rparr>)"
| "cleanup_exec sha256 env (RecordsBalance lid a n) = modify (\<lambda>s. s\<lparr>cs_balances := (cs_balances s)((lid, a) \<mapsto> n)\<rparr>)"
| "cleanup_exec sha256 env (FlagsTenant lid) = modify (\<lambda>s. s\<lparr>cs_tenant_flags := insert lid (cs_tenant_flags s)\<rparr>)"
| "cleanup_exec sha256 env (SetsAdmin a) = modify (\<lambda>s. s\<lparr>cs_admin := Some a\<rparr>)"

definition cleanup_step :: "sha \<Rightarrow> env \<times> cleanup_call \<Rightarrow> cleanup_state \<Rightarrow> cleanup_state" where
  "cleanup_step sha256 m s = snd (invoke (cleanup_exec sha256 (fst m) (snd m)) s)"

end
