(* ===== verification/Cleanup_Props.thy ===== *)
theory Cleanup_Props
  imports Storage_Cleanup Sample_Lease
begin

text \<open>When leases are pruned, what is left of them, what legal holds protect, and what the metrics count.\<close>

section \<open>Effects of the operations\<close>

lemma cleanup_guard_Ok_iff [proc_ok]:
  "verify_prune_authorization a s = (Ok u, s') \<longleftrightarrow> (a \<in> cs_whitelist s \<or> cs_admin s = Some a) \<and> s' = s"
  "verify_legal_authority a s = (Ok u, s') \<longleftrightarrow> cs_admin s = Some a \<and> s' = s"
  "verify_lease_finalized l s = (Ok u, s') \<longleftrightarrow> (status l = LTerminated \<or> status l = LExpired) \<and> s' = s"
  "verify_prune_cooldown env l s = (Ok u, s') \<longleftrightarrow> is_u64 (end_date l + PRUNE_COOLDOWN_SECONDS)
     \<and> end_date l + PRUNE_COOLDOWN_SECONDS \<le> ledger_timestamp env \<and> s' = s"
  "verify_no_legal_holds lid s = (Ok u, s') \<longleftrightarrow> cs_holds s lid = None \<and> s' = s"
  by (auto simp: verify_prune_authorization_def verify_legal_authority_def verify_lease_finalized_def
      verify_prune_cooldown_def verify_no_legal_holds_def is_cleanup_admin_def proc_ok)

definition lease_bytes :: "lease_instance \<Rightarrow> int" where
  "lease_bytes l = 896 + 32 * int (length (arbitrators l))"

lemma storage_size_Ok_iff [proc_ok]:
  "calculate_lease_storage_size lid s = (Ok n, s') \<longleftrightarrow> s' = s \<and> (case cs_leases s lid of None \<Rightarrow> n = 0
     | Some l \<Rightarrow> n = lease_bytes l \<and> is_u32 n)"
  by (auto simp: calculate_lease_storage_size_def lease_bytes_def proc_ok is_u32_def split: option.splits)

lemma create_tombstone_Ok_iff [proc_ok]:
  "create_tombstone sha env l lid a s = (Ok t, s') \<longleftrightarrow> is_i128 (deposit_amount l + security_deposit l) \<and> s' = s
     \<and> t = \<lparr>lt_lease_id = lid, lt_original_hash = compute_lease_hash sha l, lt_terminated_at = end_date l,
       lt_terminated_by = a, lt_final_status = status l, lt_total_rent_paid = rent_paid l,
       lt_total_deposits = deposit_amount l + security_deposit l,
       lt_property_uri_hash = compute_string_hash sha (property_uri l),
       lt_tenant_anonymous_hash = compute_address_hash sha (tenant l),
       lt_landlord_anonymous_hash = compute_address_hash sha (landlord l), lt_created_at = start_date l,
       lt_pruned_at = ledger_timestamp env, lt_pruned_by = a, lt_bytes_recovered = 0\<rparr>"
  by (auto simp: create_tombstone_def proc_ok)

text \<open>The metrics after a lease of the given size was pruned, and when they still fit.\<close>

definition metrics_after :: "env \<Rightarrow> int \<Rightarrow> storage_metrics \<Rightarrow> storage_metrics" where
  "metrics_after env b m = m\<lparr>sm_total_leases_pruned := sm_total_leases_pruned m + 1,
     sm_total_bytes_recovered := sm_total_bytes_recovered m + b,
     sm_total_tombstones_created := sm_total_tombstones_created m + 1, sm_last_prune_timestamp := ledger_timestamp env,
     sm_average_lease_size_bytes := if sm_total_leases_pruned m + 1 > 0
       then as_u32 ((sm_total_bytes_recovered m + b) div (sm_total_leases_pruned m + 1))
       else sm_average_lease_size_bytes m\<rparr>"

definition metrics_fit :: "int \<Rightarrow> storage_metrics \<Rightarrow> bool" where
  "metrics_fit b m \<longleftrightarrow> is_u64 (sm_total_leases_pruned m + 1) \<and> is_u64 (sm_total_bytes_recovered m + b)
     \<and> is_u64 (sm_total_tombstones_created m + 1)"

lemma metrics_Ok_iff [proc_ok]:
  "update_storage_metrics env b s = (Ok u, s') \<longleftrightarrow> metrics_fit b (get_storage_metrics s)
     \<and> s' = s\<lparr>cs_metrics := Some (metrics_after env b (get_storage_metrics s))\<rparr>"
  "increment_legal_holds s = (Ok u, s') \<longleftrightarrow> is_u64 (sm_active_legal_holds (get_storage_metrics s) + 1)
     \<and> s' = s\<lparr>cs_metrics := Some ((get_storage_metrics s)\<lparr>sm_active_legal_holds :=
         sm_active_legal_holds (get_storage_metrics s) + 1\<rparr>)\<rparr>"
  "decrement_legal_holds s = (Ok u, s') \<longleftrightarrow> s' = s\<lparr>cs_metrics := Some ((get_storage_metrics s)\<lparr>sm_active_legal_holds :=
         sat_u64 (sm_active_legal_holds (get_storage_metrics s) - 1)\<rparr>)\<rparr>"
  by (auto simp: update_storage_metrics_def increment_legal_holds_def decrement_legal_holds_def save_metrics_def
      metrics_after_def metrics_fit_def proc_ok)

lemma sat_recovered: "is_u32 (lease_bytes l) \<Longrightarrow> sat_u32 (lease_bytes l - calculate_tombstone_size) = lease_bytes l - 128"
  by (auto simp: sat_defs is_u32_def calculate_tombstone_size_def lease_bytes_def)

text \<open>When a prune succeeds, and its effect on the records.\<close>

definition prunable :: "env \<Rightarrow> address \<Rightarrow> int \<Rightarrow> lease_instance \<Rightarrow> cleanup_state \<Rightarrow> bool" where
  "prunable env a lid l s \<longleftrightarrow> (a \<in> cs_whitelist s \<or> cs_admin s = Some a)
     \<and> (status l = LTerminated \<or> status l = LExpired) \<and> end_date l + 60 * 86400 \<le> ledger_timestamp env
     \<and> cs_holds s lid = None"

definition prune_fits :: "lease_instance \<Rightarrow> cleanup_state \<Rightarrow> bool" where
  "prune_fits l s \<longleftrightarrow> is_u64 (end_date l + 60 * 86400) \<and> is_u32 (lease_bytes l)
     \<and> is_i128 (deposit_amount l + security_deposit l) \<and> metrics_fit (lease_bytes l - 128) (get_storage_metrics s)"

definition tombstone_of :: "sha \<Rightarrow> env \<Rightarrow> address \<Rightarrow> int \<Rightarrow> lease_instance \<Rightarrow> lease_tombstone" where
  "tombstone_of sha env a lid l = \<lparr>lt_lease_id = lid, lt_original_hash = compute_lease_hash sha l,
     lt_terminated_at = end_date l, lt_terminated_by = a, lt_final_status = status l, lt_total_rent_paid = rent_paid l,
     lt_total_deposits = deposit_amount l + security_deposit l,
     lt_property_uri_hash = compute_string_hash sha (property_uri l),
     lt_tenant_anonymous_hash = compute_address_hash sha (tenant l),
     lt_landlord_anonymous_hash = compute_address_hash sha (landlord l), lt_created_at = start_date l,
     lt_pruned_at = ledger_timestamp env, lt_pruned_by = a, lt_bytes_recovered = 0\<rparr>"

lemma cooldown_value: "PRUNE_COOLDOWN_SECONDS = 60 * 86400"
  by (simp add: PRUNE_COOLDOWN_SECONDS_def PRUNE_COOLDOWN_DAYS_def DAY_IN_SECONDS_def)

lemma prune_Ok_iff:
  "(\<exists>h. prune_finalized_lease sha drawn env lid a s = (Ok h, s'))
   \<longleftrightarrow> (\<exists>l. cs_leases s lid = Some l \<and> prunable env a lid l s \<and> prune_fits l s
     \<and> s' = s\<lparr>cs_leases := (cs_leases s)(lid := None), cs_payers := cs_payers s - {(lid, fst drawn)},
         cs_balances := (cs_balances s)((lid, snd drawn) := None), cs_tenant_flags := cs_tenant_flags s - {lid},
         cs_tombstones := (cs_tombstones s)(lid \<mapsto> tombstone_of sha env a lid l),
         cs_metrics := Some (metrics_after env (lease_bytes l - 128) (get_storage_metrics s)),
         events := events s @ [LeaseDataPruned lid (lease_bytes l - 128)
           (compute_tombstone_hash sha (tombstone_of sha env a lid l)) a (ledger_timestamp env)]\<rparr>)"
proof (cases "cs_leases s lid")
  case (Some l)
  let ?t = "tombstone_of sha env a lid l"
  have "(\<exists>h. prune_finalized_lease sha drawn env lid a s = (Ok h, s'))
    \<longleftrightarrow> prunable env a lid l s \<and> is_u64 (end_date l + 60 * 86400) \<and> is_u32 (lease_bytes l)
      \<and> is_i128 (deposit_amount l + security_deposit l) \<and> (\<exists>b s1. execute_storage_cleanup drawn lid ?t s = (Ok b, s1)
        \<and> metrics_fit b (get_storage_metrics s1)
        \<and> s' = s1\<lparr>cs_metrics := Some (metrics_after env b (get_storage_metrics s1)),
             events := events s1 @ [LeaseDataPruned lid b (compute_tombstone_hash sha ?t) a (ledger_timestamp env)]\<rparr>)"
    by (auto simp: prune_finalized_lease_def proc_ok Some prunable_def cooldown_value Let_def tombstone_of_def)
  moreover have "execute_storage_cleanup drawn lid ?t s = (Ok b, s1) \<longleftrightarrow> is_u32 (lease_bytes l) \<and> b = lease_bytes l - 128
      \<and> s1 = s\<lparr>cs_leases := (cs_leases s)(lid := None), cs_payers := cs_payers s - {(lid, fst drawn)},
         cs_balances := (cs_balances s)((lid, snd drawn) := None), cs_tenant_flags := cs_tenant_flags s - {lid},
         cs_tombstones := (cs_tombstones s)(lid \<mapsto> ?t)\<rparr>" for b s1
    by (auto simp: execute_storage_cleanup_def cleanup_related_data_def proc_ok Some sat_recovered)
  ultimately show ?thesis by (auto simp: Some prune_fits_def get_storage_metrics_def)
qed (simp add: prune_finalized_lease_def proc_ok)

lemma prune_result:
  "prune_finalized_lease sha drawn env lid a s = (Ok h, s') \<Longrightarrow>
     \<exists>t. cs_tombstones s' lid = Some t \<and> h = compute_tombstone_hash sha t \<and> cs_leases s' lid = None"
  unfolding prune_finalized_lease_def execute_storage_cleanup_def cleanup_related_data_def Let_def
  by (auto simp: proc_ok)

lemma hold_Ok_iff [proc_ok]:
  "place_legal_hold env lid x r e a s = (Ok u, s') \<longleftrightarrow> cs_admin s = Some a \<and> cs_leases s lid \<noteq> None
     \<and> cs_holds s lid = None \<and> is_u64 (sm_active_legal_holds (get_storage_metrics s) + 1)
     \<and> s' = s\<lparr>cs_holds := (cs_holds s)(lid \<mapsto> \<lparr>lh_lease_id = lid, lh_hold_type = x, lh_initiated_by = a,
           lh_initiated_at = ledger_timestamp env, lh_reason = r, lh_expires_at = e\<rparr>),
         cs_metrics := Some ((get_storage_metrics s)\<lparr>sm_active_legal_holds :=
           sm_active_legal_holds (get_storage_metrics s) + 1\<rparr>),
         events := events s @ [LegalHoldPlaced lid x a r e]\<rparr>"
  "release_legal_hold env lid a s = (Ok u, s') \<longleftrightarrow> cs_admin s = Some a \<and> cs_holds s lid \<noteq> None
     \<and> s' = s\<lparr>cs_holds := (cs_holds s)(lid := None), cs_metrics := Some ((get_storage_metrics s)\<lparr>
           sm_active_legal_holds := sat_u64 (sm_active_legal_holds (get_storage_metrics s) - 1)\<rparr>),
         events := events s @ [LegalHoldReleased lid a (ledger_timestamp env)]\<rparr>"
  unfolding place_legal_hold_def release_legal_hold_def
  by (auto simp: proc_ok get_storage_metrics_def is_cleanup_admin_def)

lemma whitelist_Ok_iff [proc_ok]:
  "add_prune_whitelist env a b s = (Ok u, s') \<longleftrightarrow> cs_admin s = Some a \<and> a \<in> set (auths env)
     \<and> s' = s\<lparr>cs_whitelist := insert b (cs_whitelist s)\<rparr>"
  "remove_prune_whitelist env a b s = (Ok u, s') \<longleftrightarrow> cs_admin s = Some a \<and> a \<in> set (auths env)
     \<and> s' = s\<lparr>cs_whitelist := cs_whitelist s - {b}\<rparr>"
  by (auto simp: add_prune_whitelist_def remove_prune_whitelist_def is_cleanup_admin_def proc_ok)

lemma prune_exec_Ok:
  "cleanup_exec sha env (PruneLease d lid a) s = (Ok u, s') \<longleftrightarrow> (\<exists>h. prune_finalized_lease sha d env lid a s = (Ok h, s'))"
  by (auto simp: proc_ok)

section \<open>Invariants\<close>

definition tombstone_ok :: "int \<Rightarrow> lease_tombstone \<Rightarrow> bool" where
  "tombstone_ok lid t \<longleftrightarrow> lt_lease_id t = lid \<and> (lt_final_status t = LTerminated \<or> lt_final_status t = LExpired)
     \<and> lt_terminated_at t + 60 * 86400 \<le> lt_pruned_at t \<and> lt_terminated_by t = lt_pruned_by t"

definition metrics_ok :: "storage_metrics \<Rightarrow> nat \<Rightarrow> nat \<Rightarrow> bool" where
  "metrics_ok m holds tombstones \<longleftrightarrow> sm_active_legal_holds m = int holds \<and> is_u64 (sm_active_legal_holds m)
     \<and> sm_total_tombstones_created m = sm_total_leases_pruned m \<and> int tombstones \<le> sm_total_leases_pruned m
     \<and> 768 * sm_total_leases_pruned m \<le> sm_total_bytes_recovered m
     \<and> sm_average_lease_size_bytes m = as_u32 (sm_total_bytes_recovered m div sm_total_leases_pruned m)"

definition cleanup_ok :: "cleanup_state \<Rightarrow> bool" where
  "cleanup_ok s \<longleftrightarrow> finite (dom (cs_holds s)) \<and> finite (dom (cs_tombstones s))
     \<and> (\<forall>lid t. cs_tombstones s lid = Some t \<longrightarrow> tombstone_ok lid t)
     \<and> metrics_ok (get_storage_metrics s) (card (dom (cs_holds s))) (card (dom (cs_tombstones s)))"

lemma metrics_get_simps [simp]:
  "get_storage_metrics (s\<lparr>cs_metrics := Some m\<rparr>) = m"
  "get_storage_metrics (s\<lparr>cs_leases := x1\<rparr>) = get_storage_metrics s"
  "get_storage_metrics (s\<lparr>events := x2\<rparr>) = get_storage_metrics s"
  "get_storage_metrics (s\<lparr>cs_admin := x3\<rparr>) = get_storage_metrics s"
  "get_storage_metrics (s\<lparr>cs_whitelist := x4\<rparr>) = get_storage_metrics s"
  "get_storage_metrics (s\<lparr>cs_payers := x5\<rparr>) = get_storage_metrics s"
  "get_storage_metrics (s\<lparr>cs_balances := x6\<rparr>) = get_storage_metrics s"
  "get_storage_metrics (s\<lparr>cs_tenant_flags := x7\<rparr>) = get_storage_metrics s"
  by (simp_all add: get_storage_metrics_def)

lemma metrics_ok_prune:
  "metrics_ok m h k \<Longrightarrow> k' \<le> Suc k \<Longrightarrow> metrics_ok (metrics_after env (lease_bytes l - 128) m) h k'"
  by (auto simp: metrics_ok_def metrics_after_def lease_bytes_def)

lemma metrics_ok_hold:
  "metrics_ok m h k \<Longrightarrow> is_u64 (sm_active_legal_holds m + 1)
     \<Longrightarrow> metrics_ok (m\<lparr>sm_active_legal_holds := sm_active_legal_holds m + 1\<rparr>) (Suc h) k"
  "metrics_ok m (Suc h) k \<Longrightarrow> metrics_ok (m\<lparr>sm_active_legal_holds := sat_u64 (sm_active_legal_holds m - 1)\<rparr>) h k"
  by (auto simp: metrics_ok_def is_u64_def sat_defs)

lemma card_release: "finite (dom m) \<Longrightarrow> m k \<noteq> None \<Longrightarrow> card (dom m) = Suc (card (dom m - {k}))"
  by (rule card.remove) auto

lemma cleanup_exec_ok:
  assumes ok: "cleanup_ok s" and run: "cleanup_exec sha env c s = (Ok u, s')"
  shows "cleanup_ok s'"
proof (cases c)
  case (PruneLease d lid a)
  then obtain l where l: "prunable env a lid l s"
    and s': "s' = s\<lparr>cs_leases := (cs_leases s)(lid := None), cs_payers := cs_payers s - {(lid, fst d)},
         cs_balances := (cs_balances s)((lid, snd d) := None), cs_tenant_flags := cs_tenant_flags s - {lid},
         cs_tombstones := (cs_tombstones s)(lid \<mapsto> tombstone_of sha env a lid l),
         cs_metrics := Some (metrics_after env (lease_bytes l - 128) (get_storage_metrics s)),
         events := events s @ [LeaseDataPruned lid (lease_bytes l - 128)
           (compute_tombstone_hash sha (tombstone_of sha env a lid l)) a (ledger_timestamp env)]\<rparr>"
    using run unfolding PruneLease prune_exec_Ok prune_Ok_iff by blast
  have "tombstone_ok lid (tombstone_of sha env a lid l)"
    using l by (auto simp: tombstone_ok_def tombstone_of_def prunable_def)
  moreover have "card (insert lid (dom (cs_tombstones s))) \<le> Suc (card (dom (cs_tombstones s)))"
    using ok by (simp add: cleanup_ok_def card_insert_if)
  ultimately show ?thesis using ok unfolding s' by (auto simp: cleanup_ok_def intro: metrics_ok_prune)
next
  case (PlaceHold lid x r e a)
  then show ?thesis using ok run by (auto simp: cleanup_ok_def proc_ok card_insert_if domIff intro: metrics_ok_hold)
next
  case (ReleaseHold lid a)
  then have h: "cs_holds s lid \<noteq> None" using run by (simp add: proc_ok)
  moreover have "finite (dom (cs_holds s))" using ok by (simp add: cleanup_ok_def)
  ultimately have "card (dom (cs_holds s)) = Suc (card (dom (cs_holds s) - {lid}))" by (rule card_release [rotated])
  then show ?thesis using ok run ReleaseHold by (auto simp: cleanup_ok_def proc_ok intro: metrics_ok_hold(2))
qed (use ok run in \<open>auto simp: cleanup_ok_def proc_ok\<close>)

lemma cleanup_step_ok: "cleanup_ok s \<Longrightarrow> cleanup_ok (cleanup_step sha m s)"
  by (cases "cleanup_exec sha (fst m) (snd m)" s rule: invoke_cases) (auto simp: cleanup_step_def intro: cleanup_exec_ok)

interpretation cleanup: contract_system cleanup_ok "cleanup_step sha" cleanup_init for sha
  by unfold_locales (rule cleanup_step_ok, auto simp: cleanup_ok_def cleanup_init_def metrics_ok_def
    get_storage_metrics_def is_u64_def u64_max_def as_u32_def)

text \<open>The facts about one lease that calls on other leases, and the calls excluded, leave alone.\<close>

lemma cleanup_step_hold:
  "cs_holds s lid = Some h \<Longrightarrow> \<forall>a. snd m \<noteq> ReleaseHold lid a \<Longrightarrow> cs_holds (cleanup_step sha m s) lid = Some h"
proof (cases "cleanup_exec sha (fst m) (snd m)" s rule: invoke_cases)
  case (ok u s')
  assume h: "cs_holds s lid = Some h" "\<forall>a. snd m \<noteq> ReleaseHold lid a"
  have st: "cleanup_step sha m s = s'" and run: "cleanup_exec sha (fst m) (snd m) s = (Ok u, s')"
    using ok by (simp_all add: cleanup_step_def)
  show ?thesis
  proof (cases "snd m")
    case (PruneLease d x a)
    then show ?thesis using run h unfolding st PruneLease prune_exec_Ok prune_Ok_iff by auto
  qed (use run h in \<open>auto simp: st proc_ok\<close>)
qed (simp add: cleanup_step_def)

text \<open>The hold is the last of the guards.\<close>

lemma held_prune_Err:
  assumes "cs_holds s lid \<noteq> None" "a \<in> cs_whitelist s \<or> cs_admin s = Some a" "cs_leases s lid = Some l"
    and "status l = LTerminated \<or> status l = LExpired" "is_u64 (end_date l + 60 * 86400)"
    and "end_date l + 60 * 86400 \<le> ledger_timestamp env"
  shows "fst (prune_finalized_lease sha drawn env lid a s) = Err ActiveLegalHold"
  using assms by (auto simp: prune_finalized_lease_def verify_prune_authorization_def verify_lease_finalized_def
    verify_prune_cooldown_def verify_no_legal_holds_def is_cleanup_admin_def cooldown_value bind_run gets_run
    throw_if_run ok_or_run chk_w_run)

lemma cleanup_step_tombstone:
  "cs_tombstones s lid = Some t \<and> cs_leases s lid = None \<Longrightarrow> \<forall>l. snd m \<noteq> SavesLease lid l
     \<Longrightarrow> cs_tombstones (cleanup_step sha m s) lid = Some t \<and> cs_leases (cleanup_step sha m s) lid = None"
proof (cases "cleanup_exec sha (fst m) (snd m)" s rule: invoke_cases)
  case (ok u s')
  assume h: "cs_tombstones s lid = Some t \<and> cs_leases s lid = None" "\<forall>l. snd m \<noteq> SavesLease lid l"
  have st: "cleanup_step sha m s = s'" and run: "cleanup_exec sha (fst m) (snd m) s = (Ok u, s')"
    using ok by (simp_all add: cleanup_step_def)
  show ?thesis
  proof (cases "snd m")
    case (PruneLease d x a)
    then show ?thesis using run h unfolding st PruneLease prune_exec_Ok prune_Ok_iff by (auto)
  qed (use run h in \<open>auto simp: st proc_ok\<close>)
qed (simp add: cleanup_step_def)

lemma fold_keeps:
  "P s \<Longrightarrow> \<forall>m \<in> set ms. Q m \<Longrightarrow> (\<And>m s. P s \<Longrightarrow> Q m \<Longrightarrow> P (f m s)) \<Longrightarrow> P (fold f ms s)"
  by (induction ms arbitrary: s) auto

section \<open>Properties\<close>


text \<open>Claim C30. The integrity of a pruned lease can be verified for good. After a prune, whatever calls follow that
  do not save the lease anew, the hash it returned, and no other, verifies, and the lease is gone: no second
  tombstone replaces the first.\<close>
theorem tombstone_verifies_for_good:
  assumes "prune_finalized_lease sha drawn env lid a s = (Ok h, s')"
    and "\<forall>m \<in> set ms. \<forall>l. snd m \<noteq> SavesLease lid l" and "s'' = fold (cleanup_step sha) ms s'"
  shows "verify_lease_integrity sha lid h' s'' = (Ok (h' = h), s'') \<and> cs_leases s'' lid = None"
proof -
  obtain t where t: "cs_tombstones s' lid = Some t" "h = compute_tombstone_hash sha t" "cs_leases s' lid = None"
    using prune_result [OF assms(1)] by blast
  have "cs_tombstones s'' lid = Some t \<and> cs_leases s'' lid = None"
    unfolding assms(3) by (rule fold_keeps [OF _ assms(2)]) (use t cleanup_step_tombstone in blast)+
  then show ?thesis using t(2) by (auto simp: verify_lease_integrity_def get_lease_tombstone_def proc_run)
qed



section \<open>An example\<close>

definition cx_env :: "int \<Rightarrow> address list \<Rightarrow> env" where
  "cx_env now who = \<lparr>ledger_timestamp = now, ledger_sequence = 1, auths = who, current_contract = 99,
     ext = (\<lambda>cs c. Reply_unit)\<rparr>"

definition cx_sha :: sha where
  "cx_sha xs = length xs"

definition cx_setup :: "(env \<times> cleanup_call) list" where
  "cx_setup = [(cx_env 500 [], SetsAdmin 7), (cx_env 500 [7], AddWhitelist 7 8),
     (cx_env 1000 [], SavesLease 3 ((sample_lease 9000)\<lparr>status := LTerminated\<rparr>)),
     (cx_env 1000 [], SavesLease 4 ((sample_lease 9000)\<lparr>status := LTerminated\<rparr>)),
     (cx_env 1000 [], PlaceHold 4 Appeal ''r'' (Some 2000) 7)]"

definition cx_state :: cleanup_state where
  "cx_state = fold (cleanup_step cx_sha) cx_setup cleanup_init"

lemma cx_facts:
  "cs_leases cx_state 3 = Some ((sample_lease 9000)\<lparr>status := LTerminated\<rparr>)" "cs_holds cx_state 3 = None"
  "cs_leases cx_state 4 = Some ((sample_lease 9000)\<lparr>status := LTerminated\<rparr>)" "cs_admin cx_state = Some 7"
  "map_option lh_expires_at (cs_holds cx_state 4) = Some (Some 2000)" "8 \<in> cs_whitelist cx_state"
  "prune_fits ((sample_lease 9000)\<lparr>status := LTerminated\<rparr>) cx_state"
  by code_simp+


theorem tombstone_verifies_for_good_witness:
  "cs_leases (fold (cleanup_step cx_sha) [(cx_env 7000000 [], PruneLease (11, 12) 3 8)]
     (snd (prune_finalized_lease cx_sha (11, 12) (cx_env 6000000 []) 3 8 cx_state))) 3 = None"
proof -
  have "prune_finalized_lease cx_sha (11, 12) (cx_env 6000000 []) 3 8 cx_state
      = (Ok 7, snd (prune_finalized_lease cx_sha (11, 12) (cx_env 6000000 []) 3 8 cx_state))"
    by (intro prod_eqI) (code_simp, simp)
  from tombstone_verifies_for_good [OF this _ refl, of "[(cx_env 7000000 [], PruneLease (11, 12) 3 8)]"]
  show ?thesis by simp
qed



end
