(* ===== verification/Collateral_Health.thy ===== *)
theory Collateral_Health
  imports Soroban_Host
begin

text \<open>
  \<^verbatim>\<open>contracts/leaseflow_contracts/src/collateral_health_monitor.rs\<close>: the fiat value of the collateral of a lease, margin
  calls, their fulfilment and the emergency termination after the grace period. The addresses \<^verbatim>\<open>Address::generate\<close>
  makes up where the lessee is not known are parameters. The maps of the SDK are only looked up by key. Two values
  are used after they were moved (\<^verbatim>\<open>health_data\<close>, \<^verbatim>\<open>margin_call\<close>); they are read as the value moved.
\<close>

section \<open>State\<close>

datatype collateral_error =
    HUnauthorized
  | HLeaseNotFound
  | HOracleUnavailable
  | HPriceStale
  | InsufficientCollateral
  | MarginCallActive
  | GracePeriodExpired
  | UtilityAlreadyPaused
  | UtilityNotPaused
  | InvalidHealthFactor

record collateral_health =
  ch_lease_id :: int
  ch_collateral_token :: address
  ch_collateral_amount :: int
  ch_minimum_fiat_collateral :: int
  ch_current_fiat_value :: int
  ch_health_factor :: int
  ch_last_price_update :: int
  ch_status :: string

record margin_call =
  mc_lease_id :: int
  mc_lessee :: address
  mc_issued_at :: int
  mc_grace_period_end :: int
  mc_required_topup :: int
  mc_current_health_factor :: int
  mc_status :: string
  mc_emergency_termination_scheduled :: bool

record utility_pause =
  up_lessee :: address
  up_lease_id :: int
  up_paused_at :: int
  up_reason :: string
  up_margin_call_id :: int

record health_price =
  hp_price :: int
  hp_decimals :: int
  hp_last_update :: int
  hp_asset :: address

datatype health_event =
    CollateralHealthWarning int address int int int int
  | MarginCallExecuted int address int int int int
  | EmergencyTerminationTriggered int address int int int
  | UtilityTokenPaused address int string int

record health_state = "health_event host" +
  hs_health :: "int \<rightharpoonup> collateral_health"
  hs_margin_calls :: "int \<rightharpoonup> margin_call"
  hs_paused :: "address \<rightharpoonup> utility_pause"
  hs_oracle :: "address option"
  hs_threshold :: "int option"
  hs_grace_period :: "int option"

type_synonym 'a health = "(health_state, collateral_error, 'a) proc"

definition health_init :: health_state where
  "health_init = \<lparr>events = [], calls = [], hs_health = Map.empty, hs_margin_calls = Map.empty, hs_paused = Map.empty,
     hs_oracle = None, hs_threshold = None, hs_grace_period = None\<rparr>"

definition CRITICAL_HEALTH_THRESHOLD :: int where "CRITICAL_HEALTH_THRESHOLD = 9000"
definition DEFAULT_GRACE_PERIOD :: int where "DEFAULT_GRACE_PERIOD = 86400"
definition PRICE_STALENESS_THRESHOLD :: int where "PRICE_STALENESS_THRESHOLD = 3600"

section \<open>Prices and values\<close>

definition get_oracle_price :: "env \<Rightarrow> address \<Rightarrow> health_price health" where
  "get_oracle_price env token = bind (gets hs_oracle) (\<lambda>feed. bind (ok_or feed HOracleUnavailable) (\<lambda>_.
     return \<lparr>hp_price = 100000000, hp_decimals = 8, hp_last_update = ledger_timestamp env, hp_asset = token\<rparr>))"

definition calculate_fiat_value :: "int \<Rightarrow> int \<Rightarrow> int \<Rightarrow> int health" where
  "calculate_fiat_value amount price price_decimals =
     bind (chk_i128 (amount * price)) (\<lambda>x.
     bind (chk_i128 (10 ^ nat (if price_decimals \<ge> 8 then price_decimals - 8 else 8 - price_decimals))) (\<lambda>p.
     return (tdiv x p)))"

definition health_factor_of :: "int \<Rightarrow> int \<Rightarrow> int health" where
  "health_factor_of fiat_value minimum =
     bind (chk_i128 (fiat_value * 10000)) (\<lambda>x. bind (div_or_trap x minimum) (\<lambda>q. return (as_u32 q)))"

definition health_factor_or_full :: "int \<Rightarrow> int \<Rightarrow> int health" where
  "health_factor_or_full fiat_value minimum =
     (if minimum > 0 then health_factor_of fiat_value minimum else return 10000)"

definition status_of :: "int \<Rightarrow> int option \<Rightarrow> string" where
  "status_of factor threshold =
     (if factor < CRITICAL_HEALTH_THRESHOLD then ''under_collateralized''
      else if factor < (case threshold of None \<Rightarrow> 9500 | Some t \<Rightarrow> t) then ''warning''
      else ''healthy'')"

section \<open>Margin calls\<close>

definition pause_utility_token :: "env \<Rightarrow> address \<Rightarrow> int \<Rightarrow> string \<Rightarrow> unit health" where
  "pause_utility_token env lessee lid reason =
     bind (gets (\<lambda>s. hs_paused s lessee)) (\<lambda>p.
     bind (throw_if (p \<noteq> None) UtilityAlreadyPaused) (\<lambda>_.
     bind (modify (\<lambda>s. s\<lparr>hs_paused := (hs_paused s)(lessee \<mapsto> \<lparr>up_lessee = lessee, up_lease_id = lid,
       up_paused_at = ledger_timestamp env, up_reason = reason, up_margin_call_id = lid\<rparr>)\<rparr>)) (\<lambda>_.
     publish (UtilityTokenPaused lessee lid reason (ledger_timestamp env)))))"

definition resume_utility_token :: "address \<Rightarrow> unit health" where
  "resume_utility_token lessee =
     bind (gets (\<lambda>s. hs_paused s lessee)) (\<lambda>p.
     bind (throw_if (p = None) UtilityNotPaused) (\<lambda>_.
     modify (\<lambda>s. s\<lparr>hs_paused := (hs_paused s)(lessee := None)\<rparr>)))"

definition trigger_margin_call :: "env \<Rightarrow> int \<Rightarrow> address \<Rightarrow> unit health" where
  "trigger_margin_call env lid lessee =
     bind (gets (\<lambda>s. hs_health s lid)) (\<lambda>x. bind (ok_or x HLeaseNotFound) (\<lambda>h.
     bind (gets (\<lambda>s. hs_margin_calls s lid)) (\<lambda>known.
     bind (throw_if (known \<noteq> None) MarginCallActive) (\<lambda>_.
     bind (if ch_minimum_fiat_collateral h > ch_current_fiat_value h
           then chk_i128 (ch_minimum_fiat_collateral h - ch_current_fiat_value h) else return 0) (\<lambda>required_topup.
     bind (gets (\<lambda>s. case hs_grace_period s of None \<Rightarrow> DEFAULT_GRACE_PERIOD | Some g \<Rightarrow> g)) (\<lambda>grace_period.
     bind (chk_u64 (ledger_timestamp env + grace_period)) (\<lambda>grace_end.
     bind (modify (\<lambda>s. s\<lparr>hs_margin_calls := (hs_margin_calls s)(lid \<mapsto> \<lparr>mc_lease_id = lid, mc_lessee = lessee,
       mc_issued_at = ledger_timestamp env, mc_grace_period_end = grace_end, mc_required_topup = required_topup,
       mc_current_health_factor = ch_health_factor h, mc_status = ''active'',
       mc_emergency_termination_scheduled = False\<rparr>)\<rparr>)) (\<lambda>_.
     bind (pause_utility_token env lessee lid ''Margin call issued'') (\<lambda>_.
     publish (MarginCallExecuted lid lessee required_topup grace_end (ch_health_factor h) (ledger_timestamp env)))))))))))"

section \<open>Entry points\<close>

definition health_initialize :: "env \<Rightarrow> address \<Rightarrow> address \<Rightarrow> int \<Rightarrow> int \<Rightarrow> unit health" where
  "health_initialize env admin oracle_address threshold grace =
     bind (require_auth env admin) (\<lambda>_.
     bind (modify (\<lambda>s. s\<lparr>hs_oracle := Some oracle_address\<rparr>)) (\<lambda>_.
     bind (throw_if (threshold < 5000 \<or> threshold > 10000) InvalidHealthFactor) (\<lambda>_.
     modify (\<lambda>s. s\<lparr>hs_threshold := Some threshold, hs_grace_period := Some grace, hs_health := Map.empty,
       hs_margin_calls := Map.empty, hs_paused := Map.empty\<rparr>))))"

definition register_lease_collateral :: "env \<Rightarrow> int \<Rightarrow> address \<Rightarrow> address \<Rightarrow> int \<Rightarrow> int \<Rightarrow> unit health" where
  "register_lease_collateral env lid lessee token amount minimum =
     bind (get_oracle_price env token) (\<lambda>p.
     bind (calculate_fiat_value amount (hp_price p) (hp_decimals p)) (\<lambda>v.
     bind (health_factor_or_full v minimum) (\<lambda>f.
     bind (gets (\<lambda>s. status_of f (hs_threshold s))) (\<lambda>st.
     bind (modify (\<lambda>s. s\<lparr>hs_health := (hs_health s)(lid \<mapsto> \<lparr>ch_lease_id = lid, ch_collateral_token = token,
       ch_collateral_amount = amount, ch_minimum_fiat_collateral = minimum, ch_current_fiat_value = v,
       ch_health_factor = f, ch_last_price_update = hp_last_update p, ch_status = st\<rparr>)\<rparr>)) (\<lambda>_.
     if f < CRITICAL_HEALTH_THRESHOLD then trigger_margin_call env lid lessee else return ())))))"

definition check_collateral_health :: "address \<Rightarrow> address \<Rightarrow> env \<Rightarrow> int \<Rightarrow> unit health" where
  "check_collateral_health generated1 generated2 env lid =
     bind (gets (\<lambda>s. hs_health s lid)) (\<lambda>x. bind (ok_or x HLeaseNotFound) (\<lambda>h.
     bind (get_oracle_price env (ch_collateral_token h)) (\<lambda>p.
     bind (chk_u64 (ledger_timestamp env - hp_last_update p)) (\<lambda>age.
     bind (throw_if (age > PRICE_STALENESS_THRESHOLD) HPriceStale) (\<lambda>_.
     bind (calculate_fiat_value (ch_collateral_amount h) (hp_price p) (hp_decimals p)) (\<lambda>v.
     bind (health_factor_or_full v (ch_minimum_fiat_collateral h)) (\<lambda>f.
     bind (gets (\<lambda>s. status_of f (hs_threshold s))) (\<lambda>new_status.
     bind (modify (\<lambda>s. s\<lparr>hs_health := (hs_health s)(lid \<mapsto> h\<lparr>ch_current_fiat_value := v, ch_health_factor := f,
       ch_last_price_update := hp_last_update p, ch_status := new_status\<rparr>)\<rparr>)) (\<lambda>_.
     if new_status = ''under_collateralized'' then
       bind (publish (CollateralHealthWarning lid generated1 f v (ch_minimum_fiat_collateral h) (ledger_timestamp env)))
         (\<lambda>_. trigger_margin_call env lid generated2)
     else return ())))))))))"

definition fulfill_margin_call :: "env \<Rightarrow> int \<Rightarrow> int \<Rightarrow> address \<Rightarrow> unit health" where
  "fulfill_margin_call env lid additional token =
     bind (gets (\<lambda>s. hs_margin_calls s lid)) (\<lambda>x. bind (ok_or x MarginCallActive) (\<lambda>c.
     bind (throw_if (ledger_timestamp env > mc_grace_period_end c) GracePeriodExpired) (\<lambda>_.
     bind (gets (\<lambda>s. hs_health s lid)) (\<lambda>y. bind (ok_or y HLeaseNotFound) (\<lambda>h.
     bind (chk_i128 (ch_collateral_amount h + additional)) (\<lambda>amount.
     bind (get_oracle_price env token) (\<lambda>p.
     bind (calculate_fiat_value amount (hp_price p) (hp_decimals p)) (\<lambda>v.
     bind (health_factor_of v (ch_minimum_fiat_collateral h)) (\<lambda>f.
     let h = h\<lparr>ch_collateral_amount := amount, ch_current_fiat_value := v, ch_health_factor := f,
       ch_last_price_update := hp_last_update p\<rparr> in
     bind (if f \<ge> CRITICAL_HEALTH_THRESHOLD
           then bind (resume_utility_token (mc_lessee c)) (\<lambda>_. return (''healthy'', ''satisfied''))
           else return (''warning'', mc_status c)) (\<lambda>(health_status, call_status).
     modify (\<lambda>s. s\<lparr>hs_health := (hs_health s)(lid \<mapsto> h\<lparr>ch_status := health_status\<rparr>),
       hs_margin_calls := (hs_margin_calls s)(lid \<mapsto> c\<lparr>mc_status := call_status\<rparr>)\<rparr>)))))))))))"

definition execute_emergency_termination :: "env \<Rightarrow> int \<Rightarrow> unit health" where
  "execute_emergency_termination env lid =
     bind (gets (\<lambda>s. hs_margin_calls s lid)) (\<lambda>x. bind (ok_or x MarginCallActive) (\<lambda>c.
     bind (throw_if (ledger_timestamp env \<le> mc_grace_period_end c) GracePeriodExpired) (\<lambda>_.
     bind (gets (\<lambda>s. hs_health s lid)) (\<lambda>y. bind (ok_or y HLeaseNotFound) (\<lambda>h.
     bind (modify (\<lambda>s. s\<lparr>hs_margin_calls := (hs_margin_calls s)(lid \<mapsto>
       c\<lparr>mc_status := ''expired'', mc_emergency_termination_scheduled := True\<rparr>)\<rparr>)) (\<lambda>_.
     bind (modify (\<lambda>s. s\<lparr>hs_health := (hs_health s)(lid \<mapsto> h\<lparr>ch_status := ''emergency_termination''\<rparr>)\<rparr>)) (\<lambda>_.
     publish (EmergencyTerminationTriggered lid (mc_lessee c) (mc_current_health_factor c) (ch_current_fiat_value h)
       (ledger_timestamp env)))))))))"

definition get_collateral_health :: "int \<Rightarrow> collateral_health health" where
  "get_collateral_health lid = bind (gets (\<lambda>s. hs_health s lid)) (\<lambda>x. ok_or x HLeaseNotFound)"

definition get_margin_call :: "int \<Rightarrow> margin_call health" where
  "get_margin_call lid = bind (gets (\<lambda>s. hs_margin_calls s lid)) (\<lambda>x. ok_or x MarginCallActive)"

definition is_utility_paused :: "address \<Rightarrow> health_state \<Rightarrow> bool" where
  "is_utility_paused lessee s \<longleftrightarrow> hs_paused s lessee \<noteq> None"

text \<open>A check inside the batch is a call in the same frame: what it wrote before it returned an error stays. The
  generated addresses are drawn anew for each check, given by the number of leases still to be checked.\<close>

fun batch_health_check :: "(nat \<Rightarrow> address \<times> address) \<Rightarrow> env \<Rightarrow> int list \<Rightarrow> int list health" where
  "batch_health_check drawn env [] = return []"
| "batch_health_check drawn env (lid # lids) =
     bind (attempt (check_collateral_health (fst (drawn (length lids))) (snd (drawn (length lids))) env lid)) (\<lambda>r.
     bind (batch_health_check drawn env lids) (\<lambda>problematic_leases.
     return (case r of Inr _ \<Rightarrow> problematic_leases | Inl e \<Rightarrow> lid # problematic_leases)))"

section \<open>The monitor as a system\<close>

datatype health_call =
    HealthInitialize address address int int
  | RegisterCollateral int address address int int
  | CheckHealth address address int
  | FulfillMarginCall int int address
  | EmergencyTermination int
  | BatchCheck "nat \<Rightarrow> address \<times> address" "int list"

fun health_exec :: "env \<Rightarrow> health_call \<Rightarrow> unit health" where
  "health_exec env (HealthInitialize a b t g) = health_initialize env a b t g"
| "health_exec env (RegisterCollateral lid a t n m) = register_lease_collateral env lid a t n m"
| "health_exec env (CheckHealth a b lid) = check_collateral_health a b env lid"
| "health_exec env (FulfillMarginCall lid n t) = fulfill_margin_call env lid n t"
| "health_exec env (EmergencyTermination lid) = execute_emergency_termination env lid"
| "health_exec env (BatchCheck d lids) = bind (batch_health_check d env lids) (\<lambda>_. return ())"

definition health_step :: "env \<times> health_call \<Rightarrow> health_state \<Rightarrow> health_state" where
  "health_step m s = snd (invoke (health_exec (fst m) (snd m)) s)"

end
