(* ===== verification/Health_Props.thy ===== *)
theory Health_Props
  imports Collateral_Health
begin

text \<open>Health factors and their width, what a margin call commits to, and how it ends.\<close>

section \<open>Values\<close>

lemma health_price_Ok_iff [proc_ok]:
  "get_oracle_price env token s = (Ok p, s') \<longleftrightarrow> hs_oracle s \<noteq> None \<and> s' = s
     \<and> p = \<lparr>hp_price = 100000000, hp_decimals = 8, hp_last_update = ledger_timestamp env, hp_asset = token\<rparr>"
  by (auto simp: get_oracle_price_def proc_ok)

lemma tdiv_1 [simp]: "tdiv x 1 = x"
  by (simp add: tdiv_def)

lemma fiat_value_Ok_iff [proc_ok]:
  "calculate_fiat_value amount price 8 s = (Ok v, s') \<longleftrightarrow> is_i128 (amount * price) \<and> v = amount * price \<and> s' = s"
  by (auto simp: calculate_fiat_value_def proc_ok is_i128_def i128_min_def i128_max_def)

lemma health_factor_Ok_iff [proc_ok]:
  "health_factor_of v m s = (Ok f, s') \<longleftrightarrow> is_i128 (v * 10000) \<and> m \<noteq> 0 \<and> f = as_u32 (tdiv (v * 10000) m) \<and> s' = s"
  "health_factor_or_full v m s = (Ok f, s') \<longleftrightarrow> s' = s
     \<and> (if m > 0 then is_i128 (v * 10000) \<and> f = as_u32 (tdiv (v * 10000) m) else f = 10000)"
  by (auto simp: health_factor_of_def health_factor_or_full_def proc_ok)

lemma div_less_bound:
  assumes "0 < (m :: int)"
  shows "a div m < k \<longleftrightarrow> a < k * m"
proof
  assume "a div m < k"
  then have "(a div m + 1) * m \<le> k * m" using assms by (intro mult_right_mono) auto
  then have "a div m * m + m \<le> k * m" by (simp add: distrib_right)
  then show "a < k * m" using pos_mod_bound [OF assms, of a] div_mult_mod_eq [of a m] by linarith
next
  assume "a < k * m"
  moreover have "a div m * m \<le> a" using assms pos_mod_sign [of m a] div_mult_mod_eq [of a m] by linarith
  ultimately have "a div m * m < k * m" by linarith
  then show "a div m < k" using assms by simp
qed

section \<open>Margin calls\<close>

lemma utility_Ok_iff [proc_ok]:
  "pause_utility_token env a lid r s = (Ok u, s') \<longleftrightarrow> hs_paused s a = None
     \<and> s' = s\<lparr>hs_paused := (hs_paused s)(a \<mapsto> \<lparr>up_lessee = a, up_lease_id = lid, up_paused_at = ledger_timestamp env,
           up_reason = r, up_margin_call_id = lid\<rparr>),
         events := events s @ [UtilityTokenPaused a lid r (ledger_timestamp env)]\<rparr>"
  "resume_utility_token a s = (Ok u, s') \<longleftrightarrow> hs_paused s a \<noteq> None \<and> s' = s\<lparr>hs_paused := (hs_paused s)(a := None)\<rparr>"
  by (auto simp: pause_utility_token_def resume_utility_token_def proc_ok)

lemma trigger_Ok:
  assumes "trigger_margin_call env lid a s = (Ok u, s')" "hs_health s lid = Some h"
  shows "hs_margin_calls s lid = None \<and> hs_paused s a = None \<and> hs_health s' = hs_health s \<and> is_utility_paused a s'
    \<and> hs_margin_calls s' = (hs_margin_calls s)(lid \<mapsto> \<lparr>mc_lease_id = lid, mc_lessee = a,
       mc_issued_at = ledger_timestamp env, mc_grace_period_end = ledger_timestamp env
         + (case hs_grace_period s of None \<Rightarrow> DEFAULT_GRACE_PERIOD | Some g \<Rightarrow> g),
       mc_required_topup = max 0 (ch_minimum_fiat_collateral h - ch_current_fiat_value h),
       mc_current_health_factor = ch_health_factor h, mc_status = ''active'',
       mc_emergency_termination_scheduled = False\<rparr>)"
  using assms by (auto simp: trigger_margin_call_def proc_ok is_utility_paused_def split: if_splits)

text \<open>The terms of a margin call, and that a state keeps those of another and its leases.\<close>

definition call_terms :: "margin_call \<Rightarrow> int \<times> address \<times> int \<times> int \<times> int \<times> int" where
  "call_terms c = (mc_lease_id c, mc_lessee c, mc_issued_at c, mc_grace_period_end c, mc_required_topup c,
     mc_current_health_factor c)"

definition keeps_terms :: "health_state \<Rightarrow> health_state \<Rightarrow> bool" where
  "keeps_terms s t \<longleftrightarrow>
     (\<forall>lid c. hs_margin_calls s lid = Some c \<longrightarrow> (\<exists>c'. hs_margin_calls t lid = Some c' \<and> call_terms c' = call_terms c))
     \<and> (\<forall>lid. hs_health s lid \<noteq> None \<longrightarrow> hs_health t lid \<noteq> None)"

lemma keeps_terms_refl [simp]: "keeps_terms s s"
  by (simp add: keeps_terms_def)

lemma keeps_terms_trans: "keeps_terms s t \<Longrightarrow> keeps_terms t u \<Longrightarrow> keeps_terms s u"
  unfolding keeps_terms_def by metis

lemma keeps_terms_upd:
  "keeps_terms s t \<Longrightarrow> keeps_terms s (t\<lparr>hs_health := (hs_health t)(lid \<mapsto> h)\<rparr>)"
  "keeps_terms s t \<Longrightarrow> hs_margin_calls t lid = None \<Longrightarrow> keeps_terms s (t\<lparr>hs_margin_calls := (hs_margin_calls t)(lid \<mapsto> c)\<rparr>)"
  "keeps_terms s t \<Longrightarrow> hs_margin_calls t lid = Some c \<Longrightarrow> call_terms c' = call_terms c
     \<Longrightarrow> keeps_terms s (t\<lparr>hs_margin_calls := (hs_margin_calls t)(lid \<mapsto> c')\<rparr>)"
  by (simp add: keeps_terms_def, simp add: keeps_terms_def, metis option.distinct(1))
    (simp add: keeps_terms_def, metis option.inject)

lemma keeps_terms_other [simp]:
  "keeps_terms s (t\<lparr>hs_paused := x\<rparr>) = keeps_terms s t" "keeps_terms s (t\<lparr>events := y\<rparr>) = keeps_terms s t"
  by (simp_all add: keeps_terms_def)

lemma keeps_values [keeps_intros]:
  "keeps P (get_oracle_price env token)" "keeps P (calculate_fiat_value n x d)" "keeps P (health_factor_of v m)"
  "keeps P (health_factor_or_full v m)"
  unfolding get_oracle_price_def calculate_fiat_value_def health_factor_of_def health_factor_or_full_def
  by (auto intro!: keeps_intros)

lemma keeps_terms_simple [keeps_intros]:
  "keeps (keeps_terms s) (publish ev)" "keeps (keeps_terms s) (pause_utility_token env a lid r)"
  "keeps (keeps_terms s) (resume_utility_token a)"
  by (auto simp: keeps_def proc_run pause_utility_token_def resume_utility_token_def)

lemma keeps_terms_health [keeps_intros]:
  "keeps (keeps_terms s) (modify (\<lambda>s. s\<lparr>hs_health := (hs_health s)(lid \<mapsto> h)\<rparr>))"
  by (auto simp: keeps_def intro: keeps_terms_upd)

text \<open>A continuation may use what was just read.\<close>

lemma keeps_gets_bind: "(\<And>t. P t \<Longrightarrow> P (snd (k (f t) t))) \<Longrightarrow> keeps P (bind (gets f) k)"
  by (simp add: keeps_def bind_run)

lemma keeps_terms_trigger [keeps_intros]: "keeps (keeps_terms s) (trigger_margin_call env lid a)"
proof -
  have "keeps_terms s (snd (trigger_margin_call env lid a t))" if "keeps_terms s t" for t
    using that by (auto simp: trigger_margin_call_def proc_run pause_utility_token_def intro!: keeps_terms_upd
      split: option.split if_splits)
  then show ?thesis by (simp add: keeps_def)
qed

lemma keeps_terms_check [keeps_intros]: "keeps (keeps_terms s) (check_collateral_health a b env lid)"
  unfolding check_collateral_health_def by (auto intro!: keeps_intros)

lemma keeps_terms_register [keeps_intros]: "keeps (keeps_terms s) (register_lease_collateral env lid a t n m)"
  unfolding register_lease_collateral_def by (auto intro!: keeps_intros)

lemma keeps_terms_batch [keeps_intros]: "keeps (keeps_terms s) (batch_health_check d env lids)"
proof (induction lids)
  case (Cons lid lids)
  show ?case unfolding batch_health_check.simps by (intro keeps_intros Cons)
qed (unfold batch_health_check.simps, rule keeps_return)

text \<open>The health record and the factor after a fulfilment with the given collateral in all.\<close>

definition topped_up :: "env \<Rightarrow> int \<Rightarrow> collateral_health \<Rightarrow> collateral_health" where
  "topped_up env amount h = h\<lparr>ch_collateral_amount := amount, ch_current_fiat_value := amount * 100000000,
     ch_health_factor := as_u32 (tdiv (amount * 100000000 * 10000) (ch_minimum_fiat_collateral h)),
     ch_last_price_update := ledger_timestamp env\<rparr>"

definition topup_fits :: "int \<Rightarrow> bool" where
  "topup_fits amount \<longleftrightarrow> is_i128 amount \<and> is_i128 (amount * 100000000) \<and> is_i128 (amount * 100000000 * 10000)"

lemma fulfill_iff:
  assumes "hs_margin_calls s lid = Some c" "hs_health s lid = Some h"
    "n = ch_collateral_amount h + k"
  shows "fulfill_margin_call env lid k tok s = (Ok u, s') \<longleftrightarrow> ledger_timestamp env \<le> mc_grace_period_end c
    \<and> topup_fits n \<and> hs_oracle s \<noteq> None \<and> ch_minimum_fiat_collateral h \<noteq> 0
    \<and> (if 9000 \<le> ch_health_factor (topped_up env n h)
       then hs_paused s (mc_lessee c) \<noteq> None \<and> s' = s\<lparr>hs_paused := (hs_paused s)(mc_lessee c := None),
         hs_health := (hs_health s)(lid \<mapsto> (topped_up env n h)\<lparr>ch_status := ''healthy''\<rparr>),
         hs_margin_calls := (hs_margin_calls s)(lid \<mapsto> c\<lparr>mc_status := ''satisfied''\<rparr>)\<rparr>
       else s' = s\<lparr>hs_health := (hs_health s)(lid \<mapsto> (topped_up env n h)\<lparr>ch_status := ''warning''\<rparr>),
         hs_margin_calls := (hs_margin_calls s)(lid \<mapsto> c\<lparr>mc_status := mc_status c\<rparr>)\<rparr>)"
  unfolding fulfill_margin_call_def assms(3) Let_def topped_up_def topup_fits_def CRITICAL_HEALTH_THRESHOLD_def
  by (simp add: proc_ok assms(1,2) not_less split del: if_split)
    (auto simp: proc_ok)

lemma fulfill_needs:
  "fulfill_margin_call env lid k tok s = (Ok u, s') \<Longrightarrow> hs_margin_calls s lid \<noteq> None \<and> hs_health s lid \<noteq> None"
  unfolding fulfill_margin_call_def
  by (cases "hs_margin_calls s lid"; cases "hs_health s lid") (simp_all add: proc_ok)

lemma fulfill_effect:
  assumes "fulfill_margin_call env lid k tok s = (Ok u, s')"
  shows "\<exists>c h c' y. hs_margin_calls s lid = Some c \<and> hs_health s lid = Some h \<and> call_terms c' = call_terms c
    \<and> hs_margin_calls s' = (hs_margin_calls s)(lid \<mapsto> c') \<and> hs_health s' = (hs_health s)(lid \<mapsto> y)"
proof -
  obtain c h where ch: "hs_margin_calls s lid = Some c" "hs_health s lid = Some h" using fulfill_needs [OF assms] by blast
  show ?thesis
    by (cases "9000 \<le> ch_health_factor (topped_up env (ch_collateral_amount h + k) h)")
      (use ch assms [unfolded fulfill_iff [OF ch refl]] in \<open>auto simp: call_terms_def\<close>)
qed

lemma emergency_Ok_iff [proc_ok]:
  "execute_emergency_termination env lid s = (Ok u, s') \<longleftrightarrow> (\<exists>c h. hs_margin_calls s lid = Some c
     \<and> hs_health s lid = Some h \<and> mc_grace_period_end c < ledger_timestamp env
     \<and> s' = s\<lparr>hs_margin_calls := (hs_margin_calls s)(lid \<mapsto>
           c\<lparr>mc_status := ''expired'', mc_emergency_termination_scheduled := True\<rparr>),
         hs_health := (hs_health s)(lid \<mapsto> h\<lparr>ch_status := ''emergency_termination''\<rparr>),
         events := events s @ [EmergencyTerminationTriggered lid (mc_lessee c) (mc_current_health_factor c)
           (ch_current_fiat_value h) (ledger_timestamp env)]\<rparr>)"
  unfolding execute_emergency_termination_def
  by (cases "hs_margin_calls s lid"; cases "hs_health s lid") (auto simp: proc_ok not_le)

fun initializes :: "health_call \<Rightarrow> bool" where
  "initializes (HealthInitialize a b t g) \<longleftrightarrow> True"
| "initializes _ \<longleftrightarrow> False"

lemma health_step_terms:
  assumes "\<not> initializes (snd m)"
  shows "keeps_terms s (health_step m s)"
proof (cases "health_exec (fst m) (snd m)" s rule: invoke_cases)
  case (ok u s')
  have st: "health_step m s = s'" and run: "health_exec (fst m) (snd m) s = (Ok u, s')"
    using ok by (simp_all add: health_step_def)
  have kept: "keeps_terms s s'" if "keeps (keeps_terms s) (health_exec (fst m) (snd m))"
    using keepsD [OF that, of s] run by simp
  show ?thesis unfolding st
  proof (cases "snd m")
    case (HealthInitialize a b t g)
    then show "keeps_terms s s'" using assms by simp
  next
    case (FulfillMarginCall lid n tok)
    then have "fulfill_margin_call (fst m) lid n tok s = (Ok u, s')" using run by simp
    from fulfill_effect [OF this] show "keeps_terms s s'" by (auto simp: keeps_terms_def)
  next
    case (EmergencyTermination lid)
    then show "keeps_terms s s'" using run by (auto simp: proc_ok keeps_terms_def call_terms_def)
  qed (rule kept, simp add: keeps_bind keeps_return keeps_terms_check keeps_terms_register keeps_terms_batch)+
qed (simp add: health_step_def)

text \<open>Without initialisations, the terms are kept along every run.\<close>

interpretation calls: monotone_system keeps_terms "\<lambda>m s. if initializes (snd m) then s else health_step m s"
  by unfold_locales (auto intro: keeps_terms_trans health_step_terms)

lemma run_without_initialize:
  "\<forall>m \<in> set ms. \<not> initializes (snd m) \<Longrightarrow> keeps_terms s (fold health_step ms s)"
proof -
  assume "\<forall>m \<in> set ms. \<not> initializes (snd m)"
  then have "fold (\<lambda>m s. if initializes (snd m) then s else health_step m s) ms s = fold health_step ms s"
    by (intro fold_cong) auto
  then show ?thesis using calls.run_le [of s ms] by simp
qed

section \<open>Properties\<close>

text \<open>The health factor of a registration, and what follows from it. The value is taken as the collateral times
  a hundred million, and the factor is the true one modulo the 32 bits it is stored in, so it is right exactly while the
  collateral is less than a certain multiple of the minimum. Below 90 per cent a margin call is issued, for a
  top-up of what is missing in value, and the utility of the lessee is paused; otherwise no margin call changes.\<close>
theorem registration_health:
  assumes "register_lease_collateral env lid a tok n m s = (Ok (), s')" "0 \<le> n" "0 < m"
  shows "\<exists>h. hs_health s' = (hs_health s)(lid \<mapsto> h) \<and> ch_current_fiat_value h = 10 ^ 8 * n
    \<and> ch_health_factor h = (10 ^ 12 * n div m) mod 2 ^ 32
    \<and> (ch_health_factor h = 10 ^ 12 * n div m \<longleftrightarrow> 10 ^ 12 * n < 2 ^ 32 * m)
    \<and> ch_status h = status_of (ch_health_factor h) (hs_threshold s)
    \<and> (if ch_health_factor h < 9000
       then \<exists>c. hs_margin_calls s' = (hs_margin_calls s)(lid \<mapsto> c) \<and> mc_lessee c = a
         \<and> mc_required_topup c = max 0 (m - 10 ^ 8 * n) \<and> is_utility_paused a s'
       else hs_margin_calls s' = hs_margin_calls s)"
proof -
  let ?f = "(10 ^ 12 * n div m) mod 2 ^ 32"
  have div: "as_u32 (tdiv (1000000000000 * n) m) = 1000000000000 * n div m mod 4294967296"
    using assms(2,3) by (simp add: as_u32_def tdiv_nonneg)
  define h where "h = \<lparr>ch_lease_id = lid, ch_collateral_token = tok, ch_collateral_amount = n,
    ch_minimum_fiat_collateral = m, ch_current_fiat_value = n * 100000000, ch_health_factor = ?f,
    ch_last_price_update = ledger_timestamp env, ch_status = status_of ?f (hs_threshold s)\<rparr>"
  let ?s = "s\<lparr>hs_health := (hs_health s)(lid \<mapsto> h)\<rparr>"
  have run: "(if ?f < 9000 then trigger_margin_call env lid a else return ()) ?s = (Ok (), s')"
    using assms(1,3) unfolding register_lease_collateral_def CRITICAL_HEALTH_THRESHOLD_def
    by (auto simp: proc_ok div h_def simp del: return_run split: if_splits)
  have exact: "?f = 10 ^ 12 * n div m \<longleftrightarrow> 10 ^ 12 * n < 2 ^ 32 * m"
  proof -
    have "x mod 2 ^ 32 = x \<longleftrightarrow> x < 2 ^ 32" if "0 \<le> x" for x :: int
      using that pos_mod_bound [of "2 ^ 32" x] by (auto simp del: pos_mod_bound)
    moreover have "0 \<le> 10 ^ 12 * n div m" using assms(2,3) by (simp add: pos_imp_zdiv_nonneg_iff)
    ultimately have "?f = 10 ^ 12 * n div m \<longleftrightarrow> 10 ^ 12 * n div m < 2 ^ 32" by blast
    also have "\<dots> \<longleftrightarrow> 10 ^ 12 * n < 2 ^ 32 * m" by (rule div_less_bound [OF assms(3)])
    finally show ?thesis .
  qed
  show ?thesis
  proof (intro exI [of _ h] conjI)
    show "hs_health s' = (hs_health s)(lid \<mapsto> h)"
      using run trigger_Ok [of env lid a ?s "()" s' h] by (cases "?f < 9000") auto
    show "if ch_health_factor h < 9000
       then \<exists>c. hs_margin_calls s' = (hs_margin_calls s)(lid \<mapsto> c) \<and> mc_lessee c = a
         \<and> mc_required_topup c = max 0 (m - 10 ^ 8 * n) \<and> is_utility_paused a s'
       else hs_margin_calls s' = hs_margin_calls s"
      using run trigger_Ok [of env lid a ?s "()" s' h] by (auto simp: h_def mult.commute split: if_splits)
  qed (use exact in \<open>simp_all add: h_def\<close>)
qed

text \<open>Claim C32. The terms of a margin call are fixed until the module is initialised anew, which anyone may do and which drops
  all margin calls. Whatever calls follow none of which is an initialisation, the lessee, the time of issue, the end of the
  grace period and the required top-up stay as issued; no other margin call is issued for the lease, whatever its health;
  and once the grace period is over the call cannot be fulfilled.\<close>
theorem margin_call_is_final:
  assumes "hs_margin_calls s lid = Some c" "\<forall>m \<in> set ms. \<not> initializes (snd m)" "s' = fold health_step ms s"
  shows "\<exists>c'. hs_margin_calls s' lid = Some c' \<and> call_terms c' = call_terms c
    \<and> fst (trigger_margin_call env lid a s') \<noteq> Ok ()
    \<and> (mc_grace_period_end c < ledger_timestamp env \<longrightarrow> fst (fulfill_margin_call env lid k tok s') \<noteq> Ok ())"
proof -
  obtain c' where c': "hs_margin_calls s' lid = Some c'" "call_terms c' = call_terms c"
    using run_without_initialize [OF assms(2), of s] assms(1) unfolding assms(3) keeps_terms_def by blast
  have "trigger_margin_call env lid a s' \<noteq> (Ok (), t)" for t
    using c'(1) by (auto simp: trigger_margin_call_def proc_ok)
  moreover have "fulfill_margin_call env lid k tok s' \<noteq> (Ok (), t)" if "mc_grace_period_end c < ledger_timestamp env" for t
    using that c' fulfill_needs [of env lid k tok s' "()" t] fulfill_iff [OF c'(1), of _ _ k env tok "()" t]
    by (auto simp: call_terms_def)
  ultimately show ?thesis using c' by (metis prod.collapse)
qed

text \<open>A margin call is fulfilled by naming an amount. Within the grace period it is satisfied exactly when the
  factor computed with the named amount (which may be negative, and of any token) reaches 90 per cent and the lessee's
  utility is paused, which is then resumed; a lower factor is recorded as a warning. No token is moved and nobody
  authorises the call.\<close>
theorem fulfilment_pays_nothing:
  assumes "hs_margin_calls s lid = Some c" "hs_health s lid = Some h" "n = ch_collateral_amount h + k" "topup_fits n"
    "ledger_timestamp env \<le> mc_grace_period_end c" "hs_oracle s \<noteq> None" "ch_minimum_fiat_collateral h \<noteq> 0"
    "9000 \<le> ch_health_factor (topped_up env n h) \<longrightarrow> is_utility_paused (mc_lessee c) s"
  shows "\<exists>s' c' h'. fulfill_margin_call env lid k tok s = (Ok (), s') \<and> hs_margin_calls s' lid = Some c'
    \<and> hs_health s' lid = Some h' \<and> ch_collateral_amount h' = n \<and> calls s' = calls s
    \<and> (if 9000 \<le> ch_health_factor (topped_up env n h)
       then mc_status c' = ''satisfied'' \<and> ch_status h' = ''healthy'' \<and> \<not> is_utility_paused (mc_lessee c) s'
       else mc_status c' = mc_status c \<and> ch_status h' = ''warning'')"
proof (cases "9000 \<le> ch_health_factor (topped_up env n h)")
  case True
  then show ?thesis using assms unfolding fulfill_iff [OF assms(1-3)]
    by (simp add: is_utility_paused_def topped_up_def)
next
  case False
  then show ?thesis using assms unfolding fulfill_iff [OF assms(1-3)] by (simp add: topped_up_def)
qed

text \<open>Even a satisfied margin call ends in an emergency termination. The termination looks only at the
  grace period: after a fulfilment, and any further calls, anyone can schedule the termination of the lease once
  the grace period of the call is over, and does not need an authorisation to do so.\<close>
theorem satisfied_call_still_terminates:
  assumes "fulfill_margin_call env lid k tok s = (Ok (), s1)" "hs_margin_calls s lid = Some c"
    and "\<forall>m \<in> set ms. \<not> initializes (snd m)" "s2 = fold health_step ms s1"
    and "mc_grace_period_end c < ledger_timestamp env'"
  shows "\<exists>t c' h'. execute_emergency_termination env' lid s2 = (Ok (), t) \<and> hs_margin_calls t lid = Some c'
    \<and> mc_status c' = ''expired'' \<and> mc_emergency_termination_scheduled c'
    \<and> hs_health t lid = Some h' \<and> ch_status h' = ''emergency_termination''"
proof -
  have "keeps_terms s s1" using fulfill_effect [OF assms(1)] by (auto simp: keeps_terms_def)
  then have kept: "keeps_terms s s2"
    using run_without_initialize [OF assms(3), of s1] assms(4) keeps_terms_trans by blast
  moreover have "hs_health s lid \<noteq> None" using fulfill_needs [OF assms(1)] by blast
  ultimately obtain c' h' where "hs_margin_calls s2 lid = Some c'" "call_terms c' = call_terms c" "hs_health s2 lid = Some h'"
    using assms(2) unfolding keeps_terms_def by blast
  then show ?thesis using assms(5) by (simp add: proc_ok call_terms_def)
qed

section \<open>An example\<close>

definition hx_env :: "int \<Rightarrow> env" where
  "hx_env now = \<lparr>ledger_timestamp = now, ledger_sequence = 1, auths = [7], current_contract = 99,
     ext = (\<lambda>cs c. Reply_unit)\<rparr>"

definition hx_state :: health_state where
  "hx_state = fold health_step [(hx_env 100, HealthInitialize 7 50 9500 86400)] health_init"

text \<open>A lease with a hundredth of its minimum, and one with more than four hundred thousand times its minimum, whose
  factor is stored as zero.\<close>

definition hx_called :: health_state where
  "hx_called = fold health_step [(hx_env 200, RegisterCollateral 3 2 60 1 10000000000)] hx_state"

theorem registration_health_witness:
  "\<exists>c. hs_margin_calls (snd (register_lease_collateral (hx_env 200) 4 5 60 (2 ^ 32) (10 ^ 12) hx_state))
      = (hs_margin_calls hx_state)(4 \<mapsto> c) \<and> mc_required_topup c = 0"
proof -
  have run: "register_lease_collateral (hx_env 200) 4 5 60 (2 ^ 32) (10 ^ 12) hx_state
    = (Ok (), snd (register_lease_collateral (hx_env 200) 4 5 60 (2 ^ 32) (10 ^ 12) hx_state))"
    by (intro prod_eqI) (code_simp, simp)
  from registration_health [OF run] show ?thesis by auto
qed

lemma hx_facts:
  "map_option mc_grace_period_end (hs_margin_calls hx_called 3) = Some 86600"
  "fst (fulfill_margin_call (hx_env 300) 3 99 60 hx_called) = Ok ()"
  "map_option ch_minimum_fiat_collateral (hs_health hx_called 3) = Some 10000000000"
  "map_option ch_collateral_amount (hs_health hx_called 3) = Some 1" "hs_oracle hx_called \<noteq> None"
  "map_option mc_lessee (hs_margin_calls hx_called 3) = Some 2" "is_utility_paused 2 hx_called"
  by code_simp+

theorem margin_call_is_final_witness:
  "\<exists>c'. hs_margin_calls (fold health_step [(hx_env 300, FulfillMarginCall 3 99 60)] hx_called) 3 = Some c'
     \<and> mc_grace_period_end c' = 86600"
proof -
  obtain c where c: "hs_margin_calls hx_called 3 = Some c" "mc_grace_period_end c = 86600" using hx_facts(1) by blast
  from margin_call_is_final [OF c(1) _ refl, of "[(hx_env 300, FulfillMarginCall 3 99 60)]" "hx_env 0" 0 0 0] c(2)
  show ?thesis by (auto simp: call_terms_def)
qed

theorem fulfilment_pays_nothing_witness:
  "\<exists>s'. fulfill_margin_call (hx_env 300) 3 99 60 hx_called = (Ok (), s') \<and> calls s' = calls hx_called"
proof -
  obtain c h where c: "hs_margin_calls hx_called 3 = Some c" "mc_grace_period_end c = 86600" "mc_lessee c = 2"
    and h: "hs_health hx_called 3 = Some h" "ch_minimum_fiat_collateral h = 10000000000" "ch_collateral_amount h = 1"
    using hx_facts by auto
  have "topup_fits 100" by (simp add: topup_fits_def range_defs int_bounds)
  then show ?thesis
    using fulfilment_pays_nothing [OF c(1) h(1), of 100 99 "hx_env 300" 60] c h hx_facts(5,7) by (auto simp: hx_env_def)
qed

theorem satisfied_call_still_terminates_witness:
  "\<exists>t h'. execute_emergency_termination (hx_env 90000) 3 (fold health_step [(hx_env 400, CheckHealth 8 9 3)]
      (snd (fulfill_margin_call (hx_env 300) 3 99 60 hx_called))) = (Ok (), t)
     \<and> hs_health t 3 = Some h' \<and> ch_status h' = ''emergency_termination''"
proof -
  obtain c where c: "hs_margin_calls hx_called 3 = Some c" "mc_grace_period_end c = 86600" using hx_facts(1) by blast
  have "fulfill_margin_call (hx_env 300) 3 99 60 hx_called
    = (Ok (), snd (fulfill_margin_call (hx_env 300) 3 99 60 hx_called))"
    using hx_facts(2) by (intro prod_eqI) simp_all
  from satisfied_call_still_terminates [OF this c(1) _ refl, of "[(hx_env 400, CheckHealth 8 9 3)]" "hx_env 90000"] c(2)
  show ?thesis by (auto simp: hx_env_def)
qed

end
