(* ===== verification/Dust_Accounting.thy ===== *)
theory Dust_Accounting
  imports Soroban_Host
begin

text \<open>
  \<^verbatim>\<open>contracts/leaseflow_contracts/src/dust_accounting.rs\<close>: the division of a refund among several signers and the books
  of the dust it leaves. The methods take \<^verbatim>\<open>&mut self\<close>: what one wrote before it returned an error stays written. The
  checked additions of \<^verbatim>\<open>escrow_invariant.rs\<close> return an error type without a conversion to that of this module; it is
  read as a further error, \<open>DustOverflow\<close>.
\<close>

section \<open>State\<close>

record dust_accounting =
  da_total_dust :: int
  da_lease_dust :: "(int \<times> int) list"
  da_signer_dust :: "(address \<times> int) list"
  da_dust_recovered :: int
  da_dust_operations :: int

datatype dust_error =
    NegativeAmount int
  | NegativeSettlementAmount int
  | NegativeRecoveryAmount int
  | InvalidBasisPointsSum int
  | DustAccountingMismatch int int int
  | SettlementExceedsAvailable int int
  | RecoveryExceedsDust int int
  | NoDustForLease int
  | NegativeTotalDust int
  | RecoveryExceedsTotal int int
  | LeaseDustMismatch int int
  | SignerDustExceedsTotal int int
  | DustOverflow

record multi_signer_result =
  ms_individual_shares :: "(address \<times> int) list"
  ms_dust_amount :: int
  ms_lease_id :: int
  ms_verification_passed :: bool

record partial_settlement_result =
  ps_settlement_amounts :: "int list"
  ps_dust_amount :: int
  ps_remaining_amount :: int
  ps_lease_id :: int

record dust_report =
  dr_total_dust :: int
  dr_dust_recovered :: int
  dr_dust_operations :: int
  dr_active_leases_with_dust :: nat
  dr_active_signers_with_dust :: nat
  dr_net_dust :: int
  dr_accounting_verified :: bool

type_synonym 'a dust = "(dust_accounting, dust_error, 'a) proc"

definition new_dust :: dust_accounting where
  "new_dust = \<lparr>da_total_dust = 0, da_lease_dust = [], da_signer_dust = [], da_dust_recovered = 0,
     da_dust_operations = 0\<rparr>"

definition dust_add :: "int \<Rightarrow> int \<Rightarrow> int dust" where
  "dust_add a b = ok_or (checked_i128 (a + b)) DustOverflow"

definition dust_sub :: "int \<Rightarrow> int \<Rightarrow> int dust" where
  "dust_sub a b = ok_or (checked_i128 (a - b)) DustOverflow"

definition dust_mul :: "int \<Rightarrow> int \<Rightarrow> int dust" where
  "dust_mul a b = ok_or (checked_i128 (a * b)) DustOverflow"

text \<open>A sum over an iterator panics at the first partial sum that overflows.\<close>

fun sum_i128 :: "int list \<Rightarrow> int \<Rightarrow> int dust" where
  "sum_i128 [] acc = return acc"
| "sum_i128 (x # xs) acc = bind (chk_i128 (acc + x)) (\<lambda>acc. sum_i128 xs acc)"

fun sum_u32 :: "int list \<Rightarrow> int \<Rightarrow> int dust" where
  "sum_u32 [] acc = return acc"
| "sum_u32 (x # xs) acc = bind (chk_u32 (acc + x)) (\<lambda>acc. sum_u32 xs acc)"

section \<open>Refunds to several signers\<close>

text \<open>The loop over the signers: the shares so far, what they allocate, and the dust. The last signer gets the rest.\<close>

fun share_loop :: "int \<Rightarrow> (address \<times> int) list \<Rightarrow> (address \<times> int) list \<times> int \<times> int
    \<Rightarrow> ((address \<times> int) list \<times> int \<times> int) dust" where
  "share_loop total_amount [] acc = return acc"
| "share_loop total_amount ((signer, bps) # rest) (shares, allocated, dust) =
     bind (if rest = [] then chk_i128 (total_amount - allocated)
           else bind (dust_mul total_amount bps) (\<lambda>x. return (tdiv x 10000))) (\<lambda>share.
     bind (dust_add allocated share) (\<lambda>allocated.
     bind (if rest = [] then return dust
           else bind (dust_mul total_amount bps) (\<lambda>x. bind (chk_i128 (tdiv x 10000 - share)) (dust_add dust))) (\<lambda>dust.
     share_loop total_amount rest (shares @ [(signer, share)], allocated, dust))))"

text \<open>The dust of the signers: the ratio is that of the first entry of the signer.\<close>

fun signer_dust_loop :: "int \<Rightarrow> (address \<times> int) list \<Rightarrow> (address \<times> int) list \<Rightarrow> unit dust" where
  "signer_dust_loop total_amount ratios [] = return ()"
| "signer_dust_loop total_amount ratios ((signer, share) # rest) =
     bind (unwrap (map_of ratios signer)) (\<lambda>bps.
     bind (dust_mul total_amount bps) (\<lambda>x.
     bind (chk_i128 (tdiv x 10000 - share)) (\<lambda>d.
     bind (if d > 0 then modify (\<lambda>s. s\<lparr>da_signer_dust := da_signer_dust s @ [(signer, d)]\<rparr>) else return ()) (\<lambda>_.
     signer_dust_loop total_amount ratios rest))))"

text \<open>The bookkeeping both calculations share.\<close>

definition track_dust :: "int \<Rightarrow> int \<Rightarrow> unit dust" where
  "track_dust lid dust =
     bind (gets da_total_dust) (\<lambda>t. bind (dust_add t dust) (\<lambda>t.
     bind (modify (\<lambda>s. s\<lparr>da_total_dust := t, da_lease_dust := da_lease_dust s @ [(lid, dust)]\<rparr>)) (\<lambda>_.
     bind (gets da_dust_operations) (\<lambda>n. bind (chk_u64 (n + 1)) (\<lambda>n.
     modify (\<lambda>s. s\<lparr>da_dust_operations := n\<rparr>))))))"

definition calculate_multi_signer_dust :: "int \<Rightarrow> (address \<times> int) list \<Rightarrow> int \<Rightarrow> multi_signer_result dust" where
  "calculate_multi_signer_dust total_amount ratios lid =
     bind (throw_if (total_amount < 0) (NegativeAmount total_amount)) (\<lambda>_.
     bind (sum_u32 (map snd ratios) 0) (\<lambda>total_bps.
     bind (throw_if (total_bps > 10000) (InvalidBasisPointsSum total_bps)) (\<lambda>_.
     bind (share_loop total_amount ratios ([], 0, 0)) (\<lambda>(shares, allocated, dust).
     bind (sum_i128 (map snd shares) 0) (\<lambda>actual_sum.
     bind (throw_if (actual_sum \<noteq> total_amount) (DustAccountingMismatch total_amount actual_sum dust)) (\<lambda>_.
     bind (track_dust lid dust) (\<lambda>_.
     bind (signer_dust_loop total_amount ratios shares) (\<lambda>_.
     return \<lparr>ms_individual_shares = shares, ms_dust_amount = dust, ms_lease_id = lid,
       ms_verification_passed = True\<rparr>))))))))"

section \<open>Partial settlements, recovery\<close>

fun reject_negative :: "int list \<Rightarrow> unit dust" where
  "reject_negative [] = return ()"
| "reject_negative (x # xs) = bind (throw_if (x < 0) (NegativeSettlementAmount x)) (\<lambda>_. reject_negative xs)"

definition calculate_partial_settlement_dust :: "int \<Rightarrow> int list \<Rightarrow> int \<Rightarrow> partial_settlement_result dust" where
  "calculate_partial_settlement_dust total_available amounts lid =
     bind (throw_if (total_available < 0) (NegativeAmount total_available)) (\<lambda>_.
     bind (reject_negative amounts) (\<lambda>_.
     bind (sum_i128 amounts 0) (\<lambda>total_settlement.
     bind (throw_if (total_settlement > total_available) (SettlementExceedsAvailable total_settlement total_available)) (\<lambda>_.
     bind (chk_i128 (total_available - total_settlement)) (\<lambda>dust.
     bind (track_dust lid dust) (\<lambda>_.
     return \<lparr>ps_settlement_amounts = amounts, ps_dust_amount = dust, ps_remaining_amount = dust,
       ps_lease_id = lid\<rparr>))))))"

text \<open>The entry of a lease is the first with its id; it is removed when nothing of it remains.\<close>

fun replace_first :: "int \<Rightarrow> int \<Rightarrow> (int \<times> int) list \<Rightarrow> (int \<times> int) list" where
  "replace_first lid d [] = []"
| "replace_first lid d ((k, v) # xs) =
     (if k = lid then (if d = 0 then xs else (lid, d) # xs) else (k, v) # replace_first lid d xs)"

definition recover_dust :: "int \<Rightarrow> int \<Rightarrow> unit dust" where
  "recover_dust lid amount =
     bind (throw_if (amount < 0) (NegativeRecoveryAmount amount)) (\<lambda>_.
     bind (gets (\<lambda>s. map_of (da_lease_dust s) lid)) (\<lambda>x. bind (ok_or x (NoDustForLease lid)) (\<lambda>dust_amount.
     bind (throw_if (amount > dust_amount) (RecoveryExceedsDust amount dust_amount)) (\<lambda>_.
     bind (gets da_total_dust) (\<lambda>t. bind (dust_sub t amount) (\<lambda>t. bind (modify (\<lambda>s. s\<lparr>da_total_dust := t\<rparr>)) (\<lambda>_.
     bind (gets da_dust_recovered) (\<lambda>r. bind (dust_add r amount) (\<lambda>r. bind (modify (\<lambda>s. s\<lparr>da_dust_recovered := r\<rparr>)) (\<lambda>_.
     bind (dust_sub dust_amount amount) (\<lambda>remaining.
     modify (\<lambda>s. s\<lparr>da_lease_dust := replace_first lid remaining (da_lease_dust s)\<rparr>))))))))))))"

section \<open>Verification and report\<close>

definition verify_dust_accounting :: "unit dust" where
  "verify_dust_accounting =
     bind (gets (\<lambda>s. s)) (\<lambda>s.
     bind (throw_if (da_total_dust s < 0) (NegativeTotalDust (da_total_dust s))) (\<lambda>_.
     bind (throw_if (da_dust_recovered s > da_total_dust s) (RecoveryExceedsTotal (da_dust_recovered s) (da_total_dust s))) (\<lambda>_.
     bind (sum_i128 (map snd (da_lease_dust s)) 0) (\<lambda>lease_sum.
     bind (throw_if (lease_sum \<noteq> da_total_dust s) (LeaseDustMismatch lease_sum (da_total_dust s))) (\<lambda>_.
     bind (sum_i128 (map snd (da_signer_dust s)) 0) (\<lambda>signer_sum.
     throw_if (signer_sum > da_total_dust s) (SignerDustExceedsTotal signer_sum (da_total_dust s))))))))"

definition get_dust_report :: "dust_report dust" where
  "get_dust_report =
     bind (gets (\<lambda>s. s)) (\<lambda>s.
     bind (chk_i128 (da_total_dust s - da_dust_recovered s)) (\<lambda>net.
     bind (attempt verify_dust_accounting) (\<lambda>v.
     return \<lparr>dr_total_dust = da_total_dust s, dr_dust_recovered = da_dust_recovered s,
       dr_dust_operations = da_dust_operations s, dr_active_leases_with_dust = length (da_lease_dust s),
       dr_active_signers_with_dust = length (da_signer_dust s), dr_net_dust = net,
       dr_accounting_verified = (case v of Inr _ \<Rightarrow> True | Inl e \<Rightarrow> False)\<rparr>)))"

definition reset_dust :: "unit dust" where
  "reset_dust = modify (\<lambda>_. new_dust)"

section \<open>The books as a system\<close>

datatype dust_call =
    MultiSigner int "(address \<times> int) list" int
  | PartialSettlement int "int list" int
  | RecoverDust int int

fun dust_exec :: "dust_call \<Rightarrow> unit dust" where
  "dust_exec (MultiSigner n rs lid) = bind (calculate_multi_signer_dust n rs lid) (\<lambda>_. return ())"
| "dust_exec (PartialSettlement n xs lid) = bind (calculate_partial_settlement_dust n xs lid) (\<lambda>_. return ())"
| "dust_exec (RecoverDust lid n) = recover_dust lid n"

text \<open>A call that panics ends the program; the state after it is not observed.\<close>

definition dust_step :: "dust_call \<Rightarrow> dust_accounting \<Rightarrow> dust_accounting" where
  "dust_step c s = (case dust_exec c s of (Trap, _) \<Rightarrow> s | (_, s') \<Rightarrow> s')"

end
