(* ===== verification/Dust_Props.thy ===== *)
theory Dust_Props
  imports Dust_Accounting
begin

text \<open>Every refund is divided without a loss, and what the books of the dust can and cannot verify.\<close>

section \<open>Sums\<close>

lemma sum_i128_nonneg:
  "(\<forall>x \<in> set xs. 0 \<le> x) \<Longrightarrow> 0 \<le> a \<Longrightarrow> is_i128 (a + sum_list xs) \<Longrightarrow> sum_i128 xs a s = (Ok (a + sum_list xs), s)"
proof (induction xs arbitrary: a)
  case (Cons x xs)
  then have "is_i128 (a + x)" using sum_list_nonneg [of xs] by (auto simp: is_i128_def i128_min_def)
  then show ?case using Cons by (simp add: proc_run add.assoc)
qed simp

lemma sum_i128_Ok: "sum_i128 xs a s = (Ok r, s') \<Longrightarrow> r = a + sum_list xs \<and> s' = s"
proof (induction xs arbitrary: a)
  case (Cons x xs)
  then have "sum_i128 xs (a + x) s = (Ok r, s')" by (simp add: proc_ok)
  from Cons.IH [OF this] show ?case by simp
qed (simp add: proc_ok)

lemma sum_u32_Ok: "sum_u32 xs a s = (Ok r, s') \<Longrightarrow> s' = s"
  by (induction xs arbitrary: a) (auto simp: proc_ok)

lemma sum_u32_run:
  "(\<forall>x \<in> set xs. 0 \<le> x) \<Longrightarrow> 0 \<le> a \<Longrightarrow> is_u32 (a + sum_list xs) \<Longrightarrow> sum_u32 xs a s = (Ok (a + sum_list xs), s)"
proof (induction xs arbitrary: a)
  case (Cons x xs)
  then have "is_u32 (a + x)" using sum_list_nonneg [of xs] by (auto simp: is_u32_def)
  then show ?case using Cons by (simp add: proc_run add.assoc)
qed simp

lemma dust_arith_run [proc_run]:
  "dust_add a b s = (if is_i128 (a + b) then (Ok (a + b), s) else (Err DustOverflow, s))"
  "dust_sub a b s = (if is_i128 (a - b) then (Ok (a - b), s) else (Err DustOverflow, s))"
  "dust_mul a b s = (if is_i128 (a * b) then (Ok (a * b), s) else (Err DustOverflow, s))"
  by (simp_all add: dust_add_def dust_sub_def dust_mul_def ok_or_run checked_i128_def)

lemma dust_arith_Ok_iff [proc_ok]:
  "dust_add a b s = (Ok c, s') \<longleftrightarrow> is_i128 (a + b) \<and> c = a + b \<and> s' = s"
  "dust_sub a b s = (Ok c, s') \<longleftrightarrow> is_i128 (a - b) \<and> c = a - b \<and> s' = s"
  "dust_mul a b s = (Ok c, s') \<longleftrightarrow> is_i128 (a * b) \<and> c = a * b \<and> s' = s"
  by (auto simp: dust_arith_run)

section \<open>The division\<close>

text \<open>What the shares are meant to be: the floor of each ratio, and all that is left for the last signer.\<close>

fun fair_shares :: "int \<Rightarrow> int \<Rightarrow> (address \<times> int) list \<Rightarrow> (address \<times> int) list" where
  "fair_shares n left [] = []"
| "fair_shares n left ((a, bps) # rest) =
     (let share = (if rest = [] then left else n * bps div 10000) in (a, share) # fair_shares n (left - share) rest)"

definition ratios_ok :: "(address \<times> int) list \<Rightarrow> bool" where
  "ratios_ok rs \<longleftrightarrow> (\<forall>r \<in> set rs. 0 \<le> snd r) \<and> sum_list (map snd rs) \<le> 10000"

lemma fair_shares_sum: "rs \<noteq> [] \<Longrightarrow> sum_list (map snd (fair_shares n left rs)) = left"
  by (induction n left rs rule: fair_shares.induct) (auto simp: Let_def)

lemma ratio_step:
  assumes "0 \<le> (n :: int)" "\<forall>r \<in> set ((a :: address, bps) # rest). 0 \<le> snd r"
    and "n * sum_list (map snd ((a, bps) # rest)) \<le> 10000 * left"
  shows "0 \<le> n * bps" "n * bps \<le> 10000 * left" "0 \<le> n * bps div 10000" "10000 * (n * bps div 10000) \<le> n * bps"
    "n * bps div 10000 \<le> left" "n * sum_list (map snd rest) \<le> 10000 * (left - n * bps div 10000)" "0 \<le> left"
proof -
  have "0 \<le> sum_list (map snd rest)" using assms(2) by (intro sum_list_nonneg) auto
  then have rest: "0 \<le> n * sum_list (map snd rest)" using assms(1) by simp
  show nn: "0 \<le> n * bps" using assms(1,2) by simp
  then show f: "0 \<le> n * bps div 10000" "10000 * (n * bps div 10000) \<le> n * bps" by auto
  have all: "n * bps + n * sum_list (map snd rest) \<le> 10000 * left" using assms(3) by (simp add: distrib_left)
  have "p \<le> 10000 * l \<and> d \<le> l \<and> q \<le> 10000 * (l - d) \<and> 0 \<le> l"
    if "0 \<le> p" "0 \<le> q" "0 \<le> d" "10000 * d \<le> p" "p + q \<le> 10000 * l" for p q d l :: int
    using that by auto
  from this [OF nn rest f all]
  show "n * bps \<le> 10000 * left" "n * bps div 10000 \<le> left"
    "n * sum_list (map snd rest) \<le> 10000 * (left - n * bps div 10000)" "0 \<le> left" by blast+
qed

text \<open>The floors never exceed what is left, so that the last share is not below its own floor.\<close>

lemma fair_shares_bounds:
  assumes "0 \<le> n" "\<forall>r \<in> set rs. 0 \<le> snd r" "n * sum_list (map snd rs) \<le> 10000 * left" "(a, x) \<in> set (fair_shares n left rs)"
  shows "0 \<le> x \<and> x \<le> left"
  using assms
proof (induction n left rs rule: fair_shares.induct)
  case (2 n left b bps rest)
  note step = ratio_step [OF 2(2-4)]
  show ?case
  proof (cases "rest = []")
    case True
    then show ?thesis using 2(5) step(7) by simp
  next
    case False
    then show ?thesis using 2(1) [OF refl 2(2)] 2(3,5) step by (fastforce simp: Let_def)
  qed
qed simp

lemma fair_shares_at_least:
  assumes "0 \<le> n" "\<forall>r \<in> set rs. 0 \<le> snd r" "n * sum_list (map snd rs) \<le> 10000 * left"
  shows "list_all2 (\<lambda>r r'. fst r' = fst r \<and> n * snd r div 10000 \<le> snd r') rs (fair_shares n left rs)"
  using assms
proof (induction n left rs rule: fair_shares.induct)
  case (2 n left b bps rest)
  note step = ratio_step [OF 2(2-4)]
  with 2(1) [OF refl 2(2)] 2(3) show ?case by (cases rest) (auto simp: Let_def)
qed simp

lemma share_loop_run:
  assumes "0 \<le> n" "is_i128 (n * 10000)" "rs \<noteq> []" "\<forall>r \<in> set rs. 0 \<le> snd r"
    and "n * sum_list (map snd rs) \<le> 10000 * (n - alloc)" "0 \<le> alloc" "alloc \<le> n"
  shows "share_loop n rs (shares, alloc, 0) s = (Ok (shares @ fair_shares n (n - alloc) rs, n, 0), s)"
  using assms(3-)
proof (induction rs arbitrary: shares alloc)
  case (Cons r rest)
  obtain a bps where r: "r = (a, bps)" by (cases r)
  have n: "is_i128 n" "is_i128 (n - alloc)" using assms(1,2) Cons.prems by (auto simp: is_i128_def i128_min_def)
  show ?case
  proof (cases "rest = []")
    case True
    then show ?thesis using n r by (simp add: proc_run)
  next
    case False
    let ?f = "n * bps div 10000"
    note step = ratio_step [OF assms(1) Cons.prems(2,3) [unfolded r]]
    have le: "n * sum_list (map snd rest) \<le> 10000 * (n - (alloc + ?f))" using step(6) by (simp add: diff_diff_eq)
    have fits: "is_i128 (n * bps)" "is_i128 (alloc + ?f)" "is_i128 0"
      using assms(1,2) step(1,2,3,5) Cons.prems(4) by (auto simp: is_i128_def i128_min_def i128_max_def)
    have "share_loop n rest (shares @ [(a, ?f)], alloc + ?f, 0) s
        = (Ok ((shares @ [(a, ?f)]) @ fair_shares n (n - (alloc + ?f)) rest, n, 0), s)"
      using Cons.IH [of "alloc + ?f" "shares @ [(a, ?f)]"] False Cons.prems(2,4) step(3,5) le r by simp
    then show ?thesis using False r fits step(1) by (simp add: proc_run tdiv_nonneg Let_def diff_diff_eq)
  qed
qed simp

text \<open>With distinct signers nobody gets less than the floor, so no dust of a signer is recorded.\<close>

lemma signer_dust_none:
  assumes "\<forall>(a, x) \<in> set shares. \<exists>bps. map_of rs a = Some bps \<and> 0 \<le> n * bps \<and> n * bps \<le> n * 10000
      \<and> n * bps div 10000 \<le> x \<and> 0 \<le> x \<and> x \<le> n" "0 \<le> n" "is_i128 (n * 10000)"
  shows "signer_dust_loop n rs shares s = (Ok (), s)"
  using assms(1)
proof (induction shares)
  case (Cons r shares)
  obtain a x where r: "r = (a, x)" by (cases r)
  then obtain bps where b: "map_of rs a = Some bps" "0 \<le> n * bps" "n * bps \<le> n * 10000" "n * bps div 10000 \<le> x"
      "0 \<le> x" "x \<le> n" using Cons.prems by auto
  have "0 \<le> n * bps div 10000" using b(2) by simp
  then have "is_i128 (n * bps)" "is_i128 (n * bps div 10000 - x)"
    using b assms(2,3) by (auto simp: is_i128_def i128_min_def i128_max_def)
  then show ?case using Cons b r by (simp add: proc_run tdiv_nonneg)
qed simp

lemma list_all2_right: "list_all2 P xs ys \<Longrightarrow> y \<in> set ys \<Longrightarrow> \<exists>x \<in> set xs. P x y"
  by (induction rule: list_all2_induct) auto

section \<open>The books\<close>

definition books_ok :: "dust_accounting \<Rightarrow> bool" where
  "books_ok s \<longleftrightarrow> da_total_dust s = sum_list (map snd (da_lease_dust s)) \<and> is_i128 (da_total_dust s)
     \<and> (\<forall>e \<in> set (da_lease_dust s). 0 \<le> snd e) \<and> (\<forall>e \<in> set (da_signer_dust s). 0 \<le> snd e)
     \<and> 0 \<le> da_dust_recovered s"

lemma books_total_nonneg: "books_ok s \<Longrightarrow> 0 \<le> da_total_dust s"
  using sum_list_nonneg [of "map snd (da_lease_dust s)"] by (auto simp: books_ok_def)

lemma track_dust_Ok_iff [proc_ok]:
  "track_dust lid d s = (Ok u, s') \<longleftrightarrow> is_i128 (da_total_dust s + d) \<and> is_u64 (da_dust_operations s + 1)
     \<and> s' = s\<lparr>da_total_dust := da_total_dust s + d, da_lease_dust := da_lease_dust s @ [(lid, d)],
         da_dust_operations := da_dust_operations s + 1\<rparr>"
  by (auto simp: track_dust_def proc_ok)

lemma track_dust_run [proc_run]:
  "is_i128 (da_total_dust s + d) \<Longrightarrow> is_u64 (da_dust_operations s + 1) \<Longrightarrow> track_dust lid d s
     = (Ok (), s\<lparr>da_total_dust := da_total_dust s + d, da_lease_dust := da_lease_dust s @ [(lid, d)],
         da_dust_operations := da_dust_operations s + 1\<rparr>)"
  by (simp add: track_dust_def proc_run)

lemma share_loop_Ok:
  "share_loop n rs acc s = (Ok (shares, alloc, d), s') \<Longrightarrow> d = snd (snd acc) \<and> s' = s"
proof (induction rs arbitrary: acc)
  case (Cons r rs)
  obtain a bps where r: "r = (a, bps)" by (cases r)
  obtain sh al d0 where acc: "acc = (sh, al, d0)" by (cases acc)
  have "\<exists>sh' al'. share_loop n rs (sh', al', d0) s = (Ok (shares, alloc, d), s')"
    using Cons.prems unfolding r acc by (auto simp: proc_ok split: if_splits)
  then show ?case using Cons.IH acc by fastforce
qed (simp add: proc_ok)

lemma signer_dust_loop_Ok:
  "signer_dust_loop n rs shares s = (Ok u, s') \<Longrightarrow> \<exists>ds. s' = s\<lparr>da_signer_dust := da_signer_dust s @ ds\<rparr> \<and> (\<forall>e \<in> set ds. 0 \<le> snd e)"
proof (induction shares arbitrary: s)
  case Nil
  then show ?case by (intro exI [of _ "[]"]) (simp add: proc_ok)
next
  case (Cons r shares)
  obtain a x where r: "r = (a, x)" by (cases r)
  obtain d where "signer_dust_loop n rs shares (if 0 < d then s\<lparr>da_signer_dust := da_signer_dust s @ [(a, d)]\<rparr> else s) = (Ok u, s')"
    using Cons.prems r by (fastforce simp: proc_ok split: if_splits)
  from Cons.IH [OF this] obtain ds where ds: "s' = (if 0 < d then s\<lparr>da_signer_dust := da_signer_dust s @ [(a, d)]\<rparr> else s)
      \<lparr>da_signer_dust := da_signer_dust (if 0 < d then s\<lparr>da_signer_dust := da_signer_dust s @ [(a, d)]\<rparr> else s) @ ds\<rparr>"
      "\<forall>e \<in> set ds. 0 \<le> snd e" by blast
  then show ?case by (intro exI [of _ "(if 0 < d then [(a, d)] else []) @ ds"]) auto
qed

lemma reject_negative_Ok: "reject_negative xs s = (Ok u, s') \<Longrightarrow> (\<forall>x \<in> set xs. 0 \<le> x) \<and> s' = s"
  by (induction xs) (auto simp: proc_ok)

lemma replace_first_sum:
  "map_of xs lid = Some v \<Longrightarrow> sum_list (map snd (replace_first lid d xs)) = sum_list (map snd xs) - v + d"
  by (induction xs) auto

lemma replace_first_set: "set (replace_first lid d xs) \<subseteq> insert (lid, d) (set xs)"
  by (induction xs) (auto split: if_splits)

lemma multi_signer_Ok:
  assumes "calculate_multi_signer_dust n rs lid s = (Ok x, s')"
  shows "\<exists>shares. signer_dust_loop n rs shares (s\<lparr>da_total_dust := da_total_dust s + 0,
      da_lease_dust := da_lease_dust s @ [(lid, 0)], da_dust_operations := da_dust_operations s + 1\<rparr>) = (Ok (), s')"
proof -
  obtain shares al d s1 m s2 where 1: "share_loop n rs ([], 0, 0) s = (Ok (shares, al, d), s1)"
    and 2: "sum_i128 (map snd shares) 0 s1 = (Ok m, s2)"
    and 3: "signer_dust_loop n rs shares (s2\<lparr>da_total_dust := da_total_dust s2 + d,
      da_lease_dust := da_lease_dust s2 @ [(lid, d)], da_dust_operations := da_dust_operations s2 + 1\<rparr>) = (Ok (), s')"
    using assms unfolding calculate_multi_signer_dust_def
    by (fastforce simp: proc_ok dest: sum_u32_Ok split: prod.splits)
  then show ?thesis using share_loop_Ok [OF 1] sum_i128_Ok [OF 2] by auto
qed

lemma dust_exec_books:
  assumes ok: "books_ok s" and run: "dust_exec c s = (Ok (), s')"
  shows "books_ok s'"
proof (cases c)
  case (MultiSigner n rs lid)
  then obtain x where "calculate_multi_signer_dust n rs lid s = (Ok x, s')" using run by (auto simp: proc_ok)
  from multi_signer_Ok [OF this] obtain shares where "signer_dust_loop n rs shares
      (s\<lparr>da_total_dust := da_total_dust s + 0, da_lease_dust := da_lease_dust s @ [(lid, 0)],
        da_dust_operations := da_dust_operations s + 1\<rparr>) = (Ok (), s')" by blast
  then show ?thesis using ok by (fastforce simp: books_ok_def dest!: signer_dust_loop_Ok)
next
  case (PartialSettlement n xs lid)
  then show ?thesis using run ok
    by (auto simp: calculate_partial_settlement_dust_def proc_ok books_ok_def dest!: sum_i128_Ok reject_negative_Ok)
next
  case (RecoverDust lid a)
  then obtain v where v: "map_of (da_lease_dust s) lid = Some v" "0 \<le> a" "a \<le> v"
    and s': "s' = s\<lparr>da_total_dust := da_total_dust s - a, da_dust_recovered := da_dust_recovered s + a,
        da_lease_dust := replace_first lid (v - a) (da_lease_dust s)\<rparr>" "is_i128 (da_total_dust s - a)"
    using run by (auto simp: recover_dust_def proc_ok)
  then show ?thesis using ok replace_first_set [of lid "v - a" "da_lease_dust s"]
    by (auto simp: books_ok_def replace_first_sum)
qed

text \<open>The states of books all of whose calls succeeded.\<close>

inductive dust_reached :: "dust_accounting \<Rightarrow> bool" where
  new: "dust_reached new_dust"
| call: "dust_reached s \<Longrightarrow> dust_exec c s = (Ok (), s') \<Longrightarrow> dust_reached s'"

lemma dust_reached_books: "dust_reached s \<Longrightarrow> books_ok s"
proof (induction rule: dust_reached.induct)
  case new
  then show ?case by (simp add: books_ok_def new_dust_def is_i128_def i128_min_def i128_max_def)
next
  case (call s c s')
  then show ?case using dust_exec_books by blast
qed

lemma verify_dust_iff:
  assumes "books_ok s"
  shows "fst (verify_dust_accounting s) = Ok () \<longleftrightarrow> da_dust_recovered s \<le> da_total_dust s
    \<and> sum_list (map snd (da_signer_dust s)) \<le> da_total_dust s"
proof -
  have lease: "sum_i128 (map snd (da_lease_dust s)) 0 s = (Ok (da_total_dust s), s)"
    using assms sum_i128_nonneg [of "map snd (da_lease_dust s)" 0 s] by (auto simp: books_ok_def)
  have tot: "0 \<le> da_total_dust s" using assms by (rule books_total_nonneg)
  have signer: "sum_i128 (map snd (da_signer_dust s)) 0 s = (Ok (sum_list (map snd (da_signer_dust s))), s)"
    if "sum_list (map snd (da_signer_dust s)) \<le> da_total_dust s"
  proof -
    have "0 \<le> sum_list (map snd (da_signer_dust s))" using assms by (intro sum_list_nonneg) (auto simp: books_ok_def)
    then have "is_i128 (sum_list (map snd (da_signer_dust s)))" using that assms by (auto simp: books_ok_def is_i128_def i128_min_def)
    then show ?thesis using sum_i128_nonneg [of "map snd (da_signer_dust s)" 0 s] assms by (auto simp: books_ok_def)
  qed
  show ?thesis
  proof (cases "da_dust_recovered s \<le> da_total_dust s \<and> sum_list (map snd (da_signer_dust s)) \<le> da_total_dust s")
    case True
    then show ?thesis using lease signer tot by (simp add: verify_dust_accounting_def proc_run)
  next
    case False
    then have "verify_dust_accounting s \<noteq> (Ok (), s')" for s'
      by (auto simp: verify_dust_accounting_def proc_ok dest: sum_i128_Ok)
    then show ?thesis using False by (metis prod.collapse)
  qed
qed

section \<open>Properties\<close>

text \<open>What the division does, also to the books: the dust it records is always zero, since the last signer takes all that is
  left.\<close>

lemma refund_division_run:
  assumes "0 \<le> n" "is_i128 (n * 10000)" "rs \<noteq> []" "distinct (map fst rs)" "ratios_ok rs"
    "is_i128 (da_total_dust s)" "is_u64 (da_dust_operations s + 1)"
  shows "\<exists>x s'. calculate_multi_signer_dust n rs lid s = (Ok x, s')
    \<and> ms_individual_shares x = fair_shares n n rs \<and> sum_list (map snd (ms_individual_shares x)) = n
    \<and> list_all2 (\<lambda>r r'. fst r' = fst r \<and> n * snd r div 10000 \<le> snd r') rs (ms_individual_shares x)
    \<and> (\<forall>r \<in> set (ms_individual_shares x). 0 \<le> snd r \<and> snd r \<le> n)
    \<and> ms_dust_amount x = 0 \<and> s' = s\<lparr>da_lease_dust := da_lease_dust s @ [(lid, 0)],
        da_dust_operations := da_dust_operations s + 1\<rparr>"
proof -
  let ?xs = "fair_shares n n rs"
  have r: "\<forall>r \<in> set rs. 0 \<le> snd r" "sum_list (map snd rs) \<le> 10000" using assms(5) by (auto simp: ratios_ok_def)
  have fit: "n * sum_list (map snd rs) \<le> 10000 * n" using mult_left_mono [OF r(2) assms(1)] by (simp add: mult.commute)
  have n: "is_i128 n" using assms(1,2) by (auto simp: is_i128_def i128_min_def)
  have bounds: "0 \<le> snd y \<and> snd y \<le> n" if "y \<in> set ?xs" for y
    using fair_shares_bounds [OF assms(1) r(1) fit, of "fst y" "snd y"] that by simp
  have floors: "list_all2 (\<lambda>r r'. fst r' = fst r \<and> n * snd r div 10000 \<le> snd r') rs ?xs"
    by (rule fair_shares_at_least [OF assms(1) r(1) fit])
  have sum: "sum_list (map snd ?xs) = n" by (rule fair_shares_sum [OF assms(3)])
  have "0 \<le> sum_list (map snd rs)" using r(1) by (intro sum_list_nonneg) auto
  then have bps: "sum_u32 (map snd rs) 0 s = (Ok (sum_list (map snd rs)), s)"
    using r sum_u32_run [of "map snd rs" 0 s] by (simp add: is_u32_def u32_max_def)
  have shares: "share_loop n rs ([], 0, 0) s = (Ok (?xs, n, 0), s)"
    using share_loop_run [OF assms(1,2,3) r(1), of 0 "[]" s] fit assms(1) by simp
  have total: "sum_i128 (map snd ?xs) 0 s = (Ok n, s)"
    using sum_i128_nonneg [of "map snd ?xs" 0 s] bounds sum n by simp
  have "\<exists>bps. map_of rs a = Some bps \<and> 0 \<le> n * bps \<and> n * bps \<le> n * 10000 \<and> n * bps div 10000 \<le> x \<and> 0 \<le> x \<and> x \<le> n"
    if share: "(a, x) \<in> set ?xs" for a x
  proof -
    obtain r0 where r0: "r0 \<in> set rs" "a = fst r0" "n * snd r0 div 10000 \<le> x"
      using list_all2_right [OF floors share] by auto
    moreover have "snd r0 \<le> sum_list (map snd rs)" using r0(1) r(1) by (intro member_le_sum_list) auto
    ultimately show ?thesis using bounds [OF share] r assms(1,4)
      by (intro exI [of _ "snd r0"]) (auto intro!: mult_left_mono map_of_is_SomeI)
  qed
  then have signers: "signer_dust_loop n rs ?xs t = (Ok (), t)" for t
    using assms(1,2) by (intro signer_dust_none) auto
  show ?thesis
    using sum floors bounds assms(1,6,7) bps shares total signers r(2)
    by (simp add: calculate_multi_signer_dust_def proc_run)
qed

lemma fair_shares_butlast:
  "butlast (fair_shares n left rs) = map (\<lambda>(a, bps). (a, n * bps div 10000)) (butlast rs)"
proof (induction n left rs rule: fair_shares.induct)
  case (2 n left a bps rest)
  have "fair_shares n m rest = [] \<longleftrightarrow> rest = []" for m by (cases rest) (auto simp: Let_def)
  with 2 show ?case by (auto simp: Let_def)
qed simp

text \<open>Claim C36. A refund is divided without a loss. For a refund that is not negative and times ten thousand fits into i128,
  at least one signer, distinct signers, ratios that are not negative and add up to at most ten thousand basis points, and
  counters with room for one more operation, the division succeeds: every signer but the last gets the floor of the
  ratio, the last one all that is left, at least the floor; no share is negative or more than the refund, and the
  shares add up to the refund exactly.\<close>
theorem refund_divided_exactly:
  assumes "0 \<le> n" "is_i128 (n * 10000)" "rs \<noteq> []" "distinct (map fst rs)"
    "\<forall>r \<in> set rs. 0 \<le> snd r" "sum_list (map snd rs) \<le> 10000"
    "is_i128 (da_total_dust s)" "is_u64 (da_dust_operations s + 1)"
  shows "\<exists>x s'. calculate_multi_signer_dust n rs lid s = (Ok x, s')
    \<and> butlast (ms_individual_shares x) = map (\<lambda>(a, bps). (a, n * bps div 10000)) (butlast rs)
    \<and> sum_list (map snd (ms_individual_shares x)) = n
    \<and> list_all2 (\<lambda>r r'. fst r' = fst r \<and> n * snd r div 10000 \<le> snd r') rs (ms_individual_shares x)
    \<and> (\<forall>r \<in> set (ms_individual_shares x). 0 \<le> snd r \<and> snd r \<le> n)"
proof -
  have "ratios_ok rs" using assms(5,6) by (simp add: ratios_ok_def)
  from refund_division_run [OF assms(1-4) this assms(7,8), of lid] obtain x s' where
    x: "calculate_multi_signer_dust n rs lid s = (Ok x, s')" "ms_individual_shares x = fair_shares n n rs"
      "sum_list (map snd (ms_individual_shares x)) = n"
      "list_all2 (\<lambda>r r'. fst r' = fst r \<and> n * snd r div 10000 \<le> snd r') rs (ms_individual_shares x)"
      "\<forall>r \<in> set (ms_individual_shares x). 0 \<le> snd r \<and> snd r \<le> n"
    by (elim exE conjE) (rule that)
  have "butlast (ms_individual_shares x) = map (\<lambda>(a, bps). (a, n * bps div 10000)) (butlast rs)"
    unfolding x(2) by (rule fair_shares_butlast)
  with x(1,3-5) show ?thesis by (intro exI conjI)
qed

text \<open>What the books can verify. Along every sequence of successful calls the total is the sum of the dust of
  the leases and never negative. The verification succeeds exactly while no more has been recovered than is left and the
  dust recorded for signers (which a repeated signer causes) is no more than that: so recovering more than
  half of the dust, which is allowed, makes the books fail their own verification.\<close>
theorem dust_books_verified_iff:
  assumes "dust_reached s"
  shows "da_total_dust s = sum_list (map snd (da_lease_dust s)) \<and> 0 \<le> da_total_dust s
    \<and> (fst (verify_dust_accounting s) = Ok () \<longleftrightarrow> da_dust_recovered s \<le> da_total_dust s
        \<and> sum_list (map snd (da_signer_dust s)) \<le> da_total_dust s)
    \<and> (\<forall>lid a s'. recover_dust lid a s = (Ok (), s') \<and> da_total_dust s < da_dust_recovered s + 2 * a
        \<longrightarrow> fst (verify_dust_accounting s') \<noteq> Ok ())"
proof -
  have ok: "books_ok s" using assms by (rule dust_reached_books)
  have "fst (verify_dust_accounting s') \<noteq> Ok ()"
    if "recover_dust lid a s = (Ok (), s')" "da_total_dust s < da_dust_recovered s + 2 * a" for lid a s'
  proof -
    have "books_ok s'" using dust_exec_books [OF ok, of "RecoverDust lid a"] that(1) by simp
    moreover have "da_total_dust s' = da_total_dust s - a" "da_dust_recovered s' = da_dust_recovered s + a"
      using that(1) by (auto simp: recover_dust_def proc_ok)
    ultimately show ?thesis using that(2) by (simp add: verify_dust_iff)
  qed
  then show ?thesis using ok books_total_nonneg [OF ok] verify_dust_iff [OF ok] by (auto simp: books_ok_def)
qed

section \<open>An example\<close>

theorem refund_divided_exactly_witness:
  "\<exists>x s'. calculate_multi_signer_dust 1001 [(1, 3333), (2, 3333), (3, 3334)] 9 new_dust = (Ok x, s')
     \<and> butlast (ms_individual_shares x) = [(1, 333), (2, 333)] \<and> sum_list (map snd (ms_individual_shares x)) = 1001"
  using refund_divided_exactly [of 1001 "[(1, 3333), (2, 3333), (3, 3334)]" new_dust 9]
  by (auto simp: new_dust_def range_defs int_bounds)

lemma dust_example:
  "dust_exec (PartialSettlement 100 [60, 30] 9) new_dust = (Ok (), snd (dust_exec (PartialSettlement 100 [60, 30] 9) new_dust))"
  by code_simp

theorem dust_books_verified_iff_witness:
  "fst (verify_dust_accounting (snd (recover_dust 9 6 (snd (dust_exec (PartialSettlement 100 [60, 30] 9) new_dust))))) \<noteq> Ok ()"
proof -
  let ?s = "snd (dust_exec (PartialSettlement 100 [60, 30] 9) new_dust)"
  have "dust_reached ?s" by (rule dust_reached.call [OF dust_reached.new dust_example])
  moreover have "recover_dust 9 6 ?s = (Ok (), snd (recover_dust 9 6 ?s))" by (intro prod_eqI) (code_simp, simp)
  moreover have "da_total_dust ?s < da_dust_recovered ?s + 2 * 6" by code_simp
  ultimately show ?thesis using dust_books_verified_iff by blast
qed

end
