(* ===== verification/Proposal_Sweep.thy ===== *)
theory Proposal_Sweep
  imports Contract_Accounts
begin

text \<open>
  \<^verbatim>\<open>contracts/leaseflow_contracts/src/expired_proposals.rs\<close>: anyone can remove a lease that is still pending a week
  after its start. The removal from the index of active leases, which is called but defined nowhere, is a
  parameter like its counterpart: it maps the stored index and the lease id to an error or the new index. The error
  \<^verbatim>\<open>InvalidState\<close> is missing in \<^verbatim>\<open>enum LeaseError\<close> and is added here.
\<close>

section \<open>The sweep\<close>

definition INIT_TIMEOUT_SECS :: int where "INIT_TIMEOUT_SECS = 7 * 24 * 60 * 60"
definition BOUNTY_BPS :: int where "BOUNTY_BPS = 50"

datatype sweep_error = InvalidState | Lease_error lease_error

type_synonym remove_index = "int list \<Rightarrow> int \<Rightarrow> lease_error + int list"

text \<open>The event is kept apart from those of the lease contract: \<open>ProposalSwept\<close> has the id, the relayer and the time.\<close>

record sweep_state =
  sw_contract :: lc_state
  sw_swept :: "(int \<times> address \<times> int) list"

definition on_contract :: "(lc_state, 'e, 'a) proc \<Rightarrow> (sweep_state, 'e, 'a) proc" where
  "on_contract m = (\<lambda>s. case m (sw_contract s) of (r, c) \<Rightarrow> (r, s\<lparr>sw_contract := c\<rparr>))"

definition refund_deposit :: "env \<Rightarrow> lease_instance \<Rightarrow> (lc_state, sweep_error, unit) proc" where
  "refund_deposit env l = (if security_deposit l > 0
     then call_unit env (TokenTransfer (payment_token l) (current_contract env) (tenant l) (security_deposit l))
     else return ())"

definition pay_bounty :: "env \<Rightarrow> address \<Rightarrow> (lc_state, sweep_error, unit) proc" where
  "pay_bounty env relayer =
     bind (gets (\<lambda>s. (platform_fee_amount s, platform_fee_token s, platform_fee_recipient s))) (\<lambda>fee.
     case fee of (Some fee_amount, Some fee_token, Some fee_recipient) \<Rightarrow>
       (let bounty = tdiv (sat_i128 (fee_amount * BOUNTY_BPS)) 10000 in
        if bounty > 0 then call_unit env (TokenTransfer fee_token fee_recipient relayer bounty) else return ())
     | _ \<Rightarrow> return ())"

definition sweep_lease :: "remove_index \<Rightarrow> env \<Rightarrow> address \<Rightarrow> int \<Rightarrow> (lc_state, sweep_error, unit) proc" where
  "sweep_lease remove_from_index env relayer lid =
     bind (map_err Lease_error (load_lease lid)) (\<lambda>l.
     bind (throw_if (status l \<noteq> LPending) InvalidState) (\<lambda>_.
     bind (throw_if (ledger_timestamp env < sat_u64 (start_date l + INIT_TIMEOUT_SECS)) (Lease_error LeaseNotExpired)) (\<lambda>_.
     bind (refund_deposit env l) (\<lambda>_.
     bind (pay_bounty env relayer) (\<lambda>_.
     bind (map_err Lease_error (delete_lease_instance lid)) (\<lambda>_.
     bind (gets active_leases_index) (\<lambda>index.
     bind (map_err Lease_error (from_result (remove_from_index index lid))) (\<lambda>index.
     modify (\<lambda>s. s\<lparr>active_leases_index := index\<rparr>)))))))))"

definition sweep_expired_proposals :: "remove_index \<Rightarrow> env \<Rightarrow> address \<Rightarrow> int \<Rightarrow> (sweep_state, sweep_error, unit) proc" where
  "sweep_expired_proposals remove_from_index env relayer lid =
     bind (on_contract (sweep_lease remove_from_index env relayer lid)) (\<lambda>_.
     modify (\<lambda>s. s\<lparr>sw_swept := sw_swept s @ [(lid, relayer, ledger_timestamp env)]\<rparr>))"

section \<open>What a sweep does\<close>

definition bounty_of :: "address \<Rightarrow> lc_state \<Rightarrow> ext_call list" where
  "bounty_of relayer s = (case (platform_fee_amount s, platform_fee_token s, platform_fee_recipient s) of
     (Some n, Some t, Some r) \<Rightarrow>
       (let b = tdiv (sat_i128 (n * 50)) 10000 in if b > 0 then [TokenTransfer t r relayer b] else [])
   | _ \<Rightarrow> [])"

definition refund_of :: "env \<Rightarrow> lease_instance \<Rightarrow> ext_call list" where
  "refund_of env l = (if security_deposit l > 0
     then [TokenTransfer (payment_token l) (current_contract env) (tenant l) (security_deposit l)] else [])"

definition pays :: "env \<Rightarrow> bool" where
  "pays env \<longleftrightarrow> (\<forall>cs t a b n. ext env cs (TokenTransfer t a b n) = Reply_unit)"

lemma refund_run: "pays env \<Longrightarrow> refund_deposit env l s = (Ok (), s\<lparr>calls := calls s @ refund_of env l\<rparr>)"
  by (simp add: refund_deposit_def refund_of_def call_unit_run pays_def)

lemma bounty_run: "pays env \<Longrightarrow> pay_bounty env relayer s = (Ok (), s\<lparr>calls := calls s @ bounty_of relayer s\<rparr>)"
  by (auto simp: pay_bounty_def bounty_of_def bind_run call_unit_run pays_def Let_def BOUNTY_BPS_def
    split: option.split)

lemma map_err_run [proc_run]: "map_err f m s = (case m s of (Ok a, s') \<Rightarrow> (Ok a, s')
    | (Err e, s') \<Rightarrow> (Err (f e), s') | (Trap, s') \<Rightarrow> (Trap, s'))"
  by (simp add: map_err_def)

lemma sweep_run:
  assumes "lease_instances s lid = Some l" "status l = LPending" "sat_u64 (start_date l + 604800) \<le> ledger_timestamp env"
    "pays env" "remove (active_leases_index s) lid = Inr idx"
  shows "sweep_lease remove env relayer lid s = (Ok (), s\<lparr>calls := calls s @ refund_of env l @ bounty_of relayer s,
     lease_instances := (lease_instances s)(lid := None), active_leases_index := idx\<rparr>)"
proof -
  have "bounty_of relayer (s\<lparr>calls := cs\<rparr>) = bounty_of relayer s" for cs by (simp add: bounty_of_def)
  then show ?thesis using assms
    by (simp add: sweep_lease_def proc_run refund_run bounty_run delete_lease_instance_def from_result_def
        INIT_TIMEOUT_SECS_def)
qed

lemma sweep_needs:
  assumes "sweep_lease remove env relayer lid s = (Ok u, s')" "lease_instances s lid = Some l"
  shows "status l = LPending \<and> sat_u64 (start_date l + 604800) \<le> ledger_timestamp env"
  using assms by (auto simp: sweep_lease_def proc_ok INIT_TIMEOUT_SECS_def)

section \<open>Properties\<close>


text \<open>Which leases this concerns. No operation of the lease contract activates a lease made by
  \<^verbatim>\<open>create_lease_instance\<close>, so in every state the contract reaches, a lease without continuous billing that is not in
  dispute or terminated, whatever rent was paid for it, falls to
  anyone who sweeps it from a week after its start on. The tenant gets the security deposit; the deposit
  amount stays with the contract, and no early termination of the lease succeeds any more.\<close>
theorem running_leases_are_swept:
  assumes "sw_contract s = fold lc_step ms lc_init" "lease_instances (sw_contract s) lid = Some l"
    "\<not> continuous_billing_enabled l" "status l \<noteq> LDisputed" "status l \<noteq> LTerminated" "sat_u64 (start_date l + 7 * 86400) \<le> ledger_timestamp env"
    "pays env" "remove (active_leases_index (sw_contract s)) lid = Inr idx"
  shows "\<exists>s'. sweep_expired_proposals remove env relayer lid s = (Ok (), s')
    \<and> calls (sw_contract s') = calls (sw_contract s) @ refund_of env l @ bounty_of relayer (sw_contract s)
    \<and> (\<forall>env a. fst (execute_early_termination env lid a (sw_contract s')) \<noteq> Ok ())"
proof -
  have "lc_inv (sw_contract s)" unfolding assms(1) by (rule lease_contract.reach_inv)
  then have "status l = LPending" using assms(2-5) by (auto simp: lc_inv_def plain_lease_def)
  moreover have "fst (execute_early_termination env lid a t) \<noteq> Ok ()"
    if "lease_instances t lid = None" for env a t
    using that by (simp add: execute_early_termination_def proc_run)
  ultimately show ?thesis using sweep_run [of "sw_contract s" lid l env remove idx relayer] assms(2,6-8)
    by (simp add: sweep_expired_proposals_def on_contract_def proc_run)
qed

section \<open>An example\<close>

definition sx_state :: sweep_state where
  "sx_state = \<lparr>sw_contract = lx_state, sw_swept = []\<rparr>"

definition sx_remove :: remove_index where
  "sx_remove xs i = Inr (removeAll i xs)"

definition sx_env :: "int \<Rightarrow> env" where
  "sx_env now = \<lparr>ledger_timestamp = now, ledger_sequence = 1, auths = [], current_contract = 9,
     ext = (\<lambda>cs c. Reply_unit)\<rparr>"

lemma sx_lease:
  "lease_instances lx_state 5 = Some (new_instance 2 (lx_params 500) 2000)"
  "platform_fee_amount lx_state = None"
  by code_simp+


theorem running_leases_are_swept_witness:
  "\<exists>s'. sweep_expired_proposals sx_remove (sx_env 700000) 33 5 sx_state = (Ok (), s')
     \<and> calls (sw_contract s') = calls lx_state @ [TokenTransfer 50 9 3 2000]"
  using running_leases_are_swept [of sx_state lx_setup 5 "new_instance 2 (lx_params 500) 2000" "sx_env 700000" sx_remove _ 33]
    sx_lease
  by (auto simp: sx_state_def lx_state_def pays_def sx_env_def sx_remove_def new_instance_def lx_params_def sat_defs
      u64_max_def refund_of_def bounty_of_def)

end
