(* ===== verification/IoT_Locks.thy ===== *)
theory IoT_Locks
  imports Derived_Token
begin

text \<open>
  \<^verbatim>\<open>contracts/leaseflow_contracts/src/iot_integration.rs\<close>: smart locks and gates that open for the holders of access
  tokens. Every device is stored under the key of lease 0, whatever its identifier, so there is one slot, shared with
  the lease of that number: a value of the other type there fails to convert, which traps. The expiry of a
  response is computed as an option although its field is a number; it is kept as the option. The error
  \<^verbatim>\<open>TokenNotFound\<close> is used but missing in the enumeration.
\<close>

section \<open>State\<close>

datatype device_type = SmartLock | AccessGate | SmartKey | BiometricDevice | RFIDDevice | QRCodeDevice | NFCDevice | Bluetooth | HybridDevice

datatype encryption_level = NoEncryption | Basic | StandardEncryption | HighEncryption | Military

record device_capabilities =
  dc_device_type :: device_type
  dc_supports_remote :: bool
  dc_supports_offline :: bool
  dc_supports_audit :: bool
  dc_supports_time_based :: bool
  dc_supports_multi_user :: bool
  dc_max_concurrent_access :: int
  dc_battery_backup :: bool
  dc_encryption_level :: encryption_level

datatype device_status = Online | Offline | Maintenance | DeviceError | Decommissioned

record iot_device =
  dv_device_id :: string
  dv_device_type :: device_type
  dv_owner :: address
  dv_location :: string
  dv_capabilities :: device_capabilities
  dv_registered_at :: int
  dv_last_seen :: int
  dv_status :: device_status
  dv_firmware_version :: string
  dv_hardware_version :: string

datatype access_method = Biometric | RFID | NFC | QRCode | MobileApp | WebApp | Voice | PhysicalKey

datatype access_urgency = Low | Medium | High | Critical

record access_context =
  cx_purpose :: string
  cx_urgency :: access_urgency
  cx_expected_duration :: "int option"
  cx_companion_devices :: "string list"
  cx_environmental_conditions :: "(string \<times> string) list"

record iot_request =
  iq_device_id :: string
  iq_requesting_user :: address
  iq_access_method :: access_method
  iq_timestamp :: int
  iq_context :: access_context
  iq_device_challenge :: "bytes32 option"

datatype iot_level = LevelReadOnly | LevelLimited | LevelStandard | LevelFull | LevelAdmin | LevelEmergency

record iot_response =
  ir_device_id :: string
  ir_access_granted :: bool
  ir_access_duration :: "int option"
  ir_access_level :: iot_level
  ir_granted_at :: int
  ir_expires_at :: "int option"
  ir_verification_code :: "int list option"
  ir_audit_required :: bool
  ir_additional_instructions :: "string list"

record device_health =
  dh_device_id :: string
  dh_is_online :: bool
  dh_last_seen :: int
  dh_uptime :: int
  dh_battery_level :: "int option"
  dh_signal_strength :: "int option"
  dh_firmware_upto_date :: bool
  dh_last_health_check :: int
  dh_issues :: "string list"

datatype iot_error =
    DeviceNotFound
  | DeviceNotRegistered
  | DeviceOffline
  | AccessDenied
  | InvalidAccessMethod
  | ITokenExpired
  | ITokenRevoked
  | UnauthorizedDevice
  | CommunicationFailed
  | EncryptionError
  | RateLimited
  | MaintenanceMode
  | ICrossContractCallFailed
  | ITokenNotFound

datatype iot_event =
    DeviceRegistered string device_type address int
  | DeviceAccessGranted string address iot_level int int
  | DeviceAccessDenied string address string int
  | DeviceStatusUpdated string device_status device_status int

record iot_state = "iot_event host" +
  io_access :: access_state
  io_device :: "iot_device option"

text \<open>The nested state has fields of the same names, where the simplifier does not decide by itself.\<close>

lemma io_access_frame [simp]:
  "io_access (events_update f s) = io_access s" "io_access (calls_update g s) = io_access s"
  by (cases s; simp)+

type_synonym 'a iot = "(iot_state, iot_error, 'a) proc"

definition iot_init :: iot_state where
  "iot_init = \<lparr>events = [], calls = [], io_access = access_init, io_device = None\<rparr>"

definition on_access :: "(access_state, 'e, 'a) proc \<Rightarrow> (iot_state, 'e, 'a) proc" where
  "on_access m = (\<lambda>s. case m (io_access s) of (r, a) \<Rightarrow> (r, s\<lparr>io_access := a\<rparr>))"

section \<open>Devices\<close>

definition store_device :: "iot_device \<Rightarrow> unit iot" where
  "store_device d = modify (\<lambda>s. s\<lparr>io_device := Some d,
     io_access := (io_access s)\<lparr>as_leases := (as_leases (io_access s))(0 := None)\<rparr>\<rparr>)"

definition get_device :: "string \<Rightarrow> iot_device iot" where
  "get_device device_id = bind (gets (\<lambda>s. (io_device s, as_leases (io_access s) 0))) (\<lambda>(d, l). case d of
     Some d \<Rightarrow> return d | None \<Rightarrow> if l = None then throw DeviceNotFound else trap)"

definition register_device :: "env \<Rightarrow> string \<Rightarrow> device_type \<Rightarrow> address \<Rightarrow> string \<Rightarrow> device_capabilities \<Rightarrow> string \<Rightarrow> string \<Rightarrow> unit iot" where
  "register_device env device_id typ owner location capabilities firmware hardware =
     bind (gets (\<lambda>s. io_device s \<noteq> None \<or> as_leases (io_access s) 0 \<noteq> None)) (\<lambda>known.
     bind (throw_if known DeviceNotRegistered) (\<lambda>_.
     bind (store_device \<lparr>dv_device_id = device_id, dv_device_type = typ, dv_owner = owner, dv_location = location,
       dv_capabilities = capabilities, dv_registered_at = ledger_timestamp env, dv_last_seen = ledger_timestamp env,
       dv_status = Online, dv_firmware_version = firmware, dv_hardware_version = hardware\<rparr>) (\<lambda>_.
     publish (DeviceRegistered device_id typ owner (ledger_timestamp env)))))"

definition is_iot_admin :: "address \<Rightarrow> bool" where
  "is_iot_admin a \<longleftrightarrow> False"

definition is_system_authorized :: "address \<Rightarrow> bool" where
  "is_system_authorized a \<longleftrightarrow> True"

definition update_device_status :: "env \<Rightarrow> string \<Rightarrow> device_status \<Rightarrow> address \<Rightarrow> unit iot" where
  "update_device_status env device_id new_status requester =
     bind (get_device device_id) (\<lambda>d.
     bind (throw_if (dv_owner d \<noteq> requester \<and> \<not> is_iot_admin requester) UnauthorizedDevice) (\<lambda>_.
     bind (store_device (d\<lparr>dv_status := new_status, dv_last_seen := ledger_timestamp env\<rparr>)) (\<lambda>_.
     publish (DeviceStatusUpdated device_id (dv_status d) new_status (ledger_timestamp env)))))"

definition get_device_info :: "string \<Rightarrow> iot_device iot" where
  "get_device_info device_id = get_device device_id"

definition get_owner_devices :: "address \<Rightarrow> iot_device list" where
  "get_owner_devices owner = []"

definition get_devices_by_type :: "device_type \<Rightarrow> iot_device list" where
  "get_devices_by_type typ = []"

definition get_online_devices :: "iot_device list" where
  "get_online_devices = []"

definition perform_health_check :: "env \<Rightarrow> string \<Rightarrow> device_health iot" where
  "perform_health_check env device_id = bind (get_device device_id) (\<lambda>d.
     return \<lparr>dh_device_id = device_id, dh_is_online = (dv_status d = Online), dh_last_seen = dv_last_seen d,
       dh_uptime = sat_u64 (ledger_timestamp env - dv_registered_at d), dh_battery_level = None,
       dh_signal_strength = None, dh_firmware_upto_date = True, dh_last_health_check = ledger_timestamp env,
       dh_issues = []\<rparr>)"

section \<open>Access\<close>

fun is_access_method_supported :: "device_capabilities \<Rightarrow> access_method \<Rightarrow> bool" where
  "is_access_method_supported c Voice \<longleftrightarrow> dc_supports_remote c"
| "is_access_method_supported c _ \<longleftrightarrow> True"

definition iot_token_valid :: "access_token \<Rightarrow> int \<Rightarrow> bool" where
  "iot_token_valid k now \<longleftrightarrow> \<not> ac_revoked k \<and> now \<le> ac_expiration_timestamp k"

text \<open>The first token of the user that is stored, not revoked and not expired.\<close>

definition usable_tokens :: "env \<Rightarrow> access_state \<Rightarrow> int list \<Rightarrow> access_token list" where
  "usable_tokens env s ts = filter (\<lambda>k. \<not> ac_revoked k \<and> ledger_timestamp env \<le> ac_expiration_timestamp k)
     (List.map_filter (as_tokens s) ts)"

definition get_user_access_token :: "env \<Rightarrow> address \<Rightarrow> access_token iot" where
  "get_user_access_token env user =
     bind (gets (\<lambda>s. usable_tokens env (io_access s) (listed (as_lessee_tokens (io_access s)) user))) (\<lambda>ks.
     case ks of k # _ \<Rightarrow> return k | [] \<Rightarrow> throw AccessDenied)"

fun iot_level_of :: "access_level \<Rightarrow> iot_level" where
  "iot_level_of Full = LevelFull"
| "iot_level_of Limited = LevelLimited"
| "iot_level_of TimeBased = LevelStandard"
| "iot_level_of Conditional = LevelLimited"

fun duration_of :: "access_urgency \<Rightarrow> int" where
  "duration_of Critical = 3600"
| "duration_of High = 1800"
| "duration_of Medium = 900"
| "duration_of Low = 300"

definition determine_access_level :: "access_token \<Rightarrow> iot_request \<Rightarrow> iot_level \<times> int option" where
  "determine_access_level k q = (iot_level_of (ac_access_level k), Some (duration_of (cx_urgency (iq_context q))))"

definition generate_verification_code :: "env \<Rightarrow> int list" where
  "generate_verification_code env = replicate 32 (ledger_sequence env mod 256)"

definition generate_access_instructions :: "iot_device \<Rightarrow> string list" where
  "generate_access_instructions d = [''Please verify your identity'',
     case dv_device_type d of
       SmartLock \<Rightarrow> ''Press the unlock button after verification''
     | AccessGate \<Rightarrow> ''Proceed to the gate after access is granted''
     | SmartKey \<Rightarrow> ''Hold the key near the reader''
     | _ \<Rightarrow> ''Follow the device instructions'']"

definition process_access_request :: "env \<Rightarrow> iot_request \<Rightarrow> iot_response iot" where
  "process_access_request env q =
     bind (get_device (iq_device_id q)) (\<lambda>d.
     bind (throw_if (dv_status d \<noteq> Online) DeviceOffline) (\<lambda>_.
     bind (throw_if (\<not> is_access_method_supported (dv_capabilities d) (iq_access_method q)) InvalidAccessMethod) (\<lambda>_.
     bind (get_user_access_token env (iq_requesting_user q)) (\<lambda>k.
     bind (throw_if (\<not> iot_token_valid k (ledger_timestamp env)) ITokenExpired) (\<lambda>_.
     bind (throw_if (ac_revoked k) ITokenRevoked) (\<lambda>_.
     let (level, duration) = determine_access_level k q;
         code = (if dc_encryption_level (dv_capabilities d) \<noteq> NoEncryption
           then Some (generate_verification_code env) else None) in
     bind (case duration of None \<Rightarrow> return None
       | Some n \<Rightarrow> bind (chk_u64 (ledger_timestamp env + n)) (\<lambda>t. return (Some t))) (\<lambda>expires.
     bind (publish (DeviceAccessGranted (iq_device_id q) (iq_requesting_user q) level (ledger_timestamp env)
       (case expires of None \<Rightarrow> 0 | Some t \<Rightarrow> t))) (\<lambda>_.
     return \<lparr>ir_device_id = iq_device_id q, ir_access_granted = True, ir_access_duration = duration,
       ir_access_level = level, ir_granted_at = ledger_timestamp env, ir_expires_at = expires,
       ir_verification_code = code, ir_audit_required = dc_supports_audit (dv_capabilities d),
       ir_additional_instructions = generate_access_instructions d\<rparr>))))))))"

definition query_token_validity :: "env \<Rightarrow> int \<Rightarrow> address \<Rightarrow> string \<Rightarrow> bool iot" where
  "query_token_validity env t requesting_system system_identifier =
     bind (map_err (\<lambda>_. ICrossContractCallFailed) (on_access (verify_access_token env \<lparr>aq_token_id = t,
       aq_requesting_system = requesting_system, aq_verification_purpose = Validate,
       aq_system_identifier = system_identifier, aq_timestamp = ledger_timestamp env\<rparr>))) (\<lambda>r.
     return (ap_is_valid r))"

definition get_token_details :: "int \<Rightarrow> address \<Rightarrow> access_token iot" where
  "get_token_details t requesting_system =
     bind (map_err (\<lambda>_. ITokenNotFound) (on_access (get_access_token t))) (\<lambda>k.
     bind (throw_if (\<not> is_system_authorized requesting_system) UnauthorizedDevice) (\<lambda>_. return k))"

section \<open>Locks and tokens as a system\<close>

text \<open>Saving lease 0 overwrites the device. (While a device is there, the model answers an access operation on
  lease 0 that the lease does not exist, where the code traps: both are rolled back.)\<close>

datatype iot_call =
    AccessCall access_call
  | RegisterDevice string device_type address string device_capabilities string string
  | UpdateDeviceStatus string device_status address
  | ProcessRequest iot_request
  | QueryValidity int address string

fun overwrites_device :: "access_call \<Rightarrow> bool" where
  "overwrites_device (ContractSavesLease lid l) \<longleftrightarrow> lid = 0"
| "overwrites_device _ \<longleftrightarrow> False"

fun iot_exec :: "env \<Rightarrow> iot_call \<Rightarrow> unit iot" where
  "iot_exec env (AccessCall c) = modify (\<lambda>s. s\<lparr>io_access := access_step (env, c) (io_access s),
     io_device := if overwrites_device c then None else io_device s\<rparr>)"
| "iot_exec env (RegisterDevice i t a l c f h) = register_device env i t a l c f h"
| "iot_exec env (UpdateDeviceStatus i x a) = update_device_status env i x a"
| "iot_exec env (ProcessRequest q) = bind (process_access_request env q) (\<lambda>_. return ())"
| "iot_exec env (QueryValidity t a x) = bind (query_token_validity env t a x) (\<lambda>_. return ())"

definition iot_step :: "env \<times> iot_call \<Rightarrow> iot_state \<Rightarrow> iot_state" where
  "iot_step m s = (if is_u64 (ledger_timestamp (fst m)) then snd (invoke (iot_exec (fst m) (snd m)) s) else s)"

end
