(* ===== verification/IoT_Props.thy ===== *)
theory IoT_Props
  imports IoT_Locks Access_Props
begin

text \<open>Which doors open for whom: the locks and the access tokens composed.\<close>

section \<open>The composition\<close>

lemma get_device_Ok_iff [proc_ok]:
  "get_device x s = (Ok d, s') \<longleftrightarrow> io_device s = Some d \<and> s' = s"
  by (auto simp: get_device_def proc_ok split: option.splits)

lemma access_ok_leases [simp]: "access_ok (s\<lparr>as_leases := x\<rparr>) = access_ok s"
  by (simp add: access_ok_def)

lemma on_access_Ok: "on_access m s = (Ok a, s') \<longleftrightarrow> (\<exists>t. m (io_access s) = (Ok a, t) \<and> s' = s\<lparr>io_access := t\<rparr>)"
  by (auto simp: on_access_def split: prod.splits)

lemma keeps_device [keeps_intros]:
  "keeps (\<lambda>s. access_ok (io_access s)) (store_device d)" "keeps (\<lambda>s :: iot_state. access_ok (io_access s)) (publish ev)"
  by (simp_all add: keeps_def store_device_def publish_def)

lemma keeps_reading [keeps_intros]:
  "keeps P (get_device x)" "keeps P (get_user_access_token env a)"
  by (auto simp: keeps_def get_device_def get_user_access_token_def bind_run split: option.splits list.splits)

lemma iot_exec_ok:
  assumes ok: "access_ok (io_access s)" and t: "is_u64 (ledger_timestamp env)" and run: "iot_exec env c s = (Ok u, s')"
  shows "access_ok (io_access s')"
proof (cases c)
  case (AccessCall c)
  then show ?thesis using run access_step_evolves [OF ok] by (auto simp: proc_ok)
next
  case (QueryValidity x a y)
  let ?q = "\<lparr>aq_token_id = x, aq_requesting_system = a, aq_verification_purpose = Validate,
       aq_system_identifier = y, aq_timestamp = ledger_timestamp env\<rparr>"
  obtain r v where v: "verify_access_token env ?q (io_access s) = (Ok r, v)" "s' = s\<lparr>io_access := v\<rparr>"
    using run QueryValidity by (auto simp: query_token_validity_def proc_ok on_access_Ok)
  then have "access_exec env (VerifyAccess ?q) (io_access s) = (Ok (), v)" by (simp add: proc_run map_err_def)
  from access_exec_evolves [OF ok t _ this] v(2) show ?thesis by simp
next
  case (RegisterDevice i t a l x f h)
  have "keeps (\<lambda>s. access_ok (io_access s)) (iot_exec env c)"
    unfolding RegisterDevice iot_exec.simps register_device_def by (intro keeps_intros)
  from keepsD [OF this ok] run show ?thesis by simp
next
  case (UpdateDeviceStatus i x a)
  have "keeps (\<lambda>s. access_ok (io_access s)) (iot_exec env c)"
    unfolding UpdateDeviceStatus iot_exec.simps update_device_status_def by (intro keeps_intros)
  from keepsD [OF this ok] run show ?thesis by simp
next
  case (ProcessRequest q)
  have "keeps (\<lambda>s. access_ok (io_access s)) (iot_exec env c)"
    unfolding ProcessRequest iot_exec.simps process_access_request_def determine_access_level_def Let_def
    by (auto intro!: keeps_intros)
  from keepsD [OF this ok] run show ?thesis by simp
qed

lemma iot_step_ok: "access_ok (io_access s) \<Longrightarrow> access_ok (io_access (iot_step m s))"
  by (cases "iot_exec (fst m) (snd m)" s rule: invoke_cases) (auto simp: iot_step_def intro: iot_exec_ok)

interpretation locks: contract_system "\<lambda>s. access_ok (io_access s)" iot_step iot_init
  by unfold_locales (rule iot_step_ok, simp_all add: iot_init_def access_ok_def access_init_def)

text \<open>The tokens a user can open with, as the access tokens keep them.\<close>

lemma usable_iff:
  assumes "access_ok a"
  shows "usable_tokens env a (listed (as_lessee_tokens a) user) \<noteq> [] \<longleftrightarrow>
    (\<exists>t k. as_tokens a t = Some k \<and> ac_lessee k = user \<and> iot_token_valid k (ledger_timestamp env))"
proof -
  have "k \<in> set (usable_tokens env a ts) \<longleftrightarrow>
      (\<exists>t \<in> set ts. as_tokens a t = Some k) \<and> iot_token_valid k (ledger_timestamp env)" for k ts
    by (force simp: usable_tokens_def iot_token_valid_def List.map_filter_def)
  moreover have "ks \<noteq> [] \<longleftrightarrow> (\<exists>k. k \<in> set ks)" for ks :: "access_token list" by (cases ks) auto
  ultimately have "usable_tokens env a ts \<noteq> [] \<longleftrightarrow>
      (\<exists>k. (\<exists>t \<in> set ts. as_tokens a t = Some k) \<and> iot_token_valid k (ledger_timestamp env))" for ts
    by simp
  from this [of "listed (as_lessee_tokens a) user"] show ?thesis unfolding Bex_def access_okD(3) [OF assms] by (metis option.inject)
qed

lemma usable_valid: "k \<in> set (usable_tokens env a ts) \<Longrightarrow> iot_token_valid k (ledger_timestamp env) \<and> \<not> ac_revoked k"
  by (auto simp: usable_tokens_def iot_token_valid_def)

section \<open>Properties\<close>

text \<open>Claim C37. A door opens only for the holder of a valid access token. When a request is granted in a reachable state, a
  device is registered, online and supports the method of the request, and the requesting user holds an access token
  that is neither revoked nor expired. The answer says granted, with an expiry of as long as the urgency
  of the request says, and neither the tokens nor their index change.\<close>
theorem door_opens_only_with_token:
  assumes "s = fold iot_step ms iot_init" "process_access_request env q s = (Ok r, s')"
  shows "(\<exists>d. io_device s = Some d \<and> dv_status d = Online
        \<and> (iq_access_method q = Voice \<longrightarrow> dc_supports_remote (dv_capabilities d)))
    \<and> (\<exists>t k. as_tokens (io_access s) t = Some k \<and> ac_lessee k = iq_requesting_user q \<and> \<not> ac_revoked k
          \<and> ledger_timestamp env \<le> ac_expiration_timestamp k)
    \<and> ir_access_granted r \<and> ir_expires_at r = Some (ledger_timestamp env + duration_of (cx_urgency (iq_context q)))
    \<and> io_access s' = io_access s"
proof -
  let ?us = "usable_tokens env (io_access s) (listed (as_lessee_tokens (io_access s)) (iq_requesting_user q))"
  have ok: "access_ok (io_access s)" unfolding assms(1) by (rule locks.reach_inv)
  obtain d where d: "io_device s = Some d" "dv_status d = Online"
      "is_access_method_supported (dv_capabilities d) (iq_access_method q)" "?us \<noteq> []"
    and r: "ir_access_granted r" "ir_expires_at r = Some (ledger_timestamp env + duration_of (cx_urgency (iq_context q)))"
      "io_access s' = io_access s"
    using assms(2) by (cases ?us) (auto simp: process_access_request_def get_user_access_token_def
      determine_access_level_def store_device_def Let_def proc_ok)
  have "iq_access_method q = Voice \<longrightarrow> dc_supports_remote (dv_capabilities d)"
    using d(3) by (cases "iq_access_method q") simp_all
  then show ?thesis using d(1,2,4) r unfolding usable_iff [OF ok] iot_token_valid_def by blast
qed

text \<open>The exact condition, for registered devices and times in range: any valid token of the user grants access, of any
  lease and any asset. Neither the identifier of the device in the request nor its challenge is looked at, and the access
  can last beyond the expiry of the token.\<close>
theorem door_opens_iff:
  assumes "s = fold iot_step ms iot_init" "io_device s = Some d" "is_u64 (ledger_timestamp env + 3600)" "is_u64 (ledger_timestamp env)"
  shows "((\<exists>r s'. process_access_request env q s = (Ok r, s')) \<longleftrightarrow> dv_status d = Online
      \<and> (iq_access_method q \<noteq> Voice \<or> dc_supports_remote (dv_capabilities d))
      \<and> (\<exists>t k. as_tokens (io_access s) t = Some k \<and> ac_lessee k = iq_requesting_user q \<and> \<not> ac_revoked k
          \<and> ledger_timestamp env \<le> ac_expiration_timestamp k))
    \<and> (\<forall>r s'. process_access_request env q s = (Ok r, s') \<longrightarrow> ir_access_granted r
        \<and> ir_expires_at r = Some (ledger_timestamp env + duration_of (cx_urgency (iq_context q))))"
proof -
  let ?us = "usable_tokens env (io_access s) (listed (as_lessee_tokens (io_access s)) (iq_requesting_user q))"
  have ok: "access_ok (io_access s)" unfolding assms(1) by (rule locks.reach_inv)
  have meth: "is_access_method_supported (dv_capabilities d) (iq_access_method q) \<longleftrightarrow>
      iq_access_method q \<noteq> Voice \<or> dc_supports_remote (dv_capabilities d)"
    by (cases "iq_access_method q") simp_all
  have fits: "is_u64 (ledger_timestamp env + duration_of u)" for u
    using assms(3,4) by (cases u) (auto simp: is_u64_def)
  have "(\<exists>r s'. process_access_request env q s = (Ok r, s')) \<longleftrightarrow> dv_status d = Online
      \<and> is_access_method_supported (dv_capabilities d) (iq_access_method q) \<and> ?us \<noteq> []"
  proof (cases ?us)
    case Nil
    then show ?thesis by (auto simp: process_access_request_def get_user_access_token_def proc_ok)
  next
    case (Cons k ks)
    then have "iot_token_valid k (ledger_timestamp env) \<and> \<not> ac_revoked k" using usable_valid [of k env] by (metis list.set_intros(1))
    then show ?thesis using Cons assms(2) fits
      by (auto simp: process_access_request_def get_user_access_token_def determine_access_level_def Let_def proc_ok
        split: if_splits)
  qed
  moreover have "ir_access_granted r \<and> ir_expires_at r = Some (ledger_timestamp env + duration_of (cx_urgency (iq_context q)))"
    if "process_access_request env q s = (Ok r, s')" for r s'
    using that by (auto simp: process_access_request_def determine_access_level_def Let_def proc_ok)
  ultimately show ?thesis unfolding usable_iff [OF ok] meth iot_token_valid_def by blast
qed

text \<open>The one slot for devices: saving lease 0 overwrites the device, and then no request is answered and no device
  can be registered again.\<close>

lemma device_lost_to_lease_zero:
  assumes "is_u64 (ledger_timestamp env)" "s' = iot_step (env, AccessCall (ContractSavesLease 0 l)) s"
  shows "fst (get_device_info x s') = Trap \<and> fst (register_device env' i t a loc c f h s') = Err DeviceNotRegistered"
  using assms by (auto simp: iot_step_def get_device_info_def get_device_def register_device_def proc_run
    access_step_def invoke_def)

section \<open>An example\<close>

definition ix_device :: iot_call where
  "ix_device = RegisterDevice ''d'' SmartLock 1 ''door'' \<lparr>dc_device_type = SmartLock, dc_supports_remote = False,
     dc_supports_offline = False, dc_supports_audit = True, dc_supports_time_based = False,
     dc_supports_multi_user = False, dc_max_concurrent_access = 1, dc_battery_backup = False,
     dc_encryption_level = Basic\<rparr> ''f'' ''h''"

definition ix_run :: "(env \<times> iot_call) list" where
  "ix_run = (ax_env 1000, ix_device) # map (\<lambda>(e, c). (e, AccessCall c)) ax_minted"

definition ix_state :: iot_state where
  "ix_state = fold iot_step ix_run iot_init"

definition ix_request :: iot_request where
  "ix_request = \<lparr>iq_device_id = ''another'', iq_requesting_user = 2, iq_access_method = NFC, iq_timestamp = 0,
     iq_context = \<lparr>cx_purpose = [], cx_urgency = Critical, cx_expected_duration = None, cx_companion_devices = [],
       cx_environmental_conditions = []\<rparr>, iq_device_challenge = None\<rparr>"

lemma ix_facts:
  "map_option dv_status (io_device ix_state) = Some Online"
  "map_option (\<lambda>k. (ac_lessee k, ac_revoked k, ac_expiration_timestamp k)) (as_tokens (io_access ix_state) ax_token)
     = Some (2, False, 9000)"
  by code_simp+

theorem door_opens_only_with_token_witness:
  "\<exists>t k. as_tokens (io_access ix_state) t = Some k \<and> ac_lessee k = 2 \<and> \<not> ac_revoked k \<and> 8000 \<le> ac_expiration_timestamp k"
proof -
  have "fst (process_access_request (ax_env 8000) ix_request ix_state)
      = Ok (case process_access_request (ax_env 8000) ix_request ix_state of (Ok r, _) \<Rightarrow> r)"
    by code_simp
  then have "process_access_request (ax_env 8000) ix_request ix_state
      = (Ok (case process_access_request (ax_env 8000) ix_request ix_state of (Ok r, _) \<Rightarrow> r),
         snd (process_access_request (ax_env 8000) ix_request ix_state))"
    by (metis prod.collapse)
  from door_opens_only_with_token [OF ix_state_def this] show ?thesis
    by (simp add: ix_request_def ax_env_def)
qed

theorem door_opens_iff_witness:
  "\<exists>r s'. process_access_request (ax_env 8000) ix_request ix_state = (Ok r, s') \<and> ir_expires_at r = Some 11600"
proof -
  obtain d where d: "io_device ix_state = Some d" "dv_status d = Online" using ix_facts(1) by blast
  obtain k where k: "as_tokens (io_access ix_state) ax_token = Some k" "ac_lessee k = 2" "\<not> ac_revoked k"
      "ac_expiration_timestamp k = 9000" using ix_facts(2) by auto
  have now: "ledger_timestamp (ax_env 8000) = 8000" by (simp add: ax_env_def)
  have "is_u64 (ledger_timestamp (ax_env 8000) + 3600)" "is_u64 (ledger_timestamp (ax_env 8000))"
    by (simp_all add: now is_u64_def u64_max_def)
  note door = door_opens_iff [OF ix_state_def d(1) this, of ix_request]
  have "\<exists>t k. as_tokens (io_access ix_state) t = Some k \<and> ac_lessee k = iq_requesting_user ix_request \<and> \<not> ac_revoked k
      \<and> ledger_timestamp (ax_env 8000) \<le> ac_expiration_timestamp k"
    by (intro exI [of _ ax_token] exI [of _ k]) (simp add: k now ix_request_def)
  moreover have "iq_access_method ix_request \<noteq> Voice" by (simp add: ix_request_def)
  ultimately have "\<exists>r s'. process_access_request (ax_env 8000) ix_request ix_state = (Ok r, s')"
    using door d(2) by blast
  then show ?thesis using door by (fastforce simp: now ix_request_def)
qed

end
