(* ===== verification/DEX_Market.thy ===== *)
theory DEX_Market
  imports Payment_Router
begin

text \<open>
  \<^verbatim>\<open>contracts/leaseflow_contracts/src/dex_integration.rs\<close>: listings of lessor tokens on a secondary market. The listing of a
  token and its market data are stored under one and the same key, \<^verbatim>\<open>LeaseInstance(token_id)\<close>, so reading one where
  the other is stored fails to convert, which traps. (The key takes a \<^verbatim>\<open>u64\<close> and is given a \<^verbatim>\<open>u128\<close>; the cells of the
  market are therefore modelled apart from those of the leases, by the number of the token.) The configuration is
  stored under the persistent \<^verbatim>\<open>Admin\<close> key, the administrator is the one of the lease contract under the instance
  key. A token error, for which there is no conversion, is handed on. The times to live of the entries are not
  modelled, but the subtraction that computes them is.
\<close>

section \<open>State\<close>

record dex_config =
  dx_dex_contract :: address
  dx_token_contract :: address
  dx_fee_bps :: int
  dx_min_price :: int
  dx_max_price :: int
  dx_enabled :: bool

record nft_listing =
  li_token_id :: int
  li_seller :: address
  li_price :: int
  li_listed_at :: int
  li_expires_at :: "int option"
  li_lease_id :: int
  li_yield_projection :: int
  li_active :: bool

record price_point =
  pp_price :: int
  pp_timestamp :: int
  pp_volume :: int

record yield_point =
  yp_yield_amount :: int
  yp_timestamp :: int
  yp_holder :: address

record market_data =
  md_token_id :: int
  md_lease_id :: int
  md_current_price :: int
  md_last_sale_price :: int
  md_last_sale_timestamp :: int
  md_price_history :: "price_point list"
  md_yield_history :: "yield_point list"
  md_total_volume :: int
  md_sale_count :: int

record market_statistics =
  ms_total_listings :: int
  ms_active_listings :: int
  ms_total_volume_24h :: int
  ms_average_price :: int
  ms_highest_price :: int
  ms_lowest_price :: int
  ms_total_yield_distributed :: int
  ms_last_updated :: int

datatype dex_error =
    DNFTNotFound
  | DNotAuthorized
  | InvalidPrice
  | ListingExpired
  | DInsufficientBalance
  | DEXNotEnabled
  | DTransferFailed
  | MarketDataCorrupted
  | YieldProjectionFailed
  | DCrossContractCallFailed
  | DNft nft_error

datatype market_event =
    NFTListed int address int int int
  | NFTSold int address address int int int int
  | NFTDelisted int address int
  | MarketDataUpdated int int int int

datatype market_cell = Listing_cell nft_listing | Market_cell market_data

record market_state = "market_event host" +
  mk_nft :: nft_state
  mk_cells :: "int \<rightharpoonup> market_cell"
  mk_config :: "dex_config option"
  mk_admin :: "address option"

type_synonym 'a market = "(market_state, dex_error, 'a) proc"

definition market_init :: market_state where
  "market_init = \<lparr>events = [], calls = [], mk_nft = nft_init, mk_cells = Map.empty, mk_config = None, mk_admin = None\<rparr>"

definition on_nft :: "(nft_state, 'e, 'a) proc \<Rightarrow> (market_state, 'e, 'a) proc" where
  "on_nft m = (\<lambda>s. case m (mk_nft s) of (r, n) \<Rightarrow> (r, s\<lparr>mk_nft := n\<rparr>))"

section \<open>Helpers\<close>

definition get_dex_config :: "dex_config market" where
  "get_dex_config = bind (gets mk_config) (\<lambda>c. ok_or c DEXNotEnabled)"

definition is_dex_admin :: "address \<Rightarrow> bool market" where
  "is_dex_admin a = gets (\<lambda>s. mk_admin s = Some a)"

definition is_listing_locked :: "int \<Rightarrow> bool market" where
  "is_listing_locked lid = gets (\<lambda>s. ns_locks (mk_nft s) lid \<noteq> None)"

definition calculate_yield_projection :: "env \<Rightarrow> nft_metadata \<Rightarrow> int" where
  "calculate_yield_projection env m =
     (let remaining_months = (if nm_lease_end m > ledger_timestamp env
        then (nm_lease_end m - ledger_timestamp env) div (30 * 24 * 60 * 60) else 0) in
      if remaining_months = 0 then 0 else nm_monthly_rent m)"

definition store_listing :: "env \<Rightarrow> int \<Rightarrow> nft_listing \<Rightarrow> unit market" where
  "store_listing env t l =
     bind (modify (\<lambda>s. s\<lparr>mk_cells := (mk_cells s)(t \<mapsto> Listing_cell l)\<rparr>)) (\<lambda>_.
     case li_expires_at l of None \<Rightarrow> return ()
     | Some x \<Rightarrow> bind (chk_u64 (x - ledger_timestamp env)) (\<lambda>ttl. return ()))"

definition get_listing :: "int \<Rightarrow> nft_listing market" where
  "get_listing t = bind (gets (\<lambda>s. mk_cells s t)) (\<lambda>c. case c of
     None \<Rightarrow> throw DNFTNotFound | Some (Listing_cell l) \<Rightarrow> return l | Some (Market_cell m) \<Rightarrow> trap)"

definition remove_listing :: "int \<Rightarrow> unit market" where
  "remove_listing t = modify (\<lambda>s. s\<lparr>mk_cells := (mk_cells s)(t := None)\<rparr>)"

definition read_market_data :: "int \<Rightarrow> market_data option market" where
  "read_market_data t = bind (gets (\<lambda>s. mk_cells s t)) (\<lambda>c. case c of
     None \<Rightarrow> return None | Some (Market_cell m) \<Rightarrow> return (Some m) | Some (Listing_cell l) \<Rightarrow> trap)"

definition write_market_data :: "int \<Rightarrow> market_data \<Rightarrow> unit market" where
  "write_market_data t m = modify (\<lambda>s. s\<lparr>mk_cells := (mk_cells s)(t \<mapsto> Market_cell m)\<rparr>)"

definition fresh_market_data :: "int \<Rightarrow> int \<Rightarrow> market_data" where
  "fresh_market_data t price = \<lparr>md_token_id = t, md_lease_id = 0, md_current_price = price, md_last_sale_price = 0,
     md_last_sale_timestamp = 0, md_price_history = [], md_yield_history = [], md_total_volume = 0, md_sale_count = 0\<rparr>"

definition update_market_data_on_listing :: "env \<Rightarrow> int \<Rightarrow> int \<Rightarrow> unit market" where
  "update_market_data_on_listing env t price =
     bind (read_market_data t) (\<lambda>x.
     let m = (case x of Some m \<Rightarrow> m | None \<Rightarrow> fresh_market_data t price) in
     write_market_data t (m\<lparr>md_current_price := price, md_price_history := md_price_history m
       @ [\<lparr>pp_price = price, pp_timestamp = ledger_timestamp env, pp_volume = 0\<rparr>]\<rparr>))"

definition update_market_data_on_price_update :: "env \<Rightarrow> int \<Rightarrow> int \<Rightarrow> unit market" where
  "update_market_data_on_price_update env t new_price =
     bind (read_market_data t) (\<lambda>x.
     let m = (case x of Some m \<Rightarrow> m | None \<Rightarrow> fresh_market_data t new_price) in
     write_market_data t (m\<lparr>md_current_price := new_price, md_price_history := md_price_history m
       @ [\<lparr>pp_price = new_price, pp_timestamp = ledger_timestamp env, pp_volume = 0\<rparr>]\<rparr>))"

definition update_market_data_on_sale :: "env \<Rightarrow> int \<Rightarrow> int \<Rightarrow> int \<Rightarrow> unit market" where
  "update_market_data_on_sale env t price fees =
     bind (read_market_data t) (\<lambda>x.
     let m = (case x of Some m \<Rightarrow> m | None \<Rightarrow> (fresh_market_data t price)\<lparr>md_last_sale_price := price,
       md_last_sale_timestamp := ledger_timestamp env\<rparr>) in
     bind (chk_i128 (md_total_volume m + price)) (\<lambda>volume.
     bind (chk_u32 (md_sale_count m + 1)) (\<lambda>count.
     write_market_data t (m\<lparr>md_last_sale_price := price, md_last_sale_timestamp := ledger_timestamp env,
       md_total_volume := volume, md_sale_count := count, md_price_history := md_price_history m
       @ [\<lparr>pp_price = price, pp_timestamp = ledger_timestamp env, pp_volume = price\<rparr>]\<rparr>))))"

section \<open>Operations\<close>

definition list_nft_on_dex :: "env \<Rightarrow> int \<Rightarrow> address \<Rightarrow> int \<Rightarrow> int option \<Rightarrow> unit market" where
  "list_nft_on_dex env t seller price duration_days =
     bind (map_err (\<lambda>_. DNFTNotFound) (on_nft (get_nft_metadata t))) (\<lambda>m.
     bind (throw_if (nm_current_holder m \<noteq> seller) DNotAuthorized) (\<lambda>_.
     bind get_dex_config (\<lambda>c.
     bind (throw_if (\<not> dx_enabled c) DEXNotEnabled) (\<lambda>_.
     bind (throw_if (price < dx_min_price c \<or> price > dx_max_price c) InvalidPrice) (\<lambda>_.
     bind (is_listing_locked (nm_lease_id m)) (\<lambda>locked.
     bind (throw_if locked DNotAuthorized) (\<lambda>_.
     let yield_projection = calculate_yield_projection env m in
     bind (case duration_days of None \<Rightarrow> return None
       | Some days \<Rightarrow> bind (chk_u64 (ledger_timestamp env + days * 24 * 60 * 60)) (\<lambda>x. return (Some x))) (\<lambda>expires_at.
     bind (store_listing env t \<lparr>li_token_id = t, li_seller = seller, li_price = price,
       li_listed_at = ledger_timestamp env, li_expires_at = expires_at, li_lease_id = nm_lease_id m,
       li_yield_projection = yield_projection, li_active = True\<rparr>) (\<lambda>_.
     bind (update_market_data_on_listing env t price) (\<lambda>_.
     publish (NFTListed t seller price (nm_lease_id m) (ledger_timestamp env))))))))))))"

definition buy_nft_from_dex :: "env \<Rightarrow> int \<Rightarrow> address \<Rightarrow> int \<Rightarrow> unit market" where
  "buy_nft_from_dex env t buyer max_price =
     bind (get_listing t) (\<lambda>l.
     bind (throw_if (\<not> li_active l) ListingExpired) (\<lambda>_.
     bind (throw_if (case li_expires_at l of None \<Rightarrow> False | Some x \<Rightarrow> ledger_timestamp env > x) ListingExpired) (\<lambda>_.
     bind (throw_if (li_price l > max_price) InvalidPrice) (\<lambda>_.
     bind get_dex_config (\<lambda>c.
     bind (throw_if (\<not> dx_enabled c) DEXNotEnabled) (\<lambda>_.
     bind (chk_i128 (li_price l * dx_fee_bps c)) (\<lambda>x.
     let fees = tdiv x 10000 in
     bind (chk_i128 (li_price l - fees)) (\<lambda>seller_proceeds.
     bind (map_err DNft (on_nft (transfer_nft env t (li_seller l) buyer))) (\<lambda>_.
     bind (map_err (\<lambda>_. DTransferFailed) (on_nft (update_payment_routing_on_nft_transfer env (li_lease_id l)
       (li_seller l) buyer))) (\<lambda>_.
     bind (update_market_data_on_sale env t (li_price l) fees) (\<lambda>_.
     bind (remove_listing t) (\<lambda>_.
     publish (NFTSold t (li_seller l) buyer (li_price l) fees (li_lease_id l) (ledger_timestamp env))))))))))))))"

definition delist_nft :: "env \<Rightarrow> int \<Rightarrow> address \<Rightarrow> unit market" where
  "delist_nft env t seller =
     bind (get_listing t) (\<lambda>l.
     bind (throw_if (li_seller l \<noteq> seller) DNotAuthorized) (\<lambda>_.
     bind (remove_listing t) (\<lambda>_.
     publish (NFTDelisted t seller (ledger_timestamp env)))))"

definition update_listing_price :: "env \<Rightarrow> int \<Rightarrow> address \<Rightarrow> int \<Rightarrow> unit market" where
  "update_listing_price env t seller new_price =
     bind (get_listing t) (\<lambda>l.
     bind (throw_if (li_seller l \<noteq> seller) DNotAuthorized) (\<lambda>_.
     bind get_dex_config (\<lambda>c.
     bind (throw_if (new_price < dx_min_price c \<or> new_price > dx_max_price c) InvalidPrice) (\<lambda>_.
     bind (store_listing env t (l\<lparr>li_price := new_price\<rparr>)) (\<lambda>_.
     bind (update_market_data_on_price_update env t new_price) (\<lambda>_.
     publish (MarketDataUpdated t (li_lease_id l) new_price (ledger_timestamp env))))))))"

definition get_market_data :: "int \<Rightarrow> market_data market" where
  "get_market_data t = bind (read_market_data t) (\<lambda>m. ok_or m MarketDataCorrupted)"

definition get_active_listings :: "nft_listing list" where
  "get_active_listings = []"

definition new_market_statistics :: market_statistics where
  "new_market_statistics = \<lparr>ms_total_listings = 0, ms_active_listings = 0, ms_total_volume_24h = 0,
     ms_average_price = 0, ms_highest_price = 0, ms_lowest_price = i128_max, ms_total_yield_distributed = 0,
     ms_last_updated = 0\<rparr>"

definition get_market_statistics :: "env \<Rightarrow> market_statistics" where
  "get_market_statistics env = \<lparr>ms_total_listings = 0, ms_active_listings = 0, ms_total_volume_24h = 0,
     ms_average_price = 0, ms_highest_price = 0, ms_lowest_price = i128_max, ms_total_yield_distributed = 0,
     ms_last_updated = ledger_timestamp env\<rparr>"

definition configure_dex :: "address \<Rightarrow> address \<Rightarrow> address \<Rightarrow> int \<Rightarrow> int \<Rightarrow> int \<Rightarrow> unit market" where
  "configure_dex admin dex_contract token_contract fee_bps min_price max_price =
     bind (is_dex_admin admin) (\<lambda>ok.
     bind (throw_if (\<not> ok) DNotAuthorized) (\<lambda>_.
     modify (\<lambda>s. s\<lparr>mk_config := Some \<lparr>dx_dex_contract = dex_contract, dx_token_contract = token_contract,
       dx_fee_bps = fee_bps, dx_min_price = min_price, dx_max_price = max_price, dx_enabled = True\<rparr>\<rparr>)))"

definition toggle_dex_integration :: "address \<Rightarrow> bool \<Rightarrow> unit market" where
  "toggle_dex_integration admin enabled =
     bind (is_dex_admin admin) (\<lambda>ok.
     bind (throw_if (\<not> ok) DNotAuthorized) (\<lambda>_.
     bind get_dex_config (\<lambda>c.
     modify (\<lambda>s. s\<lparr>mk_config := Some (c\<lparr>dx_enabled := enabled\<rparr>)\<rparr>))))"

section \<open>The market and the tokens as a system\<close>

datatype market_call =
    NftCall nft_call
  | SetContractAdmin address
  | ListNft int address int "int option"
  | BuyNft int address int
  | DelistNft int address
  | UpdatePrice int address int
  | ConfigureDex address address address int int int
  | ToggleDex address bool

fun market_exec :: "(string \<Rightarrow> bytes32) \<Rightarrow> env \<Rightarrow> market_call \<Rightarrow> unit market" where
  "market_exec sha env (NftCall c) = modify (\<lambda>s. s\<lparr>mk_nft := nft_step sha (env, c) (mk_nft s)\<rparr>)"
| "market_exec sha env (SetContractAdmin a) = modify (\<lambda>s. s\<lparr>mk_admin := Some a\<rparr>)"
| "market_exec sha env (ListNft t a p d) = list_nft_on_dex env t a p d"
| "market_exec sha env (BuyNft t a p) = buy_nft_from_dex env t a p"
| "market_exec sha env (DelistNft t a) = delist_nft env t a"
| "market_exec sha env (UpdatePrice t a p) = update_listing_price env t a p"
| "market_exec sha env (ConfigureDex a d k f lo hi) = configure_dex a d k f lo hi"
| "market_exec sha env (ToggleDex a b) = toggle_dex_integration a b"

definition market_step :: "(string \<Rightarrow> bytes32) \<Rightarrow> env \<times> market_call \<Rightarrow> market_state \<Rightarrow> market_state" where
  "market_step sha m s = snd (invoke (market_exec sha (fst m) (snd m)) s)"

section \<open>Why no sale completes\<close>

lemma get_listing_Ok_iff [proc_ok]:
  "get_listing t s = (Ok l, s') \<longleftrightarrow> mk_cells s t = Some (Listing_cell l) \<and> s' = s"
  by (auto simp: get_listing_def proc_ok split: option.splits market_cell.splits)

lemma read_market_data_Ok [proc_ok]:
  "read_market_data t s = (Ok x, s') \<longleftrightarrow>
     s' = s \<and> (case mk_cells s t of None \<Rightarrow> x = None | Some (Market_cell m) \<Rightarrow> x = Some m | _ \<Rightarrow> False)"
  by (auto simp: read_market_data_def proc_ok split: option.splits market_cell.splits)

lemma get_dex_config_Ok_iff [proc_ok]:
  "get_dex_config s = (Ok c, s') \<longleftrightarrow> mk_config s = Some c \<and> s' = s"
  by (auto simp: get_dex_config_def proc_ok)

lemma store_listing_Ok: "store_listing env t l s = (Ok u, s') \<Longrightarrow> s' = s\<lparr>mk_cells := (mk_cells s)(t \<mapsto> Listing_cell l)\<rparr>"
  by (auto simp: store_listing_def proc_ok split: option.splits)

lemma on_nft_Ok: "on_nft m s = (Ok a, s') \<Longrightarrow> mk_cells s' = mk_cells s"
  by (auto simp: on_nft_def split: prod.splits)

lemma no_data_over_listing:
  assumes "mk_cells s t = Some (Listing_cell l)"
  shows "update_market_data_on_listing env t p s \<noteq> (Ok u, s')"
    "update_market_data_on_price_update env t p s \<noteq> (Ok u, s')"
    "update_market_data_on_sale env t p f s \<noteq> (Ok u, s')"
  using assms by (auto simp: update_market_data_on_listing_def update_market_data_on_price_update_def
    update_market_data_on_sale_def proc_ok Let_def)

lemma listing_fails: "list_nft_on_dex env t seller price d s \<noteq> (Ok u, s')"
  by (auto simp: list_nft_on_dex_def proc_ok Let_def no_data_over_listing dest!: store_listing_Ok)

lemma price_update_fails: "update_listing_price env t seller price s \<noteq> (Ok u, s')"
  by (auto simp: update_listing_price_def proc_ok no_data_over_listing dest!: store_listing_Ok)

lemma sale_fails: "buy_nft_from_dex env t buyer price s \<noteq> (Ok u, s')"
  by (auto simp: buy_nft_from_dex_def proc_ok Let_def no_data_over_listing dest!: on_nft_Ok)

lemma market_exec_cells:
  assumes "mk_cells s = Map.empty" "market_exec sha env c s = (Ok u, s')"
  shows "mk_cells s' = Map.empty"
  using assms by (cases c) (auto simp: proc_ok listing_fails sale_fails price_update_fails delist_nft_def
    configure_dex_def toggle_dex_integration_def is_dex_admin_def remove_listing_def)

lemma market_step_cells: "mk_cells s = Map.empty \<Longrightarrow> mk_cells (market_step sha m s) = Map.empty"
  by (cases "market_exec sha (fst m) (snd m)" s rule: invoke_cases) (auto simp: market_step_def dest: market_exec_cells)

interpretation market: contract_system "\<lambda>s. mk_cells s = Map.empty" "market_step sha" market_init for sha
  by unfold_locales (rule market_step_cells, simp_all add: market_init_def)

section \<open>Property\<close>

text \<open>No listing, no sale. Whatever the state, listing a token, buying one and changing a price fail: the
  market data is read under the key that has just been given the listing. So in every reachable state no listing
  exists, every operation on a listing answers that there is none, and there is no market data to read.\<close>
theorem no_sale_completes:
  "list_nft_on_dex env t seller price days s \<noteq> (Ok u, s')
    \<and> buy_nft_from_dex env t buyer price s \<noteq> (Ok u, s')
    \<and> update_listing_price env t seller price s \<noteq> (Ok u, s')
    \<and> (let r = fold (market_step sha) ms market_init in
        fst (buy_nft_from_dex env t buyer price r) = Err DNFTNotFound
        \<and> fst (delist_nft env t seller r) = Err DNFTNotFound
        \<and> fst (update_listing_price env t seller price r) = Err DNFTNotFound
        \<and> fst (get_market_data t r) = Err MarketDataCorrupted)"
proof -
  have "mk_cells (fold (market_step sha) ms market_init) = Map.empty" by (rule market.reach_inv)
  then have "fst (buy_nft_from_dex env t buyer price (fold (market_step sha) ms market_init)) = Err DNFTNotFound"
    "fst (delist_nft env t seller (fold (market_step sha) ms market_init)) = Err DNFTNotFound"
    "fst (update_listing_price env t seller price (fold (market_step sha) ms market_init)) = Err DNFTNotFound"
    "fst (get_market_data t (fold (market_step sha) ms market_init)) = Err MarketDataCorrupted"
    by (simp_all add: buy_nft_from_dex_def delist_nft_def update_listing_price_def get_market_data_def
      read_market_data_def get_listing_def proc_run)
  then show ?thesis unfolding Let_def by (intro conjI listing_fails sale_fails price_update_fails)
qed

text \<open>The configuration needs the administrator's address, not the administrator.\<close>

lemma configure_dex_iff:
  "(\<exists>s'. configure_dex a d k f lo hi s = (Ok (), s')) \<longleftrightarrow> mk_admin s = Some a"
  by (auto simp: configure_dex_def is_dex_admin_def proc_ok)

end
