(* ===== verification/RWA_Registry.thy ===== *)
theory RWA_Registry
  imports Contract_Lease
begin

text \<open>
  \<^verbatim>\<open>contracts/leaseflow_contracts/src/mock_rwa_registry.rs\<close>: the registry of real-world assets the lease contract asks for
  ownership and freezes assets in. The first sixteen bytes of an address's text are a parameter \<open>text_of\<close>, a
  number below \<open>2 ^ 128\<close>; a freeze proof is the number of the asset, sixteen bytes, followed by them. The codes the
  source casts its errors to are \<open>registry_code\<close>.
\<close>

section \<open>State\<close>

record mock_asset =
  ma_asset_id :: int
  ma_owner :: address
  ma_is_frozen :: bool
  ma_freezer :: "address option"
  ma_freeze_proof :: "bytes32 option"
  ma_metadata_uri :: string

record registry_info =
  ri_registry_id :: bytes32
  ri_version :: int
  ri_is_whitelisted :: bool
  ri_supported_standards :: "string list"

datatype registry_error = AssetNotFound | NotOwner | AlreadyFrozen | NotFrozen | InvalidFreezer | InvalidFreezeProof

fun registry_code :: "registry_error \<Rightarrow> int" where
  "registry_code AssetNotFound = 1"
| "registry_code NotOwner = 2"
| "registry_code AlreadyFrozen = 3"
| "registry_code NotFrozen = 4"
| "registry_code InvalidFreezer = 5"
| "registry_code InvalidFreezeProof = 6"

datatype registry_event = AssetFrozen int address bytes32 int | AssetThawed int address int

record registry_state = "registry_event host" +
  rg_info :: "registry_info option"
  rg_admin :: "address option"
  rg_assets :: "int \<rightharpoonup> mock_asset"

type_synonym 'a registry = "(registry_state, registry_error, 'a) proc"

definition registry_init :: registry_state where
  "registry_init = \<lparr>events = [], calls = [], rg_info = None, rg_admin = None, rg_assets = Map.empty\<rparr>"

section \<open>Operations\<close>

definition ones32 :: bytes32 where
  "ones32 = fold (\<lambda>_ n. n * 256 + 1) [0..<32] 0"

definition new_registry :: "address \<Rightarrow> unit registry" where
  "new_registry a = modify (\<lambda>s. s\<lparr>rg_info := Some \<lparr>ri_registry_id = ones32, ri_version = 1,
     ri_is_whitelisted = True, ri_supported_standards = [''ERC721'', ''ERC1155'', ''RWA-TOKEN'']\<rparr>,
     rg_admin := Some a\<rparr>)"

definition registry_get_info :: "registry_info registry" where
  "registry_get_info = bind (gets rg_info) (\<lambda>i. ok_or i AssetNotFound)"

definition get_asset :: "int \<Rightarrow> mock_asset option registry" where
  "get_asset i = gets (\<lambda>s. rg_assets s i)"

definition store_asset :: "int \<Rightarrow> mock_asset \<Rightarrow> unit registry" where
  "store_asset i a = modify (\<lambda>s. s\<lparr>rg_assets := (rg_assets s)(i \<mapsto> a)\<rparr>)"

definition generate_freeze_proof :: "(address \<Rightarrow> nat) \<Rightarrow> int \<Rightarrow> address \<Rightarrow> bytes32" where
  "generate_freeze_proof text_of i freezer = nat i * 2 ^ 128 + text_of freezer"

definition verify_ownership :: "int \<Rightarrow> address \<Rightarrow> bool registry" where
  "verify_ownership i claimed_owner =
     bind (get_asset i) (\<lambda>x. case x of Some a \<Rightarrow> return (ma_owner a = claimed_owner) | None \<Rightarrow> return False)"

definition freeze_asset :: "(address \<Rightarrow> nat) \<Rightarrow> env \<Rightarrow> int \<Rightarrow> address \<Rightarrow> bytes32 registry" where
  "freeze_asset text_of env i freezer =
     bind (get_asset i) (\<lambda>x. bind (ok_or x AssetNotFound) (\<lambda>a.
     bind (throw_if (ma_is_frozen a) AlreadyFrozen) (\<lambda>_.
     let freeze_proof = generate_freeze_proof text_of i freezer in
     bind (store_asset i (a\<lparr>ma_is_frozen := True, ma_freezer := Some freezer, ma_freeze_proof := Some freeze_proof\<rparr>)) (\<lambda>_.
     bind (publish (AssetFrozen i freezer freeze_proof (ledger_timestamp env))) (\<lambda>_.
     return freeze_proof)))))"

definition registry_thaw_asset :: "env \<Rightarrow> int \<Rightarrow> address \<Rightarrow> bytes32 \<Rightarrow> unit registry" where
  "registry_thaw_asset env i freezer freeze_proof =
     bind (get_asset i) (\<lambda>x. bind (ok_or x AssetNotFound) (\<lambda>a.
     bind (throw_if (\<not> ma_is_frozen a) NotFrozen) (\<lambda>_.
     bind (throw_if (ma_freezer a \<noteq> Some freezer) InvalidFreezer) (\<lambda>_.
     bind (throw_if (ma_freeze_proof a \<noteq> Some freeze_proof) InvalidFreezeProof) (\<lambda>_.
     bind (store_asset i (a\<lparr>ma_is_frozen := False, ma_freezer := None, ma_freeze_proof := None\<rparr>)) (\<lambda>_.
     publish (AssetThawed i freezer (ledger_timestamp env))))))))"

definition is_asset_frozen :: "int \<Rightarrow> bool registry" where
  "is_asset_frozen i = bind (get_asset i) (\<lambda>x. case x of Some a \<Rightarrow> return (ma_is_frozen a) | None \<Rightarrow> return False)"

definition mint_asset :: "env \<Rightarrow> int \<Rightarrow> address \<Rightarrow> string \<Rightarrow> unit registry" where
  "mint_asset env i owner metadata_uri =
     bind (gets rg_admin) (\<lambda>x. bind (ok_or x AssetNotFound) (\<lambda>a.
     bind (require_auth env a) (\<lambda>_.
     store_asset i \<lparr>ma_asset_id = i, ma_owner = owner, ma_is_frozen = False, ma_freezer = None,
       ma_freeze_proof = None, ma_metadata_uri = metadata_uri\<rparr>)))"

definition transfer_asset :: "env \<Rightarrow> int \<Rightarrow> address \<Rightarrow> address \<Rightarrow> unit registry" where
  "transfer_asset env i from_a to_a =
     bind (get_asset i) (\<lambda>x. bind (ok_or x AssetNotFound) (\<lambda>a.
     bind (throw_if (ma_owner a \<noteq> from_a) NotOwner) (\<lambda>_.
     bind (throw_if (ma_is_frozen a) AlreadyFrozen) (\<lambda>_.
     bind (require_auth env from_a) (\<lambda>_.
     store_asset i (a\<lparr>ma_owner := to_a\<rparr>))))))"

definition set_whitelisted :: "env \<Rightarrow> bool \<Rightarrow> unit registry" where
  "set_whitelisted env whitelisted =
     bind (gets rg_admin) (\<lambda>x. bind (unwrap x) (\<lambda>a.
     bind (require_auth env a) (\<lambda>_.
     bind (gets rg_info) (\<lambda>i. bind (unwrap i) (\<lambda>i.
     modify (\<lambda>s. s\<lparr>rg_info := Some (i\<lparr>ri_is_whitelisted := whitelisted\<rparr>)\<rparr>))))))"

definition spoof_ownership :: "int \<Rightarrow> address \<Rightarrow> bool" where
  "spoof_ownership i claimed_owner \<longleftrightarrow> True"

section \<open>The registry as a system\<close>

datatype registry_call =
    NewRegistry address
  | Freeze int address
  | Thaw int address bytes32
  | MintAsset int address string
  | TransferAsset int address address
  | SetWhitelisted bool

fun registry_exec :: "(address \<Rightarrow> nat) \<Rightarrow> env \<Rightarrow> registry_call \<Rightarrow> unit registry" where
  "registry_exec text_of env (NewRegistry a) = new_registry a"
| "registry_exec text_of env (Freeze i a) = bind (freeze_asset text_of env i a) (\<lambda>_. return ())"
| "registry_exec text_of env (Thaw i a h) = registry_thaw_asset env i a h"
| "registry_exec text_of env (MintAsset i a u) = mint_asset env i a u"
| "registry_exec text_of env (TransferAsset i a b) = transfer_asset env i a b"
| "registry_exec text_of env (SetWhitelisted b) = set_whitelisted env b"

definition registry_step :: "(address \<Rightarrow> nat) \<Rightarrow> env \<times> registry_call \<Rightarrow> registry_state \<Rightarrow> registry_state" where
  "registry_step text_of m s = snd (invoke (registry_exec text_of (fst m) (snd m)) s)"

section \<open>What the operations do\<close>

lemma asset_Ok_iff [proc_ok]:
  "get_asset i s = (Ok x, s') \<longleftrightarrow> x = rg_assets s i \<and> s' = s"
  "store_asset i a s = (Ok u, s') \<longleftrightarrow> s' = s\<lparr>rg_assets := (rg_assets s)(i \<mapsto> a)\<rparr>"
  by (auto simp: get_asset_def store_asset_def proc_ok)

lemma freeze_Ok_iff:
  "freeze_asset text_of env i f s = (Ok h, s') \<longleftrightarrow> h = generate_freeze_proof text_of i f \<and>
     (\<exists>a. rg_assets s i = Some a \<and> \<not> ma_is_frozen a \<and> s' = s\<lparr>
        rg_assets := (rg_assets s)(i \<mapsto> a\<lparr>ma_is_frozen := True, ma_freezer := Some f, ma_freeze_proof := Some h\<rparr>),
        events := events s @ [AssetFrozen i f h (ledger_timestamp env)]\<rparr>)"
  by (auto simp: freeze_asset_def Let_def proc_ok)

lemma thaw_Ok_iff:
  "registry_thaw_asset env i f h s = (Ok u, s') \<longleftrightarrow>
     (\<exists>a. rg_assets s i = Some a \<and> ma_is_frozen a \<and> ma_freezer a = Some f \<and> ma_freeze_proof a = Some h \<and> s' = s\<lparr>
        rg_assets := (rg_assets s)(i \<mapsto> a\<lparr>ma_is_frozen := False, ma_freezer := None, ma_freeze_proof := None\<rparr>),
        events := events s @ [AssetThawed i f (ledger_timestamp env)]\<rparr>)"
  by (auto simp: registry_thaw_asset_def proc_ok)

lemma mint_asset_Ok_iff:
  "mint_asset env i a uri s = (Ok u, s') \<longleftrightarrow> (\<exists>b. rg_admin s = Some b \<and> b \<in> set (auths env)) \<and>
     s' = s\<lparr>rg_assets := (rg_assets s)(i \<mapsto> \<lparr>ma_asset_id = i, ma_owner = a, ma_is_frozen = False, ma_freezer = None,
       ma_freeze_proof = None, ma_metadata_uri = uri\<rparr>)\<rparr>"
  by (auto simp: mint_asset_def proc_ok)

lemma transfer_asset_Ok_iff:
  "transfer_asset env i f t s = (Ok u, s') \<longleftrightarrow>
     (\<exists>a. rg_assets s i = Some a \<and> ma_owner a = f \<and> \<not> ma_is_frozen a \<and> f \<in> set (auths env) \<and>
        s' = s\<lparr>rg_assets := (rg_assets s)(i \<mapsto> a\<lparr>ma_owner := t\<rparr>)\<rparr>)"
  by (auto simp: transfer_asset_def proc_ok)

lemmas registry_Ok_iff = freeze_Ok_iff thaw_Ok_iff mint_asset_Ok_iff transfer_asset_Ok_iff

text \<open>A frozen asset carries the freezer and the proof computed from it, one that is not carries neither.\<close>

definition asset_ok :: "(address \<Rightarrow> nat) \<Rightarrow> int \<Rightarrow> mock_asset \<Rightarrow> bool" where
  "asset_ok text_of i a \<longleftrightarrow> ma_asset_id a = i \<and>
     (if ma_is_frozen a then \<exists>f. ma_freezer a = Some f \<and> ma_freeze_proof a = Some (generate_freeze_proof text_of i f)
      else ma_freezer a = None \<and> ma_freeze_proof a = None)"

definition registry_ok :: "(address \<Rightarrow> nat) \<Rightarrow> registry_state \<Rightarrow> bool" where
  "registry_ok text_of s \<longleftrightarrow> (\<forall>i a. rg_assets s i = Some a \<longrightarrow> asset_ok text_of i a)"

lemma registry_okD: "registry_ok text_of s \<Longrightarrow> rg_assets s i = Some a \<Longrightarrow> asset_ok text_of i a"
  by (simp add: registry_ok_def)

lemma registry_ok_store:
  "registry_ok text_of s \<Longrightarrow> asset_ok text_of i a \<Longrightarrow> rg_assets s' = (rg_assets s)(i \<mapsto> a) \<Longrightarrow> registry_ok text_of s'"
  by (simp add: registry_ok_def)

lemma registry_ok_same: "registry_ok text_of s \<Longrightarrow> rg_assets s' = rg_assets s \<Longrightarrow> registry_ok text_of s'"
  by (simp add: registry_ok_def)

lemma registry_exec_ok:
  assumes ok: "registry_ok text_of s" and run: "registry_exec text_of env c s = (Ok u, s')"
  shows "registry_ok text_of s'"
proof (cases c)
  case (Freeze i f)
  then obtain a where "rg_assets s i = Some a" "rg_assets s' = (rg_assets s)(i \<mapsto> a\<lparr>ma_is_frozen := True,
      ma_freezer := Some f, ma_freeze_proof := Some (generate_freeze_proof text_of i f)\<rparr>)"
    using run by (auto simp: proc_ok freeze_Ok_iff)
  then show ?thesis using registry_okD [OF ok] by (intro registry_ok_store [OF ok]) (auto simp: asset_ok_def)
next
  case (Thaw i f h)
  then obtain a where "rg_assets s i = Some a" "rg_assets s' = (rg_assets s)(i \<mapsto> a\<lparr>ma_is_frozen := False,
      ma_freezer := None, ma_freeze_proof := None\<rparr>)"
    using run by (auto simp: thaw_Ok_iff)
  then show ?thesis using registry_okD [OF ok] by (intro registry_ok_store [OF ok]) (auto simp: asset_ok_def)
next
  case (TransferAsset i f t)
  then obtain a where "rg_assets s i = Some a" "rg_assets s' = (rg_assets s)(i \<mapsto> a\<lparr>ma_owner := t\<rparr>)"
    using run by (auto simp: transfer_asset_Ok_iff)
  then show ?thesis using registry_okD [OF ok] by (intro registry_ok_store [OF ok]) (auto simp: asset_ok_def)
next
  case (MintAsset i f u)
  then show ?thesis using run by (intro registry_ok_store [OF ok]) (auto simp: mint_asset_Ok_iff asset_ok_def)
qed (use run in \<open>auto simp: new_registry_def set_whitelisted_def proc_ok intro!: registry_ok_same [OF ok]\<close>)

lemma registry_step_ok: "registry_ok text_of s \<Longrightarrow> registry_ok text_of (registry_step text_of m s)"
  by (cases "registry_exec text_of (fst m) (snd m)" s rule: invoke_cases)
    (auto simp: registry_step_def dest: registry_exec_ok)

interpretation registry: contract_system "registry_ok text_of" "registry_step text_of" registry_init for text_of
  by unfold_locales (rule registry_step_ok, simp_all add: registry_init_def registry_ok_def)

text \<open>Who changes what a frozen asset is: the administrator by minting it anew, or whoever presents the proof.\<close>

definition disturbs :: "int \<Rightarrow> address \<Rightarrow> bytes32 \<Rightarrow> registry_call \<Rightarrow> bool" where
  "disturbs i f h c \<longleftrightarrow> c = Thaw i f h \<or> (\<exists>b u. c = MintAsset i b u)"

definition held_by :: "address \<Rightarrow> bytes32 \<Rightarrow> mock_asset \<Rightarrow> mock_asset" where
  "held_by f h a = a\<lparr>ma_is_frozen := True, ma_freezer := Some f, ma_freeze_proof := Some h\<rparr>"

lemma frozen_exec:
  assumes "rg_assets s i = Some (held_by f h a)" "\<not> disturbs i f h c" "registry_exec text_of env c s = (Ok u, s')"
  shows "rg_assets s' i = Some (held_by f h a)"
  using assms by (cases c) (auto simp: disturbs_def held_by_def registry_Ok_iff new_registry_def set_whitelisted_def proc_ok)

lemma frozen_step:
  assumes "rg_assets s i = Some (held_by f h a)" "\<not> disturbs i f h (snd m)"
  shows "rg_assets (registry_step text_of m s) i = Some (held_by f h a)"
  by (cases "registry_exec text_of (fst m) (snd m)" s rule: invoke_cases)
    (use assms frozen_exec [OF assms] in \<open>auto simp: registry_step_def\<close>)

lemma frozen_run:
  "rg_assets s i = Some (held_by f h a) \<Longrightarrow> \<forall>m \<in> set ms. \<not> disturbs i f h (snd m)
    \<Longrightarrow> rg_assets (fold (registry_step text_of) ms s) i = Some (held_by f h a)"
  by (induction ms arbitrary: s) (auto intro: frozen_step)

section \<open>Properties\<close>

text \<open>Claim C33. A freeze protects an asset from everyone but those who mint it anew or hold the proof. After a successful
  freeze, and any calls among which nobody mints the same asset again (which the registry allows, and which overwrites
  owner and freeze) and nobody thaws it with the freezer's address and the proof, the asset has the owner it had, it
  cannot be transferred or frozen again, and it is thawed exactly by naming the freezer and the proof the freeze returned,
  by anyone, which gives back the record as it was before.\<close>
theorem freeze_protects_asset:
  assumes "s = fold (registry_step text_of) ms registry_init" "freeze_asset text_of env i f s = (Ok h, s1)"
    and "\<forall>m \<in> set ns. \<not> disturbs i f h (snd m)" "s2 = fold (registry_step text_of) ns s1"
  shows "verify_ownership i b s2 = (Ok (\<exists>a. rg_assets s i = Some a \<and> ma_owner a = b), s2)
    \<and> fst (transfer_asset env' i b c s2) \<noteq> Ok () \<and> fst (freeze_asset text_of env' i b s2) = Err AlreadyFrozen
    \<and> ((\<exists>s3. registry_thaw_asset env' i g k s2 = (Ok (), s3)) \<longleftrightarrow> g = f \<and> k = h)
    \<and> (\<forall>s3. registry_thaw_asset env' i f h s2 = (Ok (), s3) \<longrightarrow> rg_assets s3 i = rg_assets s i)"
proof -
  have ok: "registry_ok text_of s" unfolding assms(1) by (rule registry.reach_inv)
  obtain a where a: "rg_assets s i = Some a" "\<not> ma_is_frozen a" "rg_assets s1 i = Some (held_by f h a)"
    using assms(2) by (auto simp: freeze_Ok_iff held_by_def)
  then have held: "rg_assets s2 i = Some (held_by f h a)" unfolding assms(4) using assms(3) by (intro frozen_run)
  have clean: "ma_freezer a = None" "ma_freeze_proof a = None" using ok a(1,2) by (auto simp: registry_ok_def asset_ok_def)
  then have back_again: "(held_by f h a)\<lparr>ma_is_frozen := False, ma_freezer := None, ma_freeze_proof := None\<rparr> = a"
    using a(2) by (cases a) (simp add: held_by_def)
  have "fst (transfer_asset env' i b c s2) \<noteq> Ok ()"
    using held by (cases "transfer_asset env' i b c s2") (auto simp: transfer_asset_Ok_iff held_by_def)
  moreover have "verify_ownership i b s2 = (Ok (ma_owner a = b), s2)"
    "fst (freeze_asset text_of env' i b s2) = Err AlreadyFrozen"
    using held by (simp_all add: verify_ownership_def freeze_asset_def get_asset_def held_by_def proc_run)
  ultimately show ?thesis using held a(1) back_again by (auto simp: thaw_Ok_iff held_by_def)
qed

text \<open>The lease contract in front of the registry: what the registry answers when its state is \<open>r\<close>.\<close>

definition answers_as :: "(address \<Rightarrow> nat) \<Rightarrow> address \<Rightarrow> registry_state \<Rightarrow> env \<Rightarrow> bool" where
  "answers_as text_of reg r env \<longleftrightarrow> (\<forall>cs a i.
     ext env cs (RegistryInfo reg) = (case registry_get_info r of (Ok x, _) \<Rightarrow> Reply_bool (ri_is_whitelisted x) | _ \<Rightarrow> Reply_err)
     \<and> ext env cs (VerifyOwnership reg i a) = (case verify_ownership i a r of (Ok b, _) \<Rightarrow> Reply_bool b | _ \<Rightarrow> Reply_err)
     \<and> ext env cs (FreezeAsset reg i a) = (case freeze_asset text_of env i a r of (Ok h, _) \<Rightarrow> Reply_hash h | _ \<Rightarrow> Reply_err))"


text \<open>Claim C34. An asset is leased once at a time. When the registry answers the lease contract and the asset is frozen
  there, as it is after any lease was created on it, no lease can be created on the asset, by anyone, also its owner.\<close>
theorem asset_leased_once:
  assumes "answers_as text_of reg r (env.truncate lenv)" "rg_assets r i = Some a" "ma_is_frozen a"
    "p_asset_registry_address p = Some reg" "p_asset_id p = Some i"
  shows "fst (create_lease_instance lenv lid b p s) \<noteq> Ok ()"
proof
  assume "fst (create_lease_instance lenv lid b p s) = Ok ()"
  then obtain s' where run: "create_lease_instance lenv lid b p s = (Ok (), s')" by (metis prod.collapse)
  have "ext (env.truncate lenv) cs (FreezeAsset reg i x) = Reply_err" for cs x
    using assms(1-3) by (simp add: answers_as_def freeze_asset_def get_asset_def proc_run)
  then have "verify_asset_ownership (env.truncate lenv) lid b reg i t \<noteq> (Ok h, t')" for t h t'
    by (auto simp: verify_asset_ownership_def proc_ok)
  then show False using run assms(4,5) by (auto simp: create_lease_instance_def Let_def proc_ok split: if_splits)
qed

section \<open>An example\<close>

text \<open>Asset 7 of owner 2, frozen by the lease contract 9. The second environment answers as a registry in state \<open>r\<close>.\<close>

definition rx_base :: env where
  "rx_base = \<lparr>ledger_timestamp = 100, ledger_sequence = 1, auths = [1, 2, 3], current_contract = 9,
     ext = (\<lambda>cs c. Reply_unit)\<rparr>"

definition rx_minted :: registry_state where
  "rx_minted = fold (registry_step id) [(rx_base, NewRegistry 1), (rx_base, MintAsset 7 2 ''deed'')] registry_init"

definition rx_frozen :: registry_state where
  "rx_frozen = fold (registry_step id) [(rx_base, Freeze 7 9), (rx_base, TransferAsset 7 2 3)] rx_minted"

definition rx_lenv :: lc_env where
  "rx_lenv = env.extend (rx_base\<lparr>ext := (\<lambda>cs c. case c of
       RegistryInfo x \<Rightarrow> Reply_bool True
     | VerifyOwnership x i a \<Rightarrow> Reply_bool (i = 7 \<and> a = 2)
     | FreezeAsset x i a \<Rightarrow> Reply_err
     | _ \<Rightarrow> Reply_unit)\<rparr>) (lc_env.fields (\<lambda>xs i. Inr (xs @ [i])))"

definition rx_params :: create_lease_params where
  "rx_params = \<lparr>p_tenant = 3, p_rent_amount = 1000, p_deposit_amount = 500, p_security_deposit = 2000,
     p_start_date = 0, p_end_date = 1000000, p_property_uri = [], p_payment_token = 50,
     p_arbitrators = [4], p_rent_per_sec = 2, p_grace_period_end = 100000, p_late_fee_flat = 30,
     p_late_fee_per_sec = 3, p_equity_percentage_bps = 0, p_has_pet = False, p_pet_deposit_amount = 0,
     p_pet_rent_amount = 0, p_yield_delegation_enabled = False, p_deposit_asset = None,
     p_dex_contract = None, p_max_slippage_bps = 0, p_swap_path = [], p_lessor_reference_id = None,
     p_asset_registry_address = Some 60, p_asset_id = Some 7\<rparr>"

definition rx_contract :: lc_state where
  "rx_contract = lc_init\<lparr>whitelisted_registries := {60}\<rparr>"

definition rx_deed :: mock_asset where
  "rx_deed = \<lparr>ma_asset_id = 7, ma_owner = 2, ma_is_frozen = False, ma_freezer = None, ma_freeze_proof = None,
     ma_metadata_uri = ''deed''\<rparr>"

lemma rx_facts:
  "rg_assets rx_minted = [7 \<mapsto> rx_deed]" "map_option ri_is_whitelisted (rg_info rx_minted) = Some True"
  by (simp_all add: rx_minted_def registry_step_def invoke_def new_registry_def mint_asset_def store_asset_def
    proc_run registry_init_def rx_base_def rx_deed_def)

lemma rx_freeze: "fst (freeze_asset id rx_base 7 9 rx_minted) = Ok (7 * 2 ^ 128 + 9)"
  by (simp add: freeze_asset_def get_asset_def store_asset_def generate_freeze_proof_def rx_facts rx_deed_def proc_run)

lemma rx_frozen_asset:
  "rg_assets rx_frozen = [7 \<mapsto> held_by 9 (7 * 2 ^ 128 + 9) rx_deed]" "rg_info rx_frozen = rg_info rx_minted"
  by (simp_all add: rx_frozen_def registry_step_def invoke_def freeze_asset_def transfer_asset_def get_asset_def
    store_asset_def generate_freeze_proof_def proc_run rx_facts rx_deed_def held_by_def)

theorem freeze_protects_asset_witness:
  "\<exists>s1. freeze_asset id rx_base 7 9 rx_minted = (Ok (7 * 2 ^ 128 + 9), s1)
     \<and> fst (transfer_asset rx_base 7 2 3 (registry_step id (rx_base, Thaw 7 2 0) s1)) \<noteq> Ok ()
     \<and> (\<exists>s3. registry_thaw_asset rx_base 7 9 (7 * 2 ^ 128 + 9) (registry_step id (rx_base, Thaw 7 2 0) s1) = (Ok (), s3)
        \<and> rg_assets s3 7 = rg_assets rx_minted 7)"
proof -
  obtain s1 where s1: "freeze_asset id rx_base 7 9 rx_minted = (Ok (7 * 2 ^ 128 + 9), s1)"
    using rx_freeze by (metis prod.collapse)
  have "\<forall>m \<in> set [(rx_base, Thaw 7 2 0)]. \<not> disturbs 7 9 (7 * 2 ^ 128 + 9) (snd m)" by (simp add: disturbs_def)
  note protects = freeze_protects_asset [OF rx_minted_def s1 this, simplified fold_simps, OF refl]
  show ?thesis using s1 protects [of 2 rx_base 3 9 "7 * 2 ^ 128 + 9"] by auto
qed

lemma rx_answers: "answers_as id 60 rx_frozen (env.truncate rx_lenv)"
  using rx_facts(2) by (auto simp: answers_as_def rx_lenv_def env.defs freeze_asset_def get_asset_def
    verify_ownership_def registry_get_info_def rx_frozen_asset held_by_def rx_deed_def proc_run)

theorem asset_leased_once_witness: "fst (create_lease_instance rx_lenv 6 2 rx_params rx_contract) \<noteq> Ok ()"
  by (rule asset_leased_once [OF rx_answers, of 7 "held_by 9 (7 * 2 ^ 128 + 9) rx_deed"])
    (simp_all add: rx_frozen_asset rx_params_def held_by_def)

end
