(* ===== verification/Billed_Lease.thy ===== *)
theory Billed_Lease
  imports Contract_Reach Continuous_Billing
begin

text \<open>
  \<^verbatim>\<open>create_lease_with_continuous_billing\<close> of \<^verbatim>\<open>src/lib.rs\<close>, where the lease contract meets the billing module: the lease is
  saved as active, registered for billing under the same number, and announced. Its asset is the placeholder
  \<^verbatim>\<open>Address::from_string("property_asset")\<close>, and the documentation of the SDK says that the conversion panics unless
  the text is the strkey of an account or a contract, that is, 56 characters that begin with G or C. What the
  conversion makes of such a text is the parameter \<open>parse\<close>. The placeholder is no strkey, so no call completes.
\<close>

section \<open>The operation\<close>

record billed_state =
  bd_contract :: lc_state
  bd_billing :: cb_state

type_synonym 'a billed = "(billed_state, lease_error, 'a) proc"

definition billed_init :: billed_state where
  "billed_init = \<lparr>bd_contract = lc_init, bd_billing = cb_init\<rparr>"

definition on_lease :: "(lc_state, 'e, 'a) proc \<Rightarrow> (billed_state, 'e, 'a) proc" where
  "on_lease m = (\<lambda>s. case m (bd_contract s) of (r, c) \<Rightarrow> (r, s\<lparr>bd_contract := c\<rparr>))"

definition on_billing :: "(cb_state, 'e, 'a) proc \<Rightarrow> (billed_state, 'e, 'a) proc" where
  "on_billing m = (\<lambda>s. case m (bd_billing s) of (r, b) \<Rightarrow> (r, s\<lparr>bd_billing := b\<rparr>))"

definition is_strkey :: "string \<Rightarrow> bool" where
  "is_strkey x \<longleftrightarrow> length x = 56 \<and> hd x \<in> set ''GC''"

definition address_from_string :: "(string \<Rightarrow> address option) \<Rightarrow> string \<Rightarrow> ('s, 'e, address) proc" where
  "address_from_string parse x = (if is_strkey x then unwrap (parse x) else trap)"

definition create_lease_with_continuous_billing :: "(string \<Rightarrow> address option) \<Rightarrow> env \<Rightarrow> billed_params \<Rightarrow> int billed" where
  "create_lease_with_continuous_billing parse env p =
     (let current_time = ledger_timestamp env; end_time = sat_u64 (current_time + b_duration p) in
     bind (on_lease (save_billed_lease env p)) (\<lambda>lid.
     bind (address_from_string parse ''property_asset'') (\<lambda>asset.
     bind (map_err (\<lambda>_. Unauthorised) (on_billing (register_lease_billing env lid (b_landlord p) (b_tenant p) asset
       (b_rent_amount p) (b_rent_per_second p) (b_payment_token p) current_time end_time (b_billing_frequency p)))) (\<lambda>_.
     bind (on_lease (announce_billed_lease p lid)) (\<lambda>_.
     return lid)))))"

section \<open>What it does\<close>

lemma on_part_Ok_iff [proc_ok]:
  "on_lease m s = (Ok a, s') \<longleftrightarrow> (\<exists>c. m (bd_contract s) = (Ok a, c) \<and> s' = s\<lparr>bd_contract := c\<rparr>)"
  "on_billing n s = (Ok b, s') \<longleftrightarrow> (\<exists>c. n (bd_billing s) = (Ok b, c) \<and> s' = s\<lparr>bd_billing := c\<rparr>)"
  by (auto simp: on_lease_def on_billing_def split: prod.splits)

text \<open>No call completes: whatever the conversion makes of strkeys, a call that passes the guards of the landlord, the
  identity check and the token panics at the placeholder, and the host takes back the lease that was saved.\<close>

lemma creation_never_completes: "create_lease_with_continuous_billing parse env p s \<noteq> (Ok lid, s')"
  by (auto simp: create_lease_with_continuous_billing_def address_from_string_def is_strkey_def Let_def proc_ok)

lemma creation_changes_nothing: "snd (invoke (create_lease_with_continuous_billing parse env p) s) = s"
  by (cases "create_lease_with_continuous_billing parse env p" s rule: invoke_cases)
    (auto simp: creation_never_completes)

text \<open>It is the conversion that fails, not a guard: without a provider of identity checks, what comes before it goes
  through exactly when the landlord authorises the call, the token is allowed and a year of rent fits.\<close>

lemma save_billed_Ok_iff:
  assumes "kyc_provider c = None"
  shows "save_billed_lease env p c = (Ok lid, c') \<longleftrightarrow> b_landlord p \<in> set (auths env)
    \<and> b_payment_token p \<in> allowed_assets c \<and> is_i128 (b_rent_amount p * 12) \<and> lid = ledger_sequence env
    \<and> c' = c\<lparr>lease_instances := (lease_instances c)(lid \<mapsto> billed_instance env p (b_rent_amount p * 12))\<rparr>"
  using assms by (auto simp: save_billed_lease_def require_kyc_def require_stablecoin_def is_asset_allowed_def
    save_lease_instance_def proc_ok)

end
