(* ===== verification/Storage_Optimizer.thy ===== *)
theory Storage_Optimizer
  imports Cleanup_Props
begin

text \<open>
  \<^verbatim>\<open>contracts/leaseflow_contracts/src/storage_optimizer.rs\<close>: removal of storage entries by key, an integrity check of pruned
  leases, statistics and a maintenance schedule, on the storage of \<^verbatim>\<open>Storage_Cleanup\<close>. Entries under keys that module
  does not use are kept as a set of keys; the time of the last maintenance is stored under the key of the platform
  fee. The addresses under which payers and balances are looked for are random and a parameter, as there.
\<close>

section \<open>State\<close>

datatype cleanup_key =
    K_Lease string
  | K_LeaseInstance int
  | K_Receipt string int
  | K_Admin
  | K_UsageRights address int
  | K_HistoricalLease int
  | K_KycProvider
  | K_AllowedAsset address
  | K_AuthorizedPayer int address
  | K_RoommateBalance int address
  | K_PlatformFeeAmount
  | K_PlatformFeeToken
  | K_PlatformFeeRecipient
  | K_TermsHash
  | K_WhitelistedOracle bytes32
  | K_OracleNonce bytes32 int
  | K_TenantFlag int
  | K_LeaseTombstone int
  | K_LegalHold int
  | K_StorageMetrics
  | K_PruneWhitelist address

record optimizer_state =
  os_cleanup :: cleanup_state
  os_other_keys :: "cleanup_key set"
  os_last_maintenance :: "int option"

type_synonym 'a optimizer = "(optimizer_state, cleanup_error, 'a) proc"

record storage_statistics =
  st_lease_instances :: int
  st_tombstones :: int
  st_legal_holds :: int
  st_receipts :: int
  st_usage_rights :: int
  st_total_bytes :: int
  st_average_lease_size :: int

record storage_snapshot =
  sn_timestamp :: int
  sn_lease_count :: int
  sn_tombstone_count :: int
  sn_legal_hold_count :: int
  sn_storage_efficiency :: int

record maintenance_report =
  mr_timestamp :: int
  mr_bytes_compacted :: int
  mr_bytes_optimized :: int
  mr_integrity_validated :: bool
  mr_snapshot :: storage_snapshot

fun has_key :: "cleanup_key \<Rightarrow> optimizer_state \<Rightarrow> bool" where
  "has_key (K_LeaseInstance i) s \<longleftrightarrow> cs_leases (os_cleanup s) i \<noteq> None"
| "has_key (K_AuthorizedPayer i a) s \<longleftrightarrow> (i, a) \<in> cs_payers (os_cleanup s)"
| "has_key (K_RoommateBalance i a) s \<longleftrightarrow> cs_balances (os_cleanup s) (i, a) \<noteq> None"
| "has_key (K_TenantFlag i) s \<longleftrightarrow> i \<in> cs_tenant_flags (os_cleanup s)"
| "has_key (K_LeaseTombstone i) s \<longleftrightarrow> cs_tombstones (os_cleanup s) i \<noteq> None"
| "has_key (K_LegalHold i) s \<longleftrightarrow> cs_holds (os_cleanup s) i \<noteq> None"
| "has_key K_StorageMetrics s \<longleftrightarrow> cs_metrics (os_cleanup s) \<noteq> None"
| "has_key (K_PruneWhitelist a) s \<longleftrightarrow> a \<in> cs_whitelist (os_cleanup s)"
| "has_key K_PlatformFeeAmount s \<longleftrightarrow> os_last_maintenance s \<noteq> None"
| "has_key k s \<longleftrightarrow> k \<in> os_other_keys s"

fun drop_key :: "cleanup_key \<Rightarrow> cleanup_state \<Rightarrow> cleanup_state" where
  "drop_key (K_LeaseInstance i) c = c\<lparr>cs_leases := (cs_leases c)(i := None)\<rparr>"
| "drop_key (K_AuthorizedPayer i a) c = c\<lparr>cs_payers := cs_payers c - {(i, a)}\<rparr>"
| "drop_key (K_RoommateBalance i a) c = c\<lparr>cs_balances := (cs_balances c)((i, a) := None)\<rparr>"
| "drop_key (K_TenantFlag i) c = c\<lparr>cs_tenant_flags := cs_tenant_flags c - {i}\<rparr>"
| "drop_key (K_LeaseTombstone i) c = c\<lparr>cs_tombstones := (cs_tombstones c)(i := None)\<rparr>"
| "drop_key (K_LegalHold i) c = c\<lparr>cs_holds := (cs_holds c)(i := None)\<rparr>"
| "drop_key K_StorageMetrics c = c\<lparr>cs_metrics := None\<rparr>"
| "drop_key (K_PruneWhitelist a) c = c\<lparr>cs_whitelist := cs_whitelist c - {a}\<rparr>"
| "drop_key k c = c"

definition remove_key :: "cleanup_key \<Rightarrow> optimizer_state \<Rightarrow> optimizer_state" where
  "remove_key k s = s\<lparr>os_cleanup := drop_key k (os_cleanup s), os_other_keys := os_other_keys s - {k},
     os_last_maintenance := if k = K_PlatformFeeAmount then None else os_last_maintenance s\<rparr>"

section \<open>Removal\<close>

definition safe_remove_persistent :: "cleanup_key \<Rightarrow> unit optimizer" where
  "safe_remove_persistent k =
     bind (gets (has_key k)) (\<lambda>present.
     if \<not> present then return () else
     bind (modify (remove_key k)) (\<lambda>_.
     bind (gets (has_key k)) (\<lambda>present. throw_if present StorageCleanupFailed)))"

fun batch_remove_loop :: "cleanup_key list \<Rightarrow> int \<Rightarrow> int optimizer" where
  "batch_remove_loop [] removed_count = return removed_count"
| "batch_remove_loop (k # ks) removed_count =
     bind (safe_remove_persistent k) (\<lambda>_.
     bind (chk_u32 (removed_count + 1)) (\<lambda>n. batch_remove_loop ks n))"

definition batch_remove_persistent :: "cleanup_key list \<Rightarrow> int optimizer" where
  "batch_remove_persistent ks = batch_remove_loop ks 0"

definition get_lease_dependency_keys :: "address \<times> address \<Rightarrow> int \<Rightarrow> cleanup_key list" where
  "get_lease_dependency_keys drawn lid =
     [K_AuthorizedPayer lid (fst drawn), K_RoommateBalance lid (snd drawn), K_TenantFlag lid]"

definition estimate_lease_instance_size :: "int \<Rightarrow> optimizer_state \<Rightarrow> int" where
  "estimate_lease_instance_size lid s =
     (if cs_leases (os_cleanup s) lid \<noteq> None then 512 + (5 * 32) + (4 * 64) + (8 * 16) + (3 * 8) else 0)"

fun estimate_key_size :: "cleanup_key \<Rightarrow> int" where
  "estimate_key_size (K_LeaseInstance i) = 512"
| "estimate_key_size (K_AuthorizedPayer i a) = 64"
| "estimate_key_size (K_RoommateBalance i a) = 32"
| "estimate_key_size (K_TenantFlag i) = 16"
| "estimate_key_size (K_LegalHold i) = 128"
| "estimate_key_size (K_LeaseTombstone i) = 128"
| "estimate_key_size (K_Receipt k m) = 96"
| "estimate_key_size (K_UsageRights a n) = 128"
| "estimate_key_size _ = 64"

definition remove_lease_instance_with_dependencies :: "address \<times> address \<Rightarrow> int \<Rightarrow> int optimizer" where
  "remove_lease_instance_with_dependencies drawn lid =
     bind (gets (estimate_lease_instance_size lid)) (\<lambda>bytes.
     bind (safe_remove_persistent (K_LeaseInstance lid)) (\<lambda>_.
     let dependency_keys = get_lease_dependency_keys drawn lid in
     bind (batch_remove_persistent dependency_keys) (\<lambda>removed_deps.
     return (bytes + sum_list (map estimate_key_size dependency_keys)))))"

section \<open>Checks, statistics, maintenance\<close>

text \<open>The scans for holds, orphans and inconsistencies and the counts are placeholders of the source: nothing is found.\<close>

definition scan_legal_holds :: "(int \<times> legal_hold) list option" where
  "scan_legal_holds = None"

fun compact_loop :: "env \<Rightarrow> (int \<times> legal_hold) list \<Rightarrow> int \<Rightarrow> int optimizer" where
  "compact_loop env [] bytes = return bytes"
| "compact_loop env ((lid, h) # hs) bytes =
     (case lh_expires_at h of
        Some x \<Rightarrow> if ledger_timestamp env > x then
            bind (safe_remove_persistent (K_LegalHold lid)) (\<lambda>_.
            bind (chk_u32 (bytes + estimate_key_size (K_LegalHold lid))) (compact_loop env hs))
          else compact_loop env hs bytes
      | None \<Rightarrow> compact_loop env hs bytes)"

definition compact_storage :: "env \<Rightarrow> int optimizer" where
  "compact_storage env = (case scan_legal_holds of Some hs \<Rightarrow> compact_loop env hs 0 | None \<Rightarrow> return 0)"

definition validate_storage_integrity :: "address \<times> address \<Rightarrow> int \<Rightarrow> bool optimizer" where
  "validate_storage_integrity drawn lid =
     bind (gets (has_key (K_LeaseTombstone lid))) (\<lambda>pruned.
     if \<not> pruned then return True else
     bind (gets (has_key (K_LeaseInstance lid))) (\<lambda>present.
     bind (throw_if present StorageCleanupFailed) (\<lambda>_.
     bind (gets (\<lambda>s. \<exists>k \<in> set (get_lease_dependency_keys drawn lid). has_key k s)) (\<lambda>left.
     bind (throw_if left StorageCleanupFailed) (\<lambda>_. return True)))))"

definition count_storage_type :: "string \<Rightarrow> int" where
  "count_storage_type typ = 0"

definition new_statistics :: storage_statistics where
  "new_statistics = \<lparr>st_lease_instances = 0, st_tombstones = 0, st_legal_holds = 0, st_receipts = 0,
     st_usage_rights = 0, st_total_bytes = 0, st_average_lease_size = 0\<rparr>"

definition get_storage_statistics :: storage_statistics where
  "get_storage_statistics =
     (let leases = count_storage_type ''LeaseInstance''; tombstones = count_storage_type ''LeaseTombstone'';
          holds = count_storage_type ''LegalHold''; receipts = count_storage_type ''Receipt'';
          rights = count_storage_type ''UsageRights'' in
      new_statistics\<lparr>st_lease_instances := leases, st_tombstones := tombstones, st_legal_holds := holds,
        st_receipts := receipts, st_usage_rights := rights,
        st_total_bytes := leases * 512 + tombstones * 128 + holds * 128 + receipts * 96 + rights * 128\<rparr>)"

definition remove_orphaned_entries :: "int optimizer" where
  "remove_orphaned_entries = return 0"

definition validate_global_storage_integrity :: "unit optimizer" where
  "validate_global_storage_integrity = return ()"

definition optimize_storage_layout :: "env \<Rightarrow> int optimizer" where
  "optimize_storage_layout env =
     bind remove_orphaned_entries (\<lambda>a.
     bind (compact_storage env) (\<lambda>b.
     bind validate_global_storage_integrity (\<lambda>_. chk_u32 (a + b))))"

definition create_storage_snapshot :: "env \<Rightarrow> storage_snapshot" where
  "create_storage_snapshot env =
     (let stats = get_storage_statistics in
      \<lparr>sn_timestamp = ledger_timestamp env, sn_lease_count = count_storage_type ''LeaseInstance'',
       sn_tombstone_count = count_storage_type ''LeaseTombstone'', sn_legal_hold_count = count_storage_type ''LegalHold'',
       sn_storage_efficiency = if st_total_bytes stats > 0
         then (st_tombstones stats * 128) * 100 div st_total_bytes stats else 0\<rparr>)"

definition perform_maintenance :: "env \<Rightarrow> maintenance_report optimizer" where
  "perform_maintenance env =
     bind (compact_storage env) (\<lambda>compacted.
     bind (optimize_storage_layout env) (\<lambda>optimized.
     bind validate_global_storage_integrity (\<lambda>_.
     return \<lparr>mr_timestamp = ledger_timestamp env, mr_bytes_compacted = compacted, mr_bytes_optimized = optimized,
       mr_integrity_validated = True, mr_snapshot = create_storage_snapshot env\<rparr>)))"

definition schedule_maintenance :: "env \<Rightarrow> int \<Rightarrow> unit optimizer" where
  "schedule_maintenance env interval_days =
     bind (gets os_last_maintenance) (\<lambda>last.
     bind (case last of None \<Rightarrow> return True
       | Some t \<Rightarrow> bind (chk_u64 (t + interval_days * 24 * 60 * 60)) (\<lambda>due. return (\<not> ledger_timestamp env < due))) (\<lambda>due.
     if \<not> due then return () else
     bind (perform_maintenance env) (\<lambda>_.
     modify (\<lambda>s. s\<lparr>os_last_maintenance := Some (ledger_timestamp env)\<rparr>))))"

section \<open>Removal by key\<close>

lemma removed_key [simp]: "\<not> has_key k (remove_key k s)"
  by (cases k) (auto simp: remove_key_def)

lemma other_keys_stay: "k \<noteq> k' \<Longrightarrow> has_key k (remove_key k' s) = has_key k s"
  by (cases k'; cases k) (auto simp: remove_key_def)

lemma safe_remove_Ok_iff [proc_ok]:
  "safe_remove_persistent k s = (Ok u, s') \<longleftrightarrow> s' = (if has_key k s then remove_key k s else s)"
  by (auto simp: safe_remove_persistent_def proc_ok)

lemma removes_run: "safe_remove_persistent k s = (Ok (), if has_key k s then remove_key k s else s)"
  by (simp add: safe_remove_Ok_iff)

lemma after_removal: "has_key k' (if has_key k s then remove_key k s else s) \<longleftrightarrow> has_key k' s \<and> k' \<noteq> k"
  by (cases "k' = k") (auto simp: other_keys_stay)

text \<open>A batch removes exactly its keys, and counts them, those that were not there included.\<close>

lemma batch_remove_loop_run:
  "0 \<le> n \<Longrightarrow> is_u32 (n + int (length ks)) \<Longrightarrow> \<exists>s'. batch_remove_loop ks n s = (Ok (n + int (length ks)), s')
    \<and> (\<forall>k. has_key k s' \<longleftrightarrow> has_key k s \<and> k \<notin> set ks)"
proof (induction ks arbitrary: n s)
  case (Cons k ks)
  let ?t = "if has_key k s then remove_key k s else s"
  have "is_u32 (n + 1)" using Cons.prems by (auto simp: is_u32_def)
  then have run: "batch_remove_loop (k # ks) n s = batch_remove_loop ks (n + 1) ?t"
    by (simp add: bind_run removes_run chk_w_run)
  have "\<exists>s'. batch_remove_loop ks (n + 1) ?t = (Ok (n + 1 + int (length ks)), s')
      \<and> (\<forall>k'. has_key k' s' \<longleftrightarrow> has_key k' ?t \<and> k' \<notin> set ks)"
    by (rule Cons.IH) (use Cons.prems in \<open>simp_all add: add.assoc\<close>)
  then show ?case unfolding run after_removal by (auto simp: algebra_simps)
qed simp

section \<open>Properties\<close>

text \<open>The optimizer goes around the clean-up. Removing a lease with its dependencies succeeds in every
  state, also for a lease that runs or is under a legal hold, and leaves no tombstone: afterwards exactly the
  lease, its flag and the entries of two drawn addresses are gone, and every other entry stays, the
  hold and the payers of the lease among them.\<close>
theorem optimizer_bypasses_holds:
  "\<exists>n s'. remove_lease_instance_with_dependencies drawn lid s = (Ok n, s')
    \<and> (\<forall>k. has_key k s' \<longleftrightarrow> has_key k s \<and> k \<notin> {K_LeaseInstance lid, K_AuthorizedPayer lid (fst drawn),
        K_RoommateBalance lid (snd drawn), K_TenantFlag lid})"
proof -
  let ?t = "if has_key (K_LeaseInstance lid) s then remove_key (K_LeaseInstance lid) s else s"
  have "is_u32 (0 + int (length (get_lease_dependency_keys drawn lid)))"
    by (simp add: get_lease_dependency_keys_def is_u32_def u32_max_def)
  from batch_remove_loop_run [OF order_refl this, of ?t] obtain s' where
    s': "batch_remove_loop (get_lease_dependency_keys drawn lid) 0 ?t = (Ok 3, s')"
      "\<forall>k. has_key k s' \<longleftrightarrow> has_key k ?t \<and> k \<notin> set (get_lease_dependency_keys drawn lid)"
    by (auto simp: get_lease_dependency_keys_def)
  then have "\<forall>k. has_key k s' \<longleftrightarrow> has_key k s \<and> k \<notin> {K_LeaseInstance lid, K_AuthorizedPayer lid (fst drawn),
        K_RoommateBalance lid (snd drawn), K_TenantFlag lid}"
    unfolding after_removal by (auto simp: get_lease_dependency_keys_def)
  then show ?thesis using s'(1)
    by (auto simp: remove_lease_instance_with_dependencies_def batch_remove_persistent_def bind_run gets_run return_run
      removes_run Let_def get_lease_dependency_keys_def)
qed

text \<open>What the integrity check accepts. After a successful prune the check of the lease passes exactly when
  the two addresses it draws are not those of a remaining payer or balance: it can pass although entries of the
  lease are left, and whether it does depends on the draw.\<close>
theorem integrity_of_a_pruned_lease:
  assumes "prune_finalized_lease sha drawn env lid a (os_cleanup s) = (Ok h, c)" "s' = s\<lparr>os_cleanup := c\<rparr>"
  shows "cs_payers c = cs_payers (os_cleanup s) - {(lid, fst drawn)}
    \<and> (fst (validate_storage_integrity drawn' lid s') = Ok True \<longleftrightarrow>
        (lid, fst drawn') \<notin> cs_payers c \<and> cs_balances c (lid, snd drawn') = None)"
proof -
  have "\<exists>h. prune_finalized_lease sha drawn env lid a (os_cleanup s) = (Ok h, c)" using assms(1) by blast
  then obtain l where "cs_leases c = (cs_leases (os_cleanup s))(lid := None)"
    "cs_payers c = cs_payers (os_cleanup s) - {(lid, fst drawn)}" "lid \<notin> cs_tenant_flags c"
    "cs_tombstones c lid = Some l"
    unfolding prune_Ok_iff by auto
  then show ?thesis
    by (auto simp: assms(2) validate_storage_integrity_def get_lease_dependency_keys_def proc_run)
qed

section \<open>An example\<close>

definition ox_state :: optimizer_state where
  "ox_state = \<lparr>os_cleanup = cx_state\<lparr>cs_payers := {(3, 21)}\<rparr>, os_other_keys = {}, os_last_maintenance = None\<rparr>"

text \<open>Lease 3 is pruned while address 21 is stored as one of its payers.\<close>

theorem integrity_of_a_pruned_lease_witness:
  "\<exists>c. (3, 21) \<in> cs_payers c
    \<and> fst (validate_storage_integrity (1, 2) 3 (ox_state\<lparr>os_cleanup := c\<rparr>)) = Ok True
    \<and> fst (validate_storage_integrity (21, 2) 3 (ox_state\<lparr>os_cleanup := c\<rparr>)) \<noteq> Ok True"
proof -
  let ?run = "prune_finalized_lease cx_sha (11, 12) (cx_env 6000000 []) 3 8 (os_cleanup ox_state)"
  have "?run = (Ok 7, snd ?run)" by (intro prod_eqI) (code_simp, simp)
  note integrity = integrity_of_a_pruned_lease [OF this refl]
  have "cs_balances (snd ?run) (3, 2) = None" by code_simp
  then show ?thesis using integrity [of "(1, 2)"] integrity [of "(21, 2)"]
    by (intro exI [of _ "snd ?run"]) (simp add: ox_state_def)
qed

end
