(* ===== verification/Rust_Float.thy ===== *)
theory Rust_Float
  imports Rust_Arith Complex_Main
begin

text \<open>
  What the crates use of \<^verbatim>\<open>f64\<close>: conversion from integers, multiplication, subtraction, division, and the cast back to \<^verbatim>\<open>i128\<close>. A number is a
  significand times a power of two, and every operation rounds the exact result to 53 bits, ties to even. The operands are integers of at most
  128 bits and what a few operations make of them, so the bounds of the exponent are never met and there are no
  infinities or subnormal numbers; no divisor is zero. The sign of a zero, which nothing observes, is dropped.
\<close>

section \<open>Rounding\<close>

datatype f64 = F64 int int

function bit_len :: "int \<Rightarrow> nat" where
  "bit_len n = (if n \<le> 0 then 0 else Suc (bit_len (n div 2)))"
  by pat_completeness auto
termination by (relation "measure nat") auto

declare bit_len.simps [simp del]

definition half_even :: "int \<Rightarrow> int \<Rightarrow> int" where
  "half_even n d = (let q = n div d; r = n mod d in if 2 * r < d \<or> (2 * r = d \<and> even q) then q else q + 1)"

definition f64_frac :: "int \<Rightarrow> int \<Rightarrow> f64" where
  "f64_frac n d =
     (if n = 0 then F64 0 0 else
      let k = int (bit_len \<bar>n\<bar>) - int (bit_len d) - 53;
          a = \<bar>n\<bar> * 2 ^ nat (- k); b = d * 2 ^ nat k in
      if a \<ge> 2 ^ 53 * b then F64 (sgn n * half_even a (2 * b)) (k + 1) else F64 (sgn n * half_even a b) k)"

fun f64_num :: "f64 \<Rightarrow> int" where "f64_num (F64 m e) = m * 2 ^ nat e"
fun f64_den :: "f64 \<Rightarrow> int" where "f64_den (F64 m e) = 2 ^ nat (- e)"

definition f64_of_int :: "int \<Rightarrow> f64" where "f64_of_int n = f64_frac n 1"

definition f64_mul :: "f64 \<Rightarrow> f64 \<Rightarrow> f64" where
  "f64_mul x y = f64_frac (f64_num x * f64_num y) (f64_den x * f64_den y)"

definition f64_sub :: "f64 \<Rightarrow> f64 \<Rightarrow> f64" where
  "f64_sub x y = f64_frac (f64_num x * f64_den y - f64_num y * f64_den x) (f64_den x * f64_den y)"

definition f64_div :: "f64 \<Rightarrow> f64 \<Rightarrow> f64" where
  "f64_div x y = f64_frac (f64_num x * f64_den y * sgn (f64_num y)) (f64_den x * \<bar>f64_num y\<bar>)"

definition f64_to_i128 :: "f64 \<Rightarrow> int" where
  "f64_to_i128 x = sat_i128 (tdiv (f64_num x) (f64_den x))"

section \<open>Values\<close>

definition f64_val :: "f64 \<Rightarrow> real" where
  "f64_val x = real_of_int (f64_num x) / real_of_int (f64_den x)"

lemma two_powi: "(2::real) powi k = 2 ^ nat k / 2 ^ nat (- k)"
  by (cases "0 \<le> k") (simp_all add: power_int_def field_simps)

lemma f64_val_F64: "f64_val (F64 m k) = real_of_int m * 2 powi k"
  by (simp add: f64_val_def two_powi)

lemma f64_den_pos [simp]: "0 < f64_den x" "f64_den x \<noteq> 0"
  by (cases x, simp)+

lemma bit_len_bounds:
  assumes "0 < n"
  shows "2 ^ bit_len n \<le> 2 * n" "n < 2 ^ bit_len n"
proof -
  have "2 ^ bit_len n \<le> 2 * n \<and> n < 2 ^ bit_len n" using assms
  proof (induction n rule: bit_len.induct)
    case (1 n)
    show ?case
    proof (cases "n = 1")
      case False
      then have "0 < n div 2" using 1(2) by linarith
      then have "2 ^ bit_len (n div 2) \<le> 2 * (n div 2)" "n div 2 < 2 ^ bit_len (n div 2)" using 1 by auto
      then show ?thesis using 1(2) by (subst (1 2) bit_len.simps) (simp, linarith)
    qed (simp add: bit_len.simps)
  qed
  then show "2 ^ bit_len n \<le> 2 * n" "n < 2 ^ bit_len n" by auto
qed

lemma half_even_close:
  assumes "0 < d"
  shows "\<bar>real_of_int (half_even n d) - real_of_int n / real_of_int d\<bar> \<le> 1 / 2"
proof -
  define q r where "q = n div d" and "r = n mod d"
  have n: "n = q * d + r" "0 \<le> r" "r < d" using assms by (simp_all add: q_def r_def)
  have "half_even n d = q \<and> 2 * r \<le> d \<or> half_even n d = q + 1 \<and> d \<le> 2 * r"
    by (auto simp: half_even_def Let_def q_def [symmetric] r_def [symmetric])
  then have "\<bar>2 * half_even n d * d - 2 * n\<bar> \<le> d"
    using n by (auto simp: distrib_right abs_le_iff)
  then have "real_of_int \<bar>2 * half_even n d * d - 2 * n\<bar> \<le> real_of_int d" by (simp only: of_int_le_iff)
  then have e: "\<bar>2 * real_of_int (half_even n d) * real_of_int d - 2 * real_of_int n\<bar> \<le> real_of_int d" by simp
  have "real_of_int (half_even n d) - real_of_int n / real_of_int d
      = (2 * real_of_int (half_even n d) * real_of_int d - 2 * real_of_int n) / (2 * real_of_int d)"
    using assms by (simp add: field_simps)
  then show ?thesis using e assms by (simp add: abs_divide divide_le_eq)
qed

text \<open>Rounding a positive fraction: a significand of 53 bits, and an error of at most half a unit of its last bit.\<close>

lemma scaled_error:
  assumes "0 < b" "x = real_of_int a / real_of_int b * p" "0 < p"
  shows "\<bar>real_of_int (half_even a b) * p - x\<bar> \<le> p / 2"
proof -
  have "\<bar>real_of_int (half_even a b) * p - x\<bar> = \<bar>real_of_int (half_even a b) - real_of_int a / real_of_int b\<bar> * p"
    using assms(3) unfolding assms(2) left_diff_distrib [symmetric] abs_mult by simp
  also have "\<dots> \<le> 1 / 2 * p" using half_even_close [OF assms(1), of a] assms(3) by (intro mult_right_mono) simp_all
  finally show ?thesis by simp
qed

lemma bit_len_quotient:
  assumes "0 < n" "0 < d" "k = int (bit_len n) - int (bit_len d) - 53"
  shows "2 ^ 52 * 2 powi k \<le> real_of_int n / real_of_int d" "real_of_int n / real_of_int d < 2 ^ 54 * 2 powi k"
proof -
  have "real_of_int (2 ^ bit_len i) \<le> real_of_int (2 * i)" "real_of_int i < real_of_int (2 ^ bit_len i)" if "0 < i" for i
    using bit_len_bounds [OF that] by (simp_all only: of_int_le_iff of_int_less_iff)
  then have len: "2 ^ bit_len i \<le> 2 * real_of_int i" "real_of_int i < 2 ^ bit_len i" if "0 < i" for i using that by simp_all
  have p: "(2::real) powi k = 2 ^ bit_len n / 2 ^ bit_len d / 2 ^ 53"
    by (simp add: assms(3) power_int_diff)
  have "2 ^ bit_len n / 2 / 2 ^ bit_len d \<le> real_of_int n / real_of_int d"
    using len [OF assms(1)] len [OF assms(2)] assms(1,2) by (intro frac_le) simp_all
  then show "2 ^ 52 * 2 powi k \<le> real_of_int n / real_of_int d" by (simp add: p field_simps)
  have "real_of_int n / real_of_int d < 2 ^ bit_len n / (2 ^ bit_len d / 2)"
    using len [OF assms(1)] len [OF assms(2)] assms(1,2) by (intro frac_less) simp_all
  then show "real_of_int n / real_of_int d < 2 ^ 54 * 2 powi k" by (simp add: p field_simps)
qed

lemma f64_frac_spec:
  assumes "0 < n" "0 < d"
  obtains m k where "f64_frac n d = F64 m k"
    "2 ^ 52 * 2 powi k \<le> real_of_int n / real_of_int d" "real_of_int n / real_of_int d < 2 ^ 53 * 2 powi k"
    "\<bar>real_of_int m * 2 powi k - real_of_int n / real_of_int d\<bar> \<le> 2 powi k / 2"
proof -
  define k where "k = int (bit_len n) - int (bit_len d) - 53"
  define a b where "a = n * 2 ^ nat (- k)" and "b = d * 2 ^ nat k"
  have b: "0 < b" using assms by (simp add: b_def)
  have x: "real_of_int n / real_of_int d = real_of_int a / real_of_int b * 2 powi k"
    using assms by (simp add: a_def b_def two_powi)
  have frac: "f64_frac n d = (if a \<ge> 2 ^ 53 * b then F64 (half_even a (2 * b)) (k + 1) else F64 (half_even a b) k)"
    using assms by (simp add: f64_frac_def Let_def k_def a_def b_def)
  have "(a \<ge> 2 ^ 53 * b) = (real_of_int a / real_of_int b \<ge> 2 ^ 53)"
    using b of_int_le_iff [where 'a = real, of "2 ^ 53 * b" a] by (simp add: le_divide_eq)
  then have split: "(a \<ge> 2 ^ 53 * b) = (real_of_int n / real_of_int d \<ge> 2 ^ 53 * 2 powi k)"
    unfolding x by (simp only: mult_le_cancel_right_pos zero_less_power_int zero_less_numeral)
  note bounds = bit_len_quotient [OF assms k_def]
  show thesis
  proof (cases "a \<ge> 2 ^ 53 * b")
    case True
    then show thesis
      using that [of "half_even a (2 * b)" "k + 1"] frac split bounds
        scaled_error [of "2 * b" "real_of_int n / real_of_int d" a "2 powi (k + 1)"] b
      by (simp add: x power_int_add)
  next
    case False
    then show thesis
      using that [of "half_even a b" k] frac split bounds
        scaled_error [of b "real_of_int n / real_of_int d" a "2 powi k"] b
      by (simp add: x)
  qed
qed

lemma f64_frac_val:
  assumes "0 < d" "0 \<le> n"
  shows "\<bar>f64_val (f64_frac n d) - real_of_int n / real_of_int d\<bar> \<le> real_of_int n / real_of_int d / 2 ^ 53"
proof (cases "n = 0")
  case False
  then have "0 < n" using assms by simp
  from f64_frac_spec [OF this assms(1)] obtain m k where "f64_frac n d = F64 m k"
    "2 ^ 52 * 2 powi k \<le> real_of_int n / real_of_int d"
    "\<bar>real_of_int m * 2 powi k - real_of_int n / real_of_int d\<bar> \<le> 2 powi k / 2" by metis
  then show ?thesis by (simp add: f64_val_F64)
qed (simp add: f64_frac_def f64_val_F64)

lemma f64_frac_neg: "n < 0 \<Longrightarrow> f64_val (f64_frac n d) = - f64_val (f64_frac (- n) d)"
  by (simp add: f64_frac_def Let_def f64_val_F64 sgn_if)

lemma f64_frac_abs:
  assumes "0 < d"
  shows "\<bar>f64_val (f64_frac n d)\<bar> \<le> \<bar>real_of_int n / real_of_int d\<bar> * (1 + 1 / 2 ^ 53)"
proof -
  have pos: "\<bar>f64_val (f64_frac i d)\<bar> \<le> \<bar>real_of_int i / real_of_int d\<bar> * (1 + 1 / 2 ^ 53)" if "0 \<le> i" for i
  proof -
    define x where "x = real_of_int i / real_of_int d"
    have x: "0 \<le> x" and e: "\<bar>f64_val (f64_frac i d) - x\<bar> \<le> x / 2 ^ 53"
      using assms that f64_frac_val [OF assms that] by (simp_all add: x_def)
    have "\<bar>f64_val (f64_frac i d)\<bar> \<le> \<bar>f64_val (f64_frac i d) - x\<bar> + x" using x by linarith
    also have "\<dots> \<le> x / 2 ^ 53 + x" using e by simp
    also have "\<dots> = \<bar>x\<bar> * (1 + 1 / 2 ^ 53)" using x by (simp add: distrib_left)
    finally show ?thesis by (simp only: x_def)
  qed
  show ?thesis
  proof (cases "0 \<le> n")
    case False
    then have "\<bar>f64_val (f64_frac n d)\<bar> = \<bar>f64_val (f64_frac (- n) d)\<bar>" by (subst f64_frac_neg) simp_all
    also have "\<dots> \<le> \<bar>real_of_int (- n) / real_of_int d\<bar> * (1 + 1 / 2 ^ 53)" using False by (intro pos) simp
    finally show ?thesis by simp
  qed (rule pos)
qed

text \<open>Integers below \<open>2 ^ 53\<close> are represented exactly.\<close>

lemma f64_of_int_exact:
  assumes "0 \<le> n" "n < 2 ^ 53"
  shows "f64_val (f64_of_int n) = real_of_int n"
proof (cases "n = 0")
  case False
  then have "0 < n" using assms by simp
  from f64_frac_spec [OF this zero_less_one] obtain m k where f: "f64_frac n 1 = F64 m k"
    and lo: "2 ^ 52 * 2 powi k \<le> real_of_int n" and e: "\<bar>real_of_int m * 2 powi k - real_of_int n\<bar> \<le> 2 powi k / 2"
    by (metis div_by_1 of_int_1)
  have "real_of_int n < real_of_int (2 ^ 53)" using assms(2) by (simp only: of_int_less_iff)
  then have "(2::real) powi k < 2 powi 1" using lo by simp
  moreover have "2 powi 1 \<le> (2::real) powi k" if "1 \<le> k" using that by (intro power_int_increasing) simp_all
  ultimately have k: "k \<le> 0" by (cases "1 \<le> k") simp_all
  define N where "N = n * 2 ^ nat (- k)"
  have N: "real_of_int n = real_of_int N * 2 powi k" using k by (simp add: N_def two_powi)
  have "\<bar>real_of_int (m - N)\<bar> * 2 powi k = \<bar>real_of_int m * 2 powi k - real_of_int N * 2 powi k\<bar>"
    unfolding left_diff_distrib [symmetric] abs_mult by simp
  then have "\<bar>real_of_int (m - N)\<bar> * 2 powi k \<le> 1 / 2 * 2 powi k" using e N by simp
  then have "\<bar>real_of_int (m - N)\<bar> \<le> 1 / 2" by (simp only: mult_le_cancel_right_pos zero_less_power_int zero_less_numeral)
  then have "m = N" by linarith
  then show ?thesis by (simp add: f64_of_int_def f f64_val_F64 N)
qed (simp add: f64_of_int_def f64_frac_def f64_val_F64)

lemma f64_zero:
  "f64_of_int 0 = F64 0 0" "f64_div (F64 0 0) y = F64 0 0" "f64_mul x (F64 0 0) = F64 0 0" "f64_sub (F64 0 0) (F64 0 0) = F64 0 0"
  by (simp_all add: f64_of_int_def f64_div_def f64_mul_def f64_sub_def f64_frac_def)

lemma bit_len_eqI: "2 ^ k \<le> 2 * n \<Longrightarrow> n < 2 ^ k \<Longrightarrow> bit_len n = k"
proof (rule ccontr)
  assume n: "2 ^ k \<le> 2 * n" "n < 2 ^ k" "bit_len n \<noteq> k"
  then have "0 < n" by (smt (verit) zero_less_power)
  note b = bit_len_bounds [OF this]
  have step: "2 * (2::int) ^ i \<le> 2 ^ j" if "i < j" for i j :: nat
    using power_increasing [of "Suc i" j "2::int"] that by simp
  from n(3) consider "bit_len n < k" | "k < bit_len n" by linarith
  then show False
  proof cases
    case 1
    then show ?thesis using step [OF 1] n(1) b(2) by linarith
  next
    case 2
    then show ?thesis using step [OF 2] n(2) b(1) by linarith
  qed
qed

end
