(* ===== verification/Storage_Monitor.thy ===== *)
theory Storage_Monitor
  imports Storage_Optimizer Rust_Float
begin

text \<open>
  \<^verbatim>\<open>contracts/leaseflow_contracts/src/storage_metrics.rs\<close>: figures and reports computed from the statistics of the
  optimizer and the metrics of the clean-up. The sizes are \<^verbatim>\<open>u64\<close>, so a subtraction below zero panics. A
  report calls \<^verbatim>\<open>estimate_optimization_savings\<close>, which is defined nowhere and is read as
  \<^verbatim>\<open>calculate_optimization_savings\<close>; the saving of a recommendation is a \<^verbatim>\<open>u64\<close> where its field is a \<^verbatim>\<open>u32\<close>, and is kept.
\<close>

section \<open>Reports\<close>

record efficiency_metrics =
  em_timestamp :: int
  em_compression_ratio :: int
  em_space_savings_percentage :: int
  em_optimization_rate :: int
  em_storage_health_score :: int
  em_rent_cost_efficiency :: int

record cost_projection =
  cp_current_monthly_cost :: int
  cp_projected_monthly_after_optimization :: int
  cp_annual_savings_potential :: int
  cp_payback_period_months :: int

record cost_analysis =
  ca_timestamp :: int
  ca_current_monthly_cost :: int
  ca_projected_annual_cost :: int
  ca_savings_from_optimization :: int
  ca_cost_per_lease :: int
  ca_rent_cost_breakdown :: "(string \<times> int) list"
  ca_optimization_roi :: int

record health_indicators =
  hi_timestamp :: int
  hi_overall_health_score :: int
  hi_bloat_level :: int
  hi_fragmentation_score :: int
  hi_optimization_needed :: bool
  hi_risk_factors :: "string list"
  hi_performance_impact :: int

datatype recommendation_priority = PriorityLow | PriorityMedium | PriorityHigh | PriorityCritical
datatype recommendation_category = Pruning | Optimization | Monitoring | CostReduction
datatype implementation_effort = EffortLow | EffortMedium | EffortHigh

record recommendation =
  rc_priority :: recommendation_priority
  rc_category :: recommendation_category
  rc_title :: string
  rc_description :: string
  rc_action_items :: "string list"
  rc_estimated_savings :: int
  rc_implementation_effort :: implementation_effort

record performance_report =
  pf_period_start :: int
  pf_period_end :: int
  pf_leases_pruned :: int
  pf_bytes_recovered :: int
  pf_cost_savings :: int
  pf_efficiency_improvement :: int
  pf_error_rate :: int

record analysis_report =
  ar_timestamp :: int
  ar_metrics :: storage_metrics
  ar_statistics :: storage_statistics
  ar_efficiency :: efficiency_metrics
  ar_cost_projection :: cost_projection
  ar_recommendations :: "recommendation list"

record data_point =
  dp_timestamp :: int
  dp_total_bytes :: int
  dp_lease_instances :: int
  dp_tombstones :: int
  dp_cost :: int

record trend_analysis =
  ta_start_time :: int
  ta_end_time :: int
  ta_data_points :: "data_point list"
  ta_growth_rate :: f64
  ta_optimization_velocity :: f64
  ta_cost_trend :: f64

section \<open>Figures\<close>

definition calculate_compression_ratio :: "storage_statistics \<Rightarrow> int optimizer" where
  "calculate_compression_ratio x =
     (if st_lease_instances x > 0 then
        bind (chk_u64 (st_lease_instances x * 512)) (\<lambda>a. bind (chk_u64 (st_tombstones x * 128)) (\<lambda>b.
        bind (chk_u64 (a - b)) (\<lambda>d. bind (chk_u64 (d * 100)) (\<lambda>p. return (as_u32 (p div a))))))
      else return 0)"

definition calculate_space_savings :: "storage_statistics \<Rightarrow> int optimizer" where
  "calculate_space_savings x =
     (if st_total_bytes x > 0 then
        bind (chk_u64 (st_tombstones x * 128)) (\<lambda>b. bind (chk_u64 (st_total_bytes x - b)) (\<lambda>d.
        bind (chk_u64 (d * 100)) (\<lambda>p. return (as_u32 (p div st_total_bytes x)))))
      else return 0)"

definition calculate_optimization_rate :: "storage_metrics \<Rightarrow> int optimizer" where
  "calculate_optimization_rate m =
     (if sm_total_leases_pruned m > 0 then
        bind (chk_u64 (sm_total_bytes_recovered m * 100)) (\<lambda>p. bind (chk_u64 (sm_total_leases_pruned m * 512)) (\<lambda>q.
        return (as_u32 (p div q))))
      else return 0)"

definition calculate_storage_health_score :: "storage_statistics \<Rightarrow> int optimizer" where
  "calculate_storage_health_score x =
     (let score = (if st_total_bytes x > 1000000 then 80 else if st_total_bytes x > 500000 then 90 else 100) in
      bind (if st_lease_instances x > 0
            then bind (chk_u64 (st_tombstones x * 100)) (\<lambda>p. return (p div st_lease_instances x)) else return 0) (\<lambda>optimization_ratio.
      return (max (if optimization_ratio < 20 then score - 30 else if optimization_ratio < 50 then score - 15 else score) 0)))"

definition calculate_rent_cost_efficiency :: "storage_statistics \<Rightarrow> int" where
  "calculate_rent_cost_efficiency x =
     (let total_cost = st_total_bytes x div 1024 in
      if total_cost < 1000 then 100 else if total_cost < 5000 then 80 else if total_cost < 10000 then 60 else 40)"

definition estimate_monthly_cost :: "storage_statistics \<Rightarrow> int" where
  "estimate_monthly_cost x = st_total_bytes x"

definition estimate_annual_cost :: "storage_statistics \<Rightarrow> int optimizer" where
  "estimate_annual_cost x = chk_u64 (estimate_monthly_cost x * 12)"

definition calculate_optimization_savings :: "storage_metrics \<Rightarrow> int" where
  "calculate_optimization_savings m = as_u32 (sm_total_bytes_recovered m) div 100"

definition calculate_cost_per_lease :: "storage_statistics \<Rightarrow> int" where
  "calculate_cost_per_lease x = (if st_lease_instances x > 0 then st_total_bytes x div st_lease_instances x else 0)"

definition get_rent_cost_breakdown :: "storage_statistics \<Rightarrow> (string \<times> int) list optimizer" where
  "get_rent_cost_breakdown x =
     bind (chk_u64 (st_lease_instances x * 512)) (\<lambda>a. bind (chk_u64 (st_tombstones x * 128)) (\<lambda>b.
     bind (chk_u64 (st_legal_holds x * 128)) (\<lambda>c. bind (chk_u64 (st_receipts x * 96)) (\<lambda>d.
     bind (chk_u64 (st_usage_rights x * 128)) (\<lambda>e.
     return [(''lease_instances'', a), (''tombstones'', b), (''legal_holds'', c), (''receipts'', d), (''usage_rights'', e)])))))"

definition calculate_optimization_roi :: "storage_metrics \<Rightarrow> int optimizer" where
  "calculate_optimization_roi m =
     (if sm_total_bytes_recovered m > 0 then
        bind (chk_u64 (sm_total_bytes_recovered m * 100)) (\<lambda>p. bind (chk_u64 (sm_total_bytes_recovered m + 10000)) (\<lambda>q.
        return (as_u32 (p div q))))
      else return 0)"

definition calculate_bloat_level :: "storage_statistics \<Rightarrow> int optimizer" where
  "calculate_bloat_level x =
     bind (if st_lease_instances x > 0 then
         bind (chk_u64 (st_lease_instances x - st_tombstones x)) (\<lambda>d. bind (chk_u64 (d * 100)) (\<lambda>p.
         return (p div st_lease_instances x)))
       else return 100) (\<lambda>active_ratio.
     return (if active_ratio > 80 then 0 else if active_ratio > 60 then 25 else 50))"

definition calculate_fragmentation_score :: int where
  "calculate_fragmentation_score = 10"

definition is_optimization_needed :: "storage_statistics \<Rightarrow> bool" where
  "is_optimization_needed x \<longleftrightarrow> st_lease_instances x > 100 \<and> st_tombstones x < st_lease_instances x div 2"

definition identify_risk_factors :: "storage_statistics \<Rightarrow> string list optimizer" where
  "identify_risk_factors x =
     bind (chk_u64 (st_tombstones x * 3)) (\<lambda>t.
     return ((if st_total_bytes x > 1000000 then [''High storage usage''] else [])
       @ (if st_legal_holds x > 10 then [''Multiple legal holds blocking optimization''] else [])
       @ (if st_lease_instances x > t then [''Low pruning efficiency''] else [])))"

definition assess_performance_impact :: "storage_statistics \<Rightarrow> int" where
  "assess_performance_impact x =
     (if st_total_bytes x > 2000000 then 80 else if st_total_bytes x > 1000000 then 50 else 20)"

definition estimate_pruning_savings :: "storage_statistics \<Rightarrow> int optimizer" where
  "estimate_pruning_savings x =
     bind (chk_u64 (st_lease_instances x - st_tombstones x)) (\<lambda>n. chk_u32 (as_u32 n * (512 - 128)))"

definition calculate_period_cost_savings :: int where "calculate_period_cost_savings = 1000"
definition calculate_efficiency_improvement :: int where "calculate_efficiency_improvement = 25"
definition calculate_error_rate :: int where "calculate_error_rate = 1"

section \<open>Analyses\<close>

abbreviation metrics_now :: "optimizer_state \<Rightarrow> storage_metrics" where
  "metrics_now s \<equiv> get_storage_metrics (os_cleanup s)"

definition get_efficiency_metrics :: "env \<Rightarrow> efficiency_metrics optimizer" where
  "get_efficiency_metrics env =
     (let stats = get_storage_statistics in
      bind (gets metrics_now) (\<lambda>m.
      bind (calculate_compression_ratio stats) (\<lambda>c.
      bind (calculate_space_savings stats) (\<lambda>p.
      bind (calculate_optimization_rate m) (\<lambda>r.
      bind (calculate_storage_health_score stats) (\<lambda>h.
      return \<lparr>em_timestamp = ledger_timestamp env, em_compression_ratio = c, em_space_savings_percentage = p,
        em_optimization_rate = r, em_storage_health_score = h,
        em_rent_cost_efficiency = calculate_rent_cost_efficiency stats\<rparr>))))))"

definition calculate_cost_projection :: "storage_statistics \<Rightarrow> storage_metrics \<Rightarrow> cost_projection optimizer" where
  "calculate_cost_projection stats m =
     (let current_monthly = estimate_monthly_cost stats; savings = calculate_optimization_savings m in
      bind (chk_u64 (savings * 12)) (\<lambda>annual.
      return \<lparr>cp_current_monthly_cost = current_monthly,
        cp_projected_monthly_after_optimization = sat_u64 (current_monthly - savings),
        cp_annual_savings_potential = annual,
        cp_payback_period_months = if savings > 0 then 1000 div savings else u64_max\<rparr>))"

definition get_cost_analysis :: "env \<Rightarrow> cost_analysis optimizer" where
  "get_cost_analysis env =
     (let stats = get_storage_statistics in
      bind (gets metrics_now) (\<lambda>m.
      bind (estimate_annual_cost stats) (\<lambda>annual.
      bind (get_rent_cost_breakdown stats) (\<lambda>breakdown.
      bind (calculate_optimization_roi m) (\<lambda>roi.
      return \<lparr>ca_timestamp = ledger_timestamp env, ca_current_monthly_cost = estimate_monthly_cost stats,
        ca_projected_annual_cost = annual, ca_savings_from_optimization = calculate_optimization_savings m,
        ca_cost_per_lease = calculate_cost_per_lease stats, ca_rent_cost_breakdown = breakdown,
        ca_optimization_roi = roi\<rparr>)))))"

definition get_health_indicators :: "env \<Rightarrow> health_indicators optimizer" where
  "get_health_indicators env =
     (let stats = get_storage_statistics in
      bind (calculate_storage_health_score stats) (\<lambda>h.
      bind (calculate_bloat_level stats) (\<lambda>b.
      bind (identify_risk_factors stats) (\<lambda>risks.
      return \<lparr>hi_timestamp = ledger_timestamp env, hi_overall_health_score = h, hi_bloat_level = b,
        hi_fragmentation_score = calculate_fragmentation_score, hi_optimization_needed = is_optimization_needed stats,
        hi_risk_factors = risks, hi_performance_impact = assess_performance_impact stats\<rparr>))))"

definition generate_optimization_recommendations :: "storage_statistics \<Rightarrow> storage_metrics \<Rightarrow> recommendation list optimizer" where
  "generate_optimization_recommendations stats m =
     bind (if st_lease_instances stats > 1000 then
         bind (estimate_pruning_savings stats) (\<lambda>n. return [\<lparr>rc_priority = PriorityHigh, rc_category = Pruning,
           rc_title = ''High Volume of Active Leases'',
           rc_description = ''Consider pruning old terminated leases to reduce storage costs'',
           rc_action_items = [''Review leases older than 60 days'', ''Set up automated pruning schedule'',
             ''Monitor pruning effectiveness''],
           rc_estimated_savings = n, rc_implementation_effort = EffortMedium\<rparr>])
       else return []) (\<lambda>a.
     bind (if st_tombstones stats > st_lease_instances stats div 2 then
         bind (chk_u64 (st_tombstones stats * 64)) (\<lambda>n. return [\<lparr>rc_priority = PriorityMedium, rc_category = Optimization,
           rc_title = ''High Tombstone Ratio'',
           rc_description = ''Consider further optimization of tombstone storage'',
           rc_action_items = [''Analyze tombstone efficiency'', ''Consider tombstone compression'',
             ''Evaluate off-chain storage options''],
           rc_estimated_savings = n, rc_implementation_effort = EffortLow\<rparr>])
       else return []) (\<lambda>b.
     return (a @ b @ (if sm_total_bytes_recovered m < 10000 then [\<lparr>rc_priority = PriorityLow, rc_category = Monitoring,
           rc_title = ''Low Storage Recovery'', rc_description = ''Storage optimization is underperforming'',
           rc_action_items = [''Review pruning criteria'', ''Check for legal holds blocking pruning'',
             ''Optimize pruning schedule''],
           rc_estimated_savings = 5000, rc_implementation_effort = EffortLow\<rparr>] else []))))"

text \<open>The recommendations of a report are made in a new environment, where nothing is stored.\<close>

definition generate_recommendations :: "recommendation list optimizer" where
  "generate_recommendations =
     generate_optimization_recommendations get_storage_statistics (get_storage_metrics cleanup_init)"

definition get_storage_analysis :: "env \<Rightarrow> analysis_report optimizer" where
  "get_storage_analysis env =
     bind (gets metrics_now) (\<lambda>m.
     bind (get_efficiency_metrics env) (\<lambda>e.
     bind (calculate_cost_projection get_storage_statistics m) (\<lambda>p.
     bind generate_recommendations (\<lambda>rs.
     return \<lparr>ar_timestamp = ledger_timestamp env, ar_metrics = m, ar_statistics = get_storage_statistics,
       ar_efficiency = e, ar_cost_projection = p, ar_recommendations = rs\<rparr>))))"

definition track_optimization_performance :: "env \<Rightarrow> int \<Rightarrow> performance_report optimizer" where
  "track_optimization_performance env period_days =
     bind (chk_u64 (ledger_timestamp env - period_days * 24 * 60 * 60)) (\<lambda>start_time.
     bind (gets metrics_now) (\<lambda>m.
     return \<lparr>pf_period_start = start_time, pf_period_end = ledger_timestamp env,
       pf_leases_pruned = sm_total_leases_pruned m, pf_bytes_recovered = sm_total_bytes_recovered m,
       pf_cost_savings = calculate_period_cost_savings, pf_efficiency_improvement = calculate_efficiency_improvement,
       pf_error_rate = calculate_error_rate\<rparr>))"

section \<open>Trends\<close>

text \<open>No data point is ever recorded; the source keeps a placeholder.\<close>

definition get_historical_data_point :: "env \<Rightarrow> int \<Rightarrow> data_point option" where
  "get_historical_data_point env timestamp = None"

definition calculate_growth_rate :: "data_point list \<Rightarrow> f64 optimizer" where
  "calculate_growth_rate points =
     (if length points < 2 then return (F64 0 0) else
      let first_point = hd points; last_point = last points in
      bind (chk_u64 (dp_timestamp last_point - dp_timestamp first_point)) (\<lambda>time_diff.
      if time_diff = 0 then return (F64 0 0) else
      let storage_diff = f64_sub (f64_of_int (dp_total_bytes last_point)) (f64_of_int (dp_total_bytes first_point)) in
      return (f64_div storage_diff (f64_of_int time_diff))))"

definition calculate_optimization_velocity :: "data_point list \<Rightarrow> f64" where
  "calculate_optimization_velocity points = F64 0 0"

definition calculate_cost_trend :: "data_point list \<Rightarrow> f64" where
  "calculate_cost_trend points = F64 0 0"

definition get_storage_trends :: "env \<Rightarrow> int \<Rightarrow> trend_analysis optimizer" where
  "get_storage_trends env days_back =
     bind (chk_u64 (ledger_timestamp env - days_back * 24 * 60 * 60)) (\<lambda>start_time.
     let points = List.map_filter (\<lambda>day. get_historical_data_point env (start_time + day * 24 * 60 * 60)) [0..days_back - 1] in
     bind (calculate_growth_rate points) (\<lambda>g.
     return \<lparr>ta_start_time = start_time, ta_end_time = ledger_timestamp env, ta_data_points = points, ta_growth_rate = g,
       ta_optimization_velocity = calculate_optimization_velocity points, ta_cost_trend = calculate_cost_trend points\<rparr>))"

section \<open>Properties\<close>

text \<open>Trends: for any period the ledger has lived through no points are found and all rates are zero; for a longer one the call panics.\<close>

lemma trends_are_flat:
  assumes "is_u64 (ledger_timestamp env)" "0 \<le> d"
  shows "get_storage_trends env d s = (if 86400 * d \<le> ledger_timestamp env
    then Ok \<lparr>ta_start_time = ledger_timestamp env - 86400 * d, ta_end_time = ledger_timestamp env, ta_data_points = [],
      ta_growth_rate = F64 0 0, ta_optimization_velocity = F64 0 0, ta_cost_trend = F64 0 0\<rparr> else Trap, s)"
proof -
  have none: "List.map_filter (\<lambda>x. None) xs = []" for xs :: "int list" by (simp add: List.map_filter_def)
  have "is_u64 (ledger_timestamp env - 86400 * d) \<longleftrightarrow> 86400 * d \<le> ledger_timestamp env"
    using assms by (auto simp: is_u64_def)
  then show ?thesis
    by (simp add: get_storage_trends_def get_historical_data_point_def none calculate_growth_rate_def
      calculate_optimization_velocity_def calculate_cost_trend_def bind_run chk_w_run proc_run Let_def)
qed


text \<open>The figures of statistics that add up: a percentage is one, and the score stays within its bounds.\<close>

lemma compression_ratio_percentage:
  assumes "0 < st_lease_instances x" "0 \<le> st_tombstones x" "st_tombstones x * 128 \<le> st_lease_instances x * 512"
    "is_u64 (st_lease_instances x * 51200)"
  shows "\<exists>r. calculate_compression_ratio x s = (Ok r, s) \<and> 0 \<le> r \<and> r \<le> 100"
proof -
  let ?a = "st_lease_instances x * 512" and ?b = "st_tombstones x * 128"
  have fits: "is_u64 ?a" "is_u64 ?b" "is_u64 (?a - ?b)" "is_u64 ((?a - ?b) * 100)"
    using assms by (auto simp: is_u64_def)
  have q: "0 \<le> (?a - ?b) * 100 div ?a" "(?a - ?b) * 100 div ?a \<le> 100"
  proof -
    show "0 \<le> (?a - ?b) * 100 div ?a" using assms by (intro div_int_pos_iff [THEN iffD2]) auto
    have "(?a - ?b) * 100 div ?a \<le> (?a * 100) div ?a" using assms by (intro zdiv_mono1) auto
    then show "(?a - ?b) * 100 div ?a \<le> 100" using assms(1) by simp
  qed
  then have "as_u32 ((?a - ?b) * 100 div ?a) = (?a - ?b) * 100 div ?a"
    by (intro as_u32_id) (auto simp: is_u32_def u32_max_def)
  then show ?thesis using assms(1) fits q by (simp add: calculate_compression_ratio_def proc_run chk_w_run)
qed

text \<open>The monitor is blind. Since nothing is counted, every report on the storage is the same in every state: the
  health score is 70 although no storage is in use, optimization is never needed, no risk is ever found, and each analysis
  recommends to look into a low recovery, however much was recovered. Only the metrics of the clean-up show through.\<close>
lemma statistics_blank [simp]: "get_storage_statistics = new_statistics"
  by (simp add: get_storage_statistics_def count_storage_type_def new_statistics_def)

lemma blank_figures [simp]:
  "calculate_storage_health_score new_statistics = return 70" "calculate_bloat_level new_statistics = return 0"
  "identify_risk_factors new_statistics = return []" "calculate_compression_ratio new_statistics = return 0"
  "calculate_space_savings new_statistics = return 0" "is_optimization_needed new_statistics = False"
  "assess_performance_impact new_statistics = 20"
  by (auto simp: calculate_storage_health_score_def calculate_bloat_level_def identify_risk_factors_def
    calculate_compression_ratio_def calculate_space_savings_def is_optimization_needed_def assess_performance_impact_def
    new_statistics_def fun_eq_iff proc_run chk_w_run is_u64_def u64_max_def Let_def)

lemma one_recommendation:
  "\<exists>r. generate_recommendations = return [r] \<and> rc_title r = ''Low Storage Recovery''"
  by (auto simp: generate_recommendations_def generate_optimization_recommendations_def new_statistics_def
    get_storage_metrics_def cleanup_init_def fun_eq_iff proc_run)

theorem monitor_is_blind:
  "(\<exists>h. get_health_indicators env s = (Ok h, s) \<and> hi_overall_health_score h = 70 \<and> \<not> hi_optimization_needed h
      \<and> hi_risk_factors h = [] \<and> hi_performance_impact h = 20)
    \<and> (\<forall>r s'. get_storage_analysis env s = (Ok r, s') \<longrightarrow> s' = s \<and> ar_metrics r = get_storage_metrics (os_cleanup s)
        \<and> em_storage_health_score (ar_efficiency r) = 70 \<and> map rc_title (ar_recommendations r) = [''Low Storage Recovery''])"
proof -
  obtain r where r: "generate_recommendations = return [r]" "rc_title r = ''Low Storage Recovery''"
    using one_recommendation by blast
  have rate: "calculate_optimization_rate m s = (Ok n, s') \<Longrightarrow> s' = s" for m s n s'
    by (auto simp: calculate_optimization_rate_def proc_ok split: if_splits)
  have "\<exists>h. get_health_indicators env s = (Ok h, s) \<and> hi_overall_health_score h = 70 \<and> \<not> hi_optimization_needed h
      \<and> hi_risk_factors h = [] \<and> hi_performance_impact h = 20"
    by (simp add: get_health_indicators_def Let_def proc_run)
  moreover have "s' = s \<and> ar_metrics q = get_storage_metrics (os_cleanup s)
      \<and> em_storage_health_score (ar_efficiency q) = 70 \<and> map rc_title (ar_recommendations q) = [''Low Storage Recovery'']"
    if "get_storage_analysis env s = (Ok q, s')" for q s'
    using that by (auto simp: get_storage_analysis_def get_efficiency_metrics_def calculate_cost_projection_def Let_def
      r proc_ok dest!: rate)
  ultimately show ?thesis by blast
qed

end
