(* ===== verification/Division_Safety.thy ===== *)
theory Division_Safety
  imports Rust_Float
begin

text \<open>
  \<^verbatim>\<open>contracts/leaseflow_contracts/src/division_safety.rs\<close>: division with checks of its result and a record of what was
  cut off, which two of the routines measure with floating-point numbers. The errors of the checked operations of the crate, for
  which there is no conversion, are handed on as \<open>DivOverflow\<close>. A state is not rolled back when a routine fails: the
  structure is an ordinary value of its caller.
\<close>

section \<open>State\<close>

record division_safety =
  ds_cumulative_truncation_loss :: int
  ds_division_dust :: int
  ds_division_count :: int
  ds_max_truncation_loss :: int

record division_report =
  dr_cumulative_truncation_loss :: int
  dr_division_dust :: int
  dr_division_count :: int
  dr_max_truncation_loss :: int
  dr_average_truncation_loss :: int
  dr_safety_verified :: bool

datatype division_error =
    DivNegativeAmount int
  | InvalidBps int
  | DivisionByZero
  | NegativeInputs int int
  | NegativeResult int
  | ResultExceedsAmount int int
  | ExcessiveTruncationLoss int int
  | ReconstructionExceedsOriginal int int
  | MultiplicationExceedsNumerator int int int
  | InvalidRemainder int int
  | ReconstructionMismatch int int int int int
  | CeilingLessThanFloor int int
  | CeilingExceedsBound int int
  | ZeroRemainderCeilingMismatch int int
  | CeilingMultiplicationInsufficient int int int
  | DivOverflow

type_synonym 'a division = "(division_safety, division_error, 'a) proc"

definition new_division :: division_safety where
  "new_division = \<lparr>ds_cumulative_truncation_loss = 0, ds_division_dust = 0, ds_division_count = 0,
     ds_max_truncation_loss = 0\<rparr>"

definition div_add :: "int \<Rightarrow> int \<Rightarrow> int division" where
  "div_add a b = ok_or (checked_i128 (a + b)) DivOverflow"

definition div_mul :: "int \<Rightarrow> int \<Rightarrow> int division" where
  "div_mul a b = ok_or (checked_i128 (a * b)) DivOverflow"

section \<open>Checks\<close>

definition verify_division_properties :: "int \<Rightarrow> int \<Rightarrow> int \<Rightarrow> int \<Rightarrow> unit division" where
  "verify_division_properties amount bps result truncation_loss =
     bind (throw_if (result < 0) (NegativeResult result)) (\<lambda>_.
     bind (throw_if (result > amount) (ResultExceedsAmount result amount)) (\<lambda>_.
     let max_possible_loss = (if bps > 0 then bps - 1 else 0) in
     bind (throw_if (truncation_loss > max_possible_loss) (ExcessiveTruncationLoss truncation_loss max_possible_loss)) (\<lambda>_.
     bind (chk_i128 (result * 10000)) (\<lambda>x. bind (div_or_trap x bps) (\<lambda>reconstructed.
     throw_if (bps > 0 \<and> reconstructed > amount) (ReconstructionExceedsOriginal reconstructed amount))))))"

definition verify_ratio_properties :: "int \<Rightarrow> int \<Rightarrow> int \<Rightarrow> int \<Rightarrow> unit division" where
  "verify_ratio_properties numerator denominator result truncation_loss =
     bind (throw_if (result < 0) (NegativeResult result)) (\<lambda>_.
     bind (div_mul result denominator) (\<lambda>x.
     bind (throw_if (x > numerator) (MultiplicationExceedsNumerator result denominator numerator)) (\<lambda>_.
     throw_if (truncation_loss \<ge> denominator) (ExcessiveTruncationLoss truncation_loss (denominator - 1)))))"

definition verify_fixed_point_properties :: "int \<Rightarrow> int \<Rightarrow> int \<Rightarrow> int \<Rightarrow> unit division" where
  "verify_fixed_point_properties v scale result remainder =
     bind (throw_if (result < 0) (NegativeResult result)) (\<lambda>_.
     bind (throw_if (remainder \<ge> scale) (InvalidRemainder remainder scale)) (\<lambda>_.
     bind (div_mul result scale) (\<lambda>reconstructed.
     bind (div_add reconstructed remainder) (\<lambda>x.
     throw_if (x \<noteq> v) (ReconstructionMismatch v result scale remainder reconstructed)))))"

definition verify_ceiling_properties :: "int \<Rightarrow> int \<Rightarrow> int \<Rightarrow> int \<Rightarrow> int \<Rightarrow> unit division" where
  "verify_ceiling_properties numerator denominator floor_result ceiling_result remainder =
     bind (throw_if (ceiling_result < floor_result) (CeilingLessThanFloor ceiling_result floor_result)) (\<lambda>_.
     bind (div_add floor_result 1) (\<lambda>bound.
     bind (throw_if (ceiling_result > bound) (CeilingExceedsBound ceiling_result floor_result)) (\<lambda>_.
     bind (throw_if (remainder = 0 \<and> ceiling_result \<noteq> floor_result)
       (ZeroRemainderCeilingMismatch ceiling_result floor_result)) (\<lambda>_.
     bind (div_mul ceiling_result denominator) (\<lambda>x.
     throw_if (x < numerator) (CeilingMultiplicationInsufficient ceiling_result denominator numerator))))))"

section \<open>Divisions\<close>

definition track_remainder :: "int \<Rightarrow> unit division" where
  "track_remainder remainder =
     bind (gets ds_division_dust) (\<lambda>d. bind (div_add d remainder) (\<lambda>d.
     bind (gets ds_division_count) (\<lambda>n. bind (modify (\<lambda>s. s\<lparr>ds_division_dust := d\<rparr>)) (\<lambda>_.
     bind (chk_u64 (n + 1)) (\<lambda>n. modify (\<lambda>s. s\<lparr>ds_division_count := n\<rparr>))))))"

definition track_loss :: "int \<Rightarrow> unit division" where
  "track_loss loss =
     bind (gets ds_cumulative_truncation_loss) (\<lambda>c. bind (div_add c loss) (\<lambda>c.
     bind (modify (\<lambda>s. s\<lparr>ds_cumulative_truncation_loss := c\<rparr>)) (\<lambda>_.
     bind (gets ds_division_dust) (\<lambda>d. bind (div_add d loss) (\<lambda>d.
     bind (modify (\<lambda>s. s\<lparr>ds_division_dust := d\<rparr>)) (\<lambda>_.
     bind (gets ds_division_count) (\<lambda>n. bind (chk_u64 (n + 1)) (\<lambda>n.
     modify (\<lambda>s. s\<lparr>ds_division_count := n, ds_max_truncation_loss := max (ds_max_truncation_loss s) loss\<rparr>)))))))))"

definition verify_bps_division_safety :: "int \<Rightarrow> int \<Rightarrow> int division" where
  "verify_bps_division_safety amount bps =
     bind (throw_if (amount < 0) (DivNegativeAmount amount)) (\<lambda>_.
     bind (throw_if (bps > 10000) (InvalidBps bps)) (\<lambda>_.
     bind (chk_i128 (amount * bps)) (\<lambda>x.
     let result = tdiv x 10000;
         exact_result = f64_mul (f64_of_int amount) (f64_div (f64_of_int bps) (f64_of_int 10000));
         truncation_loss = f64_to_i128 (f64_sub exact_result (f64_of_int result)) in
     bind (verify_division_properties amount bps result truncation_loss) (\<lambda>_.
     bind (track_loss truncation_loss) (\<lambda>_. return result)))))"

definition ratio_loss :: "int \<Rightarrow> int \<Rightarrow> int" where
  "ratio_loss n d = f64_to_i128 (f64_sub (f64_div (f64_of_int n) (f64_of_int d)) (f64_of_int (tdiv n d)))"

definition verify_ratio_division_safety :: "int \<Rightarrow> int \<Rightarrow> int division" where
  "verify_ratio_division_safety numerator denominator =
     bind (throw_if (denominator = 0) DivisionByZero) (\<lambda>_.
     bind (throw_if (numerator < 0 \<or> denominator < 0) (NegativeInputs numerator denominator)) (\<lambda>_.
     let result = tdiv numerator denominator; truncation_loss = ratio_loss numerator denominator in
     bind (verify_ratio_properties numerator denominator result truncation_loss) (\<lambda>_.
     bind (track_loss truncation_loss) (\<lambda>_. return result))))"

definition verify_fixed_point_division_safety :: "int \<Rightarrow> int \<Rightarrow> int division" where
  "verify_fixed_point_division_safety v scale =
     bind (throw_if (scale = 0) DivisionByZero) (\<lambda>_.
     bind (throw_if (v < 0 \<or> scale < 0) (NegativeInputs v scale)) (\<lambda>_.
     let result = tdiv v scale; remainder = tmod v scale in
     bind (verify_fixed_point_properties v scale result remainder) (\<lambda>_.
     bind (track_remainder remainder) (\<lambda>_. return result))))"

definition verify_ceiling_division_safety :: "int \<Rightarrow> int \<Rightarrow> int division" where
  "verify_ceiling_division_safety numerator denominator =
     bind (throw_if (denominator = 0) DivisionByZero) (\<lambda>_.
     bind (throw_if (numerator < 0 \<or> denominator < 0) (NegativeInputs numerator denominator)) (\<lambda>_.
     let floor_result = tdiv numerator denominator; remainder = tmod numerator denominator in
     bind (if remainder > 0 then div_add floor_result 1 else return floor_result) (\<lambda>ceiling_result.
     bind (verify_ceiling_properties numerator denominator floor_result ceiling_result remainder) (\<lambda>_.
     bind (track_remainder remainder) (\<lambda>_. return ceiling_result)))))"

definition get_safety_report :: "division_safety \<Rightarrow> division_report" where
  "get_safety_report s = \<lparr>dr_cumulative_truncation_loss = ds_cumulative_truncation_loss s,
     dr_division_dust = ds_division_dust s, dr_division_count = ds_division_count s,
     dr_max_truncation_loss = ds_max_truncation_loss s,
     dr_average_truncation_loss = if ds_division_count s > 0
       then tdiv (ds_cumulative_truncation_loss s) (ds_division_count s) else 0,
     dr_safety_verified = (ds_cumulative_truncation_loss s \<ge> 0 \<and> ds_division_dust s \<ge> 0)\<rparr>"

definition reset_division :: "unit division" where
  "reset_division = modify (\<lambda>s. new_division)"

section \<open>The self-test\<close>

fun for_each :: "'a list \<Rightarrow> ('a \<Rightarrow> unit division) \<Rightarrow> unit division" where
  "for_each [] f = return ()"
| "for_each (x # xs) f = bind (f x) (\<lambda>_. for_each xs f)"

definition ignoring :: "int division \<Rightarrow> unit division" where
  "ignoring m = bind (attempt m) (\<lambda>_. return ())"

definition verify_all_division_safety :: "division_safety division" where
  "verify_all_division_safety =
     bind (modify (\<lambda>s. new_division)) (\<lambda>_.
     bind (for_each [1, 10, 100, 1000, 10000, 100000, 1000000, tdiv i128_max 10000] (\<lambda>amount.
       for_each [0, 1, 100, 1000, 5000, 9999, 10000] (\<lambda>bps. ignoring (verify_bps_division_safety amount bps)))) (\<lambda>_.
     bind (for_each [1, 10, 100, 1000, 10000, tdiv i128_max 1000] (\<lambda>numerator.
       for_each [1, 2, 3, 10, 100, 1000] (\<lambda>denominator. ignoring (verify_ratio_division_safety numerator denominator)))) (\<lambda>_.
     bind (for_each [1, 10, 100, 1000, 10000, 100000, tdiv i128_max 10000] (\<lambda>v.
       for_each [1, 2, 10, 100, 1000, 10000] (\<lambda>scale. ignoring (verify_fixed_point_division_safety v scale)))) (\<lambda>_.
     bind (for_each [1, 10, 100, 1000, 10000, tdiv i128_max 1000] (\<lambda>numerator.
       for_each [1, 2, 3, 10, 100, 1000] (\<lambda>denominator. ignoring (verify_ceiling_division_safety numerator denominator)))) (\<lambda>_.
     gets (\<lambda>s. s))))))"

section \<open>What they compute\<close>

lemma div_arith_Ok_iff [proc_ok]:
  "div_add a b s = (Ok c, s') \<longleftrightarrow> is_i128 (a + b) \<and> c = a + b \<and> s' = s"
  "div_mul a b s = (Ok c, s') \<longleftrightarrow> is_i128 (a * b) \<and> c = a * b \<and> s' = s"
  by (auto simp: div_add_def div_mul_def proc_ok checked_i128_def)

definition tracked :: "int \<Rightarrow> division_safety \<Rightarrow> division_safety" where
  "tracked r s = s\<lparr>ds_division_dust := ds_division_dust s + r, ds_division_count := ds_division_count s + 1\<rparr>"

definition track_fits :: "int \<Rightarrow> division_safety \<Rightarrow> bool" where
  "track_fits r s \<longleftrightarrow> is_i128 (ds_division_dust s + r) \<and> is_u64 (ds_division_count s + 1)"

lemma track_remainder_Ok_iff [proc_ok]:
  "track_remainder r s = (Ok u, s') \<longleftrightarrow> track_fits r s \<and> s' = tracked r s"
  by (auto simp: track_remainder_def track_fits_def tracked_def proc_ok)

lemma reaches_iff:
  fixes q d k m :: int
  assumes "0 \<le> m" "m < d"
  shows "q * d + m \<le> k * d \<longleftrightarrow> q + (if m = 0 then 0 else 1) \<le> k"
proof -
  consider "k + 1 \<le> q" | "k = q" | "q + 1 \<le> k" by linarith
  then show ?thesis
  proof cases
    case 1
    then have "(k + 1) * d \<le> q * d" using assms by (intro mult_right_mono) simp_all
    then show ?thesis using 1 assms unfolding distrib_right by auto
  next
    case 3
    then have "(q + 1) * d \<le> k * d" using assms by (intro mult_right_mono) simp_all
    then show ?thesis using 3 assms unfolding distrib_right by auto
  qed (use assms in auto)
qed

lemma ceiling_unique:
  fixes n d :: int
  assumes "0 < d"
  shows "n \<le> r * d \<and> (r - 1) * d < n \<longleftrightarrow> r = n div d + (if n mod d = 0 then 0 else 1)"
  using assms pos_mod_bound[OF assms, of n] reaches_iff[of "n mod d" d "n div d" r]
    reaches_iff[of "n mod d" d "n div d" "r - 1"]
  by (auto simp flip: not_le)

lemma fixed_point_iff:
  assumes "0 \<le> v" "is_i128 v" "0 < scale"
  shows "verify_fixed_point_division_safety v scale s = (Ok r, s') \<longleftrightarrow>
    r = v div scale \<and> track_fits (v mod scale) s \<and> s' = tracked (v mod scale) s"
proof -
  have r: "0 \<le> v div scale" "v mod scale < scale" "v div scale * scale + v mod scale = v" "0 \<le> v mod scale"
    using assms by (simp_all add: pos_imp_zdiv_nonneg_iff)
  then have "0 \<le> v div scale * scale" "v div scale * scale \<le> v" using assms(3) by (simp, linarith)
  then have "is_i128 (v div scale * scale)" using assms(2) by (auto simp: is_i128_def i128_min_def)
  then show ?thesis using assms r
    by (auto simp: verify_fixed_point_division_safety_def verify_fixed_point_properties_def Let_def tdiv_nonneg
      tmod_nonneg proc_ok)
qed

text \<open>Claim C35. The ceiling is the ceiling. The checked division of \<open>n\<close> by \<open>d\<close> returns \<open>r\<close> exactly when \<open>n\<close> is not
  negative, \<open>d\<close> is positive, \<open>r\<close> is the smallest integer that times \<open>d\<close> reaches \<open>n\<close>, and the successor of the floor, the
  product \<open>r * d\<close> and the books keep to their types; the books then count one more division and the remainder as dust.
  Anything else is an error or a panic.\<close>
theorem ceiling_division_exact:
  "verify_ceiling_division_safety n d s = (Ok r, s') \<longleftrightarrow>
    0 \<le> n \<and> 0 < d \<and> n \<le> r * d \<and> (r - 1) * d < n \<and> is_i128 (n div d + 1) \<and> is_i128 (r * d)
    \<and> is_i128 (ds_division_dust s + n mod d) \<and> is_u64 (ds_division_count s + 1)
    \<and> s' = s\<lparr>ds_division_dust := ds_division_dust s + n mod d, ds_division_count := ds_division_count s + 1\<rparr>"
proof (cases "0 \<le> n \<and> 0 < d")
  case True
  have c: "n \<le> n div d * d \<longleftrightarrow> n mod d = 0" "n \<le> (n div d + 1) * d"
  proof -
    have "n = n div d * d + n mod d" "0 \<le> n mod d" "n mod d < d" using True by (simp_all add: mult.commute)
    then show "n \<le> n div d * d \<longleftrightarrow> n mod d = 0" "n \<le> (n div d + 1) * d"
      unfolding distrib_right by linarith+
  qed
  have m: "0 \<le> n mod d" "\<not> n mod d > 0 \<longleftrightarrow> n mod d = 0" using True by (auto simp: order_less_le)
  have "n \<le> r * d \<and> (r - 1) * d < n \<longleftrightarrow> r = n div d + (if n mod d = 0 then 0 else 1)"
    using True ceiling_unique[of d n r] by blast
  then show ?thesis
    using True m c
    by (auto simp: verify_ceiling_division_safety_def verify_ceiling_properties_def Let_def tdiv_nonneg tmod_nonneg
      proc_ok not_less track_fits_def tracked_def)
next
  case False
  then show ?thesis by (auto simp: verify_ceiling_division_safety_def proc_ok)
qed

section \<open>What the floating-point routines find\<close>

lemma f64_quotient_val:
  assumes "f64_val a = real_of_int n" "f64_val b = real_of_int d" "0 < n" "0 < d"
  obtains i j where "f64_div a b = f64_frac i j" "0 < i" "0 < j" "real_of_int i / real_of_int j = real_of_int n / real_of_int d"
proof
  have a: "0 < f64_num a" and b: "0 < f64_num b"
    using assms by (auto simp: f64_val_def) (metis of_int_0_less_iff zero_less_divide_iff f64_den_pos(1) order_less_asym)+
  show "f64_div a b = f64_frac (f64_num a * f64_den b) (f64_den a * f64_num b)" using b by (simp add: f64_div_def)
  show "0 < f64_num a * f64_den b" "0 < f64_den a * f64_num b" using a b by simp_all
  have "real_of_int (f64_num a * f64_den b) / real_of_int (f64_den a * f64_num b) = f64_val a / f64_val b"
    by (simp add: f64_val_def)
  then show "real_of_int (f64_num a * f64_den b) / real_of_int (f64_den a * f64_num b) = real_of_int n / real_of_int d"
    by (simp add: assms)
qed

lemma f64_sub_abs: "\<bar>f64_val (f64_sub x y)\<bar> \<le> \<bar>f64_val x - f64_val y\<bar> * (1 + 1 / 2 ^ 53)"
proof -
  have "real_of_int (f64_num x * f64_den y - f64_num y * f64_den x) / real_of_int (f64_den x * f64_den y) = f64_val x - f64_val y"
    by (simp add: f64_val_def diff_divide_distrib)
  then show ?thesis unfolding f64_sub_def by (metis f64_frac_abs f64_den_pos(1) mult_pos_pos)
qed

lemma f64_to_i128_small: "\<bar>f64_val x\<bar> < 1 \<Longrightarrow> f64_to_i128 x = 0"
proof -
  assume "\<bar>f64_val x\<bar> < 1"
  then have "\<bar>real_of_int (f64_num x)\<bar> < real_of_int (f64_den x)"
    using f64_den_pos [of x] by (simp add: f64_val_def abs_divide)
  then have "\<bar>f64_num x\<bar> < f64_den x" by linarith
  then have "tdiv (f64_num x) (f64_den x) = 0" by (simp add: tdiv_def div_eq_0_iff abs_less_iff sgn_if)
  then show ?thesis by (simp add: f64_to_i128_def sat_i128_def clamp_def int_bounds i128_min_def i128_max_def)
qed

text \<open>Below \<open>2 ^ 53\<close> the measured loss is always zero: the difference to the exact quotient is less than one, and the cast cuts it off.\<close>

lemma quotient_gap:
  fixes x y :: real and n d :: int
  assumes nd: "0 < n" "n < 2 ^ 53" "0 < d" and x: "x = real_of_int n / real_of_int d"
    and y: "y = real_of_int m * 2 powi k" "2 ^ 52 * 2 powi k \<le> x" "x < 2 ^ 53 * 2 powi k" "\<bar>y - x\<bar> \<le> 2 powi k / 2"
  shows "\<bar>y - real_of_int (n div d)\<bar> \<le> 1 - 1 / 2 ^ 53"
proof -
  define q where "q = n div d"
  define r where "r = n mod d"
  have "n = q * d + r" "0 \<le> r" "r < d" using nd by (simp_all add: q_def r_def)
  then have "real_of_int n = real_of_int q * real_of_int d + real_of_int r" "0 \<le> real_of_int r" "real_of_int r + 1 \<le> real_of_int d"
    by (simp, simp, linarith)
  then have "x = real_of_int q + real_of_int r / real_of_int d" "0 \<le> real_of_int r / real_of_int d"
      "(real_of_int r + 1) / real_of_int d \<le> 1" using nd by (simp_all add: x field_simps)
  then have q: "real_of_int q \<le> x" "x \<le> real_of_int q + 1 - 1 / real_of_int d" by (simp_all add: add_divide_distrib)
  have q0: "0 \<le> real_of_int q" using nd by (simp add: q_def pos_imp_zdiv_nonneg_iff)
  have n: "real_of_int n \<le> 2 ^ 53 - 1"
  proof -
    have "n \<le> 2 ^ 53 - 1" using nd(2) by simp
    then have "real_of_int n \<le> real_of_int (2 ^ 53 - 1)" by (simp only: of_int_le_iff)
    then show ?thesis by simp
  qed
  have x_le: "x \<le> real_of_int n" using frac_le [of "real_of_int n" "real_of_int n" 1 "real_of_int d"] nd by (simp add: x)
  have e: "\<bar>y - x\<bar> \<le> x / 2 ^ 53" using y(2,4) by simp
  have "x / 2 ^ 53 \<le> (2 ^ 53 - 1) / 2 ^ 53" using x_le n by (intro divide_right_mono) simp_all
  also have "\<dots> = 1 - 1 / 2 ^ 53" by simp
  finally have "\<bar>y - x\<bar> \<le> 1 - 1 / 2 ^ 53" using e by (rule order_trans [rotated])
  then have "- (1 - 1 / 2 ^ 53) \<le> y - real_of_int q" using q(1) unfolding abs_le_iff by (simp only: minus_diff_eq) argo
  moreover have "y - real_of_int q \<le> 1 - 1 / 2 ^ 53"
  proof (cases "- 53 \<le> k")
    case True
    have "real_of_int n / 2 ^ 53 / real_of_int d < 1 / real_of_int d"
      using n nd by (intro divide_strict_right_mono) simp_all
    then have "x / 2 ^ 53 < 1 / real_of_int d" by (simp add: x)
    then have lt: "y < real_of_int q + 1" using e q(2) by linarith
    have "(2::real) powi (k + 53) = 2 ^ nat (k + 53)" using True by (simp add: power_int_def)
    then have scaled: "y * 2 ^ 53 = real_of_int (m * 2 ^ nat (k + 53))" by (simp add: y(1) power_int_add)
    then have "real_of_int (m * 2 ^ nat (k + 53)) < real_of_int ((q + 1) * 2 ^ 53)" using lt by simp
    then have "m * 2 ^ nat (k + 53) + 1 \<le> (q + 1) * 2 ^ 53" by linarith
    then have "real_of_int (m * 2 ^ nat (k + 53) + 1) \<le> real_of_int ((q + 1) * 2 ^ 53)" by (simp only: of_int_le_iff)
    then show ?thesis using scaled by simp
  next
    case False
    then have "(2::real) powi k \<le> 2 powi (- 54)" by (intro power_int_increasing) simp_all
    then have "x \<le> 1 / 2" using y(3) by (simp add: power_int_minus)
    moreover from this have "x / 2 ^ 53 \<le> 1 / 4" by simp
    ultimately have "\<bar>y - x\<bar> \<le> 1 / 4" "x \<le> 1 / 2" using e by linarith+
    then have "y - real_of_int q \<le> 3 / 4" using q0 by linarith
    then show ?thesis by (rule order_trans) simp
  qed
  ultimately show ?thesis unfolding q_def [symmetric] by (intro abs_leI) (simp_all only: minus_le_iff)
qed

lemma ratio_loss_small:
  assumes "0 \<le> n" "n < 2 ^ 53" "0 < d" "d < 2 ^ 53"
  shows "ratio_loss n d = 0"
proof (cases "n = 0")
  case False
  then have n: "0 < n" using assms by simp
  have q: "0 \<le> n div d" "n div d \<le> n" using zdiv_mono2 [of n 1 d] assms by (simp_all add: pos_imp_zdiv_nonneg_iff)
  obtain i j where ij: "f64_div (f64_of_int n) (f64_of_int d) = f64_frac i j" "0 < i" "0 < j"
      "real_of_int i / real_of_int j = real_of_int n / real_of_int d"
    using f64_quotient_val [OF f64_of_int_exact [OF assms(1,2)] f64_of_int_exact [of d] n assms(3)] assms(3,4) by auto
  obtain m k where mk: "f64_frac i j = F64 m k" "2 ^ 52 * 2 powi k \<le> real_of_int n / real_of_int d"
      "real_of_int n / real_of_int d < 2 ^ 53 * 2 powi k"
      "\<bar>real_of_int m * 2 powi k - real_of_int n / real_of_int d\<bar> \<le> 2 powi k / 2"
    using f64_frac_spec [OF ij(2,3)] unfolding ij(4) by metis
  have "\<bar>f64_val (F64 m k) - f64_val (f64_of_int (n div d))\<bar> \<le> 1 - 1 / 2 ^ 53"
    using quotient_gap [OF n assms(2,3) refl refl mk(2-4)] f64_of_int_exact [of "n div d"] q assms(2) by (simp add: f64_val_F64)
  then have "\<bar>f64_val (F64 m k) - f64_val (f64_of_int (n div d))\<bar> * (1 + 1 / 2 ^ 53) < 1" by (simp add: field_simps)
  then have "\<bar>f64_val (f64_sub (F64 m k) (f64_of_int (n div d)))\<bar> < 1" using f64_sub_abs order_le_less_trans by blast
  then show ?thesis using assms by (simp add: ratio_loss_def ij mk(1) tdiv_nonneg f64_to_i128_small)
next
  case True
  have "tdiv 0 d = 0" by (simp add: tdiv_def)
  then show ?thesis using True f64_to_i128_small [of "F64 0 0"] by (simp add: ratio_loss_def f64_zero f64_val_F64)
qed

text \<open>Zero basis points divide by zero, so the self-test of the module never returns.\<close>

lemma zero_bps_panics: "0 \<le> amount \<Longrightarrow> verify_bps_division_safety amount 0 s = (Trap, s)"
  using f64_to_i128_small [of "F64 0 0"]
  by (simp add: verify_bps_division_safety_def verify_division_properties_def f64_zero f64_val_F64 Let_def tdiv_def
    div_or_trap_def is_i128_def i128_min_def i128_max_def proc_run chk_w_run trap_def bind_def)

lemma self_test_panics: "fst (verify_all_division_safety s) = Trap"
  using zero_bps_panics [of 1 new_division]
  by (simp add: verify_all_division_safety_def ignoring_def attempt_def bind_def modify_def)

text \<open>The ratio routine below \<open>2 ^ 53\<close>: it divides exactly, and whatever the remainder the loss it books is zero.\<close>

definition counted :: "int \<Rightarrow> division_safety \<Rightarrow> division_safety" where
  "counted loss s = s\<lparr>ds_cumulative_truncation_loss := ds_cumulative_truncation_loss s + loss,
     ds_division_dust := ds_division_dust s + loss, ds_division_count := ds_division_count s + 1,
     ds_max_truncation_loss := max (ds_max_truncation_loss s) loss\<rparr>"

definition count_fits :: "int \<Rightarrow> division_safety \<Rightarrow> bool" where
  "count_fits loss s \<longleftrightarrow> is_i128 (ds_cumulative_truncation_loss s + loss) \<and> is_i128 (ds_division_dust s + loss)
     \<and> is_u64 (ds_division_count s + 1)"

lemma track_loss_Ok_iff [proc_ok]: "track_loss x s = (Ok u, s') \<longleftrightarrow> count_fits x s \<and> s' = counted x s"
  by (auto simp: track_loss_def count_fits_def counted_def proc_ok)

lemma ratio_counts_no_loss:
  assumes "n < 2 ^ 53" "d < 2 ^ 53"
  shows "verify_ratio_division_safety n d s = (Ok r, s') \<longleftrightarrow>
    0 \<le> n \<and> 0 < d \<and> r = n div d \<and> count_fits 0 s \<and> s' = counted 0 s"
proof (cases "0 \<le> n \<and> 0 < d")
  case True
  have q: "n div d * d \<le> n" "0 \<le> n div d" "0 \<le> n div d * d"
    using True div_mult_mod_eq [of n d] pos_mod_sign [of d n] by (linarith, simp_all add: pos_imp_zdiv_nonneg_iff)
  have "n < 9007199254740992" using assms(1) by simp
  then have "n div d * d \<le> i128_max" using q(1) by (simp add: i128_max_def)
  moreover have "i128_min \<le> n div d * d" using q(3) by (rule order_trans [rotated]) (simp add: i128_min_def)
  ultimately have "is_i128 (n div d * d)" by (simp add: is_i128_def)
  then show ?thesis using True q ratio_loss_small [of n d] assms
    by (auto simp: verify_ratio_division_safety_def verify_ratio_properties_def Let_def tdiv_nonneg proc_ok)
qed (auto simp: verify_ratio_division_safety_def proc_ok)

text \<open>Beyond it the measure is wrong: a third of \<open>2 ^ 54 + 2\<close> books a loss of minus one, which spoils the report.\<close>

lemma negative_loss: "ratio_loss 18014398509481986 3 = - 1"
proof -
  have bits: "bit_len 1 = 1" "bit_len 3 = 2" "bit_len 6004799503160662 = 53" "bit_len 6755399441055744 = 53"
      "bit_len 18014398509481986 = 55" "bit_len 40564819207303340847894502572032 = 106"
    by (rule bit_len_eqI; simp)+
  have "f64_frac 18014398509481986 1 = F64 4503599627370496 2" "f64_frac 3 1 = F64 6755399441055744 (- 51)"
      "f64_frac 40564819207303340847894502572032 6755399441055744 = F64 6004799503160661 0"
      "f64_frac 6004799503160662 1 = F64 6004799503160662 0" "f64_frac (- 1) 1 = F64 (- 4503599627370496) (- 52)"
    by (simp_all add: f64_frac_def bits half_even_def Let_def)
  then show ?thesis
    by (simp add: ratio_loss_def f64_of_int_def f64_div_def f64_sub_def tdiv_def f64_to_i128_def sat_i128_def clamp_def
      i128_min_def i128_max_def)
qed

lemma negative_loss_unverified:
  "\<exists>s. verify_ratio_division_safety 18014398509481986 3 new_division = (Ok 6004799503160662, s)
     \<and> \<not> dr_safety_verified (get_safety_report s)"
  by (auto simp: verify_ratio_division_safety_def verify_ratio_properties_def Let_def negative_loss tdiv_nonneg proc_ok
    count_fits_def counted_def new_division_def get_safety_report_def is_i128_def i128_min_def i128_max_def is_u64_def u64_max_def)

end
