(* ===== verification/Condition_Slashing.thy ===== *)
theory Condition_Slashing
  imports Soroban_Host
begin

text \<open>
  \<^verbatim>\<open>condition_based_slashing.rs\<close> and \<^verbatim>\<open>standardized_events.rs\<close> of the root directory, which no crate of the workspace
  includes: the slash of a deposit after a damage report, and the common shape of the events. A symbol is a string.
\<close>

section \<open>Slashing\<close>

datatype slashing_error = UnauthorizedOracle | DamageExceedsDeposit | AssessmentExpired | InvalidAssessmentState

record damage_assessment =
  dm_lease_id :: int
  dm_assessed_damage_amount :: int
  dm_oracle_address :: address
  dm_condition_report_hash :: bytes32
  dm_timestamp :: int

definition execute_conditional_slash ::
  "env \<Rightarrow> int \<Rightarrow> damage_assessment \<Rightarrow> int \<Rightarrow> ('s, slashing_error, int) proc" where
  "execute_conditional_slash env lease_id a available_deposit =
     bind (require_auth env (dm_oracle_address a)) (\<lambda>_.
     bind (chk_u64 (dm_timestamp a + 604800)) (\<lambda>expiry.
     bind (throw_if (ledger_timestamp env > expiry) AssessmentExpired) (\<lambda>_.
     return (if dm_assessed_damage_amount a > available_deposit then available_deposit
       else dm_assessed_damage_amount a))))"

section \<open>Events\<close>

definition ACTION_CREATED :: string where "ACTION_CREATED = ''CREATED''"
definition ACTION_RENT_PAID :: string where "ACTION_RENT_PAID = ''RENT_PAID''"
definition ACTION_SLASHED :: string where "ACTION_SLASHED = ''SLASHED''"
definition ACTION_EVICTED :: string where "ACTION_EVICTED = ''EVICTED''"
definition ACTION_TERMINATED :: string where "ACTION_TERMINATED = ''TERMINATED''"

record standard_event_payload =
  se_timestamp :: int
  se_data_hash :: bytes32
  se_amount :: int

type_synonym standard_event = "(string \<times> int \<times> int) \<times> standard_event_payload"

definition emit_standard_event ::
  "env \<Rightarrow> string \<Rightarrow> int \<Rightarrow> int \<Rightarrow> bytes32 \<Rightarrow> int \<Rightarrow> ((standard_event, 'x) host_scheme, 'e, unit) proc" where
  "emit_standard_event env action lease_id reason_code data_hash amount =
     publish ((action, lease_id, reason_code),
       \<lparr>se_timestamp = ledger_timestamp env, se_data_hash = data_hash, se_amount = amount\<rparr>)"

section \<open>What a slash computes\<close>

text \<open>The shares a caller pays out add up to the deposit, and the lessor never gets more than it; but the module
  checks neither the sign of the damage nor whose oracle signs nor the lease: a negative damage is returned as it is, and
  hands the lessee more than the deposit. An assessment dated in the future never expires, except that a date within a
  week of the end of time panics.\<close>
lemma conditional_slash_exact:
  "execute_conditional_slash env lid a d s = (Ok x, s') \<longleftrightarrow>
     dm_oracle_address a \<in> set (auths env) \<and> is_u64 (dm_timestamp a + 604800) \<and>
     ledger_timestamp env \<le> dm_timestamp a + 604800 \<and> x = min (dm_assessed_damage_amount a) d \<and> s' = s"
  by (auto simp: execute_conditional_slash_def proc_ok min_def not_less)

lemma conditional_slash_negative_damage:
  assumes "execute_conditional_slash env lid a d s = (Ok x, s')" "dm_assessed_damage_amount a < 0" "0 \<le> d"
  shows "x < 0" "d < d - x"
  using assms by (auto simp: conditional_slash_exact)

lemma standard_event_published:
  "emit_standard_event env action lid r h amount s = (Ok (), s') \<Longrightarrow>
     events s' = events s @ [((action, lid, r), \<lparr>se_timestamp = ledger_timestamp env, se_data_hash = h, se_amount = amount\<rparr>)]"
  by (auto simp: emit_standard_event_def proc_ok)

end
